(* ===== verification/Golos_Prelude.thy ===== *)
theory Golos_Prelude
  imports Main "HOL-Library.Word" "HOL-Library.List_Lexorder" "HOL-Library.Char_ord"
begin

text \<open>
  The shared ground of the development: the exceptions of the program as an error type,
  results as a sum type with sequencing, the parts of the \<^verbatim>\<open>fc\<close> library that the code calls as
  a record of functions (the library is a git submodule and is not part of the sources, so
  its functions are arguments of the model and what the code relies on is stated as named
  predicates), and the tables of keyed objects that stand for the indices of the chain state.
\<close>

section \<open>Errors and results\<close>

text \<open>
  The exception classes of \<^verbatim>\<open>golos/protocol/exceptions.hpp\<close> that the modelled code throws, and
  the assertion failures of \<^verbatim>\<open>FC_ASSERT\<close>. The message or the \<^verbatim>\<open>errid\<close> is kept as a string.
\<close>

datatype golos_error =
    Fc_assert string
  | Fc_exception string
  | Invalid_value string
  | Invalid_parameter string
  | Limit_too_large string
  | Logic_error string
  | Missing_object string
  | Object_already_exist string
  | Insufficient_funds string
  | Bandwidth_error string
  | Unsupported_operation string
  | Internal_error string
  | Database_corrupted string
  | Unlinkable_block
  | Tx_exception string
  | Tx_invalid_operation nat
  | Tx_duplicate_sig
  | Tx_missing_authority string "string list" "string list"
  | Tx_irrelevant_authority string "string list"

type_synonym 'a res = "golos_error + 'a"

definition bindR :: "'a res \<Rightarrow> ('a \<Rightarrow> 'b res) \<Rightarrow> 'b res" where
  "bindR m f = (case m of Inl e \<Rightarrow> Inl e | Inr x \<Rightarrow> f x)"

text \<open>An assertion, and a sequence of checks of which the first failure is reported.\<close>

definition ensure :: "bool \<Rightarrow> golos_error \<Rightarrow> unit res" where
  "ensure c e = (if c then Inr () else Inl e)"

fun seqR :: "unit res list \<Rightarrow> unit res" where
  "seqR [] = Inr ()"
| "seqR (m # ms) = bindR m (\<lambda>_. seqR ms)"

text \<open>
  \<^verbatim>\<open>GOLOS_CHECK_PARAM\<close>: an \<^verbatim>\<open>invalid_value\<close> (or its subclass \<^verbatim>\<open>limit_too_large\<close>) raised by the
  validator is turned into an \<^verbatim>\<open>invalid_parameter\<close> that names the parameter; every other exception
  passes through.
\<close>

definition check_param :: "string \<Rightarrow> 'a res \<Rightarrow> 'a res" where
  "check_param p m = (case m of
       Inl (Invalid_value _) \<Rightarrow> Inl (Invalid_parameter p)
     | Inl (Limit_too_large _) \<Rightarrow> Inl (Invalid_parameter p)
     | _ \<Rightarrow> m)"

fun foldR :: "('a \<Rightarrow> 's \<Rightarrow> 's res) \<Rightarrow> 'a list \<Rightarrow> 's \<Rightarrow> 's res" where
  "foldR f [] s = Inr s"
| "foldR f (x # xs) s = bindR (f x s) (foldR f xs)"

named_theorems res_simps \<open>inversion of results\<close>

lemma bindR_Inr [simp]: "bindR (Inr x) f = f x"
  by (simp add: bindR_def)

lemma bindR_Inl [simp]: "bindR (Inl e) f = Inl e"
  by (simp add: bindR_def)

lemma bindR_eq_Inr [simp, res_simps]:
  "bindR m f = Inr y \<longleftrightarrow> (\<exists>x. m = Inr x \<and> f x = Inr y)"
  by (cases m) auto

lemma bindR_eq_Inl [res_simps]:
  "bindR m f = Inl e \<longleftrightarrow> m = Inl e \<or> (\<exists>x. m = Inr x \<and> f x = Inl e)"
  by (cases m) auto

lemma bindR_assoc: "bindR (bindR m f) g = bindR m (\<lambda>x. bindR (f x) g)"
  by (cases m) auto

lemma bindR_cong [fundef_cong]:
  "m = m' \<Longrightarrow> (\<And>x. m' = Inr x \<Longrightarrow> f x = f' x) \<Longrightarrow> bindR m f = bindR m' f'"
  by (cases m') auto

lemma ensure_eq_Inr [simp, res_simps]: "ensure c e = Inr u \<longleftrightarrow> c"
  by (cases u) (simp add: ensure_def)

lemma ensure_eq_Inl [simp, res_simps]: "ensure c e = Inl e' \<longleftrightarrow> \<not> c \<and> e' = e"
  by (auto simp: ensure_def)

lemma if_Inl_eq_Inr [simp, res_simps]:
  "(if c then m else Inl e) = Inr y \<longleftrightarrow> c \<and> m = Inr y"
  "(if c then Inl e else m) = Inr y \<longleftrightarrow> \<not> c \<and> m = Inr y"
  by auto

lemma seqR_eq_Inr [simp, res_simps]: "seqR ms = Inr u \<longleftrightarrow> (\<forall>m \<in> set ms. m = Inr ())"
  by (induction ms) auto

lemma check_param_eq_Inr [simp, res_simps]: "check_param p m = Inr x \<longleftrightarrow> m = Inr x"
  by (auto simp: check_param_def split: sum.splits golos_error.splits)

lemma foldR_append: "foldR f (xs @ ys) s = bindR (foldR f xs s) (foldR f ys)"
  by (induction xs arbitrary: s) (auto simp: bindR_def split: sum.splits)

text \<open>A loop keeps whatever each of its steps keeps.\<close>

lemma foldR_invariant:
  assumes "foldR f xs s = Inr t" and "P s"
    and "\<And>x s s'. x \<in> set xs \<Longrightarrow> f x s = Inr s' \<Longrightarrow> P s \<Longrightarrow> P s'"
  shows "P t"
  using assms by (induction xs arbitrary: s) auto

section \<open>Machine integers\<close>

definition in_i64 :: "int \<Rightarrow> bool" where
  "in_i64 x \<longleftrightarrow> - (2 ^ 63) \<le> x \<and> x < 2 ^ 63"

lemma in_i64_nonneg: "0 \<le> x \<Longrightarrow> x < 2 ^ 63 \<Longrightarrow> in_i64 x"
  by (simp add: in_i64_def)

text \<open>Increment and decrement of counters of \<open>w\<close> bits.\<close>

definition inc_w :: "nat \<Rightarrow> nat \<Rightarrow> nat" where
  "inc_w w x = (x + 1) mod 2 ^ w"

definition dec_w :: "nat \<Rightarrow> nat \<Rightarrow> nat" where
  "dec_w w x = (x + 2 ^ w - 1) mod 2 ^ w"

text \<open>C++ integer division and remainder truncate towards zero.\<close>

definition cdiv :: "int \<Rightarrow> int \<Rightarrow> int" where
  "cdiv a b = sgn a * sgn b * (\<bar>a\<bar> div \<bar>b\<bar>)"

definition cmod :: "int \<Rightarrow> int \<Rightarrow> int" where
  "cmod a b = a - b * cdiv a b"

lemma cdiv_nonneg [simp]: "0 \<le> a \<Longrightarrow> 0 < b \<Longrightarrow> cdiv a b = a div b"
  by (cases "a = 0") (auto simp: cdiv_def)

lemma cmod_nonneg [simp]: "0 \<le> a \<Longrightarrow> 0 < b \<Longrightarrow> cmod a b = a mod b"
  by (simp add: cmod_def minus_mult_div_eq_mod)

section \<open>The fc library as the code calls it\<close>

text \<open>
  \<^verbatim>\<open>share_type\<close> is \<^verbatim>\<open>fc::safe<int64_t>\<close>; its values are integers here and its operators are
  fields of the record, as are those of \<^verbatim>\<open>fc::uint128_t\<close> (values between 0 and
  \<open>2 ^ 128 - 1\<close>) and the string functions. A conversion operator is the field named after it.
\<close>

record fc_lib =
  safe_add :: "int \<Rightarrow> int \<Rightarrow> int res"
  safe_sub :: "int \<Rightarrow> int \<Rightarrow> int res"
  safe_mul :: "int \<Rightarrow> int \<Rightarrow> int res"
  safe_div :: "int \<Rightarrow> int \<Rightarrow> int res"
  safe_mod :: "int \<Rightarrow> int \<Rightarrow> int res"
  safe_neg :: "int \<Rightarrow> int res"
  safe_of_u64 :: "int \<Rightarrow> int"
  u128_of :: "int \<Rightarrow> int"
  u128_add :: "int \<Rightarrow> int \<Rightarrow> int"
  u128_sub :: "int \<Rightarrow> int \<Rightarrow> int"
  u128_mul :: "int \<Rightarrow> int \<Rightarrow> int"
  u128_div :: "int \<Rightarrow> int \<Rightarrow> int res"
  u128_shl :: "int \<Rightarrow> nat \<Rightarrow> int"
  u128_shr :: "int \<Rightarrow> nat \<Rightarrow> int"
  u128_popcount :: "int \<Rightarrow> nat"
  u128_hi :: "int \<Rightarrow> int"
  u128_lo :: "int \<Rightarrow> int"
  u128_and :: "int \<Rightarrow> int \<Rightarrow> int"
  find_msb64 :: "int \<Rightarrow> nat"
  u128_to_uint64 :: "int \<Rightarrow> int res"
  fc_to_string :: "int \<Rightarrow> string"
  fc_to_int64 :: "string \<Rightarrow> int res"
  fc_trim :: "string \<Rightarrow> string"
  fc_is_utf8 :: "string \<Rightarrow> bool"
  fc_json_is_valid :: "string \<Rightarrow> bool"

definition is_err :: "'a res \<Rightarrow> bool" where
  "is_err m \<longleftrightarrow> (\<exists>e. m = Inl e)"

text \<open>\<open>m\<close> returns \<open>x\<close> when \<open>c\<close> holds and throws otherwise.\<close>

definition returns_when :: "'a res \<Rightarrow> bool \<Rightarrow> 'a \<Rightarrow> bool" where
  "returns_when m c x \<longleftrightarrow> (if c then m = Inr x else is_err m)"

text \<open>
  \<open>fc_safe\<close>: the operators of \<^verbatim>\<open>fc::safe<int64_t>\<close> are exact where the result is representable
  and throw otherwise; division is the truncating one, and it and the remainder throw for a zero
  divisor.
\<close>

definition fc_safe :: "fc_lib \<Rightarrow> bool" where
  "fc_safe fc \<longleftrightarrow>
     (\<forall>a b. returns_when (safe_add fc a b) (in_i64 (a + b)) (a + b)) \<and>
     (\<forall>a b. returns_when (safe_sub fc a b) (in_i64 (a - b)) (a - b)) \<and>
     (\<forall>a b. returns_when (safe_mul fc a b) (in_i64 (a * b)) (a * b)) \<and>
     (\<forall>a b. returns_when (safe_div fc a b) (b \<noteq> 0 \<and> in_i64 (cdiv a b)) (cdiv a b)) \<and>
     (\<forall>a b. returns_when (safe_mod fc a b) (b \<noteq> 0) (cmod a b)) \<and>
     (\<forall>a. returns_when (safe_neg fc a) (in_i64 (- a)) (- a)) \<and>
     (\<forall>a. 0 \<le> a \<and> a < 2 ^ 63 \<longrightarrow> safe_of_u64 fc a = a)"

definition bits_set :: "int \<Rightarrow> nat" where
  "bits_set a = length (filter (bit a) [0..<128])"

text \<open>
  \<open>fc_u128\<close>: \<^verbatim>\<open>fc::uint128_t\<close> is arithmetic modulo \<open>2 ^ 128\<close>, a signed operand is converted
  as in C++, \<^verbatim>\<open>hi\<close> is the upper half, \<^verbatim>\<open>popcount\<close> the number of bits that are set,
  and \<^verbatim>\<open>to_uint64\<close> returns a value that fits. The highest bit that is set comes from \<^verbatim>\<open>boost\<close>.
\<close>

definition fc_u128 :: "fc_lib \<Rightarrow> bool" where
  "fc_u128 fc \<longleftrightarrow>
     (\<forall>a. u128_of fc a = a mod 2 ^ 128) \<and>
     (\<forall>a b. u128_add fc a b = (a + b) mod 2 ^ 128) \<and>
     (\<forall>a b. u128_sub fc a b = (a - b) mod 2 ^ 128) \<and>
     (\<forall>a b. u128_mul fc a b = (a * b) mod 2 ^ 128) \<and>
     (\<forall>a b. returns_when (u128_div fc a b) (b \<noteq> 0) (a div b)) \<and>
     (\<forall>a n. u128_shl fc a n = (a * 2 ^ n) mod 2 ^ 128) \<and>
     (\<forall>a n. u128_shr fc a n = a div 2 ^ n) \<and>
     (\<forall>a. u128_popcount fc a = bits_set a) \<and>
     (\<forall>a. 0 \<le> a \<longrightarrow> u128_hi fc a = a div 2 ^ 64) \<and>
     (\<forall>a. u128_lo fc a = a mod 2 ^ 64) \<and>
     (\<forall>a b. u128_and fc a b = and a b) \<and>
     (\<forall>a. 0 < a \<and> a < 2 ^ 64 \<longrightarrow> 2 ^ find_msb64 fc a \<le> a \<and> a < 2 ^ Suc (find_msb64 fc a)) \<and>
     (\<forall>a. 0 \<le> a \<and> a < 2 ^ 64 \<longrightarrow> u128_to_uint64 fc a = Inr a)"

definition fc_num :: "fc_lib \<Rightarrow> bool" where
  "fc_num fc \<longleftrightarrow> fc_safe fc \<and> fc_u128 fc"

named_theorems fc_simps \<open>what the library functions return under their specification\<close>

lemma is_err_Inr [simp]: "is_err (Inr x) = False"
  by (simp add: is_err_def)

lemma returns_when_Inr: "returns_when m c x \<Longrightarrow> m = Inr y \<longleftrightarrow> c \<and> y = x"
  by (auto simp: returns_when_def is_err_def split: if_splits)

lemma safe_add_Inr [fc_simps]:
  "fc_safe fc \<Longrightarrow> safe_add fc a b = Inr c \<longleftrightarrow> in_i64 (a + b) \<and> c = a + b"
  by (rule returns_when_Inr) (simp add: fc_safe_def)

lemma safe_sub_Inr [fc_simps]:
  "fc_safe fc \<Longrightarrow> safe_sub fc a b = Inr c \<longleftrightarrow> in_i64 (a - b) \<and> c = a - b"
  by (rule returns_when_Inr) (simp add: fc_safe_def)

lemma safe_mul_Inr [fc_simps]:
  "fc_safe fc \<Longrightarrow> safe_mul fc a b = Inr c \<longleftrightarrow> in_i64 (a * b) \<and> c = a * b"
  by (rule returns_when_Inr) (simp add: fc_safe_def)

lemma safe_div_Inr [fc_simps]:
  "fc_safe fc \<Longrightarrow> safe_div fc a b = Inr c \<longleftrightarrow> (b \<noteq> 0 \<and> in_i64 (cdiv a b)) \<and> c = cdiv a b"
  by (rule returns_when_Inr) (simp add: fc_safe_def)

lemma safe_mod_Inr [fc_simps]:
  "fc_safe fc \<Longrightarrow> safe_mod fc a b = Inr c \<longleftrightarrow> b \<noteq> 0 \<and> c = cmod a b"
  by (rule returns_when_Inr) (simp add: fc_safe_def)

lemma safe_neg_Inr [fc_simps]:
  "fc_safe fc \<Longrightarrow> safe_neg fc a = Inr c \<longleftrightarrow> in_i64 (- a) \<and> c = - a"
  by (rule returns_when_Inr) (simp add: fc_safe_def)

lemma safe_of_u64_id [fc_simps]:
  "fc_safe fc \<Longrightarrow> 0 \<le> a \<Longrightarrow> a < 2 ^ 63 \<Longrightarrow> safe_of_u64 fc a = a"
  by (simp add: fc_safe_def)

lemma u128_div_Inr [fc_simps]:
  "fc_u128 fc \<Longrightarrow> u128_div fc a b = Inr c \<longleftrightarrow> b \<noteq> 0 \<and> c = a div b"
  by (rule returns_when_Inr) (simp add: fc_u128_def)

lemma u128_ops [fc_simps]:
  assumes "fc_u128 fc"
  shows "u128_of fc a = a mod 2 ^ 128"
    and "u128_add fc a b = (a + b) mod 2 ^ 128"
    and "u128_sub fc a b = (a - b) mod 2 ^ 128"
    and "u128_mul fc a b = (a * b) mod 2 ^ 128"
    and "u128_shl fc a n = (a * 2 ^ n) mod 2 ^ 128"
    and "u128_shr fc a n = a div 2 ^ n"
    and "u128_popcount fc a = bits_set a"
    and "0 \<le> a \<Longrightarrow> u128_hi fc a = a div 2 ^ 64"
    and "0 \<le> a \<Longrightarrow> a < 2 ^ 64 \<Longrightarrow> u128_to_uint64 fc a = Inr a"
  using assms by (simp_all add: fc_u128_def)

section \<open>Sorting by a strict weak order\<close>

text \<open>
  Ordered indices keep their elements sorted by a comparison \<open>lt\<close>; among elements that do not
  compare, the one inserted first stays first. \<open>dom\<close> are the keys the comparison is meant for.
\<close>

fun insert_by :: "('a \<Rightarrow> 'a \<Rightarrow> bool) \<Rightarrow> 'a \<Rightarrow> 'a list \<Rightarrow> 'a list" where
  "insert_by lt x [] = [x]"
| "insert_by lt x (y # ys) = (if lt y x then y # insert_by lt x ys else x # y # ys)"

fun sort_by :: "('a \<Rightarrow> 'a \<Rightarrow> bool) \<Rightarrow> 'a list \<Rightarrow> 'a list" where
  "sort_by lt [] = []"
| "sort_by lt (x # xs) = insert_by lt x (sort_by lt xs)"

lemma set_insert_by [simp]: "set (insert_by lt x ys) = insert x (set ys)"
  by (induction ys) auto

lemma set_sort_by [simp]: "set (sort_by lt xs) = set xs"
  by (induction xs) auto

lemma length_insert_by [simp]: "length (insert_by lt x ys) = Suc (length ys)"
  by (induction ys) auto

lemma length_sort_by [simp]: "length (sort_by lt xs) = length xs"
  by (induction xs) auto

lemma distinct_map_insert_by:
  "distinct (map key (insert_by lt x ys)) \<longleftrightarrow> key x \<notin> key ` set ys \<and> distinct (map key ys)"
  by (induction ys) auto

lemma distinct_map_sort_by [simp]: "distinct (map key (sort_by lt xs)) \<longleftrightarrow> distinct (map key xs)"
  by (induction xs) (auto simp: distinct_map_insert_by)

locale strict_weak_order =
  fixes lt :: "'a \<Rightarrow> 'a \<Rightarrow> bool" and dom :: "'a \<Rightarrow> bool"
  assumes lt_irrefl: "dom x \<Longrightarrow> \<not> lt x x"
    and lt_trans: "dom x \<Longrightarrow> dom y \<Longrightarrow> dom z \<Longrightarrow> lt x y \<Longrightarrow> lt y z \<Longrightarrow> lt x z"
    and lt_neg_trans: "dom x \<Longrightarrow> dom y \<Longrightarrow> dom z \<Longrightarrow> lt x z \<Longrightarrow> lt x y \<or> lt y z"
begin

lemma lt_asym: "dom x \<Longrightarrow> dom y \<Longrightarrow> lt x y \<Longrightarrow> \<not> lt y x"
  using lt_irrefl lt_trans by blast

lemma sorted_insert_by:
  "dom x \<Longrightarrow> list_all dom ys \<Longrightarrow> sorted_wrt (\<lambda>a b. \<not> lt b a) ys \<Longrightarrow>
   sorted_wrt (\<lambda>a b. \<not> lt b a) (insert_by lt x ys)"
proof (induction ys)
  case (Cons y ys)
  then have d: "dom y" "\<forall>z \<in> set ys. dom z" by (auto simp: list_all_iff)
  show ?case
  proof (cases "lt y x")
    case True
    then have "\<not> lt x y" using lt_asym Cons.prems(1) d by blast
    then show ?thesis using True Cons by simp
  next
    case False
    have "\<forall>z \<in> set ys. \<not> lt z x"
    proof
      fix z assume z: "z \<in> set ys"
      then have "\<not> lt z y" using Cons.prems(3) by simp
      then show "\<not> lt z x" using False lt_neg_trans [of z y x] d z Cons.prems(1) by blast
    qed
    then show ?thesis using False Cons.prems by simp
  qed
qed simp

lemma sorted_sort_by:
  "list_all dom xs \<Longrightarrow> sorted_wrt (\<lambda>a b. \<not> lt b a) (sort_by lt xs)"
  by (induction xs) (auto simp: list_all_iff intro!: sorted_insert_by)

end

section \<open>Tables of keyed objects\<close>

text \<open>
  An index of the chain state is the list of its objects. \<open>find_by\<close> looks an object up by a
  unique key, \<open>upd_by\<close> replaces the object with the same key, \<open>del_by\<close> removes one.
\<close>

definition find_by :: "('a \<Rightarrow> 'k) \<Rightarrow> 'k \<Rightarrow> 'a list \<Rightarrow> 'a option" where
  "find_by key k xs = find (\<lambda>x. key x = k) xs"

definition upd_by :: "('a \<Rightarrow> 'k) \<Rightarrow> 'a \<Rightarrow> 'a list \<Rightarrow> 'a list" where
  "upd_by key x xs = map (\<lambda>y. if key y = key x then x else y) xs"

definition del_by :: "('a \<Rightarrow> 'k) \<Rightarrow> 'k \<Rightarrow> 'a list \<Rightarrow> 'a list" where
  "del_by key k xs = filter (\<lambda>y. key y \<noteq> k) xs"

named_theorems table_simps \<open>lookup and sums over updated tables\<close>

lemma find_by_Nil [simp]: "find_by key k [] = None"
  by (simp add: find_by_def)

lemma find_by_Cons: "find_by key k (x # xs) = (if key x = k then Some x else find_by key k xs)"
  by (simp add: find_by_def)

lemma upd_by_simps [simp]:
  "upd_by key x [] = []"
  "upd_by key x (y # ys) = (if key y = key x then x else y) # upd_by key x ys"
  by (simp_all add: upd_by_def)

lemma del_by_simps [simp]:
  "del_by key k [] = []"
  "del_by key k (y # ys) = (if key y = k then del_by key k ys else y # del_by key k ys)"
  by (simp_all add: del_by_def)

lemma find_by_Some: "find_by key k xs = Some x \<Longrightarrow> x \<in> set xs \<and> key x = k"
  by (auto simp: find_by_def find_Some_iff)

lemma find_by_None: "find_by key k xs = None \<longleftrightarrow> k \<notin> key ` set xs"
  by (auto simp: find_by_def find_None_iff)

lemma find_by_unique: "distinct (map key xs) \<Longrightarrow> x \<in> set xs \<Longrightarrow> find_by key (key x) xs = Some x"
  by (induction xs) (auto simp: find_by_Cons)

lemma find_by_upd_by [table_simps]:
  "find_by key k (upd_by key x xs) =
    (if k = key x \<and> find_by key k xs \<noteq> None then Some x else find_by key k xs)"
  by (induction xs) (auto simp: upd_by_def find_by_Cons)

lemma find_by_del_by [table_simps]:
  "find_by key k (del_by key j xs) = (if k = j then None else find_by key k xs)"
  by (induction xs) (auto simp: del_by_def find_by_Cons)

lemma find_by_append [table_simps]:
  "find_by key k (xs @ ys) = (case find_by key k xs of None \<Rightarrow> find_by key k ys | Some x \<Rightarrow> Some x)"
  by (induction xs) (auto simp: find_by_Cons)

lemma map_key_upd_by [simp]: "map key (upd_by key x xs) = map key xs"
  by (induction xs) (auto simp: upd_by_def)

lemma set_upd_by: "y \<in> set (upd_by key x xs) \<Longrightarrow> y = x \<or> y \<in> set xs"
  by (auto simp: upd_by_def)

lemma set_del_by: "y \<in> set (del_by key k xs) \<Longrightarrow> y \<in> set xs \<and> key y \<noteq> k"
  by (auto simp: del_by_def)

lemma distinct_del_by [simp]: "distinct (map key xs) \<Longrightarrow> distinct (map key (del_by key k xs))"
  by (auto simp: del_by_def distinct_map_filter)

lemma upd_by_absent: "key x \<notin> key ` set xs \<Longrightarrow> upd_by key x xs = xs"
  by (induction xs) (auto simp: upd_by_def)

lemma del_by_absent: "k \<notin> key ` set xs \<Longrightarrow> del_by key k xs = xs"
  by (induction xs) (auto simp: del_by_def)

lemma sum_upd_by [table_simps]:
  fixes g :: "'a \<Rightarrow> int"
  assumes "distinct (map key xs)" "find_by key (key x) xs = Some y"
  shows "(\<Sum>z\<leftarrow>upd_by key x xs. g z) = (\<Sum>z\<leftarrow>xs. g z) - g y + g x"
  using assms
proof (induction xs)
  case (Cons z zs)
  then show ?case
    by (cases "key z = key x") (auto simp: upd_by_absent find_by_Cons)
qed simp

lemma sum_del_by [table_simps]:
  fixes g :: "'a \<Rightarrow> int"
  assumes "distinct (map key xs)" "find_by key k xs = Some y"
  shows "(\<Sum>z\<leftarrow>del_by key k xs. g z) = (\<Sum>z\<leftarrow>xs. g z) - g y"
  using assms
proof (induction xs)
  case (Cons z zs)
  then show ?case
    by (cases "key z = k") (auto simp: del_by_absent find_by_Cons)
qed simp

section \<open>Flat maps and flat sets\<close>

text \<open>
  \<^verbatim>\<open>fc::flat_map\<close> and \<^verbatim>\<open>fc::flat_set\<close> keep their elements in a vector ordered by key; iteration
  follows that order. \<open>flat_put\<close> is \<^verbatim>\<open>m[k] = v\<close>, \<open>flat_ins\<close> is \<^verbatim>\<open>insert\<close> (an element that is there
  already stays), lookup is \<open>map_of\<close>.
\<close>

fun flat_put :: "'k::linorder \<Rightarrow> 'v \<Rightarrow> ('k \<times> 'v) list \<Rightarrow> ('k \<times> 'v) list" where
  "flat_put k v [] = [(k, v)]"
| "flat_put k v ((k', v') # m) =
     (if k = k' then (k, v) # m
      else if k < k' then (k, v) # (k', v') # m
      else (k', v') # flat_put k v m)"

fun flat_ins :: "'k::linorder \<Rightarrow> 'k list \<Rightarrow> 'k list" where
  "flat_ins k [] = [k]"
| "flat_ins k (k' # s) =
     (if k = k' then k' # s else if k < k' then k # k' # s else k' # flat_ins k s)"

lemma keys_flat_put [simp]: "fst ` set (flat_put k v m) = insert k (fst ` set m)"
  by (induction k v m rule: flat_put.induct) (auto simp: insert_commute)

lemma keys_sorted_flat_put:
  "sorted_wrt (<) (map fst m) \<Longrightarrow> sorted_wrt (<) (map fst (flat_put k v m))"
proof (induction k v m rule: flat_put.induct)
  case (2 k v k' v' m)
  have "\<forall>x \<in> set (map fst (flat_put k v m)). x = k \<or> x \<in> fst ` set m"
    using keys_flat_put [of k v m] by auto
  with 2 show ?case by (auto simp: not_less)
qed simp

lemma map_of_flat_put [simp]:
  "sorted_wrt (<) (map fst m) \<Longrightarrow> map_of (flat_put k v m) = (map_of m)(k \<mapsto> v)"
  by (induction k v m rule: flat_put.induct) (auto simp: fun_upd_twist)

lemma dom_flat_put [simp]: "dom (map_of (flat_put k v m)) = insert k (dom (map_of m))"
  by (simp add: dom_map_of_conv_image_fst)

lemma set_flat_ins [simp]: "set (flat_ins k s) = insert k (set s)"
  by (induction s) auto

lemma length_flat_ins: "k \<notin> set s \<Longrightarrow> length (flat_ins k s) = Suc (length s)"
  by (induction s) auto

lemma sorted_flat_ins: "sorted_wrt (<) s \<Longrightarrow> sorted_wrt (<) (flat_ins k s)"
  by (induction s) auto

section \<open>Decimal notation\<close>

definition digit :: "nat \<Rightarrow> char" where
  "digit d = char_of (48 + d)"

fun dec_nat :: "nat \<Rightarrow> string" where
  "dec_nat n = (if n < 10 then [digit n] else dec_nat (n div 10) @ [digit (n mod 10)])"

declare dec_nat.simps [simp del]

fun undec :: "nat \<Rightarrow> string \<Rightarrow> nat" where
  "undec acc [] = acc"
| "undec acc (c # cs) = undec (10 * acc + (of_char c - 48)) cs"

lemma of_char_digit: "d < 10 \<Longrightarrow> of_char (digit d) = 48 + d"
  by (simp add: digit_def)

lemma digit_range: "d < 10 \<Longrightarrow> of_char (digit d) \<in> {48..57::nat}"
  by (simp add: of_char_digit)

lemma dec_nat_chars: "c \<in> set (dec_nat n) \<Longrightarrow> of_char c \<in> {48..57::nat}"
proof (induction n rule: dec_nat.induct)
  case (1 n)
  then show ?case
    by (cases "n < 10") (auto simp: dec_nat.simps [of n] of_char_digit split: if_splits)
qed

lemma dec_nat_nonempty [simp]: "dec_nat n \<noteq> []"
  by (simp add: dec_nat.simps [of n])

lemma undec_append: "undec acc (xs @ ys) = undec (undec acc xs) ys"
  by (induction xs arbitrary: acc) auto

lemma undec_dec_nat [simp]: "undec 0 (dec_nat n) = n"
proof (induction n rule: dec_nat.induct)
  case (1 n)
  then show ?case
    by (cases "n < 10") (simp_all add: dec_nat.simps [of n] undec_append of_char_digit)
qed

end
