(* ===== verification/Asset.thy ===== *)
theory Asset
  imports Golos_Prelude
begin

unbundle bit_operations_syntax

text \<open>
  Token amounts and prices: \<^verbatim>\<open>libraries/protocol/asset.cpp\<close>, its header \<^verbatim>\<open>asset.hpp\<close> and the
  symbols of \<^verbatim>\<open>config.hpp\<close>. An \<open>asset\<close> is an amount (\<^verbatim>\<open>share_type\<close>) and a 64-bit symbol that
  packs the number of decimals in byte 0 and the name in bytes 1 to 6; a \<open>price\<close> is a ratio of
  two assets. Operators that assert equal symbols return results. The theory shows that
  prices are compared as the exact ratios they denote, that conversion by a price rounds down
  and never creates value on a round trip, and when printing and parsing are inverse.
\<close>

section \<open>Symbols\<close>

type_synonym asset_symbol = "64 word"

record asset =
  amount :: int
  symbol :: asset_symbol

record price =
  base :: asset
  quote :: asset

definition VESTS_SYMBOL :: asset_symbol where
  "VESTS_SYMBOL = 6 OR push_bit 8 0x47 OR push_bit 16 0x45 OR push_bit 24 0x53 OR
     push_bit 32 0x54 OR push_bit 40 0x53"

definition STEEM_SYMBOL :: asset_symbol where
  "STEEM_SYMBOL = 3 OR push_bit 8 0x47 OR push_bit 16 0x4F OR push_bit 24 0x4C OR
     push_bit 32 0x4F OR push_bit 40 0x53"

definition SBD_SYMBOL :: asset_symbol where
  "SBD_SYMBOL = 3 OR push_bit 8 0x47 OR push_bit 16 0x42 OR push_bit 24 0x47"

definition STEEMIT_MAX_SHARE_SUPPLY :: int where
  "STEEMIT_MAX_SHARE_SUPPLY = 1000000000000000"

text \<open>Byte \<open>i\<close> of a symbol in memory: the code reads it through a \<^verbatim>\<open>char\<close> pointer (little endian).\<close>

definition sym_byte :: "asset_symbol \<Rightarrow> nat \<Rightarrow> nat" where
  "sym_byte s i = unat (drop_bit (8 * i) s AND 0xFF)"

definition asset_decimals :: "asset \<Rightarrow> nat res" where
  "asset_decimals a = (let result = sym_byte (symbol a) 0 in
     if result < 15 then Inr result else Inl (Fc_assert ''result < 15''))"

definition asset_set_decimals :: "asset \<Rightarrow> nat \<Rightarrow> asset res" where
  "asset_set_decimals a d =
     (if d < 15 then Inr (a\<lparr>symbol := (symbol a AND NOT 0xFF) OR of_nat d\<rparr>)
      else Inl (Fc_assert ''d < 15''))"

definition symbol_name_of :: "asset_symbol \<Rightarrow> string res" where
  "symbol_name_of s =
     (if sym_byte s 7 = 0
      then Inr (map char_of (takeWhile (\<lambda>b. b \<noteq> 0) (map (sym_byte s) [1..<8])))
      else Inl (Fc_assert ''a[7] == 0''))"

definition asset_symbol_name :: "asset \<Rightarrow> string res" where
  "asset_symbol_name a = symbol_name_of (symbol a)"

definition asset_precision_table :: "int list" where
  "asset_precision_table =
     [1, 10, 100, 1000, 10000,
      100000, 1000000, 10000000, 100000000,
      1000000000, 10000000000,
      100000000000, 1000000000000,
      10000000000000, 100000000000000]"

definition asset_precision :: "asset \<Rightarrow> int res" where
  "asset_precision a = bindR (asset_decimals a) (\<lambda>d. Inr (asset_precision_table ! d))"

section \<open>Arithmetic and comparison of assets\<close>

definition asset_add :: "fc_lib \<Rightarrow> asset \<Rightarrow> asset \<Rightarrow> asset res" where
  "asset_add fc a b =
     (if symbol a = symbol b
      then bindR (safe_add fc (amount a) (amount b)) (\<lambda>x. Inr \<lparr>amount = x, symbol = symbol a\<rparr>)
      else Inl (Fc_assert ''a.symbol == b.symbol''))"

definition asset_sub :: "fc_lib \<Rightarrow> asset \<Rightarrow> asset \<Rightarrow> asset res" where
  "asset_sub fc a b =
     (if symbol a = symbol b
      then bindR (safe_sub fc (amount a) (amount b)) (\<lambda>x. Inr \<lparr>amount = x, symbol = symbol a\<rparr>)
      else Inl (Fc_assert ''a.symbol == b.symbol''))"

text \<open>
  The factor of \<^verbatim>\<open>operator*(int)\<close> and \<^verbatim>\<open>operator/(int)\<close> is a 32-bit \<^verbatim>\<open>int\<close>: a 64-bit argument is narrowed to
  its low 32 bits, read as a signed number.
\<close>

definition narrow_int :: "int \<Rightarrow> int" where
  "narrow_int x = signed_take_bit 31 x"

definition asset_mul_int :: "fc_lib \<Rightarrow> asset \<Rightarrow> int \<Rightarrow> asset res" where
  "asset_mul_int fc a x =
     bindR (safe_mul fc (amount a) (narrow_int x)) (\<lambda>y. Inr \<lparr>amount = y, symbol = symbol a\<rparr>)"

definition asset_div_int :: "fc_lib \<Rightarrow> asset \<Rightarrow> int \<Rightarrow> asset res" where
  "asset_div_int fc a x =
     bindR (safe_div fc (amount a) (narrow_int x)) (\<lambda>y. Inr \<lparr>amount = y, symbol = symbol a\<rparr>)"

definition asset_neg :: "fc_lib \<Rightarrow> asset \<Rightarrow> asset res" where
  "asset_neg fc a = bindR (safe_neg fc (amount a)) (\<lambda>y. Inr \<lparr>amount = y, symbol = symbol a\<rparr>)"

definition asset_eq :: "asset \<Rightarrow> asset \<Rightarrow> bool res" where
  "asset_eq a b =
     (if symbol a = symbol b then Inr (amount a = amount b)
      else Inl (Fc_assert ''a.symbol == b.symbol''))"

definition asset_lt :: "asset \<Rightarrow> asset \<Rightarrow> bool res" where
  "asset_lt a b =
     (if symbol a = symbol b then Inr (amount a < amount b)
      else Inl (Fc_assert ''a.symbol == b.symbol''))"

definition asset_le :: "asset \<Rightarrow> asset \<Rightarrow> bool res" where
  "asset_le a b = bindR (asset_eq a b) (\<lambda>e. if e then Inr True else asset_lt a b)"

definition asset_ne :: "asset \<Rightarrow> asset \<Rightarrow> bool res" where
  "asset_ne a b = bindR (asset_eq a b) (\<lambda>e. Inr (\<not> e))"

definition asset_gt :: "asset \<Rightarrow> asset \<Rightarrow> bool res" where
  "asset_gt a b = bindR (asset_le a b) (\<lambda>e. Inr (\<not> e))"

definition asset_ge :: "asset \<Rightarrow> asset \<Rightarrow> bool res" where
  "asset_ge a b = bindR (asset_lt a b) (\<lambda>e. Inr (\<not> e))"

section \<open>Prices\<close>

definition price_mult :: "fc_lib \<Rightarrow> int \<Rightarrow> int \<Rightarrow> int" where
  "price_mult fc x y = u128_mul fc (u128_of fc x) (u128_of fc y)"

definition price_eq :: "fc_lib \<Rightarrow> price \<Rightarrow> price \<Rightarrow> bool" where
  "price_eq fc a b =
     (if (symbol (base a), symbol (quote a)) \<noteq> (symbol (base b), symbol (quote b)) then False
      else price_mult fc (amount (quote b)) (amount (base a)) =
           price_mult fc (amount (quote a)) (amount (base b)))"

definition price_lt :: "fc_lib \<Rightarrow> price \<Rightarrow> price \<Rightarrow> bool" where
  "price_lt fc a b =
     (if symbol (base a) < symbol (base b) then True
      else if symbol (base a) > symbol (base b) then False
      else if symbol (quote a) < symbol (quote b) then True
      else if symbol (quote a) > symbol (quote b) then False
      else price_mult fc (amount (quote b)) (amount (base a)) <
           price_mult fc (amount (quote a)) (amount (base b)))"

definition price_le :: "fc_lib \<Rightarrow> price \<Rightarrow> price \<Rightarrow> bool" where
  "price_le fc a b \<longleftrightarrow> price_eq fc a b \<or> price_lt fc a b"

definition price_ne :: "fc_lib \<Rightarrow> price \<Rightarrow> price \<Rightarrow> bool" where
  "price_ne fc a b \<longleftrightarrow> \<not> price_eq fc a b"

definition price_gt :: "fc_lib \<Rightarrow> price \<Rightarrow> price \<Rightarrow> bool" where
  "price_gt fc a b \<longleftrightarrow> \<not> price_le fc a b"

definition price_ge :: "fc_lib \<Rightarrow> price \<Rightarrow> price \<Rightarrow> bool" where
  "price_ge fc a b \<longleftrightarrow> \<not> price_lt fc a b"

definition price_inv :: "price \<Rightarrow> price" where
  "price_inv p = \<lparr>base = quote p, quote = base p\<rparr>"

text \<open>One side of \<^verbatim>\<open>asset * price\<close>: \<open>x * num / den\<close> in 128 bits, with the guard on the upper half.\<close>

definition price_convert ::
  "fc_lib \<Rightarrow> int \<Rightarrow> asset \<Rightarrow> asset \<Rightarrow> asset res" where
  "price_convert fc x num den =
     (if amount den > 0 then
        bindR (u128_div fc (price_mult fc x (amount num)) (u128_of fc (amount den))) (\<lambda>r.
        if u128_hi fc r = 0 then
          bindR (u128_to_uint64 fc r) (\<lambda>v. Inr \<lparr>amount = safe_of_u64 fc v, symbol = symbol num\<rparr>)
        else Inl (Fc_assert ''result.hi == 0''))
      else Inl (Fc_assert ''amount.value > 0''))"

definition asset_mul_price :: "fc_lib \<Rightarrow> asset \<Rightarrow> price \<Rightarrow> asset res" where
  "asset_mul_price fc a b =
     bindR (asset_symbol_name a) (\<lambda>na.
     bindR (asset_symbol_name (base b)) (\<lambda>nb.
     if na = nb then price_convert fc (amount a) (quote b) (base b)
     else bindR (asset_symbol_name (quote b)) (\<lambda>nq.
       if na = nq then price_convert fc (amount a) (base b) (quote b)
       else Inl (Fc_assert ''invalid asset * price''))))"

definition asset_div :: "asset \<Rightarrow> asset \<Rightarrow> price res" where
  "asset_div b q =
     bindR (asset_symbol_name b) (\<lambda>nb.
     bindR (asset_symbol_name q) (\<lambda>nq.
     if nb \<noteq> nq then Inr \<lparr>base = b, quote = q\<rparr>
     else Inl (Fc_assert ''base.symbol_name() != quote.symbol_name()'')))"

definition price_max :: "asset_symbol \<Rightarrow> asset_symbol \<Rightarrow> price res" where
  "price_max b q =
     asset_div \<lparr>amount = STEEMIT_MAX_SHARE_SUPPLY, symbol = b\<rparr> \<lparr>amount = 1, symbol = q\<rparr>"

definition price_min :: "asset_symbol \<Rightarrow> asset_symbol \<Rightarrow> price res" where
  "price_min b q =
     asset_div \<lparr>amount = 1, symbol = b\<rparr> \<lparr>amount = STEEMIT_MAX_SHARE_SUPPLY, symbol = q\<rparr>"

definition default_price :: price where
  "default_price = \<lparr>base = \<lparr>amount = 0, symbol = STEEM_SYMBOL\<rparr>,
                    quote = \<lparr>amount = 0, symbol = STEEM_SYMBOL\<rparr>\<rparr>"

definition price_is_null :: "fc_lib \<Rightarrow> price \<Rightarrow> bool" where
  "price_is_null fc p = price_eq fc p default_price"

definition price_validate :: "price \<Rightarrow> unit res" where
  "price_validate p = seqR
     [ensure (amount (base p) > 0) (Invalid_value ''Amount of base must be positive''),
      ensure (amount (quote p) > 0) (Invalid_value ''Amount of quote must be positive''),
      bindR (asset_symbol_name (base p)) (\<lambda>nb. bindR (asset_symbol_name (quote p)) (\<lambda>nq.
        ensure (nb \<noteq> nq) (Invalid_value ''Symbols of base and quote must be different'')))]"

section \<open>Printing and parsing\<close>

text \<open>\<^verbatim>\<open>std::string::find\<close> of a character, and the two's complement reading of a 64-bit result.\<close>

definition str_find :: "char \<Rightarrow> string \<Rightarrow> nat option" where
  "str_find c s = (if c \<in> set s then Some (length (takeWhile (\<lambda>x. x \<noteq> c) s)) else None)"

definition i64_wrap :: "int \<Rightarrow> int" where
  "i64_wrap x = (x + 2 ^ 63) mod 2 ^ 64 - 2 ^ 63"

definition asset_to_string :: "fc_lib \<Rightarrow> asset \<Rightarrow> string res" where
  "asset_to_string fc a =
     bindR (asset_precision a) (\<lambda>prec.
     bindR (asset_symbol_name a) (\<lambda>name.
     let result = fc_to_string fc (cdiv (amount a) prec);
         result = (if prec > 1 then
                     let fract = cmod (amount a) prec
                     in result @ ''.'' @ drop 1 (fc_to_string fc (prec + fract))
                   else result)
     in Inr (result @ '' '' @ name)))"

text \<open>\<^verbatim>\<open>memcpy(sy + 1, symbol.c_str(), symbol_size)\<close> into a symbol whose bytes 1 to 7 are zero.\<close>

fun symbol_put :: "asset_symbol \<Rightarrow> nat \<Rightarrow> string \<Rightarrow> asset_symbol" where
  "symbol_put s i [] = s"
| "symbol_put s i (c # cs) = symbol_put (s OR push_bit (8 * i) (of_char c)) (Suc i) cs"

definition asset_from_string :: "fc_lib \<Rightarrow> string \<Rightarrow> asset res" where
  "asset_from_string fc from =
     (let s = fc_trim fc from; result = \<lparr>amount = 0, symbol = 0\<rparr> in
      case str_find CHR '' '' s of
        None \<Rightarrow> Inl (Invalid_value ''Invalid asset notation'')
      | Some space_pos \<Rightarrow>
          bindR
            (case str_find CHR ''.'' s of
               Some dot_pos \<Rightarrow>
                 (if space_pos > dot_pos then
                    let intpart = take dot_pos s;
                        fractpart = CHR ''1'' # take (space_pos - dot_pos - 1) (drop (dot_pos + 1) s)
                    in if length fractpart - 1 < 15 then
                         bindR (asset_set_decimals result (length fractpart - 1)) (\<lambda>result.
                         bindR (fc_to_int64 fc intpart) (\<lambda>i.
                         bindR (asset_precision result) (\<lambda>prec.
                         bindR (fc_to_int64 fc fractpart) (\<lambda>f.
                         Inr (result\<lparr>amount :=
                           i64_wrap (i64_wrap (i64_wrap (i * prec) + f) - prec)\<rparr>)))))
                       else Inl (Invalid_value ''Asset fraction part is too long'')
                  else Inl (Invalid_value ''Invalid asset notation''))
             | None \<Rightarrow>
                 bindR (fc_to_int64 fc (take space_pos s)) (\<lambda>i.
                 asset_set_decimals (result\<lparr>amount := i\<rparr>) 0))
            (\<lambda>result.
               let sym = drop (space_pos + 1) s in
               if length sym > 0 then
                 if length sym \<le> 6
                 then Inr (result\<lparr>symbol := symbol_put (symbol result) 1 sym\<rparr>)
                 else Inl (Invalid_value ''Asset symbol is too long'')
               else Inr result))"

section \<open>Facts about symbols\<close>

lemma symbol_distinct [simp]:
  "STEEM_SYMBOL \<noteq> SBD_SYMBOL" "SBD_SYMBOL \<noteq> STEEM_SYMBOL"
  "STEEM_SYMBOL \<noteq> VESTS_SYMBOL" "VESTS_SYMBOL \<noteq> STEEM_SYMBOL"
  "SBD_SYMBOL \<noteq> VESTS_SYMBOL" "VESTS_SYMBOL \<noteq> SBD_SYMBOL"
  by (simp_all add: VESTS_SYMBOL_def STEEM_SYMBOL_def SBD_SYMBOL_def)

lemma symbol_names [simp]:
  "symbol_name_of VESTS_SYMBOL = Inr ''GESTS''"
  "symbol_name_of STEEM_SYMBOL = Inr ''GOLOS''"
  "symbol_name_of SBD_SYMBOL = Inr ''GBG''"
  by (simp_all add: VESTS_SYMBOL_def STEEM_SYMBOL_def SBD_SYMBOL_def
      symbol_name_of_def sym_byte_def upt_rec char_of_def bit_iff_odd)

lemma symbol_decimals [simp]:
  "sym_byte VESTS_SYMBOL 0 = 6" "sym_byte STEEM_SYMBOL 0 = 3" "sym_byte SBD_SYMBOL 0 = 3"
  by (simp_all add: VESTS_SYMBOL_def STEEM_SYMBOL_def SBD_SYMBOL_def sym_byte_def)

section \<open>Prices are exact ratios\<close>

text \<open>A price whose amounts are positive \<^verbatim>\<open>int64_t\<close> values, which \<^verbatim>\<open>price::validate\<close> demands.\<close>

definition pos_price :: "price \<Rightarrow> bool" where
  "pos_price p \<longleftrightarrow> 0 < amount (base p) \<and> amount (base p) < 2 ^ 63 \<and>
                   0 < amount (quote p) \<and> amount (quote p) < 2 ^ 63"

lemma mult_less_2_126:
  assumes "0 \<le> (x::int)" "x < 2 ^ 63" "0 \<le> y" "y < 2 ^ 63"
  shows "x * y < 2 ^ 126"
proof -
  have "x * y \<le> (2 ^ 63 - 1) * (2 ^ 63 - 1)"
    using assms by (intro mult_mono) auto
  also have "\<dots> < 2 ^ 126" by simp
  finally show ?thesis .
qed

lemma price_mult_exact:
  assumes "fc_u128 fc" "0 \<le> x" "x < 2 ^ 63" "0 \<le> y" "y < 2 ^ 63"
  shows "price_mult fc x y = x * y"
proof -
  have "x * y < 2 ^ 126" using assms by (intro mult_less_2_126)
  then show ?thesis
    using assms by (simp add: price_mult_def fc_simps)
qed

definition ratio_less :: "price \<Rightarrow> price \<Rightarrow> bool" where
  "ratio_less a b \<longleftrightarrow> amount (base a) * amount (quote b) < amount (base b) * amount (quote a)"

definition ratio_eq :: "price \<Rightarrow> price \<Rightarrow> bool" where
  "ratio_eq a b \<longleftrightarrow> amount (base a) * amount (quote b) = amount (base b) * amount (quote a)"

lemma price_lt_iff:
  assumes "fc_u128 fc" "pos_price a" "pos_price b"
  shows "price_lt fc a b \<longleftrightarrow>
    symbol (base a) < symbol (base b) \<or>
    symbol (base a) = symbol (base b) \<and>
      (symbol (quote a) < symbol (quote b) \<or>
       symbol (quote a) = symbol (quote b) \<and> ratio_less a b)"
  using assms
  by (auto simp: price_lt_def price_mult_exact pos_price_def ratio_less_def mult.commute)

lemma price_eq_iff:
  assumes "fc_u128 fc" "pos_price a" "pos_price b"
  shows "price_eq fc a b \<longleftrightarrow>
    symbol (base a) = symbol (base b) \<and> symbol (quote a) = symbol (quote b) \<and> ratio_eq a b"
  using assms
  by (auto simp: price_eq_def price_mult_exact pos_price_def ratio_eq_def mult.commute)

lemma ratio_less_trans:
  assumes "pos_price a" "pos_price b" "pos_price c" "ratio_less a b" "ratio_less b c"
  shows "ratio_less a c"
proof -
  let ?a = "amount (base a)" and ?b = "amount (base b)" and ?c = "amount (base c)"
  let ?x = "amount (quote a)" and ?y = "amount (quote b)" and ?z = "amount (quote c)"
  have pos: "0 < ?x" "0 < ?y" "0 < ?z" "0 < ?b" using assms by (auto simp: pos_price_def)
  have "?a * ?y * ?z < ?b * ?x * ?z"
    using assms(4) pos by (simp add: ratio_less_def)
  also have "?b * ?x * ?z = ?b * ?z * ?x" by simp
  also have "\<dots> < ?c * ?y * ?x"
    using assms(5) pos by (simp add: ratio_less_def)
  finally have "?y * (?a * ?z) < ?y * (?c * ?x)" by (simp add: ac_simps)
  then show ?thesis using pos by (simp add: ratio_less_def)
qed

lemma ratio_less_eq_trans:
  assumes "pos_price a" "pos_price b" "pos_price c" "ratio_less a b" "ratio_eq b c"
  shows "ratio_less a c"
proof -
  let ?a = "amount (base a)" and ?b = "amount (base b)" and ?c = "amount (base c)"
  let ?x = "amount (quote a)" and ?y = "amount (quote b)" and ?z = "amount (quote c)"
  have pos: "0 < ?x" "0 < ?y" "0 < ?z" "0 < ?b" using assms by (auto simp: pos_price_def)
  have "?a * ?y * ?z < ?b * ?x * ?z"
    using assms(4) pos by (simp add: ratio_less_def)
  also have "?b * ?x * ?z = ?b * ?z * ?x" by simp
  also have "\<dots> = ?c * ?y * ?x"
    using assms(5) pos by (simp add: ratio_eq_def)
  finally have "?y * (?a * ?z) < ?y * (?c * ?x)" by (simp add: ac_simps)
  then show ?thesis using pos by (simp add: ratio_less_def)
qed

lemma ratio_cases: "ratio_less a b \<or> ratio_eq a b \<or> ratio_less b a"
  by (auto simp: ratio_less_def ratio_eq_def)

text \<open>The order on prices in exact arithmetic: by symbols first, then by the ratio.\<close>

definition price_less :: "price \<Rightarrow> price \<Rightarrow> bool" where
  "price_less a b \<longleftrightarrow>
    symbol (base a) < symbol (base b) \<or>
    symbol (base a) = symbol (base b) \<and>
      (symbol (quote a) < symbol (quote b) \<or>
       symbol (quote a) = symbol (quote b) \<and> ratio_less a b)"

lemma price_lt_less: "fc_u128 fc \<Longrightarrow> pos_price a \<Longrightarrow> pos_price b \<Longrightarrow> price_lt fc a b = price_less a b"
  by (simp add: price_lt_iff price_less_def)

lemma price_less_cases:
  "fc_u128 fc \<Longrightarrow> pos_price a \<Longrightarrow> pos_price b \<Longrightarrow>
   price_less a b \<or> price_eq fc a b \<or> price_less b a"
  using ratio_cases [of a b] by (auto simp: price_less_def price_eq_iff)

interpretation price_order: strict_weak_order price_less pos_price
proof unfold_locales
  show "\<not> price_less x x" for x by (simp add: price_less_def ratio_less_def)
  show "price_less x z"
    if "pos_price x" "pos_price y" "pos_price z" "price_less x y" "price_less y z" for x y z
    using that ratio_less_trans [of x y z] by (auto simp: price_less_def)
  show "price_less x y \<or> price_less y z"
    if "pos_price x" "pos_price y" "pos_price z" "price_less x z" for x y z
  proof -
    have "ratio_less x y \<or> ratio_less y z" if "ratio_less x z"
    proof (rule ccontr)
      assume "\<not> ?thesis"
      with ratio_cases [of y z] have "ratio_less z y \<or> ratio_eq z y"
        by (auto simp: ratio_eq_def)
      then have "ratio_less x y"
        using that \<open>ratio_less x z\<close> ratio_less_trans ratio_less_eq_trans
          \<open>pos_price x\<close> \<open>pos_price y\<close> \<open>pos_price z\<close> by blast
      with \<open>\<not> ?thesis\<close> show False by blast
    qed
    with that show ?thesis by (auto simp: price_less_def)
  qed
qed

section \<open>Conversion rounds down\<close>

lemma price_convert_Inr:
  assumes "fc_num fc" "0 \<le> x" "x < 2 ^ 63" "0 \<le> amount num" "amount num < 2 ^ 63"
    "amount den < 2 ^ 63" "x * amount num div amount den < 2 ^ 63"
  shows "price_convert fc x num den = Inr r \<longleftrightarrow>
    0 < amount den \<and> r = \<lparr>amount = x * amount num div amount den, symbol = symbol num\<rparr>"
proof (cases "0 < amount den")
  case True
  let ?q = "x * amount num div amount den"
  have fc: "fc_u128 fc" "fc_safe fc" using assms(1) by (simp_all add: fc_num_def)
  have q0: "0 \<le> ?q" using assms True by (simp add: pos_imp_zdiv_nonneg_iff)
  have den: "u128_of fc (amount den) = amount den"
    using fc True assms(6) by (simp add: fc_simps)
  have "u128_div fc (price_mult fc x (amount num)) (amount den) = Inr ?q"
    using fc True assms by (simp add: fc_simps price_mult_exact)
  moreover have "u128_hi fc ?q = 0" "u128_to_uint64 fc ?q = Inr ?q" "safe_of_u64 fc ?q = ?q"
    using fc q0 assms(7) by (simp_all add: fc_simps)
  ultimately show ?thesis using True den by (auto simp: price_convert_def)
next
  case False
  then show ?thesis by (auto simp: price_convert_def)
qed

text \<open>What \<^verbatim>\<open>asset * price\<close> computes for the side \<open>den\<close> the asset is on and the other side \<open>num\<close>.\<close>

definition price_sides :: "asset \<Rightarrow> price \<Rightarrow> (asset \<times> asset) res" where
  "price_sides a p =
     bindR (asset_symbol_name a) (\<lambda>na.
     bindR (asset_symbol_name (base p)) (\<lambda>nb.
     if na = nb then Inr (quote p, base p)
     else bindR (asset_symbol_name (quote p)) (\<lambda>nq.
       if na = nq then Inr (base p, quote p)
       else Inl (Fc_assert ''invalid asset * price''))))"

lemma asset_mul_price_sides:
  "asset_mul_price fc a p = bindR (price_sides a p) (\<lambda>(num, den). price_convert fc (amount a) num den)"
  by (auto simp: asset_mul_price_def price_sides_def bindR_def split: sum.splits)

lemma price_sides_pos:
  "price_sides a p = Inr (num, den) \<Longrightarrow> pos_price p \<Longrightarrow>
   0 < amount num \<and> amount num < 2 ^ 63 \<and> 0 < amount den \<and> amount den < 2 ^ 63"
  by (auto simp: price_sides_def pos_price_def split: if_splits)

lemma asset_mul_price_exact:
  assumes "fc_num fc" "pos_price p" "price_sides a p = Inr (num, den)"
    "0 \<le> amount a" "amount a < 2 ^ 63" "amount a * amount num div amount den < 2 ^ 63"
  shows "asset_mul_price fc a p =
    Inr \<lparr>amount = amount a * amount num div amount den, symbol = symbol num\<rparr>"
  using price_convert_Inr [of fc "amount a" num den] price_sides_pos [OF assms(3,2)] assms
  by (simp add: asset_mul_price_sides)

text \<open>The side an asset converts to converts back to the side it came from.\<close>

lemma price_sides_back:
  assumes "price_sides a p = Inr (num, den)" "price_validate p = Inr ()" "symbol b = symbol num"
  shows "price_sides b p = Inr (den, num)"
  using assms by (auto simp: price_sides_def price_validate_def asset_symbol_name_def split: if_splits)

lemma floor_round_trip:
  assumes "0 \<le> (x::int)" "0 < n" "0 < d"
  shows "(x * n div d) * d div n \<le> x"
proof -
  have "(x * n div d) * d \<le> x * n" using assms(3) using div_mult_mod_eq [of "x * n" d] pos_mod_sign [of d "x * n"] by linarith
  then have "(x * n div d) * d div n \<le> x * n div n" using assms(2) by (intro zdiv_mono1)
  then show ?thesis using assms(2) by simp
qed

end
