(* ===== verification/Asset_Properties.thy ===== *)
theory Asset_Properties
  imports Asset
begin

text \<open>
  The properties of assets and prices: a reference instance of the \<^verbatim>\<open>fc\<close> arithmetic that shows
  the assumptions on it can hold, and the theorems on the order of prices and on conversion.
\<close>

section \<open>A reference instance of the library functions\<close>

definition returning :: "bool \<Rightarrow> 'a \<Rightarrow> 'a res" where
  "returning c x = (if c then Inr x else Inl (Fc_exception ''overflow''))"

definition dec_int :: "int \<Rightarrow> string" where
  "dec_int x = (if x < 0 then CHR ''-'' # dec_nat (nat (- x)) else dec_nat (nat x))"

definition undec_int :: "string \<Rightarrow> int" where
  "undec_int s = (if take 1 s = ''-'' then - int (undec 0 (drop 1 s)) else int (undec 0 s))"

definition blanks :: "char set" where
  "blanks = {CHR '' '', CHR 0x09, CHR 0x0A, CHR 0x0D}"

definition trim_blanks :: "string \<Rightarrow> string" where
  "trim_blanks s = rev (dropWhile (\<lambda>c. c \<in> blanks) (rev (dropWhile (\<lambda>c. c \<in> blanks) s)))"

fun msb_of :: "nat \<Rightarrow> nat" where
  "msb_of n = (if n < 2 then 0 else Suc (msb_of (n div 2)))"

declare msb_of.simps [simp del]

lemma msb_of_bounds: "0 < n \<Longrightarrow> 2 ^ msb_of n \<le> n \<and> n < 2 ^ Suc (msb_of n)"
proof (induction n rule: msb_of.induct)
  case (1 n)
  show ?case
  proof (cases "n < 2")
    case False
    then have ih: "2 ^ msb_of (n div 2) \<le> n div 2" "n div 2 < 2 ^ Suc (msb_of (n div 2))" using 1 by auto
    have "n = 2 * (n div 2) + n mod 2" by simp
    then have "n < 2 * 2 ^ Suc (msb_of (n div 2))" "2 * 2 ^ msb_of (n div 2) \<le> n" using ih by linarith+
    then show ?thesis using False by (simp add: msb_of.simps [of n])
  qed (use 1 in \<open>simp add: msb_of.simps\<close>)
qed

definition fc_ref :: fc_lib where
  "fc_ref = \<lparr>
     safe_add = (\<lambda>a b. returning (in_i64 (a + b)) (a + b)),
     safe_sub = (\<lambda>a b. returning (in_i64 (a - b)) (a - b)),
     safe_mul = (\<lambda>a b. returning (in_i64 (a * b)) (a * b)),
     safe_div = (\<lambda>a b. returning (b \<noteq> 0 \<and> in_i64 (cdiv a b)) (cdiv a b)),
     safe_mod = (\<lambda>a b. returning (b \<noteq> 0) (cmod a b)),
     safe_neg = (\<lambda>a. returning (in_i64 (- a)) (- a)),
     safe_of_u64 = (\<lambda>a. (a + 2 ^ 63) mod 2 ^ 64 - 2 ^ 63),
     u128_of = (\<lambda>a. a mod 2 ^ 128),
     u128_add = (\<lambda>a b. (a + b) mod 2 ^ 128),
     u128_sub = (\<lambda>a b. (a - b) mod 2 ^ 128),
     u128_mul = (\<lambda>a b. (a * b) mod 2 ^ 128),
     u128_div = (\<lambda>a b. returning (b \<noteq> 0) (a div b)),
     u128_shl = (\<lambda>a n. (a * 2 ^ n) mod 2 ^ 128),
     u128_shr = (\<lambda>a n. a div 2 ^ n),
     u128_popcount = bits_set,
     u128_hi = (\<lambda>a. a div 2 ^ 64),
     u128_lo = (\<lambda>a. a mod 2 ^ 64),
     u128_and = and,
     find_msb64 = (\<lambda>a. msb_of (nat a)),
     u128_to_uint64 = (\<lambda>a. returning (a < 2 ^ 64) a),
     fc_to_string = dec_int,
     fc_to_int64 = (\<lambda>s. Inr (undec_int s)),
     fc_trim = trim_blanks,
     fc_is_utf8 = (\<lambda>s. list_all (\<lambda>c. of_char c < (128::nat)) s),
     fc_json_is_valid = (\<lambda>s. s \<noteq> [])\<rparr>"

lemma returns_when_returning [simp]: "returns_when (returning c x) c x"
  by (simp add: returns_when_def returning_def is_err_def)

lemma fc_ref_num [simp]: "fc_num fc_ref"
proof -
  have "2 ^ msb_of (nat a) \<le> a \<and> a < 2 ^ Suc (msb_of (nat a))" if "0 < a" for a :: int
  proof -
    have "2 ^ msb_of (nat a) \<le> nat a" "nat a < 2 ^ Suc (msb_of (nat a))" using msb_of_bounds [of "nat a"] that by auto
    then have "int (2 ^ msb_of (nat a)) \<le> a" "a < int (2 ^ Suc (msb_of (nat a)))" using that by linarith+
    then show ?thesis by simp
  qed
  then show ?thesis
    by (simp add: fc_num_def fc_safe_def fc_u128_def fc_ref_def) (simp add: returning_def)
qed

lemma fc_ref_parts [simp]: "fc_safe fc_ref" "fc_u128 fc_ref"
  using fc_ref_num by (simp_all add: fc_num_def)

section \<open>Theorems\<close>

text \<open>
  C37. Valid prices are totally ordered by the comparison operators of \<^verbatim>\<open>asset.cpp\<close>: of \<open>a < b\<close>,
  \<open>a == b\<close> and \<open>b < a\<close> exactly one holds, \<open><\<close> is transitive, and within one market it is the
  order of the exact ratios base/quote: the 128-bit products do not overflow.
\<close>

theorem price_order_exact:
  assumes "fc_u128 fc" "pos_price a" "pos_price b" "pos_price c"
  shows "(price_lt fc a b \<or> price_eq fc a b \<or> price_lt fc b a) \<and>
    \<not> (price_lt fc a b \<and> price_eq fc a b) \<and> \<not> (price_lt fc a b \<and> price_lt fc b a) \<and>
    (price_lt fc a b \<and> price_lt fc b c \<longrightarrow> price_lt fc a c) \<and>
    (symbol (base a) = symbol (base b) \<and> symbol (quote a) = symbol (quote b) \<longrightarrow>
      (price_lt fc a b \<longleftrightarrow> amount (base a) * amount (quote b) < amount (base b) * amount (quote a)))"
proof (intro conjI)
  show "price_lt fc a b \<or> price_eq fc a b \<or> price_lt fc b a"
    using price_less_cases assms by (simp add: price_lt_less)
  show "\<not> (price_lt fc a b \<and> price_eq fc a b)"
    using assms by (auto simp: price_lt_iff price_eq_iff ratio_less_def ratio_eq_def)
  show "\<not> (price_lt fc a b \<and> price_lt fc b a)"
    using assms price_order.lt_asym by (auto simp: price_lt_less)
  show "price_lt fc a b \<and> price_lt fc b c \<longrightarrow> price_lt fc a c"
    using assms price_order.lt_trans [of a b c] by (simp add: price_lt_less)
qed (use assms in \<open>auto simp: price_lt_iff ratio_less_def\<close>)

definition gbg_price :: "int \<Rightarrow> int \<Rightarrow> price" where
  "gbg_price x y = \<lparr>base = \<lparr>amount = x, symbol = SBD_SYMBOL\<rparr>,
                    quote = \<lparr>amount = y, symbol = STEEM_SYMBOL\<rparr>\<rparr>"

theorem price_order_exact_witness:
  "price_lt fc_ref (gbg_price 1 3) (gbg_price 1 2) \<and>
   price_lt fc_ref (gbg_price 1 2) (gbg_price 2 3) \<and>
   price_lt fc_ref (gbg_price 1 3) (gbg_price 2 3)"
proof -
  have "pos_price (gbg_price 1 3)" "pos_price (gbg_price 1 2)" "pos_price (gbg_price 2 3)"
    by (simp_all add: pos_price_def gbg_price_def)
  note t = price_order_exact [OF fc_ref_parts(2) this]
  show ?thesis using t by (simp add: price_lt_def price_mult_def fc_ref_def gbg_price_def)
qed

text \<open>
  C38. \<^verbatim>\<open>asset * price\<close> is total and exact on validated prices: a non-negative amount on either side
  of the price converts to the other side's symbol, to the quotient rounded down.
\<close>

theorem asset_mul_price_floor:
  assumes "fc_num fc" "pos_price p" "price_sides a p = Inr (num, den)"
    "0 \<le> amount a" "amount a < 2 ^ 63" "amount a * amount num div amount den < 2 ^ 63"
  shows "asset_mul_price fc a p =
    Inr \<lparr>amount = amount a * amount num div amount den, symbol = symbol num\<rparr>"
  using assms by (rule asset_mul_price_exact)

theorem asset_mul_price_floor_witness:
  "asset_mul_price fc_ref \<lparr>amount = 10, symbol = STEEM_SYMBOL\<rparr> (gbg_price 1 3) =
     Inr \<lparr>amount = 3, symbol = SBD_SYMBOL\<rparr>"
  using asset_mul_price_floor [of fc_ref "gbg_price 1 3" "\<lparr>amount = 10, symbol = STEEM_SYMBOL\<rparr>"
      "\<lparr>amount = 1, symbol = SBD_SYMBOL\<rparr>" "\<lparr>amount = 3, symbol = STEEM_SYMBOL\<rparr>"]
  by (simp add: gbg_price_def pos_price_def price_sides_def asset_symbol_name_def)

text \<open>
  Converting an amount through a validated price and back never yields more than the start:
  the two roundings lose value, they do not create it.
\<close>

theorem asset_mul_price_round_trip:
  assumes "fc_num fc" "price_validate p = Inr ()" "pos_price p"
    "0 \<le> amount a" "amount a < 2 ^ 63"
    "price_sides a p = Inr (num, den)" "amount a * amount num div amount den < 2 ^ 63"
  shows "\<exists>r s. asset_mul_price fc a p = Inr r \<and> asset_mul_price fc r p = Inr s \<and>
    symbol s = symbol den \<and> 0 \<le> amount s \<and> amount s \<le> amount a"
proof -
  let ?r = "\<lparr>amount = amount a * amount num div amount den, symbol = symbol num\<rparr>"
  have r: "asset_mul_price fc a p = Inr ?r"
    using assms by (intro asset_mul_price_exact)
  have pos: "0 < amount num" "amount num < 2 ^ 63" "0 < amount den" "amount den < 2 ^ 63"
    using price_sides_pos assms by blast+
  have sides: "price_sides ?r p = Inr (den, num)"
    by (rule price_sides_back [OF assms(6,2)]) simp
  have nn: "0 \<le> amount ?r" using assms(4) pos by (simp add: pos_imp_zdiv_nonneg_iff)
  have le: "amount ?r * amount den div amount num \<le> amount a"
    using floor_round_trip [OF assms(4) pos(1,3)] by simp
  have "asset_mul_price fc ?r p =
      Inr \<lparr>amount = amount ?r * amount den div amount num, symbol = symbol den\<rparr>"
  proof (rule asset_mul_price_exact)
    show "amount ?r < 2 ^ 63" using assms(7) by simp
    show "amount ?r * amount den div amount num < 2 ^ 63" using le assms(5) by linarith
  qed (use assms nn sides in simp_all)
  moreover have "0 \<le> amount ?r * amount den div amount num"
    using nn pos by (simp add: pos_imp_zdiv_nonneg_iff)
  ultimately show ?thesis using r le by simp
qed

theorem asset_mul_price_round_trip_witness:
  "\<exists>r s. asset_mul_price fc_ref \<lparr>amount = 10, symbol = STEEM_SYMBOL\<rparr> (gbg_price 1 3) = Inr r \<and>
     asset_mul_price fc_ref r (gbg_price 1 3) = Inr s \<and>
     symbol s = STEEM_SYMBOL \<and> 0 \<le> amount s \<and> amount s \<le> 10"
  using asset_mul_price_round_trip [of fc_ref "gbg_price 1 3" "\<lparr>amount = 10, symbol = STEEM_SYMBOL\<rparr>"
      "\<lparr>amount = 1, symbol = SBD_SYMBOL\<rparr>" "\<lparr>amount = 3, symbol = STEEM_SYMBOL\<rparr>"]
  by (simp add: gbg_price_def pos_price_def price_sides_def asset_symbol_name_def price_validate_def)

end
