(* ===== verification/Asset_Text.thy ===== *)
theory Asset_Text
  imports Asset_Properties
begin

text \<open>
  Printing and parsing of assets, \<^verbatim>\<open>asset::to_string\<close> and \<^verbatim>\<open>asset::from_string\<close>: what the code
  relies on of the string functions of \<^verbatim>\<open>fc\<close>, the round trip for non-negative amounts, and what
  is printed for a negative amount.
\<close>

text \<open>
  \<open>fc_str\<close>: \<^verbatim>\<open>fc::to_string\<close> prints an integer in decimal, \<^verbatim>\<open>fc::to_int64\<close> reads what it prints,
  and \<^verbatim>\<open>fc::trim\<close> changes nothing in a text without blanks at its ends.
\<close>

definition fc_str :: "fc_lib \<Rightarrow> bool" where
  "fc_str fc \<longleftrightarrow>
     (\<forall>x. in_i64 x \<longrightarrow> fc_to_string fc x = dec_int x) \<and>
     (\<forall>x. in_i64 x \<longrightarrow> fc_to_int64 fc (dec_int x) = Inr x) \<and>
     (\<forall>s. s \<noteq> [] \<and> hd s \<notin> blanks \<and> last s \<notin> blanks \<longrightarrow> fc_trim fc s = s)"

definition plain_name :: "string \<Rightarrow> bool" where
  "plain_name n \<longleftrightarrow> n \<noteq> [] \<and> length n \<le> 6 \<and> (\<forall>c \<in> set n. c \<notin> blanks \<and> c \<noteq> CHR ''.'')"

section \<open>Decimal notation\<close>

lemma dec_nat_no_blank: "c \<in> set (dec_nat n) \<Longrightarrow> c \<notin> blanks \<and> c \<noteq> CHR ''.'' \<and> c \<noteq> CHR ''-''"
  using dec_nat_chars [of c n] by (auto simp: blanks_def)

lemma ten_times: "10 * 10 ^ d \<le> (n::nat) \<Longrightarrow> 10 \<le> n"
  using one_le_power [of "10::nat" d] by linarith

lemma length_dec_nat: "10 ^ d \<le> n \<Longrightarrow> n < 10 ^ Suc d \<Longrightarrow> length (dec_nat n) = Suc d"
proof (induction d arbitrary: n)
  case 0
  then show ?case by (simp add: dec_nat.simps [of n])
next
  case (Suc d)
  have "10 ^ d \<le> n div 10" "n div 10 < 10 ^ Suc d" "\<not> n < 10"
    using Suc.prems ten_times [of d n] by (auto simp: less_mult_imp_div_less)
  then show ?case using Suc.IH [of "n div 10"] by (simp add: dec_nat.simps [of n])
qed

lemma hd_dec_nat: "10 ^ d \<le> n \<Longrightarrow> n < 2 * 10 ^ d \<Longrightarrow> hd (dec_nat n) = CHR ''1''"
proof (induction d arbitrary: n)
  case 0
  then have "n = 1" by simp
  then show ?case by (simp add: dec_nat.simps digit_def char_of_def bit_iff_odd)
next
  case (Suc d)
  have "10 ^ d \<le> n div 10" "n div 10 < 2 * 10 ^ d" "\<not> n < 10"
    using Suc.prems ten_times [of d n] by (auto simp: less_mult_imp_div_less)
  then show ?case using Suc.IH [of "n div 10"] by (simp add: dec_nat.simps [of n])
qed

lemma dec_int_nonneg: "0 \<le> x \<Longrightarrow> dec_int x = dec_nat (nat x)"
  by (simp add: dec_int_def)

text \<open>The fraction digits: a number between \<open>10 ^ d\<close> and \<open>2 * 10 ^ d\<close> without its leading 1.\<close>

lemma dec_fraction:
  assumes "0 \<le> f" "f < (10::int) ^ d"
  shows "dec_int (10 ^ d + f) = CHR ''1'' # drop 1 (dec_int (10 ^ d + f))"
    and "length (drop 1 (dec_int (10 ^ d + f))) = d"
proof -
  let ?n = "nat (10 ^ d + f)"
  have n: "10 ^ d \<le> ?n" "?n < 2 * 10 ^ d"
    using assms by (simp_all add: nat_add_distrib nat_power_eq zless_nat_conj nat_less_iff)
  have e: "dec_int (10 ^ d + f) = dec_nat ?n" using assms by (simp add: dec_int_nonneg)
  have "hd (dec_nat ?n) = CHR ''1''" using n by (rule hd_dec_nat)
  then show "dec_int (10 ^ d + f) = CHR ''1'' # drop 1 (dec_int (10 ^ d + f))"
    by (metis e dec_nat_nonempty drop0 drop_Suc list.collapse One_nat_def)
  have "length (dec_nat ?n) = Suc d" using n by (intro length_dec_nat) auto
  then show "length (drop 1 (dec_int (10 ^ d + f))) = d" by (simp add: e)
qed

section \<open>Symbols and precision\<close>

lemma precision_table: "d < 15 \<Longrightarrow> asset_precision_table ! d = 10 ^ d"
proof -
  assume "d < 15"
  moreover have "list_all (\<lambda>d. asset_precision_table ! d = 10 ^ d) [0..<15]" by code_simp
  ultimately show ?thesis by (auto simp: list_all_iff)
qed

lemma sym_byte_of_nat: "d < 15 \<Longrightarrow> sym_byte (of_nat d) 0 = d"
proof -
  assume "d < 15"
  moreover have "list_all (\<lambda>d. sym_byte (of_nat d) 0 = d) [0..<15]" by code_simp
  ultimately show ?thesis by (auto simp: list_all_iff)
qed

lemma asset_precision_Inr:
  "asset_decimals a = Inr d \<Longrightarrow> asset_precision a = Inr (10 ^ d)"
  by (auto simp: asset_precision_def asset_decimals_def Let_def precision_table split: if_splits)

lemma set_decimals_zero:
  "d < 15 \<Longrightarrow> asset_set_decimals \<lparr>amount = x, symbol = 0\<rparr> d = Inr \<lparr>amount = x, symbol = of_nat d\<rparr>"
  by (simp add: asset_set_decimals_def)

lemma precision_of_nat:
  "d < 15 \<Longrightarrow> asset_precision \<lparr>amount = x, symbol = of_nat d\<rparr> = Inr (10 ^ d)"
  by (rule asset_precision_Inr) (simp add: asset_decimals_def sym_byte_of_nat)

lemma i64_wrap_id: "in_i64 x \<Longrightarrow> i64_wrap x = x"
  by (simp add: i64_wrap_def in_i64_def)

lemma str_find_append: "c \<notin> set xs \<Longrightarrow> str_find c (xs @ c # ys) = Some (length xs)"
  by (induction xs) (auto simp: str_find_def split: if_splits)

section \<open>Round trip\<close>

text \<open>Parsing a printed amount: with and without a fraction part.\<close>

lemma parse_fraction:
  assumes fc: "fc_str fc" and n: "plain_name name" and d: "0 < d" "d < 15"
    and x: "0 \<le> x" "x < 2 ^ 62" and f: "dec_int (10 ^ d + x mod 10 ^ d) = CHR ''1'' # f"
  shows "asset_from_string fc (dec_int (x div 10 ^ d) @ CHR ''.'' # f @ CHR '' '' # name) =
    Inr \<lparr>amount = x, symbol = symbol_put (of_nat d) 1 name\<rparr>"
proof -
  let ?p = "10 ^ d :: int"
  let ?i = "dec_int (x div ?p)" and ?s = "dec_int (x div 10 ^ d) @ CHR ''.'' # f @ CHR '' '' # name"
  have p: "0 < ?p" by simp
  have p14: "?p \<le> 10 ^ 14" using d by (intro power_increasing) auto
  have xr: "0 \<le> x mod ?p" "x mod ?p < ?p" "0 \<le> x div ?p" "x div ?p \<le> x"
    using p x zdiv_mono2 [of x 1 ?p] by (simp_all add: pos_imp_zdiv_nonneg_iff)
  have lf: "length f = d" using dec_fraction(2) [OF xr(1,2)] f by simp
  have ci: "c \<in> set ?i \<Longrightarrow> c \<notin> blanks \<and> c \<noteq> CHR ''.''" for c
    using xr by (auto simp: dec_int_nonneg dest: dec_nat_no_blank)
  have "dec_nat (nat (?p + x mod ?p)) = CHR ''1'' # f"
    using f xr p by (simp add: dec_int_nonneg)
  then have cf: "c \<in> set f \<Longrightarrow> c \<notin> blanks \<and> c \<noteq> CHR ''.''" for c
    using dec_nat_no_blank [of c "nat (?p + x mod ?p)"] by simp
  have dot: "str_find CHR ''.'' ?s = Some (length ?i)"
    using str_find_append [of "CHR ''.''" ?i] ci by auto
  have "CHR '' '' \<notin> set (?i @ CHR ''.'' # f)" using ci cf by (auto simp: blanks_def)
  then have space: "str_find CHR '' '' ?s = Some (Suc (length ?i + d))"
    using str_find_append [of "CHR '' ''" "?i @ CHR ''.'' # f" name] lf by simp
  have ne: "?i \<noteq> []" using xr by (simp add: dec_int_nonneg)
  have "hd ?s \<notin> blanks" using ci [of "hd ?i"] ne by simp
  moreover have "last ?s \<notin> blanks" using n by (simp add: plain_name_def)
  ultimately have trim: "fc_trim fc ?s = ?s" using fc by (simp add: fc_str_def)
  have "?p + x mod ?p < 10 ^ 14 + 10 ^ 14" using xr(2) p14 by linarith
  then have r: "in_i64 (x div ?p)" "in_i64 (?p + x mod ?p)"
    using xr x p by (auto intro!: in_i64_nonneg)
  have ints: "fc_to_int64 fc ?i = Inr (x div ?p)" "fc_to_int64 fc (CHR ''1'' # f) = Inr (?p + x mod ?p)"
    using fc r by (simp_all add: fc_str_def flip: f)
  have e: "x div ?p * ?p = x - x mod ?p" by (simp add: minus_mod_eq_div_mult)
  then have le: "0 \<le> x - x mod ?p" "x - x mod ?p \<le> x"
    using xr p by (metis mult_nonneg_nonneg less_imp_le, linarith)
  have "x - x mod ?p < 2 ^ 63" by (rule le_less_trans [OF le(2) less_trans [OF x(2)]]) simp
  then have "in_i64 x" "in_i64 (x - x mod ?p)" "in_i64 (x + ?p)"
    using le x p p14 by (auto intro!: in_i64_nonneg)
  then have amt: "i64_wrap (i64_wrap (i64_wrap (x div ?p * ?p) + (?p + x mod ?p)) - ?p) = x"
    unfolding e by (simp add: i64_wrap_id)
  show ?thesis
    using n d lf by (simp add: asset_from_string_def Let_def trim dot space ints
        set_decimals_zero precision_of_nat amt plain_name_def)
qed

lemma parse_integer:
  assumes fc: "fc_str fc" and n: "plain_name name" and x: "0 \<le> x" "x < 2 ^ 62"
  shows "asset_from_string fc (dec_int x @ CHR '' '' # name) =
    Inr \<lparr>amount = x, symbol = symbol_put 0 1 name\<rparr>"
proof -
  let ?s = "dec_int x @ CHR '' '' # name"
  have ci: "c \<in> set (dec_int x) \<Longrightarrow> c \<notin> blanks \<and> c \<noteq> CHR ''.''" for c
    using x by (auto simp: dec_int_nonneg dest: dec_nat_no_blank)
  have dot: "str_find CHR ''.'' ?s = None"
    using ci n by (auto simp: str_find_def plain_name_def)
  have space: "str_find CHR '' '' ?s = Some (length (dec_int x))"
    using str_find_append [of "CHR '' ''" "dec_int x" name] ci by (auto simp: blanks_def)
  have ne: "dec_int x \<noteq> []" using x by (simp add: dec_int_nonneg)
  have "hd ?s \<notin> blanks" using ci [of "hd (dec_int x)"] ne by simp
  moreover have "last ?s \<notin> blanks" using n by (simp add: plain_name_def)
  ultimately have trim: "fc_trim fc ?s = ?s" using fc by (simp add: fc_str_def)
  have "in_i64 x" using x by (intro in_i64_nonneg) auto
  then have "fc_to_int64 fc (dec_int x) = Inr x" using fc by (simp add: fc_str_def)
  then show ?thesis
    using n set_decimals_zero [of 0 x]
    by (simp add: asset_from_string_def Let_def trim dot space plain_name_def)
qed

text \<open>
  C39. \<^verbatim>\<open>asset::from_string\<close> inverts \<^verbatim>\<open>asset::to_string\<close> on every non-negative amount below \<open>2 ^ 62\<close> of a
  symbol in canonical form (its bytes are the decimals and the name), so amounts survive the
  JSON interface unchanged.
\<close>

theorem asset_string_round_trip:
  assumes "fc_str fc" "asset_decimals a = Inr d" "asset_symbol_name a = Inr name"
    "plain_name name" "symbol a = symbol_put (of_nat d) 1 name"
    "0 \<le> amount a" "amount a < 2 ^ 62"
  shows "\<exists>s. asset_to_string fc a = Inr s \<and> asset_from_string fc s = Inr a"
proof -
  have d: "d < 15" using assms(2) by (auto simp: asset_decimals_def Let_def split: if_splits)
  have p: "asset_precision a = Inr (10 ^ d)" using assms(2) by (rule asset_precision_Inr)
  let ?p = "10 ^ d :: int"
  have a: "a = \<lparr>amount = amount a, symbol = symbol_put (of_nat d) 1 name\<rparr>"
    using assms(5) by (cases a) simp
  have p14: "0 < ?p" "?p \<le> 10 ^ 14" using d by (simp, intro power_increasing) auto
  have xr: "0 \<le> amount a mod ?p" "amount a mod ?p < ?p" "0 \<le> amount a div ?p"
      "amount a div ?p \<le> amount a"
    using p14 assms(6) zdiv_mono2 [of "amount a" 1 ?p] by (simp_all add: pos_imp_zdiv_nonneg_iff)
  have "?p + amount a mod ?p < 10 ^ 14 + 10 ^ 14" using xr(2) p14 by linarith
  then have "in_i64 (amount a div ?p)" "in_i64 (?p + amount a mod ?p)"
    using xr assms(7) p14(1) by (auto intro!: in_i64_nonneg)
  then have str: "fc_to_string fc (cdiv (amount a) ?p) = dec_int (amount a div ?p)"
      "fc_to_string fc (?p + cmod (amount a) ?p) = dec_int (?p + amount a mod ?p)"
    using assms(1,6) by (simp_all add: fc_str_def)
  show ?thesis
  proof (cases "d = 0")
    case True
    with str(1) have "fc_to_string fc (amount a) = dec_int (amount a)" using assms(6) by simp
    with True have "asset_to_string fc a = Inr (dec_int (amount a) @ '' '' @ name)"
      using p assms(3,6) by (simp add: asset_to_string_def)
    moreover have "asset_from_string fc (dec_int (amount a) @ '' '' @ name) = Inr a"
      using parse_integer [OF assms(1,4,6,7)] a True by simp
    ultimately show ?thesis by blast
  next
    case False
    then have "1 < ?p" by simp
    obtain f where f: "dec_int (?p + amount a mod ?p) = CHR ''1'' # f"
      using dec_fraction(1) [OF xr(1,2)] by blast
    have "asset_to_string fc a = Inr (dec_int (amount a div ?p) @ CHR ''.'' # f @ CHR '' '' # name)"
      using p assms(3) str f \<open>1 < ?p\<close> by (simp add: asset_to_string_def Let_def)
    moreover have "asset_from_string fc (dec_int (amount a div ?p) @ CHR ''.'' # f @ CHR '' '' # name) = Inr a"
      using parse_fraction [OF assms(1,4) _ d assms(6,7) f] False a by simp
    ultimately show ?thesis by blast
  qed
qed

lemma undec_int_dec_int: "undec_int (dec_int x) = x"
proof (cases "x < 0")
  case False
  obtain c cs where c: "dec_nat (nat x) = c # cs"
    using dec_nat_nonempty by (metis neq_Nil_conv)
  then have "c \<noteq> CHR ''-''" using dec_nat_no_blank [of c "nat x"] by simp
  then show ?thesis
    using False undec_dec_nat [of "nat x"] c
    by (simp add: undec_int_def dec_int_def)
qed (simp add: undec_int_def dec_int_def)

lemma trim_blanks_id: "s \<noteq> [] \<Longrightarrow> hd s \<notin> blanks \<Longrightarrow> last s \<notin> blanks \<Longrightarrow> trim_blanks s = s"
proof -
  assume a: "s \<noteq> []" "hd s \<notin> blanks" "last s \<notin> blanks"
  then have "dropWhile (\<lambda>c. c \<in> blanks) s = s" by (cases s) auto
  moreover have "dropWhile (\<lambda>c. c \<in> blanks) (rev s) = rev s"
    using a by (cases s rule: rev_cases) auto
  ultimately show ?thesis by (simp add: trim_blanks_def)
qed

lemma fc_ref_str [simp]: "fc_str fc_ref"
  by (simp add: fc_str_def fc_ref_def undec_int_dec_int trim_blanks_id)

theorem asset_string_round_trip_witness:
  "\<exists>s. asset_to_string fc_ref \<lparr>amount = 1005, symbol = STEEM_SYMBOL\<rparr> = Inr s \<and>
       asset_from_string fc_ref s = Inr \<lparr>amount = 1005, symbol = STEEM_SYMBOL\<rparr>"
proof -
  have "STEEM_SYMBOL = symbol_put (of_nat 3) 1 ''GOLOS''"
    by (simp add: STEEM_SYMBOL_def)
  moreover have "plain_name ''GOLOS''" by (simp add: plain_name_def blanks_def)
  ultimately show ?thesis
    using asset_string_round_trip [of fc_ref "\<lparr>amount = 1005, symbol = STEEM_SYMBOL\<rparr>" 3 "''GOLOS''"]
    by (simp add: asset_decimals_def asset_symbol_name_def)
qed

text \<open>
  The printed form of a negative amount is wrong: minus five thousandths of a GOLOS is printed
  as a positive \<open>0.95 GOLOS\<close>, because the remainder of the truncating division is negative.
\<close>

theorem asset_to_string_negative:
  assumes "fc_str fc"
  shows "asset_to_string fc \<lparr>amount = - 5, symbol = STEEM_SYMBOL\<rparr> = Inr ''0.95 GOLOS''"
proof -
  have "asset_precision \<lparr>amount = - 5, symbol = STEEM_SYMBOL\<rparr> = Inr 1000"
    by (simp add: asset_precision_def asset_decimals_def asset_precision_table_def)
  moreover have "fc_to_string fc 0 = ''0''" "fc_to_string fc 995 = ''995''"
    using assms by (simp_all add: fc_str_def in_i64_def dec_int_def dec_nat.simps digit_def
        char_of_def bit_iff_odd)
  ultimately show ?thesis
    by (simp add: asset_to_string_def cdiv_def cmod_def asset_symbol_name_def)
qed

theorem asset_to_string_negative_witness:
  "asset_to_string fc_ref \<lparr>amount = - 5, symbol = STEEM_SYMBOL\<rparr> = Inr ''0.95 GOLOS''"
  by (rule asset_to_string_negative) simp

end
