(* ===== verification/Version.thy ===== *)
theory Version
  imports Golos_Prelude
begin

text \<open>
  Protocol versions: \<^verbatim>\<open>libraries/protocol/version.cpp\<close> and \<^verbatim>\<open>version.hpp\<close>. A version packs major,
  hardfork and release number into 32 bits; a hardfork version has no release number. The text
  form is written and read through a string stream, of which the parts that the code uses are
  modelled: formatted extraction of an unsigned number and of a character, and the two state
  flags.
\<close>

unbundle bit_operations_syntax

record version =
  v_num :: "32 word"

record hardfork_version =
  hv_num :: "32 word"

record hardfork_version_vote =
  hfv_hf_version :: hardfork_version
  hfv_hf_time :: int

definition mk_version :: "8 word \<Rightarrow> 8 word \<Rightarrow> 16 word \<Rightarrow> version" where
  "mk_version m h r =
     (let v = push_bit 8 (0 OR ucast m);
          v = push_bit 16 (v OR ucast h)
      in \<lparr>v_num = v OR ucast r\<rparr>)"

definition mk_hardfork_version :: "8 word \<Rightarrow> 8 word \<Rightarrow> hardfork_version" where
  "mk_hardfork_version m h = \<lparr>hv_num = v_num (mk_version m h 0)\<rparr>"

definition hardfork_of_version :: "version \<Rightarrow> hardfork_version" where
  "hardfork_of_version v = \<lparr>hv_num = v_num v AND 0xFFFF0000\<rparr>"

text \<open>The comparisons of versions, of hardfork versions, and of a hardfork version with a version.\<close>

definition version_eq :: "version \<Rightarrow> version \<Rightarrow> bool" where "version_eq a b \<longleftrightarrow> v_num a = v_num b"
definition version_lt :: "version \<Rightarrow> version \<Rightarrow> bool" where "version_lt a b \<longleftrightarrow> v_num a < v_num b"
definition version_ge :: "version \<Rightarrow> version \<Rightarrow> bool" where "version_ge a b \<longleftrightarrow> v_num a \<ge> v_num b"

definition hardfork_eq :: "hardfork_version \<Rightarrow> hardfork_version \<Rightarrow> bool" where
  "hardfork_eq a b \<longleftrightarrow> hv_num a = hv_num b"

definition hardfork_lt :: "hardfork_version \<Rightarrow> hardfork_version \<Rightarrow> bool" where
  "hardfork_lt a b \<longleftrightarrow> hv_num a < hv_num b"

definition hardfork_eq_version :: "hardfork_version \<Rightarrow> version \<Rightarrow> bool" where
  "hardfork_eq_version a b \<longleftrightarrow> hv_num a = v_num b AND 0xFFFF0000"

definition hardfork_le_version :: "hardfork_version \<Rightarrow> version \<Rightarrow> bool" where
  "hardfork_le_version a b \<longleftrightarrow> hv_num a \<le> v_num b AND 0xFFFF0000"

section \<open>Text form\<close>

definition version_to_string :: "version \<Rightarrow> string" where
  "version_to_string v =
     dec_nat (unat (drop_bit 24 (v_num v) AND 0xFF)) @ ''.'' @
     dec_nat (unat (drop_bit 16 (v_num v) AND 0xFF)) @ ''.'' @
     dec_nat (unat (v_num v AND 0xFFFF))"

text \<open>An input stream: the rest of its text and the flags \<^verbatim>\<open>failbit\<close> and \<^verbatim>\<open>eofbit\<close>.\<close>

record istream =
  is_rest :: string
  is_fail :: bool
  is_eof :: bool

definition is_space :: "char \<Rightarrow> bool" where
  "is_space c \<longleftrightarrow> of_char c \<in> {9, 10, 11, 12, 13, 32 :: nat}"

definition is_dec_digit :: "char \<Rightarrow> bool" where
  "is_dec_digit c \<longleftrightarrow> 48 \<le> (of_char c :: nat) \<and> of_char c \<le> (57 :: nat)"

text \<open>The sentry of a formatted extraction skips blanks; at the end of the text it fails.\<close>

definition sentry :: "istream \<Rightarrow> istream" where
  "sentry s =
     (if is_fail s \<or> is_eof s then s\<lparr>is_fail := True\<rparr>
      else let r = dropWhile is_space (is_rest s)
        in if r = [] then s\<lparr>is_rest := [], is_fail := True, is_eof := True\<rparr> else s\<lparr>is_rest := r\<rparr>)"

definition extract_char :: "char \<Rightarrow> istream \<Rightarrow> char \<times> istream" where
  "extract_char c s =
     (let s = sentry s
      in if is_fail s then (c, s) else (hd (is_rest s), s\<lparr>is_rest := tl (is_rest s)\<rparr>))"

text \<open>
  Extraction of a \<^verbatim>\<open>uint32_t\<close>: an optional sign and digits; without a digit the value is 0, a value
  out of range becomes the largest one, both with the flag \<^verbatim>\<open>failbit\<close>; a negative number wraps.
\<close>

definition extract_u32 :: "nat \<Rightarrow> istream \<Rightarrow> nat \<times> istream" where
  "extract_u32 x s =
     (let s = sentry s in
      if is_fail s then (x, s)
      else
        let r = is_rest s;
            neg = (hd r = CHR ''-'');
            r = (if neg \<or> hd r = CHR ''+'' then tl r else r);
            ds = takeWhile is_dec_digit r;
            r = dropWhile is_dec_digit r;
            n = undec 0 ds;
            s = s\<lparr>is_rest := r, is_eof := (r = [])\<rparr>
        in if ds = [] then (0, s\<lparr>is_fail := True\<rparr>)
           else if n \<ge> 2 ^ 32 then (2 ^ 32 - 1, s\<lparr>is_fail := True\<rparr>)
           else (if neg then (2 ^ 32 - n) mod 2 ^ 32 else n, s))"

definition check_version :: "bool \<Rightarrow> string \<Rightarrow> unit res" where
  "check_version c msg = ensure c (Invalid_value msg)"

definition version_from_string :: "string \<Rightarrow> version res" where
  "version_from_string text =
     (let s = \<lparr>is_rest = text, is_fail = False, is_eof = False\<rparr>;
          (major, s) = extract_u32 0 s;
          (dot_a, s) = extract_char (CHR 0x00) s;
          (hardfork, s) = extract_u32 0 s;
          (dot_b, s) = extract_char (CHR 0x00) s;
          (revision, s) = extract_u32 0 s
      in bindR (seqR
        [check_version ((dot_a = CHR ''.'' \<or> dot_a = CHR ''_'') \<and> dot_a = dot_b)
           ''Variant does not contain proper dotted decimal format'',
         check_version (major \<le> 255) ''Major version is out of range'',
         check_version (hardfork \<le> 255) ''Hardfork version is out of range'',
         check_version (revision \<le> 65535) ''Revision version is out of range'',
         check_version (is_eof s) ''Extra information at end of version string'']) (\<lambda>_.
        Inr \<lparr>v_num = 0 OR push_bit 24 (word_of_nat major) OR push_bit 16 (word_of_nat hardfork) OR
          word_of_nat revision\<rparr>))"

definition hardfork_from_string :: "string \<Rightarrow> hardfork_version res" where
  "hardfork_from_string text = bindR (version_from_string text) (\<lambda>ver. Inr \<lparr>hv_num = v_num ver AND 0xFFFF0000\<rparr>)"

end
