(* ===== verification/Version_Properties.thy ===== *)
theory Version_Properties
  imports Version
begin

text \<open>
  Versions: the packed number orders them lexicographically, and the text form is read back to
  the same version.
\<close>

unbundle bit_operations_syntax

section \<open>The packed number\<close>

lemma unat_or_disjoint:
  fixes a b :: "32 word"
  assumes "a AND b = 0"
  shows "unat (a OR b) = unat a + unat b"
proof -
  have "unat a AND unat b = 0" using assms by (metis unsigned_0 unsigned_and_eq)
  then show ?thesis by (simp add: unsigned_or_eq disjunctive_add_eq_or)
qed

lemma v_num_mk_version:
  "v_num (mk_version m h r) = push_bit 24 (ucast m) OR (push_bit 16 (ucast h) OR ucast r)"
  by (simp add: mk_version_def Let_def push_bit_or or.assoc)

lemma unat_v_num: "unat (v_num (mk_version m h r)) = 2 ^ 24 * unat m + 2 ^ 16 * unat h + unat r"
proof -
  have lens: "unat m < 256" "unat h < 256" "unat r < 65536"
    using unsigned_less [of m] unsigned_less [of h] unsigned_less [of r] by simp_all
  have hr: "push_bit 16 (ucast h :: 32 word) AND ucast r = 0"
    by (rule bit_word_eqI) (auto simp: bit_simps dest: bit_imp_le_length)
  have mhr: "push_bit 24 (ucast m :: 32 word) AND (push_bit 16 (ucast h) OR ucast r) = 0"
    by (rule bit_word_eqI) (auto simp: bit_simps dest: bit_imp_le_length)
  have um: "unat (push_bit 24 (ucast m :: 32 word)) = 2 ^ 24 * unat m"
    and uh: "unat (push_bit 16 (ucast h :: 32 word)) = 2 ^ 16 * unat h"
    using lens by (simp_all add: unsigned_push_bit_eq push_bit_eq_mult take_bit_eq_mod unsigned_ucast_eq
        unat_word_ariths)
  have "unat (ucast r :: 32 word) = unat r" using lens by (simp add: unsigned_ucast_eq take_bit_eq_mod)
  then show ?thesis
    by (simp only: v_num_mk_version unat_or_disjoint [OF mhr] unat_or_disjoint [OF hr] um uh)
qed

text \<open>
  Versions compare by their parts: first the major version, then the hardfork, then the
  release, although the code compares the packed 32-bit numbers.
\<close>

theorem version_order_lexicographic:
  "version_lt (mk_version m h r) (mk_version m' h' r') \<longleftrightarrow>
     m < m' \<or> m = m' \<and> (h < h' \<or> h = h' \<and> r < r')"
proof -
  have lens: "unat m < 256" "unat h < 256" "unat r < 65536" "unat m' < 256" "unat h' < 256" "unat r' < 65536"
    using unsigned_less [of m] unsigned_less [of h] unsigned_less [of r]
      unsigned_less [of m'] unsigned_less [of h'] unsigned_less [of r'] by simp_all
  have unat_eq: "unat a = unat b \<longleftrightarrow> a = b" for a b :: "'n::len word"
    by (simp add: unsigned_word_eqI iffI)
  have "version_lt (mk_version m h r) (mk_version m' h' r') \<longleftrightarrow>
      2 ^ 24 * unat m + 2 ^ 16 * unat h + unat r < 2 ^ 24 * unat m' + 2 ^ 16 * unat h' + unat r'"
    by (simp add: version_lt_def word_less_nat_alt unat_v_num)
  also have "\<dots> \<longleftrightarrow> unat m < unat m' \<or> unat m = unat m' \<and>
      (unat h < unat h' \<or> unat h = unat h' \<and> unat r < unat r')"
    using lens by simp linarith
  finally show ?thesis by (simp only: word_less_nat_alt unat_eq)
qed

section \<open>Text form\<close>

lemma dec_nat_digits: "list_all is_dec_digit (dec_nat n)"
  using dec_nat_chars [of _ n] by (auto simp: list_all_iff is_dec_digit_def)

lemma hd_dec_nat_digit: "is_dec_digit (hd (dec_nat n))"
  using dec_nat_digits [of n] by (auto simp: list_all_iff)

lemma digit_facts:
  "is_dec_digit c \<Longrightarrow> \<not> is_space c" "is_dec_digit c \<Longrightarrow> c \<noteq> CHR ''-''" "is_dec_digit c \<Longrightarrow> c \<noteq> CHR ''+''"
  by (auto simp: is_dec_digit_def is_space_def)

lemma sentry_id: "\<not> is_fail s \<Longrightarrow> \<not> is_eof s \<Longrightarrow> is_rest s \<noteq> [] \<Longrightarrow> \<not> is_space (hd (is_rest s)) \<Longrightarrow> sentry s = s"
  by (cases "is_rest s") (simp_all add: sentry_def)

lemma extract_u32_dec:
  assumes "n < 2 ^ 32" "r = [] \<or> \<not> is_dec_digit (hd r)"
  shows "extract_u32 x \<lparr>is_rest = dec_nat n @ r, is_fail = False, is_eof = False\<rparr> =
     (n, \<lparr>is_rest = r, is_fail = False, is_eof = (r = [])\<rparr>)"
proof -
  let ?s = "\<lparr>is_rest = dec_nat n @ r, is_fail = False, is_eof = False\<rparr>"
  have hd: "hd (dec_nat n @ r) = hd (dec_nat n)" by simp
  have s: "sentry ?s = ?s"
    using hd_dec_nat_digit [of n] by (intro sentry_id) (auto simp: hd digit_facts)
  have "takeWhile is_dec_digit (dec_nat n @ r) = dec_nat n" "dropWhile is_dec_digit (dec_nat n @ r) = r"
    using dec_nat_digits [of n] assms(2)
    by (cases r; auto simp: list_all_iff takeWhile_append2 dropWhile_append2)+
  then show ?thesis
    using assms(1) hd_dec_nat_digit [of n] digit_facts
    by (simp add: extract_u32_def s hd del: dropWhile_eq_Nil_conv)
qed

lemma extract_char_dot:
  "extract_char c \<lparr>is_rest = CHR ''.'' # r, is_fail = False, is_eof = False\<rparr> =
     (CHR ''.'', \<lparr>is_rest = r, is_fail = False, is_eof = False\<rparr>)"
  by (simp add: extract_char_def sentry_def is_space_def)

lemma version_fields:
  fixes v :: "32 word"
  shows "push_bit 24 (word_of_nat (unat (drop_bit 24 v AND 0xFF))) OR
    push_bit 16 (word_of_nat (unat (drop_bit 16 v AND 0xFF))) OR word_of_nat (unat (v AND 0xFFFF)) = v"
proof -
  have m: "(0xFF :: 32 word) = mask 8" "(0xFFFF :: 32 word) = mask 16" by (simp_all add: mask_eq_exp_minus_1)
  have n: "n - 16 < 8" if "\<not> bit v (24 + (n - 24))" "bit v n" for n
    using that by (cases "24 \<le> n") auto
  show ?thesis unfolding m by (rule bit_word_eqI) (auto simp: bit_simps n)
qed

lemma unat_and_le: "unat (a AND b) \<le> unat (b :: 32 word)"
  using word_and_le1 [of a b] by (simp add: word_le_nat_alt)

lemma version_field_bounds:
  fixes v :: "32 word"
  shows "unat (drop_bit 24 v AND 0xFF) \<le> 255" "unat (drop_bit 16 v AND 0xFF) \<le> 255" "unat (v AND 0xFFFF) \<le> 65535"
  using unat_and_le [of "drop_bit 24 v" "0xFF"] unat_and_le [of "drop_bit 16 v" "0xFF"] unat_and_le [of v "0xFFFF"]
  by simp_all

text \<open>
  The text form of a version is read back to the same version.
\<close>

theorem version_string_round_trip: "version_from_string (version_to_string v) = Inr v"
proof -
  let ?m = "unat (drop_bit 24 (v_num v) AND 0xFF)" and ?h = "unat (drop_bit 16 (v_num v) AND 0xFF)"
    and ?r = "unat (v_num v AND 0xFFFF)"
  note b = version_field_bounds [of "v_num v"]
  have m: "extract_u32 0 \<lparr>is_rest = version_to_string v, is_fail = False, is_eof = False\<rparr> =
      (?m, \<lparr>is_rest = ''.'' @ dec_nat ?h @ ''.'' @ dec_nat ?r, is_fail = False, is_eof = False\<rparr>)"
    using b extract_u32_dec [of ?m "''.'' @ dec_nat ?h @ ''.'' @ dec_nat ?r" 0]
    by (simp add: version_to_string_def is_dec_digit_def)
  have h: "extract_u32 0 \<lparr>is_rest = dec_nat ?h @ ''.'' @ dec_nat ?r, is_fail = False, is_eof = False\<rparr> =
      (?h, \<lparr>is_rest = ''.'' @ dec_nat ?r, is_fail = False, is_eof = False\<rparr>)"
    using b extract_u32_dec [of ?h "''.'' @ dec_nat ?r" 0] by (simp add: is_dec_digit_def)
  have r: "extract_u32 0 \<lparr>is_rest = dec_nat ?r, is_fail = False, is_eof = False\<rparr> =
      (?r, \<lparr>is_rest = [], is_fail = False, is_eof = True\<rparr>)"
    using b extract_u32_dec [of ?r "[]" 0] by simp
  have "\<lparr>v_num = push_bit 24 (word_of_nat ?m) OR push_bit 16 (word_of_nat ?h) OR word_of_nat ?r\<rparr> = v"
    by (simp only: version_fields) simp
  then show ?thesis
    using b m h r by (simp add: version_from_string_def extract_char_dot check_version_def ensure_def)
qed

text \<open>A text that ends after the second dot is accepted, with release 0: the flag \<^verbatim>\<open>failbit\<close> is not looked at.\<close>

lemma version_without_release: "version_from_string ''1.2.'' = Inr \<lparr>v_num = 0x01020000\<rparr>"
  by (simp add: version_from_string_def extract_u32_def extract_char_def sentry_def is_space_def is_dec_digit_def
      check_version_def ensure_def)

end
