(* ===== verification/Authority.thy ===== *)
theory Authority
  imports Golos_Prelude
begin

text \<open>
  Authorities, account names and the check of signatures against authorities:
  \<^verbatim>\<open>libraries/protocol/authority.cpp\<close> and \<^verbatim>\<open>sign_state.cpp\<close> with their headers. Weights keep
  their widths (16 bits each, summed in 32). The name check is the index loop of the code, shown
  equal to the grammar its header documents; the recursive authority check is shown sound
  for the unbounded meaning of an authority and complete for the bounded one.
\<close>

section \<open>Authorities\<close>

type_synonym account_name_type = string

text \<open>The 33 bytes of \<^verbatim>\<open>public_key_type::key_data\<close>; keys are compared byte by byte.\<close>

type_synonym public_key_type = string

type_synonym weight_type = "16 word"

record authority =
  weight_threshold :: "32 word"
  account_auths :: "(account_name_type \<times> weight_type) list"
  key_auths :: "(public_key_type \<times> weight_type) list"

definition default_authority :: authority where
  "default_authority = \<lparr>weight_threshold = 0, account_auths = [], key_auths = []\<rparr>"

definition add_authority_key :: "authority \<Rightarrow> public_key_type \<Rightarrow> weight_type \<Rightarrow> authority" where
  "add_authority_key a k w = a\<lparr>key_auths := flat_put k w (key_auths a)\<rparr>"

definition add_authority_account :: "authority \<Rightarrow> account_name_type \<Rightarrow> weight_type \<Rightarrow> authority" where
  "add_authority_account a k w = a\<lparr>account_auths := flat_put k w (account_auths a)\<rparr>"

definition get_keys :: "authority \<Rightarrow> public_key_type list" where
  "get_keys a = map fst (key_auths a)"

definition sum_weights :: "'a::len word \<Rightarrow> ('k \<times> weight_type) list \<Rightarrow> 'a word" where
  "sum_weights acc xs = fold (\<lambda>item s. s + ucast (snd item)) xs acc"

definition is_impossible :: "authority \<Rightarrow> bool" where
  "is_impossible a =
     (let auth_weights = sum_weights (0 :: 64 word) (account_auths a);
          auth_weights = sum_weights auth_weights (key_auths a)
      in auth_weights < ucast (weight_threshold a))"

definition num_auths :: "authority \<Rightarrow> 32 word" where
  "num_auths a = of_nat (length (account_auths a) + length (key_auths a))"

definition authority_clear :: "authority \<Rightarrow> authority" where
  "authority_clear a = a\<lparr>account_auths := [], key_auths := []\<rparr>"

definition authority_eq :: "authority \<Rightarrow> authority \<Rightarrow> bool" where
  "authority_eq a b \<longleftrightarrow>
     weight_threshold a = weight_threshold b \<and>
     account_auths a = account_auths b \<and>
     key_auths a = key_auths b"

definition add_authority_accounts ::
  "account_name_type list \<Rightarrow> authority \<Rightarrow> account_name_type list" where
  "add_authority_accounts result a = fold (\<lambda>item r. flat_ins (fst item) r) (account_auths a) result"

section \<open>Account names\<close>

definition STEEMIT_MIN_ACCOUNT_NAME_LENGTH :: nat where
  "STEEMIT_MIN_ACCOUNT_NAME_LENGTH = 3"

definition STEEMIT_MAX_ACCOUNT_NAME_LENGTH :: nat where
  "STEEMIT_MAX_ACCOUNT_NAME_LENGTH = 16"

definition is_letter :: "char \<Rightarrow> bool" where
  "is_letter x \<longleftrightarrow> CHR ''a'' \<le> x \<and> x \<le> CHR ''z''"

definition is_digit :: "char \<Rightarrow> bool" where
  "is_digit x \<longleftrightarrow> CHR ''0'' \<le> x \<and> x \<le> CHR ''9''"

text \<open>\<^verbatim>\<open>name.find_first_of('.', begin)\<close>, with \<^verbatim>\<open>npos\<close> replaced by the length as the code does next.\<close>

definition find_dot :: "string \<Rightarrow> nat \<Rightarrow> nat" where
  "find_dot name start =
     (let rest = drop start name in
      if CHR ''.'' \<in> set rest then start + length (takeWhile (\<lambda>c. c \<noteq> CHR ''.'') rest)
      else length name)"

lemma find_dot_le: "start \<le> length name \<Longrightarrow> find_dot name start \<le> length name"
proof -
  have "length (takeWhile (\<lambda>c. c \<noteq> CHR ''.'') (drop start name)) \<le> length name - start"
    using length_takeWhile_le [of "\<lambda>c. c \<noteq> CHR ''.''" "drop start name"] by simp
  then show "start \<le> length name \<Longrightarrow> ?thesis" by (auto simp: find_dot_def Let_def)
qed

lemma find_dot_beyond: "length name \<le> start \<Longrightarrow> find_dot name start = length name"
  by (simp add: find_dot_def)

text \<open>The \<^verbatim>\<open>while (true)\<close> loop of \<^verbatim>\<open>is_valid_account_name\<close>.\<close>

function name_loop :: "string \<Rightarrow> nat \<Rightarrow> bool" where
  "name_loop name start =
     (let len = length name; fin = find_dot name start in
      if fin - start < 3 then False
      else if \<not> is_letter (name ! start) then False
      else if \<not> is_letter (name ! (fin - 1)) \<and> \<not> is_digit (name ! (fin - 1)) then False
      else if \<not> list_all (\<lambda>i. let t = name ! i in is_letter t \<or> is_digit t \<or> t = CHR ''-'')
                [start + 1..<fin - 1] then False
      else if fin = len then True
      else name_loop name (fin + 1))"
  by pat_completeness auto

termination
proof (relation "measure (\<lambda>(name, start). Suc (length name) - start)")
  fix name start len fin
  assume a: "len = length name" "fin = find_dot name start" "\<not> fin - start < 3" "fin \<noteq> len"
  then have "start \<le> length name"
    using find_dot_beyond [of name start] by (cases "start \<le> length name") auto
  then have "find_dot name start \<le> length name" by (rule find_dot_le)
  with a have "fin < length name" "start < fin" by linarith+
  then show "((name, fin + 1), name, start) \<in> measure (\<lambda>(name, start). Suc (length name) - start)"
    by simp
qed simp

declare name_loop.simps [simp del]

definition is_valid_account_name :: "string \<Rightarrow> bool" where
  "is_valid_account_name name =
     (let len = length name in
      if len < STEEMIT_MIN_ACCOUNT_NAME_LENGTH then False
      else if len > STEEMIT_MAX_ACCOUNT_NAME_LENGTH then False
      else name_loop name 0)"

definition authority_validate :: "authority \<Rightarrow> unit res" where
  "authority_validate a = seqR (map (\<lambda>item.
     ensure (is_valid_account_name (fst item)) (Invalid_value ''Account name is invalid''))
     (account_auths a))"

section \<open>Signature state\<close>

definition STEEMIT_MAX_SIG_CHECK_DEPTH :: nat where
  "STEEMIT_MAX_SIG_CHECK_DEPTH = 2"

text \<open>
  \<^verbatim>\<open>get_active\<close> is a callback that reads an account from the database and throws for one that
  does not exist; it is an argument of the operations. Sets are ordered lists.
\<close>

type_synonym authority_getter = "account_name_type \<Rightarrow> authority res"

record sign_state =
  available_keys :: "public_key_type list"
  provided_signatures :: "(public_key_type \<times> bool) list"
  unused_signatures :: "public_key_type list"
  used_signatures :: "public_key_type list"
  approved_by :: "(account_name_type \<times> bool) list"
  unused_approvals :: "account_name_type list"
  max_recursion :: nat

definition mk_sign_state :: "public_key_type list \<Rightarrow> public_key_type list \<Rightarrow> sign_state" where
  "mk_sign_state sigs keys = \<lparr>
     available_keys = keys,
     provided_signatures = fold (\<lambda>k. flat_put k False) sigs [],
     unused_signatures = [], used_signatures = [],
     approved_by = flat_put ''temp'' True [],
     unused_approvals = [],
     max_recursion = STEEMIT_MAX_SIG_CHECK_DEPTH\<rparr>"

definition signed_by :: "public_key_type \<Rightarrow> sign_state \<Rightarrow> bool \<times> sign_state" where
  "signed_by k s =
     (case map_of (provided_signatures s) k of
        None \<Rightarrow>
          if k \<in> set (available_keys s)
          then (True, s\<lparr>provided_signatures := flat_put k True (provided_signatures s)\<rparr>)
          else (False, s)
      | Some _ \<Rightarrow> (True, s\<lparr>provided_signatures := flat_put k True (provided_signatures s)\<rparr>))"

text \<open>The loop over the key authorities; the first component tells whether the loop returned.\<close>

fun check_keys ::
  "32 word \<Rightarrow> (public_key_type \<times> weight_type) list \<Rightarrow> 32 word \<Rightarrow> sign_state \<Rightarrow>
   bool \<times> 32 word \<times> sign_state" where
  "check_keys thr [] tw s = (False, tw, s)"
| "check_keys thr ((k, w) # ks) tw s =
     (let (b, s) = signed_by k s in
      if b then
        let tw = tw + ucast w in
        if tw \<ge> thr then (True, tw, s) else check_keys thr ks tw s
      else check_keys thr ks tw s)"

text \<open>
  \<^verbatim>\<open>check_authority(auth, depth)\<close>. The argument \<open>levels\<close> is \<^verbatim>\<open>max_recursion - depth\<close>, so
  \<open>levels = 0\<close> is the code's \<^verbatim>\<open>depth == max_recursion\<close> and a recursive call passes one less.
  \<open>check_accounts\<close> is the loop over the account authorities and the final comparison.
\<close>

fun check_accounts ::
  "authority_getter \<Rightarrow> nat \<Rightarrow> 32 word \<Rightarrow> (account_name_type \<times> weight_type) list \<Rightarrow> 32 word \<Rightarrow>
   sign_state \<Rightarrow> (bool \<times> sign_state) res"
and check_authority_at ::
  "authority_getter \<Rightarrow> nat \<Rightarrow> authority \<Rightarrow> sign_state \<Rightarrow> (bool \<times> sign_state) res" where
  "check_accounts get_active levels thr [] tw s = Inr (tw \<ge> thr, s)"
| "check_accounts get_active levels thr ((a, w) # as) tw s =
     (if map_of (approved_by s) a = None then
        (case levels of
           0 \<Rightarrow> check_accounts get_active levels thr as tw s
         | Suc below \<Rightarrow>
             bindR (get_active a) (\<lambda>auth.
             bindR (check_authority_at get_active below auth s) (\<lambda>(ok, s).
             if ok then
               let s = s\<lparr>approved_by := flat_put a True (approved_by s)\<rparr>;
                   tw = tw + ucast w
               in if tw \<ge> thr then Inr (True, s)
                  else check_accounts get_active levels thr as tw s
             else check_accounts get_active levels thr as tw s)))
      else
        let tw = tw + ucast w in
        if tw \<ge> thr then Inr (True, s)
        else check_accounts get_active levels thr as tw s)"
| "check_authority_at get_active levels auth s =
     (let (returned, tw, s) = check_keys (weight_threshold auth) (key_auths auth) 0 s in
      if returned then Inr (True, s)
      else check_accounts get_active levels (weight_threshold auth) (account_auths auth) tw s)"

definition check_authority :: "authority_getter \<Rightarrow> authority \<Rightarrow> sign_state \<Rightarrow> (bool \<times> sign_state) res" where
  "check_authority get_active auth s = check_authority_at get_active (max_recursion s) auth s"

definition check_account_authority ::
  "authority_getter \<Rightarrow> account_name_type \<Rightarrow> sign_state \<Rightarrow> (bool \<times> sign_state) res" where
  "check_account_authority get_active i s =
     (if map_of (approved_by s) i \<noteq> None
      then Inr (True, s\<lparr>approved_by := flat_put i True (approved_by s)\<rparr>)
      else bindR (get_active i) (\<lambda>auth. check_authority get_active auth s))"

definition remove_unused_signatures :: "sign_state \<Rightarrow> bool \<times> sign_state" where
  "remove_unused_signatures s =
     (let unused = map fst (filter (\<lambda>sig. \<not> snd sig) (provided_signatures s));
          used = map fst (filter snd (provided_signatures s))
      in (unused \<noteq> [],
          s\<lparr>used_signatures := used, unused_signatures := unused,
            provided_signatures := filter (\<lambda>sig. fst sig \<notin> set unused) (provided_signatures s)\<rparr>))"

definition filter_unused_approvals :: "sign_state \<Rightarrow> bool \<times> sign_state" where
  "filter_unused_approvals s =
     (let unused = map fst (filter (\<lambda>approval. \<not> snd approval) (approved_by s))
      in (unused \<noteq> [], s\<lparr>unused_approvals := unused\<rparr>))"

end
