(* ===== verification/Operations.thy ===== *)
theory Operations
  imports Asset Authority Version
begin

text \<open>
  The operations a transaction may carry, from \<^verbatim>\<open>steem_operations.hpp\<close>,
  \<^verbatim>\<open>proposal_operations.hpp\<close> and \<^verbatim>\<open>steem_virtual_operations.hpp\<close>: one record per structure and
  one definition per \<^verbatim>\<open>get_required_*_authorities\<close> method, which adds to the set it is given.
  A record field carries a three-letter prefix of its operation. Unsigned fields that are only
  compared are natural numbers, times are seconds, hashes and signatures are byte strings.
\<close>

type_synonym time_point_sec = int
type_synonym digest_type = string
type_synonym block_id_type = string
type_synonym signature_type = string
type_synonym extensions_type = "unit list"

section \<open>Operations\<close>

record account_create_operation =
  acr_fee :: asset
  acr_creator :: account_name_type
  acr_new_account_name :: account_name_type
  acr_owner :: authority
  acr_active :: authority
  acr_posting :: authority
  acr_memo_key :: public_key_type
  acr_json_metadata :: string

definition account_create_required_active :: "account_create_operation \<Rightarrow> account_name_type list \<Rightarrow> account_name_type list" where
  "account_create_required_active op a = flat_ins (acr_creator op) a"

record account_referral_options =
  aro_referrer :: account_name_type
  aro_interest_rate :: nat
  aro_end_date :: time_point_sec
  aro_break_fee :: asset

record account_create_with_delegation_operation =
  acd_fee :: asset
  acd_delegation :: asset
  acd_creator :: account_name_type
  acd_new_account_name :: account_name_type
  acd_owner :: authority
  acd_active :: authority
  acd_posting :: authority
  acd_memo_key :: public_key_type
  acd_json_metadata :: string
  acd_extensions :: "account_referral_options list"

definition account_create_with_delegation_required_active :: "account_create_with_delegation_operation \<Rightarrow> account_name_type list \<Rightarrow> account_name_type list" where
  "account_create_with_delegation_required_active op a = flat_ins (acd_creator op) a"

record account_update_operation =
  aup_account :: account_name_type
  aup_owner :: "authority option"
  aup_active :: "authority option"
  aup_posting :: "authority option"
  aup_memo_key :: public_key_type
  aup_json_metadata :: string

definition account_update_required_active :: "account_update_operation \<Rightarrow> account_name_type list \<Rightarrow> account_name_type list" where
  "account_update_required_active op a = (if aup_owner op = None then flat_ins (aup_account op) a else a)"

definition account_update_required_owner :: "account_update_operation \<Rightarrow> account_name_type list \<Rightarrow> account_name_type list" where
  "account_update_required_owner op a = (if aup_owner op \<noteq> None then flat_ins (aup_account op) a else a)"

record account_metadata_operation =
  amd_account :: account_name_type
  amd_json_metadata :: string

definition account_metadata_required_posting :: "account_metadata_operation \<Rightarrow> account_name_type list \<Rightarrow> account_name_type list" where
  "account_metadata_required_posting op a = flat_ins (amd_account op) a"

record comment_operation =
  cmt_parent_author :: account_name_type
  cmt_parent_permlink :: string
  cmt_author :: account_name_type
  cmt_permlink :: string
  cmt_title :: string
  cmt_body :: string
  cmt_json_metadata :: string

definition comment_required_posting :: "comment_operation \<Rightarrow> account_name_type list \<Rightarrow> account_name_type list" where
  "comment_required_posting op a = flat_ins (cmt_author op) a"

record beneficiary_route_type =
  bnf_account :: account_name_type
  bnf_weight :: nat

datatype auction_window_reward_destination_type = to_reward_fund | to_curators | to_author

datatype comment_options_extension =
    Comment_payout_beneficiaries "beneficiary_route_type list"
  | Comment_auction_window_reward_destination auction_window_reward_destination_type
  | Comment_curation_rewards_percent nat

record comment_options_operation =
  cop_author :: account_name_type
  cop_permlink :: string
  cop_max_accepted_payout :: asset
  cop_percent_steem_dollars :: nat
  cop_allow_votes :: bool
  cop_allow_curation_rewards :: bool
  cop_extensions :: "comment_options_extension list"

definition comment_options_required_posting :: "comment_options_operation \<Rightarrow> account_name_type list \<Rightarrow> account_name_type list" where
  "comment_options_required_posting op a = flat_ins (cop_author op) a"

record challenge_authority_operation =
  cha_challenger :: account_name_type
  cha_challenged :: account_name_type
  cha_require_owner :: bool

definition challenge_authority_required_active :: "challenge_authority_operation \<Rightarrow> account_name_type list \<Rightarrow> account_name_type list" where
  "challenge_authority_required_active op a = flat_ins (cha_challenger op) a"

record prove_authority_operation =
  pra_challenged :: account_name_type
  pra_require_owner :: bool

definition prove_authority_required_active :: "prove_authority_operation \<Rightarrow> account_name_type list \<Rightarrow> account_name_type list" where
  "prove_authority_required_active op a = (if \<not> pra_require_owner op then flat_ins (pra_challenged op) a else a)"

definition prove_authority_required_owner :: "prove_authority_operation \<Rightarrow> account_name_type list \<Rightarrow> account_name_type list" where
  "prove_authority_required_owner op a = (if pra_require_owner op then flat_ins (pra_challenged op) a else a)"

record delete_comment_operation =
  dlc_author :: account_name_type
  dlc_permlink :: string

definition delete_comment_required_posting :: "delete_comment_operation \<Rightarrow> account_name_type list \<Rightarrow> account_name_type list" where
  "delete_comment_required_posting op a = flat_ins (dlc_author op) a"

record vote_operation =
  vot_voter :: account_name_type
  vot_author :: account_name_type
  vot_permlink :: string
  vot_weight :: int

definition vote_required_posting :: "vote_operation \<Rightarrow> account_name_type list \<Rightarrow> account_name_type list" where
  "vote_required_posting op a = flat_ins (vot_voter op) a"

record transfer_operation =
  trf_from :: account_name_type
  trf_to :: account_name_type
  trf_amount :: asset
  trf_memo :: string

definition transfer_required_active :: "transfer_operation \<Rightarrow> account_name_type list \<Rightarrow> account_name_type list" where
  "transfer_required_active op a = (if symbol (trf_amount op) \<noteq> VESTS_SYMBOL then flat_ins (trf_from op) a else a)"

definition transfer_required_owner :: "transfer_operation \<Rightarrow> account_name_type list \<Rightarrow> account_name_type list" where
  "transfer_required_owner op a = (if symbol (trf_amount op) = VESTS_SYMBOL then flat_ins (trf_from op) a else a)"

record escrow_transfer_operation =
  est_from :: account_name_type
  est_to :: account_name_type
  est_agent :: account_name_type
  est_escrow_id :: nat
  est_sbd_amount :: asset
  est_steem_amount :: asset
  est_fee :: asset
  est_ratification_deadline :: time_point_sec
  est_escrow_expiration :: time_point_sec
  est_json_meta :: string

definition escrow_transfer_required_active :: "escrow_transfer_operation \<Rightarrow> account_name_type list \<Rightarrow> account_name_type list" where
  "escrow_transfer_required_active op a = flat_ins (est_from op) a"

record escrow_approve_operation =
  esa_from :: account_name_type
  esa_to :: account_name_type
  esa_agent :: account_name_type
  esa_who :: account_name_type
  esa_escrow_id :: nat
  esa_approve :: bool

definition escrow_approve_required_active :: "escrow_approve_operation \<Rightarrow> account_name_type list \<Rightarrow> account_name_type list" where
  "escrow_approve_required_active op a = flat_ins (esa_who op) a"

record escrow_dispute_operation =
  esd_from :: account_name_type
  esd_to :: account_name_type
  esd_agent :: account_name_type
  esd_who :: account_name_type
  esd_escrow_id :: nat

definition escrow_dispute_required_active :: "escrow_dispute_operation \<Rightarrow> account_name_type list \<Rightarrow> account_name_type list" where
  "escrow_dispute_required_active op a = flat_ins (esd_who op) a"

record escrow_release_operation =
  esr_from :: account_name_type
  esr_to :: account_name_type
  esr_agent :: account_name_type
  esr_who :: account_name_type
  esr_receiver :: account_name_type
  esr_escrow_id :: nat
  esr_sbd_amount :: asset
  esr_steem_amount :: asset

definition escrow_release_required_active :: "escrow_release_operation \<Rightarrow> account_name_type list \<Rightarrow> account_name_type list" where
  "escrow_release_required_active op a = flat_ins (esr_who op) a"

record transfer_to_vesting_operation =
  ttv_from :: account_name_type
  ttv_to :: account_name_type
  ttv_amount :: asset

definition transfer_to_vesting_required_active :: "transfer_to_vesting_operation \<Rightarrow> account_name_type list \<Rightarrow> account_name_type list" where
  "transfer_to_vesting_required_active op a = flat_ins (ttv_from op) a"

record withdraw_vesting_operation =
  wdv_account :: account_name_type
  wdv_vesting_shares :: asset

definition withdraw_vesting_required_active :: "withdraw_vesting_operation \<Rightarrow> account_name_type list \<Rightarrow> account_name_type list" where
  "withdraw_vesting_required_active op a = flat_ins (wdv_account op) a"

record set_withdraw_vesting_route_operation =
  swr_from_account :: account_name_type
  swr_to_account :: account_name_type
  swr_percent :: nat
  swr_auto_vest :: bool

definition set_withdraw_vesting_route_required_active :: "set_withdraw_vesting_route_operation \<Rightarrow> account_name_type list \<Rightarrow> account_name_type list" where
  "set_withdraw_vesting_route_required_active op a = flat_ins (swr_from_account op) a"

datatype curation_curve = Curve_bounded | Curve_linear | Curve_square_root | Curve_size | Curve_detect

text \<open>
  The votable chain properties. A derived structure extends its base, as in the code; the
  assignments from another version are \<open>assign_17_from_18\<close> and \<open>assign_from_17\<close>.
\<close>

record chain_properties_17 =
  account_creation_fee :: asset
  maximum_block_size :: nat
  sbd_interest_rate :: nat

record chain_properties_18 = chain_properties_17 +
  create_account_min_golos_fee :: asset
  create_account_min_delegation :: asset
  create_account_delegation_time :: nat
  min_delegation :: asset

record chain_properties_19 = chain_properties_18 +
  max_referral_interest_rate :: nat
  max_referral_term_sec :: nat
  min_referral_break_fee :: asset
  max_referral_break_fee :: asset
  posts_window :: nat
  posts_per_window :: nat
  comments_window :: nat
  comments_per_window :: nat
  votes_window :: nat
  votes_per_window :: nat
  auction_window_size :: nat
  max_delegated_vesting_interest_rate :: nat
  custom_ops_bandwidth_multiplier :: nat
  min_curation_percent :: nat
  max_curation_percent :: nat
  curation_reward_curve :: curation_curve
  allow_return_auction_reward_to_fund :: bool
  allow_distribute_auction_reward :: bool

definition assign_17_from_18 :: "chain_properties_17 \<Rightarrow> 'a chain_properties_18_scheme \<Rightarrow> chain_properties_17" where
  "assign_17_from_18 p src = p\<lparr>
     account_creation_fee := account_creation_fee src,
     maximum_block_size := maximum_block_size src,
     sbd_interest_rate := sbd_interest_rate src\<rparr>"

definition assign_from_17 ::
  "'a chain_properties_18_scheme \<Rightarrow> 'b chain_properties_17_scheme \<Rightarrow> 'a chain_properties_18_scheme" where
  "assign_from_17 p src = p\<lparr>
     account_creation_fee := account_creation_fee src,
     maximum_block_size := maximum_block_size src,
     sbd_interest_rate := sbd_interest_rate src\<rparr>"

datatype versioned_chain_properties =
    Props_17 chain_properties_17
  | Props_18 chain_properties_18
  | Props_19 chain_properties_19

record witness_update_operation =
  wup_owner :: account_name_type
  wup_url :: string
  wup_block_signing_key :: public_key_type
  wup_props :: chain_properties_17
  wup_fee :: asset

definition witness_update_required_active :: "witness_update_operation \<Rightarrow> account_name_type list \<Rightarrow> account_name_type list" where
  "witness_update_required_active op a = flat_ins (wup_owner op) a"

record chain_properties_update_operation =
  cpu_owner :: account_name_type
  cpu_props :: versioned_chain_properties

definition chain_properties_update_required_active :: "chain_properties_update_operation \<Rightarrow> account_name_type list \<Rightarrow> account_name_type list" where
  "chain_properties_update_required_active op a = flat_ins (cpu_owner op) a"

record account_witness_vote_operation =
  awv_account :: account_name_type
  awv_witness :: account_name_type
  awv_approve :: bool

definition account_witness_vote_required_active :: "account_witness_vote_operation \<Rightarrow> account_name_type list \<Rightarrow> account_name_type list" where
  "account_witness_vote_required_active op a = flat_ins (awv_account op) a"

record account_witness_proxy_operation =
  awp_account :: account_name_type
  awp_proxy :: account_name_type

definition account_witness_proxy_required_active :: "account_witness_proxy_operation \<Rightarrow> account_name_type list \<Rightarrow> account_name_type list" where
  "account_witness_proxy_required_active op a = flat_ins (awp_account op) a"

record custom_operation =
  cus_required_auths :: "account_name_type list"
  cus_id :: nat
  cus_data :: string

definition custom_required_active :: "custom_operation \<Rightarrow> account_name_type list \<Rightarrow> account_name_type list" where
  "custom_required_active op a = fold flat_ins (cus_required_auths op) a"

record custom_json_operation =
  cuj_required_auths :: "account_name_type list"
  cuj_required_posting_auths :: "account_name_type list"
  cuj_id :: string
  cuj_json :: string

definition custom_json_required_active :: "custom_json_operation \<Rightarrow> account_name_type list \<Rightarrow> account_name_type list" where
  "custom_json_required_active op a = fold flat_ins (cuj_required_auths op) a"

definition custom_json_required_posting :: "custom_json_operation \<Rightarrow> account_name_type list \<Rightarrow> account_name_type list" where
  "custom_json_required_posting op a = fold flat_ins (cuj_required_posting_auths op) a"

record custom_binary_operation =
  cub_required_owner_auths :: "account_name_type list"
  cub_required_active_auths :: "account_name_type list"
  cub_required_posting_auths :: "account_name_type list"
  cub_required_auths :: "authority list"
  cub_id :: string
  cub_data :: string

definition custom_binary_required_active :: "custom_binary_operation \<Rightarrow> account_name_type list \<Rightarrow> account_name_type list" where
  "custom_binary_required_active op a = fold flat_ins (cub_required_active_auths op) a"

definition custom_binary_required_owner :: "custom_binary_operation \<Rightarrow> account_name_type list \<Rightarrow> account_name_type list" where
  "custom_binary_required_owner op a = fold flat_ins (cub_required_owner_auths op) a"

definition custom_binary_required_posting :: "custom_binary_operation \<Rightarrow> account_name_type list \<Rightarrow> account_name_type list" where
  "custom_binary_required_posting op a = fold flat_ins (cub_required_posting_auths op) a"

definition custom_binary_required_other :: "custom_binary_operation \<Rightarrow> authority list \<Rightarrow> authority list" where
  "custom_binary_required_other op a = a @ cub_required_auths op"

record feed_publish_operation =
  fpb_publisher :: account_name_type
  fpb_exchange_rate :: price

definition feed_publish_required_active :: "feed_publish_operation \<Rightarrow> account_name_type list \<Rightarrow> account_name_type list" where
  "feed_publish_required_active op a = flat_ins (fpb_publisher op) a"

record convert_operation =
  cvo_owner :: account_name_type
  cvo_requestid :: nat
  cvo_amount :: asset

definition convert_required_active :: "convert_operation \<Rightarrow> account_name_type list \<Rightarrow> account_name_type list" where
  "convert_required_active op a = flat_ins (cvo_owner op) a"

record limit_order_create_operation =
  loc_owner :: account_name_type
  loc_orderid :: nat
  loc_amount_to_sell :: asset
  loc_min_to_receive :: asset
  loc_fill_or_kill :: bool
  loc_expiration :: time_point_sec

definition limit_order_create_required_active :: "limit_order_create_operation \<Rightarrow> account_name_type list \<Rightarrow> account_name_type list" where
  "limit_order_create_required_active op a = flat_ins (loc_owner op) a"

record limit_order_create2_operation =
  loc2_owner :: account_name_type
  loc2_orderid :: nat
  loc2_amount_to_sell :: asset
  loc2_fill_or_kill :: bool
  loc2_exchange_rate :: price
  loc2_expiration :: time_point_sec

definition limit_order_create2_required_active :: "limit_order_create2_operation \<Rightarrow> account_name_type list \<Rightarrow> account_name_type list" where
  "limit_order_create2_required_active op a = flat_ins (loc2_owner op) a"

record limit_order_cancel_operation =
  lca_owner :: account_name_type
  lca_orderid :: nat

definition limit_order_cancel_required_active :: "limit_order_cancel_operation \<Rightarrow> account_name_type list \<Rightarrow> account_name_type list" where
  "limit_order_cancel_required_active op a = flat_ins (lca_owner op) a"

record pow =
  pow_worker :: public_key_type
  pow_input :: digest_type
  pow_signature :: signature_type
  pow_work :: digest_type

record pow_operation =
  pwo_worker_account :: account_name_type
  pwo_block_id :: block_id_type
  pwo_nonce :: nat
  pwo_work :: pow
  pwo_props :: chain_properties_17

definition pow_required_active :: "pow_operation \<Rightarrow> account_name_type list \<Rightarrow> account_name_type list" where
  "pow_required_active op a = a"

record pow2_input =
  p2i_worker_account :: account_name_type
  p2i_prev_block :: block_id_type
  p2i_nonce :: nat

record pow2 =
  p2w_input :: pow2_input
  p2w_pow_summary :: nat

text \<open>\<^verbatim>\<open>fc::equihash::proof\<close>, as the code reads it.\<close>

record equihash_proof =
  eqh_n :: nat
  eqh_k :: nat
  eqh_seed :: digest_type
  eqh_inputs :: "nat list"

record equihash_pow =
  eqp_input :: pow2_input
  eqp_proof :: equihash_proof
  eqp_prev_block :: block_id_type
  eqp_pow_summary :: nat

datatype pow2_work = Pow2 pow2 | Equihash_pow equihash_pow

record pow2_operation =
  p2o_work :: pow2_work
  p2o_new_owner_key :: "public_key_type option"
  p2o_props :: chain_properties_17

definition pow2_required_active :: "pow2_operation \<Rightarrow> account_name_type list \<Rightarrow> account_name_type list" where
  "pow2_required_active op a = (if p2o_new_owner_key op = None
      then flat_ins (case p2o_work op of
             Pow2 w \<Rightarrow> p2i_worker_account (p2w_input w)
           | Equihash_pow w \<Rightarrow> p2i_worker_account (eqp_input w)) a
      else a)"

definition pow2_required_other :: "pow2_operation \<Rightarrow> authority list \<Rightarrow> authority list" where
  "pow2_required_other op a = (case p2o_new_owner_key op of
        Some k \<Rightarrow> a @ [add_authority_key (default_authority\<lparr>weight_threshold := 1\<rparr>) k 1]
      | None \<Rightarrow> a)"

datatype block_header_extensions =
  Ext_void | Ext_version version | Ext_hardfork_version_vote hardfork_version_vote

record block_header =
  bh_previous :: block_id_type
  bh_timestamp :: time_point_sec
  bh_witness :: string
  bh_transaction_merkle_root :: digest_type
  bh_extensions :: "block_header_extensions list"

record signed_block_header = block_header +
  sbh_witness_signature :: signature_type

record report_over_production_operation =
  rop_reporter :: account_name_type
  rop_first_block :: signed_block_header
  rop_second_block :: signed_block_header

record request_account_recovery_operation =
  rar_recovery_account :: account_name_type
  rar_account_to_recover :: account_name_type
  rar_new_owner_authority :: authority
  rar_extensions :: extensions_type

definition request_account_recovery_required_active :: "request_account_recovery_operation \<Rightarrow> account_name_type list \<Rightarrow> account_name_type list" where
  "request_account_recovery_required_active op a = flat_ins (rar_recovery_account op) a"

record recover_account_operation =
  rac_account_to_recover :: account_name_type
  rac_new_owner_authority :: authority
  rac_recent_owner_authority :: authority
  rac_extensions :: extensions_type

definition recover_account_required_other :: "recover_account_operation \<Rightarrow> authority list \<Rightarrow> authority list" where
  "recover_account_required_other op a = a @ [rac_new_owner_authority op, rac_recent_owner_authority op]"

record reset_account_operation =
  rst_reset_account :: account_name_type
  rst_account_to_reset :: account_name_type
  rst_new_owner_authority :: authority

definition reset_account_required_active :: "reset_account_operation \<Rightarrow> account_name_type list \<Rightarrow> account_name_type list" where
  "reset_account_required_active op a = flat_ins (rst_reset_account op) a"

record set_reset_account_operation =
  sra_account :: account_name_type
  sra_current_reset_account :: account_name_type
  sra_reset_account :: account_name_type

definition set_reset_account_required_owner :: "set_reset_account_operation \<Rightarrow> account_name_type list \<Rightarrow> account_name_type list" where
  "set_reset_account_required_owner op a = (if sra_current_reset_account op \<noteq> [] then flat_ins (sra_account op) a else a)"

definition set_reset_account_required_posting :: "set_reset_account_operation \<Rightarrow> account_name_type list \<Rightarrow> account_name_type list" where
  "set_reset_account_required_posting op a = (if sra_current_reset_account op = [] then flat_ins (sra_account op) a else a)"

record change_recovery_account_operation =
  cra_account_to_recover :: account_name_type
  cra_new_recovery_account :: account_name_type
  cra_extensions :: extensions_type

definition change_recovery_account_required_owner :: "change_recovery_account_operation \<Rightarrow> account_name_type list \<Rightarrow> account_name_type list" where
  "change_recovery_account_required_owner op a = flat_ins (cra_account_to_recover op) a"

record transfer_to_savings_operation =
  tts_from :: account_name_type
  tts_to :: account_name_type
  tts_amount :: asset
  tts_memo :: string

definition transfer_to_savings_required_active :: "transfer_to_savings_operation \<Rightarrow> account_name_type list \<Rightarrow> account_name_type list" where
  "transfer_to_savings_required_active op a = flat_ins (tts_from op) a"

record transfer_from_savings_operation =
  tfs_from :: account_name_type
  tfs_request_id :: nat
  tfs_to :: account_name_type
  tfs_amount :: asset
  tfs_memo :: string

definition transfer_from_savings_required_active :: "transfer_from_savings_operation \<Rightarrow> account_name_type list \<Rightarrow> account_name_type list" where
  "transfer_from_savings_required_active op a = flat_ins (tfs_from op) a"

record cancel_transfer_from_savings_operation =
  ctf_from :: account_name_type
  ctf_request_id :: nat

definition cancel_transfer_from_savings_required_active :: "cancel_transfer_from_savings_operation \<Rightarrow> account_name_type list \<Rightarrow> account_name_type list" where
  "cancel_transfer_from_savings_required_active op a = flat_ins (ctf_from op) a"

record decline_voting_rights_operation =
  dvr_account :: account_name_type
  dvr_decline :: bool

definition decline_voting_rights_required_owner :: "decline_voting_rights_operation \<Rightarrow> account_name_type list \<Rightarrow> account_name_type list" where
  "decline_voting_rights_required_owner op a = flat_ins (dvr_account op) a"

record delegate_vesting_shares_operation =
  dvs_delegator :: account_name_type
  dvs_delegatee :: account_name_type
  dvs_vesting_shares :: asset

definition delegate_vesting_shares_required_active :: "delegate_vesting_shares_operation \<Rightarrow> account_name_type list \<Rightarrow> account_name_type list" where
  "delegate_vesting_shares_required_active op a = flat_ins (dvs_delegator op) a"

record break_free_referral_operation =
  bfr_referral :: account_name_type
  bfr_extensions :: extensions_type

definition break_free_referral_required_active :: "break_free_referral_operation \<Rightarrow> account_name_type list \<Rightarrow> account_name_type list" where
  "break_free_referral_required_active op a = flat_ins (bfr_referral op) a"

datatype delegator_payout_strategy = to_delegator | to_delegated_vesting | payout_strategy_size

record delegate_vesting_shares_with_interest_operation =
  dvi_delegator :: account_name_type
  dvi_delegatee :: account_name_type
  dvi_vesting_shares :: asset
  dvi_interest_rate :: nat
  dvi_payout_strategy :: delegator_payout_strategy
  dvi_extensions :: extensions_type

definition delegate_vesting_shares_with_interest_required_active :: "delegate_vesting_shares_with_interest_operation \<Rightarrow> account_name_type list \<Rightarrow> account_name_type list" where
  "delegate_vesting_shares_with_interest_required_active op a = flat_ins (dvi_delegator op) a"

record reject_vesting_shares_delegation_operation =
  rvd_delegator :: account_name_type
  rvd_delegatee :: account_name_type
  rvd_extensions :: extensions_type

definition reject_vesting_shares_delegation_required_active :: "reject_vesting_shares_delegation_operation \<Rightarrow> account_name_type list \<Rightarrow> account_name_type list" where
  "reject_vesting_shares_delegation_required_active op a = flat_ins (rvd_delegatee op) a"

record transit_to_cyberway_operation =
  ttc_owner :: account_name_type
  ttc_vote_to_transit :: bool

definition transit_to_cyberway_required_active :: "transit_to_cyberway_operation \<Rightarrow> account_name_type list \<Rightarrow> account_name_type list" where
  "transit_to_cyberway_required_active op a = flat_ins (ttc_owner op) a"

record proposal_update_operation =
  pup_author :: account_name_type
  pup_title :: string
  pup_active_approvals_to_add :: "account_name_type list"
  pup_active_approvals_to_remove :: "account_name_type list"
  pup_owner_approvals_to_add :: "account_name_type list"
  pup_owner_approvals_to_remove :: "account_name_type list"
  pup_posting_approvals_to_add :: "account_name_type list"
  pup_posting_approvals_to_remove :: "account_name_type list"
  pup_key_approvals_to_add :: "public_key_type list"
  pup_key_approvals_to_remove :: "public_key_type list"
  pup_extensions :: extensions_type

definition proposal_update_required_active :: "proposal_update_operation \<Rightarrow> account_name_type list \<Rightarrow> account_name_type list" where
  "proposal_update_required_active op a = fold flat_ins (pup_active_approvals_to_remove op) (fold flat_ins (pup_active_approvals_to_add op) a)"

definition proposal_update_required_owner :: "proposal_update_operation \<Rightarrow> account_name_type list \<Rightarrow> account_name_type list" where
  "proposal_update_required_owner op a = fold flat_ins (pup_owner_approvals_to_remove op) (fold flat_ins (pup_owner_approvals_to_add op) a)"

definition proposal_update_required_posting :: "proposal_update_operation \<Rightarrow> account_name_type list \<Rightarrow> account_name_type list" where
  "proposal_update_required_posting op a = fold flat_ins (pup_posting_approvals_to_remove op) (fold flat_ins (pup_posting_approvals_to_add op) a)"

definition proposal_update_required_other :: "proposal_update_operation \<Rightarrow> authority list \<Rightarrow> authority list" where
  "proposal_update_required_other op a = (let ks = fold (\<lambda>k. flat_put k 1) (pup_key_approvals_to_add op) [];
          ks = fold (\<lambda>k. flat_put k 1) (pup_key_approvals_to_remove op) ks
      in if length ks > 0
         then a @ [\<lparr>weight_threshold = of_nat (length ks), account_auths = [], key_auths = ks\<rparr>]
         else a)"

record proposal_delete_operation =
  pde_author :: account_name_type
  pde_title :: string
  pde_requester :: account_name_type
  pde_extensions :: extensions_type

definition proposal_delete_required_active :: "proposal_delete_operation \<Rightarrow> account_name_type list \<Rightarrow> account_name_type list" where
  "proposal_delete_required_active op a = flat_ins (pde_requester op) a"

section \<open>Virtual operations\<close>

text \<open>Operations the chain itself emits; they are never valid in a transaction.\<close>

datatype (plugins only: code size) virtual_operation =
    Fill_convert_request account_name_type nat asset asset
  | Author_reward account_name_type string asset asset asset asset asset
  | Curation_reward account_name_type asset account_name_type string asset
  | Comment_reward account_name_type string asset
  | Liquidity_reward account_name_type asset
  | Interest account_name_type asset
  | Fill_vesting_withdraw account_name_type account_name_type asset asset
  | Fill_order account_name_type nat asset account_name_type nat asset
  | Shutdown_witness account_name_type
  | Fill_transfer_from_savings account_name_type account_name_type asset nat string
  | Hardfork nat
  | Comment_payout_update account_name_type string
  | Comment_benefactor_reward account_name_type account_name_type string asset asset
  | Return_vesting_delegation account_name_type asset
  | Producer_reward account_name_type asset
  | Delegation_reward account_name_type account_name_type delegator_payout_strategy asset asset
  | Auction_window_reward asset account_name_type string
  | Total_comment_reward account_name_type string asset asset asset int

section \<open>The operation variant\<close>

text \<open>
  \<^verbatim>\<open>operation\<close> in the order of \<^verbatim>\<open>operations.hpp\<close>. A proposal contains operations, so
  \<^verbatim>\<open>proposal_create_operation\<close> is a constructor with the fields of the structure: author, title,
  memo, proposed operations, expiration time, review period time and extensions.
\<close>

datatype (plugins only: code size) operation =
    Op_vote vote_operation
  | Op_comment comment_operation
  | Op_transfer transfer_operation
  | Op_transfer_to_vesting transfer_to_vesting_operation
  | Op_withdraw_vesting withdraw_vesting_operation
  | Op_limit_order_create limit_order_create_operation
  | Op_limit_order_cancel limit_order_cancel_operation
  | Op_feed_publish feed_publish_operation
  | Op_convert convert_operation
  | Op_account_create account_create_operation
  | Op_account_update account_update_operation
  | Op_witness_update witness_update_operation
  | Op_account_witness_vote account_witness_vote_operation
  | Op_account_witness_proxy account_witness_proxy_operation
  | Op_pow pow_operation
  | Op_custom custom_operation
  | Op_report_over_production report_over_production_operation
  | Op_delete_comment delete_comment_operation
  | Op_custom_json custom_json_operation
  | Op_comment_options comment_options_operation
  | Op_set_withdraw_vesting_route set_withdraw_vesting_route_operation
  | Op_limit_order_create2 limit_order_create2_operation
  | Op_challenge_authority challenge_authority_operation
  | Op_prove_authority prove_authority_operation
  | Op_request_account_recovery request_account_recovery_operation
  | Op_recover_account recover_account_operation
  | Op_change_recovery_account change_recovery_account_operation
  | Op_escrow_transfer escrow_transfer_operation
  | Op_escrow_dispute escrow_dispute_operation
  | Op_escrow_release escrow_release_operation
  | Op_pow2 pow2_operation
  | Op_escrow_approve escrow_approve_operation
  | Op_transfer_to_savings transfer_to_savings_operation
  | Op_transfer_from_savings transfer_from_savings_operation
  | Op_cancel_transfer_from_savings cancel_transfer_from_savings_operation
  | Op_custom_binary custom_binary_operation
  | Op_decline_voting_rights decline_voting_rights_operation
  | Op_reset_account reset_account_operation
  | Op_set_reset_account set_reset_account_operation
  | Op_delegate_vesting_shares delegate_vesting_shares_operation
  | Op_account_create_with_delegation account_create_with_delegation_operation
  | Op_account_metadata account_metadata_operation
  | Op_proposal_create account_name_type string string "operation list" time_point_sec
      "time_point_sec option" extensions_type
  | Op_proposal_update proposal_update_operation
  | Op_proposal_delete proposal_delete_operation
  | Op_chain_properties_update chain_properties_update_operation
  | Op_break_free_referral break_free_referral_operation
  | Op_delegate_vesting_shares_with_interest delegate_vesting_shares_with_interest_operation
  | Op_reject_vesting_shares_delegation reject_vesting_shares_delegation_operation
  | Op_transit_to_cyberway transit_to_cyberway_operation
  | Op_virtual virtual_operation

section \<open>Required authorities\<close>

text \<open>
  The visitor \<^verbatim>\<open>operation_get_required_auth_visitor\<close>. An operation without a method of its own
  inherits the empty one of \<^verbatim>\<open>base_operation\<close>.
\<close>

definition required_active :: "operation \<Rightarrow> account_name_type list \<Rightarrow> account_name_type list" where
  "required_active operation a = (case operation of
      Op_transfer op \<Rightarrow> transfer_required_active op a
    | Op_transfer_to_vesting op \<Rightarrow> transfer_to_vesting_required_active op a
    | Op_withdraw_vesting op \<Rightarrow> withdraw_vesting_required_active op a
    | Op_limit_order_create op \<Rightarrow> limit_order_create_required_active op a
    | Op_limit_order_cancel op \<Rightarrow> limit_order_cancel_required_active op a
    | Op_feed_publish op \<Rightarrow> feed_publish_required_active op a
    | Op_convert op \<Rightarrow> convert_required_active op a
    | Op_account_create op \<Rightarrow> account_create_required_active op a
    | Op_account_update op \<Rightarrow> account_update_required_active op a
    | Op_witness_update op \<Rightarrow> witness_update_required_active op a
    | Op_account_witness_vote op \<Rightarrow> account_witness_vote_required_active op a
    | Op_account_witness_proxy op \<Rightarrow> account_witness_proxy_required_active op a
    | Op_pow op \<Rightarrow> pow_required_active op a
    | Op_custom op \<Rightarrow> custom_required_active op a
    | Op_custom_json op \<Rightarrow> custom_json_required_active op a
    | Op_set_withdraw_vesting_route op \<Rightarrow> set_withdraw_vesting_route_required_active op a
    | Op_limit_order_create2 op \<Rightarrow> limit_order_create2_required_active op a
    | Op_challenge_authority op \<Rightarrow> challenge_authority_required_active op a
    | Op_prove_authority op \<Rightarrow> prove_authority_required_active op a
    | Op_request_account_recovery op \<Rightarrow> request_account_recovery_required_active op a
    | Op_escrow_transfer op \<Rightarrow> escrow_transfer_required_active op a
    | Op_escrow_dispute op \<Rightarrow> escrow_dispute_required_active op a
    | Op_escrow_release op \<Rightarrow> escrow_release_required_active op a
    | Op_pow2 op \<Rightarrow> pow2_required_active op a
    | Op_escrow_approve op \<Rightarrow> escrow_approve_required_active op a
    | Op_transfer_to_savings op \<Rightarrow> transfer_to_savings_required_active op a
    | Op_transfer_from_savings op \<Rightarrow> transfer_from_savings_required_active op a
    | Op_cancel_transfer_from_savings op \<Rightarrow> cancel_transfer_from_savings_required_active op a
    | Op_custom_binary op \<Rightarrow> custom_binary_required_active op a
    | Op_reset_account op \<Rightarrow> reset_account_required_active op a
    | Op_delegate_vesting_shares op \<Rightarrow> delegate_vesting_shares_required_active op a
    | Op_account_create_with_delegation op \<Rightarrow> account_create_with_delegation_required_active op a
    | Op_proposal_create author _ _ _ _ _ _ \<Rightarrow> flat_ins author a
    | Op_proposal_update op \<Rightarrow> proposal_update_required_active op a
    | Op_proposal_delete op \<Rightarrow> proposal_delete_required_active op a
    | Op_chain_properties_update op \<Rightarrow> chain_properties_update_required_active op a
    | Op_break_free_referral op \<Rightarrow> break_free_referral_required_active op a
    | Op_delegate_vesting_shares_with_interest op \<Rightarrow> delegate_vesting_shares_with_interest_required_active op a
    | Op_reject_vesting_shares_delegation op \<Rightarrow> reject_vesting_shares_delegation_required_active op a
    | Op_transit_to_cyberway op \<Rightarrow> transit_to_cyberway_required_active op a
    | _ \<Rightarrow> a)"

definition required_owner :: "operation \<Rightarrow> account_name_type list \<Rightarrow> account_name_type list" where
  "required_owner operation a = (case operation of
      Op_transfer op \<Rightarrow> transfer_required_owner op a
    | Op_account_update op \<Rightarrow> account_update_required_owner op a
    | Op_prove_authority op \<Rightarrow> prove_authority_required_owner op a
    | Op_change_recovery_account op \<Rightarrow> change_recovery_account_required_owner op a
    | Op_custom_binary op \<Rightarrow> custom_binary_required_owner op a
    | Op_decline_voting_rights op \<Rightarrow> decline_voting_rights_required_owner op a
    | Op_set_reset_account op \<Rightarrow> set_reset_account_required_owner op a
    | Op_proposal_update op \<Rightarrow> proposal_update_required_owner op a
    | _ \<Rightarrow> a)"

definition required_posting :: "operation \<Rightarrow> account_name_type list \<Rightarrow> account_name_type list" where
  "required_posting operation a = (case operation of
      Op_vote op \<Rightarrow> vote_required_posting op a
    | Op_comment op \<Rightarrow> comment_required_posting op a
    | Op_delete_comment op \<Rightarrow> delete_comment_required_posting op a
    | Op_custom_json op \<Rightarrow> custom_json_required_posting op a
    | Op_comment_options op \<Rightarrow> comment_options_required_posting op a
    | Op_custom_binary op \<Rightarrow> custom_binary_required_posting op a
    | Op_set_reset_account op \<Rightarrow> set_reset_account_required_posting op a
    | Op_account_metadata op \<Rightarrow> account_metadata_required_posting op a
    | Op_proposal_update op \<Rightarrow> proposal_update_required_posting op a
    | _ \<Rightarrow> a)"

definition required_other :: "operation \<Rightarrow> authority list \<Rightarrow> authority list" where
  "required_other operation a = (case operation of
      Op_recover_account op \<Rightarrow> recover_account_required_other op a
    | Op_pow2 op \<Rightarrow> pow2_required_other op a
    | Op_custom_binary op \<Rightarrow> custom_binary_required_other op a
    | Op_proposal_update op \<Rightarrow> proposal_update_required_other op a
    | _ \<Rightarrow> a)"

type_synonym required_auths =
  "account_name_type list \<times> account_name_type list \<times> account_name_type list \<times> authority list"

definition operation_get_required_authorities :: "operation \<Rightarrow> required_auths \<Rightarrow> required_auths" where
  "operation_get_required_authorities op r =
     (case r of (active, owner, posting, other) \<Rightarrow>
        (required_active op active, required_owner op owner,
         required_posting op posting, required_other op other))"

section \<open>Classification\<close>

definition is_market_operation :: "operation \<Rightarrow> bool" where
  "is_market_operation op = (case op of
      Op_limit_order_create _ \<Rightarrow> True
    | Op_limit_order_cancel _ \<Rightarrow> True
    | Op_transfer _ \<Rightarrow> True
    | Op_transfer_to_vesting _ \<Rightarrow> True
    | _ \<Rightarrow> False)"

definition is_virtual_operation :: "operation \<Rightarrow> bool" where
  "is_virtual_operation op = (case op of Op_virtual _ \<Rightarrow> True | _ \<Rightarrow> False)"

definition is_custom_json_operation :: "operation \<Rightarrow> bool" where
  "is_custom_json_operation op = (case op of Op_custom_json _ \<Rightarrow> True | _ \<Rightarrow> False)"

section \<open>Prices and markets of limit orders\<close>

definition limit_order_create_get_price :: "limit_order_create_operation \<Rightarrow> price res" where
  "limit_order_create_get_price op = asset_div (loc_amount_to_sell op) (loc_min_to_receive op)"

definition limit_order_create_get_market :: "limit_order_create_operation \<Rightarrow> asset_symbol \<times> asset_symbol" where
  "limit_order_create_get_market op =
     (if symbol (loc_amount_to_sell op) < symbol (loc_min_to_receive op)
      then (symbol (loc_amount_to_sell op), symbol (loc_min_to_receive op))
      else (symbol (loc_min_to_receive op), symbol (loc_amount_to_sell op)))"

definition limit_order_create2_get_price :: "limit_order_create2_operation \<Rightarrow> price" where
  "limit_order_create2_get_price op = loc2_exchange_rate op"

definition limit_order_create2_get_market :: "limit_order_create2_operation \<Rightarrow> asset_symbol \<times> asset_symbol" where
  "limit_order_create2_get_market op =
     (let b = symbol (base (loc2_exchange_rate op)); q = symbol (quote (loc2_exchange_rate op))
      in if b < q then (b, q) else (q, b))"

end
