(* ===== verification/Chain_State.thy ===== *)
theory Chain_State
  imports Operations
begin

text \<open>
  The objects of the chain state (\<^verbatim>\<open>account_object.hpp\<close>, \<^verbatim>\<open>steem_objects.hpp\<close>,
  \<^verbatim>\<open>global_property_object.hpp\<close>, \<^verbatim>\<open>witness_objects.hpp\<close>) and the lookup functions of
  \<^verbatim>\<open>database.cpp\<close>. An index of the object database is the list of its objects; a reference to an
  object is its unique key, looked up again in the current state, so that an update made
  through one reference is seen through every other one. Every index has the counter from which
  the database numbers new objects. Virtual operations are appended to a log.
\<close>

section \<open>Accounts\<close>

record account_object =
  acc_id :: nat
  acc_name :: account_name_type
  acc_memo_key :: public_key_type
  acc_proxy :: account_name_type
  acc_last_account_update :: time_point_sec
  acc_created :: time_point_sec
  acc_mined :: bool
  acc_owner_challenged :: bool
  acc_active_challenged :: bool
  acc_last_owner_proved :: time_point_sec
  acc_last_active_proved :: time_point_sec
  acc_recovery_account :: account_name_type
  acc_reset_account :: account_name_type
  acc_last_account_recovery :: time_point_sec
  acc_comment_count :: nat
  acc_lifetime_vote_count :: nat
  acc_post_count :: nat
  acc_can_vote :: bool
  acc_voting_power :: nat
  acc_posts_capacity :: nat
  acc_comments_capacity :: nat
  acc_voting_capacity :: nat
  acc_last_vote_time :: time_point_sec
  acc_balance :: asset
  acc_savings_balance :: asset
  acc_sbd_balance :: asset
  acc_sbd_seconds :: int
  acc_sbd_seconds_last_update :: time_point_sec
  acc_sbd_last_interest_payment :: time_point_sec
  acc_savings_sbd_balance :: asset
  acc_savings_sbd_seconds :: int
  acc_savings_sbd_seconds_last_update :: time_point_sec
  acc_savings_sbd_last_interest_payment :: time_point_sec
  acc_savings_withdraw_requests :: nat
  acc_benefaction_rewards :: int
  acc_curation_rewards :: int
  acc_delegation_rewards :: int
  acc_posting_rewards :: int
  acc_vesting_shares :: asset
  acc_delegated_vesting_shares :: asset
  acc_received_vesting_shares :: asset
  acc_vesting_withdraw_rate :: asset
  acc_next_vesting_withdrawal :: time_point_sec
  acc_withdrawn :: int
  acc_to_withdraw :: int
  acc_withdraw_routes :: nat
  acc_proxied_vsf_votes :: "int list"
  acc_witnesses_voted_for :: nat
  acc_last_post :: time_point_sec
  acc_referrer_account :: account_name_type
  acc_referrer_interest_rate :: nat
  acc_referral_end_date :: time_point_sec
  acc_referral_break_fee :: asset

definition STEEMIT_MAX_PROXY_RECURSION_DEPTH :: nat where
  "STEEMIT_MAX_PROXY_RECURSION_DEPTH = 4"

definition STEEMIT_PROXY_TO_SELF_ACCOUNT :: account_name_type where
  "STEEMIT_PROXY_TO_SELF_ACCOUNT = []"

definition STEEMIT_NULL_ACCOUNT :: account_name_type where
  "STEEMIT_NULL_ACCOUNT = ''null''"

definition time_maximum :: time_point_sec where
  "time_maximum = 4294967295"

definition witness_vote_weight :: "fc_lib \<Rightarrow> account_object \<Rightarrow> int res" where
  "witness_vote_weight fc a =
     foldR (\<lambda>x s. safe_add fc s x) (acc_proxied_vsf_votes a) (amount (acc_vesting_shares a))"

definition proxied_vsf_votes_total :: "fc_lib \<Rightarrow> account_object \<Rightarrow> int res" where
  "proxied_vsf_votes_total fc a = foldR (\<lambda>x s. safe_add fc s x) (acc_proxied_vsf_votes a) 0"

definition effective_vesting_shares :: "fc_lib \<Rightarrow> account_object \<Rightarrow> asset res" where
  "effective_vesting_shares fc a =
     bindR (asset_sub fc (acc_vesting_shares a) (acc_delegated_vesting_shares a)) (\<lambda>d.
     asset_add fc d (acc_received_vesting_shares a))"

definition available_vesting_shares :: "fc_lib \<Rightarrow> bool \<Rightarrow> account_object \<Rightarrow> asset res" where
  "available_vesting_shares fc consider_withdrawal a =
     bindR (asset_sub fc (acc_vesting_shares a) (acc_delegated_vesting_shares a)) (\<lambda>have.
     if consider_withdrawal
     then bindR (safe_sub fc (acc_to_withdraw a) (acc_withdrawn a)) (\<lambda>d.
          asset_sub fc have \<lparr>amount = d, symbol = VESTS_SYMBOL\<rparr>)
     else Inr have)"

record vesting_delegation_object =
  vdo_id :: nat
  vdo_delegator :: account_name_type
  vdo_delegatee :: account_name_type
  vdo_vesting_shares :: asset
  vdo_interest_rate :: nat
  vdo_payout_strategy :: delegator_payout_strategy
  vdo_min_delegation_time :: time_point_sec

record vesting_delegation_expiration_object =
  vde_id :: nat
  vde_delegator :: account_name_type
  vde_vesting_shares :: asset
  vde_expiration :: time_point_sec

record account_authority_object =
  aut_account :: account_name_type
  aut_owner :: authority
  aut_active :: authority
  aut_posting :: authority
  aut_last_owner_update :: time_point_sec

record account_metadata_object =
  met_account :: account_name_type
  met_json_metadata :: string

record owner_authority_history_object =
  oah_id :: nat
  oah_account :: account_name_type
  oah_previous_owner_authority :: authority
  oah_last_valid_time :: time_point_sec

record account_recovery_request_object =
  rrq_id :: nat
  rrq_account_to_recover :: account_name_type
  rrq_new_owner_authority :: authority
  rrq_expires :: time_point_sec

record change_recovery_account_request_object =
  crq_account_to_recover :: account_name_type
  crq_recovery_account :: account_name_type
  crq_effective_on :: time_point_sec

section \<open>Pending transfers, orders and feeds\<close>

record convert_request_object =
  cvt_id :: nat
  cvt_owner :: account_name_type
  cvt_requestid :: nat
  cvt_amount :: asset
  cvt_conversion_date :: time_point_sec

record escrow_object =
  esc_id :: nat
  esc_escrow_id :: nat
  esc_from :: account_name_type
  esc_to :: account_name_type
  esc_agent :: account_name_type
  esc_ratification_deadline :: time_point_sec
  esc_escrow_expiration :: time_point_sec
  esc_sbd_balance :: asset
  esc_steem_balance :: asset
  esc_pending_fee :: asset
  esc_to_approved :: bool
  esc_agent_approved :: bool
  esc_disputed :: bool

definition esc_is_approved :: "escrow_object \<Rightarrow> bool" where
  "esc_is_approved e \<longleftrightarrow> esc_to_approved e \<and> esc_agent_approved e"

record savings_withdraw_object =
  swo_id :: nat
  swo_from :: account_name_type
  swo_to :: account_name_type
  swo_memo :: string
  swo_request_id :: nat
  swo_amount :: asset
  swo_complete :: time_point_sec

record liquidity_reward_balance_object =
  lrb_id :: nat
  lrb_owner :: nat
  lrb_steem_volume :: int
  lrb_sbd_volume :: int
  lrb_weight :: int
  lrb_last_update :: time_point_sec

definition lrb_is_positive :: "liquidity_reward_balance_object \<Rightarrow> int" where
  "lrb_is_positive r = (if lrb_steem_volume r > 0 \<and> lrb_sbd_volume r > 0 then 1 else 0)"

definition lrb_volume_weight :: "fc_lib \<Rightarrow> liquidity_reward_balance_object \<Rightarrow> int" where
  "lrb_volume_weight fc r = u128_of fc (i64_wrap (lrb_steem_volume r * lrb_sbd_volume r) * lrb_is_positive r)"

definition lrb_min_volume_weight :: "fc_lib \<Rightarrow> liquidity_reward_balance_object \<Rightarrow> int" where
  "lrb_min_volume_weight fc r =
     u128_of fc (min (lrb_steem_volume r) (lrb_sbd_volume r) * lrb_is_positive r)"

definition lrb_update_weight ::
  "fc_lib \<Rightarrow> bool \<Rightarrow> liquidity_reward_balance_object \<Rightarrow> liquidity_reward_balance_object" where
  "lrb_update_weight fc hf9 r =
     r\<lparr>lrb_weight := (if hf9 then lrb_min_volume_weight fc r else lrb_volume_weight fc r)\<rparr>"

record feed_history_object =
  fho_current_median_history :: price
  fho_price_history :: "price list"

record limit_order_object =
  ord_id :: nat
  ord_created :: time_point_sec
  ord_expiration :: time_point_sec
  ord_seller :: account_name_type
  ord_orderid :: nat
  ord_for_sale :: int
  ord_sell_price :: price

definition ord_get_market :: "limit_order_object \<Rightarrow> asset_symbol \<times> asset_symbol" where
  "ord_get_market o' =
     (let b = symbol (base (ord_sell_price o')); q = symbol (quote (ord_sell_price o'))
      in if b < q then (b, q) else (q, b))"

definition amount_for_sale :: "limit_order_object \<Rightarrow> asset" where
  "amount_for_sale o' = \<lparr>amount = ord_for_sale o', symbol = symbol (base (ord_sell_price o'))\<rparr>"

definition amount_to_receive :: "fc_lib \<Rightarrow> limit_order_object \<Rightarrow> asset res" where
  "amount_to_receive fc o' = asset_mul_price fc (amount_for_sale o') (ord_sell_price o')"

record withdraw_vesting_route_object =
  wvr_id :: nat
  wvr_from_account :: nat
  wvr_to_account :: nat
  wvr_percent :: nat
  wvr_auto_vest :: bool

record decline_voting_rights_request_object =
  dvo_id :: nat
  dvo_account :: nat
  dvo_effective_date :: time_point_sec

section \<open>Global properties and witnesses\<close>

record dynamic_global_property_object =
  dgp_head_block_number :: nat
  dgp_head_block_id :: block_id_type
  dgp_time :: time_point_sec
  dgp_current_witness :: account_name_type
  dgp_total_pow :: nat
  dgp_num_pow_witnesses :: nat
  dgp_virtual_supply :: asset
  dgp_current_supply :: asset
  dgp_confidential_supply :: asset
  dgp_current_sbd_supply :: asset
  dgp_confidential_sbd_supply :: asset
  dgp_total_vesting_fund_steem :: asset
  dgp_total_vesting_shares :: asset
  dgp_total_reward_fund_steem :: asset
  dgp_total_reward_shares2 :: int
  dgp_sbd_interest_rate :: nat
  dgp_sbd_print_rate :: nat
  dgp_is_forced_min_price :: bool
  dgp_average_block_size :: nat
  dgp_maximum_block_size :: nat
  dgp_current_aslot :: nat
  dgp_recent_slots_filled :: int
  dgp_participation_count :: nat
  dgp_last_irreversible_block_num :: nat
  dgp_max_virtual_bandwidth :: nat
  dgp_current_reserve_ratio :: nat
  dgp_vote_regeneration_per_day :: nat
  dgp_custom_ops_bandwidth_multiplier :: nat
  dgp_transit_block_num :: nat
  dgp_transit_witnesses :: "account_name_type list"

definition get_vesting_share_price :: "dynamic_global_property_object \<Rightarrow> price" where
  "get_vesting_share_price p =
     (if amount (dgp_total_vesting_fund_steem p) = 0 \<or> amount (dgp_total_vesting_shares p) = 0
      then \<lparr>base = \<lparr>amount = 1000, symbol = STEEM_SYMBOL\<rparr>, quote = \<lparr>amount = 1000000, symbol = VESTS_SYMBOL\<rparr>\<rparr>
      else \<lparr>base = dgp_total_vesting_shares p, quote = dgp_total_vesting_fund_steem p\<rparr>)"

datatype witness_schedule_type = top19 | timeshare | miner | schedule_none

record witness_object =
  wit_id :: nat
  wit_owner :: account_name_type
  wit_created :: time_point_sec
  wit_url :: string
  wit_total_missed :: nat
  wit_last_aslot :: nat
  wit_last_confirmed_block_num :: nat
  wit_pow_worker :: nat
  wit_signing_key :: public_key_type
  wit_props :: chain_properties_19
  wit_sbd_exchange_rate :: price
  wit_last_sbd_exchange_update :: time_point_sec
  wit_votes :: int
  wit_schedule :: witness_schedule_type
  wit_virtual_last_update :: int
  wit_virtual_position :: int
  wit_virtual_scheduled_time :: int
  wit_last_work :: digest_type
  wit_running_version :: version
  wit_hardfork_version_vote :: hardfork_version
  wit_hardfork_time_vote :: time_point_sec
  wit_transit_to_cyberway_vote :: time_point_sec

record witness_vote_object =
  wvo_id :: nat
  wvo_witness :: nat
  wvo_account :: nat

record witness_schedule_object =
  wso_current_virtual_time :: int
  wso_next_shuffle_block_num :: nat
  wso_current_shuffled_witnesses :: "account_name_type list"
  wso_num_scheduled_witnesses :: nat
  wso_top19_weight :: nat
  wso_timeshare_weight :: nat
  wso_miner_weight :: nat
  wso_witness_pay_normalization_factor :: nat
  wso_median_props :: chain_properties_19
  wso_majority_version :: version

section \<open>Comments\<close>

datatype comment_mode = mode_not_set | first_payout | second_payout | archived

record comment_object =
  com_id :: nat
  com_parent_author :: account_name_type
  com_parent_permlink :: string
  com_author :: account_name_type
  com_permlink :: string
  com_created :: time_point_sec
  com_last_payout :: time_point_sec
  com_depth :: nat
  com_children :: nat
  com_children_rshares2 :: int
  com_net_rshares :: int
  com_abs_rshares :: int
  com_vote_rshares :: int
  com_children_abs_rshares :: int
  com_cashout_time :: time_point_sec
  com_max_cashout_time :: time_point_sec
  com_reward_weight :: nat
  com_net_votes :: int
  com_total_votes :: nat
  com_root_comment :: nat
  com_mode :: comment_mode
  com_curation_reward_curve :: curation_curve
  com_auction_window_reward_destination :: auction_window_reward_destination_type
  com_auction_window_size :: nat
  com_max_accepted_payout :: asset
  com_percent_steem_dollars :: nat
  com_allow_replies :: bool
  com_allow_votes :: bool
  com_allow_curation_rewards :: bool
  com_curation_rewards_percent :: nat
  com_beneficiaries :: "beneficiary_route_type list"

record delegator_vote_interest_rate =
  dvir_account :: account_name_type
  dvir_interest_rate :: nat
  dvir_payout_strategy :: delegator_payout_strategy

record comment_vote_object =
  cmv_id :: nat
  cmv_voter :: nat
  cmv_comment :: nat
  cmv_orig_rshares :: int
  cmv_rshares :: int
  cmv_vote_percent :: int
  cmv_auction_time :: nat
  cmv_last_update :: time_point_sec
  cmv_num_changes :: int
  cmv_delegator_vote_interest_rates :: "delegator_vote_interest_rate list"

section \<open>Proposals\<close>

record proposal_object =
  pro_id :: nat
  pro_author :: account_name_type
  pro_title :: string
  pro_memo :: string
  pro_expiration_time :: time_point_sec
  pro_review_period_time :: "time_point_sec option"
  pro_proposed_operations :: "operation list"
  pro_required_active_approvals :: "account_name_type list"
  pro_available_active_approvals :: "account_name_type list"
  pro_required_owner_approvals :: "account_name_type list"
  pro_available_owner_approvals :: "account_name_type list"
  pro_required_posting_approvals :: "account_name_type list"
  pro_available_posting_approvals :: "account_name_type list"
  pro_available_key_approvals :: "public_key_type list"

record required_approval_object =
  rap_id :: nat
  rap_account :: account_name_type
  rap_proposal :: nat

section \<open>Bandwidth\<close>

datatype bandwidth_type = post_bandwidth | forum_bandwidth | market_bandwidth | custom_json_bandwidth

record account_bandwidth_object =
  abw_account :: account_name_type
  abw_type :: bandwidth_type
  abw_average_bandwidth :: int
  abw_lifetime_bandwidth :: int
  abw_last_bandwidth_update :: time_point_sec

section \<open>The database\<close>

datatype object_type =
    account_object_type | convert_request_object_type | escrow_object_type | savings_withdraw_object_type
  | liquidity_reward_balance_object_type | limit_order_object_type | withdraw_vesting_route_object_type
  | decline_voting_rights_request_object_type | vesting_delegation_object_type
  | vesting_delegation_expiration_object_type | witness_object_type | witness_vote_object_type
  | owner_authority_history_object_type | account_recovery_request_object_type | comment_object_type
  | comment_vote_object_type | proposal_object_type | required_approval_object_type

record database =
  db_accounts :: "account_object list"
  db_dgp :: dynamic_global_property_object
  db_feed :: feed_history_object
  db_schedule :: witness_schedule_object
  db_processed_hardforks :: nat
  db_converts :: "convert_request_object list"
  db_escrows :: "escrow_object list"
  db_savings :: "savings_withdraw_object list"
  db_liquidity :: "liquidity_reward_balance_object list"
  db_orders :: "limit_order_object list"
  db_routes :: "withdraw_vesting_route_object list"
  db_declines :: "decline_voting_rights_request_object list"
  db_delegations :: "vesting_delegation_object list"
  db_delegation_expirations :: "vesting_delegation_expiration_object list"
  db_witnesses :: "witness_object list"
  db_witness_votes :: "witness_vote_object list"
  db_authorities :: "account_authority_object list"
  db_metadata :: "account_metadata_object list"
  db_owner_history :: "owner_authority_history_object list"
  db_recovery_requests :: "account_recovery_request_object list"
  db_change_recovery :: "change_recovery_account_request_object list"
  db_comments :: "comment_object list"
  db_comment_votes :: "comment_vote_object list"
  db_proposals :: "proposal_object list"
  db_required_approvals :: "required_approval_object list"
  db_bandwidth :: "account_bandwidth_object list"
  db_next_id :: "object_type \<Rightarrow> nat"
  db_vops :: "virtual_operation list"

definition has_hardfork :: "nat \<Rightarrow> database \<Rightarrow> bool" where
  "has_hardfork hf db \<longleftrightarrow> db_processed_hardforks db > hf"

definition head_block_time :: "database \<Rightarrow> time_point_sec" where
  "head_block_time db = dgp_time (db_dgp db)"

definition head_block_num :: "database \<Rightarrow> nat" where
  "head_block_num db = dgp_head_block_number (db_dgp db)"

text \<open>A point in time is an unsigned 32-bit number of seconds.\<close>

definition time_plus :: "time_point_sec \<Rightarrow> int \<Rightarrow> time_point_sec" where
  "time_plus t s = (t + s) mod 2 ^ 32"

text \<open>The settings of the node that the evaluators read (\<^verbatim>\<open>is_producing\<close>, \<^verbatim>\<open>store_memo_in_savings_withdraws\<close>,
  the accounts whose metadata the node stores).\<close>

datatype store_metadata_modes = store_metadata_for_all | store_metadata_for_listed | store_metadata_for_nobody

record node_flags =
  is_producing :: bool
  store_memo_in_savings_withdraws :: bool
  store_account_metadata :: store_metadata_modes
  accounts_to_store_metadata :: "account_name_type list"

definition store_metadata_for_account :: "node_flags \<Rightarrow> account_name_type \<Rightarrow> bool" where
  "store_metadata_for_account nf name =
     (if store_account_metadata nf \<noteq> store_metadata_for_listed
      then store_account_metadata nf = store_metadata_for_all
      else name \<in> set (accounts_to_store_metadata nf))"

definition push_virtual_operation :: "virtual_operation \<Rightarrow> database \<Rightarrow> database" where
  "push_virtual_operation op db = db\<lparr>db_vops := db_vops db @ [op]\<rparr>"

definition of_option :: "golos_error \<Rightarrow> 'a option \<Rightarrow> 'a res" where
  "of_option e x = (case x of None \<Rightarrow> Inl e | Some y \<Rightarrow> Inr y)"

definition find_account :: "account_name_type \<Rightarrow> database \<Rightarrow> account_object option" where
  "find_account n db = find_by acc_name n (db_accounts db)"

definition get_account :: "account_name_type \<Rightarrow> database \<Rightarrow> account_object res" where
  "get_account n db = of_option (Missing_object ''account'') (find_account n db)"

definition throw_if_exists_account :: "account_name_type \<Rightarrow> database \<Rightarrow> unit res" where
  "throw_if_exists_account n db =
     ensure (find_account n db = None) (Object_already_exist ''account'')"

text \<open>\<^verbatim>\<open>modify(account, ...)\<close> on the account with that name.\<close>

definition set_account :: "account_object \<Rightarrow> database \<Rightarrow> database" where
  "set_account a db = db\<lparr>db_accounts := upd_by acc_name a (db_accounts db)\<rparr>"

definition modify_account ::
  "account_name_type \<Rightarrow> (account_object \<Rightarrow> account_object res) \<Rightarrow> database \<Rightarrow> database res" where
  "modify_account n f db =
     bindR (get_account n db) (\<lambda>a. bindR (f a) (\<lambda>a. Inr (set_account a db)))"

definition get_authority :: "account_name_type \<Rightarrow> database \<Rightarrow> account_authority_object res" where
  "get_authority n db = of_option (Missing_object ''authority'') (find_by aut_account n (db_authorities db))"

definition esc_key :: "escrow_object \<Rightarrow> account_name_type \<times> nat" where
  "esc_key e = (esc_from e, esc_escrow_id e)"

definition find_escrow :: "account_name_type \<Rightarrow> nat \<Rightarrow> database \<Rightarrow> escrow_object option" where
  "find_escrow n i db = find_by esc_key (n, i) (db_escrows db)"

definition get_escrow :: "account_name_type \<Rightarrow> nat \<Rightarrow> database \<Rightarrow> escrow_object res" where
  "get_escrow n i db = of_option (Missing_object ''escrow'') (find_escrow n i db)"

definition ord_key :: "limit_order_object \<Rightarrow> account_name_type \<times> nat" where
  "ord_key o' = (ord_seller o', ord_orderid o')"

definition find_limit_order :: "account_name_type \<Rightarrow> nat \<Rightarrow> database \<Rightarrow> limit_order_object option" where
  "find_limit_order n orderid db =
     (let orderid = (if \<not> has_hardfork 6 db then orderid mod 65536 else orderid)
      in find_by ord_key (n, orderid) (db_orders db))"

definition get_limit_order :: "account_name_type \<Rightarrow> nat \<Rightarrow> database \<Rightarrow> limit_order_object res" where
  "get_limit_order n orderid db =
     (let orderid = (if \<not> has_hardfork 6 db then orderid mod 65536 else orderid)
      in of_option (Missing_object ''limit_order'') (find_by ord_key (n, orderid) (db_orders db)))"

definition throw_if_exists_limit_order :: "account_name_type \<Rightarrow> nat \<Rightarrow> database \<Rightarrow> unit res" where
  "throw_if_exists_limit_order owner i db =
     ensure (find_limit_order owner i db = None) (Object_already_exist ''limit_order'')"

definition cvt_key :: "convert_request_object \<Rightarrow> account_name_type \<times> nat" where
  "cvt_key c = (cvt_owner c, cvt_requestid c)"

definition find_convert_request :: "account_name_type \<Rightarrow> nat \<Rightarrow> database \<Rightarrow> convert_request_object option" where
  "find_convert_request n i db = find_by cvt_key (n, i) (db_converts db)"

definition get_convert_request :: "account_name_type \<Rightarrow> nat \<Rightarrow> database \<Rightarrow> convert_request_object res" where
  "get_convert_request n i db = of_option (Missing_object ''convert_request'') (find_convert_request n i db)"

definition throw_if_exists_convert_request :: "account_name_type \<Rightarrow> nat \<Rightarrow> database \<Rightarrow> unit res" where
  "throw_if_exists_convert_request n i db =
     ensure (find_convert_request n i db = None) (Object_already_exist ''convert_request'')"

definition swo_key :: "savings_withdraw_object \<Rightarrow> account_name_type \<times> nat" where
  "swo_key w = (swo_from w, swo_request_id w)"

definition find_savings_withdraw :: "account_name_type \<Rightarrow> nat \<Rightarrow> database \<Rightarrow> savings_withdraw_object option" where
  "find_savings_withdraw n i db = find_by swo_key (n, i) (db_savings db)"

definition get_savings_withdraw :: "account_name_type \<Rightarrow> nat \<Rightarrow> database \<Rightarrow> savings_withdraw_object res" where
  "get_savings_withdraw n i db =
     of_option (Missing_object ''savings_withdraw'') (find_savings_withdraw n i db)"

definition throw_if_exists_savings_withdraw :: "account_name_type \<Rightarrow> nat \<Rightarrow> database \<Rightarrow> unit res" where
  "throw_if_exists_savings_withdraw n i db =
     ensure (find_savings_withdraw n i db = None) (Object_already_exist ''savings_withdraw'')"

definition find_witness :: "account_name_type \<Rightarrow> database \<Rightarrow> witness_object option" where
  "find_witness n db = find_by wit_owner n (db_witnesses db)"

definition get_witness :: "account_name_type \<Rightarrow> database \<Rightarrow> witness_object res" where
  "get_witness n db = of_option (Missing_object ''witness'') (find_witness n db)"

definition abw_key :: "account_bandwidth_object \<Rightarrow> account_name_type \<times> bandwidth_type" where
  "abw_key b = (abw_account b, abw_type b)"

definition find_bandwidth :: "account_name_type \<Rightarrow> bandwidth_type \<Rightarrow> account_bandwidth_object list \<Rightarrow> account_bandwidth_object" where
  "find_bandwidth n ty bs =
     (case find_by abw_key (n, ty) bs of
        Some b \<Rightarrow> b
      | None \<Rightarrow> \<lparr>abw_account = n, abw_type = ty, abw_average_bandwidth = 0, abw_lifetime_bandwidth = 0,
          abw_last_bandwidth_update = 0\<rparr>)"

definition put_bandwidth :: "account_bandwidth_object \<Rightarrow> account_bandwidth_object list \<Rightarrow> account_bandwidth_object list" where
  "put_bandwidth b bs = (if find_by abw_key (abw_key b) bs = None then bs @ [b] else upd_by abw_key b bs)"

text \<open>
  \<^verbatim>\<open>create\<close>: the new object gets the next number of its index; a second object with the same unique
  key makes the database throw.
\<close>

definition create_in :: "('a \<Rightarrow> 'k) \<Rightarrow> 'a \<Rightarrow> 'a list \<Rightarrow> 'a list res" where
  "create_in key x xs =
     (if find_by key (key x) xs = None then Inr (xs @ [x])
      else Inl (Logic_error ''could not insert object, most likely a uniqueness constraint was violated''))"

definition bump_id :: "object_type \<Rightarrow> database \<Rightarrow> database" where
  "bump_id t db = db\<lparr>db_next_id := (db_next_id db)(t := Suc (db_next_id db t))\<rparr>"

section \<open>Facts\<close>

lemma of_option_Inr [simp]: "of_option e x = Inr y \<longleftrightarrow> x = Some y"
  by (cases x) (auto simp: of_option_def)

lemma get_account_Inr: "get_account n db = Inr a \<longleftrightarrow> find_by acc_name n (db_accounts db) = Some a"
  by (simp add: get_account_def find_account_def)

lemma get_account_name: "get_account n db = Inr a \<Longrightarrow> acc_name a = n"
  by (auto simp: get_account_Inr dest: find_by_Some)

end
