(* ===== verification/Balance.thy ===== *)
theory Balance
  imports Chain_State
begin

text \<open>
  Balances, supply and witness votes: the functions of \<^verbatim>\<open>database.cpp\<close> through which every
  operation moves funds (\<^verbatim>\<open>adjust_balance\<close>, \<^verbatim>\<open>adjust_sbd_balance\<close> with its interest,
  \<^verbatim>\<open>adjust_savings_balance\<close>, \<^verbatim>\<open>adjust_supply\<close>, \<^verbatim>\<open>create_vesting\<close>, \<^verbatim>\<open>create_sbd\<close>), the propagation of votes
  through proxies, and the balance check of \<^verbatim>\<open>steem_evaluator.cpp\<close>.
\<close>

section \<open>Balance lookup\<close>

datatype balance_type =
    MAIN_BALANCE | SAVINGS | VESTING | EFFECTIVE_VESTING | HAVING_VESTING | AVAILABLE_VESTING

definition get_balance :: "fc_lib \<Rightarrow> account_object \<Rightarrow> balance_type \<Rightarrow> asset_symbol \<Rightarrow> asset res" where
  "get_balance fc account type sy =
     (case type of
        MAIN_BALANCE \<Rightarrow>
          if sy = STEEM_SYMBOL then Inr (acc_balance account)
          else if sy = SBD_SYMBOL then Inr (acc_sbd_balance account)
          else Inl (Invalid_value ''invalid symbol'')
      | SAVINGS \<Rightarrow>
          if sy = STEEM_SYMBOL then Inr (acc_savings_balance account)
          else if sy = SBD_SYMBOL then Inr (acc_savings_sbd_balance account)
          else Inl (Invalid_value ''invalid symbol'')
      | VESTING \<Rightarrow>
          if sy = VESTS_SYMBOL then Inr (acc_vesting_shares account)
          else Inl (Invalid_value ''invalid symbol'')
      | EFFECTIVE_VESTING \<Rightarrow>
          if sy = VESTS_SYMBOL then effective_vesting_shares fc account
          else Inl (Invalid_value ''invalid symbol'')
      | HAVING_VESTING \<Rightarrow>
          if sy = VESTS_SYMBOL then available_vesting_shares fc False account
          else Inl (Invalid_value ''invalid symbol'')
      | AVAILABLE_VESTING \<Rightarrow>
          if sy = VESTS_SYMBOL then available_vesting_shares fc True account
          else Inl (Invalid_value ''invalid symbol''))"

definition check_balance :: "fc_lib \<Rightarrow> account_object \<Rightarrow> balance_type \<Rightarrow> asset \<Rightarrow> unit res" where
  "check_balance fc account type required =
     bindR (get_balance fc account type (symbol required)) (\<lambda>exist.
     bindR (asset_lt exist required) (\<lambda>short.
     ensure (\<not> short) (Insufficient_funds (acc_name account))))"

text \<open>\<^verbatim>\<open>database::get_balance\<close> and \<^verbatim>\<open>get_savings_balance\<close>.\<close>

definition db_get_balance :: "account_object \<Rightarrow> asset_symbol \<Rightarrow> asset res" where
  "db_get_balance a sy =
     (if sy = STEEM_SYMBOL then Inr (acc_balance a)
      else if sy = SBD_SYMBOL then Inr (acc_sbd_balance a)
      else Inl (Invalid_value ''invalid symbol''))"

definition db_get_savings_balance :: "account_object \<Rightarrow> asset_symbol \<Rightarrow> asset res" where
  "db_get_savings_balance a sy =
     (if sy = STEEM_SYMBOL then Inr (acc_savings_balance a)
      else if sy = SBD_SYMBOL then Inr (acc_savings_sbd_balance a)
      else Inl (Invalid_value ''invalid symbol''))"

section \<open>Interest and balances\<close>

definition STEEMIT_SBD_INTEREST_COMPOUND_INTERVAL_SEC :: int where
  "STEEMIT_SBD_INTEREST_COMPOUND_INTERVAL_SEC = 60 * 60 * 24 * 30"

definition STEEMIT_SECONDS_PER_YEAR :: int where
  "STEEMIT_SECONDS_PER_YEAR = 60 * 60 * 24 * 365"

definition INT_100_PERCENT :: int where
  "INT_100_PERCENT = 10000"

text \<open>The interest paid is new supply: the nested \<^verbatim>\<open>modify\<close> of the global properties.\<close>

definition add_interest_supply :: "fc_lib \<Rightarrow> asset \<Rightarrow> database \<Rightarrow> database res" where
  "add_interest_supply fc interest_paid db =
     (let props = db_dgp db in
      bindR (asset_add fc (dgp_current_sbd_supply props) interest_paid) (\<lambda>sbd_supply.
      bindR (asset_mul_price fc interest_paid (fho_current_median_history (db_feed db))) (\<lambda>v.
      bindR (asset_add fc (dgp_virtual_supply props) v) (\<lambda>virt.
      Inr (db\<lparr>db_dgp := props\<lparr>dgp_current_sbd_supply := sbd_supply, dgp_virtual_supply := virt\<rparr>\<rparr>)))))"

text \<open>
  The body of the \<^verbatim>\<open>modify\<close> in \<^verbatim>\<open>adjust_sbd_balance\<close>, without the final \<^verbatim>\<open>sbd_balance += delta\<close>: the
  account and the database after the interest, if any, has been credited.
\<close>

definition accrue_sbd_interest ::
  "fc_lib \<Rightarrow> bool \<Rightarrow> account_object \<Rightarrow> database \<Rightarrow> (account_object \<times> database) res" where
  "accrue_sbd_interest fc is_fee_payment_enabled a db =
     (let now = head_block_time db in
      if acc_sbd_seconds_last_update a \<noteq> now then
        let acnt = a\<lparr>
              acc_sbd_seconds := u128_add fc (acc_sbd_seconds a)
                (u128_mul fc (u128_of fc (amount (acc_sbd_balance a)))
                  (u128_of fc (now - acc_sbd_seconds_last_update a))),
              acc_sbd_seconds_last_update := now\<rparr>
        in if is_fee_payment_enabled \<and> acc_sbd_seconds acnt > 0 \<and>
              acc_sbd_seconds_last_update acnt - acc_sbd_last_interest_payment acnt
                > STEEMIT_SBD_INTEREST_COMPOUND_INTERVAL_SEC
           then
             bindR (u128_div fc
                 (u128_mul fc (acc_sbd_seconds acnt) (u128_of fc (int (dgp_sbd_interest_rate (db_dgp db)))))
                 (u128_of fc (STEEMIT_SECONDS_PER_YEAR * INT_100_PERCENT))) (\<lambda>interest.
             bindR (u128_to_uint64 fc interest) (\<lambda>i.
             let interest_paid = \<lparr>amount = safe_of_u64 fc i, symbol = SBD_SYMBOL\<rparr> in
             bindR (asset_add fc (acc_sbd_balance acnt) interest_paid) (\<lambda>bal.
             let acnt = acnt\<lparr>acc_sbd_balance := bal, acc_sbd_seconds := 0,
                   acc_sbd_last_interest_payment := now\<rparr>;
                 db = push_virtual_operation (Interest (acc_name a) interest_paid) db
             in bindR (add_interest_supply fc interest_paid db) (\<lambda>db. Inr (acnt, db)))))
           else Inr (acnt, db)
      else Inr (a, db))"

definition adjust_sbd_balance :: "fc_lib \<Rightarrow> account_name_type \<Rightarrow> asset \<Rightarrow> database \<Rightarrow> database res" where
  "adjust_sbd_balance fc n delta db =
     (let is_fee_payment_enabled =
            (has_hardfork 19 db \<and> \<not> dgp_is_forced_min_price (db_dgp db)) \<or> \<not> has_hardfork 19 db
      in bindR (get_account n db) (\<lambda>a.
         bindR (accrue_sbd_interest fc is_fee_payment_enabled a db) (\<lambda>(acnt, db).
         bindR (asset_add fc (acc_sbd_balance acnt) delta) (\<lambda>bal.
         Inr (set_account (acnt\<lparr>acc_sbd_balance := bal\<rparr>) db)))))"

definition adjust_balance :: "fc_lib \<Rightarrow> account_name_type \<Rightarrow> asset \<Rightarrow> database \<Rightarrow> database res" where
  "adjust_balance fc n delta db =
     (if symbol delta = STEEM_SYMBOL then
        modify_account n (\<lambda>a. bindR (asset_add fc (acc_balance a) delta) (\<lambda>b.
          Inr (a\<lparr>acc_balance := b\<rparr>))) db
      else if symbol delta = SBD_SYMBOL then adjust_sbd_balance fc n delta db
      else Inl (Invalid_value ''invalid symbol''))"

definition accrue_savings_interest ::
  "fc_lib \<Rightarrow> account_object \<Rightarrow> database \<Rightarrow> (account_object \<times> database) res" where
  "accrue_savings_interest fc a db =
     (let now = head_block_time db in
      if acc_savings_sbd_seconds_last_update a \<noteq> now then
        let acnt = a\<lparr>
              acc_savings_sbd_seconds := u128_add fc (acc_savings_sbd_seconds a)
                (u128_mul fc (u128_of fc (amount (acc_savings_sbd_balance a)))
                  (u128_of fc (now - acc_savings_sbd_seconds_last_update a))),
              acc_savings_sbd_seconds_last_update := now\<rparr>
        in if acc_savings_sbd_seconds acnt > 0 \<and>
              acc_savings_sbd_seconds_last_update acnt - acc_savings_sbd_last_interest_payment acnt
                > STEEMIT_SBD_INTEREST_COMPOUND_INTERVAL_SEC
           then
             bindR (u128_div fc (acc_savings_sbd_seconds acnt) (u128_of fc STEEMIT_SECONDS_PER_YEAR)) (\<lambda>interest.
             bindR (u128_div fc (u128_mul fc interest (u128_of fc (int (dgp_sbd_interest_rate (db_dgp db)))))
               (u128_of fc INT_100_PERCENT)) (\<lambda>interest.
             bindR (u128_to_uint64 fc interest) (\<lambda>i.
             let interest_paid = \<lparr>amount = safe_of_u64 fc i, symbol = SBD_SYMBOL\<rparr> in
             bindR (asset_add fc (acc_savings_sbd_balance acnt) interest_paid) (\<lambda>bal.
             let acnt = acnt\<lparr>acc_savings_sbd_balance := bal, acc_savings_sbd_seconds := 0,
                   acc_savings_sbd_last_interest_payment := now\<rparr>;
                 db = push_virtual_operation (Interest (acc_name a) interest_paid) db
             in bindR (add_interest_supply fc interest_paid db) (\<lambda>db. Inr (acnt, db))))))
           else Inr (acnt, db)
      else Inr (a, db))"

definition adjust_savings_balance :: "fc_lib \<Rightarrow> account_name_type \<Rightarrow> asset \<Rightarrow> database \<Rightarrow> database res" where
  "adjust_savings_balance fc n delta db =
     (if symbol delta = STEEM_SYMBOL then
        modify_account n (\<lambda>a. bindR (asset_add fc (acc_savings_balance a) delta) (\<lambda>b.
          Inr (a\<lparr>acc_savings_balance := b\<rparr>))) db
      else if symbol delta = SBD_SYMBOL then
        bindR (get_account n db) (\<lambda>a.
        bindR (accrue_savings_interest fc a db) (\<lambda>(acnt, db).
        bindR (asset_add fc (acc_savings_sbd_balance acnt) delta) (\<lambda>bal.
        Inr (set_account (acnt\<lparr>acc_savings_sbd_balance := bal\<rparr>) db))))
      else Inl (Invalid_value ''invalid symbol''))"

section \<open>Supply\<close>

definition STEEMIT_BLOCKS_PER_DAY :: nat where
  "STEEMIT_BLOCKS_PER_DAY = 24 * 60 * 60 div 3"

definition adjust_supply :: "fc_lib \<Rightarrow> asset \<Rightarrow> bool \<Rightarrow> database \<Rightarrow> database res" where
  "adjust_supply fc delta adjust_vesting db =
     (let props = db_dgp db;
          adjust_vesting = (if dgp_head_block_number props < STEEMIT_BLOCKS_PER_DAY * 7 then False
                            else adjust_vesting)
      in if symbol delta = STEEM_SYMBOL then
           bindR (if adjust_vesting \<and> amount delta > 0 then safe_mul fc (amount delta) 9 else Inr 0) (\<lambda>nv.
           let new_vesting = \<lparr>amount = nv, symbol = STEEM_SYMBOL\<rparr> in
           bindR (asset_add fc delta new_vesting) (\<lambda>d.
           bindR (asset_add fc (dgp_current_supply props) d) (\<lambda>supply.
           bindR (asset_add fc (dgp_virtual_supply props) d) (\<lambda>virt.
           bindR (asset_add fc (dgp_total_vesting_fund_steem props) new_vesting) (\<lambda>fund.
           Inr (db\<lparr>db_dgp := props\<lparr>dgp_current_supply := supply, dgp_virtual_supply := virt,
             dgp_total_vesting_fund_steem := fund\<rparr>\<rparr>))))))
         else if symbol delta = SBD_SYMBOL then
           bindR (asset_add fc (dgp_current_sbd_supply props) delta) (\<lambda>sbd.
           bindR (asset_mul_price fc sbd (fho_current_median_history (db_feed db))) (\<lambda>v.
           bindR (asset_add fc v (dgp_current_supply props)) (\<lambda>virt.
           Inr (db\<lparr>db_dgp := props\<lparr>dgp_current_sbd_supply := sbd, dgp_virtual_supply := virt\<rparr>\<rparr>))))
         else Inl (Invalid_value ''invalid symbol''))"

section \<open>Votes for witnesses\<close>

definition VIRTUAL_SCHEDULE_LAP_LENGTH :: int where
  "VIRTUAL_SCHEDULE_LAP_LENGTH = 2 ^ 64 - 1"

definition VIRTUAL_SCHEDULE_LAP_LENGTH2 :: int where
  "VIRTUAL_SCHEDULE_LAP_LENGTH2 = 2 ^ 128 - 1"

definition set_witness :: "witness_object \<Rightarrow> database \<Rightarrow> database" where
  "set_witness w db = db\<lparr>db_witnesses := upd_by wit_id w (db_witnesses db)\<rparr>"

definition get_witness_by_id :: "nat \<Rightarrow> database \<Rightarrow> witness_object res" where
  "get_witness_by_id i db = of_option (Missing_object ''witness'') (find_by wit_id i (db_witnesses db))"

definition adjust_witness_vote :: "fc_lib \<Rightarrow> nat \<Rightarrow> int \<Rightarrow> database \<Rightarrow> database res" where
  "adjust_witness_vote fc i delta db =
     (let vt = wso_current_virtual_time (db_schedule db) in
      bindR (get_witness_by_id i db) (\<lambda>w.
      let delta_pos = u128_mul fc (u128_of fc (wit_votes w)) (u128_sub fc vt (wit_virtual_last_update w));
          pos = u128_add fc (wit_virtual_position w) delta_pos
      in bindR (safe_add fc (wit_votes w) delta) (\<lambda>votes.
         if votes \<le> amount (dgp_total_vesting_shares (db_dgp db)) then
           let lap = (if has_hardfork 2 db then VIRTUAL_SCHEDULE_LAP_LENGTH2 else VIRTUAL_SCHEDULE_LAP_LENGTH)
           in bindR (u128_div fc (u128_sub fc lap pos) (u128_of fc (votes + 1))) (\<lambda>q.
              let sched = u128_add fc vt q;
                  sched = (if has_hardfork 4 db \<and> sched < vt then 2 ^ 128 - 1 else sched)
              in Inr (set_witness (w\<lparr>wit_virtual_position := pos, wit_virtual_last_update := vt,
                   wit_votes := votes, wit_virtual_scheduled_time := sched\<rparr>) db))
         else Inl (Fc_assert ''w.votes <= total_vesting_shares''))))"

text \<open>The witnesses an account votes for, in the order of the index \<^verbatim>\<open>by_account_witness\<close>.\<close>

definition votes_of :: "nat \<Rightarrow> database \<Rightarrow> witness_vote_object list" where
  "votes_of i db = sort_by (\<lambda>a b. wvo_witness a < wvo_witness b)
     (filter (\<lambda>v. wvo_account v = i) (db_witness_votes db))"

definition adjust_witness_votes :: "fc_lib \<Rightarrow> account_object \<Rightarrow> int \<Rightarrow> database \<Rightarrow> database res" where
  "adjust_witness_votes fc a delta db =
     foldR (\<lambda>v. adjust_witness_vote fc (wvo_witness v) delta) (votes_of (acc_id a) db) db"

text \<open>
  \<^verbatim>\<open>adjust_proxied_witness_votes\<close> follows the proxies. \<open>levels\<close> is
  \<^verbatim>\<open>STEEMIT_MAX_PROXY_RECURSION_DEPTH - depth\<close>.
\<close>

fun adjust_proxied_witness_votes :: "fc_lib \<Rightarrow> nat \<Rightarrow> account_name_type \<Rightarrow> int \<Rightarrow> database \<Rightarrow> database res" where
  "adjust_proxied_witness_votes fc levels n delta db =
     bindR (get_account n db) (\<lambda>a.
     if acc_proxy a \<noteq> STEEMIT_PROXY_TO_SELF_ACCOUNT then
       (case levels of
          0 \<Rightarrow> Inr db
        | Suc below \<Rightarrow>
            let depth = STEEMIT_MAX_PROXY_RECURSION_DEPTH - levels in
            bindR (modify_account (acc_proxy a) (\<lambda>p.
              bindR (safe_add fc (acc_proxied_vsf_votes p ! depth) delta) (\<lambda>v.
              Inr (p\<lparr>acc_proxied_vsf_votes := (acc_proxied_vsf_votes p)[depth := v]\<rparr>))) db) (\<lambda>db.
            adjust_proxied_witness_votes fc below (acc_proxy a) delta db))
     else adjust_witness_votes fc a delta db)"

declare adjust_proxied_witness_votes.simps [simp del]

text \<open>The overload that moves a whole vector of proxied votes.\<close>

definition add_proxied :: "fc_lib \<Rightarrow> nat \<Rightarrow> int list \<Rightarrow> account_object \<Rightarrow> account_object res" where
  "add_proxied fc depth delta p =
     foldR (\<lambda>i p. bindR (safe_add fc (acc_proxied_vsf_votes p ! (i + depth)) (delta ! i)) (\<lambda>v.
         Inr (p\<lparr>acc_proxied_vsf_votes := (acc_proxied_vsf_votes p)[i + depth := v]\<rparr>)))
       (rev [0..<STEEMIT_MAX_PROXY_RECURSION_DEPTH - depth]) p"

fun adjust_proxied_witness_votes_array ::
  "fc_lib \<Rightarrow> nat \<Rightarrow> account_name_type \<Rightarrow> int list \<Rightarrow> database \<Rightarrow> database res" where
  "adjust_proxied_witness_votes_array fc levels n delta db =
     bindR (get_account n db) (\<lambda>a.
     let depth = STEEMIT_MAX_PROXY_RECURSION_DEPTH - levels in
     if acc_proxy a \<noteq> STEEMIT_PROXY_TO_SELF_ACCOUNT then
       (case levels of
          0 \<Rightarrow> Inr db
        | Suc below \<Rightarrow>
            bindR (modify_account (acc_proxy a) (add_proxied fc depth delta) db) (\<lambda>db.
            adjust_proxied_witness_votes_array fc below (acc_proxy a) delta db))
     else
       bindR (foldR (\<lambda>i s. safe_add fc s (delta ! i))
         (rev [0..<Suc (STEEMIT_MAX_PROXY_RECURSION_DEPTH - depth)]) 0) (\<lambda>total_delta.
       adjust_witness_votes fc a total_delta db))"

declare adjust_proxied_witness_votes_array.simps [simp del]

definition clear_witness_votes :: "account_name_type \<Rightarrow> database \<Rightarrow> database res" where
  "clear_witness_votes n db =
     bindR (get_account n db) (\<lambda>a.
     let db = db\<lparr>db_witness_votes := filter (\<lambda>v. wvo_account v \<noteq> acc_id a) (db_witness_votes db)\<rparr>
     in if has_hardfork 6 db
        then modify_account n (\<lambda>acc. Inr (acc\<lparr>acc_witnesses_voted_for := 0\<rparr>)) db
        else Inr db)"

section \<open>Vesting and GBG creation\<close>

definition create_vesting :: "fc_lib \<Rightarrow> account_name_type \<Rightarrow> asset \<Rightarrow> database \<Rightarrow> (asset \<times> database) res" where
  "create_vesting fc n steem db =
     bindR (asset_mul_price fc steem (get_vesting_share_price (db_dgp db))) (\<lambda>new_vesting.
     bindR (modify_account n (\<lambda>a. bindR (asset_add fc (acc_vesting_shares a) new_vesting) (\<lambda>v.
       Inr (a\<lparr>acc_vesting_shares := v\<rparr>))) db) (\<lambda>db.
     let props = db_dgp db in
     bindR (asset_add fc (dgp_total_vesting_fund_steem props) steem) (\<lambda>fund.
     bindR (asset_add fc (dgp_total_vesting_shares props) new_vesting) (\<lambda>shares.
     let db = db\<lparr>db_dgp := props\<lparr>dgp_total_vesting_fund_steem := fund, dgp_total_vesting_shares := shares\<rparr>\<rparr>
     in bindR (adjust_proxied_witness_votes fc STEEMIT_MAX_PROXY_RECURSION_DEPTH n (amount new_vesting) db) (\<lambda>db.
        Inr (new_vesting, db))))))"

definition create_sbd ::
  "fc_lib \<Rightarrow> account_name_type \<Rightarrow> asset \<Rightarrow> database \<Rightarrow> ((asset \<times> asset) \<times> database) res" where
  "create_sbd fc n steem db =
     (let sbd0 = \<lparr>amount = 0, symbol = SBD_SYMBOL\<rparr>; steem0 = \<lparr>amount = 0, symbol = STEEM_SYMBOL\<rparr>;
          median_price = fho_current_median_history (db_feed db)
      in if amount steem = 0 then Inr ((sbd0, steem0), db)
         else if \<not> price_is_null fc median_price then
           bindR (safe_mul fc (int (dgp_sbd_print_rate (db_dgp db))) (amount steem)) (\<lambda>m.
           bindR (safe_div fc m INT_100_PERCENT) (\<lambda>to_sbd.
           bindR (safe_sub fc (amount steem) to_sbd) (\<lambda>to_steem.
           bindR (asset_mul_price fc \<lparr>amount = to_sbd, symbol = STEEM_SYMBOL\<rparr> median_price) (\<lambda>sbd.
           bindR (adjust_balance fc n sbd db) (\<lambda>db.
           bindR (adjust_balance fc n \<lparr>amount = to_steem, symbol = STEEM_SYMBOL\<rparr> db) (\<lambda>db.
           bindR (safe_neg fc to_sbd) (\<lambda>neg.
           bindR (adjust_supply fc \<lparr>amount = neg, symbol = STEEM_SYMBOL\<rparr> False db) (\<lambda>db.
           bindR (adjust_supply fc sbd False db) (\<lambda>db.
           Inr ((sbd, \<lparr>amount = to_steem, symbol = STEEM_SYMBOL\<rparr>), db))))))))))
         else bindR (adjust_balance fc n steem db) (\<lambda>db. Inr ((sbd0, steem), db)))"

end
