(* ===== verification/Block_Header.thy ===== *)
theory Block_Header
  imports Operations
begin

text \<open>
  Block headers and their identifiers: \<^verbatim>\<open>libraries/protocol/block.cpp\<close> and \<^verbatim>\<open>block_header.hpp\<close>. Hash
  functions, signature recovery and the binary serialisation are third-party code and come as
  the record \<open>crypto_lib\<close>. A block identifier carries the block number in its first four bytes.
\<close>

record crypto_lib =
  sha256 :: "string \<Rightarrow> digest_type"
  sha224 :: "string \<Rightarrow> digest_type"
  ripemd160 :: "string \<Rightarrow> digest_type"
  ecc_recover :: "signature_type \<Rightarrow> digest_type \<Rightarrow> bool \<Rightarrow> public_key_type res"
  ecc_sign_seed :: "digest_type \<Rightarrow> digest_type \<Rightarrow> signature_type"
  approx_log_32 :: "digest_type \<Rightarrow> nat"
  equihash_is_valid :: "equihash_proof \<Rightarrow> bool"
  equihash_prove :: "nat \<Rightarrow> nat \<Rightarrow> digest_type \<Rightarrow> equihash_proof"
  pack_pow2_input :: "pow2_input \<Rightarrow> string"
  pack_digest_key :: "digest_type \<times> public_key_type \<Rightarrow> string"
  pack_digest_pair :: "digest_type \<times> digest_type \<Rightarrow> string"
  pack_inputs :: "nat list \<Rightarrow> string"
  pack_block_header :: "block_header \<Rightarrow> string"
  pack_signed_header :: "signed_block_header \<Rightarrow> string"

section \<open>Words in hashes\<close>

text \<open>
  The code reads and writes 32-bit and 64-bit words at the start of a hash, on a little-endian
  machine; \<^verbatim>\<open>endian_reverse_u32\<close> makes the stored number big-endian.
\<close>

definition be32 :: "nat \<Rightarrow> string" where
  "be32 n = map char_of [n div 16777216 mod 256, n div 65536 mod 256, n div 256 mod 256, n mod 256]"

fun be_value :: "nat \<Rightarrow> string \<Rightarrow> nat" where
  "be_value acc [] = acc"
| "be_value acc (c # cs) = be_value (256 * acc + of_char c) cs"

fun le_bytes :: "nat \<Rightarrow> nat \<Rightarrow> string" where
  "le_bytes 0 n = []"
| "le_bytes (Suc k) n = char_of (n mod 256) # le_bytes k (n div 256)"

definition num_from_id :: "block_id_type \<Rightarrow> nat" where
  "num_from_id i = be_value 0 (take 4 i)"

definition block_num :: "'a block_header_scheme \<Rightarrow> nat" where
  "block_num h = (num_from_id (bh_previous h) + 1) mod 2 ^ 32"

definition block_header_digest :: "crypto_lib \<Rightarrow> signed_block_header \<Rightarrow> digest_type" where
  "block_header_digest cr h = sha256 cr (pack_block_header cr (block_header.truncate h))"

definition signed_block_header_id :: "crypto_lib \<Rightarrow> signed_block_header \<Rightarrow> block_id_type" where
  "signed_block_header_id cr h =
     (let tmp = sha224 cr (pack_signed_header cr h);
          tmp = be32 (block_num h) @ drop 4 tmp
      in take 20 tmp)"

definition signee :: "crypto_lib \<Rightarrow> signed_block_header \<Rightarrow> public_key_type res" where
  "signee cr h = ecc_recover cr (sbh_witness_signature h) (block_header_digest cr h) True"

definition validate_signee :: "crypto_lib \<Rightarrow> signed_block_header \<Rightarrow> public_key_type \<Rightarrow> bool res" where
  "validate_signee cr h expected = bindR (signee cr h) (\<lambda>k. Inr (k = expected))"

section \<open>Merkle root\<close>

text \<open>One round of the loop: the hashes in pairs, an odd one at the end is carried over.\<close>

fun merkle_round :: "crypto_lib \<Rightarrow> digest_type list \<Rightarrow> digest_type list" where
  "merkle_round cr (a # b # ids) = sha256 cr (pack_digest_pair cr (a, b)) # merkle_round cr ids"
| "merkle_round cr ids = ids"

lemma length_merkle_round: "length (merkle_round cr ids) = length ids - length ids div 2"
  by (induction cr ids rule: merkle_round.induct) auto

function merkle_loop :: "crypto_lib \<Rightarrow> digest_type list \<Rightarrow> digest_type list" where
  "merkle_loop cr ids = (if length ids > 1 then merkle_loop cr (merkle_round cr ids) else ids)"
  by pat_completeness auto
termination
  by (relation "measure (\<lambda>(cr, ids). length ids)") (auto simp: length_merkle_round)

declare merkle_loop.simps [simp del]

text \<open>\<^verbatim>\<open>signed_block::calculate_merkle_root\<close> on the digests of the transactions.\<close>

definition calculate_merkle_root :: "crypto_lib \<Rightarrow> digest_type list \<Rightarrow> digest_type" where
  "calculate_merkle_root cr digests =
     (if digests = [] then replicate 20 (char_of (0::nat))
      else ripemd160 cr (hd (merkle_loop cr digests)))"

section \<open>Facts about identifiers\<close>

lemma be_value_be32: "n < 2 ^ 32 \<Longrightarrow> be_value 0 (be32 n) = n"
proof -
  assume n: "n < 2 ^ 32"
  have "n div 16777216 mod 256 = n div 16777216" using n by (simp add: less_mult_imp_div_less)
  moreover have "n div 65536 = 256 * (n div 16777216) + n div 65536 mod 256"
    using div_mult2_eq [of n 65536 256] by simp
  moreover have "n div 256 = 256 * (n div 65536) + n div 256 mod 256"
    using div_mult2_eq [of n 256 256] by simp
  moreover have "n = 256 * (n div 256) + n mod 256" by simp
  ultimately show ?thesis by (simp add: be32_def)
qed

lemma length_be32 [simp]: "length (be32 n) = 4"
  by (simp add: be32_def)

lemma take_id: "take 4 (signed_block_header_id cr h) = be32 (block_num h)"
  by (simp add: signed_block_header_id_def Let_def)

lemma num_from_id_header: "num_from_id (signed_block_header_id cr h) = block_num h"
proof -
  have "block_num h < 2 ^ 32" by (simp add: block_num_def)
  then show ?thesis by (simp only: num_from_id_def take_id be_value_be32)
qed

text \<open>
  A block identifier carries the block number: reading the number back from the identifier of
  a header yields the number of the block, and a header built on that identifier has the next
  number.
\<close>

theorem num_from_id_round_trip:
  "num_from_id (signed_block_header_id cr h) = block_num h \<and>
   block_num (h'\<lparr>bh_previous := signed_block_header_id cr h\<rparr>) = (block_num h + 1) mod 2 ^ 32"
  by (simp add: num_from_id_header) (simp add: block_num_def num_from_id_header [unfolded block_num_def])

section \<open>The Merkle root binds the transactions\<close>

text \<open>The strings that \<open>merkle_loop\<close> hashes with SHA-256, round by round.\<close>

fun round_inputs :: "crypto_lib \<Rightarrow> digest_type list \<Rightarrow> string list" where
  "round_inputs cr (a # b # ids) = pack_digest_pair cr (a, b) # round_inputs cr ids"
| "round_inputs cr ids = []"

function merkle_inputs :: "crypto_lib \<Rightarrow> digest_type list \<Rightarrow> string list" where
  "merkle_inputs cr ids =
     (if length ids > 1 then round_inputs cr ids @ merkle_inputs cr (merkle_round cr ids) else [])"
  by pat_completeness auto
termination
  by (relation "measure (\<lambda>(cr, ids). length ids)") (auto simp: length_merkle_round)

declare merkle_inputs.simps [simp del]

text \<open>
  What is known of the library: a SHA-256 digest has 32 bytes, and a pair of digests is serialised
  without loss.
\<close>

definition digest_format :: "crypto_lib \<Rightarrow> bool" where
  "digest_format cr \<longleftrightarrow> (\<forall>s. length (sha256 cr s) = 32) \<and>
     inj_on (pack_digest_pair cr) ({a. length a = 32} \<times> {b. length b = 32})"

definition digests :: "digest_type list \<Rightarrow> bool" where
  "digests ids \<longleftrightarrow> (\<forall>i \<in> set ids. length i = 32)"

text \<open>Two different strings among those hashed for two lists that have the same digest.\<close>

definition collision :: "(string \<Rightarrow> digest_type) \<Rightarrow> string list \<Rightarrow> string list \<Rightarrow> bool" where
  "collision h ss ts \<longleftrightarrow> (\<exists>s \<in> set ss. \<exists>t \<in> set ts. s \<noteq> t \<and> h s = h t)"

lemma collision_mono: "collision h ss ts \<Longrightarrow> set ss \<subseteq> set ss' \<Longrightarrow> set ts \<subseteq> set ts' \<Longrightarrow> collision h ss' ts'"
  by (auto simp: collision_def)

lemma digest_format_length: "digest_format cr \<Longrightarrow> length (sha256 cr s) = 32"
  by (simp add: digest_format_def)

lemma digest_format_pair:
  "digest_format cr \<Longrightarrow> digests [a, b] \<Longrightarrow> digests [c, d] \<Longrightarrow>
   pack_digest_pair cr (a, b) = pack_digest_pair cr (c, d) \<Longrightarrow> a = c \<and> b = d"
  unfolding digest_format_def digests_def by (drule conjunct2, drule (1) inj_onD) simp_all

lemma digests_round: "digest_format cr \<Longrightarrow> digests ids \<Longrightarrow> digests (merkle_round cr ids)"
  by (induction cr ids rule: merkle_round.induct) (simp_all add: digest_format_length digests_def)

lemma merkle_round_binds:
  "digest_format cr \<Longrightarrow> digests xs \<Longrightarrow> digests ys \<Longrightarrow> length xs = length ys \<Longrightarrow>
   merkle_round cr xs = merkle_round cr ys \<Longrightarrow> xs = ys \<or> collision (sha256 cr) (round_inputs cr xs) (round_inputs cr ys)"
proof (induction cr xs arbitrary: ys rule: merkle_round.induct)
  case (1 cr a b xs)
  then obtain c d zs where ys: "ys = c # d # zs" by (cases ys; cases "tl ys") auto
  have rest: "xs = zs \<or> collision (sha256 cr) (round_inputs cr xs) (round_inputs cr zs)"
    by (rule "1.IH") (use "1.prems" ys in \<open>simp_all add: digests_def\<close>)
  show ?case
  proof (cases "pack_digest_pair cr (a, b) = pack_digest_pair cr (c, d)")
    case True
    then have "a = c \<and> b = d"
      using "1.prems"(2,3) ys by (intro digest_format_pair [OF "1.prems"(1)]) (simp_all add: digests_def)
    then show ?thesis using rest ys by (auto intro: collision_mono)
  next
    case False
    then show ?thesis using "1.prems"(5) ys by (auto simp: collision_def)
  qed
next
  case two_1: "2_1"
  then show ?case by simp
next
  case two_2: "2_2"
  then obtain y where "ys = [y]" by (cases ys) auto
  with two_2 show ?case by simp
qed

lemma merkle_loop_binds:
  "digest_format cr \<Longrightarrow> digests xs \<Longrightarrow> digests ys \<Longrightarrow> length xs = length ys \<Longrightarrow> xs \<noteq> [] \<Longrightarrow>
   hd (merkle_loop cr xs) = hd (merkle_loop cr ys) \<Longrightarrow>
   xs = ys \<or> collision (sha256 cr) (merkle_inputs cr xs) (merkle_inputs cr ys)"
proof (induction cr xs arbitrary: ys rule: merkle_loop.induct)
  case (1 cr xs)
  show ?case
  proof (cases "length xs > 1")
    case True
    let ?xs = "merkle_round cr xs" and ?ys = "merkle_round cr ys"
    have len: "length ?xs = length ?ys" using "1.prems"(4) by (simp add: length_merkle_round)
    have "length ?xs \<noteq> 0" using True by (simp add: length_merkle_round)
    then have some: "?xs \<noteq> []" by auto
    have "hd (merkle_loop cr ?xs) = hd (merkle_loop cr ?ys)"
      using "1.prems"(4,6) True by (simp add: merkle_loop.simps [of cr xs] merkle_loop.simps [of cr ys])
    then have "?xs = ?ys \<or> collision (sha256 cr) (merkle_inputs cr ?xs) (merkle_inputs cr ?ys)"
      using "1.IH" [OF True "1.prems"(1) _ _ len some] "1.prems"(1-3) digests_round by blast
    moreover have "merkle_inputs cr xs = round_inputs cr xs @ merkle_inputs cr ?xs"
      "merkle_inputs cr ys = round_inputs cr ys @ merkle_inputs cr ?ys"
      using True "1.prems"(4) by (simp_all add: merkle_inputs.simps [of cr xs] merkle_inputs.simps [of cr ys])
    ultimately show ?thesis
      using merkle_round_binds [OF "1.prems"(1-4)] by (auto intro: collision_mono)
  next
    case False
    then have "length xs = 1" using "1.prems"(5) by (cases xs) auto
    then obtain x y where "xs = [x]" "ys = [y]" using "1.prems"(4) by (auto simp: length_Suc_conv)
    then show ?thesis using "1.prems"(6) by (simp add: merkle_loop.simps)
  qed
qed

text \<open>
  C35. The Merkle root commits to the transactions: from two lists of as many transaction digests
  with the same root one gets either that the lists are equal, in order, or a collision of a hash
  function between strings that the computation of the two roots really hashes: two different
  serialised pairs with the same SHA-256 digest, or two different last digests with the same RIPEMD-160
  digest. Nothing is assumed of the hash functions but the length of a SHA-256 digest and a faithful
  serialisation of a pair of digests.
\<close>

theorem merkle_root_binds:
  assumes "digest_format cr" "digests xs" "digests ys" "length xs = length ys"
    "calculate_merkle_root cr xs = calculate_merkle_root cr ys"
  shows "xs = ys \<or> collision (sha256 cr) (merkle_inputs cr xs) (merkle_inputs cr ys) \<or>
    collision (ripemd160 cr) [hd (merkle_loop cr xs)] [hd (merkle_loop cr ys)]"
proof (cases "xs = []")
  case False
  then have "ys \<noteq> []" using assms(4) by auto
  then have "ripemd160 cr (hd (merkle_loop cr xs)) = ripemd160 cr (hd (merkle_loop cr ys))"
    using assms(5) False by (simp add: calculate_merkle_root_def)
  then show ?thesis
    using merkle_loop_binds [OF assms(1-4) False] by (auto simp: collision_def [of "ripemd160 cr"])
qed (use assms(4) in simp)

text \<open>A library for examples: the identity as hash and a length-prefixed pairing.\<close>

definition crypto_demo :: crypto_lib where
  "crypto_demo = \<lparr>sha256 = id, sha224 = id, ripemd160 = id,
     ecc_recover = (\<lambda>sig d c. Inr sig), ecc_sign_seed = (\<lambda>seed d. seed),
     approx_log_32 = length, equihash_is_valid = (\<lambda>p. True),
     equihash_prove = (\<lambda>n k s. \<lparr>eqh_n = n, eqh_k = k, eqh_seed = s, eqh_inputs = []\<rparr>),
     pack_pow2_input = (\<lambda>i. p2i_worker_account i @ p2i_prev_block i),
     pack_digest_key = (\<lambda>(a, b). a @ b),
     pack_digest_pair = (\<lambda>(a, b). replicate (length a) CHR ''1'' @ CHR ''0'' # a @ b),
     pack_inputs = (\<lambda>xs. map char_of xs),
     pack_block_header = (\<lambda>h. bh_previous h @ bh_witness h),
     pack_signed_header = (\<lambda>h. bh_previous h @ bh_witness h @ sbh_witness_signature h)\<rparr>"

text \<open>A hash that keeps the first 32 bytes has collisions, and the theorem finds one.\<close>

definition crypto_short :: crypto_lib where
  "crypto_short = crypto_demo\<lparr>sha256 := (\<lambda>s. take 32 (s @ replicate 32 CHR ''0'')),
     pack_digest_pair := (\<lambda>(a, b). a @ b)\<rparr>"

definition digest_demo :: "char \<Rightarrow> digest_type" where
  "digest_demo c = replicate 32 c"

lemma crypto_short_format: "digest_format crypto_short"
  by (auto simp: digest_format_def crypto_short_def inj_on_def)

lemma crypto_short_same_root:
  "calculate_merkle_root crypto_short [digest_demo CHR ''a'', digest_demo CHR ''b''] =
   calculate_merkle_root crypto_short [digest_demo CHR ''a'', digest_demo CHR ''c'']"
  by (simp add: calculate_merkle_root_def merkle_loop.simps crypto_short_def digest_demo_def)

lemma no_own_collision: "\<not> collision h [s] [s]"
  by (simp add: collision_def)

theorem merkle_root_binds_witness:
  "collision (sha256 crypto_short) (merkle_inputs crypto_short [digest_demo CHR ''a'', digest_demo CHR ''b''])
    (merkle_inputs crypto_short [digest_demo CHR ''a'', digest_demo CHR ''c''])"
  using merkle_root_binds [OF crypto_short_format _ _ _ crypto_short_same_root]
  by (simp add: digests_def digest_demo_def merkle_loop.simps crypto_short_def crypto_demo_def no_own_collision)

end
