(* ===== verification/Operation_Validate.thy ===== *)
theory Operation_Validate
  imports Block_Header
begin

text \<open>
  The stateless checks of operations: \<^verbatim>\<open>libraries/protocol/steem_operations.cpp\<close>,
  \<^verbatim>\<open>proposal_operations.cpp\<close> and the macros of \<^verbatim>\<open>validate_helper.hpp\<close>. One definition per
  \<^verbatim>\<open>validate\<close> method; the checks run in the order of the code and the first failure is the result.
  \<open>operation_validate\<close> is the visitor over the variant.
\<close>

section \<open>Limits\<close>

definition STEEMIT_MAX_MEMO_SIZE :: nat where "STEEMIT_MAX_MEMO_SIZE = 2048"
definition STEEMIT_MAX_PERMLINK_LENGTH :: nat where "STEEMIT_MAX_PERMLINK_LENGTH = 256"
definition STEEMIT_100_PERCENT :: nat where "STEEMIT_100_PERCENT = 10000"
definition STEEMIT_MIN_CURATION_PERCENT :: nat where "STEEMIT_MIN_CURATION_PERCENT = 2500"
definition STEEMIT_MAX_CURATION_PERCENT :: nat where "STEEMIT_MAX_CURATION_PERCENT = 10000"
definition STEEMIT_MIN_ACCOUNT_CREATION_FEE :: int where "STEEMIT_MIN_ACCOUNT_CREATION_FEE = 1"
definition STEEMIT_MIN_BLOCK_SIZE_LIMIT :: nat where "STEEMIT_MIN_BLOCK_SIZE_LIMIT = 65536"
definition GOLOS_CREATE_ACCOUNT_DELEGATION_TIME :: nat where
  "GOLOS_CREATE_ACCOUNT_DELEGATION_TIME = 30 * 24 * 60 * 60"
definition GOLOS_MAX_REFERRAL_INTEREST_RATE :: nat where "GOLOS_MAX_REFERRAL_INTEREST_RATE = 10000"
definition GOLOS_MAX_REFERRAL_TERM_SEC :: nat where
  "GOLOS_MAX_REFERRAL_TERM_SEC = 60 * 60 * 24 * 30 * 12"
definition GOLOS_MAX_REFERRAL_BREAK_FEE :: asset where
  "GOLOS_MAX_REFERRAL_BREAK_FEE = \<lparr>amount = 100000, symbol = STEEM_SYMBOL\<rparr>"
definition STEEMIT_MAX_DELEGATED_VESTING_INTEREST_RATE :: nat where
  "STEEMIT_MAX_DELEGATED_VESTING_INTEREST_RATE = 8000"
definition STEEMIT_EQUIHASH_N :: nat where "STEEMIT_EQUIHASH_N = 140"
definition STEEMIT_EQUIHASH_K :: nat where "STEEMIT_EQUIHASH_K = 6"
definition GOLOS_PROPOSAL_MAX_TITLE_SIZE :: nat where "GOLOS_PROPOSAL_MAX_TITLE_SIZE = 256"
definition GOLOS_PROPOSAL_MAX_MEMO_SIZE :: nat where "GOLOS_PROPOSAL_MAX_MEMO_SIZE = 4096"

lemmas validate_limits =
  STEEMIT_MAX_MEMO_SIZE_def STEEMIT_MAX_PERMLINK_LENGTH_def STEEMIT_100_PERCENT_def
  STEEMIT_MIN_CURATION_PERCENT_def STEEMIT_MAX_CURATION_PERCENT_def
  STEEMIT_MIN_ACCOUNT_CREATION_FEE_def STEEMIT_MIN_BLOCK_SIZE_LIMIT_def
  GOLOS_CREATE_ACCOUNT_DELEGATION_TIME_def GOLOS_MAX_REFERRAL_INTEREST_RATE_def
  GOLOS_MAX_REFERRAL_TERM_SEC_def GOLOS_MAX_REFERRAL_BREAK_FEE_def
  STEEMIT_MAX_DELEGATED_VESTING_INTEREST_RATE_def STEEMIT_EQUIHASH_N_def STEEMIT_EQUIHASH_K_def
  GOLOS_PROPOSAL_MAX_TITLE_SIZE_def GOLOS_PROPOSAL_MAX_MEMO_SIZE_def

section \<open>Helpers\<close>

definition check_value :: "bool \<Rightarrow> string \<Rightarrow> unit res" where
  "check_value c msg = ensure c (Invalid_value msg)"

definition check_logic :: "bool \<Rightarrow> string \<Rightarrow> unit res" where
  "check_logic c err = ensure c (Logic_error err)"

definition check_value_max_size :: "'a list \<Rightarrow> nat \<Rightarrow> unit res" where
  "check_value_max_size f m = check_value (length f \<le> m) ''is too long''"

definition check_value_not_empty :: "'a list \<Rightarrow> unit res" where
  "check_value_not_empty f = check_value (f \<noteq> []) ''cannot be empty''"

definition check_value_utf8 :: "fc_lib \<Rightarrow> string \<Rightarrow> unit res" where
  "check_value_utf8 fc f = check_value (fc_is_utf8 fc f) ''must be valid UTF8 string''"

definition check_value_json :: "fc_lib \<Rightarrow> string \<Rightarrow> unit res" where
  "check_value_json fc f = check_value (fc_json_is_valid fc f) ''must be valid JSON''"

definition check_value_lege :: "nat \<Rightarrow> nat \<Rightarrow> nat \<Rightarrow> unit res" where
  "check_value_lege f l h = check_value (l \<le> f \<and> f \<le> h) ''must be between''"

text \<open>\<^verbatim>\<open>GOLOS_CHECK_ASSET_VAL\<close>: the symbol first, then the amount.\<close>

definition check_asset_val :: "asset \<Rightarrow> asset_symbol list \<Rightarrow> (int \<Rightarrow> bool) \<Rightarrow> unit res" where
  "check_asset_val x syms p = seqR
     [check_value (symbol x \<in> set syms) ''asset type'', check_value (p (amount x)) ''asset value'']"

definition check_asset_gt0 :: "asset \<Rightarrow> asset_symbol list \<Rightarrow> unit res" where
  "check_asset_gt0 x syms = check_asset_val x syms (\<lambda>v. v > 0)"

definition check_asset_ge0 :: "asset \<Rightarrow> asset_symbol list \<Rightarrow> unit res" where
  "check_asset_ge0 x syms = check_asset_val x syms (\<lambda>v. v \<ge> 0)"

definition validate_permlink :: "fc_lib \<Rightarrow> string \<Rightarrow> unit res" where
  "validate_permlink fc permlink = seqR
     [check_value (length permlink < STEEMIT_MAX_PERMLINK_LENGTH) ''permlink is too long'',
      check_value (fc_is_utf8 fc permlink) ''permlink not formatted in UTF8'']"

definition validate_account_name :: "string \<Rightarrow> unit res" where
  "validate_account_name name = check_value (is_valid_account_name name) ''Account name is invalid''"

definition validate_account_json_metadata :: "fc_lib \<Rightarrow> string \<Rightarrow> unit res" where
  "validate_account_json_metadata fc json_metadata =
     (if length json_metadata > 0 then seqR
        [check_value_utf8 fc json_metadata,
         check_value (fc_json_is_valid fc json_metadata) ''JSON Metadata not valid JSON'']
      else Inr ())"

definition check_param_account :: "string \<Rightarrow> string \<Rightarrow> unit res" where
  "check_param_account p name = check_param p (validate_account_name name)"

text \<open>A comparison of assets that throws for different symbols, used as a condition.\<close>

definition check_asset_cmp :: "bool res \<Rightarrow> string \<Rightarrow> unit res" where
  "check_asset_cmp c msg = bindR c (\<lambda>b. check_value b msg)"

abbreviation golos_of :: "int \<Rightarrow> asset" where
  "golos_of x \<equiv> \<lparr>amount = x, symbol = STEEM_SYMBOL\<rparr>"

abbreviation golos_or_gbg :: "asset_symbol list" where
  "golos_or_gbg \<equiv> [STEEM_SYMBOL, SBD_SYMBOL]"

section \<open>Accounts\<close>

definition account_create_validate :: "fc_lib \<Rightarrow> account_create_operation \<Rightarrow> unit res" where
  "account_create_validate fc op = seqR
     [check_param_account ''new_account_name'' (acr_new_account_name op),
      check_param ''owner'' (authority_validate (acr_owner op)),
      check_param ''active'' (authority_validate (acr_active op)),
      check_param ''fee'' (seqR
        [check_value (symbol (acr_fee op) = STEEM_SYMBOL) ''Account creation fee must be GOLOS'',
         check_asset_cmp (asset_ge (acr_fee op) (golos_of 0)) ''Account creation fee cannot be negative'']),
      check_param ''json_metadata'' (validate_account_json_metadata fc (acr_json_metadata op))]"

definition account_referral_options_validate :: "account_referral_options \<Rightarrow> unit res" where
  "account_referral_options_validate o' = seqR
     [validate_account_name (aro_referrer o'),
      check_param ''break_fee'' (seqR
        [check_value (symbol (aro_break_fee o') = STEEM_SYMBOL) ''Break fee in GOLOS only is allowed.'',
         check_value (amount (aro_break_fee o') \<ge> 0) ''Negative break fee is not allowed.''])]"

definition account_create_with_delegation_validate ::
  "fc_lib \<Rightarrow> account_create_with_delegation_operation \<Rightarrow> unit res" where
  "account_create_with_delegation_validate fc op = seqR (
     [check_param_account ''new_account_name'' (acd_new_account_name op),
      check_param_account ''creator'' (acd_creator op),
      check_param ''fee'' (check_asset_ge0 (acd_fee op) [STEEM_SYMBOL]),
      check_param ''delegation'' (check_asset_ge0 (acd_delegation op) [VESTS_SYMBOL]),
      check_param ''owner'' (authority_validate (acd_owner op)),
      check_param ''active'' (authority_validate (acd_active op)),
      check_param ''posting'' (authority_validate (acd_posting op)),
      check_param ''json_metadata'' (validate_account_json_metadata fc (acd_json_metadata op))] @
     map account_referral_options_validate (acd_extensions op))"

definition account_update_validate :: "fc_lib \<Rightarrow> account_update_operation \<Rightarrow> unit res" where
  "account_update_validate fc op = seqR
     [check_param_account ''account'' (aup_account op),
      check_param ''json_metadata'' (validate_account_json_metadata fc (aup_json_metadata op))]"

definition account_metadata_validate :: "fc_lib \<Rightarrow> account_metadata_operation \<Rightarrow> unit res" where
  "account_metadata_validate fc op = seqR
     [check_param_account ''account'' (amd_account op),
      check_param ''json_metadata'' (seqR
        [check_value_not_empty (amd_json_metadata op),
         validate_account_json_metadata fc (amd_json_metadata op)])]"

section \<open>Content\<close>

definition comment_validate :: "fc_lib \<Rightarrow> comment_operation \<Rightarrow> unit res" where
  "comment_validate fc op = seqR
     [check_param ''title'' (seqR
        [check_value (length (cmt_title op) < 256) ''Title larger than size limit'',
         check_value (fc_is_utf8 fc (cmt_title op)) ''Title not formatted in UTF8'']),
      check_param ''body'' (seqR
        [check_value (length (cmt_body op) > 0) ''Body is empty'',
         check_value (fc_is_utf8 fc (cmt_body op)) ''Body not formatted in UTF8'']),
      (if length (cmt_parent_author op) > 0
       then check_param_account ''parent_author'' (cmt_parent_author op) else Inr ()),
      check_param_account ''author'' (cmt_author op),
      check_param ''parent_permlink'' (validate_permlink fc (cmt_parent_permlink op)),
      check_param ''permlink'' (validate_permlink fc (cmt_permlink op)),
      (if length (cmt_json_metadata op) > 0
       then check_param ''json_metadata''
         (check_value (fc_json_is_valid fc (cmt_json_metadata op)) ''JSON Metadata not valid JSON'')
       else Inr ())]"

text \<open>The loop over the beneficiaries, with the 32-bit sum of their weights.\<close>

fun beneficiaries_loop :: "beneficiary_route_type list \<Rightarrow> 32 word \<Rightarrow> (32 word) res" where
  "beneficiaries_loop [] acc = Inr acc"
| "beneficiaries_loop (b # bs) acc =
     bindR (validate_account_name (bnf_account b)) (\<lambda>_.
     bindR (check_value (bnf_weight b \<le> STEEMIT_100_PERCENT)
       ''Cannot allocate more than 100% of rewards to one account'') (\<lambda>_.
     beneficiaries_loop bs (acc + of_nat (bnf_weight b))))"

definition beneficiary_less :: "beneficiary_route_type \<Rightarrow> beneficiary_route_type \<Rightarrow> bool" where
  "beneficiary_less a b \<longleftrightarrow> bnf_account a < bnf_account b"

definition comment_payout_beneficiaries_validate :: "beneficiary_route_type list \<Rightarrow> unit res" where
  "comment_payout_beneficiaries_validate bs =
     check_param ''beneficiaries'' (seqR
       [check_value (length bs \<noteq> 0) ''Must specify at least one beneficiary'',
        check_value (length bs < 128) ''Cannot specify more than 127 beneficiaries.'',
        bindR (beneficiaries_loop bs 0) (\<lambda>acc.
          check_value (acc \<le> of_nat STEEMIT_100_PERCENT)
            ''Cannot allocate more than 100% of rewards to a comment''),
        seqR (map (\<lambda>i. check_value (beneficiary_less (bs ! (i - 1)) (bs ! i))
            ''Benficiaries not in sorted order (account ascending)'') [1..<length bs])])"

fun comment_options_extension_validate :: "comment_options_extension \<Rightarrow> unit res" where
  "comment_options_extension_validate (Comment_payout_beneficiaries bs) =
     comment_payout_beneficiaries_validate bs"
| "comment_options_extension_validate (Comment_auction_window_reward_destination d) =
     check_param ''destination'' (check_value (d = to_reward_fund \<or> d = to_curators)
       ''Auction window reward must go either to reward_fund or to curators'')"
| "comment_options_extension_validate (Comment_curation_rewards_percent p) =
     check_param ''percent'' (check_value
       (STEEMIT_MIN_CURATION_PERCENT \<le> p \<and> p \<le> STEEMIT_MAX_CURATION_PERCENT)
       ''Curation rewards percent must be between'')"

definition comment_options_validate :: "fc_lib \<Rightarrow> comment_options_operation \<Rightarrow> unit res" where
  "comment_options_validate fc op = seqR (
     [check_param_account ''author'' (cop_author op),
      check_param ''percent_steem_dollars''
        (check_value (cop_percent_steem_dollars op \<le> STEEMIT_100_PERCENT) ''must be <= 100%''),
      check_param ''max_accepted_payout'' (check_asset_ge0 (cop_max_accepted_payout op) [SBD_SYMBOL]),
      check_param ''permlink'' (validate_permlink fc (cop_permlink op))] @
     map comment_options_extension_validate (cop_extensions op))"

definition delete_comment_validate :: "fc_lib \<Rightarrow> delete_comment_operation \<Rightarrow> unit res" where
  "delete_comment_validate fc op = seqR
     [check_param_account ''author'' (dlc_author op),
      check_param ''permlink'' (validate_permlink fc (dlc_permlink op))]"

definition challenge_authority_validate :: "challenge_authority_operation \<Rightarrow> unit res" where
  "challenge_authority_validate op = seqR
     [check_param_account ''challenger'' (cha_challenger op),
      check_param_account ''challenged'' (cha_challenged op),
      check_logic (cha_challenged op \<noteq> cha_challenger op) ''cannot_challenge_yourself'']"

definition prove_authority_validate :: "prove_authority_operation \<Rightarrow> unit res" where
  "prove_authority_validate op = check_param_account ''challenged'' (pra_challenged op)"

definition vote_validate :: "fc_lib \<Rightarrow> vote_operation \<Rightarrow> unit res" where
  "vote_validate fc op = seqR
     [check_param_account ''voter'' (vot_voter op),
      check_param_account ''author'' (vot_author op),
      check_param ''weight'' (check_value (\<bar>vot_weight op\<bar> \<le> int STEEMIT_100_PERCENT)
        ''Weight is not a STEEMIT percentage''),
      check_param ''permlink'' (validate_permlink fc (vot_permlink op))]"

section \<open>Transfers and vesting\<close>

definition transfer_validate :: "fc_lib \<Rightarrow> transfer_operation \<Rightarrow> unit res" where
  "transfer_validate fc op = seqR
     [check_param_account ''from'' (trf_from op),
      check_param_account ''to'' (trf_to op),
      check_param ''amount'' (seqR
        [check_value (symbol (trf_amount op) \<noteq> VESTS_SYMBOL)
           ''transferring of Golos Power (GESTS) is not allowed.'',
         check_value (amount (trf_amount op) > 0) ''Cannot transfer a negative amount (aka: stealing)'']),
      check_param ''memo'' (seqR
        [check_value (length (trf_memo op) < STEEMIT_MAX_MEMO_SIZE) ''Memo is too large'',
         check_value (fc_is_utf8 fc (trf_memo op)) ''Memo is not UTF8''])]"

definition transfer_to_vesting_validate :: "transfer_to_vesting_operation \<Rightarrow> unit res" where
  "transfer_to_vesting_validate op = seqR
     [check_param_account ''from'' (ttv_from op),
      check_param ''amount'' (seqR
        [check_value (symbol (ttv_amount op) = STEEM_SYMBOL) ''Amount must be GOLOS'',
         check_asset_cmp (asset_gt (ttv_amount op) (golos_of 0)) ''Must transfer a nonzero amount'']),
      check_param ''to''
        (if ttv_to op \<noteq> [] then validate_account_name (ttv_to op) else Inr ())]"

definition withdraw_vesting_validate :: "withdraw_vesting_operation \<Rightarrow> unit res" where
  "withdraw_vesting_validate op = seqR
     [check_param_account ''account'' (wdv_account op),
      check_param ''vesting_shares'' (seqR
        [check_value (symbol (wdv_vesting_shares op) = VESTS_SYMBOL) ''Amount must be GESTS'',
         check_value (amount (wdv_vesting_shares op) \<ge> 0) ''Cannot withdraw negative GESTS''])]"

definition set_withdraw_vesting_route_validate :: "set_withdraw_vesting_route_operation \<Rightarrow> unit res" where
  "set_withdraw_vesting_route_validate op = seqR
     [check_param_account ''from_account'' (swr_from_account op),
      check_param_account ''to_account'' (swr_to_account op),
      check_param ''percent'' (check_value_lege (swr_percent op) 0 STEEMIT_100_PERCENT)]"

section \<open>Chain properties and witnesses\<close>

definition chain_properties_17_validate :: "'a chain_properties_17_scheme \<Rightarrow> unit res" where
  "chain_properties_17_validate p = seqR
     [check_asset_val (account_creation_fee p) [STEEM_SYMBOL]
        (\<lambda>v. v \<ge> STEEMIT_MIN_ACCOUNT_CREATION_FEE),
      check_value (maximum_block_size p \<ge> STEEMIT_MIN_BLOCK_SIZE_LIMIT) ''maximum_block_size'',
      check_value_lege (sbd_interest_rate p) 0 STEEMIT_100_PERCENT]"

definition chain_properties_18_validate :: "'a chain_properties_18_scheme \<Rightarrow> unit res" where
  "chain_properties_18_validate p = seqR
     [chain_properties_17_validate p,
      check_asset_gt0 (create_account_min_golos_fee p) [STEEM_SYMBOL],
      check_asset_gt0 (create_account_min_delegation p) [STEEM_SYMBOL],
      check_asset_gt0 (min_delegation p) [STEEM_SYMBOL],
      check_value (create_account_delegation_time p > GOLOS_CREATE_ACCOUNT_DELEGATION_TIME div 2)
        ''create_account_delegation_time'']"

definition chain_properties_19_validate :: "chain_properties_19 \<Rightarrow> unit res" where
  "chain_properties_19_validate p = seqR
     [chain_properties_18_validate p,
      check_value (max_referral_interest_rate p \<le> GOLOS_MAX_REFERRAL_INTEREST_RATE)
        ''max_referral_interest_rate'',
      check_value (max_referral_term_sec p \<le> GOLOS_MAX_REFERRAL_TERM_SEC) ''max_referral_term_sec'',
      check_param ''min_referral_break_fee'' (seqR
        [check_value (symbol (min_referral_break_fee p) = STEEM_SYMBOL) ''Minimum break free must be GOLOS'',
         check_asset_cmp (asset_ge (min_referral_break_fee p) (golos_of 0))
           ''Break free must be more or equal 0 GOLOS '']),
      check_param ''max_referral_break_fee'' (seqR
        [check_value (symbol (max_referral_break_fee p) = STEEM_SYMBOL) ''Maximum break free must be GOLOS'',
         check_asset_cmp (asset_ge (max_referral_break_fee p) (min_referral_break_fee p))
           ''Maximum break free cannot be more than minimum break free'',
         check_asset_cmp (asset_le (max_referral_break_fee p) GOLOS_MAX_REFERRAL_BREAK_FEE)
           ''Maximum break free cannot be more than max'']),
      check_value_lege (posts_window p) 1 (65535 div 2),
      check_value_lege (posts_per_window p) 1 (posts_window p),
      check_value_lege (comments_window p) 1 (65535 div 2),
      check_value_lege (comments_per_window p) 1 (comments_window p),
      check_value_lege (votes_window p) 1 (65535 div 2),
      check_value_lege (votes_per_window p) 1 (votes_window p),
      check_value (max_delegated_vesting_interest_rate p \<le> STEEMIT_MAX_DELEGATED_VESTING_INTEREST_RATE)
        ''max_delegated_vesting_interest_rate'',
      check_value (custom_ops_bandwidth_multiplier p \<ge> 1) ''custom_ops_bandwidth_multiplier'',
      check_value_lege (min_curation_percent p) STEEMIT_MIN_CURATION_PERCENT (max_curation_percent p),
      check_value_lege (max_curation_percent p) (min_curation_percent p) STEEMIT_MAX_CURATION_PERCENT,
      check_param ''curation_reward_curve'' (check_value
        (curation_reward_curve p = Curve_bounded \<or> curation_reward_curve p = Curve_linear \<or>
         curation_reward_curve p = Curve_square_root)
        ''Curation curve should bounded or liner, or square_root''),
      check_param ''allow_return_auction_reward_to_fund'' (check_value
        (allow_return_auction_reward_to_fund p \<or> allow_distribute_auction_reward p)
        ''One or both options should be enabled'')]"

definition witness_update_validate :: "fc_lib \<Rightarrow> witness_update_operation \<Rightarrow> unit res" where
  "witness_update_validate fc op = seqR
     [check_param_account ''owner'' (wup_owner op),
      check_param ''url'' (seqR [check_value_not_empty (wup_url op), check_value_utf8 fc (wup_url op)]),
      check_param ''fee'' (check_asset_ge0 (wup_fee op) [STEEM_SYMBOL]),
      check_param ''props'' (chain_properties_17_validate (wup_props op))]"

fun versioned_chain_properties_validate :: "versioned_chain_properties \<Rightarrow> unit res" where
  "versioned_chain_properties_validate (Props_17 p) = chain_properties_17_validate p"
| "versioned_chain_properties_validate (Props_18 p) = chain_properties_18_validate p"
| "versioned_chain_properties_validate (Props_19 p) = chain_properties_19_validate p"

definition chain_properties_update_validate :: "chain_properties_update_operation \<Rightarrow> unit res" where
  "chain_properties_update_validate op = seqR
     [check_param_account ''owner'' (cpu_owner op),
      check_param ''props'' (versioned_chain_properties_validate (cpu_props op))]"

definition account_witness_vote_validate :: "account_witness_vote_operation \<Rightarrow> unit res" where
  "account_witness_vote_validate op = seqR
     [check_param_account ''account'' (awv_account op),
      check_param_account ''witness'' (awv_witness op)]"

definition account_witness_proxy_validate :: "account_witness_proxy_operation \<Rightarrow> unit res" where
  "account_witness_proxy_validate op = seqR
     [check_param_account ''account'' (awp_account op),
      (if length (awp_proxy op) > 0
       then check_param ''proxy'' (seqR
         [validate_account_name (awp_proxy op),
          check_value (awp_proxy op \<noteq> awp_account op) ''Cannot proxy to self''])
       else Inr ())]"

section \<open>Custom operations\<close>

definition custom_validate :: "custom_operation \<Rightarrow> unit res" where
  "custom_validate op = check_param ''required_auths''
     (check_value (length (cus_required_auths op) > 0) ''at least one account must be specified'')"

definition custom_json_validate :: "fc_lib \<Rightarrow> custom_json_operation \<Rightarrow> unit res" where
  "custom_json_validate fc op = seqR
     [check_param ''required_auths'' (check_value
        (length (cuj_required_auths op) + length (cuj_required_posting_auths op) > 0)
        ''at least on account must be specified''),
      check_param ''id'' (check_value_max_size (cuj_id op) 32),
      check_param ''json'' (seqR [check_value_utf8 fc (cuj_json op), check_value_json fc (cuj_json op)])]"

definition custom_binary_validate :: "custom_binary_operation \<Rightarrow> unit res" where
  "custom_binary_validate op = seqR
     [check_param ''required_owner_auths'' (check_value
        (length (cub_required_owner_auths op) + length (cub_required_active_auths op) +
         length (cub_required_posting_auths op) > 0) ''at least one account must be specified''),
      check_param ''id'' (check_value_max_size (cub_id op) 32),
      check_param ''required_auths'' (seqR (map authority_validate (cub_required_auths op)))]"

section \<open>Proof of work\<close>

definition pow_work_input :: "crypto_lib \<Rightarrow> pow_operation \<Rightarrow> digest_type" where
  "pow_work_input cr op =
     (let hash = sha256 cr (pwo_block_id op);
          hash = le_bytes 8 (pwo_nonce op) @ drop 8 hash
      in sha256 cr hash)"

definition pow_proof_validate :: "crypto_lib \<Rightarrow> pow \<Rightarrow> unit res" where
  "pow_proof_validate cr w = seqR
     [check_value (pow_work w \<noteq> replicate 32 (char_of (0::nat))) ''Work must not equal empty hash value'',
      bindR (ecc_recover cr (pow_signature w) (pow_input w) False) (\<lambda>k.
        check_value (pow_worker w = k) ''Work does not match to worker''),
      bindR (ecc_recover cr (pow_signature w) (sha256 cr (pow_signature w)) False) (\<lambda>recover.
        check_value (pow_work w = sha256 cr recover) ''Invalid work result'')]"

definition pow_validate :: "crypto_lib \<Rightarrow> pow_operation \<Rightarrow> unit res" where
  "pow_validate cr op = seqR
     [chain_properties_17_validate (pwo_props op),
      check_param_account ''worker_account'' (pwo_worker_account op),
      check_param ''work'' (seqR
        [check_value (pow_work_input cr op = pow_input (pwo_work op))
           ''Determninistic input does not match recorded input'',
         pow_proof_validate cr (pwo_work op)])]"

definition pow2_create :: "crypto_lib \<Rightarrow> block_id_type \<Rightarrow> account_name_type \<Rightarrow> nat \<Rightarrow> pow2 res" where
  "pow2_create cr prev account_name n =
     (let inp = \<lparr>p2i_worker_account = account_name, p2i_prev_block = prev, p2i_nonce = n\<rparr>;
          prv_key = sha256 cr (pack_pow2_input cr inp);
          input = sha256 cr prv_key;
          signature = ecc_sign_seed cr prv_key input;
          sig_hash = sha256 cr signature
      in bindR (ecc_recover cr signature sig_hash True) (\<lambda>recover.
         Inr \<lparr>p2w_input = inp,
           p2w_pow_summary = approx_log_32 cr (sha256 cr (pack_digest_key cr (input, recover)))\<rparr>))"

definition pow2_validate :: "crypto_lib \<Rightarrow> pow2 \<Rightarrow> unit res" where
  "pow2_validate cr w = seqR
     [check_param_account ''input.worker_account'' (p2i_worker_account (p2w_input w)),
      bindR (pow2_create cr (p2i_prev_block (p2w_input w)) (p2i_worker_account (p2w_input w))
          (p2i_nonce (p2w_input w))) (\<lambda>tmp.
        check_param ''pow_summary'' (check_value (p2w_pow_summary w = p2w_pow_summary tmp)
          ''reported work does not match calculated work''))]"

definition equihash_pow_create ::
  "crypto_lib \<Rightarrow> equihash_pow \<Rightarrow> block_id_type \<Rightarrow> account_name_type \<Rightarrow> nat \<Rightarrow> equihash_pow" where
  "equihash_pow_create cr w recent_block account_name nonce =
     (let input = \<lparr>p2i_worker_account = account_name, p2i_prev_block = recent_block, p2i_nonce = nonce\<rparr>;
          seed = sha256 cr (pack_pow2_input cr input);
          proof = equihash_prove cr STEEMIT_EQUIHASH_N STEEMIT_EQUIHASH_K seed
      in w\<lparr>eqp_input := input, eqp_proof := proof,
           eqp_pow_summary := approx_log_32 cr (sha256 cr (pack_inputs cr (eqh_inputs proof)))\<rparr>)"

definition equihash_pow_validate :: "crypto_lib \<Rightarrow> equihash_pow \<Rightarrow> unit res" where
  "equihash_pow_validate cr w = seqR
     [check_param_account ''input.worker_account'' (p2i_worker_account (eqp_input w)),
      check_param ''proof'' (seqR
        [check_value (eqh_n (eqp_proof w) = STEEMIT_EQUIHASH_N) ''n value is incorrect'',
         check_value (eqh_k (eqp_proof w) = STEEMIT_EQUIHASH_K) ''k value is incorrect'',
         check_value (eqh_seed (eqp_proof w) = sha256 cr (pack_pow2_input cr (eqp_input w)))
           ''proof of work seed does not match expected seed'',
         check_value (equihash_is_valid cr (eqp_proof w)) ''proof of work is not a solution'']),
      check_param ''pow_summary'' (check_value
        (eqp_pow_summary w = approx_log_32 cr (sha256 cr (pack_inputs cr (eqh_inputs (eqp_proof w)))))
        ''pow_summary'')]"

definition pow2_operation_validate :: "crypto_lib \<Rightarrow> pow2_operation \<Rightarrow> unit res" where
  "pow2_operation_validate cr op = seqR
     [chain_properties_17_validate (p2o_props op),
      (case p2o_work op of
         Pow2 w \<Rightarrow> pow2_validate cr w
       | Equihash_pow w \<Rightarrow> equihash_pow_validate cr w)]"

section \<open>Market\<close>

definition golos_gbg_pair :: "asset \<Rightarrow> asset \<Rightarrow> bool" where
  "golos_gbg_pair a b \<longleftrightarrow>
     symbol a = STEEM_SYMBOL \<and> symbol b = SBD_SYMBOL \<or> symbol a = SBD_SYMBOL \<and> symbol b = STEEM_SYMBOL"

definition feed_publish_validate :: "feed_publish_operation \<Rightarrow> unit res" where
  "feed_publish_validate op = seqR
     [check_param_account ''publisher'' (fpb_publisher op),
      check_logic (golos_gbg_pair (base (fpb_exchange_rate op)) (quote (fpb_exchange_rate op)))
        ''price_feed_must_be_for_golos_gbg_market'',
      check_param ''exchange_rate'' (price_validate (fpb_exchange_rate op))]"

definition limit_order_create_validate :: "limit_order_create_operation \<Rightarrow> unit res" where
  "limit_order_create_validate op = seqR
     [check_param_account ''owner'' (loc_owner op),
      check_logic (golos_gbg_pair (loc_amount_to_sell op) (loc_min_to_receive op))
        ''limit_order_must_be_for_golos_gbg_market'',
      bindR (asset_div (loc_amount_to_sell op) (loc_min_to_receive op)) (\<lambda>price.
        check_param ''price'' (price_validate price))]"

definition limit_order_create2_validate :: "fc_lib \<Rightarrow> limit_order_create2_operation \<Rightarrow> unit res" where
  "limit_order_create2_validate fc op = seqR
     [check_param_account ''owner'' (loc2_owner op),
      check_param ''exchange_rate'' (price_validate (loc2_exchange_rate op)),
      check_logic (golos_gbg_pair (loc2_amount_to_sell op) (quote (loc2_exchange_rate op)))
        ''limit_order_must_be_for_golos_gbg_market'',
      check_param ''amount_to_sell'' (seqR
        [check_value (symbol (loc2_amount_to_sell op) = symbol (base (loc2_exchange_rate op)))
           ''Sell asset must be the base of the price'',
         bindR (asset_mul_price fc (loc2_amount_to_sell op) (loc2_exchange_rate op)) (\<lambda>r.
           check_value (amount r > 0) ''Amount to sell cannot round to 0 when traded'')])]"

definition limit_order_cancel_validate :: "limit_order_cancel_operation \<Rightarrow> unit res" where
  "limit_order_cancel_validate op = check_param_account ''owner'' (lca_owner op)"

definition convert_validate :: "convert_operation \<Rightarrow> unit res" where
  "convert_validate op = seqR
     [check_param_account ''owner'' (cvo_owner op),
      check_param ''amount'' (check_asset_gt0 (cvo_amount op) [SBD_SYMBOL])]"

definition report_over_production_validate ::
  "crypto_lib \<Rightarrow> report_over_production_operation \<Rightarrow> unit res" where
  "report_over_production_validate cr op =
     (let b1 = rop_first_block op; b2 = rop_second_block op in seqR
     [check_param_account ''reporter'' (rop_reporter op),
      check_param_account ''first_block.witness'' (bh_witness b1),
      check_param ''first_block'' (seqR
        [check_value (bh_witness b1 = bh_witness b2) ''Witness for first and second blocks must be equal'',
         check_value (bh_timestamp b1 = bh_timestamp b2) ''Timestamp for first and second blocks must be equal'',
         bindR (signee cr b1) (\<lambda>s1. bindR (signee cr b2) (\<lambda>s2.
           check_value (s1 = s2) ''Signee for first and second blocks must be equal'')),
         check_value (signed_block_header_id cr b1 \<noteq> signed_block_header_id cr b2)
           ''ID for first and second blocks must be different''])])"

section \<open>Escrow\<close>

definition escrow_transfer_validate :: "fc_lib \<Rightarrow> escrow_transfer_operation \<Rightarrow> unit res" where
  "escrow_transfer_validate fc op = seqR
     [check_param_account ''from'' (est_from op),
      check_param_account ''to'' (est_to op),
      check_param_account ''agent'' (est_agent op),
      check_param ''fee'' (check_asset_ge0 (est_fee op) golos_or_gbg),
      check_param ''sbd_amount'' (check_asset_ge0 (est_sbd_amount op) [SBD_SYMBOL]),
      check_param ''steem_amount'' (check_asset_ge0 (est_steem_amount op) [STEEM_SYMBOL]),
      check_logic (amount (est_sbd_amount op) > 0 \<or> amount (est_steem_amount op) > 0)
        ''escrow_no_amount_set'',
      check_param ''agent'' (check_value (est_from op \<noteq> est_agent op \<and> est_to op \<noteq> est_agent op)
        ''agent must be a third party''),
      check_logic (est_ratification_deadline op < est_escrow_expiration op) ''escrow_wrong_time_limits'',
      (if length (est_json_meta op) > 0 then check_param ''json_meta'' (seqR
         [check_value_utf8 fc (est_json_meta op), check_value_json fc (est_json_meta op)])
       else Inr ())]"

definition escrow_approve_validate :: "escrow_approve_operation \<Rightarrow> unit res" where
  "escrow_approve_validate op = seqR
     [check_param_account ''from'' (esa_from op),
      check_param_account ''to'' (esa_to op),
      check_param_account ''agent'' (esa_agent op),
      check_param_account ''who'' (esa_who op),
      check_param ''who'' (check_value (esa_who op = esa_to op \<or> esa_who op = esa_agent op)
        ''to or agent must approve escrow'')]"

definition escrow_dispute_validate :: "escrow_dispute_operation \<Rightarrow> unit res" where
  "escrow_dispute_validate op = seqR
     [check_param_account ''from'' (esd_from op),
      check_param_account ''to'' (esd_to op),
      check_param_account ''agent'' (esd_agent op),
      check_param_account ''who'' (esd_who op),
      check_param ''who'' (check_value (esd_who op = esd_from op \<or> esd_who op = esd_to op)
        ''who must be from or to'')]"

definition escrow_release_validate :: "escrow_release_operation \<Rightarrow> unit res" where
  "escrow_release_validate op = seqR
     [check_param_account ''from'' (esr_from op),
      check_param_account ''to'' (esr_to op),
      check_param_account ''agent'' (esr_agent op),
      check_param_account ''who'' (esr_who op),
      check_param_account ''receiver'' (esr_receiver op),
      check_param ''who'' (check_value
        (esr_who op = esr_from op \<or> esr_who op = esr_to op \<or> esr_who op = esr_agent op)
        ''who must be from or to or agent''),
      check_param ''receiver'' (check_value
        (esr_receiver op = esr_from op \<or> esr_receiver op = esr_to op) ''receiver must be from or to''),
      check_param ''sbd_amount'' (check_asset_ge0 (esr_sbd_amount op) [SBD_SYMBOL]),
      check_param ''steem_amount'' (check_asset_ge0 (esr_steem_amount op) [STEEM_SYMBOL]),
      check_logic (amount (esr_sbd_amount op) > 0 \<or> amount (esr_steem_amount op) > 0)
        ''escrow_no_amount_set'']"

section \<open>Account recovery\<close>

definition request_account_recovery_validate :: "request_account_recovery_operation \<Rightarrow> unit res" where
  "request_account_recovery_validate op = seqR
     [check_param_account ''recovery_account'' (rar_recovery_account op),
      check_param_account ''account_to_recover'' (rar_account_to_recover op),
      check_param ''new_owner_authority'' (authority_validate (rar_new_owner_authority op))]"

definition recover_account_validate :: "recover_account_operation \<Rightarrow> unit res" where
  "recover_account_validate op = seqR
     [check_param_account ''account_to_recover'' (rac_account_to_recover op),
      check_param ''new_owner_authority'' (seqR
        [check_logic (\<not> authority_eq (rac_new_owner_authority op) (rac_recent_owner_authority op))
           ''cannot_set_recent_recovery'',
         check_value (\<not> is_impossible (rac_new_owner_authority op))
           ''new owner authority cannot be impossible'',
         check_value (weight_threshold (rac_new_owner_authority op) \<noteq> 0)
           ''new owner authority cannot be trivial'',
         authority_validate (rac_new_owner_authority op)]),
      check_param ''recent_owner_authority'' (seqR
        [check_value (\<not> is_impossible (rac_recent_owner_authority op))
           ''recent owner authority cannot be impossible'',
         authority_validate (rac_recent_owner_authority op)])]"

definition change_recovery_account_validate :: "change_recovery_account_operation \<Rightarrow> unit res" where
  "change_recovery_account_validate op = seqR
     [check_param_account ''account_to_recover'' (cra_account_to_recover op),
      check_param_account ''new_recovery_account'' (cra_new_recovery_account op)]"

definition reset_account_validate :: "reset_account_operation \<Rightarrow> unit res" where
  "reset_account_validate op = seqR
     [check_param_account ''reset_account'' (rst_reset_account op),
      check_param_account ''account_to_reset'' (rst_account_to_reset op),
      check_param ''new_owner_authority'' (seqR
        [check_value (\<not> is_impossible (rst_new_owner_authority op))
           ''New owner authority cannot be impossible'',
         check_value (weight_threshold (rst_new_owner_authority op) \<noteq> 0)
           ''New owner authority cannot be trivial'',
         authority_validate (rst_new_owner_authority op)])]"

definition set_reset_account_validate :: "set_reset_account_operation \<Rightarrow> unit res" where
  "set_reset_account_validate op = seqR
     [check_param_account ''account'' (sra_account op),
      (if length (sra_current_reset_account op) > 0
       then check_param_account ''current_reset_account'' (sra_current_reset_account op) else Inr ()),
      check_param_account ''reset_account'' (sra_reset_account op),
      check_logic (sra_current_reset_account op \<noteq> sra_reset_account op) ''cannot_set_same_reset_account'']"

section \<open>Savings, voting rights and delegation\<close>

definition transfer_to_savings_validate :: "fc_lib \<Rightarrow> transfer_to_savings_operation \<Rightarrow> unit res" where
  "transfer_to_savings_validate fc op = seqR
     [check_param_account ''from'' (tts_from op),
      check_param_account ''to'' (tts_to op),
      check_param ''amount'' (check_asset_gt0 (tts_amount op) golos_or_gbg),
      check_param ''memo'' (seqR
        [check_value_max_size (tts_memo op) (STEEMIT_MAX_MEMO_SIZE - 1), check_value_utf8 fc (tts_memo op)])]"

definition transfer_from_savings_validate :: "fc_lib \<Rightarrow> transfer_from_savings_operation \<Rightarrow> unit res" where
  "transfer_from_savings_validate fc op = seqR
     [check_param_account ''from'' (tfs_from op),
      check_param_account ''to'' (tfs_to op),
      check_param ''amount'' (check_asset_gt0 (tfs_amount op) golos_or_gbg),
      check_param ''memo'' (seqR
        [check_value_max_size (tfs_memo op) (STEEMIT_MAX_MEMO_SIZE - 1), check_value_utf8 fc (tfs_memo op)])]"

definition cancel_transfer_from_savings_validate ::
  "cancel_transfer_from_savings_operation \<Rightarrow> unit res" where
  "cancel_transfer_from_savings_validate op = check_param_account ''from'' (ctf_from op)"

definition decline_voting_rights_validate :: "decline_voting_rights_operation \<Rightarrow> unit res" where
  "decline_voting_rights_validate op = check_param_account ''account'' (dvr_account op)"

definition delegate_vesting_shares_validate :: "delegate_vesting_shares_operation \<Rightarrow> unit res" where
  "delegate_vesting_shares_validate op = seqR
     [check_param_account ''delegator'' (dvs_delegator op),
      check_param_account ''delegatee'' (dvs_delegatee op),
      check_logic (dvs_delegator op \<noteq> dvs_delegatee op) ''cannot_delegate_to_yourself'',
      check_param ''vesting_shares'' (check_asset_ge0 (dvs_vesting_shares op) [VESTS_SYMBOL])]"

definition break_free_referral_validate :: "break_free_referral_operation \<Rightarrow> unit res" where
  "break_free_referral_validate op = check_param_account ''referral'' (bfr_referral op)"

definition delegate_vesting_shares_with_interest_validate ::
  "delegate_vesting_shares_with_interest_operation \<Rightarrow> unit res" where
  "delegate_vesting_shares_with_interest_validate op = seqR
     [check_param_account ''delegator'' (dvi_delegator op),
      check_param_account ''delegatee'' (dvi_delegatee op),
      check_logic (dvi_delegator op \<noteq> dvi_delegatee op) ''cannot_delegate_to_yourself'',
      check_param ''vesting_shares'' (check_asset_ge0 (dvi_vesting_shares op) [VESTS_SYMBOL])]"

definition reject_vesting_shares_delegation_validate ::
  "reject_vesting_shares_delegation_operation \<Rightarrow> unit res" where
  "reject_vesting_shares_delegation_validate op = seqR
     [check_param_account ''delegator'' (rvd_delegator op),
      check_param_account ''delegatee'' (rvd_delegatee op)]"

definition transit_to_cyberway_validate :: "transit_to_cyberway_operation \<Rightarrow> unit res" where
  "transit_to_cyberway_validate op = check_param_account ''owner'' (ttc_owner op)"

section \<open>Proposals\<close>

definition proposal_title_checks :: "fc_lib \<Rightarrow> string \<Rightarrow> unit res" where
  "proposal_title_checks fc title = check_param ''title'' (seqR
     [check_value_not_empty title,
      check_value_max_size title GOLOS_PROPOSAL_MAX_TITLE_SIZE,
      check_value_utf8 fc title])"

text \<open>The results of validating the proposed operations are an argument (see \<open>operation_validate\<close>).\<close>

definition proposal_create_validate ::
  "fc_lib \<Rightarrow> account_name_type \<Rightarrow> string \<Rightarrow> string \<Rightarrow> unit res list \<Rightarrow> unit res" where
  "proposal_create_validate fc author title memo proposed = seqR
     [check_param_account ''author'' author,
      proposal_title_checks fc title,
      check_param ''proposed_operations'' (seqR
        (check_value (proposed \<noteq> []) ''proposed_operations cannot be empty'' # proposed)),
      check_param ''memo'' (if length memo > 0 then seqR
        [check_value_max_size memo GOLOS_PROPOSAL_MAX_MEMO_SIZE, check_value_utf8 fc memo] else Inr ())]"

definition approvals_disjoint :: "string list \<Rightarrow> string list \<Rightarrow> unit res" where
  "approvals_disjoint to_add to_remove =
     seqR (map (\<lambda>a. check_logic (a \<notin> set to_remove) ''add_and_remove_same_approval'') to_add)"

definition proposal_update_validate :: "fc_lib \<Rightarrow> proposal_update_operation \<Rightarrow> unit res" where
  "proposal_update_validate fc op = seqR
     [check_param_account ''author'' (pup_author op),
      proposal_title_checks fc (pup_title op),
      check_logic (0 <
        length (pup_owner_approvals_to_add op) + length (pup_owner_approvals_to_remove op) +
        length (pup_active_approvals_to_add op) + length (pup_active_approvals_to_remove op) +
        length (pup_posting_approvals_to_add op) + length (pup_posting_approvals_to_remove op) +
        length (pup_key_approvals_to_add op) + length (pup_key_approvals_to_remove op)) ''empty_approvals'',
      approvals_disjoint (pup_owner_approvals_to_add op) (pup_owner_approvals_to_remove op),
      approvals_disjoint (pup_active_approvals_to_add op) (pup_active_approvals_to_remove op),
      approvals_disjoint (pup_posting_approvals_to_add op) (pup_posting_approvals_to_remove op),
      approvals_disjoint (pup_key_approvals_to_add op) (pup_key_approvals_to_remove op)]"

definition proposal_delete_validate :: "fc_lib \<Rightarrow> proposal_delete_operation \<Rightarrow> unit res" where
  "proposal_delete_validate fc op = seqR
     [check_param_account ''requester'' (pde_requester op),
      check_param_account ''author'' (pde_author op),
      proposal_title_checks fc (pde_title op)]"

section \<open>The visitor\<close>

primrec operation_validate :: "fc_lib \<Rightarrow> crypto_lib \<Rightarrow> operation \<Rightarrow> unit res" where
  "operation_validate fc cr (Op_vote op) = vote_validate fc op"
| "operation_validate fc cr (Op_comment op) = comment_validate fc op"
| "operation_validate fc cr (Op_transfer op) = transfer_validate fc op"
| "operation_validate fc cr (Op_transfer_to_vesting op) = transfer_to_vesting_validate op"
| "operation_validate fc cr (Op_withdraw_vesting op) = withdraw_vesting_validate op"
| "operation_validate fc cr (Op_limit_order_create op) = limit_order_create_validate op"
| "operation_validate fc cr (Op_limit_order_cancel op) = limit_order_cancel_validate op"
| "operation_validate fc cr (Op_feed_publish op) = feed_publish_validate op"
| "operation_validate fc cr (Op_convert op) = convert_validate op"
| "operation_validate fc cr (Op_account_create op) = account_create_validate fc op"
| "operation_validate fc cr (Op_account_update op) = account_update_validate fc op"
| "operation_validate fc cr (Op_witness_update op) = witness_update_validate fc op"
| "operation_validate fc cr (Op_account_witness_vote op) = account_witness_vote_validate op"
| "operation_validate fc cr (Op_account_witness_proxy op) = account_witness_proxy_validate op"
| "operation_validate fc cr (Op_pow op) = pow_validate cr op"
| "operation_validate fc cr (Op_custom op) = custom_validate op"
| "operation_validate fc cr (Op_report_over_production op) = report_over_production_validate cr op"
| "operation_validate fc cr (Op_delete_comment op) = delete_comment_validate fc op"
| "operation_validate fc cr (Op_custom_json op) = custom_json_validate fc op"
| "operation_validate fc cr (Op_comment_options op) = comment_options_validate fc op"
| "operation_validate fc cr (Op_set_withdraw_vesting_route op) = set_withdraw_vesting_route_validate op"
| "operation_validate fc cr (Op_limit_order_create2 op) = limit_order_create2_validate fc op"
| "operation_validate fc cr (Op_challenge_authority op) = challenge_authority_validate op"
| "operation_validate fc cr (Op_prove_authority op) = prove_authority_validate op"
| "operation_validate fc cr (Op_request_account_recovery op) = request_account_recovery_validate op"
| "operation_validate fc cr (Op_recover_account op) = recover_account_validate op"
| "operation_validate fc cr (Op_change_recovery_account op) = change_recovery_account_validate op"
| "operation_validate fc cr (Op_escrow_transfer op) = escrow_transfer_validate fc op"
| "operation_validate fc cr (Op_escrow_dispute op) = escrow_dispute_validate op"
| "operation_validate fc cr (Op_escrow_release op) = escrow_release_validate op"
| "operation_validate fc cr (Op_pow2 op) = pow2_operation_validate cr op"
| "operation_validate fc cr (Op_escrow_approve op) = escrow_approve_validate op"
| "operation_validate fc cr (Op_transfer_to_savings op) = transfer_to_savings_validate fc op"
| "operation_validate fc cr (Op_transfer_from_savings op) = transfer_from_savings_validate fc op"
| "operation_validate fc cr (Op_cancel_transfer_from_savings op) = cancel_transfer_from_savings_validate op"
| "operation_validate fc cr (Op_custom_binary op) = custom_binary_validate op"
| "operation_validate fc cr (Op_decline_voting_rights op) = decline_voting_rights_validate op"
| "operation_validate fc cr (Op_reset_account op) = reset_account_validate op"
| "operation_validate fc cr (Op_set_reset_account op) = set_reset_account_validate op"
| "operation_validate fc cr (Op_delegate_vesting_shares op) = delegate_vesting_shares_validate op"
| "operation_validate fc cr (Op_account_create_with_delegation op) = account_create_with_delegation_validate fc op"
| "operation_validate fc cr (Op_account_metadata op) = account_metadata_validate fc op"
| "operation_validate fc cr (Op_proposal_create author title memo ops _ _ _) =
     proposal_create_validate fc author title memo (map (operation_validate fc cr) ops)"
| "operation_validate fc cr (Op_proposal_update op) = proposal_update_validate fc op"
| "operation_validate fc cr (Op_proposal_delete op) = proposal_delete_validate fc op"
| "operation_validate fc cr (Op_chain_properties_update op) = chain_properties_update_validate op"
| "operation_validate fc cr (Op_break_free_referral op) = break_free_referral_validate op"
| "operation_validate fc cr (Op_delegate_vesting_shares_with_interest op) = delegate_vesting_shares_with_interest_validate op"
| "operation_validate fc cr (Op_reject_vesting_shares_delegation op) = reject_vesting_shares_delegation_validate op"
| "operation_validate fc cr (Op_transit_to_cyberway op) = transit_to_cyberway_validate op"
| "operation_validate fc cr (Op_virtual _) = Inl (Fc_assert ''This is a virtual operation'')"

end
