(* ===== verification/Evaluators.thy ===== *)
theory Evaluators
  imports Balance Operation_Validate
begin

text \<open>
  The evaluators of \<^verbatim>\<open>steem_evaluator.cpp\<close> that move funds or voting power: transfers, vesting,
  withdrawal routes, witness votes and proxies, price feeds, conversions, savings, delegations,
  challenges and the declining of voting rights. Every evaluator takes the operation and the
  state, and either returns the new state or the exception with which the code leaves
  \<^verbatim>\<open>do_apply\<close> (the undo session of the caller then discards the partial changes).
\<close>

section \<open>Transfers and vesting\<close>

definition transfer_evaluator :: "fc_lib \<Rightarrow> transfer_operation \<Rightarrow> database \<Rightarrow> database res" where
  "transfer_evaluator fc op db =
     bindR (get_account (trf_from op) db) (\<lambda>from_account.
     bindR (get_account (trf_to op) db) (\<lambda>_.
     bindR (if acc_active_challenged from_account
            then modify_account (trf_from op) (\<lambda>a. Inr (a\<lparr>acc_active_challenged := False,
              acc_last_active_proved := head_block_time db\<rparr>)) db
            else Inr db) (\<lambda>db.
     check_param ''amount'' (
       bindR (get_account (trf_from op) db) (\<lambda>from_account.
       bindR (check_balance fc from_account MAIN_BALANCE (trf_amount op)) (\<lambda>_.
       bindR (asset_neg fc (trf_amount op)) (\<lambda>neg.
       bindR (adjust_balance fc (trf_from op) neg db) (\<lambda>db.
       adjust_balance fc (trf_to op) (trf_amount op) db))))))))"

definition transfer_to_vesting_evaluator ::
  "fc_lib \<Rightarrow> transfer_to_vesting_operation \<Rightarrow> database \<Rightarrow> database res" where
  "transfer_to_vesting_evaluator fc op db =
     bindR (get_account (ttv_from op) db) (\<lambda>from_account.
     bindR (if ttv_to op \<noteq> [] then get_account (ttv_to op) db else Inr from_account) (\<lambda>to_account.
     check_param ''amount'' (
       bindR (check_balance fc from_account MAIN_BALANCE (ttv_amount op)) (\<lambda>_.
       bindR (asset_neg fc (ttv_amount op)) (\<lambda>neg.
       bindR (adjust_balance fc (ttv_from op) neg db) (\<lambda>db.
       bindR (create_vesting fc (acc_name to_account) (ttv_amount op) db) (\<lambda>(_, db).
       Inr db)))))))"

definition STEEMIT_VESTING_WITHDRAW_INTERVALS_PRE_HF_16 :: int where
  "STEEMIT_VESTING_WITHDRAW_INTERVALS_PRE_HF_16 = 104"

definition STEEMIT_VESTING_WITHDRAW_INTERVALS :: int where
  "STEEMIT_VESTING_WITHDRAW_INTERVALS = 13"

definition STEEMIT_VESTING_WITHDRAW_INTERVAL_SECONDS :: int where
  "STEEMIT_VESTING_WITHDRAW_INTERVAL_SECONDS = 60 * 60 * 24 * 7"

definition vesting_withdraw_intervals :: "database \<Rightarrow> int" where
  "vesting_withdraw_intervals db =
     (if has_hardfork 16 db then STEEMIT_VESTING_WITHDRAW_INTERVALS
      else STEEMIT_VESTING_WITHDRAW_INTERVALS_PRE_HF_16)"

definition withdraw_vesting_evaluator ::
  "fc_lib \<Rightarrow> node_flags \<Rightarrow> withdraw_vesting_operation \<Rightarrow> database \<Rightarrow> database res" where
  "withdraw_vesting_evaluator fc nf op db =
     bindR (get_account (wdv_account op) db) (\<lambda>account.
     bindR (check_balance fc account VESTING \<lparr>amount = 0, symbol = VESTS_SYMBOL\<rparr>) (\<lambda>_.
     bindR (check_balance fc account HAVING_VESTING (wdv_vesting_shares op)) (\<lambda>_.
     bindR (if \<not> acc_mined account \<and> has_hardfork 1 db then
              bindR (asset_mul_price fc (account_creation_fee (wso_median_props (db_schedule db)))
                (get_vesting_share_price (db_dgp db))) (\<lambda>min_vests.
              ensure (amount (acc_vesting_shares account) > i64_wrap (amount min_vests * 10) \<or>
                  has_hardfork 16 db \<and> amount (wdv_vesting_shares op) = 0)
                (Logic_error ''insufficient_fee_for_powerdown_registered_account''))
            else Inr ()) (\<lambda>_.
     let must_change = is_producing nf \<or> has_hardfork 5 db in
     if amount (wdv_vesting_shares op) = 0 then
       bindR (ensure (must_change \<longrightarrow> amount (acc_vesting_withdraw_rate account) \<noteq> 0)
         (Logic_error ''operation_would_not_change_vesting_withdraw_rate'')) (\<lambda>_.
       modify_account (wdv_account op) (\<lambda>a. Inr (a\<lparr>
         acc_vesting_withdraw_rate := \<lparr>amount = 0, symbol = VESTS_SYMBOL\<rparr>,
         acc_next_vesting_withdrawal := time_maximum, acc_to_withdraw := 0, acc_withdrawn := 0\<rparr>)) db)
     else
       modify_account (wdv_account op) (\<lambda>a.
         bindR (safe_div fc (amount (wdv_vesting_shares op)) (vesting_withdraw_intervals db)) (\<lambda>q.
         let new_rate = \<lparr>amount = (if q = 0 then 1 else q), symbol = VESTS_SYMBOL\<rparr> in
         bindR (if must_change then
                  bindR (asset_ne (acc_vesting_withdraw_rate account) new_rate) (\<lambda>changed.
                  ensure changed (Logic_error ''operation_would_not_change_vesting_withdraw_rate''))
                else Inr ()) (\<lambda>_.
         Inr (a\<lparr>acc_vesting_withdraw_rate := new_rate,
           acc_next_vesting_withdrawal :=
             time_plus (head_block_time db) STEEMIT_VESTING_WITHDRAW_INTERVAL_SECONDS,
           acc_to_withdraw := amount (wdv_vesting_shares op), acc_withdrawn := 0\<rparr>)))) db))))"

section \<open>Withdrawal routes\<close>

definition STEEMIT_MAX_WITHDRAW_ROUTES :: nat where
  "STEEMIT_MAX_WITHDRAW_ROUTES = 10"

definition wvr_key :: "withdraw_vesting_route_object \<Rightarrow> nat \<times> nat" where
  "wvr_key r = (wvr_from_account r, wvr_to_account r)"

text \<open>
  The loop over the routes starts at \<^verbatim>\<open>upper_bound(from, account_id_type())\<close>, the first route of the
  account whose destination has an id above 0.
\<close>

definition total_route_percent :: "nat \<Rightarrow> database \<Rightarrow> nat" where
  "total_route_percent i db =
     (\<Sum>r\<leftarrow>filter (\<lambda>r. wvr_from_account r = i \<and> wvr_to_account r > 0) (db_routes db). wvr_percent r)"

definition set_withdraw_vesting_route_evaluator ::
  "set_withdraw_vesting_route_operation \<Rightarrow> database \<Rightarrow> database res" where
  "set_withdraw_vesting_route_evaluator op db =
     bindR (get_account (swr_from_account op) db) (\<lambda>from_account.
     bindR (get_account (swr_to_account op) db) (\<lambda>to_account.
     bindR (case find_by wvr_key (acc_id from_account, acc_id to_account) (db_routes db) of
         None \<Rightarrow>
           bindR (ensure (swr_percent op \<noteq> 0) (Logic_error ''cannot_create_zero_percent_destination'')) (\<lambda>_.
           bindR (ensure (acc_withdraw_routes from_account < STEEMIT_MAX_WITHDRAW_ROUTES)
             (Logic_error ''reached_maxumum_number_of_routes'')) (\<lambda>_.
           bindR (create_in wvr_key \<lparr>wvr_id = db_next_id db withdraw_vesting_route_object_type,
             wvr_from_account = acc_id from_account, wvr_to_account = acc_id to_account,
             wvr_percent = swr_percent op, wvr_auto_vest = swr_auto_vest op\<rparr> (db_routes db)) (\<lambda>rs.
           modify_account (swr_from_account op)
             (\<lambda>a. Inr (a\<lparr>acc_withdraw_routes := inc_w 16 (acc_withdraw_routes a)\<rparr>))
             (bump_id withdraw_vesting_route_object_type (db\<lparr>db_routes := rs\<rparr>)))))
       | Some r \<Rightarrow>
           if swr_percent op = 0 then
             modify_account (swr_from_account op)
               (\<lambda>a. Inr (a\<lparr>acc_withdraw_routes := dec_w 16 (acc_withdraw_routes a)\<rparr>))
               (db\<lparr>db_routes := del_by wvr_key (wvr_key r) (db_routes db)\<rparr>)
           else Inr (db\<lparr>db_routes := upd_by wvr_key (r\<lparr>wvr_from_account := acc_id from_account,
             wvr_to_account := acc_id to_account, wvr_percent := swr_percent op,
             wvr_auto_vest := swr_auto_vest op\<rparr>) (db_routes db)\<rparr>)) (\<lambda>db.
     if total_route_percent (acc_id from_account) db \<le> STEEMIT_100_PERCENT then Inr db
     else Inl (Logic_error ''more_100percent_allocated_to_destinations''))))"

section \<open>Witness votes and proxies\<close>

text \<open>
  The search for a loop of proxies. Each round adds an account to the chain and the chain is
  limited, so the loop ends.
\<close>

function proxy_loop :: "nat list \<Rightarrow> account_object \<Rightarrow> database \<Rightarrow> unit res" where
  "proxy_loop proxy_chain cprox db =
     (if acc_proxy cprox = [] then Inr ()
      else bindR (get_account (acc_proxy cprox) db) (\<lambda>next_proxy.
        if acc_id next_proxy \<in> set proxy_chain then Inl (Logic_error ''proxy_would_create_loop'')
        else if length (flat_ins (acc_id next_proxy) proxy_chain) \<le> STEEMIT_MAX_PROXY_RECURSION_DEPTH
        then proxy_loop (flat_ins (acc_id next_proxy) proxy_chain) next_proxy db
        else Inl (Logic_error ''proxy_chain_is_too_long'')))"
  by auto

termination
  by (relation "measure (\<lambda>(ch, c, db). Suc STEEMIT_MAX_PROXY_RECURSION_DEPTH - length ch)")
    (auto simp: length_flat_ins)

declare proxy_loop.simps [simp del]

definition neg_all :: "fc_lib \<Rightarrow> int list \<Rightarrow> int list res" where
  "neg_all fc xs = foldR (\<lambda>x acc. bindR (safe_neg fc x) (\<lambda>y. Inr (acc @ [y]))) xs []"

definition account_witness_proxy_evaluator ::
  "fc_lib \<Rightarrow> account_witness_proxy_operation \<Rightarrow> database \<Rightarrow> database res" where
  "account_witness_proxy_evaluator fc op db =
     bindR (get_account (awp_account op) db) (\<lambda>account.
     bindR (ensure (acc_proxy account \<noteq> awp_proxy op) (Logic_error ''proxy_must_change'')) (\<lambda>_.
     bindR (ensure (acc_can_vote account) (Logic_error ''voter_declined_voting_rights'')) (\<lambda>_.
     bindR (neg_all fc (amount (acc_vesting_shares account) # acc_proxied_vsf_votes account)) (\<lambda>delta.
     bindR (adjust_proxied_witness_votes_array fc STEEMIT_MAX_PROXY_RECURSION_DEPTH (awp_account op) delta db) (\<lambda>db.
     if awp_proxy op \<noteq> [] then
       bindR (get_account (awp_proxy op) db) (\<lambda>new_proxy.
       bindR (proxy_loop (flat_ins (acc_id new_proxy) [acc_id account]) new_proxy db) (\<lambda>_.
       bindR (clear_witness_votes (awp_account op) db) (\<lambda>db.
       bindR (modify_account (awp_account op) (\<lambda>a. Inr (a\<lparr>acc_proxy := awp_proxy op\<rparr>)) db) (\<lambda>db.
       bindR (neg_all fc delta) (\<lambda>delta.
       adjust_proxied_witness_votes_array fc STEEMIT_MAX_PROXY_RECURSION_DEPTH (awp_account op) delta db)))))
     else modify_account (awp_account op) (\<lambda>a. Inr (a\<lparr>acc_proxy := awp_proxy op\<rparr>)) db)))))"

definition STEEMIT_MAX_ACCOUNT_WITNESS_VOTES :: nat where
  "STEEMIT_MAX_ACCOUNT_WITNESS_VOTES = 30"

definition wvo_key :: "witness_vote_object \<Rightarrow> nat \<times> nat" where
  "wvo_key v = (wvo_account v, wvo_witness v)"

definition create_witness_vote :: "nat \<Rightarrow> nat \<Rightarrow> database \<Rightarrow> database res" where
  "create_witness_vote w i db =
     bindR (create_in wvo_key \<lparr>wvo_id = db_next_id db witness_vote_object_type, wvo_witness = w,
       wvo_account = i\<rparr> (db_witness_votes db)) (\<lambda>vs.
     Inr (bump_id witness_vote_object_type (db\<lparr>db_witness_votes := vs\<rparr>)))"

definition account_witness_vote_evaluator ::
  "fc_lib \<Rightarrow> account_witness_vote_operation \<Rightarrow> database \<Rightarrow> database res" where
  "account_witness_vote_evaluator fc op db =
     bindR (get_account (awv_account op) db) (\<lambda>voter.
     bindR (ensure (acc_proxy voter = []) (Logic_error ''cannot_vote_when_route_are_set'')) (\<lambda>_.
     bindR (ensure (awv_approve op \<longrightarrow> acc_can_vote voter) (Logic_error ''voter_declined_voting_rights'')) (\<lambda>_.
     bindR (get_witness (awv_witness op) db) (\<lambda>witness.
     case find_by wvo_key (acc_id voter, wit_id witness) (db_witness_votes db) of
       None \<Rightarrow>
         bindR (ensure (awv_approve op) (Logic_error ''witness_vote_does_not_exist'')) (\<lambda>_.
         bindR (if has_hardfork 2 db then
                  bindR (ensure (acc_witnesses_voted_for voter < STEEMIT_MAX_ACCOUNT_WITNESS_VOTES)
                    (Logic_error ''account_has_too_many_witness_votes'')) (\<lambda>_.
                  bindR (create_witness_vote (wit_id witness) (acc_id voter) db) (\<lambda>db.
                  bindR (witness_vote_weight fc voter) (\<lambda>weight.
                  if has_hardfork 3 db then adjust_witness_vote fc (wit_id witness) weight db
                  else adjust_proxied_witness_votes fc STEEMIT_MAX_PROXY_RECURSION_DEPTH (awv_account op) weight db)))
                else
                  bindR (create_witness_vote (wit_id witness) (acc_id voter) db) (\<lambda>db.
                  bindR (witness_vote_weight fc voter) (\<lambda>weight.
                  bindR (safe_add fc (wit_votes witness) weight) (\<lambda>votes.
                  Inr (set_witness (witness\<lparr>wit_votes := votes\<rparr>) db))))) (\<lambda>db.
         modify_account (awv_account op)
           (\<lambda>a. Inr (a\<lparr>acc_witnesses_voted_for := inc_w 16 (acc_witnesses_voted_for a)\<rparr>)) db))
     | Some v \<Rightarrow>
         bindR (ensure (\<not> awv_approve op) (Logic_error ''witness_vote_already_exist'')) (\<lambda>_.
         bindR (witness_vote_weight fc voter) (\<lambda>weight.
         bindR (if has_hardfork 2 db then
                  bindR (safe_neg fc weight) (\<lambda>neg.
                  if has_hardfork 3 db then adjust_witness_vote fc (wit_id witness) neg db
                  else adjust_proxied_witness_votes fc STEEMIT_MAX_PROXY_RECURSION_DEPTH (awv_account op) neg db)
                else
                  bindR (safe_sub fc (wit_votes witness) weight) (\<lambda>votes.
                  Inr (set_witness (witness\<lparr>wit_votes := votes\<rparr>) db))) (\<lambda>db.
         bindR (modify_account (awv_account op)
           (\<lambda>a. Inr (a\<lparr>acc_witnesses_voted_for := dec_w 16 (acc_witnesses_voted_for a)\<rparr>)) db) (\<lambda>db.
         Inr (db\<lparr>db_witness_votes := del_by wvo_key (wvo_key v) (db_witness_votes db)\<rparr>)))))))))"

section \<open>Price feed and conversion\<close>

definition feed_publish_evaluator :: "feed_publish_operation \<Rightarrow> database \<Rightarrow> database res" where
  "feed_publish_evaluator op db =
     bindR (get_witness (fpb_publisher op) db) (\<lambda>w.
     Inr (set_witness (w\<lparr>wit_sbd_exchange_rate := fpb_exchange_rate op,
       wit_last_sbd_exchange_update := head_block_time db\<rparr>) db))"

definition STEEMIT_CONVERSION_DELAY_PRE_HF_16 :: int where
  "STEEMIT_CONVERSION_DELAY_PRE_HF_16 = 7 * 24 * 60 * 60"

definition STEEMIT_FEED_HISTORY_WINDOW :: nat where
  "STEEMIT_FEED_HISTORY_WINDOW = 12 * 7"

definition STEEMIT_CONVERSION_DELAY :: int where
  "STEEMIT_CONVERSION_DELAY = int STEEMIT_FEED_HISTORY_WINDOW * 60 * 60"

definition convert_evaluator :: "fc_lib \<Rightarrow> convert_operation \<Rightarrow> database \<Rightarrow> database res" where
  "convert_evaluator fc op db =
     bindR (get_account (cvo_owner op) db) (\<lambda>owner.
     bindR (check_balance fc owner MAIN_BALANCE (cvo_amount op)) (\<lambda>_.
     bindR (asset_neg fc (cvo_amount op)) (\<lambda>neg.
     bindR (adjust_balance fc (cvo_owner op) neg db) (\<lambda>db.
     bindR (ensure (\<not> price_is_null fc (fho_current_median_history (db_feed db)))
       (Logic_error ''no_price_feed_yet'')) (\<lambda>_.
     let steem_conversion_delay =
           (if has_hardfork 16 db then STEEMIT_CONVERSION_DELAY else STEEMIT_CONVERSION_DELAY_PRE_HF_16) in
     bindR (throw_if_exists_convert_request (cvo_owner op) (cvo_requestid op) db) (\<lambda>_.
     bindR (create_in cvt_key \<lparr>cvt_id = db_next_id db convert_request_object_type,
       cvt_owner = cvo_owner op, cvt_requestid = cvo_requestid op, cvt_amount = cvo_amount op,
       cvt_conversion_date = time_plus (head_block_time db) steem_conversion_delay\<rparr> (db_converts db)) (\<lambda>cs.
     Inr (bump_id convert_request_object_type (db\<lparr>db_converts := cs\<rparr>)))))))))"

section \<open>Savings\<close>

definition STEEMIT_SAVINGS_WITHDRAW_TIME :: int where
  "STEEMIT_SAVINGS_WITHDRAW_TIME = 3 * 24 * 60 * 60"

definition STEEMIT_SAVINGS_WITHDRAW_REQUEST_LIMIT :: nat where
  "STEEMIT_SAVINGS_WITHDRAW_REQUEST_LIMIT = 100"

definition transfer_to_savings_evaluator ::
  "fc_lib \<Rightarrow> transfer_to_savings_operation \<Rightarrow> database \<Rightarrow> database res" where
  "transfer_to_savings_evaluator fc op db =
     bindR (get_account (tts_from op) db) (\<lambda>from.
     bindR (get_account (tts_to op) db) (\<lambda>_.
     bindR (check_balance fc from MAIN_BALANCE (tts_amount op)) (\<lambda>_.
     bindR (asset_neg fc (tts_amount op)) (\<lambda>neg.
     bindR (adjust_balance fc (tts_from op) neg db) (\<lambda>db.
     adjust_savings_balance fc (tts_to op) (tts_amount op) db)))))"

definition transfer_from_savings_evaluator ::
  "fc_lib \<Rightarrow> node_flags \<Rightarrow> transfer_from_savings_operation \<Rightarrow> database \<Rightarrow> database res" where
  "transfer_from_savings_evaluator fc nf op db =
     bindR (get_account (tfs_from op) db) (\<lambda>from.
     bindR (get_account (tfs_to op) db) (\<lambda>_.
     bindR (ensure (acc_savings_withdraw_requests from < STEEMIT_SAVINGS_WITHDRAW_REQUEST_LIMIT)
       (Logic_error ''reached_limit_for_pending_withdraw_requests'')) (\<lambda>_.
     bindR (check_balance fc from SAVINGS (tfs_amount op)) (\<lambda>_.
     bindR (asset_neg fc (tfs_amount op)) (\<lambda>neg.
     bindR (adjust_savings_balance fc (tfs_from op) neg db) (\<lambda>db.
     bindR (throw_if_exists_savings_withdraw (tfs_from op) (tfs_request_id op) db) (\<lambda>_.
     bindR (create_in swo_key \<lparr>swo_id = db_next_id db savings_withdraw_object_type,
       swo_from = tfs_from op, swo_to = tfs_to op,
       swo_memo = (if store_memo_in_savings_withdraws nf then tfs_memo op else []),
       swo_request_id = tfs_request_id op, swo_amount = tfs_amount op,
       swo_complete = time_plus (head_block_time db) STEEMIT_SAVINGS_WITHDRAW_TIME\<rparr> (db_savings db)) (\<lambda>ws.
     modify_account (tfs_from op)
       (\<lambda>a. Inr (a\<lparr>acc_savings_withdraw_requests := inc_w 8 (acc_savings_withdraw_requests a)\<rparr>))
       (bump_id savings_withdraw_object_type (db\<lparr>db_savings := ws\<rparr>))))))))))"

definition cancel_transfer_from_savings_evaluator ::
  "fc_lib \<Rightarrow> cancel_transfer_from_savings_operation \<Rightarrow> database \<Rightarrow> database res" where
  "cancel_transfer_from_savings_evaluator fc op db =
     bindR (get_account (ctf_from op) db) (\<lambda>_.
     bindR (get_savings_withdraw (ctf_from op) (ctf_request_id op) db) (\<lambda>swo.
     bindR (adjust_savings_balance fc (ctf_from op) (swo_amount swo) db) (\<lambda>db.
     modify_account (ctf_from op)
       (\<lambda>a. Inr (a\<lparr>acc_savings_withdraw_requests := dec_w 8 (acc_savings_withdraw_requests a)\<rparr>))
       (db\<lparr>db_savings := del_by swo_key (swo_key swo) (db_savings db)\<rparr>))))"

section \<open>Declining voting rights, challenges, disabled operations\<close>

definition STEEMIT_OWNER_AUTH_RECOVERY_PERIOD :: int where
  "STEEMIT_OWNER_AUTH_RECOVERY_PERIOD = 30 * 24 * 60 * 60"

definition decline_voting_rights_evaluator ::
  "decline_voting_rights_operation \<Rightarrow> database \<Rightarrow> database res" where
  "decline_voting_rights_evaluator op db =
     bindR (get_account (dvr_account op) db) (\<lambda>account.
     let itr = find_by dvo_account (acc_id account) (db_declines db) in
     if dvr_decline op then
       bindR (ensure (itr = None) (Object_already_exist ''decline_voting_rights_request'')) (\<lambda>_.
       bindR (create_in dvo_account \<lparr>dvo_id = db_next_id db decline_voting_rights_request_object_type,
         dvo_account = acc_id account,
         dvo_effective_date = time_plus (head_block_time db) STEEMIT_OWNER_AUTH_RECOVERY_PERIOD\<rparr>
         (db_declines db)) (\<lambda>rs.
       Inr (bump_id decline_voting_rights_request_object_type (db\<lparr>db_declines := rs\<rparr>))))
     else
       bindR (ensure (itr \<noteq> None) (Missing_object ''decline_voting_rights_request'')) (\<lambda>_.
       Inr (db\<lparr>db_declines := del_by dvo_account (acc_id account) (db_declines db)\<rparr>)))"

definition STEEMIT_ACTIVE_CHALLENGE_FEE :: asset where
  "STEEMIT_ACTIVE_CHALLENGE_FEE = \<lparr>amount = 2000, symbol = STEEM_SYMBOL\<rparr>"

definition STEEMIT_OWNER_CHALLENGE_FEE :: asset where
  "STEEMIT_OWNER_CHALLENGE_FEE = \<lparr>amount = 30000, symbol = STEEM_SYMBOL\<rparr>"

definition STEEMIT_ACTIVE_CHALLENGE_COOLDOWN :: int where
  "STEEMIT_ACTIVE_CHALLENGE_COOLDOWN = 24 * 60 * 60"

definition STEEMIT_OWNER_CHALLENGE_COOLDOWN :: int where
  "STEEMIT_OWNER_CHALLENGE_COOLDOWN = 24 * 60 * 60"

definition challenge_authority_evaluator ::
  "fc_lib \<Rightarrow> challenge_authority_operation \<Rightarrow> database \<Rightarrow> database res" where
  "challenge_authority_evaluator fc op db =
     bindR (ensure (\<not> has_hardfork 14 db) (Unsupported_operation ''challenge_authority'')) (\<lambda>_.
     bindR (get_account (cha_challenged op) db) (\<lambda>challenged.
     bindR (get_account (cha_challenger op) db) (\<lambda>challenger.
     if cha_require_owner op then
       bindR (ensure (acc_reset_account challenged = cha_challenger op)
         (Fc_assert ''Owner authority can only be challenged by its reset account.'')) (\<lambda>_.
       bindR (asset_ge (acc_balance challenger) STEEMIT_OWNER_CHALLENGE_FEE) (\<lambda>ge.
       bindR (ensure ge (Fc_assert ''challenger.balance'')) (\<lambda>_.
       bindR (ensure (\<not> acc_owner_challenged challenged) (Fc_assert ''owner_challenged'')) (\<lambda>_.
       bindR (ensure (head_block_time db - acc_last_owner_proved challenged > STEEMIT_OWNER_CHALLENGE_COOLDOWN)
         (Fc_assert ''last_owner_proved'')) (\<lambda>_.
       bindR (asset_neg fc STEEMIT_OWNER_CHALLENGE_FEE) (\<lambda>neg.
       bindR (adjust_balance fc (cha_challenger op) neg db) (\<lambda>db.
       bindR (create_vesting fc (cha_challenged op) STEEMIT_OWNER_CHALLENGE_FEE db) (\<lambda>(_, db).
       modify_account (cha_challenged op) (\<lambda>a. Inr (a\<lparr>acc_owner_challenged := True\<rparr>)) db))))))))
     else
       bindR (asset_ge (acc_balance challenger) STEEMIT_ACTIVE_CHALLENGE_FEE) (\<lambda>ge.
       bindR (ensure ge (Fc_assert ''Account does not have sufficient funds to pay challenge fee.'')) (\<lambda>_.
       bindR (ensure (\<not> (acc_owner_challenged challenged \<or> acc_active_challenged challenged))
         (Fc_assert ''Account is already challenged.'')) (\<lambda>_.
       bindR (ensure (head_block_time db - acc_last_active_proved challenged > STEEMIT_ACTIVE_CHALLENGE_COOLDOWN)
         (Fc_assert ''Account cannot be challenged because it was recently challenged.'')) (\<lambda>_.
       bindR (asset_neg fc STEEMIT_ACTIVE_CHALLENGE_FEE) (\<lambda>neg.
       bindR (adjust_balance fc (cha_challenger op) neg db) (\<lambda>db.
       bindR (create_vesting fc (cha_challenged op) STEEMIT_ACTIVE_CHALLENGE_FEE db) (\<lambda>(_, db).
       modify_account (cha_challenged op) (\<lambda>a. Inr (a\<lparr>acc_active_challenged := True\<rparr>)) db))))))))))"

definition prove_authority_evaluator :: "prove_authority_operation \<Rightarrow> database \<Rightarrow> database res" where
  "prove_authority_evaluator op db =
     bindR (get_account (pra_challenged op) db) (\<lambda>challenged.
     bindR (ensure (acc_owner_challenged challenged \<or> acc_active_challenged challenged)
       (Logic_error ''account_is_not_challeneged'')) (\<lambda>_.
     modify_account (pra_challenged op) (\<lambda>a.
       let a = a\<lparr>acc_active_challenged := False, acc_last_active_proved := head_block_time db\<rparr> in
       Inr (if pra_require_owner op
            then a\<lparr>acc_owner_challenged := False, acc_last_owner_proved := head_block_time db\<rparr> else a)) db))"

definition report_over_production_evaluator ::
  "report_over_production_operation \<Rightarrow> database \<Rightarrow> database res" where
  "report_over_production_evaluator op db =
     (if has_hardfork 4 db then Inl (Unsupported_operation ''report_over_production_operation is disabled'')
      else Inr db)"

text \<open>A custom operation is only recorded.\<close>

definition custom_evaluator :: "custom_operation \<Rightarrow> database \<Rightarrow> database res" where
  "custom_evaluator op db = Inr db"

definition reset_account_evaluator :: "reset_account_operation \<Rightarrow> database \<Rightarrow> database res" where
  "reset_account_evaluator op db =
     Inl (Unsupported_operation ''Reset Account Operation is currently disabled.'')"

definition set_reset_account_evaluator :: "set_reset_account_operation \<Rightarrow> database \<Rightarrow> database res" where
  "set_reset_account_evaluator op db =
     Inl (Unsupported_operation ''Set Reset Account Operation is currently disabled.'')"

definition break_free_referral_evaluator ::
  "fc_lib \<Rightarrow> break_free_referral_operation \<Rightarrow> database \<Rightarrow> database res" where
  "break_free_referral_evaluator fc op db =
     bindR (ensure (has_hardfork 19 db) (Unsupported_operation ''break_free_referral_operation'')) (\<lambda>_.
     bindR (get_account (bfr_referral op) db) (\<lambda>referral.
     bindR (get_account (acc_referrer_account referral) db) (\<lambda>referrer.
     bindR (ensure (amount (acc_referral_break_fee referral) \<noteq> 0)
       (Logic_error ''no_right_to_break_referral'')) (\<lambda>_.
     bindR (check_balance fc referral MAIN_BALANCE (acc_referral_break_fee referral)) (\<lambda>_.
     bindR (asset_neg fc (acc_referral_break_fee referral)) (\<lambda>neg.
     bindR (adjust_balance fc (bfr_referral op) neg db) (\<lambda>db.
     bindR (adjust_balance fc (acc_name referrer) (acc_referral_break_fee referral) db) (\<lambda>db.
     modify_account (bfr_referral op) (\<lambda>a. Inr (a\<lparr>acc_referrer_account := [],
       acc_referrer_interest_rate := 0, acc_referral_end_date := 0,
       acc_referral_break_fee := (acc_referral_break_fee a)\<lparr>amount := 0\<rparr>\<rparr>)) db))))))))"

end
