(* ===== verification/Accounts.thy ===== *)
theory Accounts
  imports Evaluators Operation_Validate
begin

text \<open>
  Accounts and witnesses: creation (with a fee, or with a delegation and a referrer), updates of
  authorities and metadata, the recovery of a stolen account, and the witnesses' own updates
  (\<^verbatim>\<open>steem_evaluator.cpp\<close>, \<^verbatim>\<open>chain_properties_evaluators.cpp\<close>, \<^verbatim>\<open>account_recovery_processing\<close> of
  \<^verbatim>\<open>database.cpp\<close>).
\<close>

section \<open>New objects\<close>

definition STEEMIT_POSTS_WINDOW :: nat where "STEEMIT_POSTS_WINDOW = 3"
definition STEEMIT_COMMENTS_WINDOW :: nat where "STEEMIT_COMMENTS_WINDOW = 200"
definition STEEMIT_VOTES_WINDOW :: nat where "STEEMIT_VOTES_WINDOW = 15"

definition STEEMIT_INIT_MINER_NAME :: account_name_type where
  "STEEMIT_INIT_MINER_NAME = ''cyberfounder''"

definition STEEMIT_TEMP_ACCOUNT :: account_name_type where
  "STEEMIT_TEMP_ACCOUNT = ''temp''"

definition STEEMIT_GENESIS_TIME :: time_point_sec where
  "STEEMIT_GENESIS_TIME = 1476788400"

definition STEEMIT_OWNER_UPDATE_LIMIT :: int where
  "STEEMIT_OWNER_UPDATE_LIMIT = 60 * 60"

definition STEEMIT_ACCOUNT_RECOVERY_REQUEST_EXPIRATION_PERIOD :: int where
  "STEEMIT_ACCOUNT_RECOVERY_REQUEST_EXPIRATION_PERIOD = 24 * 60 * 60"

definition STEEMIT_OWNER_AUTH_HISTORY_TRACKING_START_BLOCK_NUM :: nat where
  "STEEMIT_OWNER_AUTH_HISTORY_TRACKING_START_BLOCK_NUM = 1"

text \<open>The key whose 33 bytes are zero, \<^verbatim>\<open>public_key_type()\<close>.\<close>

definition null_public_key :: public_key_type where
  "null_public_key = replicate 33 (CHR 0x00)"

text \<open>An account with the initial values of its members.\<close>

definition default_account :: "nat \<Rightarrow> account_name_type \<Rightarrow> account_object" where
  "default_account i n = \<lparr>acc_id = i, acc_name = n, acc_memo_key = null_public_key, acc_proxy = [],
     acc_last_account_update = 0, acc_created = 0, acc_mined = True, acc_owner_challenged = False,
     acc_active_challenged = False, acc_last_owner_proved = 0, acc_last_active_proved = 0,
     acc_recovery_account = [], acc_reset_account = STEEMIT_NULL_ACCOUNT, acc_last_account_recovery = 0,
     acc_comment_count = 0, acc_lifetime_vote_count = 0, acc_post_count = 0, acc_can_vote = True,
     acc_voting_power = STEEMIT_100_PERCENT, acc_posts_capacity = STEEMIT_POSTS_WINDOW,
     acc_comments_capacity = STEEMIT_COMMENTS_WINDOW, acc_voting_capacity = STEEMIT_VOTES_WINDOW,
     acc_last_vote_time = 0, acc_balance = golos_of 0, acc_savings_balance = golos_of 0,
     acc_sbd_balance = \<lparr>amount = 0, symbol = SBD_SYMBOL\<rparr>, acc_sbd_seconds = 0,
     acc_sbd_seconds_last_update = 0, acc_sbd_last_interest_payment = 0,
     acc_savings_sbd_balance = \<lparr>amount = 0, symbol = SBD_SYMBOL\<rparr>, acc_savings_sbd_seconds = 0,
     acc_savings_sbd_seconds_last_update = 0, acc_savings_sbd_last_interest_payment = 0,
     acc_savings_withdraw_requests = 0, acc_benefaction_rewards = 0, acc_curation_rewards = 0,
     acc_delegation_rewards = 0, acc_posting_rewards = 0,
     acc_vesting_shares = \<lparr>amount = 0, symbol = VESTS_SYMBOL\<rparr>,
     acc_delegated_vesting_shares = \<lparr>amount = 0, symbol = VESTS_SYMBOL\<rparr>,
     acc_received_vesting_shares = \<lparr>amount = 0, symbol = VESTS_SYMBOL\<rparr>,
     acc_vesting_withdraw_rate = \<lparr>amount = 0, symbol = VESTS_SYMBOL\<rparr>,
     acc_next_vesting_withdrawal = time_maximum, acc_withdrawn = 0, acc_to_withdraw = 0, acc_withdraw_routes = 0,
     acc_proxied_vsf_votes = replicate STEEMIT_MAX_PROXY_RECURSION_DEPTH 0, acc_witnesses_voted_for = 0,
     acc_last_post = 0, acc_referrer_account = [], acc_referrer_interest_rate = 0, acc_referral_end_date = 0,
     acc_referral_break_fee = golos_of 0\<rparr>"

definition create_account :: "account_object \<Rightarrow> database \<Rightarrow> database res" where
  "create_account a db =
     bindR (create_in acc_name a (db_accounts db)) (\<lambda>xs.
     Inr (bump_id account_object_type (db\<lparr>db_accounts := xs\<rparr>)))"

definition create_authority ::
  "account_name_type \<Rightarrow> authority \<Rightarrow> authority \<Rightarrow> authority \<Rightarrow> database \<Rightarrow> database res" where
  "create_authority n own act post db =
     bindR (create_in aut_account \<lparr>aut_account = n, aut_owner = own, aut_active = act, aut_posting = post,
       aut_last_owner_update = 0\<rparr> (db_authorities db)) (\<lambda>xs. Inr (db\<lparr>db_authorities := xs\<rparr>))"

definition store_account_json_metadata ::
  "node_flags \<Rightarrow> account_name_type \<Rightarrow> string \<Rightarrow> bool \<Rightarrow> database \<Rightarrow> database" where
  "store_account_json_metadata nf account json_metadata skip_empty db =
     (if \<not> store_metadata_for_account nf account
      then db\<lparr>db_metadata := del_by met_account account (db_metadata db)\<rparr>
      else if skip_empty \<and> json_metadata = [] then db
      else
        let m = \<lparr>met_account = account, met_json_metadata = json_metadata\<rparr> in
        case find_by met_account account (db_metadata db) of
          Some _ \<Rightarrow> db\<lparr>db_metadata := upd_by met_account m (db_metadata db)\<rparr>
        | None \<Rightarrow> db\<lparr>db_metadata := db_metadata db @ [m]\<rparr>)"

text \<open>The loops that look up every account named in an authority.\<close>

definition accounts_exist :: "authority \<Rightarrow> database \<Rightarrow> unit res" where
  "accounts_exist auth db = seqR (map (\<lambda>(n, w). bindR (get_account n db) (\<lambda>_. Inr ())) (account_auths auth))"

text \<open>The fee of both ways to create an account becomes vesting shares of the new account.\<close>

definition fee_into_vesting :: "fc_lib \<Rightarrow> account_name_type \<Rightarrow> asset \<Rightarrow> database \<Rightarrow> database res" where
  "fee_into_vesting fc n fee db =
     (if amount fee > 0 then bindR (create_vesting fc n fee db) (\<lambda>(_, db). Inr db) else Inr db)"

section \<open>Account creation\<close>

definition account_create_evaluator ::
  "fc_lib \<Rightarrow> node_flags \<Rightarrow> account_create_operation \<Rightarrow> database \<Rightarrow> database res" where
  "account_create_evaluator fc nf o' db =
     bindR (get_account (acr_creator o') db) (\<lambda>creator.
     bindR (check_balance fc creator MAIN_BALANCE (acr_fee o')) (\<lambda>_.
     bindR (if has_hardfork 1 db then
              let min_fee = account_creation_fee (wso_median_props (db_schedule db)) in
              check_param ''fee'' (bindR (asset_ge (acr_fee o') min_fee) (\<lambda>ge.
                check_value ge ''Insufficient Fee''))
            else Inr ()) (\<lambda>_.
     bindR (if is_producing nf \<or> has_hardfork 15 db then seqR
              [accounts_exist (acr_owner o') db, accounts_exist (acr_active o') db, accounts_exist (acr_posting o') db]
            else Inr ()) (\<lambda>_.
     bindR (modify_account (acr_creator o') (\<lambda>c. bindR (asset_sub fc (acc_balance c) (acr_fee o')) (\<lambda>b.
       Inr (c\<lparr>acc_balance := b\<rparr>))) db) (\<lambda>db.
     bindR (throw_if_exists_account (acr_new_account_name o') db) (\<lambda>_.
     bindR (create_account ((default_account (db_next_id db account_object_type) (acr_new_account_name o'))\<lparr>
       acc_memo_key := acr_memo_key o', acc_created := head_block_time db, acc_last_vote_time := head_block_time db,
       acc_mined := False,
       acc_recovery_account := (if \<not> has_hardfork 11 db then STEEMIT_INIT_MINER_NAME else acr_creator o')\<rparr>) db) (\<lambda>db.
     let db = store_account_json_metadata nf (acr_new_account_name o') (acr_json_metadata o') False db in
     bindR (create_authority (acr_new_account_name o') (acr_owner o') (acr_active o') (acr_posting o') db) (\<lambda>db.
     fee_into_vesting fc (acr_new_account_name o') (acr_fee o') db))))))))"

text \<open>The visitor of the extension with the referral options.\<close>

definition account_referral_visitor ::
  "account_name_type \<Rightarrow> account_referral_options \<Rightarrow> database \<Rightarrow> database res" where
  "account_referral_visitor n aro db =
     bindR (ensure (has_hardfork 19 db) (Unsupported_operation ''account_referral_options'')) (\<lambda>_.
     bindR (get_account (aro_referrer aro) db) (\<lambda>_.
     let median_props = wso_median_props (db_schedule db) in
     bindR (check_param ''aro.interest_rate'' (ensure (aro_interest_rate aro \<le> max_referral_interest_rate median_props)
       (Limit_too_large ''aro.interest_rate''))) (\<lambda>_.
     bindR (check_param ''aro.end_date'' (check_value (aro_end_date aro \<ge> head_block_time db)
       ''End date should be in the future'')) (\<lambda>_.
     bindR (check_param ''aro.end_date'' (ensure
       (aro_end_date aro \<le> time_plus (head_block_time db) (int (max_referral_term_sec median_props)))
       (Limit_too_large ''aro.end_date''))) (\<lambda>_.
     bindR (check_param ''aro.break_fee'' (bindR (asset_le (aro_break_fee aro) (max_referral_break_fee median_props)) (\<lambda>le.
       ensure le (Limit_too_large ''aro.break_fee'')))) (\<lambda>_.
     modify_account n (\<lambda>a. Inr (a\<lparr>acc_referrer_account := aro_referrer aro,
       acc_referrer_interest_rate := aro_interest_rate aro, acc_referral_end_date := aro_end_date aro,
       acc_referral_break_fee := aro_break_fee aro\<rparr>)) db))))))"

text \<open>The delegation that the fee stands for, plus the delegation itself.\<close>

definition current_delegation ::
  "fc_lib \<Rightarrow> account_create_with_delegation_operation \<Rightarrow> asset \<Rightarrow> database \<Rightarrow> asset res" where
  "current_delegation fc o' target db =
     (let v_share_price = get_vesting_share_price (db_dgp db);
          min_fee = amount (account_creation_fee (wso_median_props (db_schedule db))) in
      bindR (asset_mul_int fc (acd_fee o') (amount target)) (\<lambda>x.
      bindR (asset_div_int fc x min_fee) (\<lambda>x.
      bindR (asset_mul_price fc x v_share_price) (\<lambda>x.
      asset_add fc x (acd_delegation o')))))"

definition account_create_with_delegation_evaluator ::
  "fc_lib \<Rightarrow> node_flags \<Rightarrow> account_create_with_delegation_operation \<Rightarrow> database \<Rightarrow> database res" where
  "account_create_with_delegation_evaluator fc nf o' db =
     bindR (get_account (acd_creator o') db) (\<lambda>creator.
     bindR (check_balance fc creator MAIN_BALANCE (acd_fee o')) (\<lambda>_.
     bindR (check_balance fc creator AVAILABLE_VESTING (acd_delegation o')) (\<lambda>_.
     let median_props = wso_median_props (db_schedule db) in
     bindR (asset_add fc (create_account_min_golos_fee median_props) (create_account_min_delegation median_props)) (\<lambda>target.
     bindR (asset_mul_price fc target (get_vesting_share_price (db_dgp db))) (\<lambda>target_delegation.
     bindR (current_delegation fc o' target db) (\<lambda>current.
     bindR (asset_ge current target_delegation) (\<lambda>enough.
     bindR (ensure enough (Logic_error ''not_enough_delegation'')) (\<lambda>_.
     bindR (check_param ''fee'' (bindR (asset_ge (acd_fee o') (create_account_min_golos_fee median_props)) (\<lambda>ge.
       check_value ge ''Insufficient Fee''))) (\<lambda>_.
     bindR (seqR [accounts_exist (acd_owner o') db, accounts_exist (acd_active o') db, accounts_exist (acd_posting o') db]) (\<lambda>_.
     let now = head_block_time db in
     bindR (modify_account (acd_creator o') (\<lambda>c.
       bindR (asset_sub fc (acc_balance c) (acd_fee o')) (\<lambda>b.
       bindR (asset_add fc (acc_delegated_vesting_shares c) (acd_delegation o')) (\<lambda>d.
       Inr (c\<lparr>acc_balance := b, acc_delegated_vesting_shares := d\<rparr>)))) db) (\<lambda>db.
     bindR (create_account ((default_account (db_next_id db account_object_type) (acd_new_account_name o'))\<lparr>
       acc_memo_key := acd_memo_key o', acc_created := now, acc_last_vote_time := now, acc_mined := False,
       acc_recovery_account := acd_creator o', acc_received_vesting_shares := acd_delegation o'\<rparr>) db) (\<lambda>db.
     let db = store_account_json_metadata nf (acd_new_account_name o') (acd_json_metadata o') False db in
     bindR (create_authority (acd_new_account_name o') (acd_owner o') (acd_active o') (acd_posting o') db) (\<lambda>db.
     bindR (if amount (acd_delegation o') > 0 then
              bindR (create_in (\<lambda>d. (vdo_delegator d, vdo_delegatee d)) \<lparr>vdo_id = db_next_id db vesting_delegation_object_type,
                vdo_delegator = acd_creator o', vdo_delegatee = acd_new_account_name o',
                vdo_vesting_shares = acd_delegation o', vdo_interest_rate = 0, vdo_payout_strategy = to_delegator,
                vdo_min_delegation_time = time_plus now (int (create_account_delegation_time median_props))\<rparr>
                (db_delegations db)) (\<lambda>ds.
              Inr (bump_id vesting_delegation_object_type (db\<lparr>db_delegations := ds\<rparr>)))
            else Inr db) (\<lambda>db.
     bindR (fee_into_vesting fc (acd_new_account_name o') (acd_fee o') db) (\<lambda>db.
     foldR (account_referral_visitor (acd_new_account_name o')) (acd_extensions o') db)))))))))))))))"

section \<open>Updates\<close>

definition create_owner_history :: "account_name_type \<Rightarrow> authority \<Rightarrow> database \<Rightarrow> database" where
  "create_owner_history n auth db =
     bump_id owner_authority_history_object_type (db\<lparr>db_owner_history := db_owner_history db @
       [\<lparr>oah_id = db_next_id db owner_authority_history_object_type, oah_account = n,
         oah_previous_owner_authority = auth, oah_last_valid_time = head_block_time db\<rparr>]\<rparr>)"

definition update_owner_authority :: "account_name_type \<Rightarrow> authority \<Rightarrow> database \<Rightarrow> database res" where
  "update_owner_authority n owner_authority db =
     bindR (get_authority n db) (\<lambda>auth.
     let db = (if head_block_num db \<ge> STEEMIT_OWNER_AUTH_HISTORY_TRACKING_START_BLOCK_NUM
               then create_owner_history n (aut_owner auth) db else db) in
     Inr (db\<lparr>db_authorities := upd_by aut_account
       (auth\<lparr>aut_owner := owner_authority, aut_last_owner_update := head_block_time db\<rparr>) (db_authorities db)\<rparr>))"

definition check_bandwidth :: "time_point_sec \<Rightarrow> time_point_sec \<Rightarrow> string \<Rightarrow> unit res" where
  "check_bandwidth now nxt msg = ensure (now > nxt) (Bandwidth_error msg)"

text \<open>The change of the account itself and of its active and posting authorities.\<close>

definition updated_account :: "account_update_operation \<Rightarrow> time_point_sec \<Rightarrow> account_object \<Rightarrow> account_object" where
  "updated_account o' now acc =
     (let acc = (if aup_memo_key o' \<noteq> null_public_key then acc\<lparr>acc_memo_key := aup_memo_key o'\<rparr> else acc);
          acc = (if (aup_active o' \<noteq> None \<or> aup_owner o' \<noteq> None) \<and> acc_active_challenged acc
                 then acc\<lparr>acc_active_challenged := False, acc_last_active_proved := now\<rparr> else acc)
      in acc\<lparr>acc_last_account_update := now\<rparr>)"

definition updated_authority ::
  "account_update_operation \<Rightarrow> account_authority_object \<Rightarrow> account_authority_object" where
  "updated_authority o' auth =
     (let auth = (case aup_active o' of Some a \<Rightarrow> auth\<lparr>aut_active := a\<rparr> | None \<Rightarrow> auth)
      in case aup_posting o' of Some a \<Rightarrow> auth\<lparr>aut_posting := a\<rparr> | None \<Rightarrow> auth)"

definition account_update_evaluator ::
  "node_flags \<Rightarrow> account_update_operation \<Rightarrow> database \<Rightarrow> database res" where
  "account_update_evaluator nf o' db =
     (let hf15 = has_hardfork 15 db \<or> is_producing nf;
          exist = (\<lambda>a. case a of Some auth \<Rightarrow> if hf15 then accounts_exist auth db else Inr () | None \<Rightarrow> Inr ()) in
      bindR (if has_hardfork 1 db then check_param ''account''
               (check_value (aup_account o' \<noteq> STEEMIT_TEMP_ACCOUNT) ''Cannot update temp account.'') else Inr ()) (\<lambda>_.
      bindR (case aup_posting o' of Some auth \<Rightarrow> if hf15 then authority_validate auth else Inr () | None \<Rightarrow> Inr ()) (\<lambda>_.
      bindR (get_account (aup_account o') db) (\<lambda>_.
      bindR (get_authority (aup_account o') db) (\<lambda>account_auth.
      bindR (case aup_owner o' of
          None \<Rightarrow> Inr db
        | Some owner' \<Rightarrow>
            bindR (if has_hardfork 11 db then check_bandwidth (head_block_time db)
                     (time_plus (aut_last_owner_update account_auth) STEEMIT_OWNER_UPDATE_LIMIT)
                     ''change_owner_authority_bandwidth'' else Inr ()) (\<lambda>_.
            bindR (exist (Some owner')) (\<lambda>_.
            update_owner_authority (aup_account o') owner' db))) (\<lambda>db.
      bindR (exist (aup_active o')) (\<lambda>_.
      bindR (exist (aup_posting o')) (\<lambda>_.
      bindR (modify_account (aup_account o') (\<lambda>a. Inr (updated_account o' (head_block_time db) a)) db) (\<lambda>db.
      let db = store_account_json_metadata nf (aup_account o') (aup_json_metadata o') True db in
      if aup_active o' \<noteq> None \<or> aup_posting o' \<noteq> None then
        bindR (get_authority (aup_account o') db) (\<lambda>auth.
        Inr (db\<lparr>db_authorities := upd_by aut_account (updated_authority o' auth) (db_authorities db)\<rparr>))
      else Inr db)))))))))"

definition account_metadata_evaluator ::
  "node_flags \<Rightarrow> account_metadata_operation \<Rightarrow> database \<Rightarrow> database res" where
  "account_metadata_evaluator nf o' db =
     bindR (modify_account (amd_account o') (\<lambda>a. Inr (a\<lparr>acc_last_account_update := head_block_time db\<rparr>)) db) (\<lambda>db.
     Inr (store_account_json_metadata nf (amd_account o') (amd_json_metadata o') False db))"

section \<open>Recovery\<close>

text \<open>The owner of the first witness in the index \<^verbatim>\<open>by_vote_name\<close>; an empty index has no first element.\<close>

definition top_witness :: "database \<Rightarrow> account_name_type option" where
  "top_witness db =
     (case sort_by (\<lambda>a b. wit_votes a > wit_votes b \<or> wit_votes a = wit_votes b \<and> wit_owner a < wit_owner b)
        (db_witnesses db) of [] \<Rightarrow> None | w # _ \<Rightarrow> Some (wit_owner w))"

definition new_recovery_request :: "request_account_recovery_operation \<Rightarrow> nat \<Rightarrow> database \<Rightarrow> account_recovery_request_object" where
  "new_recovery_request o' i db = \<lparr>rrq_id = i, rrq_account_to_recover = rar_account_to_recover o',
     rrq_new_owner_authority = rar_new_owner_authority o',
     rrq_expires = time_plus (head_block_time db) STEEMIT_ACCOUNT_RECOVERY_REQUEST_EXPIRATION_PERIOD\<rparr>"

definition request_account_recovery_evaluator ::
  "request_account_recovery_operation \<Rightarrow> database \<Rightarrow> database res" where
  "request_account_recovery_evaluator o' db =
     bindR (get_account (rar_account_to_recover o') db) (\<lambda>account_to_recover.
     bindR (if acc_recovery_account account_to_recover \<noteq> [] then
              ensure (acc_recovery_account account_to_recover = rar_recovery_account o')
                (Logic_error ''cannot_recover_if_not_partner'')
            else
              ensure (top_witness db = Some (rar_recovery_account o')) (Logic_error ''must_be_recovered_by_top_witness'')) (\<lambda>_.
     let auth = rar_new_owner_authority o';
         exist = (if has_hardfork 15 db then accounts_exist auth db else Inr ()) in
     case find_by rrq_account_to_recover (rar_account_to_recover o') (db_recovery_requests db) of
       None \<Rightarrow>
         bindR (check_param ''new_owner_authority'' (seqR
           [check_value (\<not> is_impossible auth) ''Cannot recover using an impossible authority.'',
            check_value (weight_threshold auth \<noteq> 0) ''Cannot recover using an open authority.''])) (\<lambda>_.
         bindR exist (\<lambda>_.
         Inr (bump_id account_recovery_request_object_type (db\<lparr>db_recovery_requests := db_recovery_requests db @
           [new_recovery_request o' (db_next_id db account_recovery_request_object_type) db]\<rparr>))))
     | Some request \<Rightarrow>
         if weight_threshold auth = 0 then
           Inr (db\<lparr>db_recovery_requests := del_by rrq_account_to_recover (rar_account_to_recover o') (db_recovery_requests db)\<rparr>)
         else
           bindR (check_param ''new_owner_authority''
             (check_value (\<not> is_impossible auth) ''Cannot recover using an impossible authority.'')) (\<lambda>_.
           bindR exist (\<lambda>_.
           Inr (db\<lparr>db_recovery_requests := upd_by rrq_account_to_recover (new_recovery_request o' (rrq_id request) db)
             (db_recovery_requests db)\<rparr>)))))"

definition stop_withdraw :: "account_object \<Rightarrow> account_object" where
  "stop_withdraw a = a\<lparr>acc_vesting_withdraw_rate := (acc_vesting_withdraw_rate a)\<lparr>amount := 0\<rparr>,
     acc_next_vesting_withdrawal := time_maximum, acc_withdrawn := 0, acc_to_withdraw := 0\<rparr>"

text \<open>
  The loop starts at \<^verbatim>\<open>upper_bound(account.id)\<close> of an index ordered by \<^verbatim>\<open>(from_account, to_account)\<close>.
  With only the first component given, this is the first route of an account with a higher id;
  from there, the loop removes routes as long as they are routes of the account.
\<close>

definition remove_vesting_routes :: "nat \<Rightarrow> database \<Rightarrow> database" where
  "remove_vesting_routes i db =
     (let idx = sort_by (\<lambda>a b. wvr_from_account a < wvr_from_account b \<or>
            wvr_from_account a = wvr_from_account b \<and> wvr_to_account a < wvr_to_account b) (db_routes db);
          from_upper = dropWhile (\<lambda>r. \<not> wvr_from_account r > i) idx;
          doomed = takeWhile (\<lambda>r. wvr_from_account r = i) from_upper
      in db\<lparr>db_routes := filter (\<lambda>r. r \<notin> set doomed) (db_routes db)\<rparr>)"

definition recover_account_evaluator :: "recover_account_operation \<Rightarrow> database \<Rightarrow> database res" where
  "recover_account_evaluator o' db =
     bindR (get_account (rac_account_to_recover o') db) (\<lambda>account.
     let now = head_block_time db in
     bindR (if has_hardfork 12 db then check_bandwidth now
              (time_plus (acc_last_account_recovery account) STEEMIT_OWNER_UPDATE_LIMIT)
              ''change_owner_authority_bandwidth'' else Inr ()) (\<lambda>_.
     bindR (of_option (Logic_error ''no_active_recovery_request'')
       (find_by rrq_account_to_recover (rac_account_to_recover o') (db_recovery_requests db))) (\<lambda>request.
     bindR (ensure (rrq_new_owner_authority request = rac_new_owner_authority o')
       (Logic_error ''authority_does_not_match_request'')) (\<lambda>_.
     bindR (ensure (\<exists>h \<in> set (db_owner_history db). oah_account h = rac_account_to_recover o' \<and>
         oah_previous_owner_authority h = rac_recent_owner_authority o')
       (Logic_error ''no_recent_authority_in_history'')) (\<lambda>_.
     let db = db\<lparr>db_recovery_requests := del_by rrq_account_to_recover (rac_account_to_recover o') (db_recovery_requests db)\<rparr> in
     bindR (update_owner_authority (rac_account_to_recover o') (rac_new_owner_authority o') db) (\<lambda>db.
     bindR (modify_account (rac_account_to_recover o') (\<lambda>a. Inr (a\<lparr>acc_last_account_recovery := now\<rparr>)) db) (\<lambda>db.
     if has_hardfork 19 db then
       bindR (modify_account (rac_account_to_recover o') (\<lambda>a. Inr (stop_withdraw a)) db) (\<lambda>db.
       Inr (remove_vesting_routes (acc_id account) db))
     else Inr db)))))))"

definition change_recovery_account_evaluator ::
  "change_recovery_account_operation \<Rightarrow> database \<Rightarrow> database res" where
  "change_recovery_account_evaluator o' db =
     bindR (get_account (cra_new_recovery_account o') db) (\<lambda>_.
     bindR (get_account (cra_account_to_recover o') db) (\<lambda>account_to_recover.
     let r = \<lparr>crq_account_to_recover = cra_account_to_recover o', crq_recovery_account = cra_new_recovery_account o',
           crq_effective_on = time_plus (head_block_time db) STEEMIT_OWNER_AUTH_RECOVERY_PERIOD\<rparr> in
     case find_by crq_account_to_recover (cra_account_to_recover o') (db_change_recovery db) of
       None \<Rightarrow> Inr (db\<lparr>db_change_recovery := db_change_recovery db @ [r]\<rparr>)
     | Some _ \<Rightarrow>
         if acc_recovery_account account_to_recover \<noteq> cra_new_recovery_account o'
         then Inr (db\<lparr>db_change_recovery := upd_by crq_account_to_recover r (db_change_recovery db)\<rparr>)
         else Inr (db\<lparr>db_change_recovery := del_by crq_account_to_recover (cra_account_to_recover o') (db_change_recovery db)\<rparr>)))"

text \<open>
  \<^verbatim>\<open>account_recovery_processing\<close>: expired requests go, then the historical authorities from the
  oldest on until one is still valid, then due changes of the recovery account take effect.
\<close>

definition clear_recovery_requests :: "database \<Rightarrow> database" where
  "clear_recovery_requests db =
     db\<lparr>db_recovery_requests := filter (\<lambda>r. \<not> rrq_expires r \<le> head_block_time db) (db_recovery_requests db)\<rparr>"

definition clear_owner_history :: "database \<Rightarrow> database" where
  "clear_owner_history db =
     db\<lparr>db_owner_history := dropWhile (\<lambda>h.
       time_plus (oah_last_valid_time h) STEEMIT_OWNER_AUTH_RECOVERY_PERIOD < head_block_time db)
       (sort_by (\<lambda>a b. oah_id a < oah_id b) (db_owner_history db))\<rparr>"

definition due_recovery_changes :: "database \<Rightarrow> change_recovery_account_request_object list" where
  "due_recovery_changes db =
     sort_by (\<lambda>a b. crq_effective_on a < crq_effective_on b \<or>
         crq_effective_on a = crq_effective_on b \<and> crq_account_to_recover a < crq_account_to_recover b)
       (filter (\<lambda>r. crq_effective_on r \<le> head_block_time db) (db_change_recovery db))"

definition apply_recovery_change :: "change_recovery_account_request_object \<Rightarrow> database \<Rightarrow> database res" where
  "apply_recovery_change r db =
     bindR (modify_account (crq_account_to_recover r) (\<lambda>a. Inr (a\<lparr>acc_recovery_account := crq_recovery_account r\<rparr>)) db) (\<lambda>db.
     Inr (db\<lparr>db_change_recovery := del_by crq_account_to_recover (crq_account_to_recover r) (db_change_recovery db)\<rparr>))"

definition account_recovery_processing :: "database \<Rightarrow> database res" where
  "account_recovery_processing db =
     (let db = clear_owner_history (clear_recovery_requests db)
      in foldR apply_recovery_change (due_recovery_changes db) db)"

section \<open>Witness updates\<close>

definition STEEMIT_MAX_WITNESS_URL_LENGTH :: nat where
  "STEEMIT_MAX_WITNESS_URL_LENGTH = 2048"

text \<open>The assignments of older chain properties to the current ones.\<close>

definition assign_from_18 :: "chain_properties_19 \<Rightarrow> 'b chain_properties_18_scheme \<Rightarrow> chain_properties_19" where
  "assign_from_18 p src = (assign_from_17 p src)\<lparr>
     create_account_min_golos_fee := create_account_min_golos_fee src,
     create_account_min_delegation := create_account_min_delegation src,
     create_account_delegation_time := create_account_delegation_time src,
     min_delegation := min_delegation src\<rparr>"

definition chain_properties_update :: "versioned_chain_properties \<Rightarrow> database \<Rightarrow> chain_properties_19 \<Rightarrow> chain_properties_19 res" where
  "chain_properties_update props db wprops =
     (case props of
        Props_19 p \<Rightarrow> bindR (ensure (has_hardfork 19 db) (Unsupported_operation ''chain_properties_19'')) (\<lambda>_. Inr p)
      | Props_18 p \<Rightarrow> Inr (assign_from_18 wprops p)
      | Props_17 p \<Rightarrow> Inr (assign_from_17 wprops p))"

definition default_chain_properties :: chain_properties_19 where
  "default_chain_properties = \<lparr>account_creation_fee = golos_of 1, maximum_block_size = STEEMIT_MIN_BLOCK_SIZE_LIMIT * 2,
     sbd_interest_rate = 1000, create_account_min_golos_fee = golos_of 30, create_account_min_delegation = golos_of 150,
     create_account_delegation_time = 30 * 24 * 60 * 60, min_delegation = golos_of 10,
     max_referral_interest_rate = 1000, max_referral_term_sec = 60 * 60 * 24 * 30 * 6,
     min_referral_break_fee = golos_of 1, max_referral_break_fee = golos_of 100000,
     posts_window = STEEMIT_POSTS_WINDOW, posts_per_window = 1, comments_window = STEEMIT_COMMENTS_WINDOW,
     comments_per_window = 10, votes_window = STEEMIT_VOTES_WINDOW, votes_per_window = 5,
     auction_window_size = 60 * 30, max_delegated_vesting_interest_rate = 2500,
     custom_ops_bandwidth_multiplier = 100, min_curation_percent = 2500, max_curation_percent = 2500,
     curation_reward_curve = Curve_linear, allow_return_auction_reward_to_fund = True, allow_distribute_auction_reward = True\<rparr>"

definition default_witness :: "nat \<Rightarrow> account_name_type \<Rightarrow> time_point_sec \<Rightarrow> witness_object" where
  "default_witness i n now = \<lparr>wit_id = i, wit_owner = n, wit_created = now, wit_url = [], wit_total_missed = 0,
     wit_last_aslot = 0, wit_last_confirmed_block_num = 0, wit_pow_worker = 0, wit_signing_key = null_public_key,
     wit_props = default_chain_properties, wit_sbd_exchange_rate = default_price, wit_last_sbd_exchange_update = 0,
     wit_votes = 0, wit_schedule = schedule_none, wit_virtual_last_update = 0, wit_virtual_position = 0,
     wit_virtual_scheduled_time = 2 ^ 128 - 1, wit_last_work = replicate 32 (CHR 0x00), wit_running_version = \<lparr>v_num = 0\<rparr>,
     wit_hardfork_version_vote = \<lparr>hv_num = 0\<rparr>, wit_hardfork_time_vote = STEEMIT_GENESIS_TIME,
     wit_transit_to_cyberway_vote = STEEMIT_GENESIS_TIME\<rparr>"

text \<open>Both evaluators change the witness if there is one, and create it otherwise.\<close>

definition modify_or_create_witness ::
  "account_name_type \<Rightarrow> (witness_object \<Rightarrow> witness_object res) \<Rightarrow> database \<Rightarrow> database res" where
  "modify_or_create_witness n f db =
     (case find_witness n db of
        Some w \<Rightarrow> bindR (f w) (\<lambda>w. Inr (db\<lparr>db_witnesses := upd_by wit_owner w (db_witnesses db)\<rparr>))
      | None \<Rightarrow> bindR (f (default_witness (db_next_id db witness_object_type) n (head_block_time db))) (\<lambda>w.
          Inr (bump_id witness_object_type (db\<lparr>db_witnesses := db_witnesses db @ [w]\<rparr>))))"

definition witness_update_evaluator :: "witness_update_operation \<Rightarrow> database \<Rightarrow> database res" where
  "witness_update_evaluator o' db =
     bindR (get_account (wup_owner o') db) (\<lambda>_.
     bindR (if has_hardfork 1 db then check_param ''url'' (check_value_max_size (wup_url o') STEEMIT_MAX_WITNESS_URL_LENGTH)
            else Inr ()) (\<lambda>_.
     modify_or_create_witness (wup_owner o') (\<lambda>w.
       let w = w\<lparr>wit_url := wup_url o', wit_signing_key := wup_block_signing_key o'\<rparr>
       in Inr (if \<not> has_hardfork 18 db then w\<lparr>wit_props := assign_from_17 (wit_props w) (wup_props o')\<rparr> else w)) db))"

definition chain_properties_update_evaluator ::
  "chain_properties_update_operation \<Rightarrow> database \<Rightarrow> database res" where
  "chain_properties_update_evaluator o' db =
     bindR (get_account (cpu_owner o') db) (\<lambda>_.
     modify_or_create_witness (cpu_owner o') (\<lambda>w.
       bindR (chain_properties_update (cpu_props o') db (wit_props w)) (\<lambda>p. Inr (w\<lparr>wit_props := p\<rparr>))) db)"

definition transit_to_cyberway_evaluator :: "transit_to_cyberway_operation \<Rightarrow> database \<Rightarrow> database res" where
  "transit_to_cyberway_evaluator o' db =
     bindR (ensure (has_hardfork 21 db) (Unsupported_operation ''transit_to_cyberway'')) (\<lambda>_.
     bindR (get_account (ttc_owner o') db) (\<lambda>_.
     bindR (get_witness (ttc_owner o') db) (\<lambda>w.
     bindR (check_param ''vote_to_transit'' (check_value
       (ttc_vote_to_transit o' \<noteq> (wit_transit_to_cyberway_vote w \<noteq> STEEMIT_GENESIS_TIME)) ''You should change your vote.'')) (\<lambda>_.
     Inr (db\<lparr>db_witnesses := upd_by wit_owner (w\<lparr>wit_transit_to_cyberway_vote :=
       (if ttc_vote_to_transit o' then head_block_time db else STEEMIT_GENESIS_TIME)\<rparr>) (db_witnesses db)\<rparr>)))))"

section \<open>Recovery keeps the routes\<close>

lemma takeWhile_eq_after_drop: "takeWhile (\<lambda>x. f x = i) (dropWhile (\<lambda>x. \<not> f x > (i::nat)) xs) = []"
  by (induction xs) auto

lemma remove_vesting_routes_id: "remove_vesting_routes i db = db"
  by (simp add: remove_vesting_routes_def takeWhile_eq_after_drop Let_def)

end
