(* ===== verification/Maintenance.thy ===== *)
theory Maintenance
  imports Evaluators
begin

text \<open>
  What a block does to the state besides its transactions (\<^verbatim>\<open>database.cpp\<close>): the price feed and the
  virtual supply, inflation and its distribution, the null account, conversions, savings
  withdrawals, the weekly vesting withdrawals, declined voting rights, liquidity rewards, fees, and
  the supply check \<^verbatim>\<open>validate_invariants\<close>.
\<close>

section \<open>Fees and the null account\<close>

definition pay_fee :: "fc_lib \<Rightarrow> account_name_type \<Rightarrow> asset \<Rightarrow> database \<Rightarrow> database res" where
  "pay_fee fc n fee db =
     bindR (ensure (amount fee \<ge> 0) (Fc_assert ''fee.amount >= 0'')) (\<lambda>_.
     if amount fee = 0 then Inr db
     else
       bindR (get_account n db) (\<lambda>account.
       bindR (asset_ge (acc_balance account) fee) (\<lambda>ge.
       bindR (ensure ge (Fc_assert ''account.balance >= fee'')) (\<lambda>_.
       bindR (asset_neg fc fee) (\<lambda>neg.
       bindR (adjust_balance fc n neg db) (\<lambda>db.
       adjust_supply fc neg False db))))))"

text \<open>One \<^verbatim>\<open>if\<close> of \<^verbatim>\<open>clear_null_account_balance\<close>: a positive balance is added to the total and taken off.\<close>

definition drain_null ::
  "fc_lib \<Rightarrow> (account_object \<Rightarrow> asset) \<Rightarrow> (fc_lib \<Rightarrow> account_name_type \<Rightarrow> asset \<Rightarrow> database \<Rightarrow> database res) \<Rightarrow>
   asset \<times> database \<Rightarrow> (asset \<times> database) res" where
  "drain_null fc field adjust = (\<lambda>(so_far, db).
     bindR (get_account STEEMIT_NULL_ACCOUNT db) (\<lambda>null_account.
     if amount (field null_account) > 0 then
       bindR (asset_add fc so_far (field null_account)) (\<lambda>t.
       bindR (asset_neg fc (field null_account)) (\<lambda>neg.
       bindR (adjust fc STEEMIT_NULL_ACCOUNT neg db) (\<lambda>db. Inr (t, db))))
     else Inr (so_far, db)))"

definition drain_null_vesting :: "fc_lib \<Rightarrow> asset \<times> database \<Rightarrow> (asset \<times> database) res" where
  "drain_null_vesting fc = (\<lambda>(total_steem, db).
     bindR (get_account STEEMIT_NULL_ACCOUNT db) (\<lambda>null_account.
     if amount (acc_vesting_shares null_account) > 0 then
       let gpo = db_dgp db in
       bindR (asset_mul_price fc (acc_vesting_shares null_account) (get_vesting_share_price gpo)) (\<lambda>converted_steem.
       bindR (asset_sub fc (dgp_total_vesting_shares gpo) (acc_vesting_shares null_account)) (\<lambda>shares.
       bindR (asset_sub fc (dgp_total_vesting_fund_steem gpo) converted_steem) (\<lambda>fund.
       bindR (modify_account STEEMIT_NULL_ACCOUNT (\<lambda>a.
           Inr (a\<lparr>acc_vesting_shares := (acc_vesting_shares a)\<lparr>amount := 0\<rparr>\<rparr>))
         (db\<lparr>db_dgp := gpo\<lparr>dgp_total_vesting_shares := shares, dgp_total_vesting_fund_steem := fund\<rparr>\<rparr>)) (\<lambda>db.
       bindR (asset_add fc total_steem converted_steem) (\<lambda>t. Inr (t, db))))))
     else Inr (total_steem, db)))"

definition shrink_supply :: "fc_lib \<Rightarrow> asset \<Rightarrow> database \<Rightarrow> database res" where
  "shrink_supply fc burnt db =
     (if amount burnt > 0 then bindR (asset_neg fc burnt) (\<lambda>neg. adjust_supply fc neg False db) else Inr db)"

definition clear_null_account_balance :: "fc_lib \<Rightarrow> database \<Rightarrow> database res" where
  "clear_null_account_balance fc db =
     (if \<not> has_hardfork 14 db then Inr db
      else
        bindR (drain_null fc acc_balance adjust_balance (\<lparr>amount = 0, symbol = STEEM_SYMBOL\<rparr>, db)) (\<lambda>(steem, db).
        bindR (drain_null fc acc_savings_balance adjust_savings_balance (steem, db)) (\<lambda>(steem, db).
        bindR (drain_null fc acc_sbd_balance adjust_balance (\<lparr>amount = 0, symbol = SBD_SYMBOL\<rparr>, db)) (\<lambda>(sbd, db).
        bindR (drain_null fc acc_savings_sbd_balance adjust_savings_balance (sbd, db)) (\<lambda>(sbd, db).
        bindR (drain_null_vesting fc (steem, db)) (\<lambda>(steem, db).
        bindR (shrink_supply fc steem db) (\<lambda>db.
        shrink_supply fc sbd db)))))))"

section \<open>Inflation\<close>

definition STEEMIT_BLOCKS_PER_YEAR :: int where
  "STEEMIT_BLOCKS_PER_YEAR = 365 * 24 * 60 * 60 div 3"

definition STEEMIT_START_VESTING_BLOCK :: nat where
  "STEEMIT_START_VESTING_BLOCK = STEEMIT_BLOCKS_PER_DAY * 49"

definition STEEMIT_START_MINER_VOTING_BLOCK :: nat where
  "STEEMIT_START_MINER_VOTING_BLOCK = 60 * 10 div 3"

definition STEEMIT_MAX_WITNESSES :: int where
  "STEEMIT_MAX_WITNESSES = 21"

text \<open>\<^verbatim>\<open>calc_percent_reward\<close>, the template parameters as arguments, and its three instances.\<close>

definition calc_percent_reward :: "fc_lib \<Rightarrow> int \<Rightarrow> int \<Rightarrow> nat \<Rightarrow> int \<Rightarrow> int res" where
  "calc_percent_reward fc percent multiply_constant shift_constant current_supply =
     (let half = 2 ^ (shift_constant - 1);
          reward = u128_mul fc (u128_of fc current_supply) (u128_of fc (percent * multiply_constant));
          reward = u128_add fc reward half;
          reward = u128_shr fc reward shift_constant
      in bindR (u128_to_uint64 fc reward) (\<lambda>v. Inr (safe_of_u64 fc v)))"

definition calc_percent_reward_per_hour :: "fc_lib \<Rightarrow> int \<Rightarrow> int \<Rightarrow> int res" where
  "calc_percent_reward_per_hour fc percent = calc_percent_reward fc percent 0x6cc139a15cbd 77"

definition calc_percent_reward_per_block :: "fc_lib \<Rightarrow> int \<Rightarrow> int \<Rightarrow> int res" where
  "calc_percent_reward_per_block fc percent = calc_percent_reward fc percent 0x5ccce802de5f 87"

definition calc_percent_reward_per_round :: "fc_lib \<Rightarrow> int \<Rightarrow> int \<Rightarrow> int res" where
  "calc_percent_reward_per_round fc percent = calc_percent_reward fc percent 0x79ccf5c73480 83"

text \<open>\<^verbatim>\<open>std::max\<close> of two amounts of GOLOS.\<close>

definition max_reward :: "int \<Rightarrow> int \<Rightarrow> asset" where
  "max_reward percent least = \<lparr>amount = max percent least, symbol = STEEM_SYMBOL\<rparr>"

definition get_liquidity_reward :: "fc_lib \<Rightarrow> database \<Rightarrow> asset res" where
  "get_liquidity_reward fc db =
     (if has_hardfork 12 db then Inr \<lparr>amount = 0, symbol = STEEM_SYMBOL\<rparr>
      else bindR (calc_percent_reward_per_hour fc 750 (amount (dgp_virtual_supply (db_dgp db)))) (\<lambda>p.
        Inr (max_reward p (1000 * 1200))))"

definition get_content_reward :: "fc_lib \<Rightarrow> database \<Rightarrow> asset res" where
  "get_content_reward fc db =
     (if dgp_head_block_number (db_dgp db) > STEEMIT_START_VESTING_BLOCK
      then bindR (calc_percent_reward_per_block fc 5813 (amount (dgp_virtual_supply (db_dgp db)))) (\<lambda>p.
        Inr (max_reward p 1500))
      else Inr \<lparr>amount = 255, symbol = STEEM_SYMBOL\<rparr>)"

definition get_curation_reward :: "fc_lib \<Rightarrow> database \<Rightarrow> asset res" where
  "get_curation_reward fc db =
     (if dgp_head_block_number (db_dgp db) > STEEMIT_START_VESTING_BLOCK
      then bindR (calc_percent_reward_per_block fc 1937 (amount (dgp_virtual_supply (db_dgp db)))) (\<lambda>p.
        Inr (max_reward p 500))
      else Inr \<lparr>amount = 85, symbol = STEEM_SYMBOL\<rparr>)"

definition get_producer_reward :: "fc_lib \<Rightarrow> database \<Rightarrow> asset res" where
  "get_producer_reward fc db =
     bindR (calc_percent_reward_per_block fc 750 (amount (dgp_virtual_supply (db_dgp db)))) (\<lambda>p.
     Inr (max_reward p (if has_hardfork 16 db then 666 else 1000)))"

definition get_pow_reward :: "fc_lib \<Rightarrow> database \<Rightarrow> asset res" where
  "get_pow_reward fc db =
     (let props = db_dgp db in
      if int (dgp_num_pow_witnesses props) < STEEMIT_MAX_WITNESSES \<and>
         dgp_head_block_number props < STEEMIT_START_VESTING_BLOCK
      then Inr \<lparr>amount = 0, symbol = STEEM_SYMBOL\<rparr>
      else bindR (calc_percent_reward_per_round fc 750 (amount (dgp_virtual_supply props))) (\<lambda>p.
        Inr (max_reward p (if has_hardfork 16 db then 666 else 1000))))"

text \<open>The shares of content, vesting fund and producing witness in the inflation of a block.\<close>

definition inflation_rate :: "database \<Rightarrow> int" where
  "inflation_rate db = max (1515 - int (head_block_num db div 250000)) 95"

definition schedule_weight :: "witness_schedule_object \<Rightarrow> witness_schedule_type \<Rightarrow> int" where
  "schedule_weight wso s = (case s of
       timeshare \<Rightarrow> int (wso_timeshare_weight wso) | miner \<Rightarrow> int (wso_miner_weight wso)
     | top19 \<Rightarrow> int (wso_top19_weight wso) | schedule_none \<Rightarrow> 1)"

definition block_rewards :: "fc_lib \<Rightarrow> witness_object \<Rightarrow> database \<Rightarrow> (int \<times> int \<times> int) res" where
  "block_rewards fc cwit db =
     bindR (safe_mul fc (amount (dgp_virtual_supply (db_dgp db))) (inflation_rate db)) (\<lambda>m.
     bindR (safe_div fc m (int STEEMIT_100_PERCENT * STEEMIT_BLOCKS_PER_YEAR)) (\<lambda>new_steem.
     bindR (safe_mul fc new_steem 6667) (\<lambda>c.
     bindR (safe_div fc c (int STEEMIT_100_PERCENT)) (\<lambda>content_reward.
     bindR (safe_mul fc new_steem 2667) (\<lambda>v.
     bindR (safe_div fc v (int STEEMIT_100_PERCENT)) (\<lambda>vesting_reward.
     bindR (safe_sub fc new_steem content_reward) (\<lambda>rest.
     bindR (safe_sub fc rest vesting_reward) (\<lambda>w.
     bindR (safe_mul fc w STEEMIT_MAX_WITNESSES) (\<lambda>w.
     bindR (safe_mul fc w (schedule_weight (db_schedule db) (wit_schedule cwit))) (\<lambda>w.
     bindR (safe_div fc w (int (wso_witness_pay_normalization_factor (db_schedule db)))) (\<lambda>witness_reward.
     Inr (content_reward, vesting_reward, witness_reward))))))))))))"

text \<open>The \<^verbatim>\<open>modify\<close> of the global properties: the two funds and the supply grow.\<close>

definition grow_funds :: "fc_lib \<Rightarrow> asset \<Rightarrow> asset \<Rightarrow> asset \<Rightarrow> database \<Rightarrow> database res" where
  "grow_funds fc vesting_reward content_reward new_supply db =
     (let p = db_dgp db in
      bindR (asset_add fc (dgp_total_vesting_fund_steem p) vesting_reward) (\<lambda>fund.
      bindR (asset_add fc (dgp_total_reward_fund_steem p) content_reward) (\<lambda>reward.
      bindR (asset_add fc (dgp_current_supply p) new_supply) (\<lambda>supply.
      bindR (asset_add fc (dgp_virtual_supply p) new_supply) (\<lambda>virt.
      Inr (db\<lparr>db_dgp := p\<lparr>dgp_total_vesting_fund_steem := fund, dgp_total_reward_fund_steem := reward,
        dgp_current_supply := supply, dgp_virtual_supply := virt\<rparr>\<rparr>))))))"

definition process_funds_hf16 :: "fc_lib \<Rightarrow> witness_object \<Rightarrow> database \<Rightarrow> database res" where
  "process_funds_hf16 fc cwit db =
     bindR (block_rewards fc cwit db) (\<lambda>(content_reward, vesting_reward, witness_reward).
     bindR (safe_add fc content_reward vesting_reward) (\<lambda>s.
     bindR (safe_add fc s witness_reward) (\<lambda>new_steem.
     bindR (grow_funds fc \<lparr>amount = vesting_reward, symbol = STEEM_SYMBOL\<rparr>
       \<lparr>amount = content_reward, symbol = STEEM_SYMBOL\<rparr> \<lparr>amount = new_steem, symbol = STEEM_SYMBOL\<rparr> db) (\<lambda>db.
     bindR (create_vesting fc (wit_owner cwit) \<lparr>amount = witness_reward, symbol = STEEM_SYMBOL\<rparr> db) (\<lambda>(nv, db).
     Inr (push_virtual_operation (Producer_reward (wit_owner cwit) nv) db))))))"

text \<open>The witness is paid in vesting shares, at the start of the chain in GOLOS.\<close>

definition pay_producer ::
  "fc_lib \<Rightarrow> witness_object \<Rightarrow> asset \<Rightarrow> database \<Rightarrow> (asset option \<times> database) res" where
  "pay_producer fc cwit witness_pay db =
     bindR (get_account (wit_owner cwit) db) (\<lambda>wacc.
     if dgp_head_block_number (db_dgp db) \<ge> STEEMIT_START_MINER_VOTING_BLOCK \<or> amount (acc_vesting_shares wacc) = 0
     then bindR (create_vesting fc (wit_owner cwit) witness_pay db) (\<lambda>(nv, db). Inr (Some nv, db))
     else bindR (modify_account (wit_owner cwit) (\<lambda>a.
       bindR (asset_add fc (acc_balance a) witness_pay) (\<lambda>b. Inr (a\<lparr>acc_balance := b\<rparr>))) db) (\<lambda>db.
       Inr (None, db)))"

definition process_funds_pre_hf16 :: "fc_lib \<Rightarrow> witness_object \<Rightarrow> database \<Rightarrow> database res" where
  "process_funds_pre_hf16 fc cwit db =
     bindR (get_producer_reward fc db) (\<lambda>witness_pay.
     bindR (pay_producer fc cwit witness_pay db) (\<lambda>(producer_reward, db).
     bindR (get_content_reward fc db) (\<lambda>content_reward.
     bindR (get_curation_reward fc db) (\<lambda>curate_reward.
     bindR (asset_add fc content_reward curate_reward) (\<lambda>content_reward.
     bindR (asset_add fc content_reward witness_pay) (\<lambda>paid.
     let vesting_reward = paid\<lparr>amount :=
           (if dgp_head_block_number (db_dgp db) < STEEMIT_START_VESTING_BLOCK then 0 else i64_wrap (amount paid * 9))\<rparr> in
     bindR (asset_add fc paid vesting_reward) (\<lambda>new_supply.
     bindR (grow_funds fc vesting_reward content_reward new_supply db) (\<lambda>db.
     Inr (case producer_reward of
            None \<Rightarrow> db
          | Some nv \<Rightarrow> push_virtual_operation (Producer_reward (wit_owner cwit) nv) db)))))))))"

definition process_funds :: "fc_lib \<Rightarrow> database \<Rightarrow> database res" where
  "process_funds fc db =
     bindR (get_witness (dgp_current_witness (db_dgp db)) db) (\<lambda>cwit.
     bindR (get_account (wit_owner cwit) db) (\<lambda>_.
     if has_hardfork 16 db then process_funds_hf16 fc cwit db else process_funds_pre_hf16 fc cwit db))"

definition pay_liquidity_reward :: "fc_lib \<Rightarrow> database \<Rightarrow> database res" where
  "pay_liquidity_reward fc db =
     (if head_block_num db mod 1200 = 0 then
        bindR (get_liquidity_reward fc db) (\<lambda>reward.
        if amount reward = 0 then Inr db
        else
          case sort_by (\<lambda>a b. lrb_weight a > lrb_weight b \<or> lrb_weight a = lrb_weight b \<and> lrb_owner a < lrb_owner b)
                 (db_liquidity db) of
            [] \<Rightarrow> Inr db
          | r # _ \<Rightarrow>
              if lrb_volume_weight fc r > 0 then
                bindR (adjust_supply fc reward True db) (\<lambda>db.
                bindR (of_option (Fc_exception ''unknown key'') (find_by acc_id (lrb_owner r) (db_accounts db))) (\<lambda>owner.
                bindR (adjust_balance fc (acc_name owner) reward db) (\<lambda>db.
                Inr (push_virtual_operation (Liquidity_reward (acc_name owner) reward)
                  (db\<lparr>db_liquidity := upd_by lrb_owner (r\<lparr>lrb_steem_volume := 0, lrb_sbd_volume := 0,
                    lrb_last_update := head_block_time db, lrb_weight := 0\<rparr>) (db_liquidity db)\<rparr>)))))
              else Inr db)
      else Inr db)"

section \<open>Price feed and virtual supply\<close>

definition STEEMIT_FEED_INTERVAL_BLOCKS :: nat where
  "STEEMIT_FEED_INTERVAL_BLOCKS = 60 * 60 div 3"

definition STEEMIT_FEED_HISTORY_WINDOW_PRE_HF_16 :: nat where
  "STEEMIT_FEED_HISTORY_WINDOW_PRE_HF_16 = 24 * 7"

definition STEEMIT_MAX_FEED_AGE :: int where
  "STEEMIT_MAX_FEED_AGE = 7 * 24 * 60 * 60"

definition STEEMIT_MIN_FEEDS :: nat where
  "STEEMIT_MIN_FEEDS = 21 div 3"

definition median_price :: "fc_lib \<Rightarrow> price list \<Rightarrow> price" where
  "median_price fc ps = sort_by (price_lt fc) ps ! (length ps div 2)"

definition usable_feed :: "fc_lib \<Rightarrow> witness_object \<Rightarrow> database \<Rightarrow> bool" where
  "usable_feed fc wit db =
     ((if has_hardfork 18 db
       then head_block_time db < wit_last_sbd_exchange_update wit + STEEMIT_MAX_FEED_AGE
       else wit_last_sbd_exchange_update wit < head_block_time db + STEEMIT_MAX_FEED_AGE) \<and>
      \<not> price_is_null fc (wit_sbd_exchange_rate wit))"

definition collect_feeds :: "fc_lib \<Rightarrow> database \<Rightarrow> price list res" where
  "collect_feeds fc db =
     foldR (\<lambda>n feeds. bindR (get_witness n db) (\<lambda>wit.
         Inr (if usable_feed fc wit db then feeds @ [wit_sbd_exchange_rate wit] else feeds)))
       (take (wso_num_scheduled_witnesses (db_schedule db)) (wso_current_shuffled_witnesses (db_schedule db))) []"

text \<open>The feed history after a new median feed, and whether the price was forced to its minimum.\<close>

definition push_median_feed :: "fc_lib \<Rightarrow> price \<Rightarrow> database \<Rightarrow> (bool \<times> feed_history_object) res" where
  "push_median_feed fc median_feed db =
     (let fho = db_feed db; gpo = db_dgp db;
          history = fho_price_history fho @ [median_feed];
          window = (if has_hardfork 16 db then STEEMIT_FEED_HISTORY_WINDOW else STEEMIT_FEED_HISTORY_WINDOW_PRE_HF_16);
          history = (if length history > window then tl history else history);
          current = (if history \<noteq> [] then median_price fc history else fho_current_median_history fho)
      in if history \<noteq> [] \<and> has_hardfork 14 db then
           bindR (safe_mul fc 9 (amount (dgp_current_sbd_supply gpo))) (\<lambda>s.
           let min_price = \<lparr>base = \<lparr>amount = s, symbol = SBD_SYMBOL\<rparr>, quote = dgp_current_supply gpo\<rparr>;
               forced = price_gt fc min_price current
           in Inr (forced, fho\<lparr>fho_price_history := history,
                fho_current_median_history := (if forced then min_price else current)\<rparr>))
         else Inr (False, fho\<lparr>fho_price_history := history, fho_current_median_history := current\<rparr>))"

definition update_median_feed :: "fc_lib \<Rightarrow> database \<Rightarrow> database res" where
  "update_median_feed fc db =
     (if head_block_num db mod STEEMIT_FEED_INTERVAL_BLOCKS \<noteq> 0 then Inr db
      else
        bindR (collect_feeds fc db) (\<lambda>feeds.
        if length feeds \<ge> STEEMIT_MIN_FEEDS then
          bindR (push_median_feed fc (median_price fc feeds) db) (\<lambda>(is_forced_min_price, fho).
          Inr (db\<lparr>db_feed := fho,
            db_dgp := (if is_forced_min_price then (db_dgp db)\<lparr>dgp_is_forced_min_price := True\<rparr> else db_dgp db)\<rparr>))
        else Inr db))"

definition STEEMIT_SBD_STOP_PERCENT :: int where "STEEMIT_SBD_STOP_PERCENT = 5 * 100"

definition STEEMIT_SBD_START_PERCENT :: int where "STEEMIT_SBD_START_PERCENT = 2 * 100"

text \<open>The printing rate of GBG for its share of the market capitalisation, in hundredths of a percent.\<close>

definition sbd_print_rate_for :: "int \<Rightarrow> int" where
  "sbd_print_rate_for percent_sbd =
     (if percent_sbd \<le> STEEMIT_SBD_START_PERCENT then int STEEMIT_100_PERCENT
      else if percent_sbd \<ge> STEEMIT_SBD_STOP_PERCENT then 0
      else ((STEEMIT_SBD_STOP_PERCENT - percent_sbd) * int STEEMIT_100_PERCENT)
             div (STEEMIT_SBD_STOP_PERCENT - STEEMIT_SBD_START_PERCENT))"

definition update_virtual_supply :: "fc_lib \<Rightarrow> database \<Rightarrow> database res" where
  "update_virtual_supply fc db =
     (let dgp = db_dgp db; median = fho_current_median_history (db_feed db) in
      bindR (if price_is_null fc median then Inr \<lparr>amount = 0, symbol = STEEM_SYMBOL\<rparr>
             else asset_mul_price fc (dgp_current_sbd_supply dgp) median) (\<lambda>sbd_worth.
      bindR (asset_add fc (dgp_current_supply dgp) sbd_worth) (\<lambda>virt.
      let dgp = dgp\<lparr>dgp_virtual_supply := virt\<rparr> in
      if \<not> price_is_null fc median \<and> has_hardfork 14 db then
        bindR (u128_div fc (u128_mul fc (u128_of fc (amount sbd_worth)) (u128_of fc (int STEEMIT_100_PERCENT)))
          (u128_of fc (amount virt))) (\<lambda>q.
        bindR (u128_to_uint64 fc q) (\<lambda>p.
        let percent_sbd = p mod 2 ^ 16 in
        Inr (db\<lparr>db_dgp := dgp\<lparr>dgp_sbd_print_rate := nat (sbd_print_rate_for percent_sbd)\<rparr>\<rparr>)))
      else Inr (db\<lparr>db_dgp := dgp\<rparr>))))"

section \<open>Due conversions, savings withdrawals and declined voting rights\<close>

text \<open>
  The loops take the first request of an index ordered by date until it is not due. Their bodies
  remove that request and leave the others, so the loop runs over the due requests in order.
\<close>

definition due_conversions :: "database \<Rightarrow> convert_request_object list" where
  "due_conversions db =
     sort_by (\<lambda>a b. cvt_conversion_date a < cvt_conversion_date b \<or>
         cvt_conversion_date a = cvt_conversion_date b \<and> cvt_id a < cvt_id b)
       (filter (\<lambda>c. cvt_conversion_date c \<le> head_block_time db) (db_converts db))"

definition convert_one ::
  "fc_lib \<Rightarrow> convert_request_object \<Rightarrow> asset \<times> asset \<times> database \<Rightarrow> (asset \<times> asset \<times> database) res" where
  "convert_one fc c = (\<lambda>(net_sbd, net_steem, db).
     bindR (get_account (cvt_owner c) db) (\<lambda>user.
     bindR (asset_mul_price fc (cvt_amount c) (fho_current_median_history (db_feed db))) (\<lambda>amount_to_issue.
     bindR (adjust_balance fc (cvt_owner c) amount_to_issue db) (\<lambda>db.
     bindR (asset_add fc net_sbd (cvt_amount c)) (\<lambda>net_sbd.
     bindR (asset_add fc net_steem amount_to_issue) (\<lambda>net_steem.
     let db = push_virtual_operation (Fill_convert_request (acc_name user) (cvt_requestid c)
                (cvt_amount c) amount_to_issue) db in
     Inr (net_sbd, net_steem, db\<lparr>db_converts := del_by cvt_key (cvt_key c) (db_converts db)\<rparr>)))))))"

definition process_conversions :: "fc_lib \<Rightarrow> database \<Rightarrow> database res" where
  "process_conversions fc db =
     (if price_is_null fc (fho_current_median_history (db_feed db)) then Inr db
      else
        bindR (foldR (convert_one fc) (due_conversions db)
          (\<lparr>amount = 0, symbol = SBD_SYMBOL\<rparr>, \<lparr>amount = 0, symbol = STEEM_SYMBOL\<rparr>, db)) (\<lambda>(net_sbd, net_steem, db).
        let p = db_dgp db in
        bindR (asset_add fc (dgp_current_supply p) net_steem) (\<lambda>supply.
        bindR (asset_sub fc (dgp_current_sbd_supply p) net_sbd) (\<lambda>sbd_supply.
        bindR (asset_add fc (dgp_virtual_supply p) net_steem) (\<lambda>virt.
        bindR (asset_mul_price fc net_sbd (fho_current_median_history (db_feed db))) (\<lambda>worth.
        bindR (asset_sub fc virt worth) (\<lambda>virt.
        Inr (db\<lparr>db_dgp := p\<lparr>dgp_current_supply := supply, dgp_current_sbd_supply := sbd_supply,
          dgp_virtual_supply := virt\<rparr>\<rparr>))))))))"

definition due_savings :: "database \<Rightarrow> savings_withdraw_object list" where
  "due_savings db =
     sort_by (\<lambda>a b. swo_complete a < swo_complete b \<or> swo_complete a = swo_complete b \<and>
         (swo_from a < swo_from b \<or> swo_from a = swo_from b \<and> swo_request_id a < swo_request_id b))
       (filter (\<lambda>w. \<not> swo_complete w > head_block_time db) (db_savings db))"

definition complete_savings_withdraw :: "fc_lib \<Rightarrow> savings_withdraw_object \<Rightarrow> database \<Rightarrow> database res" where
  "complete_savings_withdraw fc w db =
     bindR (adjust_balance fc (swo_to w) (swo_amount w) db) (\<lambda>db.
     bindR (modify_account (swo_from w)
       (\<lambda>a. Inr (a\<lparr>acc_savings_withdraw_requests := dec_w 8 (acc_savings_withdraw_requests a)\<rparr>)) db) (\<lambda>db.
     let db = push_virtual_operation (Fill_transfer_from_savings (swo_from w) (swo_to w) (swo_amount w)
                (swo_request_id w) (swo_memo w)) db in
     Inr (db\<lparr>db_savings := del_by swo_key (swo_key w) (db_savings db)\<rparr>)))"

definition process_savings_withdraws :: "fc_lib \<Rightarrow> database \<Rightarrow> database res" where
  "process_savings_withdraws fc db = foldR (complete_savings_withdraw fc) (due_savings db) db"

definition due_declines :: "database \<Rightarrow> decline_voting_rights_request_object list" where
  "due_declines db =
     sort_by (\<lambda>a b. dvo_effective_date a < dvo_effective_date b \<or>
         dvo_effective_date a = dvo_effective_date b \<and> dvo_account a < dvo_account b)
       (filter (\<lambda>r. dvo_effective_date r \<le> head_block_time db) (db_declines db))"

definition decline_one :: "fc_lib \<Rightarrow> decline_voting_rights_request_object \<Rightarrow> database \<Rightarrow> database res" where
  "decline_one fc r db =
     bindR (of_option (Fc_exception ''unknown key'') (find_by acc_id (dvo_account r) (db_accounts db))) (\<lambda>account.
     bindR (neg_all fc (amount (acc_vesting_shares account) # acc_proxied_vsf_votes account)) (\<lambda>delta.
     bindR (adjust_proxied_witness_votes_array fc STEEMIT_MAX_PROXY_RECURSION_DEPTH (acc_name account) delta db) (\<lambda>db.
     bindR (clear_witness_votes (acc_name account) db) (\<lambda>db.
     bindR (modify_account (acc_name account)
       (\<lambda>a. Inr (a\<lparr>acc_can_vote := False, acc_proxy := STEEMIT_PROXY_TO_SELF_ACCOUNT\<rparr>)) db) (\<lambda>db.
     Inr (db\<lparr>db_declines := del_by dvo_account (dvo_account r) (db_declines db)\<rparr>))))))"

definition process_decline_voting_rights :: "fc_lib \<Rightarrow> database \<Rightarrow> database res" where
  "process_decline_voting_rights fc db = foldR (decline_one fc) (due_declines db) db"

section \<open>Vesting withdrawals\<close>

definition get_account_by_id :: "nat \<Rightarrow> database \<Rightarrow> account_object res" where
  "get_account_by_id i db = of_option (Fc_exception ''unknown key'') (find_by acc_id i (db_accounts db))"

text \<open>The vesting shares that leave the account this time.\<close>

definition withdraw_amount :: "fc_lib \<Rightarrow> account_object \<Rightarrow> int res" where
  "withdraw_amount fc a =
     bindR (safe_sub fc (acc_to_withdraw a) (acc_withdrawn a)) (\<lambda>left.
     bindR (if left < amount (acc_vesting_withdraw_rate a)
            then bindR (safe_mod fc (acc_to_withdraw a) (amount (acc_vesting_withdraw_rate a))) (\<lambda>m.
              Inr (min (amount (acc_vesting_shares a)) m))
            else Inr (min (amount (acc_vesting_shares a)) (amount (acc_vesting_withdraw_rate a)))) (\<lambda>w.
     Inr (if w < 0 then 0 else w)))"

definition routes_of :: "nat \<Rightarrow> database \<Rightarrow> withdraw_vesting_route_object list" where
  "routes_of i db = sort_by (\<lambda>a b. wvr_to_account a < wvr_to_account b)
     (filter (\<lambda>r. wvr_from_account r = i \<and> wvr_to_account r > 0) (db_routes db))"

definition route_share :: "fc_lib \<Rightarrow> int \<Rightarrow> withdraw_vesting_route_object \<Rightarrow> int res" where
  "route_share fc to_withdraw r =
     bindR (u128_div fc (u128_mul fc (u128_of fc to_withdraw) (u128_of fc (int (wvr_percent r))))
       (u128_of fc (int STEEMIT_100_PERCENT))) (\<lambda>q.
     bindR (u128_to_uint64 fc q) (\<lambda>v. Inr (safe_of_u64 fc v)))"

text \<open>The first pass deposits vesting shares, the second GOLOS.\<close>

definition route_vests ::
  "fc_lib \<Rightarrow> account_name_type \<Rightarrow> int \<Rightarrow> withdraw_vesting_route_object \<Rightarrow> int \<times> database \<Rightarrow> (int \<times> database) res" where
  "route_vests fc from to_withdraw r = (\<lambda>(deposited, db).
     if wvr_auto_vest r then
       bindR (route_share fc to_withdraw r) (\<lambda>to_deposit.
       bindR (safe_add fc deposited to_deposit) (\<lambda>deposited.
       if to_deposit > 0 then
         bindR (get_account_by_id (wvr_to_account r) db) (\<lambda>to_account.
         bindR (modify_account (acc_name to_account) (\<lambda>a.
           bindR (safe_add fc (amount (acc_vesting_shares a)) to_deposit) (\<lambda>v.
           Inr (a\<lparr>acc_vesting_shares := (acc_vesting_shares a)\<lparr>amount := v\<rparr>\<rparr>))) db) (\<lambda>db.
         bindR (adjust_proxied_witness_votes fc STEEMIT_MAX_PROXY_RECURSION_DEPTH (acc_name to_account) to_deposit db) (\<lambda>db.
         Inr (deposited, push_virtual_operation (Fill_vesting_withdraw from (acc_name to_account)
           \<lparr>amount = to_deposit, symbol = VESTS_SYMBOL\<rparr> \<lparr>amount = to_deposit, symbol = VESTS_SYMBOL\<rparr>) db))))
       else Inr (deposited, db)))
     else Inr (deposited, db))"

definition route_steem ::
  "fc_lib \<Rightarrow> account_name_type \<Rightarrow> int \<Rightarrow> withdraw_vesting_route_object \<Rightarrow> int \<times> asset \<times> database \<Rightarrow>
   (int \<times> asset \<times> database) res" where
  "route_steem fc from to_withdraw r = (\<lambda>(deposited, total_converted, db).
     if \<not> wvr_auto_vest r then
       bindR (get_account_by_id (wvr_to_account r) db) (\<lambda>to_account.
       bindR (route_share fc to_withdraw r) (\<lambda>to_deposit.
       bindR (safe_add fc deposited to_deposit) (\<lambda>deposited.
       bindR (asset_mul_price fc \<lparr>amount = to_deposit, symbol = VESTS_SYMBOL\<rparr>
         (get_vesting_share_price (db_dgp db))) (\<lambda>converted_steem.
       bindR (asset_add fc total_converted converted_steem) (\<lambda>total_converted.
       if to_deposit > 0 then
         bindR (modify_account (acc_name to_account) (\<lambda>a.
           bindR (asset_add fc (acc_balance a) converted_steem) (\<lambda>b. Inr (a\<lparr>acc_balance := b\<rparr>))) db) (\<lambda>db.
         bindR (asset_sub fc (dgp_total_vesting_fund_steem (db_dgp db)) converted_steem) (\<lambda>fund.
         bindR (safe_sub fc (amount (dgp_total_vesting_shares (db_dgp db))) to_deposit) (\<lambda>shares.
         Inr (deposited, total_converted, push_virtual_operation (Fill_vesting_withdraw from (acc_name to_account)
             \<lparr>amount = to_deposit, symbol = VESTS_SYMBOL\<rparr> converted_steem)
           (db\<lparr>db_dgp := (db_dgp db)\<lparr>dgp_total_vesting_fund_steem := fund,
             dgp_total_vesting_shares := (dgp_total_vesting_shares (db_dgp db))\<lparr>amount := shares\<rparr>\<rparr>\<rparr>)))))
       else Inr (deposited, total_converted, db))))))
     else Inr (deposited, total_converted, db))"

text \<open>The account after the withdrawal of \<open>to_withdraw\<close> shares, of which \<open>converted_steem\<close> came back.\<close>

definition withdrawn_account ::
  "fc_lib \<Rightarrow> bool \<Rightarrow> int \<Rightarrow> asset \<Rightarrow> account_object \<Rightarrow> account_object res" where
  "withdrawn_account fc hf19 to_withdraw converted_steem a =
     bindR (safe_sub fc (amount (acc_vesting_shares a)) to_withdraw) (\<lambda>vests.
     bindR (asset_add fc (acc_balance a) converted_steem) (\<lambda>bal.
     bindR (safe_add fc (acc_withdrawn a) to_withdraw) (\<lambda>wd.
     let a = a\<lparr>acc_vesting_shares := (acc_vesting_shares a)\<lparr>amount := vests\<rparr>, acc_balance := bal, acc_withdrawn := wd\<rparr>
     in Inr (if acc_withdrawn a \<ge> acc_to_withdraw a \<or> amount (acc_vesting_shares a) = 0 then
               let a = a\<lparr>acc_vesting_withdraw_rate := (acc_vesting_withdraw_rate a)\<lparr>amount := 0\<rparr>,
                     acc_next_vesting_withdrawal := time_maximum\<rparr>
               in if hf19 then a\<lparr>acc_withdrawn := 0, acc_to_withdraw := 0\<rparr> else a
             else a\<lparr>acc_next_vesting_withdrawal :=
               time_plus (acc_next_vesting_withdrawal a) STEEMIT_VESTING_WITHDRAW_INTERVAL_SECONDS\<rparr>))))"

text \<open>The body of the loop of \<^verbatim>\<open>process_vesting_withdrawals\<close> for one account.\<close>

definition withdraw_vesting_of :: "fc_lib \<Rightarrow> account_name_type \<Rightarrow> database \<Rightarrow> database res" where
  "withdraw_vesting_of fc from db =
     bindR (get_account from db) (\<lambda>from_account.
     bindR (withdraw_amount fc from_account) (\<lambda>to_withdraw.
     bindR (foldR (route_vests fc from to_withdraw) (routes_of (acc_id from_account) db) (0, db)) (\<lambda>(as_vests, db).
     bindR (foldR (route_steem fc from to_withdraw) (routes_of (acc_id from_account) db)
       (0, \<lparr>amount = 0, symbol = STEEM_SYMBOL\<rparr>, db)) (\<lambda>(as_steem, _, db).
     bindR (safe_sub fc to_withdraw as_steem) (\<lambda>rest.
     bindR (safe_sub fc rest as_vests) (\<lambda>rest.
     let to_convert = (if rest < 0 then 0 else rest) in
     bindR (asset_mul_price fc \<lparr>amount = to_convert, symbol = VESTS_SYMBOL\<rparr>
       (get_vesting_share_price (db_dgp db))) (\<lambda>converted_steem.
     bindR (modify_account from (withdrawn_account fc (has_hardfork 19 db) to_withdraw converted_steem) db) (\<lambda>db.
     bindR (asset_sub fc (dgp_total_vesting_fund_steem (db_dgp db)) converted_steem) (\<lambda>fund.
     bindR (safe_sub fc (amount (dgp_total_vesting_shares (db_dgp db))) to_convert) (\<lambda>shares.
     let db = db\<lparr>db_dgp := (db_dgp db)\<lparr>dgp_total_vesting_fund_steem := fund,
           dgp_total_vesting_shares := (dgp_total_vesting_shares (db_dgp db))\<lparr>amount := shares\<rparr>\<rparr>\<rparr> in
     if to_withdraw > 0 then
       bindR (safe_neg fc to_withdraw) (\<lambda>neg.
       bindR (adjust_proxied_witness_votes fc STEEMIT_MAX_PROXY_RECURSION_DEPTH from neg db) (\<lambda>db.
       Inr (push_virtual_operation (Fill_vesting_withdraw from from
         \<lparr>amount = to_withdraw, symbol = VESTS_SYMBOL\<rparr> converted_steem) db)))
     else Inr db))))))))))"

text \<open>
  The loop walks the index \<^verbatim>\<open>by_next_vesting_withdrawal\<close>; the iterator moves to the next account before
  the body moves the current account to its later place, so an account whose next withdrawal is
  still due is met again. The number of rounds is bounded by \<open>rounds\<close>; \<open>None\<close> says that the
  bound was too small.
\<close>

definition withdrawal_queue :: "database \<Rightarrow> account_object list" where
  "withdrawal_queue db =
     sort_by (\<lambda>a b. acc_next_vesting_withdrawal a < acc_next_vesting_withdrawal b \<or>
         acc_next_vesting_withdrawal a = acc_next_vesting_withdrawal b \<and> acc_id a < acc_id b)
       (db_accounts db)"

definition next_in_queue :: "account_name_type \<Rightarrow> database \<Rightarrow> account_name_type option" where
  "next_in_queue n db =
     (case tl (dropWhile (\<lambda>a. acc_name a \<noteq> n) (withdrawal_queue db)) of [] \<Rightarrow> None | a # _ \<Rightarrow> Some (acc_name a))"

fun withdrawal_loop :: "fc_lib \<Rightarrow> nat \<Rightarrow> account_name_type option \<Rightarrow> database \<Rightarrow> database res option" where
  "withdrawal_loop fc rounds None db = Some (Inr db)"
| "withdrawal_loop fc 0 (Some n) db = None"
| "withdrawal_loop fc (Suc rounds) (Some n) db =
     (case get_account n db of
        Inl e \<Rightarrow> Some (Inl e)
      | Inr a \<Rightarrow>
          if acc_next_vesting_withdrawal a \<le> head_block_time db then
            (case withdraw_vesting_of fc n db of
               Inl e \<Rightarrow> Some (Inl e)
             | Inr db' \<Rightarrow> withdrawal_loop fc rounds (next_in_queue n db) db')
          else Some (Inr db))"

definition process_vesting_withdrawals :: "fc_lib \<Rightarrow> nat \<Rightarrow> database \<Rightarrow> database res option" where
  "process_vesting_withdrawals fc rounds db =
     withdrawal_loop fc rounds
       (case withdrawal_queue db of [] \<Rightarrow> None | a # _ \<Rightarrow> Some (acc_name a)) db"

end
