(* ===== verification/Witness_Schedule.thy ===== *)
theory Witness_Schedule
  imports Accounts Maintenance "HOL-Library.Product_Lexorder"
begin

text \<open>
  The schedule of block producers: \<^verbatim>\<open>update_witness_schedule\<close>, \<^verbatim>\<open>update_witness_schedule4\<close>,
  \<^verbatim>\<open>update_median_witness_props\<close> and \<^verbatim>\<open>reset_virtual_schedule_time\<close> of \<^verbatim>\<open>database.cpp\<close>. A round is made
  of the witnesses with most votes, one miner, and witnesses that take turns by virtual time; the
  order within a round is shuffled. The chain properties are medians of what the witnesses of the
  round propose.
\<close>

unbundle bit_operations_syntax

section \<open>Constants and state\<close>

definition STEEMIT_MAX_VOTED_WITNESSES :: nat where "STEEMIT_MAX_VOTED_WITNESSES = 19"
definition STEEMIT_MAX_MINER_WITNESSES :: nat where "STEEMIT_MAX_MINER_WITNESSES = 1"
definition STEEMIT_MAX_RUNNER_WITNESSES :: nat where "STEEMIT_MAX_RUNNER_WITNESSES = 1"

definition MAX_WITNESSES :: nat where
  "MAX_WITNESSES = STEEMIT_MAX_VOTED_WITNESSES + STEEMIT_MAX_MINER_WITNESSES + STEEMIT_MAX_RUNNER_WITNESSES"

definition STEEMIT_HARDFORK_REQUIRED_WITNESSES :: nat where "STEEMIT_HARDFORK_REQUIRED_WITNESSES = 17"

text \<open>The hardfork state; the number of processed hardforks is kept with the database.\<close>

record hardfork_property_object =
  hpo_last_hardfork :: nat
  hpo_current_hardfork_version :: hardfork_version
  hpo_next_hardfork :: hardfork_version
  hpo_next_hardfork_time :: time_point_sec

definition update_witness :: "nat \<Rightarrow> (witness_object \<Rightarrow> witness_object) \<Rightarrow> database \<Rightarrow> database" where
  "update_witness i f db =
     db\<lparr>db_witnesses := map (\<lambda>w. if wit_id w = i then f w else w) (db_witnesses db)\<rparr>"

text \<open>The orders of the indices \<^verbatim>\<open>by_vote_name\<close>, \<^verbatim>\<open>by_pow\<close> and \<^verbatim>\<open>by_schedule_time\<close>.\<close>

definition vote_name_lt :: "witness_object \<Rightarrow> witness_object \<Rightarrow> bool" where
  "vote_name_lt a b \<longleftrightarrow> wit_votes a > wit_votes b \<or> wit_votes a = wit_votes b \<and> wit_owner a < wit_owner b"

definition pow_lt :: "witness_object \<Rightarrow> witness_object \<Rightarrow> bool" where
  "pow_lt a b \<longleftrightarrow> wit_pow_worker a < wit_pow_worker b"

definition schedule_time_lt :: "witness_object \<Rightarrow> witness_object \<Rightarrow> bool" where
  "schedule_time_lt a b \<longleftrightarrow> wit_virtual_scheduled_time a < wit_virtual_scheduled_time b \<or>
     wit_virtual_scheduled_time a = wit_virtual_scheduled_time b \<and> wit_id a < wit_id b"

text \<open>\<^verbatim>\<open>pow_idx.upper_bound(0)\<close> and what follows it.\<close>

definition pow_queue :: "database \<Rightarrow> witness_object list" where
  "pow_queue db = filter (\<lambda>w. wit_pow_worker w > 0) (sort_by pow_lt (db_witnesses db))"

definition may_produce :: "database \<Rightarrow> witness_object \<Rightarrow> bool" where
  "may_produce db w \<longleftrightarrow> \<not> (has_hardfork 14 db \<and> wit_signing_key w = null_public_key)"

section \<open>Selection of a round\<close>

text \<open>
  The elected witnesses, in the order of their votes. The set of selected identifiers grows with
  every step of the loop, so its size is the number of witnesses chosen so far.
\<close>

definition select_voted :: "database \<Rightarrow> witness_object list \<times> database" where
  "select_voted db =
     (let chosen = take STEEMIT_MAX_VOTED_WITNESSES (filter (may_produce db) (sort_by vote_name_lt (db_witnesses db)))
      in (chosen, fold (\<lambda>w. update_witness (wit_id w) (\<lambda>wo. wo\<lparr>wit_schedule := top19\<rparr>)) chosen db))"

text \<open>The mining queue: every processed miner leaves the queue, chosen or not.\<close>

fun select_miners ::
  "nat list \<Rightarrow> witness_object list \<Rightarrow> witness_object list \<Rightarrow> database \<Rightarrow> witness_object list \<times> database" where
  "select_miners voted [] miners db = (miners, db)"
| "select_miners voted (m # queue) miners db =
     (if length miners < STEEMIT_MAX_MINER_WITNESSES then
        let chosen = wit_id m \<notin> set voted \<and> may_produce db m;
            db' = (if chosen then update_witness (wit_id m) (\<lambda>wo. wo\<lparr>wit_schedule := miner\<rparr>) db else db);
            db' = update_witness (wit_id m) (\<lambda>wit. wit\<lparr>wit_pow_worker := 0\<rparr>) db';
            db' = db'\<lparr>db_dgp := (db_dgp db')\<lparr>dgp_num_pow_witnesses := dec_w 32 (dgp_num_pow_witnesses (db_dgp db'))\<rparr>\<rparr>
        in select_miners voted queue (if chosen then miners @ [m] else miners) db'
      else (miners, db))"

text \<open>
  The witnesses next in virtual time: the virtual time, the witnesses passed over or chosen, the
  chosen ones, and the database.
\<close>

fun select_timeshare ::
  "nat list \<Rightarrow> nat \<Rightarrow> witness_object list \<Rightarrow> int \<Rightarrow> witness_object list \<Rightarrow> witness_object list \<Rightarrow> database \<Rightarrow>
   int \<times> witness_object list \<times> witness_object list \<times> database" where
  "select_timeshare selected witness_count [] vt processed chosen db = (vt, processed, chosen, db)"
| "select_timeshare selected witness_count (w # ws) vt processed chosen db =
     (if witness_count < MAX_WITNESSES then
        let vt = wit_virtual_scheduled_time w; processed = processed @ [w] in
        if \<not> may_produce db w then select_timeshare selected witness_count ws vt processed chosen db
        else if wit_id w \<notin> set selected then
          select_timeshare selected (Suc witness_count) ws vt processed (chosen @ [w])
            (update_witness (wit_id w) (\<lambda>wo. wo\<lparr>wit_schedule := timeshare\<rparr>) db)
        else select_timeshare selected witness_count ws vt processed chosen db
      else (vt, processed, chosen, db))"

section \<open>Virtual time\<close>

text \<open>The update of the processed witnesses stops at the first overflow.\<close>

fun advance_virtual :: "fc_lib \<Rightarrow> int \<Rightarrow> witness_object list \<Rightarrow> database \<Rightarrow> (bool \<times> database) res" where
  "advance_virtual fc vt [] db = Inr (False, db)"
| "advance_virtual fc vt (w # ws) db =
     bindR (u128_div fc VIRTUAL_SCHEDULE_LAP_LENGTH2 (u128_of fc (wit_votes w + 1))) (\<lambda>lap.
     let new_virtual_scheduled_time = u128_add fc vt lap in
     if new_virtual_scheduled_time < vt then Inr (True, db)
     else advance_virtual fc vt ws (update_witness (wit_id w) (\<lambda>wo. wo\<lparr>wit_virtual_position := 0,
       wit_virtual_last_update := vt, wit_virtual_scheduled_time := new_virtual_scheduled_time\<rparr>) db))"

definition reset_virtual_schedule_time :: "fc_lib \<Rightarrow> database \<Rightarrow> database res" where
  "reset_virtual_schedule_time fc db =
     (let db = db\<lparr>db_schedule := (db_schedule db)\<lparr>wso_current_virtual_time := 0\<rparr>\<rparr> in
      foldR (\<lambda>w db.
        bindR (u128_div fc VIRTUAL_SCHEDULE_LAP_LENGTH2 (u128_of fc (wit_votes w + 1))) (\<lambda>lap.
        Inr (update_witness (wit_id w) (\<lambda>wobj. wobj\<lparr>wit_virtual_position := 0,
          wit_virtual_last_update := wso_current_virtual_time (db_schedule db), wit_virtual_scheduled_time := lap\<rparr>) db)))
        (db_witnesses db) db)"

section \<open>Versions and hardfork votes\<close>

definition scheduled_names :: "witness_schedule_object \<Rightarrow> account_name_type list" where
  "scheduled_names wso = take (wso_num_scheduled_witnesses wso) (wso_current_shuffled_witnesses wso)"

definition scheduled_witnesses :: "database \<Rightarrow> witness_object list res" where
  "scheduled_witnesses db =
     foldR (\<lambda>n ws. bindR (get_witness n db) (\<lambda>w. Inr (ws @ [w]))) (scheduled_names (db_schedule db)) []"

text \<open>Assigning a hardfork version drops the release number.\<close>

definition assign_hardfork :: "hardfork_version \<Rightarrow> hardfork_version" where
  "assign_hardfork v = \<lparr>hv_num = hv_num v AND 0xFFFF0000\<rparr>"

definition tally :: "'k::linorder \<Rightarrow> ('k \<times> nat) list \<Rightarrow> ('k \<times> nat) list" where
  "tally k m = flat_put k (case map_of m k of None \<Rightarrow> 1 | Some n \<Rightarrow> Suc n) m"

definition witness_versions :: "witness_object list \<Rightarrow> (32 word \<times> nat) list" where
  "witness_versions ws = fold (\<lambda>w. tally (v_num (wit_running_version w))) ws []"

definition hardfork_version_votes :: "witness_object list \<Rightarrow> ((32 word \<times> time_point_sec) \<times> nat) list" where
  "hardfork_version_votes ws = fold (\<lambda>w. tally (hv_num (wit_hardfork_version_vote w), wit_hardfork_time_vote w)) ws []"

text \<open>The loop over the versions from the highest on.\<close>

fun majority_of :: "nat \<Rightarrow> (32 word \<times> nat) list \<Rightarrow> version \<Rightarrow> version" where
  "majority_of witnesses_on_version [] old = old"
| "majority_of witnesses_on_version ((v, n) # vs) old =
     (if witnesses_on_version + n \<ge> STEEMIT_HARDFORK_REQUIRED_WITNESSES then \<lparr>v_num = v\<rparr>
      else majority_of (witnesses_on_version + n) vs old)"

definition tally_hardfork_votes :: "witness_object list \<Rightarrow> hardfork_property_object \<Rightarrow> hardfork_property_object" where
  "tally_hardfork_votes ws hpo =
     (case find (\<lambda>(_, n). n \<ge> STEEMIT_HARDFORK_REQUIRED_WITNESSES) (hardfork_version_votes ws) of
        Some ((v, t), _) \<Rightarrow> hpo\<lparr>hpo_next_hardfork := assign_hardfork \<lparr>hv_num = v\<rparr>, hpo_next_hardfork_time := t\<rparr>
      | None \<Rightarrow> hpo\<lparr>hpo_next_hardfork := assign_hardfork (hpo_current_hardfork_version hpo)\<rparr>)"

section \<open>Shuffle\<close>

definition shuffle_word :: "time_point_sec \<Rightarrow> nat \<Rightarrow> 64 word" where
  "shuffle_word now i =
     (let now_hi = push_bit 32 (word_of_int now);
          k = now_hi + of_nat i * 2685821657736338717;
          k = k XOR drop_bit 12 k;
          k = k XOR push_bit 25 k;
          k = k XOR drop_bit 27 k
      in k * 2685821657736338717)"

definition swap_at :: "nat \<Rightarrow> nat \<Rightarrow> 'a list \<Rightarrow> 'a list" where
  "swap_at i j xs = xs[i := xs ! j, j := xs ! i]"

definition shuffle_witnesses :: "time_point_sec \<Rightarrow> nat \<Rightarrow> account_name_type list \<Rightarrow> account_name_type list" where
  "shuffle_witnesses now n xs =
     fold (\<lambda>i xs. swap_at i (i + unat (shuffle_word now i) mod (n - i)) xs) [0..<n] xs"

text \<open>The array of scheduled witnesses has one place for each witness of a full round.\<close>

definition fill_schedule :: "account_name_type list \<Rightarrow> account_name_type list" where
  "fill_schedule active = active @ replicate (MAX_WITNESSES - length active) []"

section \<open>Median properties\<close>

text \<open>
  \<^verbatim>\<open>std::nth_element\<close> leaves the order of the other elements open, so it is an argument. A step
  compares the proposals by some parameter and copies the parameter of the median witness: the
  check covers what a comparison of two elements may throw, which happens as soon as there are
  two elements, since every element is compared with some other one.
\<close>

type_synonym nth_element = "(witness_object \<Rightarrow> witness_object \<Rightarrow> bool) \<Rightarrow> nat \<Rightarrow> witness_object list \<Rightarrow> witness_object list"

record median_step =
  ms_check :: "witness_object list \<Rightarrow> unit res"
  ms_lt :: "witness_object \<Rightarrow> witness_object \<Rightarrow> bool"
  ms_assign :: "chain_properties_19 \<Rightarrow> chain_properties_19 \<Rightarrow> chain_properties_19"

definition calc_median ::
  "(chain_properties_19 \<Rightarrow> 'b::linorder) \<Rightarrow> (('c \<Rightarrow> 'c) \<Rightarrow> chain_properties_19 \<Rightarrow> chain_properties_19) \<Rightarrow>
   (chain_properties_19 \<Rightarrow> 'c) \<Rightarrow> median_step" where
  "calc_median key update param = \<lparr>ms_check = (\<lambda>_. Inr ()),
     ms_lt = (\<lambda>a b. key (wit_props a) < key (wit_props b)),
     ms_assign = (\<lambda>src. update (\<lambda>_. param src))\<rparr>"

definition calc_median_asset ::
  "((asset \<Rightarrow> asset) \<Rightarrow> chain_properties_19 \<Rightarrow> chain_properties_19) \<Rightarrow> (chain_properties_19 \<Rightarrow> asset) \<Rightarrow> median_step" where
  "calc_median_asset update param = (calc_median (\<lambda>p. amount (param p)) update param)\<lparr>ms_check :=
     (\<lambda>active. ensure (\<forall>a \<in> set active. \<forall>b \<in> set active. symbol (param (wit_props a)) = symbol (param (wit_props b)))
        (Fc_assert ''a.symbol == b.symbol''))\<rparr>"

definition calc_median_battery ::
  "((nat \<Rightarrow> nat) \<Rightarrow> chain_properties_19 \<Rightarrow> chain_properties_19) \<Rightarrow> (chain_properties_19 \<Rightarrow> nat) \<Rightarrow>
   ((nat \<Rightarrow> nat) \<Rightarrow> chain_properties_19 \<Rightarrow> chain_properties_19) \<Rightarrow> (chain_properties_19 \<Rightarrow> nat) \<Rightarrow> median_step" where
  "calc_median_battery update_window window update_items items = \<lparr>
     ms_check = (\<lambda>active. ensure (length active > 1 \<longrightarrow> (\<forall>a \<in> set active. items (wit_props a) \<noteq> 0))
        (Internal_error ''division by zero'')),
     ms_lt = (\<lambda>a b. (window (wit_props a) div items (wit_props a), items (wit_props a)) <
                    (window (wit_props b) div items (wit_props b), items (wit_props b))),
     ms_assign = (\<lambda>src p. update_items (\<lambda>_. items src) (update_window (\<lambda>_. window src) p))\<rparr>"

definition calc_median_min_max ::
  "((nat \<Rightarrow> nat) \<Rightarrow> chain_properties_19 \<Rightarrow> chain_properties_19) \<Rightarrow> (chain_properties_19 \<Rightarrow> nat) \<Rightarrow>
   ((nat \<Rightarrow> nat) \<Rightarrow> chain_properties_19 \<Rightarrow> chain_properties_19) \<Rightarrow> (chain_properties_19 \<Rightarrow> nat) \<Rightarrow> median_step" where
  "calc_median_min_max update_min lo update_max hi = \<lparr>
     ms_check = (\<lambda>_. Inr ()),
     ms_lt = (\<lambda>a b. (lo (wit_props a), hi (wit_props a)) < (lo (wit_props b), hi (wit_props b))),
     ms_assign = (\<lambda>src p. update_max (\<lambda>_. hi src) (update_min (\<lambda>_. lo src) p))\<rparr>"

text \<open>The underlying number of an enumerator.\<close>

fun curve_number :: "curation_curve \<Rightarrow> nat" where
  "curve_number Curve_bounded = 0" | "curve_number Curve_linear = 1" | "curve_number Curve_square_root = 2"
| "curve_number Curve_size = 3" | "curve_number Curve_detect = 100"

definition median_steps :: "median_step list" where
  "median_steps =
     [calc_median_asset account_creation_fee_update account_creation_fee,
      calc_median maximum_block_size maximum_block_size_update maximum_block_size,
      calc_median sbd_interest_rate sbd_interest_rate_update sbd_interest_rate,
      calc_median_asset create_account_min_golos_fee_update create_account_min_golos_fee,
      calc_median_asset create_account_min_delegation_update create_account_min_delegation,
      calc_median create_account_delegation_time create_account_delegation_time_update create_account_delegation_time,
      calc_median_asset min_delegation_update min_delegation,
      calc_median auction_window_size auction_window_size_update auction_window_size,
      calc_median max_referral_interest_rate max_referral_interest_rate_update max_referral_interest_rate,
      calc_median max_referral_term_sec max_referral_term_sec_update max_referral_term_sec,
      calc_median_asset min_referral_break_fee_update min_referral_break_fee,
      calc_median_asset max_referral_break_fee_update max_referral_break_fee,
      calc_median_battery posts_window_update posts_window posts_per_window_update posts_per_window,
      calc_median_battery comments_window_update comments_window comments_per_window_update comments_per_window,
      calc_median_battery votes_window_update votes_window votes_per_window_update votes_per_window,
      calc_median max_delegated_vesting_interest_rate max_delegated_vesting_interest_rate_update
        max_delegated_vesting_interest_rate,
      calc_median custom_ops_bandwidth_multiplier custom_ops_bandwidth_multiplier_update custom_ops_bandwidth_multiplier,
      calc_median_min_max min_curation_percent_update min_curation_percent max_curation_percent_update max_curation_percent,
      calc_median (\<lambda>p. curve_number (curation_reward_curve p)) curation_reward_curve_update curation_reward_curve,
      calc_median allow_distribute_auction_reward allow_distribute_auction_reward_update allow_distribute_auction_reward,
      calc_median allow_return_auction_reward_to_fund allow_return_auction_reward_to_fund_update
        allow_return_auction_reward_to_fund]"

definition run_median_step ::
  "nth_element \<Rightarrow> median_step \<Rightarrow> witness_object list \<times> chain_properties_19 \<Rightarrow> (witness_object list \<times> chain_properties_19) res" where
  "run_median_step nel s = (\<lambda>(active, median_props).
     bindR (ms_check s active) (\<lambda>_.
     let median = length active div 2;
         active = nel (ms_lt s) median active
     in Inr (active, ms_assign s (wit_props (active ! median)) median_props)))"

definition update_median_witness_props :: "nth_element \<Rightarrow> database \<Rightarrow> database res" where
  "update_median_witness_props nel db =
     bindR (scheduled_witnesses db) (\<lambda>active.
     bindR (foldR (run_median_step nel) median_steps (active, default_chain_properties)) (\<lambda>(_, median_props).
     Inr (db\<lparr>db_schedule := (db_schedule db)\<lparr>wso_median_props := median_props\<rparr>,
       db_dgp := (db_dgp db)\<lparr>dgp_maximum_block_size := maximum_block_size median_props,
         dgp_sbd_interest_rate := sbd_interest_rate median_props,
         dgp_custom_ops_bandwidth_multiplier := custom_ops_bandwidth_multiplier median_props\<rparr>\<rparr>)))"

section \<open>The round since hardfork 4\<close>

text \<open>The witnesses of the next round by kind, the new virtual time and the witnesses it passed.\<close>

definition select_round ::
  "database \<Rightarrow> (witness_object list \<times> witness_object list \<times> witness_object list) \<times> int \<times> witness_object list \<times> database" where
  "select_round db =
     (let (voted, db) = select_voted db;
          (miners, db) = select_miners (map wit_id voted) (pow_queue db) [] db;
          (vt, processed, chosen, db) =
            select_timeshare (map wit_id voted @ map wit_id miners) (length voted + length miners)
              (sort_by schedule_time_lt (db_witnesses db)) (wso_current_virtual_time (db_schedule db)) [] [] db
      in ((voted, miners, chosen), vt, processed, db))"

definition count_votes ::
  "hardfork_property_object \<Rightarrow> database \<Rightarrow> (version \<times> hardfork_property_object) res" where
  "count_votes hpo db =
     (let old = wso_majority_version (db_schedule db) in
      if has_hardfork 5 db then
        bindR (scheduled_witnesses db) (\<lambda>ws.
        Inr (majority_of 0 (rev (witness_versions ws)) old, tally_hardfork_votes ws hpo))
      else Inr (old, hpo))"

text \<open>The number of scheduled witnesses is an unsigned byte, the pay normalisation a 32-bit number.\<close>

definition install_round ::
  "account_name_type list \<Rightarrow> nat \<Rightarrow> nat \<Rightarrow> nat \<Rightarrow> int \<Rightarrow> version \<Rightarrow> database \<Rightarrow> database" where
  "install_round active num_elected num_miners num_timeshare new_virtual_time majority_version db =
     (let wso = db_schedule db;
          n = max (length active mod 256) 1
      in db\<lparr>db_schedule := wso\<lparr>
        wso_current_shuffled_witnesses := shuffle_witnesses (head_block_time db) n (fill_schedule active),
        wso_num_scheduled_witnesses := n,
        wso_witness_pay_normalization_factor :=
          (wso_top19_weight wso * num_elected + wso_miner_weight wso * num_miners +
           wso_timeshare_weight wso * num_timeshare) mod 2 ^ 32,
        wso_current_virtual_time := new_virtual_time,
        wso_next_shuffle_block_num := (head_block_num db + n) mod 2 ^ 32,
        wso_majority_version := majority_version\<rparr>\<rparr>)"

definition update_witness_schedule4 ::
  "fc_lib \<Rightarrow> nth_element \<Rightarrow> hardfork_property_object \<Rightarrow> database \<Rightarrow> (hardfork_property_object \<times> database) res" where
  "update_witness_schedule4 fc nel hpo db =
     (let ((voted, miners, chosen), new_virtual_time, processed, db) = select_round db;
          active_witnesses = map wit_owner (voted @ miners @ chosen)
      in bindR (advance_virtual fc new_virtual_time processed db) (\<lambda>(reset_virtual_time, db).
         bindR (if reset_virtual_time then reset_virtual_schedule_time fc db else Inr db) (\<lambda>db.
         let new_virtual_time = (if reset_virtual_time then 0 else new_virtual_time);
             expected = min MAX_WITNESSES (length (db_witnesses db)) in
         bindR (ensure (head_block_num db > 14400 \<longrightarrow> length active_witnesses = expected)
           (Fc_assert ''number of active witnesses does not equal expected_active_witnesses'')) (\<lambda>_.
         bindR (count_votes hpo db) (\<lambda>(majority_version, hpo).
         bindR (update_median_witness_props nel (install_round active_witnesses (length voted) (length miners)
           (length chosen) new_virtual_time majority_version db)) (\<lambda>db. Inr (hpo, db)))))))"

section \<open>The round before hardfork 4\<close>

text \<open>
  Until hardfork 4 the elected witnesses leave the virtual schedule and the queued miners are
  added, one per round once voting has taken over.
\<close>

definition elect_early :: "database \<Rightarrow> account_name_type list \<times> database" where
  "elect_early db =
     (let chosen = take (MAX_WITNESSES - 2) (filter (\<lambda>w. wit_pow_worker w = 0) (sort_by vote_name_lt (db_witnesses db)))
      in (map wit_owner chosen,
          fold (\<lambda>w. update_witness (wit_id w) (\<lambda>wo. wo\<lparr>wit_virtual_scheduled_time := 2 ^ 128 - 1\<rparr>)) chosen db))"

definition schedule_early :: "fc_lib \<Rightarrow> account_name_type list \<Rightarrow> database \<Rightarrow> (account_name_type list \<times> int \<times> database) res" where
  "schedule_early fc active db =
     (case filter (\<lambda>w. wit_pow_worker w = 0) (sort_by schedule_time_lt (db_witnesses db)) of
        [] \<Rightarrow> Inr (active, 0, db)
      | w # _ \<Rightarrow>
          let vt = wit_virtual_scheduled_time w;
              new_virtual_time = (if vt = 2 ^ 128 - 1 then 0 else vt);
              lap = (if has_hardfork 2 db then VIRTUAL_SCHEDULE_LAP_LENGTH2 else VIRTUAL_SCHEDULE_LAP_LENGTH) in
          bindR (u128_div fc lap (u128_of fc (wit_votes w + 1))) (\<lambda>d.
          Inr (active @ [wit_owner w], new_virtual_time, update_witness (wit_id w) (\<lambda>wo. wo\<lparr>wit_virtual_position := 0,
            wit_virtual_scheduled_time := u128_add fc vt d\<rparr>) db)))"

definition pop_miner :: "database \<Rightarrow> database" where
  "pop_miner db =
     (case pow_queue db of
        m # _ \<Rightarrow>
          if dgp_num_pow_witnesses (db_dgp db) > MAX_WITNESSES then
            let db = update_witness (wit_id m) (\<lambda>wit. wit\<lparr>wit_pow_worker := 0\<rparr>) db
            in db\<lparr>db_dgp := (db_dgp db)\<lparr>dgp_num_pow_witnesses := dec_w 32 (dgp_num_pow_witnesses (db_dgp db))\<rparr>\<rparr>
          else db
      | [] \<Rightarrow> db)"

fun add_miners :: "bool \<Rightarrow> witness_object list \<Rightarrow> account_name_type list \<Rightarrow> account_name_type list" where
  "add_miners voting [] active = active"
| "add_miners voting (m # queue) active =
     (let active = active @ [wit_owner m] in
      if voting \<or> length active \<ge> MAX_WITNESSES then active else add_miners voting queue active)"

definition voting_decides :: "database \<Rightarrow> bool" where
  "voting_decides db \<longleftrightarrow>
     dgp_num_pow_witnesses (db_dgp db) = 0 \<or> head_block_num db > STEEMIT_START_MINER_VOTING_BLOCK"

definition update_witness_schedule_early :: "fc_lib \<Rightarrow> nth_element \<Rightarrow> database \<Rightarrow> database res" where
  "update_witness_schedule_early fc nel db =
     bindR (if voting_decides db then
              let (active, db) = elect_early db in schedule_early fc active db
            else Inr ([], 0, db)) (\<lambda>(active, new_virtual_time, db).
     let db = pop_miner db;
         active = add_miners (head_block_num db > STEEMIT_START_MINER_VOTING_BLOCK) (pow_queue db) active;
         wso = db_schedule db;
         n = max (length active mod 256) 1
     in update_median_witness_props nel (db\<lparr>db_schedule := wso\<lparr>
          wso_current_shuffled_witnesses := shuffle_witnesses (head_block_time db) n (fill_schedule active),
          wso_num_scheduled_witnesses := n,
          wso_current_virtual_time := (if voting_decides db then new_virtual_time else wso_current_virtual_time wso),
          wso_next_shuffle_block_num := (head_block_num db + n) mod 2 ^ 32\<rparr>\<rparr>))"

definition update_witness_schedule ::
  "fc_lib \<Rightarrow> nth_element \<Rightarrow> hardfork_property_object \<Rightarrow> database \<Rightarrow> (hardfork_property_object \<times> database) res" where
  "update_witness_schedule fc nel hpo db =
     (if head_block_num db mod MAX_WITNESSES = 0 then
        if has_hardfork 4 db then update_witness_schedule4 fc nel hpo db
        else bindR (update_witness_schedule_early fc nel db) (\<lambda>db. Inr (hpo, db))
      else Inr (hpo, db))"

end
