(* ===== verification/Ledger.thy ===== *)
theory Ledger
  imports Balance
begin

text \<open>
  The supply invariants of \<^verbatim>\<open>database::validate_invariants\<close> in exact arithmetic, and the effect of
  the balance functions on them. For each token, the gap is the recorded supply minus everything
  that holds the token: accounts, savings, pending conversions, open orders, escrows, savings
  withdrawals and, for GOLOS, the vesting and reward funds. An operation conserves value
  when it leaves the gaps as they are; \<open>moves\<close> states by how much a step changes them.
\<close>

section \<open>What holds tokens\<close>

definition amt :: "asset_symbol \<Rightarrow> asset \<Rightarrow> int" where
  "amt s a = (if symbol a = s then amount a else 0)"

definition account_steem :: "account_object \<Rightarrow> int" where
  "account_steem a = amount (acc_balance a) + amount (acc_savings_balance a)"

definition account_sbd :: "account_object \<Rightarrow> int" where
  "account_sbd a = amount (acc_sbd_balance a) + amount (acc_savings_sbd_balance a)"

definition account_vests :: "account_object \<Rightarrow> int" where
  "account_vests a = amount (acc_vesting_shares a)"

definition escrow_holds :: "asset_symbol \<Rightarrow> escrow_object \<Rightarrow> int" where
  "escrow_holds s e = amt s (esc_steem_balance e) + amt s (esc_sbd_balance e) + amt s (esc_pending_fee e)"

definition held :: "asset_symbol \<Rightarrow> database \<Rightarrow> int" where
  "held s db = (\<Sum>c\<leftarrow>db_converts db. amt s (cvt_amount c)) + (\<Sum>o'\<leftarrow>db_orders db. amt s (amount_for_sale o')) +
     (\<Sum>e\<leftarrow>db_escrows db. escrow_holds s e) + (\<Sum>w\<leftarrow>db_savings db. amt s (swo_amount w))"

definition gap_steem :: "database \<Rightarrow> int" where
  "gap_steem db = amount (dgp_current_supply (db_dgp db)) -
     ((\<Sum>a\<leftarrow>db_accounts db. account_steem a) + held STEEM_SYMBOL db +
      amount (dgp_total_vesting_fund_steem (db_dgp db)) + amount (dgp_total_reward_fund_steem (db_dgp db)))"

definition gap_sbd :: "database \<Rightarrow> int" where
  "gap_sbd db = amount (dgp_current_sbd_supply (db_dgp db)) -
     ((\<Sum>a\<leftarrow>db_accounts db. account_sbd a) + held SBD_SYMBOL db)"

definition gap_vests :: "database \<Rightarrow> int" where
  "gap_vests db = amount (dgp_total_vesting_shares (db_dgp db)) - (\<Sum>a\<leftarrow>db_accounts db. account_vests a)"

definition gaps :: "database \<Rightarrow> int \<times> int \<times> int" where
  "gaps db = (gap_steem db, gap_sbd db, gap_vests db)"

section \<open>Well-formed states\<close>

definition account_ok :: "account_object \<Rightarrow> bool" where
  "account_ok a \<longleftrightarrow> symbol (acc_balance a) = STEEM_SYMBOL \<and> symbol (acc_savings_balance a) = STEEM_SYMBOL \<and>
     symbol (acc_sbd_balance a) = SBD_SYMBOL \<and> symbol (acc_savings_sbd_balance a) = SBD_SYMBOL \<and>
     symbol (acc_vesting_shares a) = VESTS_SYMBOL"

text \<open>The fee of an escrow is paid at the moment the second party approves.\<close>

definition escrow_ok :: "escrow_object \<Rightarrow> bool" where
  "escrow_ok e \<longleftrightarrow> symbol (esc_steem_balance e) = STEEM_SYMBOL \<and> symbol (esc_sbd_balance e) = SBD_SYMBOL \<and>
     symbol (esc_pending_fee e) \<in> {STEEM_SYMBOL, SBD_SYMBOL} \<and>
     (esc_is_approved e \<longrightarrow> amount (esc_pending_fee e) = 0)"

definition dgp_ok :: "dynamic_global_property_object \<Rightarrow> bool" where
  "dgp_ok p \<longleftrightarrow> symbol (dgp_current_supply p) = STEEM_SYMBOL \<and> symbol (dgp_current_sbd_supply p) = SBD_SYMBOL \<and>
     symbol (dgp_total_vesting_fund_steem p) = STEEM_SYMBOL \<and>
     symbol (dgp_total_vesting_shares p) = VESTS_SYMBOL \<and>
     symbol (dgp_total_reward_fund_steem p) = STEEM_SYMBOL"

definition order_ok :: "limit_order_object \<Rightarrow> bool" where
  "order_ok o' \<longleftrightarrow> symbol (base (ord_sell_price o')) \<in> {STEEM_SYMBOL, SBD_SYMBOL}"

definition liquid :: "asset \<Rightarrow> bool" where
  "liquid a \<longleftrightarrow> symbol a \<in> {STEEM_SYMBOL, SBD_SYMBOL}"

definition ledger_ok :: "database \<Rightarrow> bool" where
  "ledger_ok db \<longleftrightarrow>
     distinct (map acc_name (db_accounts db)) \<and> (\<forall>a \<in> set (db_accounts db). account_ok a) \<and>
     dgp_ok (db_dgp db) \<and>
     distinct (map cvt_key (db_converts db)) \<and> (\<forall>c \<in> set (db_converts db). symbol (cvt_amount c) = SBD_SYMBOL) \<and>
     distinct (map esc_key (db_escrows db)) \<and> (\<forall>e \<in> set (db_escrows db). escrow_ok e) \<and>
     distinct (map swo_key (db_savings db)) \<and> (\<forall>w \<in> set (db_savings db). liquid (swo_amount w)) \<and>
     distinct (map ord_key (db_orders db)) \<and> (\<forall>o' \<in> set (db_orders db). order_ok o')"

definition moves :: "database \<Rightarrow> database \<Rightarrow> int \<Rightarrow> int \<Rightarrow> int \<Rightarrow> bool" where
  "moves db db' s g v \<longleftrightarrow> ledger_ok db' \<and>
     gap_steem db' = gap_steem db + s \<and> gap_sbd db' = gap_sbd db + g \<and> gap_vests db' = gap_vests db + v"

lemma moves_refl: "ledger_ok db \<Longrightarrow> moves db db 0 0 0"
  by (simp add: moves_def)

lemma moves_trans:
  "moves db db' s g v \<Longrightarrow> moves db' db'' s' g' v' \<Longrightarrow> moves db db'' (s + s') (g + g') (v + v')"
  by (simp add: moves_def)

lemma moves_ok: "moves db db' s g v \<Longrightarrow> ledger_ok db'"
  by (simp add: moves_def)

lemma moves_gaps: "moves db db' 0 0 0 \<Longrightarrow> gaps db' = gaps db"
  by (simp add: moves_def gaps_def)

section \<open>Exact assets\<close>

lemma asset_add_Inr [fc_simps]:
  "fc_safe fc \<Longrightarrow> asset_add fc a b = Inr c \<longleftrightarrow>
   symbol a = symbol b \<and> in_i64 (amount a + amount b) \<and> c = \<lparr>amount = amount a + amount b, symbol = symbol a\<rparr>"
  by (auto simp: asset_add_def safe_add_Inr)

lemma asset_sub_Inr [fc_simps]:
  "fc_safe fc \<Longrightarrow> asset_sub fc a b = Inr c \<longleftrightarrow>
   symbol a = symbol b \<and> in_i64 (amount a - amount b) \<and> c = \<lparr>amount = amount a - amount b, symbol = symbol a\<rparr>"
  by (auto simp: asset_sub_def safe_sub_Inr)

lemma asset_neg_Inr [fc_simps]:
  "fc_safe fc \<Longrightarrow> asset_neg fc a = Inr c \<longleftrightarrow> in_i64 (- amount a) \<and> c = \<lparr>amount = - amount a, symbol = symbol a\<rparr>"
  by (auto simp: asset_neg_def safe_neg_Inr)

lemma asset_cmp_Inr [fc_simps]:
  "asset_eq a b = Inr r \<longleftrightarrow> symbol a = symbol b \<and> (r \<longleftrightarrow> amount a = amount b)"
  "asset_lt a b = Inr r \<longleftrightarrow> symbol a = symbol b \<and> (r \<longleftrightarrow> amount a < amount b)"
  "asset_le a b = Inr r \<longleftrightarrow> symbol a = symbol b \<and> (r \<longleftrightarrow> amount a \<le> amount b)"
  "asset_ge a b = Inr r \<longleftrightarrow> symbol a = symbol b \<and> (r \<longleftrightarrow> amount a \<ge> amount b)"
  "asset_gt a b = Inr r \<longleftrightarrow> symbol a = symbol b \<and> (r \<longleftrightarrow> amount a > amount b)"
  by (auto simp: asset_eq_def asset_lt_def asset_le_def asset_ge_def asset_gt_def split: if_splits)

lemma amt_same [simp]: "amt s \<lparr>amount = x, symbol = s\<rparr> = x"
  by (simp add: amt_def)

section \<open>Updating accounts\<close>

lemma held_accounts [simp]:
  "held s (db\<lparr>db_accounts := x\<rparr>) = held s db" "held s (db\<lparr>db_dgp := p\<rparr>) = held s db"
  "held s (db\<lparr>db_vops := vs\<rparr>) = held s db" "held s (db\<lparr>db_witnesses := ws\<rparr>) = held s db"
  "held s (db\<lparr>db_witness_votes := wv\<rparr>) = held s db" "held s (db\<lparr>db_next_id := nx\<rparr>) = held s db"
  by (simp_all add: held_def)

lemma set_account_moves:
  assumes "ledger_ok db" "get_account n db = Inr a" "acc_name a' = n" "account_ok a'"
  shows "moves db (set_account a' db)
    (account_steem a - account_steem a') (account_sbd a - account_sbd a') (account_vests a - account_vests a')"
proof -
  have d: "distinct (map acc_name (db_accounts db))" using assms(1) by (simp add: ledger_ok_def)
  have f: "find_by acc_name (acc_name a') (db_accounts db) = Some a"
    using assms(2,3) by (simp add: get_account_Inr)
  have "ledger_ok (set_account a' db)"
    using assms(1,4) by (auto simp: ledger_ok_def set_account_def dest: set_upd_by)
  then show ?thesis
    by (simp add: moves_def gap_steem_def gap_sbd_def gap_vests_def set_account_def sum_upd_by [OF d f])
qed

lemma modify_account_moves:
  assumes "ledger_ok db" "modify_account n f db = Inr db'"
    and "\<And>a a'. get_account n db = Inr a \<Longrightarrow> account_ok a \<Longrightarrow> f a = Inr a' \<Longrightarrow>
      acc_name a' = n \<and> account_ok a' \<and> account_steem a' = account_steem a + s \<and>
      account_sbd a' = account_sbd a + g \<and> account_vests a' = account_vests a + v"
  shows "moves db db' (- s) (- g) (- v)"
proof -
  obtain a a' where a: "get_account n db = Inr a" "f a = Inr a'" "db' = set_account a' db"
    using assms(2) by (auto simp: modify_account_def)
  have "account_ok a"
    using a(1) assms(1) by (auto simp: get_account_Inr ledger_ok_def dest: find_by_Some)
  note b = assms(3) [OF a(1) this a(2)]
  then show ?thesis
    using set_account_moves [OF assms(1) a(1), of a'] a(3) by (simp add: algebra_simps)
qed

section \<open>Balance functions\<close>

lemma ledger_ok_frame [simp]:
  "ledger_ok (db\<lparr>db_vops := vs\<rparr>) = ledger_ok db" "ledger_ok (db\<lparr>db_witnesses := ws\<rparr>) = ledger_ok db"
  "ledger_ok (db\<lparr>db_witness_votes := wv\<rparr>) = ledger_ok db" "ledger_ok (db\<lparr>db_next_id := nx\<rparr>) = ledger_ok db"
  by (simp_all add: ledger_ok_def)

lemma ledger_ok_dgp: "ledger_ok db \<Longrightarrow> dgp_ok p \<Longrightarrow> ledger_ok (db\<lparr>db_dgp := p\<rparr>)"
  by (simp add: ledger_ok_def)

lemma ledger_ok_dgp_ok: "ledger_ok db \<Longrightarrow> dgp_ok (db_dgp db)"
  by (simp add: ledger_ok_def)

lemma ledger_ok_account: "ledger_ok db \<Longrightarrow> get_account n db = Inr a \<Longrightarrow> account_ok a"
  by (auto simp: get_account_Inr ledger_ok_def dest: find_by_Some)

lemma gaps_frame [simp]:
  "gap_steem (db\<lparr>db_vops := vs\<rparr>) = gap_steem db" "gap_sbd (db\<lparr>db_vops := vs\<rparr>) = gap_sbd db"
  "gap_vests (db\<lparr>db_vops := vs\<rparr>) = gap_vests db"
  "gap_steem (db\<lparr>db_witnesses := ws\<rparr>) = gap_steem db" "gap_sbd (db\<lparr>db_witnesses := ws\<rparr>) = gap_sbd db"
  "gap_vests (db\<lparr>db_witnesses := ws\<rparr>) = gap_vests db"
  "gap_steem (db\<lparr>db_witness_votes := wv\<rparr>) = gap_steem db" "gap_sbd (db\<lparr>db_witness_votes := wv\<rparr>) = gap_sbd db"
  "gap_vests (db\<lparr>db_witness_votes := wv\<rparr>) = gap_vests db"
  "gap_steem (db\<lparr>db_next_id := nx\<rparr>) = gap_steem db" "gap_sbd (db\<lparr>db_next_id := nx\<rparr>) = gap_sbd db"
  "gap_vests (db\<lparr>db_next_id := nx\<rparr>) = gap_vests db"
  by (simp_all add: gap_steem_def gap_sbd_def gap_vests_def)

lemma push_vop_moves: "ledger_ok db \<Longrightarrow> moves db (push_virtual_operation op db) 0 0 0"
  by (simp add: moves_def push_virtual_operation_def)

lemma push_vop_accounts [simp]:
  "db_accounts (push_virtual_operation op db) = db_accounts db"
  "db_dgp (push_virtual_operation op db) = db_dgp db"
  "db_feed (push_virtual_operation op db) = db_feed db"
  by (simp_all add: push_virtual_operation_def)

lemma add_interest_supply_moves:
  assumes "fc_safe fc" "ledger_ok db" "symbol ip = SBD_SYMBOL" "add_interest_supply fc ip db = Inr db'"
  shows "moves db db' 0 (amount ip) 0 \<and> db_accounts db' = db_accounts db"
proof -
  obtain v where db': "db' = db\<lparr>db_dgp := (db_dgp db)\<lparr>
      dgp_current_sbd_supply := \<lparr>amount = amount (dgp_current_sbd_supply (db_dgp db)) + amount ip, symbol = SBD_SYMBOL\<rparr>,
      dgp_virtual_supply := v\<rparr>\<rparr>"
    using assms ledger_ok_dgp_ok [OF assms(2)]
    by (auto simp: add_interest_supply_def fc_simps Let_def dgp_ok_def)
  show ?thesis
    using ledger_ok_dgp_ok [OF assms(2)] assms(2) unfolding db'
    by (auto simp: moves_def gap_steem_def gap_sbd_def gap_vests_def dgp_ok_def intro!: ledger_ok_dgp)
qed

text \<open>What crediting interest does to an account: the GBG balance grows by \<open>i\<close>, nothing else counts.\<close>

definition credited :: "account_object \<Rightarrow> account_object \<Rightarrow> int \<Rightarrow> int \<Rightarrow> bool" where
  "credited a a' i j \<longleftrightarrow> acc_name a' = acc_name a \<and> acc_balance a' = acc_balance a \<and>
     acc_savings_balance a' = acc_savings_balance a \<and> acc_vesting_shares a' = acc_vesting_shares a \<and>
     amount (acc_sbd_balance a') = amount (acc_sbd_balance a) + i \<and>
     symbol (acc_sbd_balance a') = symbol (acc_sbd_balance a) \<and>
     amount (acc_savings_sbd_balance a') = amount (acc_savings_sbd_balance a) + j \<and>
     symbol (acc_savings_sbd_balance a') = symbol (acc_savings_sbd_balance a)"

lemma credited_account:
  "credited a a' i j \<Longrightarrow> account_ok a \<Longrightarrow>
   account_ok a' \<and> account_steem a' = account_steem a \<and> account_sbd a' = account_sbd a + i + j \<and>
   account_vests a' = account_vests a"
  by (simp add: credited_def account_ok_def account_steem_def account_sbd_def account_vests_def)

lemma accrue_sbd_interest_moves:
  assumes "fc_safe fc" "ledger_ok db" "account_ok a" "accrue_sbd_interest fc b a db = Inr (acnt, db')"
  shows "\<exists>i. moves db db' 0 i 0 \<and> db_accounts db' = db_accounts db \<and> credited a acnt i 0"
proof (cases "db' = db \<and> credited a acnt 0 0")
  case True
  then show ?thesis using moves_refl assms(2) by blast
next
  case False
  obtain i where i: "acc_name acnt = acc_name a" "acc_balance acnt = acc_balance a"
    "acc_savings_balance acnt = acc_savings_balance a" "acc_vesting_shares acnt = acc_vesting_shares a"
    "acc_savings_sbd_balance acnt = acc_savings_sbd_balance a"
    "acc_sbd_balance acnt = \<lparr>amount = amount (acc_sbd_balance a) + i, symbol = SBD_SYMBOL\<rparr>"
    "add_interest_supply fc \<lparr>amount = i, symbol = SBD_SYMBOL\<rparr>
       (push_virtual_operation (Interest (acc_name a) \<lparr>amount = i, symbol = SBD_SYMBOL\<rparr>) db) = Inr db'"
    using False assms
    by (auto simp: accrue_sbd_interest_def Let_def fc_simps credited_def account_ok_def split: if_splits)
  let ?db = "push_virtual_operation (Interest (acc_name a) \<lparr>amount = i, symbol = SBD_SYMBOL\<rparr>) db"
  have m: "moves db ?db 0 0 0" using assms(2) by (rule push_vop_moves)
  have "moves ?db db' 0 i 0 \<and> db_accounts db' = db_accounts ?db"
    using add_interest_supply_moves [OF assms(1) moves_ok [OF m] _ i(7)] by simp
  moreover have "credited a acnt i 0"
    using i assms(3) by (simp add: credited_def account_ok_def)
  ultimately show ?thesis using moves_trans [OF m, of db' 0 i 0] by auto
qed

lemma accrue_savings_interest_moves:
  assumes "fc_safe fc" "ledger_ok db" "account_ok a" "accrue_savings_interest fc a db = Inr (acnt, db')"
  shows "\<exists>i. moves db db' 0 i 0 \<and> db_accounts db' = db_accounts db \<and> credited a acnt 0 i"
proof (cases "db' = db \<and> credited a acnt 0 0")
  case True
  then show ?thesis using moves_refl assms(2) by blast
next
  case False
  obtain i where i: "acc_name acnt = acc_name a" "acc_balance acnt = acc_balance a"
    "acc_savings_balance acnt = acc_savings_balance a" "acc_vesting_shares acnt = acc_vesting_shares a"
    "acc_sbd_balance acnt = acc_sbd_balance a"
    "acc_savings_sbd_balance acnt = \<lparr>amount = amount (acc_savings_sbd_balance a) + i, symbol = SBD_SYMBOL\<rparr>"
    "add_interest_supply fc \<lparr>amount = i, symbol = SBD_SYMBOL\<rparr>
       (push_virtual_operation (Interest (acc_name a) \<lparr>amount = i, symbol = SBD_SYMBOL\<rparr>) db) = Inr db'"
    using False assms
    by (auto simp: accrue_savings_interest_def Let_def fc_simps credited_def account_ok_def split: if_splits)
  let ?db = "push_virtual_operation (Interest (acc_name a) \<lparr>amount = i, symbol = SBD_SYMBOL\<rparr>) db"
  have m: "moves db ?db 0 0 0" using assms(2) by (rule push_vop_moves)
  have "moves ?db db' 0 i 0 \<and> db_accounts db' = db_accounts ?db"
    using add_interest_supply_moves [OF assms(1) moves_ok [OF m] _ i(7)] by simp
  moreover have "credited a acnt 0 i"
    using i assms(3) by (simp add: credited_def account_ok_def)
  ultimately show ?thesis using moves_trans [OF m, of db' 0 i 0] by auto
qed

lemma get_account_cong: "db_accounts db' = db_accounts db \<Longrightarrow> get_account n db' = get_account n db"
  by (simp add: get_account_def find_account_def)

text \<open>Writing back an account to which interest and then \<open>delta\<close> were credited.\<close>

lemma credit_moves:
  assumes "get_account n db = Inr a" "account_ok a" "moves db db1 0 k 0" "db_accounts db1 = db_accounts db"
    "acc_name a' = n" "account_ok a'" "account_steem a' = account_steem a" "account_vests a' = account_vests a"
    "account_sbd a' = account_sbd a + k + d"
  shows "moves db (set_account a' db1) 0 (- d) 0"
proof -
  have "get_account n db1 = Inr a" using assms(1) get_account_cong [OF assms(4)] by simp
  from set_account_moves [OF moves_ok [OF assms(3)] this assms(5,6)]
  have "moves db1 (set_account a' db1) 0 (- k - d) 0" using assms(7-9) by simp
  from moves_trans [OF assms(3) this] show ?thesis by simp
qed

lemma adjust_sbd_balance_moves:
  assumes "fc_safe fc" "ledger_ok db" "symbol d = SBD_SYMBOL" "adjust_sbd_balance fc n d db = Inr db'"
  shows "moves db db' 0 (- amount d) 0"
proof -
  obtain b a acnt db1 bal where run: "get_account n db = Inr a" "accrue_sbd_interest fc b a db = Inr (acnt, db1)"
    "asset_add fc (acc_sbd_balance acnt) d = Inr bal" "db' = set_account (acnt\<lparr>acc_sbd_balance := bal\<rparr>) db1"
    using assms(4) by (auto simp: adjust_sbd_balance_def Let_def)
  have ok: "account_ok a" using ledger_ok_account assms(2) run(1) by blast
  obtain i where i: "moves db db1 0 i 0" "db_accounts db1 = db_accounts db" "credited a acnt i 0"
    using accrue_sbd_interest_moves [OF assms(1,2) ok run(2)] by blast
  have bal: "bal = \<lparr>amount = amount (acc_sbd_balance acnt) + amount d, symbol = SBD_SYMBOL\<rparr>"
    using run(3) assms(1,3) by (simp add: fc_simps)
  have "acc_name acnt = n" using i(3) get_account_name [OF run(1)] by (simp add: credited_def)
  moreover note credited_account [OF i(3) ok]
  ultimately show ?thesis
    unfolding run(4) bal
    by (intro credit_moves [OF run(1) ok i(1,2)])
      (simp_all add: account_ok_def account_steem_def account_sbd_def account_vests_def)
qed

lemma adjust_balance_moves:
  assumes "fc_safe fc" "ledger_ok db" "adjust_balance fc n d db = Inr db'"
  shows "moves db db' (- amt STEEM_SYMBOL d) (- amt SBD_SYMBOL d) 0 \<and> liquid d"
proof (cases "symbol d = STEEM_SYMBOL")
  case True
  have "moves db db' (- amount d) (- 0) (- 0)"
  proof (rule modify_account_moves [OF assms(2)])
    show "modify_account n (\<lambda>a. bindR (asset_add fc (acc_balance a) d) (\<lambda>b. Inr (a\<lparr>acc_balance := b\<rparr>))) db = Inr db'"
      using assms(3) True by (simp add: adjust_balance_def)
  next
    fix a a' assume "get_account n db = Inr a" "account_ok a"
      "bindR (asset_add fc (acc_balance a) d) (\<lambda>b. Inr (a\<lparr>acc_balance := b\<rparr>)) = Inr a'"
    then show "acc_name a' = n \<and> account_ok a' \<and> account_steem a' = account_steem a + amount d \<and>
        account_sbd a' = account_sbd a + 0 \<and> account_vests a' = account_vests a + 0"
      using assms(1) True get_account_name
      by (auto simp: fc_simps account_ok_def account_steem_def account_sbd_def account_vests_def)
  qed
  then show ?thesis using True by (simp add: amt_def liquid_def)
next
  case False
  then have "symbol d = SBD_SYMBOL" "adjust_sbd_balance fc n d db = Inr db'"
    using assms(3) by (auto simp: adjust_balance_def split: if_splits)
  then show ?thesis using adjust_sbd_balance_moves assms(1,2) by (simp add: amt_def liquid_def)
qed

lemma adjust_savings_balance_moves:
  assumes "fc_safe fc" "ledger_ok db" "adjust_savings_balance fc n d db = Inr db'"
  shows "moves db db' (- amt STEEM_SYMBOL d) (- amt SBD_SYMBOL d) 0 \<and> liquid d"
proof (cases "symbol d = STEEM_SYMBOL")
  case True
  have "moves db db' (- amount d) (- 0) (- 0)"
  proof (rule modify_account_moves [OF assms(2)])
    show "modify_account n (\<lambda>a. bindR (asset_add fc (acc_savings_balance a) d)
        (\<lambda>b. Inr (a\<lparr>acc_savings_balance := b\<rparr>))) db = Inr db'"
      using assms(3) True by (simp add: adjust_savings_balance_def)
  next
    fix a a' assume "get_account n db = Inr a" "account_ok a"
      "bindR (asset_add fc (acc_savings_balance a) d) (\<lambda>b. Inr (a\<lparr>acc_savings_balance := b\<rparr>)) = Inr a'"
    then show "acc_name a' = n \<and> account_ok a' \<and> account_steem a' = account_steem a + amount d \<and>
        account_sbd a' = account_sbd a + 0 \<and> account_vests a' = account_vests a + 0"
      using assms(1) True get_account_name
      by (auto simp: fc_simps account_ok_def account_steem_def account_sbd_def account_vests_def)
  qed
  then show ?thesis using True by (simp add: amt_def liquid_def)
next
  case False
  then obtain a acnt db1 bal where run: "symbol d = SBD_SYMBOL" "get_account n db = Inr a"
    "accrue_savings_interest fc a db = Inr (acnt, db1)"
    "asset_add fc (acc_savings_sbd_balance acnt) d = Inr bal"
    "db' = set_account (acnt\<lparr>acc_savings_sbd_balance := bal\<rparr>) db1"
    using assms(3) by (auto simp: adjust_savings_balance_def split: if_splits)
  have ok: "account_ok a" using ledger_ok_account assms(2) run(2) by blast
  obtain i where i: "moves db db1 0 i 0" "db_accounts db1 = db_accounts db" "credited a acnt 0 i"
    using accrue_savings_interest_moves [OF assms(1,2) ok run(3)] by blast
  have bal: "bal = \<lparr>amount = amount (acc_savings_sbd_balance acnt) + amount d, symbol = SBD_SYMBOL\<rparr>"
    using run(1,4) assms(1) by (simp add: fc_simps)
  have "acc_name acnt = n" using i(3) get_account_name [OF run(2)] by (simp add: credited_def)
  moreover note credited_account [OF i(3) ok]
  ultimately have "moves db db' 0 (- amount d) 0"
    unfolding run(5) bal
    by (intro credit_moves [OF run(2) ok i(1,2)])
      (simp_all add: account_ok_def account_steem_def account_sbd_def account_vests_def)
  then show ?thesis using run(1) by (simp add: amt_def liquid_def)
qed

lemma adjust_supply_moves:
  assumes "fc_safe fc" "ledger_ok db" "adjust_supply fc d av db = Inr db'"
  shows "moves db db' (amt STEEM_SYMBOL d) (amt SBD_SYMBOL d) 0"
proof (cases "symbol d = STEEM_SYMBOL")
  case True
  obtain nv virt where db': "db' = db\<lparr>db_dgp := (db_dgp db)\<lparr>
      dgp_current_supply := \<lparr>amount = amount (dgp_current_supply (db_dgp db)) + (amount d + nv), symbol = STEEM_SYMBOL\<rparr>,
      dgp_virtual_supply := virt,
      dgp_total_vesting_fund_steem :=
        \<lparr>amount = amount (dgp_total_vesting_fund_steem (db_dgp db)) + nv, symbol = STEEM_SYMBOL\<rparr>\<rparr>\<rparr>"
    using assms ledger_ok_dgp_ok [OF assms(2)] True
    by (auto simp: adjust_supply_def Let_def fc_simps dgp_ok_def)
  show ?thesis
    using ledger_ok_dgp_ok [OF assms(2)] assms(2) True unfolding db'
    by (auto simp: moves_def gap_steem_def gap_sbd_def gap_vests_def dgp_ok_def amt_def intro!: ledger_ok_dgp)
next
  case False
  obtain virt where "symbol d = SBD_SYMBOL" and db': "db' = db\<lparr>db_dgp := (db_dgp db)\<lparr>
      dgp_current_sbd_supply := \<lparr>amount = amount (dgp_current_sbd_supply (db_dgp db)) + amount d, symbol = SBD_SYMBOL\<rparr>,
      dgp_virtual_supply := virt\<rparr>\<rparr>"
    using assms ledger_ok_dgp_ok [OF assms(2)] False
    by (auto simp: adjust_supply_def Let_def fc_simps dgp_ok_def split: if_splits)
  then show ?thesis
    using ledger_ok_dgp_ok [OF assms(2)] assms(2) unfolding db'
    by (auto simp: moves_def gap_steem_def gap_sbd_def gap_vests_def dgp_ok_def amt_def intro!: ledger_ok_dgp)
qed

section \<open>Votes do not touch the ledger\<close>

lemma adjust_witness_vote_moves:
  "ledger_ok db \<Longrightarrow> adjust_witness_vote fc i delta db = Inr db' \<Longrightarrow> moves db db' 0 0 0"
  by (auto simp: adjust_witness_vote_def Let_def set_witness_def moves_def)

lemma foldR_moves:
  assumes "\<And>x db db'. x \<in> set xs \<Longrightarrow> ledger_ok db \<Longrightarrow> f x db = Inr db' \<Longrightarrow> moves db db' 0 0 0"
  shows "foldR f xs db = Inr db' \<Longrightarrow> ledger_ok db \<Longrightarrow> moves db db' 0 0 0"
  using assms
proof (induction xs arbitrary: db)
  case (Cons x xs)
  then obtain db1 where db1: "f x db = Inr db1" "foldR f xs db1 = Inr db'" by auto
  have "moves db db1 0 0 0" using Cons.prems(2) Cons.prems(3) [of x] db1(1) by simp
  moreover have "moves db1 db' 0 0 0"
    by (rule Cons.IH [OF db1(2) moves_ok [OF calculation]]) (rule Cons.prems(3), simp_all)
  ultimately show ?case using moves_trans by fastforce
qed (simp add: moves_refl)

lemma adjust_witness_votes_moves:
  "ledger_ok db \<Longrightarrow> adjust_witness_votes fc a delta db = Inr db' \<Longrightarrow> moves db db' 0 0 0"
  unfolding adjust_witness_votes_def using foldR_moves adjust_witness_vote_moves by metis

text \<open>A change of an account that leaves its tokens alone.\<close>

lemma modify_account_neutral:
  assumes "ledger_ok db" "modify_account n f db = Inr db'"
    and "\<And>a a'. f a = Inr a' \<Longrightarrow> credited a a' 0 0"
  shows "moves db db' 0 0 0"
proof -
  have "moves db db' (- 0) (- 0) (- 0)"
  proof (rule modify_account_moves [OF assms(1,2)])
    fix a a' assume "get_account n db = Inr a" "account_ok a" "f a = Inr a'"
    then show "acc_name a' = n \<and> account_ok a' \<and> account_steem a' = account_steem a + 0 \<and>
        account_sbd a' = account_sbd a + 0 \<and> account_vests a' = account_vests a + 0"
      using credited_account [of a a' 0 0] assms(3) [of a a'] get_account_name by (simp add: credited_def)
  qed
  then show ?thesis by simp
qed

lemma adjust_proxied_0:
  "adjust_proxied_witness_votes fc 0 n delta db = bindR (get_account n db) (\<lambda>a.
     if acc_proxy a \<noteq> STEEMIT_PROXY_TO_SELF_ACCOUNT then Inr db else adjust_witness_votes fc a delta db)"
  by (subst adjust_proxied_witness_votes.simps) (simp cong: if_cong)

lemma adjust_proxied_Suc:
  "\<exists>f. (\<forall>x y. f x = Inr y \<longrightarrow> credited x y 0 0) \<and>
   adjust_proxied_witness_votes fc (Suc levels) n delta db = bindR (get_account n db) (\<lambda>a.
     if acc_proxy a \<noteq> STEEMIT_PROXY_TO_SELF_ACCOUNT
     then bindR (modify_account (acc_proxy a) f db) (adjust_proxied_witness_votes fc levels (acc_proxy a) delta)
     else adjust_witness_votes fc a delta db)"
  by (rule exI [of _ "\<lambda>p. bindR (safe_add fc (acc_proxied_vsf_votes p ! (STEEMIT_MAX_PROXY_RECURSION_DEPTH - Suc levels)) delta)
      (\<lambda>v. Inr (p\<lparr>acc_proxied_vsf_votes :=
        (acc_proxied_vsf_votes p)[STEEMIT_MAX_PROXY_RECURSION_DEPTH - Suc levels := v]\<rparr>))"])
    (subst adjust_proxied_witness_votes.simps, auto simp: Let_def credited_def cong: if_cong)

lemma adjust_proxied_witness_votes_moves:
  "ledger_ok db \<Longrightarrow> adjust_proxied_witness_votes fc levels n delta db = Inr db' \<Longrightarrow> moves db db' 0 0 0"
proof (induction levels arbitrary: n db)
  case 0
  then show ?case
    using adjust_witness_votes_moves [of db fc _ delta db'] moves_refl
    by (auto simp: adjust_proxied_0 split: if_splits)
next
  case (Suc levels)
  obtain f where f: "\<And>x y. f x = Inr y \<Longrightarrow> credited x y 0 0"
    and eq: "adjust_proxied_witness_votes fc (Suc levels) n delta db = bindR (get_account n db) (\<lambda>a.
     if acc_proxy a \<noteq> STEEMIT_PROXY_TO_SELF_ACCOUNT
     then bindR (modify_account (acc_proxy a) f db) (adjust_proxied_witness_votes fc levels (acc_proxy a) delta)
     else adjust_witness_votes fc a delta db)"
    using adjust_proxied_Suc [of fc levels n delta db] by blast
  from Suc.prems(2) obtain a where a: "get_account n db = Inr a" by (auto simp: eq)
  show ?case
  proof (cases "acc_proxy a = STEEMIT_PROXY_TO_SELF_ACCOUNT")
    case True
    then show ?thesis using Suc.prems a adjust_witness_votes_moves by (auto simp: eq)
  next
    case False
    then obtain db1 where db1: "modify_account (acc_proxy a) f db = Inr db1"
      "adjust_proxied_witness_votes fc levels (acc_proxy a) delta db1 = Inr db'"
      using Suc.prems(2) a by (auto simp: eq)
    have m: "moves db db1 0 0 0" using modify_account_neutral [OF Suc.prems(1) db1(1) f] by blast
    from moves_trans [OF m Suc.IH [OF moves_ok [OF m] db1(2)]] show ?thesis by simp
  qed
qed

section \<open>Vesting\<close>

lemma create_vesting_moves:
  assumes "fc_safe fc" "ledger_ok db" "create_vesting fc n steem db = Inr (nv, db')"
  shows "moves db db' (- amount steem) 0 0 \<and> symbol steem = STEEM_SYMBOL"
proof -
  obtain db1 fund shares where run:
    "modify_account n (\<lambda>a. bindR (asset_add fc (acc_vesting_shares a) nv) (\<lambda>v.
       Inr (a\<lparr>acc_vesting_shares := v\<rparr>))) db = Inr db1"
    "asset_add fc (dgp_total_vesting_fund_steem (db_dgp db1)) steem = Inr fund"
    "asset_add fc (dgp_total_vesting_shares (db_dgp db1)) nv = Inr shares"
    "adjust_proxied_witness_votes fc STEEMIT_MAX_PROXY_RECURSION_DEPTH n (amount nv)
      (db1\<lparr>db_dgp := (db_dgp db1)\<lparr>dgp_total_vesting_fund_steem := fund, dgp_total_vesting_shares := shares\<rparr>\<rparr>) = Inr db'"
    using assms(3) by (auto simp: create_vesting_def Let_def)
  have "moves db db1 (- 0) (- 0) (- amount nv)"
  proof (rule modify_account_moves [OF assms(2) run(1)])
    fix a a' assume "get_account n db = Inr a" "account_ok a"
      "bindR (asset_add fc (acc_vesting_shares a) nv) (\<lambda>v. Inr (a\<lparr>acc_vesting_shares := v\<rparr>)) = Inr a'"
    then show "acc_name a' = n \<and> account_ok a' \<and> account_steem a' = account_steem a + 0 \<and>
        account_sbd a' = account_sbd a + 0 \<and> account_vests a' = account_vests a + amount nv"
      using assms(1) get_account_name
      by (auto simp: fc_simps account_ok_def account_steem_def account_sbd_def account_vests_def)
  qed
  then have m: "moves db db1 0 0 (- amount nv)" by simp
  note ok = moves_ok [OF m]
  let ?db = "db1\<lparr>db_dgp := (db_dgp db1)\<lparr>dgp_total_vesting_fund_steem := fund, dgp_total_vesting_shares := shares\<rparr>\<rparr>"
  have "moves db1 ?db (- amount steem) 0 (amount nv)" and st: "symbol steem = STEEM_SYMBOL"
    using run(2,3) ledger_ok_dgp_ok [OF ok] ok assms(1)
    by (auto simp: fc_simps moves_def gap_steem_def gap_sbd_def gap_vests_def dgp_ok_def intro!: ledger_ok_dgp)
  from moves_trans [OF m this(1)] have m2: "moves db ?db (- amount steem) 0 0" by simp
  from moves_trans [OF m2 adjust_proxied_witness_votes_moves [OF moves_ok [OF m2] run(4)]] st
  show ?thesis by simp
qed

end
