(* ===== verification/Escrow.thy ===== *)
theory Escrow
  imports Balance
begin

text \<open>
  Escrows: the four evaluators of \<^verbatim>\<open>steem_evaluator.cpp\<close> and the expiration of unratified escrows in
  \<^verbatim>\<open>database.cpp\<close>. An escrow is opened by \<^verbatim>\<open>escrow_transfer\<close>, waits for the approval of the receiver and
  of the agent, pays the agent's fee when both have approved, and is then paid out by releases.
\<close>

definition set_escrow :: "escrow_object \<Rightarrow> database \<Rightarrow> database" where
  "set_escrow e db = db\<lparr>db_escrows := upd_by esc_key e (db_escrows db)\<rparr>"

definition remove_escrow :: "escrow_object \<Rightarrow> database \<Rightarrow> database" where
  "remove_escrow e db = db\<lparr>db_escrows := del_by esc_key (esc_key e) (db_escrows db)\<rparr>"

definition escrow_transfer_evaluator ::
  "fc_lib \<Rightarrow> escrow_transfer_operation \<Rightarrow> database \<Rightarrow> database res" where
  "escrow_transfer_evaluator fc op db =
     bindR (get_account (est_from op) db) (\<lambda>from_account.
     bindR (get_account (est_to op) db) (\<lambda>_.
     bindR (get_account (est_agent op) db) (\<lambda>_.
     bindR (ensure (est_ratification_deadline op > head_block_time db) (Logic_error ''escrow_time_in_past'')) (\<lambda>_.
     bindR (ensure (est_escrow_expiration op > head_block_time db) (Logic_error ''escrow_time_in_past'')) (\<lambda>_.
     bindR (if symbol (est_fee op) = STEEM_SYMBOL
            then bindR (asset_add fc (est_steem_amount op) (est_fee op)) (\<lambda>s. Inr (s, est_sbd_amount op))
            else bindR (asset_add fc (est_sbd_amount op) (est_fee op)) (\<lambda>s. Inr (est_steem_amount op, s)))
       (\<lambda>(steem_spent, sbd_spent).
     bindR (check_balance fc from_account MAIN_BALANCE steem_spent) (\<lambda>_.
     bindR (check_balance fc from_account MAIN_BALANCE sbd_spent) (\<lambda>_.
     bindR (asset_neg fc steem_spent) (\<lambda>neg_steem.
     bindR (adjust_balance fc (est_from op) neg_steem db) (\<lambda>db.
     bindR (asset_neg fc sbd_spent) (\<lambda>neg_sbd.
     bindR (adjust_balance fc (est_from op) neg_sbd db) (\<lambda>db.
     bindR (create_in esc_key \<lparr>esc_id = db_next_id db escrow_object_type,
       esc_escrow_id = est_escrow_id op, esc_from = est_from op, esc_to = est_to op,
       esc_agent = est_agent op, esc_ratification_deadline = est_ratification_deadline op,
       esc_escrow_expiration = est_escrow_expiration op, esc_sbd_balance = est_sbd_amount op,
       esc_steem_balance = est_steem_amount op, esc_pending_fee = est_fee op,
       esc_to_approved = False, esc_agent_approved = False, esc_disputed = False\<rparr> (db_escrows db)) (\<lambda>es.
     Inr (bump_id escrow_object_type (db\<lparr>db_escrows := es\<rparr>)))))))))))))))"

text \<open>The approval of \<open>who\<close> noted in the escrow, unless it rejects.\<close>

definition note_approval :: "escrow_approve_operation \<Rightarrow> escrow_object \<Rightarrow> escrow_object res" where
  "note_approval op e =
     bindR (if esa_who op = esa_to op then
              bindR (ensure (\<not> esc_to_approved e) (Logic_error ''account_already_approved_escrow'')) (\<lambda>_.
              Inr (if esa_approve op then e\<lparr>esc_to_approved := True\<rparr> else e))
            else Inr e) (\<lambda>e.
     if esa_who op = esa_agent op then
       bindR (ensure (\<not> esc_agent_approved e) (Logic_error ''account_already_approved_escrow'')) (\<lambda>_.
       Inr (if esa_approve op then e\<lparr>esc_agent_approved := True\<rparr> else e))
     else Inr e)"

text \<open>The money goes back to the sender, the escrow is removed.\<close>

definition refund_escrow :: "fc_lib \<Rightarrow> escrow_object \<Rightarrow> database \<Rightarrow> database res" where
  "refund_escrow fc e db =
     bindR (get_account (esc_from e) db) (\<lambda>_.
     bindR (adjust_balance fc (esc_from e) (esc_steem_balance e) db) (\<lambda>db.
     bindR (adjust_balance fc (esc_from e) (esc_sbd_balance e) db) (\<lambda>db.
     bindR (adjust_balance fc (esc_from e) (esc_pending_fee e) db) (\<lambda>db.
     Inr (remove_escrow e db)))))"

definition escrow_approve_evaluator ::
  "fc_lib \<Rightarrow> escrow_approve_operation \<Rightarrow> database \<Rightarrow> database res" where
  "escrow_approve_evaluator fc op db =
     bindR (get_escrow (esa_from op) (esa_escrow_id op) db) (\<lambda>e.
     bindR (ensure (esc_to e = esa_to op) (Logic_error ''escrow_bad_to'')) (\<lambda>_.
     bindR (ensure (esc_agent e = esa_agent op) (Logic_error ''escrow_bad_agent'')) (\<lambda>_.
     bindR (ensure (esc_ratification_deadline e \<ge> head_block_time db)
       (Logic_error ''ratification_deadline_passed'')) (\<lambda>_.
     bindR (note_approval op e) (\<lambda>e.
     let db = set_escrow e db in
     if \<not> esa_approve op then refund_escrow fc e db
     else if esc_to_approved e \<and> esc_agent_approved e then
       bindR (get_account (esa_agent op) db) (\<lambda>_.
       bindR (adjust_balance fc (esa_agent op) (esc_pending_fee e) db) (\<lambda>db.
       Inr (set_escrow (e\<lparr>esc_pending_fee := (esc_pending_fee e)\<lparr>amount := 0\<rparr>\<rparr>) db)))
     else Inr db)))))"

definition escrow_dispute_evaluator :: "escrow_dispute_operation \<Rightarrow> database \<Rightarrow> database res" where
  "escrow_dispute_evaluator op db =
     bindR (get_account (esd_from op) db) (\<lambda>_.
     bindR (get_escrow (esd_from op) (esd_escrow_id op) db) (\<lambda>e.
     bindR (ensure (head_block_time db < esc_escrow_expiration e)
       (Logic_error ''cannot_dispute_expired_escrow'')) (\<lambda>_.
     bindR (ensure (esc_to_approved e \<and> esc_agent_approved e)
       (Logic_error ''escrow_must_be_approved_first'')) (\<lambda>_.
     bindR (ensure (\<not> esc_disputed e) (Logic_error ''escrow_already_disputed'')) (\<lambda>_.
     bindR (ensure (esc_to e = esd_to op) (Logic_error ''escrow_bad_to'')) (\<lambda>_.
     bindR (ensure (esc_agent e = esd_agent op) (Logic_error ''escrow_bad_agent'')) (\<lambda>_.
     Inr (set_escrow (e\<lparr>esc_disputed := True\<rparr>) db))))))))"

text \<open>Who may release an approved escrow to whom.\<close>

definition check_release_rights ::
  "escrow_release_operation \<Rightarrow> escrow_object \<Rightarrow> time_point_sec \<Rightarrow> unit res" where
  "check_release_rights op e now =
     (if esc_disputed e then
        ensure (esr_who op = esc_agent e) (Logic_error ''only_agent_can_release_disputed'')
      else
        bindR (ensure (esr_who op = esc_from e \<or> esr_who op = esc_to e)
          (Logic_error ''only_from_to_can_release_non_disputed'')) (\<lambda>_.
        if esc_escrow_expiration e > now then
          if esr_who op = esc_from e then
            ensure (esr_receiver op = esc_to e) (Logic_error ''from_can_release_only_to_to'')
          else if esr_who op = esc_to e then
            ensure (esr_receiver op = esc_from e) (Logic_error ''to_can_release_only_to_from'')
          else Inr ()
        else Inr ()))"

definition escrow_release_evaluator ::
  "fc_lib \<Rightarrow> escrow_release_operation \<Rightarrow> database \<Rightarrow> database res" where
  "escrow_release_evaluator fc op db =
     bindR (get_account (esr_from op) db) (\<lambda>_.
     bindR (get_account (esr_receiver op) db) (\<lambda>_.
     bindR (get_escrow (esr_from op) (esr_escrow_id op) db) (\<lambda>e.
     bindR (asset_ge (esc_steem_balance e) (esr_steem_amount op)) (\<lambda>ge.
     bindR (ensure ge (Logic_error ''release_amount_exceeds_escrow_balance'')) (\<lambda>_.
     bindR (asset_ge (esc_sbd_balance e) (esr_sbd_amount op)) (\<lambda>ge.
     bindR (ensure ge (Logic_error ''release_amount_exceeds_escrow_balance'')) (\<lambda>_.
     bindR (ensure (esc_to e = esr_to op) (Logic_error ''escrow_bad_to'')) (\<lambda>_.
     bindR (ensure (esc_agent e = esr_agent op) (Logic_error ''escrow_bad_agent'')) (\<lambda>_.
     bindR (ensure (esr_receiver op = esc_from e \<or> esr_receiver op = esc_to e)
       (Logic_error ''escrow_bad_receiver'')) (\<lambda>_.
     bindR (ensure (esc_to_approved e \<and> esc_agent_approved e)
       (Logic_error ''escrow_must_be_approved_first'')) (\<lambda>_.
     bindR (check_release_rights op e (head_block_time db)) (\<lambda>_.
     bindR (adjust_balance fc (esr_receiver op) (esr_steem_amount op) db) (\<lambda>db.
     bindR (adjust_balance fc (esr_receiver op) (esr_sbd_amount op) db) (\<lambda>db.
     bindR (asset_sub fc (esc_steem_balance e) (esr_steem_amount op)) (\<lambda>steem_left.
     bindR (asset_sub fc (esc_sbd_balance e) (esr_sbd_amount op)) (\<lambda>sbd_left.
     let e = e\<lparr>esc_steem_balance := steem_left, esc_sbd_balance := sbd_left\<rparr>;
         db = set_escrow e db
     in Inr (if amount (esc_steem_balance e) = 0 \<and> amount (esc_sbd_balance e) = 0
             then remove_escrow e db else db)))))))))))))))))"

text \<open>
  The loop walks the unapproved escrows in the order of their ratification deadlines and refunds
  those whose deadline has come; a refund removes its own escrow and no other.
\<close>

definition expired_escrows :: "database \<Rightarrow> escrow_object list" where
  "expired_escrows db =
     sort_by (\<lambda>a b. esc_ratification_deadline a < esc_ratification_deadline b \<or>
         esc_ratification_deadline a = esc_ratification_deadline b \<and> esc_id a < esc_id b)
       (filter (\<lambda>e. \<not> esc_is_approved e \<and> esc_ratification_deadline e \<le> head_block_time db) (db_escrows db))"

definition expire_escrow_ratification :: "fc_lib \<Rightarrow> database \<Rightarrow> database res" where
  "expire_escrow_ratification fc db = foldR (refund_escrow fc) (expired_escrows db) db"

end
