(* ===== verification/Market.thy ===== *)
theory Market
  imports Balance Operation_Validate
begin

text \<open>
  The internal market: the order functions of \<^verbatim>\<open>database.cpp\<close> (\<^verbatim>\<open>apply_order\<close>, \<^verbatim>\<open>match\<close>,
  \<^verbatim>\<open>adjust_liquidity_reward\<close>, \<^verbatim>\<open>fill_order\<close>, \<^verbatim>\<open>cancel_order\<close>, \<^verbatim>\<open>clear_expired_orders\<close>) and the order
  evaluators of \<^verbatim>\<open>steem_evaluator.cpp\<close>. A reference to an order is its unique key (seller and order
  id). The C \<^verbatim>\<open>assert\<close>s of \<^verbatim>\<open>match\<close> are not part of a release build and are not modelled.
\<close>

section \<open>Orders in the database\<close>

definition get_order :: "account_name_type \<times> nat \<Rightarrow> database \<Rightarrow> limit_order_object res" where
  "get_order k db = of_option (Missing_object ''limit_order'') (find_by ord_key k (db_orders db))"

definition set_order :: "limit_order_object \<Rightarrow> database \<Rightarrow> database" where
  "set_order o' db = db\<lparr>db_orders := upd_by ord_key o' (db_orders db)\<rparr>"

definition remove_order :: "limit_order_object \<Rightarrow> database \<Rightarrow> database" where
  "remove_order o' db = db\<lparr>db_orders := del_by ord_key (ord_key o') (db_orders db)\<rparr>"

definition cancel_order :: "fc_lib \<Rightarrow> limit_order_object \<Rightarrow> database \<Rightarrow> database res" where
  "cancel_order fc o' db =
     bindR (adjust_balance fc (ord_seller o') (amount_for_sale o') db) (\<lambda>db. Inr (remove_order o' db))"

text \<open>The result says whether the order is gone.\<close>

definition fill_order ::
  "fc_lib \<Rightarrow> account_name_type \<times> nat \<Rightarrow> asset \<Rightarrow> asset \<Rightarrow> database \<Rightarrow> (bool \<times> database) res" where
  "fill_order fc k pays receives db =
     bindR (get_order k db) (\<lambda>o'.
     bindR (ensure (symbol (amount_for_sale o') = symbol pays) (Fc_assert ''amount_for_sale symbol'')) (\<lambda>_.
     bindR (ensure (symbol pays \<noteq> symbol receives) (Fc_assert ''pays.symbol != receives.symbol'')) (\<lambda>_.
     bindR (adjust_balance fc (ord_seller o') receives db) (\<lambda>db.
     bindR (asset_eq pays (amount_for_sale o')) (\<lambda>all_sold.
     if all_sold then Inr (True, remove_order o' db)
     else
       bindR (safe_sub fc (ord_for_sale o') (amount pays)) (\<lambda>left.
       let b = o'\<lparr>ord_for_sale := left\<rparr>; db = set_order b db in
       bindR (amount_to_receive fc b) (\<lambda>r.
       if amount r = 0 then bindR (cancel_order fc b db) (\<lambda>db. Inr (True, db))
       else Inr (False, db))))))))"

section \<open>Liquidity rewards\<close>

definition STEEMIT_LIQUIDITY_TIMEOUT_SEC :: int where
  "STEEMIT_LIQUIDITY_TIMEOUT_SEC = 60 * 60 * 24 * 7"

definition STEEMIT_MIN_LIQUIDITY_REWARD_PERIOD_SEC :: int where
  "STEEMIT_MIN_LIQUIDITY_REWARD_PERIOD_SEC = 60"

definition STEEMIT_MIN_LIQUIDITY_REWARD_PERIOD_SEC_HF10 :: int where
  "STEEMIT_MIN_LIQUIDITY_REWARD_PERIOD_SEC_HF10 = 60 * 30"

definition adjust_liquidity_reward ::
  "fc_lib \<Rightarrow> account_name_type \<Rightarrow> asset \<Rightarrow> bool \<Rightarrow> database \<Rightarrow> database res" where
  "adjust_liquidity_reward fc n volume is_sdb db =
     bindR (get_account n db) (\<lambda>owner.
     case find_by lrb_owner (acc_id owner) (db_liquidity db) of
       Some r \<Rightarrow>
         let r = (if head_block_time db - lrb_last_update r \<ge> STEEMIT_LIQUIDITY_TIMEOUT_SEC
                  then r\<lparr>lrb_sbd_volume := 0, lrb_steem_volume := 0, lrb_weight := 0\<rparr> else r);
             r = (if is_sdb then r\<lparr>lrb_sbd_volume := i64_wrap (lrb_sbd_volume r + amount volume)\<rparr>
                  else r\<lparr>lrb_steem_volume := i64_wrap (lrb_steem_volume r + amount volume)\<rparr>);
             r = (lrb_update_weight fc (has_hardfork 10 db) r)\<lparr>lrb_last_update := head_block_time db\<rparr>
         in Inr (db\<lparr>db_liquidity := upd_by lrb_owner r (db_liquidity db)\<rparr>)
     | None \<Rightarrow>
         let r = \<lparr>lrb_id = db_next_id db liquidity_reward_balance_object_type, lrb_owner = acc_id owner,
                  lrb_steem_volume = (if is_sdb then 0 else amount volume),
                  lrb_sbd_volume = (if is_sdb then amount volume else 0), lrb_weight = 0, lrb_last_update = 0\<rparr>;
             r = (lrb_update_weight fc (has_hardfork 9 db) r)\<lparr>lrb_last_update := head_block_time db\<rparr>
         in bindR (create_in lrb_owner r (db_liquidity db)) (\<lambda>rs.
            Inr (bump_id liquidity_reward_balance_object_type (db\<lparr>db_liquidity := rs\<rparr>))))"

definition reward_liquidity ::
  "fc_lib \<Rightarrow> limit_order_object \<Rightarrow> limit_order_object \<Rightarrow> asset \<Rightarrow> asset \<Rightarrow> database \<Rightarrow> database res" where
  "reward_liquidity fc new_order old_order new_order_receives old_order_receives db =
     (let age = head_block_time db - ord_created old_order in
      if \<not> has_hardfork 12 db \<and>
         ((age \<ge> STEEMIT_MIN_LIQUIDITY_REWARD_PERIOD_SEC \<and> \<not> has_hardfork 10 db) \<or>
          (age \<ge> STEEMIT_MIN_LIQUIDITY_REWARD_PERIOD_SEC_HF10 \<and> has_hardfork 10 db))
      then
        if symbol old_order_receives = STEEM_SYMBOL then
          bindR (adjust_liquidity_reward fc (ord_seller old_order) old_order_receives False db) (\<lambda>db.
          bindR (asset_neg fc old_order_receives) (\<lambda>neg.
          adjust_liquidity_reward fc (ord_seller new_order) neg False db))
        else
          bindR (adjust_liquidity_reward fc (ord_seller old_order) new_order_receives True db) (\<lambda>db.
          bindR (asset_neg fc new_order_receives) (\<lambda>neg.
          adjust_liquidity_reward fc (ord_seller new_order) neg True db))
      else Inr db)"

section \<open>Matching\<close>

text \<open>What the two orders receive: the pair is (new order receives, old order receives).\<close>

definition match_amounts :: "fc_lib \<Rightarrow> asset \<Rightarrow> asset \<Rightarrow> price \<Rightarrow> (asset \<times> asset) res" where
  "match_amounts fc new_order_for_sale old_order_for_sale match_price =
     bindR (asset_mul_price fc old_order_for_sale match_price) (\<lambda>old_worth.
     bindR (asset_le new_order_for_sale old_worth) (\<lambda>le.
     if le then
       bindR (asset_mul_price fc new_order_for_sale match_price) (\<lambda>r. Inr (r, new_order_for_sale))
     else
       bindR (asset_mul_price fc old_order_for_sale match_price) (\<lambda>r. Inr (old_order_for_sale, r))))"

text \<open>
  \<^verbatim>\<open>match\<close> returns two bits, whether the new order and whether the old order was filled; they are a
  pair of truth values here.
\<close>

definition match_orders ::
  "fc_lib \<Rightarrow> account_name_type \<times> nat \<Rightarrow> account_name_type \<times> nat \<Rightarrow> price \<Rightarrow> database \<Rightarrow>
   ((bool \<times> bool) \<times> database) res" where
  "match_orders fc new_key old_key match_price db =
     bindR (get_order new_key db) (\<lambda>new_order.
     bindR (get_order old_key db) (\<lambda>old_order.
     bindR (match_amounts fc (amount_for_sale new_order) (amount_for_sale old_order) match_price)
       (\<lambda>(new_order_receives, old_order_receives).
     let old_order_pays = new_order_receives; new_order_pays = old_order_receives in
     bindR (reward_liquidity fc new_order old_order new_order_receives old_order_receives db) (\<lambda>db.
     let db = push_virtual_operation (Fill_order (ord_seller new_order) (ord_orderid new_order) new_order_pays
                (ord_seller old_order) (ord_orderid old_order) old_order_pays) db in
     bindR (fill_order fc new_key new_order_pays new_order_receives db) (\<lambda>(new_filled, db).
     bindR (fill_order fc old_key old_order_pays old_order_receives db) (\<lambda>(old_filled, db).
     Inr ((new_filled, old_filled), db)))))))"

text \<open>
  The index \<^verbatim>\<open>by_price\<close> orders by descending price, then by id. The opposite orders are those from
  \<^verbatim>\<open>lower_bound(max_price.max())\<close> up to \<^verbatim>\<open>upper_bound(max_price)\<close>.
\<close>

definition order_before :: "fc_lib \<Rightarrow> limit_order_object \<Rightarrow> limit_order_object \<Rightarrow> bool" where
  "order_before fc a b \<longleftrightarrow> price_gt fc (ord_sell_price a) (ord_sell_price b) \<or>
     \<not> price_gt fc (ord_sell_price b) (ord_sell_price a) \<and> ord_id a < ord_id b"

definition opposite_orders :: "fc_lib \<Rightarrow> price \<Rightarrow> database \<Rightarrow> limit_order_object list res" where
  "opposite_orders fc sell_price db =
     (let max_price = price_inv sell_price in
      bindR (price_max (symbol (base max_price)) (symbol (quote max_price))) (\<lambda>first.
      Inr (takeWhile (\<lambda>o'. \<not> price_gt fc max_price (ord_sell_price o'))
            (dropWhile (\<lambda>o'. price_gt fc (ord_sell_price o') first)
              (sort_by (order_before fc) (db_orders db))))))"

text \<open>The loop goes on while only old orders were filled.\<close>

fun match_loop ::
  "fc_lib \<Rightarrow> account_name_type \<times> nat \<Rightarrow> limit_order_object list \<Rightarrow> database \<Rightarrow> database res" where
  "match_loop fc new_key [] db = Inr db"
| "match_loop fc new_key (old # rest) db =
     bindR (match_orders fc new_key (ord_key old) (ord_sell_price old) db) (\<lambda>((new_filled, _), db).
     if new_filled then Inr db else match_loop fc new_key rest db)"

definition apply_order :: "fc_lib \<Rightarrow> account_name_type \<times> nat \<Rightarrow> database \<Rightarrow> (bool \<times> database) res" where
  "apply_order fc new_key db =
     bindR (get_order new_key db) (\<lambda>new_order.
     bindR (opposite_orders fc (ord_sell_price new_order) db) (\<lambda>olds.
     bindR (match_loop fc new_key olds db) (\<lambda>db.
     Inr (find_by ord_key new_key (db_orders db) = None, db))))"

section \<open>Evaluators and expiration\<close>

definition create_order ::
  "fc_lib \<Rightarrow> account_name_type \<Rightarrow> nat \<Rightarrow> asset \<Rightarrow> price res \<Rightarrow> bool \<Rightarrow> time_point_sec \<Rightarrow> database \<Rightarrow> database res" where
  "create_order fc owner orderid amount_to_sell sell_price fill_or_kill expiration db =
     bindR (check_param ''expiration'' (ensure (expiration > head_block_time db)
       (Invalid_value ''Limit order has to expire after head block time.''))) (\<lambda>_.
     bindR (get_account owner db) (\<lambda>a.
     bindR (check_balance fc a MAIN_BALANCE amount_to_sell) (\<lambda>_.
     bindR (asset_neg fc amount_to_sell) (\<lambda>neg.
     bindR (adjust_balance fc owner neg db) (\<lambda>db.
     bindR (throw_if_exists_limit_order owner orderid db) (\<lambda>_.
     bindR sell_price (\<lambda>sp.
     bindR (create_in ord_key \<lparr>ord_id = db_next_id db limit_order_object_type,
       ord_created = head_block_time db, ord_expiration = expiration, ord_seller = owner,
       ord_orderid = orderid, ord_for_sale = amount amount_to_sell, ord_sell_price = sp\<rparr> (db_orders db)) (\<lambda>os.
     bindR (apply_order fc (owner, orderid)
       (bump_id limit_order_object_type (db\<lparr>db_orders := os\<rparr>))) (\<lambda>(filled, db).
     if fill_or_kill \<longrightarrow> filled then Inr db
     else Inl (Logic_error ''cancelling_not_filled_order''))))))))))"

definition limit_order_create_evaluator ::
  "fc_lib \<Rightarrow> limit_order_create_operation \<Rightarrow> database \<Rightarrow> database res" where
  "limit_order_create_evaluator fc op db =
     create_order fc (loc_owner op) (loc_orderid op) (loc_amount_to_sell op) (limit_order_create_get_price op)
       (loc_fill_or_kill op) (loc_expiration op) db"

definition limit_order_create2_evaluator ::
  "fc_lib \<Rightarrow> limit_order_create2_operation \<Rightarrow> database \<Rightarrow> database res" where
  "limit_order_create2_evaluator fc op db =
     create_order fc (loc2_owner op) (loc2_orderid op) (loc2_amount_to_sell op) (Inr (loc2_exchange_rate op))
       (loc2_fill_or_kill op) (loc2_expiration op) db"

definition limit_order_cancel_evaluator ::
  "fc_lib \<Rightarrow> limit_order_cancel_operation \<Rightarrow> database \<Rightarrow> database res" where
  "limit_order_cancel_evaluator fc op db =
     bindR (get_limit_order (lca_owner op) (lca_orderid op) db) (\<lambda>o'. cancel_order fc o' db)"

text \<open>
  The loop cancels the first order of the index \<^verbatim>\<open>by_expiration\<close> until that one has not expired;
  a cancellation removes its own order and no other.
\<close>

definition expired_orders :: "database \<Rightarrow> limit_order_object list" where
  "expired_orders db =
     sort_by (\<lambda>a b. ord_expiration a < ord_expiration b \<or>
         ord_expiration a = ord_expiration b \<and> ord_id a < ord_id b)
       (filter (\<lambda>o'. ord_expiration o' < head_block_time db) (db_orders db))"

definition clear_expired_orders :: "fc_lib \<Rightarrow> database \<Rightarrow> database res" where
  "clear_expired_orders fc db = foldR (cancel_order fc) (expired_orders db) db"

end
