(* ===== verification/Delegation.thy ===== *)
theory Delegation
  imports Balance Operation_Validate
begin

text \<open>
  Delegation of vesting shares: \<^verbatim>\<open>delegate_vesting_shares\<close> (shared by the plain evaluator and the one
  with interest), the rejection by the delegatee, and the return of expired delegations in
  \<^verbatim>\<open>database.cpp\<close>.
\<close>

definition STEEMIT_CASHOUT_WINDOW_SECONDS :: int where
  "STEEMIT_CASHOUT_WINDOW_SECONDS = 60 * 60 * 24 * 7"

definition STEEMIT_VOTE_REGENERATION_SECONDS :: int where
  "STEEMIT_VOTE_REGENERATION_SECONDS = 5 * 60 * 60 * 24"

definition vdo_key :: "vesting_delegation_object \<Rightarrow> account_name_type \<times> account_name_type" where
  "vdo_key d = (vdo_delegator d, vdo_delegatee d)"

definition find_delegation ::
  "account_name_type \<Rightarrow> account_name_type \<Rightarrow> database \<Rightarrow> vesting_delegation_object option" where
  "find_delegation delegator delegatee db = find_by vdo_key (delegator, delegatee) (db_delegations db)"

definition create_delegation_expiration ::
  "account_name_type \<Rightarrow> asset \<Rightarrow> vesting_delegation_object \<Rightarrow> database \<Rightarrow> database" where
  "create_delegation_expiration delegator shares d db =
     bump_id vesting_delegation_expiration_object_type (db\<lparr>db_delegation_expirations :=
       db_delegation_expirations db @ [\<lparr>vde_id = db_next_id db vesting_delegation_expiration_object_type,
         vde_delegator = delegator, vde_vesting_shares = shares,
         vde_expiration = max (time_plus (head_block_time db) STEEMIT_CASHOUT_WINDOW_SECONDS)
           (vdo_min_delegation_time d)\<rparr>]\<rparr>)"

text \<open>The vesting shares an account may have delegated, given its current voting power.\<close>

definition max_delegated :: "fc_lib \<Rightarrow> account_object \<Rightarrow> time_point_sec \<Rightarrow> asset res" where
  "max_delegated fc delegator now =
     (let elapsed_seconds = now - acc_last_vote_time delegator;
          regenerated_power = cdiv (int STEEMIT_100_PERCENT * elapsed_seconds) STEEMIT_VOTE_REGENERATION_SECONDS;
          current_power = min (int (acc_voting_power delegator) + regenerated_power) (int STEEMIT_100_PERCENT)
      in bindR (u128_div fc
           (u128_mul fc (u128_of fc (amount (acc_vesting_shares delegator))) (u128_of fc current_power))
           (u128_of fc (int STEEMIT_100_PERCENT))) (\<lambda>q.
         bindR (u128_to_uint64 fc q) (\<lambda>m. Inr \<lparr>amount = safe_of_u64 fc m, symbol = VESTS_SYMBOL\<rparr>)))"

text \<open>The two \<^verbatim>\<open>modify\<close> calls on the delegator and on the delegatee.\<close>

definition add_delegated :: "fc_lib \<Rightarrow> asset \<Rightarrow> account_object \<Rightarrow> account_object res" where
  "add_delegated fc delta a =
     bindR (asset_add fc (acc_delegated_vesting_shares a) delta) (\<lambda>x. Inr (a\<lparr>acc_delegated_vesting_shares := x\<rparr>))"

definition add_received :: "fc_lib \<Rightarrow> asset \<Rightarrow> account_object \<Rightarrow> account_object res" where
  "add_received fc delta a =
     bindR (asset_add fc (acc_received_vesting_shares a) delta) (\<lambda>x. Inr (a\<lparr>acc_received_vesting_shares := x\<rparr>))"

text \<open>
  \<open>create_vdo\<close> and \<open>validate_with_vdo\<close> are the two callbacks of the template. A decrease without a
  delegation dereferences a null pointer in the code; it is an error here.
\<close>

definition delegate_vesting_shares ::
  "fc_lib \<Rightarrow> account_name_type \<Rightarrow> account_name_type \<Rightarrow> asset \<Rightarrow>
   (vesting_delegation_object \<Rightarrow> vesting_delegation_object) \<Rightarrow> (vesting_delegation_object \<Rightarrow> unit res) \<Rightarrow>
   database \<Rightarrow> database res" where
  "delegate_vesting_shares fc delegator_name delegatee_name vesting_shares create_vdo validate_with_vdo db =
     bindR (get_account delegator_name db) (\<lambda>delegator.
     bindR (get_account delegatee_name db) (\<lambda>delegatee.
     let delegation = find_delegation delegator_name delegatee_name db in
     bindR (case delegation of None \<Rightarrow> Inr () | Some d \<Rightarrow> validate_with_vdo d) (\<lambda>_.
     let v_share_price = get_vesting_share_price (db_dgp db); median_props = wso_median_props (db_schedule db) in
     bindR (asset_mul_price fc (min_delegation median_props) v_share_price) (\<lambda>min_deleg.
     bindR (asset_mul_price fc (create_account_min_golos_fee median_props) v_share_price) (\<lambda>min_update.
     let now = head_block_time db in
     bindR (case delegation of None \<Rightarrow> Inr vesting_shares
            | Some d \<Rightarrow> asset_sub fc vesting_shares (vdo_vesting_shares d)) (\<lambda>delta.
     let increasing = amount delta > 0 in
     bindR (check_param ''vesting_shares'' (
              bindR (if increasing then Inr delta else asset_neg fc delta) (\<lambda>d.
              bindR (asset_ge d min_update) (\<lambda>ge.
              ensure ge (Logic_error ''delegation_difference_too_low''))))) (\<lambda>_.
     bindR (
       if increasing then
         let delegated = acc_delegated_vesting_shares delegator in
         bindR (check_balance fc delegator AVAILABLE_VESTING delta) (\<lambda>_.
         bindR (max_delegated fc delegator now) (\<lambda>max_allowed.
         bindR (asset_add fc delegated delta) (\<lambda>new_delegated.
         bindR (asset_le new_delegated max_allowed) (\<lambda>le.
         bindR (ensure le (Logic_error ''delegation_limited_by_voting_power'')) (\<lambda>_.
         bindR (case delegation of
                  Some _ \<Rightarrow> Inr db
                | None \<Rightarrow>
                    bindR (check_param ''vesting_shares'' (bindR (asset_ge vesting_shares min_deleg) (\<lambda>ge.
                      ensure ge (Logic_error ''cannot_delegate_below_minimum'')))) (\<lambda>_.
                    bindR (create_in vdo_key (create_vdo \<lparr>vdo_id = db_next_id db vesting_delegation_object_type,
                      vdo_delegator = delegator_name, vdo_delegatee = delegatee_name,
                      vdo_vesting_shares = vesting_shares, vdo_interest_rate = 0,
                      vdo_payout_strategy = to_delegator, vdo_min_delegation_time = now\<rparr>)
                      (db_delegations db)) (\<lambda>ds.
                    Inr (bump_id vesting_delegation_object_type (db\<lparr>db_delegations := ds\<rparr>))))) (\<lambda>db.
         modify_account delegator_name (add_delegated fc delta) db))))))
       else
         bindR (check_param ''vesting_shares'' (
           if amount vesting_shares = 0 then Inr ()
           else bindR (asset_ge vesting_shares min_deleg) (\<lambda>ge.
             ensure ge (Logic_error ''cannot_delegate_below_minimum'')))) (\<lambda>_.
         bindR (asset_neg fc delta) (\<lambda>neg.
         case delegation of
           None \<Rightarrow> Inl (Internal_error ''null delegation'')
         | Some d \<Rightarrow> Inr (create_delegation_expiration delegator_name neg d db)))) (\<lambda>db.
     bindR (modify_account delegatee_name (add_received fc delta) db) (\<lambda>db.
     case delegation of
       None \<Rightarrow> Inr db
     | Some d \<Rightarrow>
         if amount vesting_shares > 0
         then Inr (db\<lparr>db_delegations := upd_by vdo_key (d\<lparr>vdo_vesting_shares := vesting_shares\<rparr>) (db_delegations db)\<rparr>)
         else Inr (db\<lparr>db_delegations := del_by vdo_key (vdo_key d) (db_delegations db)\<rparr>))))))))))"

definition delegate_vesting_shares_evaluator ::
  "fc_lib \<Rightarrow> delegate_vesting_shares_operation \<Rightarrow> database \<Rightarrow> database res" where
  "delegate_vesting_shares_evaluator fc op db =
     delegate_vesting_shares fc (dvs_delegator op) (dvs_delegatee op) (dvs_vesting_shares op)
       (\<lambda>o'. o') (\<lambda>_. Inr ()) db"

definition delegate_vesting_shares_with_interest_evaluator ::
  "fc_lib \<Rightarrow> delegate_vesting_shares_with_interest_operation \<Rightarrow> database \<Rightarrow> database res" where
  "delegate_vesting_shares_with_interest_evaluator fc op db =
     bindR (ensure (has_hardfork 19 db)
       (Unsupported_operation ''delegate_vesting_shares_with_interest_operation'')) (\<lambda>_.
     bindR (check_param ''op.interest_rate'' (ensure
       (dvi_interest_rate op \<le> max_delegated_vesting_interest_rate (wso_median_props (db_schedule db)))
       (Limit_too_large ''op.interest_rate''))) (\<lambda>_.
     delegate_vesting_shares fc (dvi_delegator op) (dvi_delegatee op) (dvi_vesting_shares op)
       (\<lambda>o'. o'\<lparr>vdo_interest_rate := dvi_interest_rate op, vdo_payout_strategy := dvi_payout_strategy op\<rparr>)
       (\<lambda>o'. seqR
         [ensure (vdo_interest_rate o' = dvi_interest_rate op) (Logic_error ''cannot_change_delegator_interest_rate''),
          ensure (vdo_payout_strategy o' = dvi_payout_strategy op)
            (Logic_error ''cannot_change_delegator_payout_strategy'')]) db))"

definition reject_vesting_shares_delegation_evaluator ::
  "fc_lib \<Rightarrow> reject_vesting_shares_delegation_operation \<Rightarrow> database \<Rightarrow> database res" where
  "reject_vesting_shares_delegation_evaluator fc op db =
     bindR (ensure (has_hardfork 19 db) (Unsupported_operation ''reject_vesting_shares_delegation_operation'')) (\<lambda>_.
     bindR (get_account (rvd_delegatee op) db) (\<lambda>_.
     bindR (of_option (Missing_object ''vesting_delegation_object'')
       (find_delegation (rvd_delegator op) (rvd_delegatee op) db)) (\<lambda>d.
     bindR (modify_account (rvd_delegatee op) (\<lambda>a.
       bindR (asset_sub fc (acc_received_vesting_shares a) (vdo_vesting_shares d)) (\<lambda>x.
       Inr (a\<lparr>acc_received_vesting_shares := x\<rparr>))) db) (\<lambda>db.
     let db = create_delegation_expiration (rvd_delegator op) (vdo_vesting_shares d) d db in
     Inr (db\<lparr>db_delegations := del_by vdo_key (vdo_key d) (db_delegations db)\<rparr>)))))"

text \<open>The loop of \<^verbatim>\<open>clear_expired_delegations\<close> over the index \<^verbatim>\<open>by_expiration\<close>.\<close>

definition expired_delegations :: "database \<Rightarrow> vesting_delegation_expiration_object list" where
  "expired_delegations db =
     sort_by (\<lambda>a b. vde_expiration a < vde_expiration b \<or> vde_expiration a = vde_expiration b \<and> vde_id a < vde_id b)
       (filter (\<lambda>d. vde_expiration d < head_block_time db) (db_delegation_expirations db))"

definition return_delegation ::
  "fc_lib \<Rightarrow> vesting_delegation_expiration_object \<Rightarrow> database \<Rightarrow> database res" where
  "return_delegation fc d db =
     bindR (modify_account (vde_delegator d) (\<lambda>a.
       bindR (asset_sub fc (acc_delegated_vesting_shares a) (vde_vesting_shares d)) (\<lambda>x.
       Inr (a\<lparr>acc_delegated_vesting_shares := x\<rparr>))) db) (\<lambda>db.
     let db = push_virtual_operation (Return_vesting_delegation (vde_delegator d) (vde_vesting_shares d)) db in
     Inr (db\<lparr>db_delegation_expirations := del_by vde_id (vde_id d) (db_delegation_expirations db)\<rparr>))"

definition clear_expired_delegations :: "fc_lib \<Rightarrow> database \<Rightarrow> database res" where
  "clear_expired_delegations fc db = foldR (return_delegation fc) (expired_delegations db) db"

end
