(* ===== verification/Conservation.thy ===== *)
theory Conservation
  imports Ledger Evaluators Escrow Market Delegation
begin

text \<open>
  Conservation of value by the evaluators: every operation that succeeds leaves the supply gaps of
  the three tokens as they were and keeps the ledger well-formed. The lemmas for debits, credits
  and pending objects compose along the steps of each evaluator.
\<close>

section \<open>Debits and pending objects\<close>

lemma moves_cast: "moves db db' s g v \<Longrightarrow> s = s' \<Longrightarrow> g = g' \<Longrightarrow> v = v' \<Longrightarrow> moves db db' s' g' v'"
  by simp

lemma moves_after:
  "moves db db' s g v \<Longrightarrow> (ledger_ok db' \<Longrightarrow> moves db' db'' s' g' v') \<Longrightarrow>
   moves db db'' (s + s') (g + g') (v + v')"
  using moves_trans moves_ok by blast

lemma amt_zero: "amount a = 0 \<Longrightarrow> amt s a = 0"
  by (simp add: amt_def)

lemma amt_cleared [simp]: "amt s (a\<lparr>amount := 0\<rparr>) = 0"
  by (rule amt_zero) simp

lemma debit_moves:
  assumes "fc_safe fc" "ledger_ok db" "asset_neg fc a = Inr neg" "adjust_balance fc n neg db = Inr db'"
  shows "moves db db' (amt STEEM_SYMBOL a) (amt SBD_SYMBOL a) 0 \<and> liquid a"
  using adjust_balance_moves [OF assms(1,2,4)] assms(1,3) by (auto simp: fc_simps amt_def liquid_def)

lemma debit_savings_moves:
  assumes "fc_safe fc" "ledger_ok db" "asset_neg fc a = Inr neg" "adjust_savings_balance fc n neg db = Inr db'"
  shows "moves db db' (amt STEEM_SYMBOL a) (amt SBD_SYMBOL a) 0 \<and> liquid a"
  using adjust_savings_balance_moves [OF assms(1,2,4)] assms(1,3) by (auto simp: fc_simps amt_def liquid_def)

lemma credit_moves_amt:
  "fc_safe fc \<Longrightarrow> ledger_ok db \<Longrightarrow> adjust_balance fc n a db = Inr db' \<Longrightarrow>
   moves db db' (- amt STEEM_SYMBOL a) (- amt SBD_SYMBOL a) 0"
  using adjust_balance_moves by blast

lemma create_in_Inr:
  "create_in key x xs = Inr ys \<longleftrightarrow> key x \<notin> key ` set xs \<and> ys = xs @ [x]"
  by (auto simp: create_in_def find_by_None)

lemma bump_id_moves [simp]: "moves db (bump_id t db') s g v = moves db db' s g v"
  by (simp add: moves_def bump_id_def)

text \<open>Creating, changing and removing the pending objects that hold tokens.\<close>

lemma create_convert_moves:
  assumes "ledger_ok db" "create_in cvt_key c (db_converts db) = Inr cs" "symbol (cvt_amount c) = SBD_SYMBOL"
  shows "moves db (db\<lparr>db_converts := cs\<rparr>) 0 (- amount (cvt_amount c)) 0"
  using assms
  by (auto simp: create_in_Inr moves_def ledger_ok_def gap_steem_def gap_sbd_def gap_vests_def held_def amt_def)

lemma create_savings_moves:
  assumes "ledger_ok db" "create_in swo_key w (db_savings db) = Inr ws" "liquid (swo_amount w)"
  shows "moves db (db\<lparr>db_savings := ws\<rparr>) (- amt STEEM_SYMBOL (swo_amount w)) (- amt SBD_SYMBOL (swo_amount w)) 0"
  using assms
  by (auto simp: create_in_Inr moves_def ledger_ok_def gap_steem_def gap_sbd_def gap_vests_def held_def)

lemma create_escrow_moves:
  assumes "ledger_ok db" "create_in esc_key e (db_escrows db) = Inr es" "escrow_ok e"
  shows "moves db (db\<lparr>db_escrows := es\<rparr>) (- escrow_holds STEEM_SYMBOL e) (- escrow_holds SBD_SYMBOL e) 0"
  using assms
  by (auto simp: create_in_Inr moves_def ledger_ok_def gap_steem_def gap_sbd_def gap_vests_def held_def)

lemma create_order_moves:
  assumes "ledger_ok db" "create_in ord_key o' (db_orders db) = Inr os" "order_ok o'"
  shows "moves db (db\<lparr>db_orders := os\<rparr>) (- amt STEEM_SYMBOL (amount_for_sale o')) (- amt SBD_SYMBOL (amount_for_sale o')) 0"
  using assms
  by (auto simp: create_in_Inr moves_def ledger_ok_def gap_steem_def gap_sbd_def gap_vests_def held_def)

lemma remove_convert_moves:
  assumes "ledger_ok db" "find_by cvt_key k (db_converts db) = Some c"
  shows "moves db (db\<lparr>db_converts := del_by cvt_key k (db_converts db)\<rparr>) 0 (amount (cvt_amount c)) 0"
proof -
  have "distinct (map cvt_key (db_converts db))" "symbol (cvt_amount c) = SBD_SYMBOL"
    using assms(1) find_by_Some [OF assms(2)] by (auto simp: ledger_ok_def)
  then show ?thesis
    using assms sum_del_by [OF _ assms(2)]
    by (auto simp: moves_def ledger_ok_def gap_steem_def gap_sbd_def gap_vests_def held_def amt_def dest: set_del_by)
qed

lemma remove_savings_moves:
  assumes "ledger_ok db" "find_by swo_key k (db_savings db) = Some w"
  shows "moves db (db\<lparr>db_savings := del_by swo_key k (db_savings db)\<rparr>)
    (amt STEEM_SYMBOL (swo_amount w)) (amt SBD_SYMBOL (swo_amount w)) 0"
proof -
  have "distinct (map swo_key (db_savings db))" using assms by (simp add: ledger_ok_def)
  then show ?thesis
    using assms sum_del_by [OF _ assms(2)]
    by (auto simp: moves_def ledger_ok_def gap_steem_def gap_sbd_def gap_vests_def held_def dest: set_del_by)
qed

lemma set_escrow_moves:
  assumes "ledger_ok db" "find_by esc_key (esc_key e') (db_escrows db) = Some e" "escrow_ok e'"
  shows "moves db (set_escrow e' db) (escrow_holds STEEM_SYMBOL e - escrow_holds STEEM_SYMBOL e')
    (escrow_holds SBD_SYMBOL e - escrow_holds SBD_SYMBOL e') 0"
proof -
  have "distinct (map esc_key (db_escrows db))" using assms by (simp add: ledger_ok_def)
  then show ?thesis
    using assms sum_upd_by [OF _ assms(2)]
    by (auto simp: moves_def ledger_ok_def gap_steem_def gap_sbd_def gap_vests_def held_def set_escrow_def
        dest: set_upd_by)
qed

lemma remove_escrow_moves:
  assumes "ledger_ok db" "find_by esc_key (esc_key e') (db_escrows db) = Some e"
  shows "moves db (remove_escrow e' db) (escrow_holds STEEM_SYMBOL e) (escrow_holds SBD_SYMBOL e) 0"
proof -
  have "distinct (map esc_key (db_escrows db))" using assms by (simp add: ledger_ok_def)
  then show ?thesis
    using assms sum_del_by [OF _ assms(2)]
    by (auto simp: moves_def ledger_ok_def gap_steem_def gap_sbd_def gap_vests_def held_def remove_escrow_def
        dest: set_del_by)
qed

lemma set_order_moves:
  assumes "ledger_ok db" "find_by ord_key (ord_key b) (db_orders db) = Some o'" "order_ok b"
  shows "moves db (set_order b db) (amt STEEM_SYMBOL (amount_for_sale o') - amt STEEM_SYMBOL (amount_for_sale b))
    (amt SBD_SYMBOL (amount_for_sale o') - amt SBD_SYMBOL (amount_for_sale b)) 0"
proof -
  have "distinct (map ord_key (db_orders db))" using assms by (simp add: ledger_ok_def)
  then show ?thesis
    using assms sum_upd_by [OF _ assms(2)]
    by (auto simp: moves_def ledger_ok_def gap_steem_def gap_sbd_def gap_vests_def held_def set_order_def
        dest: set_upd_by)
qed

lemma remove_order_moves:
  assumes "ledger_ok db" "find_by ord_key (ord_key b) (db_orders db) = Some o'"
  shows "moves db (remove_order b db) (amt STEEM_SYMBOL (amount_for_sale o')) (amt SBD_SYMBOL (amount_for_sale o')) 0"
proof -
  have "distinct (map ord_key (db_orders db))" using assms by (simp add: ledger_ok_def)
  then show ?thesis
    using assms sum_del_by [OF _ assms(2)]
    by (auto simp: moves_def ledger_ok_def gap_steem_def gap_sbd_def gap_vests_def held_def remove_order_def
        dest: set_del_by)
qed

section \<open>What the balance functions leave alone\<close>

text \<open>The balance functions change accounts, the global properties and the log of virtual operations.\<close>

definition same_pending :: "database \<Rightarrow> database \<Rightarrow> bool" where
  "same_pending db db' \<longleftrightarrow> db_converts db' = db_converts db \<and> db_escrows db' = db_escrows db \<and>
     db_savings db' = db_savings db \<and> db_orders db' = db_orders db \<and> db_feed db' = db_feed db \<and>
     head_block_time db' = head_block_time db \<and> db_next_id db' = db_next_id db"

lemma same_pending_refl [simp]: "same_pending db db"
  by (simp add: same_pending_def)

lemma same_pending_trans: "same_pending db db' \<Longrightarrow> same_pending db' db'' \<Longrightarrow> same_pending db db''"
  by (simp add: same_pending_def)

lemma modify_account_pending: "modify_account n f db = Inr db' \<Longrightarrow> same_pending db db'"
  by (auto simp: modify_account_def set_account_def same_pending_def head_block_time_def)

lemma accrue_sbd_interest_pending:
  "accrue_sbd_interest fc b a db = Inr (a', db') \<Longrightarrow> same_pending db db'"
  by (auto simp: accrue_sbd_interest_def add_interest_supply_def Let_def same_pending_def head_block_time_def
      push_virtual_operation_def split: if_splits)

lemma accrue_savings_interest_pending:
  "accrue_savings_interest fc a db = Inr (a', db') \<Longrightarrow> same_pending db db'"
  by (auto simp: accrue_savings_interest_def add_interest_supply_def Let_def same_pending_def head_block_time_def
      push_virtual_operation_def split: if_splits)

lemma adjust_sbd_balance_pending: "adjust_sbd_balance fc n d db = Inr db' \<Longrightarrow> same_pending db db'"
  by (auto simp: adjust_sbd_balance_def set_account_def same_pending_def head_block_time_def Let_def
      dest!: accrue_sbd_interest_pending)

lemma adjust_balance_pending: "adjust_balance fc n d db = Inr db' \<Longrightarrow> same_pending db db'"
  using modify_account_pending adjust_sbd_balance_pending by (auto simp: adjust_balance_def split: if_splits)

lemma adjust_savings_balance_pending: "adjust_savings_balance fc n d db = Inr db' \<Longrightarrow> same_pending db db'"
  using modify_account_pending
  by (fastforce simp: adjust_savings_balance_def set_account_def same_pending_def head_block_time_def
      dest!: accrue_savings_interest_pending split: if_splits)

text \<open>The balance functions neither read nor write the escrows.\<close>

lemma escrows_frame [simp]:
  "get_account n (db\<lparr>db_escrows := es\<rparr>) = get_account n db"
  "head_block_time (db\<lparr>db_escrows := es\<rparr>) = head_block_time db"
  "has_hardfork h (db\<lparr>db_escrows := es\<rparr>) = has_hardfork h db"
  by (simp_all add: get_account_def find_account_def head_block_time_def has_hardfork_def)

lemma escrows_commute:
  "db\<lparr>db_escrows := es, db_dgp := p\<rparr> = db\<lparr>db_dgp := p, db_escrows := es\<rparr>"
  "set_account a (db\<lparr>db_escrows := es\<rparr>) = (set_account a db)\<lparr>db_escrows := es\<rparr>"
  "push_virtual_operation v (db\<lparr>db_escrows := es\<rparr>) = (push_virtual_operation v db)\<lparr>db_escrows := es\<rparr>"
  by (simp_all add: set_account_def push_virtual_operation_def)

lemma modify_account_escrows:
  "modify_account n f (db\<lparr>db_escrows := es\<rparr>) = bindR (modify_account n f db) (\<lambda>db. Inr (db\<lparr>db_escrows := es\<rparr>))"
  by (simp add: modify_account_def escrows_commute bindR_assoc)

lemma add_interest_supply_escrows:
  "add_interest_supply fc i (db\<lparr>db_escrows := es\<rparr>) =
   bindR (add_interest_supply fc i db) (\<lambda>db. Inr (db\<lparr>db_escrows := es\<rparr>))"
  by (simp add: add_interest_supply_def bindR_assoc Let_def escrows_commute)

lemma accrue_sbd_interest_escrows:
  "accrue_sbd_interest fc b a (db\<lparr>db_escrows := es\<rparr>) =
   bindR (accrue_sbd_interest fc b a db) (\<lambda>(a, db). Inr (a, db\<lparr>db_escrows := es\<rparr>))"
  by (simp add: accrue_sbd_interest_def Let_def add_interest_supply_escrows escrows_commute bindR_assoc cong: if_cong)

lemma adjust_sbd_balance_escrows:
  "adjust_sbd_balance fc n d (db\<lparr>db_escrows := es\<rparr>) =
   bindR (adjust_sbd_balance fc n d db) (\<lambda>db. Inr (db\<lparr>db_escrows := es\<rparr>))"
  by (auto simp: adjust_sbd_balance_def Let_def accrue_sbd_interest_escrows bindR_assoc escrows_commute
      split: prod.splits intro!: bindR_cong)

lemma adjust_balance_escrows:
  "adjust_balance fc n d (db\<lparr>db_escrows := es\<rparr>) =
   bindR (adjust_balance fc n d db) (\<lambda>db. Inr (db\<lparr>db_escrows := es\<rparr>))"
  by (simp add: adjust_balance_def modify_account_escrows adjust_sbd_balance_escrows)

section \<open>Transfers, vesting, savings, conversion\<close>

lemma set_flags_neutral:
  assumes "ledger_ok db" "modify_account n (\<lambda>a. Inr (f a)) db = Inr db'" "\<And>a. credited a (f a) 0 0"
  shows "moves db db' 0 0 0"
  using modify_account_neutral [OF assms(1,2)] assms(3) by auto

lemma transfer_moves:
  assumes "fc_safe fc" "ledger_ok db" "transfer_evaluator fc op db = Inr db'"
  shows "moves db db' 0 0 0"
proof -
  obtain db1 neg db2 where run:
    "db1 = db \<or> modify_account (trf_from op) (\<lambda>a. Inr (a\<lparr>acc_active_challenged := False,
        acc_last_active_proved := head_block_time db\<rparr>)) db = Inr db1"
    "asset_neg fc (trf_amount op) = Inr neg" "adjust_balance fc (trf_from op) neg db1 = Inr db2"
    "adjust_balance fc (trf_to op) (trf_amount op) db2 = Inr db'"
    using assms(3) by (auto simp: transfer_evaluator_def split: if_splits)
  have m1: "moves db db1 0 0 0"
    using run(1) moves_refl [OF assms(2)] set_flags_neutral [OF assms(2)] by (auto simp: credited_def)
  have m2: "moves db1 db2 (amt STEEM_SYMBOL (trf_amount op)) (amt SBD_SYMBOL (trf_amount op)) 0"
    using debit_moves [OF assms(1) moves_ok [OF m1] run(2,3)] by blast
  have "moves db2 db' (- amt STEEM_SYMBOL (trf_amount op)) (- amt SBD_SYMBOL (trf_amount op)) 0"
    by (rule credit_moves_amt [OF assms(1) moves_ok [OF m2] run(4)])
  from moves_trans [OF moves_trans [OF m1 m2] this] show ?thesis by simp
qed

lemma transfer_to_vesting_moves:
  assumes "fc_safe fc" "ledger_ok db" "transfer_to_vesting_evaluator fc op db = Inr db'"
  shows "moves db db' 0 0 0"
proof -
  obtain neg db1 n v where run: "asset_neg fc (ttv_amount op) = Inr neg"
    "adjust_balance fc (ttv_from op) neg db = Inr db1" "create_vesting fc n (ttv_amount op) db1 = Inr (v, db')"
    using assms(3) by (auto simp: transfer_to_vesting_evaluator_def)
  have m1: "moves db db1 (amt STEEM_SYMBOL (ttv_amount op)) (amt SBD_SYMBOL (ttv_amount op)) 0"
    using debit_moves [OF assms(1,2) run(1,2)] by blast
  have m2: "moves db1 db' (- amount (ttv_amount op)) 0 0" "symbol (ttv_amount op) = STEEM_SYMBOL"
    using create_vesting_moves [OF assms(1) moves_ok [OF m1] run(3)] by auto
  from moves_trans [OF m1 m2(1)] m2(2) show ?thesis by (simp add: amt_def STEEM_SYMBOL_def SBD_SYMBOL_def)
qed

lemma withdraw_vesting_moves:
  assumes "ledger_ok db" "withdraw_vesting_evaluator fc nf op db = Inr db'"
  shows "moves db db' 0 0 0"
proof -
  obtain f where "modify_account (wdv_account op) f db = Inr db'" "\<And>a a'. f a = Inr a' \<Longrightarrow> credited a a' 0 0"
    using assms(2)
    by (fastforce simp: withdraw_vesting_evaluator_def Let_def credited_def split: if_splits)
  then show ?thesis using modify_account_neutral [OF assms(1)] by blast
qed

lemma convert_moves:
  assumes "fc_safe fc" "ledger_ok db" "convert_evaluator fc op db = Inr db'" "symbol (cvo_amount op) = SBD_SYMBOL"
  shows "moves db db' 0 0 0"
proof -
  obtain neg db1 cs c where run: "asset_neg fc (cvo_amount op) = Inr neg"
    "adjust_balance fc (cvo_owner op) neg db = Inr db1" "create_in cvt_key c (db_converts db1) = Inr cs"
    "cvt_amount c = cvo_amount op" "db' = bump_id convert_request_object_type (db1\<lparr>db_converts := cs\<rparr>)"
    using assms(3) by (auto simp: convert_evaluator_def Let_def)
  have m1: "moves db db1 (amt STEEM_SYMBOL (cvo_amount op)) (amt SBD_SYMBOL (cvo_amount op)) 0"
    using debit_moves [OF assms(1,2) run(1,2)] by blast
  have "moves db1 db' 0 (- amount (cvo_amount op)) 0"
    using create_convert_moves [OF moves_ok [OF m1] run(3)] run(4,5) assms(4) by simp
  from moves_trans [OF m1 this] assms(4) show ?thesis by (simp add: amt_def STEEM_SYMBOL_def SBD_SYMBOL_def)
qed

lemma transfer_to_savings_moves:
  assumes "fc_safe fc" "ledger_ok db" "transfer_to_savings_evaluator fc op db = Inr db'"
  shows "moves db db' 0 0 0"
proof -
  obtain neg db1 where run: "asset_neg fc (tts_amount op) = Inr neg"
    "adjust_balance fc (tts_from op) neg db = Inr db1" "adjust_savings_balance fc (tts_to op) (tts_amount op) db1 = Inr db'"
    using assms(3) by (auto simp: transfer_to_savings_evaluator_def)
  have m1: "moves db db1 (amt STEEM_SYMBOL (tts_amount op)) (amt SBD_SYMBOL (tts_amount op)) 0"
    using debit_moves [OF assms(1,2) run(1,2)] by blast
  from moves_trans [OF m1 conjunct1 [OF adjust_savings_balance_moves [OF assms(1) moves_ok [OF m1] run(3)]]]
  show ?thesis by simp
qed

lemma transfer_from_savings_moves:
  assumes "fc_safe fc" "ledger_ok db" "transfer_from_savings_evaluator fc nf op db = Inr db'"
  shows "moves db db' 0 0 0"
proof -
  obtain neg db1 ws w where run: "asset_neg fc (tfs_amount op) = Inr neg"
    "adjust_savings_balance fc (tfs_from op) neg db = Inr db1" "create_in swo_key w (db_savings db1) = Inr ws"
    "swo_amount w = tfs_amount op"
    "modify_account (tfs_from op) (\<lambda>a. Inr (a\<lparr>acc_savings_withdraw_requests := inc_w 8 (acc_savings_withdraw_requests a)\<rparr>))
       (bump_id savings_withdraw_object_type (db1\<lparr>db_savings := ws\<rparr>)) = Inr db'"
    using assms(3) by (auto simp: transfer_from_savings_evaluator_def)
  have m1: "moves db db1 (amt STEEM_SYMBOL (tfs_amount op)) (amt SBD_SYMBOL (tfs_amount op)) 0" "liquid (tfs_amount op)"
    using debit_savings_moves [OF assms(1,2) run(1,2)] by auto
  let ?db = "bump_id savings_withdraw_object_type (db1\<lparr>db_savings := ws\<rparr>)"
  have m2: "moves db1 ?db (- amt STEEM_SYMBOL (tfs_amount op)) (- amt SBD_SYMBOL (tfs_amount op)) 0"
    using create_savings_moves [OF moves_ok [OF m1(1)] run(3)] run(4) m1(2) by simp
  have "moves ?db db' 0 0 0"
    by (rule set_flags_neutral [OF moves_ok [OF m2] run(5)]) (simp add: credited_def)
  from moves_trans [OF moves_trans [OF m1(1) m2] this] show ?thesis by simp
qed

lemma cancel_transfer_from_savings_moves:
  assumes "fc_safe fc" "ledger_ok db" "cancel_transfer_from_savings_evaluator fc op db = Inr db'"
  shows "moves db db' 0 0 0"
proof -
  obtain w db1 where run: "find_by swo_key (ctf_from op, ctf_request_id op) (db_savings db) = Some w"
    "adjust_savings_balance fc (ctf_from op) (swo_amount w) db = Inr db1"
    "modify_account (ctf_from op) (\<lambda>a. Inr (a\<lparr>acc_savings_withdraw_requests := dec_w 8 (acc_savings_withdraw_requests a)\<rparr>))
       (db1\<lparr>db_savings := del_by swo_key (swo_key w) (db_savings db1)\<rparr>) = Inr db'"
    using assms(3)
    by (auto simp: cancel_transfer_from_savings_evaluator_def get_savings_withdraw_def find_savings_withdraw_def)
  have k: "swo_key w = (ctf_from op, ctf_request_id op)" using find_by_Some [OF run(1)] by simp
  have m1: "moves db db1 (- amt STEEM_SYMBOL (swo_amount w)) (- amt SBD_SYMBOL (swo_amount w)) 0"
    using adjust_savings_balance_moves [OF assms(1,2) run(2)] by blast
  have "find_by swo_key (swo_key w) (db_savings db1) = Some w"
    using run(1) k adjust_savings_balance_pending [OF run(2)] by (simp add: same_pending_def)
  from remove_savings_moves [OF moves_ok [OF m1] this]
  have m2: "moves db1 (db1\<lparr>db_savings := del_by swo_key (swo_key w) (db_savings db1)\<rparr>)
      (amt STEEM_SYMBOL (swo_amount w)) (amt SBD_SYMBOL (swo_amount w)) 0" .
  have "moves (db1\<lparr>db_savings := del_by swo_key (swo_key w) (db_savings db1)\<rparr>) db' 0 0 0"
    by (rule set_flags_neutral [OF moves_ok [OF m2] run(3)]) (simp add: credited_def)
  from moves_trans [OF moves_trans [OF m1 m2] this] show ?thesis by simp
qed

section \<open>Escrows\<close>

lemma get_escrow_Inr: "get_escrow n i db = Inr e \<longleftrightarrow> find_by esc_key (n, i) (db_escrows db) = Some e"
  by (simp add: get_escrow_def find_escrow_def)

lemma ledger_ok_escrow: "ledger_ok db \<Longrightarrow> find_by esc_key k (db_escrows db) = Some e \<Longrightarrow> escrow_ok e"
  using find_by_Some by (fastforce simp: ledger_ok_def)

lemma liquid_split: "liquid a \<Longrightarrow> symbol a = STEEM_SYMBOL \<and> amt STEEM_SYMBOL a = amount a \<and> amt SBD_SYMBOL a = 0 \<or>
    symbol a = SBD_SYMBOL \<and> amt STEEM_SYMBOL a = 0 \<and> amt SBD_SYMBOL a = amount a"
  by (auto simp: liquid_def amt_def STEEM_SYMBOL_def SBD_SYMBOL_def)

lemma escrow_holds_ok:
  "escrow_ok e \<Longrightarrow> escrow_holds STEEM_SYMBOL e = amount (esc_steem_balance e) + amt STEEM_SYMBOL (esc_pending_fee e) \<and>
    escrow_holds SBD_SYMBOL e = amount (esc_sbd_balance e) + amt SBD_SYMBOL (esc_pending_fee e)"
  by (auto simp: escrow_ok_def escrow_holds_def amt_def STEEM_SYMBOL_def SBD_SYMBOL_def)

lemma credits_moves:
  assumes "fc_safe fc" "ledger_ok db" "adjust_balance fc n a db = Inr db1" "adjust_balance fc m b db1 = Inr db2"
  shows "moves db db2 (- amt STEEM_SYMBOL a - amt STEEM_SYMBOL b) (- amt SBD_SYMBOL a - amt SBD_SYMBOL b) 0 \<and>
    same_pending db db2"
proof -
  note m1 = credit_moves_amt [OF assms(1-3)]
  note m2 = credit_moves_amt [OF assms(1) moves_ok [OF m1] assms(4)]
  show ?thesis
    using moves_trans [OF m1 m2] same_pending_trans [OF adjust_balance_pending [OF assms(3)] adjust_balance_pending [OF assms(4)]]
    by simp
qed

lemma escrow_transfer_moves:
  assumes "fc_safe fc" "ledger_ok db" "escrow_transfer_evaluator fc op db = Inr db'"
    "symbol (est_steem_amount op) = STEEM_SYMBOL" "symbol (est_sbd_amount op) = SBD_SYMBOL"
    "symbol (est_fee op) \<in> {STEEM_SYMBOL, SBD_SYMBOL}"
  shows "moves db db' 0 0 0"
proof -
  obtain st sb n1 db1 n2 db2 e es where run:
    "symbol (est_fee op) = STEEM_SYMBOL \<and> asset_add fc (est_steem_amount op) (est_fee op) = Inr st \<and> sb = est_sbd_amount op \<or>
     symbol (est_fee op) \<noteq> STEEM_SYMBOL \<and> asset_add fc (est_sbd_amount op) (est_fee op) = Inr sb \<and> st = est_steem_amount op"
    "asset_neg fc st = Inr n1" "adjust_balance fc (est_from op) n1 db = Inr db1"
    "asset_neg fc sb = Inr n2" "adjust_balance fc (est_from op) n2 db1 = Inr db2"
    "create_in esc_key e (db_escrows db2) = Inr es" "db' = bump_id escrow_object_type (db2\<lparr>db_escrows := es\<rparr>)"
    "esc_steem_balance e = est_steem_amount op" "esc_sbd_balance e = est_sbd_amount op" "esc_pending_fee e = est_fee op"
    "\<not> esc_is_approved e"
    using assms(3) by (auto simp: escrow_transfer_evaluator_def esc_is_approved_def split: if_splits)
  have ok: "escrow_ok e" using assms(4-6) run(8-11) by (simp add: escrow_ok_def)
  have m1: "moves db db1 (amt STEEM_SYMBOL st) (amt SBD_SYMBOL st) 0"
    using debit_moves [OF assms(1,2) run(2,3)] by blast
  have m2: "moves db1 db2 (amt STEEM_SYMBOL sb) (amt SBD_SYMBOL sb) 0"
    using debit_moves [OF assms(1) moves_ok [OF m1] run(4,5)] by blast
  have m3: "moves db2 db' (- escrow_holds STEEM_SYMBOL e) (- escrow_holds SBD_SYMBOL e) 0"
    using create_escrow_moves [OF moves_ok [OF m2] run(6) ok] run(7) by simp
  from moves_trans [OF moves_trans [OF m1 m2] m3] show ?thesis
    using run(1,8-10) assms(1,4-6)
    by (auto simp: escrow_holds_def fc_simps amt_def STEEM_SYMBOL_def SBD_SYMBOL_def elim!: moves_cast)
qed

lemma refund_escrow_moves:
  assumes "fc_safe fc" "ledger_ok db" "find_by esc_key (esc_key e) (db_escrows db) = Some e"
    "refund_escrow fc e db = Inr db'"
  shows "moves db db' 0 0 0"
proof -
  obtain db1 db2 db3 where run: "adjust_balance fc (esc_from e) (esc_steem_balance e) db = Inr db1"
      "adjust_balance fc (esc_from e) (esc_sbd_balance e) db1 = Inr db2"
      "adjust_balance fc (esc_from e) (esc_pending_fee e) db2 = Inr db3" "db' = remove_escrow e db3"
    using assms(4) by (auto simp: refund_escrow_def)
  note c = credits_moves [OF assms(1,2) run(1,2)]
  then have m: "moves db2 db3 (- amt STEEM_SYMBOL (esc_pending_fee e)) (- amt SBD_SYMBOL (esc_pending_fee e)) 0"
    using credit_moves_amt [OF assms(1) _ run(3)] moves_ok by blast
  have "find_by esc_key (esc_key e) (db_escrows db3) = Some e"
    using assms(3) c adjust_balance_pending [OF run(3)] by (simp add: same_pending_def)
  from moves_trans [OF moves_trans [OF conjunct1 [OF c] m] remove_escrow_moves [OF moves_ok [OF m] this]]
  show ?thesis using run(4) by (simp add: escrow_holds_def)
qed

lemma note_approval_same:
  "note_approval op e0 = Inr e \<Longrightarrow> esc_key e = esc_key e0 \<and> esc_steem_balance e = esc_steem_balance e0 \<and>
    esc_sbd_balance e = esc_sbd_balance e0 \<and> esc_pending_fee e = esc_pending_fee e0 \<and>
    (\<not> esa_approve op \<longrightarrow> e = e0)"
  by (auto simp: note_approval_def esc_key_def split: if_splits)

text \<open>The second approval: the fee is paid to the agent and set to zero.\<close>

lemma pay_escrow_fee_moves:
  assumes "fc_safe fc" "ledger_ok db" "find_by esc_key (esc_key e) (db_escrows db) = Some e0"
    "note_approval op e0 = Inr e" "escrow_ok e0"
    "adjust_balance fc n (esc_pending_fee e) (set_escrow e db) = Inr db1"
  shows "moves db (set_escrow (e\<lparr>esc_pending_fee := (esc_pending_fee e)\<lparr>amount := 0\<rparr>\<rparr>) db1) 0 0 0"
proof -
  let ?e = "e\<lparr>esc_pending_fee := (esc_pending_fee e)\<lparr>amount := 0\<rparr>\<rparr>"
  note same = note_approval_same [OF assms(4)]
  obtain db2 where db2: "adjust_balance fc n (esc_pending_fee e) db = Inr db2"
    "db1 = db2\<lparr>db_escrows := upd_by esc_key e (db_escrows db)\<rparr>"
    using assms(6) by (auto simp: set_escrow_def adjust_balance_escrows)
  have eq: "db_escrows db2 = db_escrows db" using adjust_balance_pending [OF db2(1)] by (simp add: same_pending_def)
  have "upd_by esc_key ?e (upd_by esc_key e xs) = upd_by esc_key ?e xs" for xs
    by (induction xs) (auto simp: esc_key_def)
  then have *: "set_escrow ?e db1 = set_escrow ?e db2" by (simp add: set_escrow_def db2(2) eq)
  note m1 = credit_moves_amt [OF assms(1,2) db2(1)]
  have "find_by esc_key (esc_key ?e) (db_escrows db2) = Some e0"
    using assms(3) eq by (simp add: esc_key_def)
  moreover have "escrow_ok ?e" using assms(5) same by (simp add: escrow_ok_def)
  ultimately have "moves db2 (set_escrow ?e db2) (escrow_holds STEEM_SYMBOL e0 - escrow_holds STEEM_SYMBOL ?e)
      (escrow_holds SBD_SYMBOL e0 - escrow_holds SBD_SYMBOL ?e) 0"
    using set_escrow_moves [OF moves_ok [OF m1]] by blast
  from moves_trans [OF m1 this] show ?thesis
    using same unfolding * by (simp add: escrow_holds_def)
qed

lemma escrow_approve_Inr:
  assumes "escrow_approve_evaluator fc op db = Inr db'"
  obtains e0 e where "find_by esc_key (esa_from op, esa_escrow_id op) (db_escrows db) = Some e0"
    "note_approval op e0 = Inr e"
    "\<not> esa_approve op \<and> refund_escrow fc e (set_escrow e db) = Inr db' \<or>
     (\<exists>db1. adjust_balance fc (esa_agent op) (esc_pending_fee e) (set_escrow e db) = Inr db1 \<and>
       db' = set_escrow (e\<lparr>esc_pending_fee := (esc_pending_fee e)\<lparr>amount := 0\<rparr>\<rparr>) db1) \<or>
     \<not> esc_is_approved e \<and> db' = set_escrow e db"
proof -
  obtain e0 e where run: "find_by esc_key (esa_from op, esa_escrow_id op) (db_escrows db) = Some e0"
    "note_approval op e0 = Inr e"
    "(if \<not> esa_approve op then refund_escrow fc e (set_escrow e db)
      else if esc_is_approved e then bindR (get_account (esa_agent op) (set_escrow e db)) (\<lambda>_.
        bindR (adjust_balance fc (esa_agent op) (esc_pending_fee e) (set_escrow e db)) (\<lambda>db.
        Inr (set_escrow (e\<lparr>esc_pending_fee := (esc_pending_fee e)\<lparr>amount := 0\<rparr>\<rparr>) db)))
      else Inr (set_escrow e db)) = Inr db'"
    using assms unfolding escrow_approve_evaluator_def bindR_eq_Inr get_escrow_Inr Let_def esc_is_approved_def
    by blast
  show ?thesis by (rule that [OF run(1,2)]) (use run(3) in \<open>auto split: if_splits\<close>)
qed

lemma escrow_approve_moves:
  assumes "fc_safe fc" "ledger_ok db" "escrow_approve_evaluator fc op db = Inr db'"
  shows "moves db db' 0 0 0"
proof -
  obtain e0 e where run: "find_by esc_key (esa_from op, esa_escrow_id op) (db_escrows db) = Some e0"
    "note_approval op e0 = Inr e"
    "\<not> esa_approve op \<and> refund_escrow fc e (set_escrow e db) = Inr db' \<or>
     (\<exists>db1. adjust_balance fc (esa_agent op) (esc_pending_fee e) (set_escrow e db) = Inr db1 \<and>
       db' = set_escrow (e\<lparr>esc_pending_fee := (esc_pending_fee e)\<lparr>amount := 0\<rparr>\<rparr>) db1) \<or>
     \<not> esc_is_approved e \<and> db' = set_escrow e db"
    by (rule escrow_approve_Inr [OF assms(3)])
  note same = note_approval_same [OF run(2)]
  note ok0 = ledger_ok_escrow [OF assms(2) run(1)]
  have f: "find_by esc_key (esc_key e) (db_escrows db) = Some e0" using run(1) same find_by_Some by fastforce
  have mark: "moves db (set_escrow e db) 0 0 0" if "\<not> esc_is_approved e \<or> e = e0"
  proof -
    have "escrow_ok e" if "\<not> esc_is_approved e" using that same ok0 by (simp add: escrow_ok_def)
    then have "escrow_ok e" using that ok0 by blast
    from set_escrow_moves [OF assms(2) f this] show ?thesis using same by (simp add: escrow_holds_def)
  qed
  have g: "find_by esc_key (esc_key e) (db_escrows (set_escrow e db)) = Some e"
    using f by (simp add: set_escrow_def table_simps)
  have "moves db db' 0 0 0" if "\<not> esa_approve op" "refund_escrow fc e (set_escrow e db) = Inr db'"
  proof -
    have "e = e0" using that(1) same by blast
    note m = mark [OF disjI2 [OF this]]
    from moves_trans [OF m refund_escrow_moves [OF assms(1) moves_ok [OF m] g that(2)]] show ?thesis by simp
  qed
  then show ?thesis using run(3) mark pay_escrow_fee_moves [OF assms(1,2) f run(2) ok0] by blast
qed

lemma escrow_dispute_moves:
  assumes "ledger_ok db" "escrow_dispute_evaluator op db = Inr db'"
  shows "moves db db' 0 0 0"
proof -
  obtain e where e: "find_by esc_key (esd_from op, esd_escrow_id op) (db_escrows db) = Some e"
    "db' = set_escrow (e\<lparr>esc_disputed := True\<rparr>) db"
    using assms(2) by (auto simp: escrow_dispute_evaluator_def get_escrow_Inr)
  have "find_by esc_key (esc_key (e\<lparr>esc_disputed := True\<rparr>)) (db_escrows db) = Some e"
    using e(1) find_by_Some [OF e(1)] by (simp add: esc_key_def)
  moreover have "escrow_ok (e\<lparr>esc_disputed := True\<rparr>)"
    using ledger_ok_escrow [OF assms(1) e(1)] by (simp add: escrow_ok_def esc_is_approved_def)
  ultimately show ?thesis
    using set_escrow_moves [OF assms(1)] e(2) by (fastforce simp: escrow_holds_def)
qed

lemma escrow_release_moves:
  assumes "fc_safe fc" "ledger_ok db" "escrow_release_evaluator fc op db = Inr db'"
  shows "moves db db' 0 0 0"
proof -
  obtain e db1 db2 st sb where run: "find_by esc_key (esr_from op, esr_escrow_id op) (db_escrows db) = Some e"
    "adjust_balance fc (esr_receiver op) (esr_steem_amount op) db = Inr db1"
    "adjust_balance fc (esr_receiver op) (esr_sbd_amount op) db1 = Inr db2"
    "asset_sub fc (esc_steem_balance e) (esr_steem_amount op) = Inr st"
    "asset_sub fc (esc_sbd_balance e) (esr_sbd_amount op) = Inr sb"
    "let e' = e\<lparr>esc_steem_balance := st, esc_sbd_balance := sb\<rparr> in
     db' = (if amount st = 0 \<and> amount sb = 0 then remove_escrow e' (set_escrow e' db2) else set_escrow e' db2)"
    "esc_is_approved e"
    using assms(3) by (auto simp: escrow_release_evaluator_def get_escrow_Inr esc_is_approved_def Let_def)
  let ?e = "e\<lparr>esc_steem_balance := st, esc_sbd_balance := sb\<rparr>"
  note ok = ledger_ok_escrow [OF assms(2) run(1)]
  note c = credits_moves [OF assms(1,2) run(2,3)]
  have syms: "symbol (esr_steem_amount op) = STEEM_SYMBOL" "symbol (esr_sbd_amount op) = SBD_SYMBOL"
    "st = \<lparr>amount = amount (esc_steem_balance e) - amount (esr_steem_amount op), symbol = STEEM_SYMBOL\<rparr>"
    "sb = \<lparr>amount = amount (esc_sbd_balance e) - amount (esr_sbd_amount op), symbol = SBD_SYMBOL\<rparr>"
    using run(4,5) ok assms(1) by (auto simp: fc_simps escrow_ok_def)
  have f: "find_by esc_key (esc_key ?e) (db_escrows db2) = Some e"
    using run(1) find_by_Some [OF run(1)] c by (simp add: same_pending_def esc_key_def)
  have fee: "amount (esc_pending_fee e) = 0" using ok run(7) by (simp add: escrow_ok_def)
  have ok': "escrow_ok ?e" using ok syms fee by (simp add: escrow_ok_def)
  note m2 = set_escrow_moves [OF moves_ok [OF conjunct1 [OF c]] f ok']
  have m3: "moves db (set_escrow ?e db2) 0 0 0"
    using moves_trans [OF conjunct1 [OF c] m2] escrow_holds_ok [OF ok] escrow_holds_ok [OF ok'] syms
    by (simp add: amt_def STEEM_SYMBOL_def SBD_SYMBOL_def)
  show ?thesis
  proof (cases "amount st = 0 \<and> amount sb = 0")
    case False
    then show ?thesis using m3 run(6) by (auto simp: Let_def)
  next
    case True
    have "find_by esc_key (esc_key ?e) (db_escrows (set_escrow ?e db2)) = Some ?e"
      using f by (simp add: set_escrow_def table_simps)
    note m4 = remove_escrow_moves [OF moves_ok [OF m3] this]
    have "db' = remove_escrow ?e (set_escrow ?e db2)" using run(6) True by (simp add: Let_def)
    then show ?thesis using moves_trans [OF m3 m4] escrow_holds_ok [OF ok'] True amt_zero [OF fee]
      by simp
  qed
qed

end
