(* ===== verification/Market_Conservation.thy ===== *)
theory Market_Conservation
  imports Conservation
begin

text \<open>
  Conservation of value by the internal market, and by the loops that consume pending objects.
\<close>

section \<open>Steps that leave the ledger alone\<close>

lemma moves_frame:
  assumes "ledger_ok db" "db_accounts db' = db_accounts db" "db_dgp db' = db_dgp db"
    "db_converts db' = db_converts db" "db_escrows db' = db_escrows db" "db_savings db' = db_savings db"
    "db_orders db' = db_orders db"
  shows "moves db db' 0 0 0"
  using assms by (simp add: moves_def ledger_ok_def gap_steem_def gap_sbd_def gap_vests_def held_def)

lemma adjust_liquidity_reward_same:
  assumes "adjust_liquidity_reward fc n v b db = Inr db'"
  shows "db_accounts db' = db_accounts db \<and> db_dgp db' = db_dgp db \<and> db_converts db' = db_converts db \<and>
    db_escrows db' = db_escrows db \<and> db_savings db' = db_savings db \<and> db_orders db' = db_orders db"
  using assms by (auto simp: adjust_liquidity_reward_def Let_def bump_id_def split: option.splits)

lemma reward_liquidity_same:
  assumes "reward_liquidity fc a b r s db = Inr db'"
  shows "db_accounts db' = db_accounts db \<and> db_dgp db' = db_dgp db \<and> db_converts db' = db_converts db \<and>
    db_escrows db' = db_escrows db \<and> db_savings db' = db_savings db \<and> db_orders db' = db_orders db"
  using assms by (auto simp: reward_liquidity_def Let_def dest!: adjust_liquidity_reward_same split: if_splits)

section \<open>Filling and matching orders\<close>

lemma get_order_Inr: "get_order k db = Inr o' \<longleftrightarrow> find_by ord_key k (db_orders db) = Some o'"
  by (simp add: get_order_def)

lemma ledger_ok_order: "ledger_ok db \<Longrightarrow> find_by ord_key k (db_orders db) = Some o' \<Longrightarrow> order_ok o'"
  using find_by_Some by (fastforce simp: ledger_ok_def)

lemma cancel_order_moves:
  assumes "fc_safe fc" "ledger_ok db" "find_by ord_key (ord_key o') (db_orders db) = Some o'"
    "cancel_order fc o' db = Inr db'"
  shows "moves db db' 0 0 0 \<and> db_orders db' = del_by ord_key (ord_key o') (db_orders db)"
proof -
  obtain db1 where db1: "adjust_balance fc (ord_seller o') (amount_for_sale o') db = Inr db1" "db' = remove_order o' db1"
    using assms(4) by (auto simp: cancel_order_def)
  note m = credit_moves_amt [OF assms(1,2) db1(1)]
  have eq: "db_orders db1 = db_orders db" using adjust_balance_pending [OF db1(1)] by (simp add: same_pending_def)
  with assms(3) have "find_by ord_key (ord_key o') (db_orders db1) = Some o'" by simp
  from moves_trans [OF m remove_order_moves [OF moves_ok [OF m] this]] show ?thesis
    using db1(2) eq by (simp add: remove_order_def)
qed

lemma amt_eq: "asset_eq a b = Inr True \<Longrightarrow> amt s a = amt s b"
  by (simp add: fc_simps amt_def)

lemma fill_order_moves:
  assumes "fc_safe fc" "ledger_ok db" "fill_order fc k pays receives db = Inr (filled, db')"
  shows "moves db db' (amt STEEM_SYMBOL pays - amt STEEM_SYMBOL receives) (amt SBD_SYMBOL pays - amt SBD_SYMBOL receives) 0"
proof -
  obtain o' db1 all where run: "find_by ord_key k (db_orders db) = Some o'"
    "symbol (amount_for_sale o') = symbol pays" "adjust_balance fc (ord_seller o') receives db = Inr db1"
    "asset_eq pays (amount_for_sale o') = Inr all" and
    rest: "(if all then Inr (True, remove_order o' db1)
     else bindR (safe_sub fc (ord_for_sale o') (amount pays)) (\<lambda>left.
       bindR (amount_to_receive fc (o'\<lparr>ord_for_sale := left\<rparr>)) (\<lambda>r.
       if amount r = 0 then bindR (cancel_order fc (o'\<lparr>ord_for_sale := left\<rparr>) (set_order (o'\<lparr>ord_for_sale := left\<rparr>) db1))
         (\<lambda>db. Inr (True, db))
       else Inr (False, set_order (o'\<lparr>ord_for_sale := left\<rparr>) db1)))) = Inr (filled, db')"
    using assms(3) unfolding fill_order_def bindR_eq_Inr get_order_Inr ensure_eq_Inr Let_def by blast
  note k = find_by_Some [OF run(1)]
  note m1 = credit_moves_amt [OF assms(1,2) run(3)]
  have f: "find_by ord_key (ord_key o') (db_orders db1) = Some o'"
    using run(1) k adjust_balance_pending [OF run(3)] by (simp add: same_pending_def)
  show ?thesis
  proof (cases all)
    case True
    then have "db' = remove_order o' db1" using rest by simp
    with moves_trans [OF m1 remove_order_moves [OF moves_ok [OF m1] f]] show ?thesis
      using amt_eq run(4) True by (simp add: algebra_simps)
  next
    case False
    let ?b = "o'\<lparr>ord_for_sale := ord_for_sale o' - amount pays\<rparr>"
    have fin: "db' = set_order ?b db1 \<or> cancel_order fc ?b (set_order ?b db1) = Inr db'"
      using rest False assms(1) by (auto simp: fc_simps split: if_splits)
    have key: "ord_key ?b = ord_key o'" by (simp add: ord_key_def)
    have ok: "order_ok ?b" using ledger_ok_order [OF assms(2) run(1)] by (simp add: order_ok_def)
    have "moves db1 (set_order ?b db1) (amt STEEM_SYMBOL (amount_for_sale o') - amt STEEM_SYMBOL (amount_for_sale ?b))
        (amt SBD_SYMBOL (amount_for_sale o') - amt SBD_SYMBOL (amount_for_sale ?b)) 0"
      using set_order_moves [OF moves_ok [OF m1] _ ok] f key by simp
    moreover have "amt s (amount_for_sale o') - amt s (amount_for_sale ?b) = amt s pays" for s
      using run(2) by (simp add: amt_def amount_for_sale_def)
    ultimately have m2: "moves db1 (set_order ?b db1) (amt STEEM_SYMBOL pays) (amt SBD_SYMBOL pays) 0" by simp
    note m = moves_trans [OF m1 m2]
    have "find_by ord_key (ord_key ?b) (db_orders (set_order ?b db1)) = Some ?b"
      using f key by (simp add: set_order_def table_simps)
    from cancel_order_moves [OF assms(1) moves_ok [OF m] this] fin moves_trans [OF m, of db' 0 0 0] m
    show ?thesis by (auto simp: algebra_simps)
  qed
qed

lemma match_orders_moves:
  assumes "fc_safe fc" "ledger_ok db" "match_orders fc nk ok price db = Inr (r, db')"
  shows "moves db db' 0 0 0"
proof -
  obtain a b nr orr db1 v nf db2 of' where run:
    "reward_liquidity fc a b nr orr db = Inr db1"
    "fill_order fc nk orr nr (push_virtual_operation v db1) = Inr (nf, db2)"
    "fill_order fc ok nr orr db2 = Inr (of', db')"
    using assms(3) by (auto simp: match_orders_def Let_def)
  have m1: "moves db db1 0 0 0" using moves_frame [OF assms(2)] reward_liquidity_same [OF run(1)] by blast
  note m2 = moves_trans [OF m1 push_vop_moves [OF moves_ok [OF m1], of v]]
  note m3 = moves_trans [OF m2 fill_order_moves [OF assms(1) moves_ok [OF m2] run(2)]]
  from moves_trans [OF m3 fill_order_moves [OF assms(1) moves_ok [OF m3] run(3)]] show ?thesis by simp
qed

lemma match_loop_moves:
  "fc_safe fc \<Longrightarrow> ledger_ok db \<Longrightarrow> match_loop fc nk olds db = Inr db' \<Longrightarrow> moves db db' 0 0 0"
proof (induction olds arbitrary: db)
  case (Cons o' olds)
  then obtain nf of' db1 where run: "match_orders fc nk (ord_key o') (ord_sell_price o') db = Inr ((nf, of'), db1)"
    "if nf then db' = db1 else match_loop fc nk olds db1 = Inr db'"
    by (auto split: if_splits)
  note m = match_orders_moves [OF Cons.prems(1,2) run(1)]
  show ?case
    using run(2) m moves_trans [OF m Cons.IH [OF Cons.prems(1) moves_ok [OF m]]] by (auto split: if_splits)
qed (simp add: moves_refl)

lemma apply_order_moves:
  "fc_safe fc \<Longrightarrow> ledger_ok db \<Longrightarrow> apply_order fc nk db = Inr (r, db') \<Longrightarrow> moves db db' 0 0 0"
  by (auto simp: apply_order_def intro: match_loop_moves)

lemma create_order_evaluator_moves:
  assumes "fc_safe fc" "ledger_ok db" "create_order fc n i sell sp fok ex db = Inr db'"
    "\<And>q. sp = Inr q \<Longrightarrow> symbol (base q) = symbol sell"
  shows "moves db db' 0 0 0"
proof -
  obtain neg db1 q o' os r where run: "asset_neg fc sell = Inr neg" "adjust_balance fc n neg db = Inr db1"
    "sp = Inr q" "create_in ord_key o' (db_orders db1) = Inr os" "ord_sell_price o' = q" "ord_for_sale o' = amount sell"
    "apply_order fc (n, i) (bump_id limit_order_object_type (db1\<lparr>db_orders := os\<rparr>)) = Inr (r, db')"
    using assms(3) by (auto simp: create_order_def)
  have m1: "moves db db1 (amt STEEM_SYMBOL sell) (amt SBD_SYMBOL sell) 0" "liquid sell"
    using debit_moves [OF assms(1,2) run(1,2)] by auto
  have s: "symbol (base q) = symbol sell" using assms(4) run(3) by blast
  have "order_ok o'" using m1(2) s run(5) by (simp add: order_ok_def liquid_def)
  moreover have "amt t (amount_for_sale o') = amt t sell" for t
    using run(5,6) s by (simp add: amount_for_sale_def amt_def)
  ultimately have "moves db1 (bump_id limit_order_object_type (db1\<lparr>db_orders := os\<rparr>))
      (- amt STEEM_SYMBOL sell) (- amt SBD_SYMBOL sell) 0"
    using create_order_moves [OF moves_ok [OF m1(1)] run(4)] by simp
  note m2 = moves_trans [OF m1(1) this]
  from moves_trans [OF m2 apply_order_moves [OF assms(1) moves_ok [OF m2] run(7)]] show ?thesis by simp
qed

lemma limit_order_create_moves:
  assumes "fc_safe fc" "ledger_ok db" "limit_order_create_evaluator fc op db = Inr db'"
  shows "moves db db' 0 0 0"
proof (rule create_order_evaluator_moves [OF assms(1,2) assms(3) [unfolded limit_order_create_evaluator_def]])
  show "symbol (base q) = symbol (loc_amount_to_sell op)" if "limit_order_create_get_price op = Inr q" for q
    using that by (auto simp: limit_order_create_get_price_def asset_div_def)
qed

lemma limit_order_create2_moves:
  assumes "fc_safe fc" "ledger_ok db" "limit_order_create2_evaluator fc op db = Inr db'"
    "symbol (base (loc2_exchange_rate op)) = symbol (loc2_amount_to_sell op)"
  shows "moves db db' 0 0 0"
  using create_order_evaluator_moves [OF assms(1,2) assms(3) [unfolded limit_order_create2_evaluator_def]] assms(4)
  by auto

lemma limit_order_cancel_moves:
  assumes "fc_safe fc" "ledger_ok db" "limit_order_cancel_evaluator fc op db = Inr db'"
  shows "moves db db' 0 0 0"
proof -
  obtain k o' where "find_by ord_key k (db_orders db) = Some o'" "cancel_order fc o' db = Inr db'"
    using assms(3) by (auto simp: limit_order_cancel_evaluator_def get_limit_order_def Let_def split: if_splits)
  then show ?thesis using cancel_order_moves [OF assms(1,2)] find_by_Some by metis
qed

section \<open>Loops that consume pending objects\<close>

lemma foldR_consume:
  assumes "foldR f xs db = Inr db'" "ledger_ok db" "distinct (map key xs)"
    "\<And>x. x \<in> set xs \<Longrightarrow> find_by key (key x) (tab db) = Some x"
    and step: "\<And>x db db'. ledger_ok db \<Longrightarrow> find_by key (key x) (tab db) = Some x \<Longrightarrow> f x db = Inr db' \<Longrightarrow>
      moves db db' 0 0 0 \<and> tab db' = del_by key (key x) (tab db)"
  shows "moves db db' 0 0 0"
  using assms(1-4)
proof (induction xs arbitrary: db)
  case (Cons x xs)
  then obtain db1 where db1: "f x db = Inr db1" "foldR f xs db1 = Inr db'" by auto
  have s: "moves db db1 0 0 0 \<and> tab db1 = del_by key (key x) (tab db)"
    by (rule step [OF Cons.prems(2) Cons.prems(4) db1(1)]) simp
  have "find_by key (key y) (tab db1) = Some y" if "y \<in> set xs" for y
  proof -
    have "key y \<noteq> key x" using that Cons.prems(3) by (auto simp: image_iff)
    then show ?thesis using s Cons.prems(4) [of y] that by (simp add: table_simps)
  qed
  then have "moves db1 db' 0 0 0"
    using Cons.IH [OF db1(2) moves_ok [OF conjunct1 [OF s]]] Cons.prems(3) by simp
  then show ?case using moves_trans [OF conjunct1 [OF s]] by fastforce
qed (simp add: moves_refl)

lemma distinct_keys_due: "distinct (map key xs) \<Longrightarrow> distinct (map key (sort_by lt (filter P xs)))"
  by (simp add: distinct_map_filter)

lemma due_present:
  "distinct (map key xs) \<Longrightarrow> x \<in> set (sort_by lt (filter P xs)) \<Longrightarrow> find_by key (key x) xs = Some x"
  by (simp add: find_by_unique)

lemma clear_expired_orders_moves:
  assumes "fc_safe fc" "ledger_ok db" "clear_expired_orders fc db = Inr db'"
  shows "moves db db' 0 0 0"
proof (rule foldR_consume [where tab = db_orders and key = ord_key])
  show "foldR (cancel_order fc) (expired_orders db) db = Inr db'"
    using assms(3) by (simp add: clear_expired_orders_def)
  have d: "distinct (map ord_key (db_orders db))" using assms(2) by (simp add: ledger_ok_def)
  then show "distinct (map ord_key (expired_orders db))"
    unfolding expired_orders_def by (rule distinct_keys_due)
  show "find_by ord_key (ord_key x) (db_orders db) = Some x" if "x \<in> set (expired_orders db)" for x
    using due_present [OF d] that unfolding expired_orders_def by blast
qed (use assms cancel_order_moves in blast)+

lemma expire_escrow_ratification_moves:
  assumes "fc_safe fc" "ledger_ok db" "expire_escrow_ratification fc db = Inr db'"
  shows "moves db db' 0 0 0"
proof (rule foldR_consume [where tab = db_escrows and key = esc_key])
  show "foldR (refund_escrow fc) (expired_escrows db) db = Inr db'"
    using assms(3) by (simp add: expire_escrow_ratification_def)
  have d: "distinct (map esc_key (db_escrows db))" using assms(2) by (simp add: ledger_ok_def)
  then show "distinct (map esc_key (expired_escrows db))"
    unfolding expired_escrows_def by (rule distinct_keys_due)
  show "find_by esc_key (esc_key x) (db_escrows db) = Some x" if "x \<in> set (expired_escrows db)" for x
    using due_present [OF d] that unfolding expired_escrows_def by blast
next
  fix x db db' assume a: "ledger_ok db" "find_by esc_key (esc_key x) (db_escrows db) = Some x"
    "refund_escrow fc x db = Inr db'"
  have "db_escrows db' = del_by esc_key (esc_key x) (db_escrows db)"
    using a(3) by (auto simp: refund_escrow_def remove_escrow_def same_pending_def dest!: adjust_balance_pending)
  then show "moves db db' 0 0 0 \<and> db_escrows db' = del_by esc_key (esc_key x) (db_escrows db)"
    using refund_escrow_moves [OF assms(1) a] by simp
qed (use assms in simp)

end
