(* ===== verification/Vote_Conservation.thy ===== *)
theory Vote_Conservation
  imports Market_Conservation Delegation
begin

text \<open>
  The operations that do not move tokens between holders, or only pay a fee: withdrawal routes,
  witness votes and proxies, price feeds, declined voting rights, challenges, referrals and
  delegations of vesting shares. All of them leave the ledger's gaps as they are.
\<close>

section \<open>Objects outside the ledger\<close>

lemma moves_other_objects [simp]:
  "moves db (db'\<lparr>db_routes := rs\<rparr>) s g v = moves db db' s g v"
  "moves db (db'\<lparr>db_declines := ds\<rparr>) s g v = moves db db' s g v"
  "moves db (db'\<lparr>db_delegations := dl\<rparr>) s g v = moves db db' s g v"
  "moves db (db'\<lparr>db_delegation_expirations := de\<rparr>) s g v = moves db db' s g v"
  "moves db (db'\<lparr>db_liquidity := ls\<rparr>) s g v = moves db db' s g v"
  "moves db (db'\<lparr>db_witnesses := ws\<rparr>) s g v = moves db db' s g v"
  "moves db (db'\<lparr>db_witness_votes := wv\<rparr>) s g v = moves db db' s g v"
  "moves db (db'\<lparr>db_feed := fd\<rparr>) s g v = moves db db' s g v"
  "moves db (db'\<lparr>db_vops := vs\<rparr>) s g v = moves db db' s g v"
  by (simp_all add: moves_def ledger_ok_def gap_steem_def gap_sbd_def gap_vests_def held_def)

lemma ledger_ok_moves: "ledger_ok db \<longleftrightarrow> moves db db 0 0 0"
  by (auto simp: moves_def)

lemma set_witness_moves [simp]: "moves db (set_witness w db') s g v = moves db db' s g v"
  by (simp add: set_witness_def)

lemma push_vop_moves_eq [simp]: "moves db (push_virtual_operation op db') s g v = moves db db' s g v"
  by (simp add: push_virtual_operation_def)

lemma if_eq_Inr: "(if b then x else y) = Inr r \<longleftrightarrow> b \<and> x = Inr r \<or> \<not> b \<and> y = Inr r"
  by simp

text \<open>A step that leaves the tokens alone may follow any other.\<close>

lemma neutral_after:
  "moves db db1 s g v \<Longrightarrow> modify_account n f db1 = Inr db' \<Longrightarrow> (\<And>a a'. f a = Inr a' \<Longrightarrow> credited a a' 0 0) \<Longrightarrow>
   moves db db' s g v"
  using moves_trans [OF _ modify_account_neutral [OF moves_ok]] by fastforce

lemma step_after: "moves db db1 s g v \<Longrightarrow> (ledger_ok db1 \<Longrightarrow> moves db1 db' 0 0 0) \<Longrightarrow> moves db db' s g v"
  using moves_trans [of db db1 s g v db' 0 0 0] moves_ok by simp

section \<open>Routes, votes and proxies\<close>

lemma set_withdraw_vesting_route_moves:
  assumes "ledger_ok db" "set_withdraw_vesting_route_evaluator op db = Inr db'"
  shows "moves db db' 0 0 0"
  using assms
  by (auto simp: set_withdraw_vesting_route_evaluator_def credited_def moves_refl split: option.splits if_splits
      elim!: neutral_after [rotated])

lemma add_proxied_credited: "add_proxied fc depth delta p = Inr p' \<Longrightarrow> credited p p' 0 0"
proof -
  have "foldR (\<lambda>i p. bindR (safe_add fc (acc_proxied_vsf_votes p ! (i + depth)) (delta ! i)) (\<lambda>v.
      Inr (p\<lparr>acc_proxied_vsf_votes := (acc_proxied_vsf_votes p)[i + depth := v]\<rparr>))) xs p = Inr p' \<Longrightarrow>
      credited p p' 0 0" for xs
  proof (induction xs arbitrary: p)
    case (Cons x xs)
    then show ?case by (fastforce simp: credited_def)
  qed (simp add: credited_def)
  then show "add_proxied fc depth delta p = Inr p' \<Longrightarrow> credited p p' 0 0"
    by (simp add: add_proxied_def)
qed

lemma adjust_proxied_array_0:
  "adjust_proxied_witness_votes_array fc 0 n delta db = Inr db' \<Longrightarrow> ledger_ok db \<Longrightarrow> moves db db' 0 0 0"
  using adjust_witness_votes_moves moves_refl
  by (subst (asm) adjust_proxied_witness_votes_array.simps) (auto simp: Let_def split: if_splits)

lemma adjust_proxied_witness_votes_array_moves:
  "ledger_ok db \<Longrightarrow> adjust_proxied_witness_votes_array fc levels n delta db = Inr db' \<Longrightarrow> moves db db' 0 0 0"
proof (induction levels arbitrary: n db)
  case 0
  then show ?case using adjust_proxied_array_0 by blast
next
  case (Suc levels)
  from Suc.prems(2) have "(\<exists>a td. adjust_witness_votes fc a td db = Inr db') \<or>
     (\<exists>p d db1. modify_account p (add_proxied fc d delta) db = Inr db1 \<and>
       adjust_proxied_witness_votes_array fc levels p delta db1 = Inr db')"
    unfolding adjust_proxied_witness_votes_array.simps [of fc "Suc levels"]
    by (auto simp: Let_def split: if_splits)
  then show ?case
  proof (elim disjE exE conjE)
    fix p d db1 assume run: "modify_account p (add_proxied fc d delta) db = Inr db1"
      "adjust_proxied_witness_votes_array fc levels p delta db1 = Inr db'"
    from neutral_after [OF moves_refl [OF Suc.prems(1)] run(1) add_proxied_credited] Suc.IH [OF _ run(2)]
    show ?thesis by (rule step_after)
  qed (rule adjust_witness_votes_moves [OF Suc.prems(1)])
qed

lemma clear_witness_votes_moves:
  "ledger_ok db \<Longrightarrow> clear_witness_votes n db = Inr db' \<Longrightarrow> moves db db' 0 0 0"
  by (auto simp: clear_witness_votes_def Let_def credited_def moves_refl split: if_splits
      elim!: neutral_after [rotated])

lemma account_witness_proxy_moves:
  assumes "ledger_ok db" "account_witness_proxy_evaluator fc op db = Inr db'"
  shows "moves db db' 0 0 0"
proof -
  let ?adjust = "adjust_proxied_witness_votes_array fc STEEMIT_MAX_PROXY_RECURSION_DEPTH (awp_account op)"
  let ?set = "modify_account (awp_account op) (\<lambda>a. Inr (a\<lparr>acc_proxy := awp_proxy op\<rparr>))"
  obtain delta db1 where db1: "?adjust delta db = Inr db1" and
    rest: "?set db1 = Inr db' \<or>
      (\<exists>db2 db3 delta'. clear_witness_votes (awp_account op) db1 = Inr db2 \<and> ?set db2 = Inr db3 \<and>
        ?adjust delta' db3 = Inr db')"
    using assms(2) unfolding account_witness_proxy_evaluator_def bindR_eq_Inr if_eq_Inr by blast
  have m1: "moves db db1 0 0 0" using adjust_proxied_witness_votes_array_moves [OF assms(1) db1] .
  have set: "moves db a 0 0 0 \<Longrightarrow> ?set a = Inr b \<Longrightarrow> moves db b 0 0 0" for a b
    by (erule neutral_after) (auto simp: credited_def)
  from rest show ?thesis
  proof (elim disjE exE conjE)
    fix db2 db3 delta' assume run: "clear_witness_votes (awp_account op) db1 = Inr db2" "?set db2 = Inr db3"
      "?adjust delta' db3 = Inr db'"
    from set [OF step_after [OF m1 clear_witness_votes_moves [OF _ run(1)]] run(2)]
      adjust_proxied_witness_votes_array_moves [OF _ run(3)] show ?thesis by (rule step_after)
  qed (rule set [OF m1])
qed

lemma create_witness_vote_moves:
  "ledger_ok db \<Longrightarrow> create_witness_vote w i db = Inr db' \<Longrightarrow> moves db db' 0 0 0"
  by (auto simp: create_witness_vote_def moves_refl)

lemma adjust_votes_after:
  assumes "moves db db1 0 0 0"
  shows "adjust_witness_vote fc i d db1 = Inr db' \<Longrightarrow> moves db db' 0 0 0"
    "adjust_proxied_witness_votes fc l n d db1 = Inr db' \<Longrightarrow> moves db db' 0 0 0"
    "create_witness_vote w j db1 = Inr db' \<Longrightarrow> moves db db' 0 0 0"
  using step_after [OF assms] adjust_witness_vote_moves adjust_proxied_witness_votes_moves
    create_witness_vote_moves by blast+

lemma account_witness_vote_moves:
  assumes "ledger_ok db" "account_witness_vote_evaluator fc op db = Inr db'"
  shows "moves db db' 0 0 0"
  using assms
  by (auto simp: account_witness_vote_evaluator_def credited_def moves_refl split: option.splits if_splits
      elim!: neutral_after [rotated] adjust_votes_after [rotated])

lemma feed_publish_moves:
  "ledger_ok db \<Longrightarrow> feed_publish_evaluator op db = Inr db' \<Longrightarrow> moves db db' 0 0 0"
  by (auto simp: feed_publish_evaluator_def moves_refl)

lemma decline_voting_rights_moves:
  "ledger_ok db \<Longrightarrow> decline_voting_rights_evaluator op db = Inr db' \<Longrightarrow> moves db db' 0 0 0"
  by (auto simp: decline_voting_rights_evaluator_def Let_def moves_refl split: if_splits)

lemma prove_authority_moves:
  "ledger_ok db \<Longrightarrow> prove_authority_evaluator op db = Inr db' \<Longrightarrow> moves db db' 0 0 0"
  by (auto simp: prove_authority_evaluator_def credited_def Let_def moves_refl elim!: neutral_after [rotated])

section \<open>Challenges and referrals\<close>

text \<open>A fee in GOLOS that is turned into vesting shares of another account.\<close>

lemma fee_to_vesting_moves:
  assumes "fc_safe fc" "ledger_ok db" "asset_neg fc fee = Inr neg" "adjust_balance fc n neg db = Inr db1"
    "create_vesting fc m fee db1 = Inr (v, db')"
  shows "moves db db' 0 0 0"
proof -
  have m: "moves db db1 (amt STEEM_SYMBOL fee) (amt SBD_SYMBOL fee) 0" using debit_moves [OF assms(1-4)] by blast
  have "moves db1 db' (- amount fee) 0 0" and s: "symbol fee = STEEM_SYMBOL"
    using create_vesting_moves [OF assms(1) moves_ok [OF m] assms(5)] by auto
  from moves_trans [OF m this(1)] s show ?thesis by (simp add: amt_def)
qed

lemma challenge_authority_moves:
  assumes "fc_safe fc" "ledger_ok db" "challenge_authority_evaluator fc op db = Inr db'"
  shows "moves db db' 0 0 0"
  using assms
  by (auto simp: challenge_authority_evaluator_def credited_def split: if_splits
      elim!: neutral_after [rotated] fee_to_vesting_moves)

lemma break_free_referral_moves:
  assumes "fc_safe fc" "ledger_ok db" "break_free_referral_evaluator fc op db = Inr db'"
  shows "moves db db' 0 0 0"
proof -
  obtain fee neg db1 n db2 where run: "asset_neg fc fee = Inr neg" "adjust_balance fc (bfr_referral op) neg db = Inr db1"
    "adjust_balance fc n fee db1 = Inr db2"
    "modify_account (bfr_referral op) (\<lambda>a. Inr (a\<lparr>acc_referrer_account := [],
       acc_referrer_interest_rate := 0, acc_referral_end_date := 0,
       acc_referral_break_fee := (acc_referral_break_fee a)\<lparr>amount := 0\<rparr>\<rparr>)) db2 = Inr db'"
    using assms(3) unfolding break_free_referral_evaluator_def bindR_eq_Inr by blast
  have m: "moves db db1 (amt STEEM_SYMBOL fee) (amt SBD_SYMBOL fee) 0"
    using debit_moves [OF assms(1,2) run(1,2)] by blast
  have "moves db db2 0 0 0" using moves_trans [OF m credit_moves_amt [OF assms(1) moves_ok [OF m] run(3)]] by simp
  then show ?thesis using run(4) by (rule neutral_after) (auto simp: credited_def)
qed

section \<open>Delegation\<close>

text \<open>Delegating changes what an account may use, not what it owns.\<close>

lemma create_delegation_expiration_moves [simp]:
  "moves db (create_delegation_expiration n s d db') x y z = moves db db' x y z"
  by (simp add: create_delegation_expiration_def)

lemma add_delegated_credited: "add_delegated fc d a = Inr a' \<Longrightarrow> credited a a' 0 0"
  by (auto simp: add_delegated_def credited_def)

lemma add_received_credited: "add_received fc d a = Inr a' \<Longrightarrow> credited a a' 0 0"
  by (auto simp: add_received_def credited_def)

lemma delegate_vesting_shares_cases:
  assumes "delegate_vesting_shares fc a b s mk chk db = Inr db'"
  obtains (fresh) ds db1 where "find_delegation a b db = None" "amount s > 0"
      "create_in vdo_key (mk \<lparr>vdo_id = db_next_id db vesting_delegation_object_type,
         vdo_delegator = a, vdo_delegatee = b, vdo_vesting_shares = s, vdo_interest_rate = 0,
         vdo_payout_strategy = to_delegator, vdo_min_delegation_time = head_block_time db\<rparr>) (db_delegations db) = Inr ds"
      "modify_account a (add_delegated fc s)
         (bump_id vesting_delegation_object_type (db\<lparr>db_delegations := ds\<rparr>)) = Inr db1"
      "modify_account b (add_received fc s) db1 = Inr db'"
  | (change) d delta neg db1 db2 where "find_delegation a b db = Some d"
      "asset_sub fc s (vdo_vesting_shares d) = Inr delta"
      "amount delta > 0 \<and> modify_account a (add_delegated fc delta) db = Inr db1 \<or>
       \<not> amount delta > 0 \<and> asset_neg fc delta = Inr neg \<and> db1 = create_delegation_expiration a neg d db"
      "modify_account b (add_received fc delta) db1 = Inr db2"
      "amount s > 0 \<and> db2\<lparr>db_delegations := upd_by vdo_key (d\<lparr>vdo_vesting_shares := s\<rparr>) (db_delegations db2)\<rparr> = db' \<or>
       \<not> amount s > 0 \<and> db2\<lparr>db_delegations := del_by vdo_key (vdo_key d) (db_delegations db2)\<rparr> = db'"
proof (cases "find_delegation a b db")
  case None
  then show ?thesis
    using assms fresh unfolding delegate_vesting_shares_def Let_def option.case bindR_eq_Inr if_eq_Inr
    by simp blast
next
  case (Some d)
  then show ?thesis
    using assms change [OF Some] unfolding delegate_vesting_shares_def Let_def Some option.case bindR_eq_Inr if_eq_Inr
      sum.inject by blast
qed

lemma delegate_vesting_shares_moves:
  assumes "ledger_ok db" "delegate_vesting_shares fc a b s mk chk db = Inr db'"
  shows "moves db db' 0 0 0"
  using assms(2)
proof (cases rule: delegate_vesting_shares_cases)
  case (fresh ds db1)
  have "moves db db1 0 0 0"
    using fresh(4) by (rule neutral_after [rotated]) (simp_all add: moves_refl assms(1) add_delegated_credited)
  then show ?thesis using fresh(5) add_received_credited by (rule neutral_after)
next
  case (change d delta neg db1 db2)
  have "moves db db1 0 0 0"
    using change(3) neutral_after [OF moves_refl [OF assms(1)] _ add_delegated_credited] moves_refl [OF assms(1)] by auto
  then have "moves db db2 0 0 0" using change(4) add_received_credited by (rule neutral_after)
  then show ?thesis using change(5) by auto
qed

lemma delegate_vesting_shares_evaluator_moves:
  "ledger_ok db \<Longrightarrow> delegate_vesting_shares_evaluator fc op db = Inr db' \<Longrightarrow> moves db db' 0 0 0"
  unfolding delegate_vesting_shares_evaluator_def by (rule delegate_vesting_shares_moves)

lemma delegate_with_interest_moves:
  "ledger_ok db \<Longrightarrow> delegate_vesting_shares_with_interest_evaluator fc op db = Inr db' \<Longrightarrow> moves db db' 0 0 0"
  by (auto simp: delegate_vesting_shares_with_interest_evaluator_def elim!: delegate_vesting_shares_moves)

lemma reject_delegation_moves:
  "ledger_ok db \<Longrightarrow> reject_vesting_shares_delegation_evaluator fc op db = Inr db' \<Longrightarrow> moves db db' 0 0 0"
  by (auto simp: reject_vesting_shares_delegation_evaluator_def Let_def credited_def moves_refl
      elim!: neutral_after [rotated])

lemma return_delegation_moves:
  "ledger_ok db \<Longrightarrow> return_delegation fc d db = Inr db' \<Longrightarrow> moves db db' 0 0 0"
  by (auto simp: return_delegation_def Let_def credited_def moves_refl elim!: neutral_after [rotated])

lemma clear_expired_delegations_moves:
  "ledger_ok db \<Longrightarrow> clear_expired_delegations fc db = Inr db' \<Longrightarrow> moves db db' 0 0 0"
  unfolding clear_expired_delegations_def using foldR_moves return_delegation_moves by metis

end
