(* ===== verification/Maintenance_Conservation.thy ===== *)
theory Maintenance_Conservation
  imports Vote_Conservation Maintenance
begin

text \<open>
  Conservation of value by the maintenance a block performs: the supply grows or shrinks by exactly
  what the holders gain or lose, so that the gaps of the ledger stay as they are.
\<close>

section \<open>Fees and the null account\<close>

lemma moves_sum0: "moves db db' s g v \<Longrightarrow> s = 0 \<Longrightarrow> g = 0 \<Longrightarrow> v = 0 \<Longrightarrow> moves db db' 0 0 0"
  by simp

lemma shrink_supply_exact:
  assumes "fc_safe fc" "ledger_ok db" "asset_neg fc a = Inr neg" "adjust_supply fc neg b db = Inr db'"
  shows "moves db db' (- amt STEEM_SYMBOL a) (- amt SBD_SYMBOL a) 0"
  using adjust_supply_moves [OF assms(1,2,4)] assms(1,3)
  by (auto simp: fc_simps amt_def split: if_splits)

lemma pay_fee_moves:
  assumes "fc_safe fc" "ledger_ok db" "pay_fee fc n fee db = Inr db'"
  shows "moves db db' 0 0 0"
proof (cases "amount fee = 0")
  case False
  then obtain neg db1 where run: "asset_neg fc fee = Inr neg" "adjust_balance fc n neg db = Inr db1"
    "adjust_supply fc neg False db1 = Inr db'"
    using assms(3) by (auto simp: pay_fee_def)
  have m: "moves db db1 (amt STEEM_SYMBOL fee) (amt SBD_SYMBOL fee) 0"
    using debit_moves [OF assms(1,2) run(1,2)] by blast
  from moves_trans [OF m shrink_supply_exact [OF assms(1) moves_ok [OF m] run(1,3)]] show ?thesis by simp
qed (use assms in \<open>auto simp: pay_fee_def moves_refl\<close>)

text \<open>An adjustment of a balance that enters the ledger with its full amount.\<close>

definition exact_adjust ::
  "fc_lib \<Rightarrow> (fc_lib \<Rightarrow> account_name_type \<Rightarrow> asset \<Rightarrow> database \<Rightarrow> database res) \<Rightarrow> bool" where
  "exact_adjust fc adjust \<longleftrightarrow> (\<forall>n d db db'. ledger_ok db \<longrightarrow> adjust fc n d db = Inr db' \<longrightarrow>
     moves db db' (- amt STEEM_SYMBOL d) (- amt SBD_SYMBOL d) 0)"

lemma exact_adjusts: "fc_safe fc \<Longrightarrow> exact_adjust fc adjust_balance" "fc_safe fc \<Longrightarrow> exact_adjust fc adjust_savings_balance"
  using adjust_balance_moves adjust_savings_balance_moves by (auto simp: exact_adjust_def)

text \<open>The total collected so far is what left the balances: it is not negative.\<close>

definition drained :: "database \<Rightarrow> database \<Rightarrow> asset \<Rightarrow> asset \<Rightarrow> bool" where
  "drained db db' t t' \<longleftrightarrow> symbol t' = symbol t \<and> amount t \<le> amount t' \<and>
     moves db db' (amt STEEM_SYMBOL t' - amt STEEM_SYMBOL t) (amt SBD_SYMBOL t' - amt SBD_SYMBOL t) 0"

lemma drain_null_drained:
  assumes "fc_safe fc" "ledger_ok db" "exact_adjust fc adjust" "drain_null fc field adjust (t, db) = Inr (t', db')"
  shows "drained db db' t t'"
proof (cases "db' = db \<and> t' = t")
  case False
  then obtain a neg where run: "amount (field a) > 0" "asset_add fc t (field a) = Inr t'"
    "asset_neg fc (field a) = Inr neg" "adjust fc STEEMIT_NULL_ACCOUNT neg db = Inr db'"
    using assms(4) by (auto simp: drain_null_def split: if_splits)
  have "moves db db' (- amt STEEM_SYMBOL neg) (- amt SBD_SYMBOL neg) 0"
    using assms(2,3) run(4) by (simp add: exact_adjust_def)
  then show ?thesis
    using run assms(1) by (auto simp: drained_def fc_simps amt_def split: if_splits)
qed (use assms in \<open>simp add: drained_def moves_refl\<close>)

lemma drain_null_vesting_drained:
  assumes "fc_safe fc" "ledger_ok db" "drain_null_vesting fc (t, db) = Inr (t', db')" "symbol t = STEEM_SYMBOL"
    and nonneg: "\<And>a c. get_account STEEMIT_NULL_ACCOUNT db = Inr a \<Longrightarrow>
      asset_mul_price fc (acc_vesting_shares a) (get_vesting_share_price (db_dgp db)) = Inr c \<Longrightarrow> 0 \<le> amount c"
  shows "drained db db' t t'"
proof (cases "db' = db \<and> t' = t")
  case False
  let ?p = "db_dgp db"
  obtain a c shares fund where run: "get_account STEEMIT_NULL_ACCOUNT db = Inr a"
    "asset_mul_price fc (acc_vesting_shares a) (get_vesting_share_price ?p) = Inr c"
    "asset_sub fc (dgp_total_vesting_shares ?p) (acc_vesting_shares a) = Inr shares"
    "asset_sub fc (dgp_total_vesting_fund_steem ?p) c = Inr fund"
    "modify_account STEEMIT_NULL_ACCOUNT (\<lambda>a. Inr (a\<lparr>acc_vesting_shares := (acc_vesting_shares a)\<lparr>amount := 0\<rparr>\<rparr>))
         (db\<lparr>db_dgp := ?p\<lparr>dgp_total_vesting_shares := shares, dgp_total_vesting_fund_steem := fund\<rparr>\<rparr>) = Inr db'"
    "asset_add fc t c = Inr t'"
    using assms(3) False by (auto simp: drain_null_vesting_def Let_def split: if_splits)
  let ?db = "db\<lparr>db_dgp := ?p\<lparr>dgp_total_vesting_shares := shares, dgp_total_vesting_fund_steem := fund\<rparr>\<rparr>"
  have m: "moves db ?db (amount c) 0 (- account_vests a)" and c: "symbol c = STEEM_SYMBOL"
    using run(3,4) ledger_ok_dgp_ok [OF assms(2)] assms(1,2)
    by (auto simp: fc_simps moves_def gap_steem_def gap_sbd_def gap_vests_def dgp_ok_def account_vests_def
        intro!: ledger_ok_dgp)
  have a: "get_account STEEMIT_NULL_ACCOUNT ?db = Inr a" using run(1) get_account_cong [of ?db db] by simp
  have "moves ?db db' (- 0) (- 0) (- (- account_vests a))"
  proof (rule modify_account_moves [OF moves_ok [OF m] run(5)])
    fix x x' assume "get_account STEEMIT_NULL_ACCOUNT ?db = Inr x" "account_ok x"
      "Inr (x\<lparr>acc_vesting_shares := (acc_vesting_shares x)\<lparr>amount := 0\<rparr>\<rparr>) = (Inr x' :: account_object res)"
    then show "acc_name x' = STEEMIT_NULL_ACCOUNT \<and> account_ok x' \<and> account_steem x' = account_steem x + 0 \<and>
        account_sbd x' = account_sbd x + 0 \<and> account_vests x' = account_vests x + - account_vests a"
      using a get_account_name [of STEEMIT_NULL_ACCOUNT ?db x]
      by (auto simp: account_ok_def account_steem_def account_sbd_def account_vests_def)
  qed
  from moves_trans [OF m this] have "moves db db' (amount c) 0 0" by simp
  then show ?thesis
    using run(6) c nonneg [OF run(1,2)] assms(1,4) by (auto simp: drained_def fc_simps amt_def)
qed (use assms in \<open>simp add: drained_def moves_refl\<close>)

lemma shrink_supply_moves:
  assumes "fc_safe fc" "ledger_ok db" "shrink_supply fc t db = Inr db'" "0 \<le> amount t"
  shows "moves db db' (- amt STEEM_SYMBOL t) (- amt SBD_SYMBOL t) 0"
proof (cases "amount t = 0")
  case True
  then have "db' = db" "\<And>s. amt s t = 0" using assms(3) by (auto simp: shrink_supply_def amt_zero)
  then show ?thesis using moves_refl [OF assms(2)] by simp
next
  case False
  then show ?thesis
    using assms(3,4) shrink_supply_exact [OF assms(1,2)] by (auto simp: shrink_supply_def)
qed

text \<open>The vesting shares of the null account are part of the total.\<close>

definition null_vesting_sane :: "database \<Rightarrow> bool" where
  "null_vesting_sane db \<longleftrightarrow> (let p = db_dgp db in
     0 \<le> amount (dgp_total_vesting_fund_steem p) \<and> amount (dgp_total_vesting_fund_steem p) < 2 ^ 63 \<and>
     amount (dgp_total_vesting_shares p) < 2 ^ 63 \<and>
     (\<forall>a. get_account STEEMIT_NULL_ACCOUNT db = Inr a \<longrightarrow>
        0 \<le> amount (acc_vesting_shares a) \<and> amount (acc_vesting_shares a) \<le> amount (dgp_total_vesting_shares p)))"

lemma vests_price_sides:
  assumes "ledger_ok db" "symbol v = VESTS_SYMBOL"
  shows "price_sides v (get_vesting_share_price (db_dgp db)) =
    (if amount (dgp_total_vesting_fund_steem (db_dgp db)) = 0 \<or> amount (dgp_total_vesting_shares (db_dgp db)) = 0
     then Inr (\<lparr>amount = 1000, symbol = STEEM_SYMBOL\<rparr>, \<lparr>amount = 1000000, symbol = VESTS_SYMBOL\<rparr>)
     else Inr (dgp_total_vesting_fund_steem (db_dgp db), dgp_total_vesting_shares (db_dgp db)))"
  using ledger_ok_dgp_ok [OF assms(1)] assms(2)
  by (auto simp: price_sides_def get_vesting_share_price_def asset_symbol_name_def dgp_ok_def)

lemma null_vesting_worth:
  assumes "fc_num fc" "ledger_ok db" "null_vesting_sane db" "get_account STEEMIT_NULL_ACCOUNT db = Inr a"
    "asset_mul_price fc (acc_vesting_shares a) (get_vesting_share_price (db_dgp db)) = Inr c"
  shows "0 \<le> amount c"
proof -
  let ?p = "db_dgp db"
  let ?F = "amount (dgp_total_vesting_fund_steem ?p)" and ?S = "amount (dgp_total_vesting_shares ?p)"
  let ?v = "amount (acc_vesting_shares a)"
  have b: "0 \<le> ?F" "?F < 2 ^ 63" "?S < 2 ^ 63" "0 \<le> ?v" "?v \<le> ?S"
    using assms(3,4) by (auto simp: null_vesting_sane_def Let_def)
  have sy: "symbol (acc_vesting_shares a) = VESTS_SYMBOL"
    using ledger_ok_account [OF assms(2,4)] by (simp add: account_ok_def)
  note sides = vests_price_sides [OF assms(2) sy]
  show ?thesis
  proof (cases "?F = 0 \<or> ?S = 0")
    case True
    have "?v * 1000 div 1000000 \<le> ?v" using b(4) by simp
    then have "?v * 1000 div 1000000 < 2 ^ 63" using b(3,5) by simp
    then have "c = \<lparr>amount = ?v * 1000 div 1000000, symbol = STEEM_SYMBOL\<rparr>"
      using assms(5) asset_mul_price_exact [OF assms(1) _ sides [unfolded if_P [OF True]] b(4)] b True
      by (auto simp: pos_price_def get_vesting_share_price_def)
    then show ?thesis using b(4) by simp
  next
    case False
    have le: "?v * ?F div ?S \<le> ?F"
      using b False mult_right_mono [OF b(5,1)] zdiv_mono1 [of "?v * ?F" "?S * ?F" ?S] by simp
    then have "c = \<lparr>amount = ?v * ?F div ?S, symbol = symbol (dgp_total_vesting_fund_steem ?p)\<rparr>"
      using assms(5) asset_mul_price_exact [OF assms(1) _ sides [unfolded if_not_P [OF False]] b(4)] b False
      by (auto simp: pos_price_def get_vesting_share_price_def)
    then show ?thesis using b False by (simp add: pos_imp_zdiv_nonneg_iff)
  qed
qed

text \<open>Credits of GOLOS and GBG leave the vesting shares and their price alone.\<close>

definition same_vesting :: "database \<Rightarrow> database \<Rightarrow> bool" where
  "same_vesting db db' \<longleftrightarrow>
     dgp_total_vesting_shares (db_dgp db') = dgp_total_vesting_shares (db_dgp db) \<and>
     dgp_total_vesting_fund_steem (db_dgp db') = dgp_total_vesting_fund_steem (db_dgp db) \<and>
     (\<forall>n a'. get_account n db' = Inr a' \<longrightarrow> (\<exists>a. get_account n db = Inr a \<and> acc_vesting_shares a' = acc_vesting_shares a))"

lemma same_vesting_refl: "same_vesting db db"
  by (simp add: same_vesting_def)

lemma same_vesting_trans: "same_vesting db db' \<Longrightarrow> same_vesting db' db'' \<Longrightarrow> same_vesting db db''"
  unfolding same_vesting_def by metis

lemma sane_same_vesting: "null_vesting_sane db \<Longrightarrow> same_vesting db db' \<Longrightarrow> null_vesting_sane db'"
  unfolding null_vesting_sane_def same_vesting_def Let_def by metis

lemma get_set_account:
  "get_account n (set_account a db) =
   (if n = acc_name a then bindR (get_account n db) (\<lambda>_. Inr a) else get_account n db)"
  by (auto simp: get_account_def find_account_def set_account_def table_simps of_option_def split: option.splits)

lemma set_account_vesting:
  assumes "get_account n db = Inr a" "acc_name a' = n" "acc_vesting_shares a' = acc_vesting_shares a"
    "db_accounts db1 = db_accounts db"
    "dgp_total_vesting_shares (db_dgp db1) = dgp_total_vesting_shares (db_dgp db)"
    "dgp_total_vesting_fund_steem (db_dgp db1) = dgp_total_vesting_fund_steem (db_dgp db)"
  shows "same_vesting db (set_account a' db1)"
  using assms get_account_cong [OF assms(4)]
  by (auto simp: same_vesting_def get_set_account split: if_splits) (auto simp: set_account_def)

lemma adjust_balance_vesting: "adjust_balance fc n d db = Inr db' \<Longrightarrow> same_vesting db db'"
  by (auto simp: adjust_balance_def modify_account_def adjust_sbd_balance_def accrue_sbd_interest_def
      add_interest_supply_def push_virtual_operation_def Let_def get_account_name split: if_splits
      intro!: set_account_vesting)

lemma adjust_savings_balance_vesting: "adjust_savings_balance fc n d db = Inr db' \<Longrightarrow> same_vesting db db'"
  by (auto simp: adjust_savings_balance_def modify_account_def accrue_savings_interest_def
      add_interest_supply_def push_virtual_operation_def Let_def get_account_name split: if_splits
      intro!: set_account_vesting)

lemma drain_null_vesting_same:
  assumes "drain_null fc field adjust (t, db) = Inr (t', db')"
    "\<And>n d db'. adjust fc n d db = Inr db' \<Longrightarrow> same_vesting db db'"
  shows "same_vesting db db'"
  using assms by (auto simp: drain_null_def same_vesting_refl split: if_splits)

lemma drained_trans: "drained db db1 t t1 \<Longrightarrow> drained db1 db2 t1 t2 \<Longrightarrow> drained db db2 t t2"
  using moves_trans [of db db1 _ _ _ db2] by (fastforce simp: drained_def)

lemma clear_null_account_balance_moves:
  assumes "fc_num fc" "ledger_ok db" "null_vesting_sane db" "clear_null_account_balance fc db = Inr db'"
  shows "moves db db' 0 0 0"
proof (cases "has_hardfork 14 db")
  case True
  have safe: "fc_safe fc" using assms(1) by (simp add: fc_num_def)
  let ?S = "\<lparr>amount = 0, symbol = STEEM_SYMBOL\<rparr>" and ?G = "\<lparr>amount = 0, symbol = SBD_SYMBOL\<rparr>"
  obtain s1 db1 s2 db2 g1 db3 g2 db4 s3 db5 db6 where run:
    "drain_null fc acc_balance adjust_balance (?S, db) = Inr (s1, db1)"
    "drain_null fc acc_savings_balance adjust_savings_balance (s1, db1) = Inr (s2, db2)"
    "drain_null fc acc_sbd_balance adjust_balance (?G, db2) = Inr (g1, db3)"
    "drain_null fc acc_savings_sbd_balance adjust_savings_balance (g1, db3) = Inr (g2, db4)"
    "drain_null_vesting fc (s2, db4) = Inr (s3, db5)" "shrink_supply fc s3 db5 = Inr db6" "shrink_supply fc g2 db6 = Inr db'"
    using assms(4) True by (auto simp: clear_null_account_balance_def)
  note ok = drained_def [THEN iffD1, THEN conjunct2, THEN conjunct2, THEN moves_ok]
  note d1 = drain_null_drained [OF safe assms(2) exact_adjusts(1) [OF safe] run(1)]
  note d2 = drain_null_drained [OF safe ok [OF d1] exact_adjusts(2) [OF safe] run(2)]
  note d3 = drain_null_drained [OF safe ok [OF d2] exact_adjusts(1) [OF safe] run(3)]
  note d4 = drain_null_drained [OF safe ok [OF d3] exact_adjusts(2) [OF safe] run(4)]
  have "same_vesting db db4"
    using run(1-4) [THEN drain_null_vesting_same] adjust_balance_vesting adjust_savings_balance_vesting
      same_vesting_trans by metis
  from null_vesting_worth [OF assms(1) ok [OF d4] sane_same_vesting [OF assms(3) this]]
  have worth: "\<And>a c. get_account STEEMIT_NULL_ACCOUNT db4 = Inr a \<Longrightarrow>
      asset_mul_price fc (acc_vesting_shares a) (get_vesting_share_price (db_dgp db4)) = Inr c \<Longrightarrow> 0 \<le> amount c" .
  have s2: "symbol s2 = STEEM_SYMBOL" using d1 d2 by (simp add: drained_def)
  have d5: "drained db4 db5 s2 s3"
    by (rule drain_null_vesting_drained [OF safe ok [OF d4] run(5) s2]) (rule worth)
  have nn: "0 \<le> amount s3" "0 \<le> amount g2" "symbol s3 = STEEM_SYMBOL" "symbol g2 = SBD_SYMBOL"
    using d1 d2 d3 d4 d5 by (auto simp: drained_def)
  note e1 = shrink_supply_moves [OF safe ok [OF d5] run(6) nn(1)]
  note e2 = shrink_supply_moves [OF safe moves_ok [OF e1] run(7) nn(2)]
  show ?thesis
    using d1 d2 d3 d4 d5 e1 e2 nn by (auto simp: drained_def moves_def amt_def)
qed (use assms in \<open>simp add: clear_null_account_balance_def moves_refl\<close>)

section \<open>Inflation\<close>

lemma grow_funds_moves:
  assumes "fc_safe fc" "ledger_ok db" "grow_funds fc v c n db = Inr db'"
  shows "moves db db' (amount n - amount v - amount c) 0 0 \<and> symbol n = STEEM_SYMBOL"
  using assms ledger_ok_dgp_ok [OF assms(2)]
  by (auto simp: grow_funds_def Let_def fc_simps moves_def gap_steem_def gap_sbd_def gap_vests_def dgp_ok_def
      intro!: ledger_ok_dgp)

lemma process_funds_hf16_moves:
  assumes "fc_safe fc" "ledger_ok db" "process_funds_hf16 fc w db = Inr db'"
  shows "moves db db' 0 0 0"
proof -
  obtain c v p n db1 nv db2 where run: "n = c + v + p"
    "grow_funds fc \<lparr>amount = v, symbol = STEEM_SYMBOL\<rparr> \<lparr>amount = c, symbol = STEEM_SYMBOL\<rparr>
       \<lparr>amount = n, symbol = STEEM_SYMBOL\<rparr> db = Inr db1"
    "create_vesting fc (wit_owner w) \<lparr>amount = p, symbol = STEEM_SYMBOL\<rparr> db1 = Inr (nv, db2)"
    "db' = push_virtual_operation (Producer_reward (wit_owner w) nv) db2"
    using assms(1,3) by (auto simp: process_funds_hf16_def fc_simps)
  have m: "moves db db1 p 0 0" using grow_funds_moves [OF assms(1,2) run(2)] run(1) by simp
  have "moves db1 db2 (- p) 0 0" using create_vesting_moves [OF assms(1) moves_ok [OF m] run(3)] by simp
  from moves_trans [OF m this] run(4) show ?thesis by simp
qed

lemma pay_producer_moves:
  assumes "fc_safe fc" "ledger_ok db" "pay_producer fc w pay db = Inr (r, db')"
  shows "moves db db' (- amount pay) 0 0"
proof (cases r)
  case None
  have r: "modify_account (wit_owner w) (\<lambda>a.
      bindR (asset_add fc (acc_balance a) pay) (\<lambda>b. Inr (a\<lparr>acc_balance := b\<rparr>))) db = Inr db'"
    using assms(3) None by (auto simp: pay_producer_def split: if_splits)
  have "moves db db' (- amount pay) (- 0) (- 0)"
    by (rule modify_account_moves [OF assms(2) r])
      (use assms(1) get_account_name in \<open>auto simp: fc_simps account_ok_def account_steem_def account_sbd_def account_vests_def\<close>)
  then show ?thesis by simp
next
  case (Some nv)
  then have "create_vesting fc (wit_owner w) pay db = Inr (nv, db')"
    using assms(3) by (auto simp: pay_producer_def split: if_splits)
  from create_vesting_moves [OF assms(1,2) this] show ?thesis by simp
qed

lemma process_funds_pre_hf16_moves:
  assumes "fc_safe fc" "ledger_ok db" "process_funds_pre_hf16 fc w db = Inr db'"
  shows "moves db db' 0 0 0"
proof -
  obtain pay r db1 c paid v n db2 where run: "pay_producer fc w pay db = Inr (r, db1)"
    "asset_add fc c pay = Inr paid" "asset_add fc paid v = Inr n" "grow_funds fc v c n db1 = Inr db2"
    "db' = (case r of None \<Rightarrow> db2 | Some nv \<Rightarrow> push_virtual_operation (Producer_reward (wit_owner w) nv) db2)"
    using assms(3) unfolding process_funds_pre_hf16_def Let_def bindR_eq_Inr by (auto cong: option.case_cong)
  note m = pay_producer_moves [OF assms(1,2) run(1)]
  have "moves db1 db2 (amount pay) 0 0"
    using grow_funds_moves [OF assms(1) moves_ok [OF m] run(4)] run(2,3) assms(1) by (simp add: fc_simps)
  from moves_trans [OF m this] run(5) show ?thesis by (cases r) simp_all
qed

lemma process_funds_moves:
  "fc_safe fc \<Longrightarrow> ledger_ok db \<Longrightarrow> process_funds fc db = Inr db' \<Longrightarrow> moves db db' 0 0 0"
  using process_funds_hf16_moves process_funds_pre_hf16_moves by (auto simp: process_funds_def split: if_splits)

lemma pay_liquidity_reward_moves:
  assumes "fc_safe fc" "ledger_ok db" "pay_liquidity_reward fc db = Inr db'"
  shows "moves db db' 0 0 0"
proof (cases "db' = db")
  case False
  then obtain r db1 n db2 where run: "adjust_supply fc r True db = Inr db1" "adjust_balance fc n r db1 = Inr db2"
    "moves db db' 0 0 0 = moves db db2 0 0 0"
    using assms(3) by (auto simp: pay_liquidity_reward_def split: if_splits list.splits)
  note m = adjust_supply_moves [OF assms(1,2) run(1)]
  from moves_trans [OF m credit_moves_amt [OF assms(1) moves_ok [OF m] run(2)]] run(3) show ?thesis by simp
qed (simp add: assms moves_refl)

section \<open>Price feed and virtual supply\<close>

lemma ledger_dgp_neutral:
  assumes "ledger_ok db" "dgp_current_supply p = dgp_current_supply (db_dgp db)"
    "dgp_current_sbd_supply p = dgp_current_sbd_supply (db_dgp db)"
    "dgp_total_vesting_fund_steem p = dgp_total_vesting_fund_steem (db_dgp db)"
    "dgp_total_vesting_shares p = dgp_total_vesting_shares (db_dgp db)"
    "dgp_total_reward_fund_steem p = dgp_total_reward_fund_steem (db_dgp db)"
  shows "moves db (db\<lparr>db_dgp := p\<rparr>) 0 0 0"
  using assms ledger_ok_dgp_ok [OF assms(1)]
  by (auto simp: moves_def gap_steem_def gap_sbd_def gap_vests_def dgp_ok_def intro!: ledger_ok_dgp)

text \<open>What the two functions change: the feed and the flag, the virtual supply and the printing rate.\<close>

lemma update_median_feed_Inr:
  assumes "update_median_feed fc db = Inr db'"
  shows "\<exists>fd b. db' = db\<lparr>db_feed := fd, db_dgp := (db_dgp db)\<lparr>dgp_is_forced_min_price := dgp_is_forced_min_price (db_dgp db) \<or> b\<rparr>\<rparr>"
proof (cases "db' = db")
  case True
  then show ?thesis by (intro exI [of _ "db_feed db"] exI [of _ False]) simp
next
  case False
  then obtain b fd where "db' = db\<lparr>db_feed := fd, db_dgp := (if b then (db_dgp db)\<lparr>dgp_is_forced_min_price := True\<rparr> else db_dgp db)\<rparr>"
    using assms unfolding update_median_feed_def bindR_eq_Inr if_eq_Inr case_prod_beta sum.inject by blast
  then show ?thesis by (intro exI [of _ fd] exI [of _ b]) simp
qed

lemma update_virtual_supply_Inr:
  assumes "update_virtual_supply fc db = Inr db'"
  shows "\<exists>v r. db' = db\<lparr>db_dgp := (db_dgp db)\<lparr>dgp_virtual_supply := v, dgp_sbd_print_rate := r\<rparr>\<rparr>"
proof -
  obtain v r where "db' = db\<lparr>db_dgp := (db_dgp db)\<lparr>dgp_virtual_supply := v\<rparr>\<rparr> \<or>
      db' = db\<lparr>db_dgp := (db_dgp db)\<lparr>dgp_virtual_supply := v, dgp_sbd_print_rate := r\<rparr>\<rparr>"
    using assms unfolding update_virtual_supply_def Let_def bindR_eq_Inr if_eq_Inr sum.inject by blast
  moreover have "db\<lparr>db_dgp := (db_dgp db)\<lparr>dgp_virtual_supply := v\<rparr>\<rparr> =
      db\<lparr>db_dgp := (db_dgp db)\<lparr>dgp_virtual_supply := v, dgp_sbd_print_rate := dgp_sbd_print_rate (db_dgp db)\<rparr>\<rparr>" by simp
  ultimately show ?thesis by metis
qed

lemma update_median_feed_moves:
  assumes "ledger_ok db" "update_median_feed fc db = Inr db'"
  shows "moves db db' 0 0 0"
proof -
  obtain fd b where "db' = db\<lparr>db_feed := fd, db_dgp := (db_dgp db)\<lparr>dgp_is_forced_min_price := b\<rparr>\<rparr>"
    using update_median_feed_Inr [OF assms(2)] by blast
  moreover have "moves db (db\<lparr>db_feed := fd\<rparr>) 0 0 0" using moves_refl [OF assms(1)] by simp
  ultimately show ?thesis
    using step_after [of db "db\<lparr>db_feed := fd\<rparr>"] ledger_dgp_neutral [of "db\<lparr>db_feed := fd\<rparr>"] by simp
qed

lemma update_virtual_supply_moves:
  assumes "ledger_ok db" "update_virtual_supply fc db = Inr db'"
  shows "moves db db' 0 0 0"
proof -
  obtain v r where "db' = db\<lparr>db_dgp := (db_dgp db)\<lparr>dgp_virtual_supply := v, dgp_sbd_print_rate := r\<rparr>\<rparr>"
    using update_virtual_supply_Inr [OF assms(2)] by blast
  then show ?thesis using ledger_dgp_neutral [OF assms(1)] by simp
qed

section \<open>Conversions, savings, declined rights\<close>

text \<open>A conversion destroys the GBG of the request and pays out GOLOS; the totals are booked after the loop.\<close>

lemma convert_one_moves:
  assumes "fc_safe fc" "ledger_ok db" "find_by cvt_key (cvt_key c) (db_converts db) = Some c"
    "convert_one fc c (ns, nt, db) = Inr (ns', nt', db')" "symbol nt = STEEM_SYMBOL"
  shows "moves db db' (amount nt - amount nt') (amount ns' - amount ns) 0 \<and> symbol nt' = STEEM_SYMBOL \<and>
    symbol ns' = symbol ns \<and> db_converts db' = del_by cvt_key (cvt_key c) (db_converts db) \<and> db_feed db' = db_feed db"
proof -
  obtain iss db1 v where run: "adjust_balance fc (cvt_owner c) iss db = Inr db1"
    "asset_add fc ns (cvt_amount c) = Inr ns'" "asset_add fc nt iss = Inr nt'"
    "db' = (push_virtual_operation v db1)\<lparr>db_converts := del_by cvt_key (cvt_key c) (db_converts db1)\<rparr>"
    using assms(4) by (auto simp: convert_one_def Let_def push_virtual_operation_def)
  have i: "symbol iss = STEEM_SYMBOL" "amount nt' = amount nt + amount iss" "symbol nt' = STEEM_SYMBOL"
    "amount ns' = amount ns + amount (cvt_amount c)" "symbol ns' = symbol ns"
    using run(2,3) assms(1,5) by (auto simp: fc_simps)
  have same: "db_converts db1 = db_converts db" "db_feed db1 = db_feed db"
    using adjust_balance_pending [OF run(1)] by (auto simp: same_pending_def)
  have m: "moves db (push_virtual_operation v db1) (- amount iss) 0 0"
    using credit_moves_amt [OF assms(1,2) run(1)] i(1) by (simp add: amt_def)
  have "moves (push_virtual_operation v db1) db' 0 (amount (cvt_amount c)) 0"
    using remove_convert_moves [OF moves_ok [OF m], of "cvt_key c" c] assms(3) same run(4)
    by (simp add: push_virtual_operation_def)
  from moves_trans [OF m this] show ?thesis
    using i same run(4) by (simp add: push_virtual_operation_def)
qed

lemma convert_loop_moves:
  assumes "fc_safe fc"
  shows "foldR (convert_one fc) cs (ns, nt, db) = Inr (ns', nt', db') \<Longrightarrow> ledger_ok db \<Longrightarrow> symbol nt = STEEM_SYMBOL \<Longrightarrow>
    distinct (map cvt_key cs) \<Longrightarrow> (\<And>c. c \<in> set cs \<Longrightarrow> find_by cvt_key (cvt_key c) (db_converts db) = Some c) \<Longrightarrow>
    moves db db' (amount nt - amount nt') (amount ns' - amount ns) 0 \<and> symbol nt' = STEEM_SYMBOL \<and> symbol ns' = symbol ns"
proof (induction cs arbitrary: ns nt db)
  case (Cons c cs)
  obtain ns1 nt1 db1 where run: "convert_one fc c (ns, nt, db) = Inr (ns1, nt1, db1)"
    "foldR (convert_one fc) cs (ns1, nt1, db1) = Inr (ns', nt', db')"
    using Cons.prems(1) by auto
  have c: "find_by cvt_key (cvt_key c) (db_converts db) = Some c" using Cons.prems(5) by simp
  note s = convert_one_moves [OF assms Cons.prems(2) c run(1) Cons.prems(3)]
  have "find_by cvt_key (cvt_key y) (db_converts db1) = Some y" if "y \<in> set cs" for y
  proof -
    have "cvt_key y \<noteq> cvt_key c" using that Cons.prems(4) by (auto simp: image_iff)
    then show ?thesis using s that Cons.prems(5) [of y] by (simp add: table_simps)
  qed
  with s have "moves db1 db' (amount nt1 - amount nt') (amount ns' - amount ns1) 0 \<and> symbol nt' = STEEM_SYMBOL \<and>
      symbol ns' = symbol ns1"
    using Cons.IH [OF run(2) moves_ok [OF conjunct1 [OF s]]] Cons.prems(4) by simp
  with s moves_trans [OF conjunct1 [OF s]] show ?case by fastforce
qed (simp add: moves_refl)

lemma process_conversions_moves:
  assumes "fc_safe fc" "ledger_ok db" "process_conversions fc db = Inr db'"
  shows "moves db db' 0 0 0"
proof (cases "price_is_null fc (fho_current_median_history (db_feed db))")
  case False
  obtain ns nt db1 sup sbd v where run:
    "foldR (convert_one fc) (due_conversions db) (\<lparr>amount = 0, symbol = SBD_SYMBOL\<rparr>, \<lparr>amount = 0, symbol = STEEM_SYMBOL\<rparr>, db) =
      Inr (ns, nt, db1)"
    "asset_add fc (dgp_current_supply (db_dgp db1)) nt = Inr sup"
    "asset_sub fc (dgp_current_sbd_supply (db_dgp db1)) ns = Inr sbd"
    "db' = db1\<lparr>db_dgp := (db_dgp db1)\<lparr>dgp_current_supply := sup, dgp_current_sbd_supply := sbd, dgp_virtual_supply := v\<rparr>\<rparr>"
    using assms(3) False by (auto simp: process_conversions_def Let_def)
  have d: "distinct (map cvt_key (db_converts db))" using assms(2) by (simp add: ledger_ok_def)
  have "moves db db1 (- amount nt) (amount ns) 0"
    using convert_loop_moves [OF assms(1) run(1) assms(2)] distinct_keys_due [OF d] due_present [OF d]
    by (simp add: due_conversions_def)
  moreover have "moves db1 db' (amount nt) (- amount ns) 0"
    using run(2-4) ledger_ok_dgp_ok [OF moves_ok [OF calculation]] moves_ok [OF calculation] assms(1)
    by (auto simp: fc_simps moves_def gap_steem_def gap_sbd_def gap_vests_def dgp_ok_def intro!: ledger_ok_dgp)
  ultimately show ?thesis using moves_trans by fastforce
qed (use assms in \<open>simp add: process_conversions_def moves_refl\<close>)

lemma process_savings_withdraws_moves:
  assumes "fc_safe fc" "ledger_ok db" "process_savings_withdraws fc db = Inr db'"
  shows "moves db db' 0 0 0"
proof (rule foldR_consume [where tab = db_savings and key = swo_key])
  show "foldR (complete_savings_withdraw fc) (due_savings db) db = Inr db'"
    using assms(3) by (simp add: process_savings_withdraws_def)
  have d: "distinct (map swo_key (db_savings db))" using assms(2) by (simp add: ledger_ok_def)
  then show "distinct (map swo_key (due_savings db))" unfolding due_savings_def by (rule distinct_keys_due)
  show "find_by swo_key (swo_key x) (db_savings db) = Some x" if "x \<in> set (due_savings db)" for x
    using due_present [OF d] that unfolding due_savings_def by blast
next
  fix w db db' assume a: "ledger_ok db" "find_by swo_key (swo_key w) (db_savings db) = Some w"
    "complete_savings_withdraw fc w db = Inr db'"
  obtain db1 db2 v where run: "adjust_balance fc (swo_to w) (swo_amount w) db = Inr db1"
    "modify_account (swo_from w) (\<lambda>a. Inr (a\<lparr>acc_savings_withdraw_requests := dec_w 8 (acc_savings_withdraw_requests a)\<rparr>)) db1 = Inr db2"
    "db' = (push_virtual_operation v db2)\<lparr>db_savings := del_by swo_key (swo_key w) (db_savings db2)\<rparr>"
    using a(3) by (auto simp: complete_savings_withdraw_def Let_def push_virtual_operation_def)
  have m: "moves db (push_virtual_operation v db2) (- amt STEEM_SYMBOL (swo_amount w)) (- amt SBD_SYMBOL (swo_amount w)) 0"
    using neutral_after [OF credit_moves_amt [OF assms(1) a(1) run(1)] run(2)] by (auto simp: credited_def)
  have same: "db_savings db2 = db_savings db"
    using adjust_balance_pending [OF run(1)] modify_account_pending [OF run(2)] by (simp add: same_pending_def)
  from moves_trans [OF m remove_savings_moves [OF moves_ok [OF m], of "swo_key w" w]] a(2) same run(3)
  show "moves db db' 0 0 0 \<and> db_savings db' = del_by swo_key (swo_key w) (db_savings db)"
    by (simp add: push_virtual_operation_def)
qed (use assms in simp)

lemma decline_one_moves:
  assumes "ledger_ok db" "decline_one fc r db = Inr db'"
  shows "moves db db' 0 0 0"
proof -
  obtain n delta db1 db2 db3 where run:
    "adjust_proxied_witness_votes_array fc STEEMIT_MAX_PROXY_RECURSION_DEPTH n delta db = Inr db1"
    "clear_witness_votes n db1 = Inr db2"
    "modify_account n (\<lambda>a. Inr (a\<lparr>acc_can_vote := False, acc_proxy := STEEMIT_PROXY_TO_SELF_ACCOUNT\<rparr>)) db2 = Inr db3"
    "db' = db3\<lparr>db_declines := del_by dvo_account (dvo_account r) (db_declines db3)\<rparr>"
    using assms(2) by (auto simp: decline_one_def)
  have "moves db db2 0 0 0"
    using step_after [OF adjust_proxied_witness_votes_array_moves [OF assms(1) run(1)]] clear_witness_votes_moves run(2) by blast
  from neutral_after [OF this run(3)] run(4) show ?thesis by (auto simp: credited_def)
qed

lemma process_decline_voting_rights_moves:
  "ledger_ok db \<Longrightarrow> process_decline_voting_rights fc db = Inr db' \<Longrightarrow> moves db db' 0 0 0"
  unfolding process_decline_voting_rights_def using foldR_moves decline_one_moves by metis

end
