(* ===== verification/Withdrawal_Conservation.thy ===== *)
theory Withdrawal_Conservation
  imports Maintenance_Conservation
begin

text \<open>
  The weekly vesting withdrawals. When the routes of an account allot at most 100 percent, the
  shares sent over the routes and the rest that is converted add up to what leaves the account,
  so the withdrawal conserves vesting shares and GOLOS.
\<close>

section \<open>Invariants of the vote propagation\<close>

lemma adjust_witness_vote_Inr: "adjust_witness_vote fc i delta db = Inr db' \<Longrightarrow> \<exists>w. db' = set_witness w db"
  by (auto simp: adjust_witness_vote_def Let_def split: if_splits)

lemma adjust_witness_votes_inv:
  assumes "P db" "\<And>w db. P db \<Longrightarrow> P (set_witness w db)" "adjust_witness_votes fc a delta db = Inr db'"
  shows "P db'"
proof -
  have "foldR (\<lambda>v. adjust_witness_vote fc (wvo_witness v) delta) vs db = Inr db' \<Longrightarrow> P db \<Longrightarrow> P db'" for vs
  proof (induction vs arbitrary: db)
    case (Cons v vs)
    then obtain db1 where "adjust_witness_vote fc (wvo_witness v) delta db = Inr db1"
      "foldR (\<lambda>v. adjust_witness_vote fc (wvo_witness v) delta) vs db1 = Inr db'" by auto
    then show ?case using Cons.IH Cons.prems(2) assms(2) adjust_witness_vote_Inr by blast
  qed simp
  then show ?thesis using assms by (simp add: adjust_witness_votes_def)
qed

lemma adjust_proxied_Suc_votes:
  "\<exists>f. (\<forall>x y. f x = Inr y \<longrightarrow> (\<exists>v. y = x\<lparr>acc_proxied_vsf_votes := v\<rparr>)) \<and>
   adjust_proxied_witness_votes fc (Suc levels) n delta db = bindR (get_account n db) (\<lambda>a.
     if acc_proxy a \<noteq> STEEMIT_PROXY_TO_SELF_ACCOUNT
     then bindR (modify_account (acc_proxy a) f db) (adjust_proxied_witness_votes fc levels (acc_proxy a) delta)
     else adjust_witness_votes fc a delta db)"
  by (rule exI [of _ "\<lambda>p. bindR (safe_add fc (acc_proxied_vsf_votes p ! (STEEMIT_MAX_PROXY_RECURSION_DEPTH - Suc levels)) delta)
      (\<lambda>v. Inr (p\<lparr>acc_proxied_vsf_votes :=
        (acc_proxied_vsf_votes p)[STEEMIT_MAX_PROXY_RECURSION_DEPTH - Suc levels := v]\<rparr>))"])
    (subst adjust_proxied_witness_votes.simps, auto simp: Let_def cong: if_cong)

lemma adjust_proxied_witness_votes_inv:
  assumes modify: "\<And>n f db db'. P db \<Longrightarrow> modify_account n f db = Inr db' \<Longrightarrow>
      (\<And>a a'. f a = Inr a' \<Longrightarrow> \<exists>v. a' = a\<lparr>acc_proxied_vsf_votes := v\<rparr>) \<Longrightarrow> P db'"
    and witness: "\<And>w db. P db \<Longrightarrow> P (set_witness w db)"
  shows "P db \<Longrightarrow> adjust_proxied_witness_votes fc levels n delta db = Inr db' \<Longrightarrow> P db'"
proof (induction levels arbitrary: n db)
  case 0
  then show ?case
    using adjust_witness_votes_inv [of P db, OF _ witness] by (auto simp: adjust_proxied_0 split: if_splits)
next
  case (Suc levels)
  obtain f where f: "\<And>x y. f x = Inr y \<Longrightarrow> \<exists>v. y = x\<lparr>acc_proxied_vsf_votes := v\<rparr>"
    and eq: "adjust_proxied_witness_votes fc (Suc levels) n delta db = bindR (get_account n db) (\<lambda>a.
     if acc_proxy a \<noteq> STEEMIT_PROXY_TO_SELF_ACCOUNT
     then bindR (modify_account (acc_proxy a) f db) (adjust_proxied_witness_votes fc levels (acc_proxy a) delta)
     else adjust_witness_votes fc a delta db)"
    using adjust_proxied_Suc_votes [of fc levels n delta db] by blast
  from Suc.prems(2) obtain a where a: "get_account n db = Inr a" by (auto simp: eq)
  show ?case
  proof (cases "acc_proxy a = STEEMIT_PROXY_TO_SELF_ACCOUNT")
    case True
    then show ?thesis
      using Suc.prems a adjust_witness_votes_inv [of P db, OF Suc.prems(1) witness] by (auto simp: eq)
  next
    case False
    then obtain db1 where db1: "modify_account (acc_proxy a) f db = Inr db1"
      "adjust_proxied_witness_votes fc levels (acc_proxy a) delta db1 = Inr db'"
      using Suc.prems(2) a by (auto simp: eq)
    from Suc.IH [OF modify [OF Suc.prems(1) db1(1) f] db1(2)] show ?thesis .
  qed
qed

section \<open>States ready for withdrawals\<close>

definition route_total :: "nat \<Rightarrow> withdraw_vesting_route_object list \<Rightarrow> nat" where
  "route_total i rs = (\<Sum>r\<leftarrow>filter (\<lambda>r. wvr_from_account r = i \<and> wvr_to_account r > 0) rs. wvr_percent r)"

definition withdraw_ready :: "withdraw_vesting_route_object list \<Rightarrow> database \<Rightarrow> bool" where
  "withdraw_ready rs db \<longleftrightarrow> db_routes db = rs \<and>
     (\<forall>a \<in> set (db_accounts db). amount (acc_vesting_shares a) < 2 ^ 63 \<and> route_total (acc_id a) rs \<le> STEEMIT_100_PERCENT)"

lemma modify_account_ready:
  assumes "withdraw_ready rs db" "modify_account n f db = Inr db'"
    "\<And>a a'. f a = Inr a' \<Longrightarrow> acc_id a' = acc_id a \<and>
      (amount (acc_vesting_shares a) < 2 ^ 63 \<longrightarrow> amount (acc_vesting_shares a') < 2 ^ 63)"
  shows "withdraw_ready rs db'"
  using assms
  by (fastforce simp: withdraw_ready_def modify_account_def set_account_def get_account_Inr
      dest!: set_upd_by dest: find_by_Some)

lemma ready_frame [simp]:
  "withdraw_ready rs (set_witness w db) = withdraw_ready rs db"
  "withdraw_ready rs (push_virtual_operation v db) = withdraw_ready rs db"
  "withdraw_ready rs (db\<lparr>db_dgp := p\<rparr>) = withdraw_ready rs db"
  by (simp_all add: withdraw_ready_def set_witness_def push_virtual_operation_def)

lemma adjust_proxied_ready:
  "withdraw_ready rs db \<Longrightarrow> adjust_proxied_witness_votes fc levels n delta db = Inr db' \<Longrightarrow> withdraw_ready rs db'"
proof (erule adjust_proxied_witness_votes_inv [rotated 2])
  fix n f db db' assume a: "withdraw_ready rs db" "modify_account n f db = Inr db'"
    "\<And>a a'. f a = Inr a' \<Longrightarrow> \<exists>v. a' = a\<lparr>acc_proxied_vsf_votes := v\<rparr>"
  show "withdraw_ready rs db'" by (rule modify_account_ready [OF a(1,2)]) (use a(3) in fastforce)
qed simp_all

section \<open>The shares of the routes\<close>

definition share_of :: "int \<Rightarrow> withdraw_vesting_route_object \<Rightarrow> int" where
  "share_of w r = w * int (wvr_percent r) div int STEEMIT_100_PERCENT"

lemma route_share_exact:
  assumes "fc_num fc" "0 \<le> w" "w < 2 ^ 63" "wvr_percent r \<le> STEEMIT_100_PERCENT"
  shows "route_share fc w r = Inr (share_of w r)"
proof -
  let ?p = "int (wvr_percent r)"
  have p: "0 \<le> ?p" "?p \<le> 10000" using assms(4) by (auto simp: STEEMIT_100_PERCENT_def)
  have "w * ?p \<le> 2 ^ 63 * 10000" using assms(2,3) p by (intro mult_mono) auto
  then have m: "w * ?p < 2 ^ 128" "0 \<le> w * ?p" using assms(2) p by auto
  have "w * ?p div 10000 \<le> w * 10000 div 10000"
    using assms(2) p by (intro zdiv_mono1 mult_left_mono) auto
  then have d: "w * ?p div 10000 < 2 ^ 63" "0 \<le> w * ?p div 10000"
    using assms(3) m(2) by (auto simp: pos_imp_zdiv_nonneg_iff)
  have div: "u128_div fc (w * ?p) 10000 = Inr (w * ?p div 10000)"
    using assms(1) by (simp add: fc_num_def u128_div_Inr)
  show ?thesis
    using assms(1-3) m d p div
    by (simp add: route_share_def share_of_def STEEMIT_100_PERCENT_def fc_num_def fc_u128_def fc_safe_def)
qed

lemma share_of_nonneg: "0 \<le> w \<Longrightarrow> 0 \<le> share_of w r"
  by (simp add: share_of_def STEEMIT_100_PERCENT_def pos_imp_zdiv_nonneg_iff)

lemma sum_shares_le:
  assumes "0 \<le> w"
  shows "(\<Sum>r\<leftarrow>rs. share_of w r) * int STEEMIT_100_PERCENT \<le> w * int (\<Sum>r\<leftarrow>rs. wvr_percent r)"
proof (induction rs)
  case (Cons r rs)
  have "share_of w r * int STEEMIT_100_PERCENT \<le> w * int (wvr_percent r)"
    by (simp add: share_of_def STEEMIT_100_PERCENT_def)
  then show ?case using Cons by (simp add: algebra_simps)
qed simp

lemma shares_fit:
  assumes "0 \<le> w" "(\<Sum>r\<leftarrow>rs. wvr_percent r) \<le> STEEMIT_100_PERCENT"
  shows "(\<Sum>r\<leftarrow>rs. share_of w r) \<le> w"
proof -
  have "w * int (\<Sum>r\<leftarrow>rs. wvr_percent r) \<le> w * int STEEMIT_100_PERCENT"
    using assms by (intro mult_left_mono) auto
  from order_trans [OF sum_shares_le [OF assms(1)] this] show ?thesis by (simp add: STEEMIT_100_PERCENT_def)
qed

section \<open>One withdrawal\<close>

lemma vests_account_moves:
  assumes "fc_safe fc" "ledger_ok db" "modify_account n (\<lambda>a. bindR (safe_add fc (amount (acc_vesting_shares a)) d) (\<lambda>v.
      Inr (a\<lparr>acc_vesting_shares := (acc_vesting_shares a)\<lparr>amount := v\<rparr>\<rparr>))) db = Inr db'"
  shows "moves db db' 0 0 (- d)"
proof -
  have "moves db db' (- 0) (- 0) (- d)"
    by (rule modify_account_moves [OF assms(2,3)])
      (use assms(1) get_account_name in \<open>auto simp: fc_simps account_ok_def account_steem_def account_sbd_def account_vests_def\<close>)
  then show ?thesis by simp
qed

lemma route_vests_step:
  assumes "fc_num fc" "ledger_ok db" "withdraw_ready rs db" "0 \<le> w" "w < 2 ^ 63" "wvr_percent r \<le> STEEMIT_100_PERCENT"
    "route_vests fc from w r (dep, db) = Inr (dep', db')"
  shows "moves db db' 0 0 (dep - dep') \<and> dep' = dep + (if wvr_auto_vest r then share_of w r else 0) \<and> withdraw_ready rs db'"
proof (cases "wvr_auto_vest r \<and> 0 < share_of w r")
  case False
  have safe: "fc_safe fc" using assms(1) by (simp add: fc_num_def)
  show ?thesis
    using False assms(2,3,7) route_share_exact [OF assms(1,4-6)] share_of_nonneg [OF assms(4), of r] safe
    by (auto simp: route_vests_def fc_simps moves_refl split: if_splits)
next
  case True
  have safe: "fc_safe fc" using assms(1) by (simp add: fc_num_def)
  obtain n db1 db2 v where run: "wvr_auto_vest r" "dep' = dep + share_of w r"
    "modify_account n (\<lambda>a. bindR (safe_add fc (amount (acc_vesting_shares a)) (share_of w r)) (\<lambda>v.
      Inr (a\<lparr>acc_vesting_shares := (acc_vesting_shares a)\<lparr>amount := v\<rparr>\<rparr>))) db = Inr db1"
    "adjust_proxied_witness_votes fc STEEMIT_MAX_PROXY_RECURSION_DEPTH n (share_of w r) db1 = Inr db2"
    "db' = push_virtual_operation v db2"
    using assms(7) True route_share_exact [OF assms(1,4-6)] safe
    by (auto simp: route_vests_def fc_simps split: if_splits)
  note m = vests_account_moves [OF safe assms(2) run(3)]
  have "moves db db2 0 0 (- share_of w r)"
    using step_after [OF m adjust_proxied_witness_votes_moves [OF _ run(4)]] .
  moreover have "withdraw_ready rs db1"
    by (rule modify_account_ready [OF assms(3) run(3)]) (use safe in \<open>auto simp: fc_simps in_i64_def\<close>)
  then have "withdraw_ready rs db2" using run(4) by (rule adjust_proxied_ready)
  ultimately show ?thesis using run by simp
qed

lemma route_vests_loop:
  assumes "fc_num fc" "0 \<le> w" "w < 2 ^ 63"
  shows "foldR (route_vests fc from w) qs (dep, db) = Inr (dep', db') \<Longrightarrow> ledger_ok db \<Longrightarrow> withdraw_ready rs db \<Longrightarrow>
    (\<And>r. r \<in> set qs \<Longrightarrow> wvr_percent r \<le> STEEMIT_100_PERCENT) \<Longrightarrow>
    moves db db' 0 0 (dep - dep') \<and> dep' = dep + (\<Sum>r\<leftarrow>filter wvr_auto_vest qs. share_of w r) \<and> withdraw_ready rs db'"
proof (induction qs arbitrary: dep db)
  case (Cons q qs)
  then obtain dep1 db1 where run: "route_vests fc from w q (dep, db) = Inr (dep1, db1)"
    "foldR (route_vests fc from w) qs (dep1, db1) = Inr (dep', db')" by auto
  have q: "wvr_percent q \<le> STEEMIT_100_PERCENT" using Cons.prems(4) by simp
  note s = route_vests_step [OF assms(1) Cons.prems(2,3) assms(2,3) q run(1)]
  have "moves db1 db' 0 0 (dep1 - dep') \<and> dep' = dep1 + (\<Sum>r\<leftarrow>filter wvr_auto_vest qs. share_of w r) \<and> withdraw_ready rs db'"
    by (rule Cons.IH [OF run(2) moves_ok [OF conjunct1 [OF s]]]) (use s Cons.prems(4) in auto)
  with s moves_trans [OF conjunct1 [OF s], of db' 0 0 "dep1 - dep'"] show ?case
    by (cases "wvr_auto_vest q") auto
qed (simp add: moves_refl)

text \<open>Shares and their worth leave the vesting pool.\<close>

lemma vesting_pool_moves:
  assumes "fc_safe fc" "ledger_ok db" "asset_sub fc (dgp_total_vesting_fund_steem (db_dgp db)) c = Inr fund"
    "safe_sub fc (amount (dgp_total_vesting_shares (db_dgp db))) d = Inr shares"
  shows "moves db (db\<lparr>db_dgp := (db_dgp db)\<lparr>dgp_total_vesting_fund_steem := fund,
     dgp_total_vesting_shares := (dgp_total_vesting_shares (db_dgp db))\<lparr>amount := shares\<rparr>\<rparr>\<rparr>) (amount c) 0 (- d)"
  using assms ledger_ok_dgp_ok [OF assms(2)]
  by (auto simp: fc_simps moves_def gap_steem_def gap_sbd_def gap_vests_def dgp_ok_def intro!: ledger_ok_dgp)

lemma route_steem_step:
  assumes "fc_num fc" "ledger_ok db" "withdraw_ready rs db" "0 \<le> w" "w < 2 ^ 63" "wvr_percent r \<le> STEEMIT_100_PERCENT"
    "symbol tc = STEEM_SYMBOL" "route_steem fc from w r (dep, tc, db) = Inr (dep', tc', db')"
  shows "moves db db' 0 0 (dep - dep') \<and> dep' = dep + (if wvr_auto_vest r then 0 else share_of w r) \<and>
    withdraw_ready rs db' \<and> symbol tc' = STEEM_SYMBOL"
proof (cases "\<not> wvr_auto_vest r \<and> 0 < share_of w r")
  case False
  have safe: "fc_safe fc" using assms(1) by (simp add: fc_num_def)
  show ?thesis
    using False assms(2,3,7,8) route_share_exact [OF assms(1,4-6)] share_of_nonneg [OF assms(4), of r] safe
    by (auto simp: route_steem_def fc_simps moves_refl split: if_splits)
next
  case True
  have safe: "fc_safe fc" using assms(1) by (simp add: fc_num_def)
  obtain n c db1 fund shares v where run: "\<not> wvr_auto_vest r" "dep' = dep + share_of w r"
    "asset_add fc tc c = Inr tc'"
    "modify_account n (\<lambda>a. bindR (asset_add fc (acc_balance a) c) (\<lambda>b. Inr (a\<lparr>acc_balance := b\<rparr>))) db = Inr db1"
    "asset_sub fc (dgp_total_vesting_fund_steem (db_dgp db1)) c = Inr fund"
    "safe_sub fc (amount (dgp_total_vesting_shares (db_dgp db1))) (share_of w r) = Inr shares"
    "db' = push_virtual_operation v (db1\<lparr>db_dgp := (db_dgp db1)\<lparr>dgp_total_vesting_fund_steem := fund,
       dgp_total_vesting_shares := (dgp_total_vesting_shares (db_dgp db1))\<lparr>amount := shares\<rparr>\<rparr>\<rparr>)"
    using assms(8) True route_share_exact [OF assms(1,4-6)] safe
    by (auto simp: route_steem_def safe_add_Inr split: if_splits)
  have "moves db db1 (- amount c) (- 0) (- 0)"
    by (rule modify_account_moves [OF assms(2) run(4)])
      (use safe get_account_name in \<open>auto simp: fc_simps account_ok_def account_steem_def account_sbd_def account_vests_def\<close>)
  then have m: "moves db db1 (- amount c) 0 0" by simp
  have "moves db1 db' (amount c) 0 (- share_of w r)"
    using vesting_pool_moves [OF safe moves_ok [OF m] run(5,6)] run(7) by simp
  from moves_trans [OF m this] have "moves db db' 0 0 (- share_of w r)" by simp
  moreover have "withdraw_ready rs db1" by (rule modify_account_ready [OF assms(3) run(4)]) auto
  moreover have "symbol tc' = STEEM_SYMBOL" using run(3) safe assms(7) by (simp add: fc_simps)
  ultimately show ?thesis using run by simp
qed

lemma route_steem_loop:
  assumes "fc_num fc" "0 \<le> w" "w < 2 ^ 63"
  shows "foldR (route_steem fc from w) qs (dep, tc, db) = Inr (dep', tc', db') \<Longrightarrow> ledger_ok db \<Longrightarrow> withdraw_ready rs db \<Longrightarrow>
    symbol tc = STEEM_SYMBOL \<Longrightarrow> (\<And>r. r \<in> set qs \<Longrightarrow> wvr_percent r \<le> STEEMIT_100_PERCENT) \<Longrightarrow>
    moves db db' 0 0 (dep - dep') \<and> dep' = dep + (\<Sum>r\<leftarrow>filter (\<lambda>r. \<not> wvr_auto_vest r) qs. share_of w r) \<and> withdraw_ready rs db'"
proof (induction qs arbitrary: dep tc db)
  case (Cons q qs)
  then obtain dep1 tc1 db1 where run: "route_steem fc from w q (dep, tc, db) = Inr (dep1, tc1, db1)"
    "foldR (route_steem fc from w) qs (dep1, tc1, db1) = Inr (dep', tc', db')" by auto
  have q: "wvr_percent q \<le> STEEMIT_100_PERCENT" using Cons.prems(5) by simp
  note s = route_steem_step [OF assms(1) Cons.prems(2,3) assms(2,3) q Cons.prems(4) run(1)]
  have "moves db1 db' 0 0 (dep1 - dep') \<and> dep' = dep1 + (\<Sum>r\<leftarrow>filter (\<lambda>r. \<not> wvr_auto_vest r) qs. share_of w r) \<and>
      withdraw_ready rs db'"
    by (rule Cons.IH [OF run(2) moves_ok [OF conjunct1 [OF s]]]) (use s Cons.prems(5) in auto)
  with s moves_trans [OF conjunct1 [OF s], of db' 0 0 "dep1 - dep'"] show ?case
    by (cases "wvr_auto_vest q") auto
qed (simp add: moves_refl)

lemma withdraw_amount_range:
  "withdraw_amount fc a = Inr w \<Longrightarrow> amount (acc_vesting_shares a) < 2 ^ 63 \<Longrightarrow> 0 \<le> w \<and> w < 2 ^ 63"
  by (auto simp: withdraw_amount_def split: if_splits)

lemma withdrawn_account_effect:
  assumes "fc_safe fc" "withdrawn_account fc h w c a = Inr a'" "account_ok a"
  shows "acc_name a' = acc_name a \<and> acc_id a' = acc_id a \<and> account_ok a' \<and> account_steem a' = account_steem a + amount c \<and>
    account_sbd a' = account_sbd a \<and> account_vests a' = account_vests a - w \<and>
    amount (acc_vesting_shares a') = amount (acc_vesting_shares a) - w"
  using assms
  by (auto simp: withdrawn_account_def Let_def fc_simps account_ok_def account_steem_def account_sbd_def account_vests_def)

lemma sum_list_insert_by:
  fixes g :: "'a \<Rightarrow> 'b::comm_monoid_add"
  shows "sum_list (map g (insert_by lt x ys)) = g x + sum_list (map g ys)"
  by (induction ys) (auto simp: add.left_commute)

lemma sum_list_sort_by:
  fixes g :: "'a \<Rightarrow> 'b::comm_monoid_add"
  shows "sum_list (map g (sort_by lt xs)) = sum_list (map g xs)"
  by (induction xs) (auto simp: sum_list_insert_by)

lemma routes_of_ready:
  assumes "withdraw_ready rs db" "a \<in> set (db_accounts db)"
  shows "(\<Sum>r\<leftarrow>routes_of (acc_id a) db. wvr_percent r) \<le> STEEMIT_100_PERCENT"
  using assms by (auto simp: routes_of_def withdraw_ready_def route_total_def sum_list_sort_by)

lemma sum_filter_split:
  fixes g :: "'a \<Rightarrow> int"
  shows "(\<Sum>r\<leftarrow>filter P qs. g r) + (\<Sum>r\<leftarrow>filter (\<lambda>r. \<not> P r) qs. g r) = (\<Sum>r\<leftarrow>qs. g r)"
  by (induction qs) auto

lemma withdraw_vesting_of_moves:
  assumes "fc_num fc" "ledger_ok db" "withdraw_ready rs db" "withdraw_vesting_of fc from db = Inr db'"
  shows "moves db db' 0 0 0 \<and> withdraw_ready rs db'"
proof -
  have safe: "fc_safe fc" using assms(1) by (simp add: fc_num_def)
  obtain a w av db1 as tc db2 rest c db3 fund shares neg db4 v where run: "get_account from db = Inr a" "withdraw_amount fc a = Inr w"
    "foldR (route_vests fc from w) (routes_of (acc_id a) db) (0, db) = Inr (av, db1)"
    "foldR (route_steem fc from w) (routes_of (acc_id a) db1) (0, \<lparr>amount = 0, symbol = STEEM_SYMBOL\<rparr>, db1) = Inr (as, tc, db2)"
    "rest = w - as - av"
    "modify_account from (withdrawn_account fc (has_hardfork 19 db2) w c) db2 = Inr db3"
    "asset_sub fc (dgp_total_vesting_fund_steem (db_dgp db3)) c = Inr fund"
    "safe_sub fc (amount (dgp_total_vesting_shares (db_dgp db3))) (if rest < 0 then 0 else rest) = Inr shares"
    "let db = db3\<lparr>db_dgp := (db_dgp db3)\<lparr>dgp_total_vesting_fund_steem := fund,
       dgp_total_vesting_shares := (dgp_total_vesting_shares (db_dgp db3))\<lparr>amount := shares\<rparr>\<rparr>\<rparr> in
     db' = db \<or> adjust_proxied_witness_votes fc STEEMIT_MAX_PROXY_RECURSION_DEPTH from neg db = Inr db4 \<and>
       db' = push_virtual_operation v db4"
    using assms(4) safe unfolding withdraw_vesting_of_def Let_def bindR_eq_Inr case_prod_beta if_eq_Inr
      sum.inject safe_sub_Inr [OF safe] by (metis prod.collapse)
  have a: "a \<in> set (db_accounts db)" using run(1) by (auto simp: get_account_Inr dest: find_by_Some)
  then have w: "0 \<le> w" "w < 2 ^ 63" using withdraw_amount_range [OF run(2)] assms(3) by (auto simp: withdraw_ready_def)
  note perc = routes_of_ready [OF assms(3) a]
  have each: "wvr_percent r \<le> STEEMIT_100_PERCENT" if "r \<in> set (routes_of (acc_id a) db)" for r
    using member_le_sum_list [of "wvr_percent r" "map wvr_percent (routes_of (acc_id a) db)"] that perc by simp
  note s1 = route_vests_loop [OF assms(1) w run(3) assms(2,3) each]
  have same: "routes_of (acc_id a) db1 = routes_of (acc_id a) db"
    using s1 assms(3) by (simp add: routes_of_def withdraw_ready_def)
  note s2 = route_steem_loop [OF assms(1) w run(4) moves_ok [OF conjunct1 [OF s1]] _ _ each [folded same]]
  let ?W = "\<Sum>r\<leftarrow>routes_of (acc_id a) db. share_of w r"
  have vs: "moves db db1 0 0 (- av)" "av = (\<Sum>r\<leftarrow>filter wvr_auto_vest (routes_of (acc_id a) db). share_of w r)"
    and r1: "withdraw_ready rs db1" using s1 by auto
  have ss: "moves db1 db2 0 0 (- as)" "as = (\<Sum>r\<leftarrow>filter (\<lambda>r. \<not> wvr_auto_vest r) (routes_of (acc_id a) db). share_of w r)"
    and r2: "withdraw_ready rs db2" using s2 r1 same by auto
  have "av + as = ?W" unfolding vs(2) ss(2) by (rule sum_filter_split)
  then have "0 \<le> rest" using shares_fit [OF w(1) perc] run(5) by simp
  then have conv: "(if rest < 0 then 0 else rest) = w - as - av" using run(5) by simp
  have m2: "moves db db2 0 0 (- av - as)" using moves_trans [OF vs(1) ss(1)] by simp
  have "moves db2 db3 (- amount c) (- 0) (- (- w))"
    by (rule modify_account_moves [OF moves_ok [OF m2] run(6)])
      (use withdrawn_account_effect [OF safe] get_account_name in auto)
  then have m3: "moves db2 db3 (- amount c) 0 w" by simp
  have r3: "withdraw_ready rs db3"
  proof (rule modify_account_ready [OF r2 run(6)])
    fix x x' assume "withdrawn_account fc (has_hardfork 19 db2) w c x = Inr x'"
    then show "acc_id x' = acc_id x \<and> (amount (acc_vesting_shares x) < 2 ^ 63 \<longrightarrow> amount (acc_vesting_shares x') < 2 ^ 63)"
      using safe w(1) by (auto simp: withdrawn_account_def Let_def fc_simps)
  qed
  let ?db = "db3\<lparr>db_dgp := (db_dgp db3)\<lparr>dgp_total_vesting_fund_steem := fund,
       dgp_total_vesting_shares := (dgp_total_vesting_shares (db_dgp db3))\<lparr>amount := shares\<rparr>\<rparr>\<rparr>"
  have "moves db3 ?db (amount c) 0 (- (w - as - av))"
    using run(8) unfolding conv by (rule vesting_pool_moves [OF safe moves_ok [OF m3] run(7)])
  from moves_trans [OF moves_trans [OF m2 m3] this] have m4: "moves db ?db 0 0 0" by simp
  have r4: "withdraw_ready rs ?db" using r3 by simp
  from run(9) show ?thesis
    using m4 r4 step_after [OF m4 adjust_proxied_witness_votes_moves, of fc _ _ _ db4] adjust_proxied_ready [OF r4]
    by (auto simp: Let_def)
qed

section \<open>The loop\<close>

lemma withdrawal_loop_moves:
  "fc_num fc \<Longrightarrow> ledger_ok db \<Longrightarrow> withdraw_ready rs db \<Longrightarrow> withdrawal_loop fc rounds n db = Some (Inr db') \<Longrightarrow>
   moves db db' 0 0 0 \<and> withdraw_ready rs db'"
proof (induction fc rounds n db rule: withdrawal_loop.induct)
  case (3 fc rounds n db)
  then obtain a where a: "get_account n db = Inr a" by (auto split: sum.splits)
  show ?case
  proof (cases "acc_next_vesting_withdrawal a \<le> head_block_time db")
    case True
    then obtain db1 where run: "withdraw_vesting_of fc n db = Inr db1"
      "withdrawal_loop fc rounds (next_in_queue n db) db1 = Some (Inr db')"
      using "3.prems"(4) a by (auto split: sum.splits)
    have s: "moves db db1 0 0 0 \<and> withdraw_ready rs db1" by (rule withdraw_vesting_of_moves [OF "3.prems"(1-3) run(1)])
    have "moves db1 db' 0 0 0 \<and> withdraw_ready rs db'"
      by (rule "3.IH" [OF a True run(1) "3.prems"(1) moves_ok [OF conjunct1 [OF s]] conjunct2 [OF s] run(2)])
    then show ?thesis using moves_trans [OF conjunct1 [OF s], of db' 0 0 0] by simp
  qed (use 3 a in \<open>auto simp: moves_refl\<close>)
qed (auto simp: moves_refl)

lemma process_vesting_withdrawals_moves:
  "fc_num fc \<Longrightarrow> ledger_ok db \<Longrightarrow> withdraw_ready rs db \<Longrightarrow> process_vesting_withdrawals fc rounds db = Some (Inr db') \<Longrightarrow>
   moves db db' 0 0 0 \<and> withdraw_ready rs db'"
  unfolding process_vesting_withdrawals_def by (rule withdrawal_loop_moves)

end
