(* ===== verification/Account_Conservation.thy ===== *)
theory Account_Conservation
  imports Vote_Conservation Accounts
begin

text \<open>
  Creating, updating and recovering accounts and updating witnesses conserve the ledger: the
  creation fee becomes vesting shares of the new account, everything else moves no tokens.
\<close>

section \<open>Objects outside the ledger\<close>

lemma moves_account_objects [simp]:
  "moves db (db'\<lparr>db_authorities := au\<rparr>) s g v = moves db db' s g v"
  "moves db (db'\<lparr>db_metadata := me\<rparr>) s g v = moves db db' s g v"
  "moves db (db'\<lparr>db_owner_history := oh\<rparr>) s g v = moves db db' s g v"
  "moves db (db'\<lparr>db_recovery_requests := rr\<rparr>) s g v = moves db db' s g v"
  "moves db (db'\<lparr>db_change_recovery := cr\<rparr>) s g v = moves db db' s g v"
  by (simp_all add: moves_def ledger_ok_def gap_steem_def gap_sbd_def gap_vests_def held_def)

lemma loop_moves:
  assumes "\<And>x db db'. ledger_ok db \<Longrightarrow> f x db = Inr db' \<Longrightarrow> moves db db' 0 0 0" "ledger_ok db" "foldR f xs db = Inr db'"
  shows "moves db db' 0 0 0"
  by (rule foldR_moves [OF _ assms(3,2)]) (rule assms(1))

lemma store_metadata_moves [simp]:
  "moves db (store_account_json_metadata nf n m b db') s g v = moves db db' s g v"
  by (simp add: store_account_json_metadata_def Let_def split: option.splits)

lemma create_authority_moves:
  "moves db db1 s g v \<Longrightarrow> create_authority n a b c db1 = Inr db' \<Longrightarrow> moves db db' s g v"
  by (auto simp: create_authority_def)

text \<open>The accounts that the two evaluators create hold nothing.\<close>

definition holds_nothing :: "account_object \<Rightarrow> bool" where
  "holds_nothing a \<longleftrightarrow> account_ok a \<and> account_steem a = 0 \<and> account_sbd a = 0 \<and> account_vests a = 0"

lemma new_account_holds_nothing:
  "holds_nothing ((default_account i n)\<lparr>acc_memo_key := k, acc_created := t, acc_last_vote_time := t, acc_mined := b,
     acc_recovery_account := r\<rparr>)"
  "holds_nothing ((default_account i n)\<lparr>acc_memo_key := k, acc_created := t, acc_last_vote_time := t, acc_mined := b,
     acc_recovery_account := r, acc_received_vesting_shares := d\<rparr>)"
  by (simp_all add: holds_nothing_def default_account_def account_ok_def account_steem_def account_sbd_def account_vests_def)

lemma create_account_moves:
  assumes "moves db db1 s g v" "create_account a db1 = Inr db'" "holds_nothing a"
  shows "moves db db' s g v"
proof -
  obtain xs where xs: "create_in acc_name a (db_accounts db1) = Inr xs"
    "db' = bump_id account_object_type (db1\<lparr>db_accounts := xs\<rparr>)"
    using assms(2) by (auto simp: create_account_def)
  have "moves db1 (db1\<lparr>db_accounts := xs\<rparr>) 0 0 0"
    using xs(1) assms moves_ok [OF assms(1)]
    by (auto simp: create_in_Inr holds_nothing_def moves_def ledger_ok_def gap_steem_def gap_sbd_def gap_vests_def)
  with moves_trans [OF assms(1) this] xs(2) show ?thesis by simp
qed

text \<open>The fee leaves the creator's balance; what is left of it becomes vesting shares.\<close>

lemma fee_debit_moves:
  assumes "fc_safe fc" "ledger_ok db" "modify_account n f db = Inr db'"
    "\<And>a a'. f a = Inr a' \<Longrightarrow> account_ok a \<Longrightarrow> acc_name a' = acc_name a \<and> account_ok a' \<and>
       account_steem a' = account_steem a - x \<and> account_sbd a' = account_sbd a \<and> account_vests a' = account_vests a"
  shows "moves db db' x 0 0"
proof -
  have "moves db db' (- (- x)) (- 0) (- 0)"
    by (rule modify_account_moves [OF assms(2,3)]) (use assms(4) get_account_name in auto)
  then show ?thesis by simp
qed

lemma fee_into_vesting_moves:
  assumes "fc_safe fc" "moves db db1 (amount fee) 0 0" "fee_into_vesting fc n fee db1 = Inr db'" "0 \<le> amount fee"
  shows "moves db db' 0 0 0"
proof (cases "amount fee > 0")
  case True
  then obtain v where "create_vesting fc n fee db1 = Inr (v, db')" using assms(3) by (auto simp: fee_into_vesting_def)
  from moves_trans [OF assms(2) conjunct1 [OF create_vesting_moves [OF assms(1) moves_ok [OF assms(2)] this]]]
  show ?thesis by simp
qed (use assms in \<open>auto simp: fee_into_vesting_def\<close>)

section \<open>Creation\<close>

lemma account_create_moves:
  assumes "fc_safe fc" "ledger_ok db" "account_create_evaluator fc nf op db = Inr db'" "0 \<le> amount (acr_fee op)"
  shows "moves db db' 0 0 0"
proof -
  obtain db1 a db2 db3 where run:
    "modify_account (acr_creator op) (\<lambda>c. bindR (asset_sub fc (acc_balance c) (acr_fee op)) (\<lambda>b.
       Inr (c\<lparr>acc_balance := b\<rparr>))) db = Inr db1"
    "create_account a db1 = Inr db2" "holds_nothing a"
    "create_authority (acr_new_account_name op) (acr_owner op) (acr_active op) (acr_posting op)
       (store_account_json_metadata nf (acr_new_account_name op) (acr_json_metadata op) False db2) = Inr db3"
    "fee_into_vesting fc (acr_new_account_name op) (acr_fee op) db3 = Inr db'"
    using assms(3) new_account_holds_nothing(1) unfolding account_create_evaluator_def Let_def bindR_eq_Inr by blast
  have "moves db db1 (amount (acr_fee op)) 0 0"
    by (rule fee_debit_moves [OF assms(1,2) run(1)])
      (use assms(1) in \<open>auto simp: fc_simps account_ok_def account_steem_def account_sbd_def account_vests_def\<close>)
  from create_account_moves [OF this run(2,3)]
  have "moves db (store_account_json_metadata nf (acr_new_account_name op) (acr_json_metadata op) False db2)
    (amount (acr_fee op)) 0 0" by simp
  from fee_into_vesting_moves [OF assms(1) create_authority_moves [OF this run(4)] run(5) assms(4)] show ?thesis .
qed

lemma account_referral_visitor_moves:
  "ledger_ok db \<Longrightarrow> account_referral_visitor n aro db = Inr db' \<Longrightarrow> moves db db' 0 0 0"
  by (auto simp: account_referral_visitor_def Let_def credited_def moves_refl elim!: neutral_after [rotated])

lemma account_create_with_delegation_moves:
  assumes "fc_safe fc" "ledger_ok db" "account_create_with_delegation_evaluator fc nf op db = Inr db'"
    "0 \<le> amount (acd_fee op)"
  shows "moves db db' 0 0 0"
proof -
  let ?n = "acd_new_account_name op"
  obtain db1 a db2 db3 db4 db5 ds where run:
    "modify_account (acd_creator op) (\<lambda>c. bindR (asset_sub fc (acc_balance c) (acd_fee op)) (\<lambda>b.
       bindR (asset_add fc (acc_delegated_vesting_shares c) (acd_delegation op)) (\<lambda>d.
       Inr (c\<lparr>acc_balance := b, acc_delegated_vesting_shares := d\<rparr>)))) db = Inr db1"
    "create_account a db1 = Inr db2" "holds_nothing a"
    "create_authority ?n (acd_owner op) (acd_active op) (acd_posting op)
       (store_account_json_metadata nf ?n (acd_json_metadata op) False db2) = Inr db3"
    "db4 = db3 \<or> db4 = bump_id vesting_delegation_object_type (db3\<lparr>db_delegations := ds\<rparr>)"
    "fee_into_vesting fc ?n (acd_fee op) db4 = Inr db5"
    "foldR (account_referral_visitor ?n) (acd_extensions op) db5 = Inr db'"
    using assms(3) unfolding account_create_with_delegation_evaluator_def Let_def bindR_eq_Inr if_eq_Inr sum.inject
    using new_account_holds_nothing(2) by blast
  have "moves db db1 (amount (acd_fee op)) 0 0"
    by (rule fee_debit_moves [OF assms(1,2) run(1)])
      (use assms(1) in \<open>auto simp: fc_simps account_ok_def account_steem_def account_sbd_def account_vests_def\<close>)
  from create_account_moves [OF this run(2,3)]
  have "moves db (store_account_json_metadata nf ?n (acd_json_metadata op) False db2) (amount (acd_fee op)) 0 0" by simp
  from create_authority_moves [OF this run(4)] run(5) have "moves db db4 (amount (acd_fee op)) 0 0" by auto
  from fee_into_vesting_moves [OF assms(1) this run(6) assms(4)] have m: "moves db db5 0 0 0" .
  have "ledger_ok db5 \<Longrightarrow> moves db5 db' 0 0 0"
    using loop_moves [OF account_referral_visitor_moves _ run(7)] .
  with m show ?thesis by (rule step_after)
qed

section \<open>Updates and recovery\<close>

lemma update_owner_authority_moves:
  "moves db db1 s g v \<Longrightarrow> update_owner_authority n a db1 = Inr db' \<Longrightarrow> moves db db' s g v"
  by (auto simp: update_owner_authority_def create_owner_history_def Let_def)

lemma updated_account_credited: "credited a (updated_account op now a) 0 0"
  by (simp add: updated_account_def credited_def Let_def)

lemma account_update_moves:
  assumes "ledger_ok db" "account_update_evaluator nf op db = Inr db'"
  shows "moves db db' 0 0 0"
proof -
  obtain ow db1 now db2 where run: "db1 = db \<or> update_owner_authority (aup_account op) ow db = Inr db1"
    "modify_account (aup_account op) (\<lambda>a. Inr (updated_account op now a)) db1 = Inr db2"
    "moves db db' 0 0 0 = moves db db2 0 0 0"
    using assms(2) unfolding account_update_evaluator_def Let_def bindR_eq_Inr if_eq_Inr sum.inject
    by (fastforce split: option.splits)
  have "moves db db1 0 0 0" using run(1) moves_refl [OF assms(1)] update_owner_authority_moves by blast
  from neutral_after [OF this run(2)] run(3) show ?thesis using updated_account_credited by auto
qed

lemma account_metadata_moves:
  "ledger_ok db \<Longrightarrow> account_metadata_evaluator nf op db = Inr db' \<Longrightarrow> moves db db' 0 0 0"
  by (auto simp: account_metadata_evaluator_def credited_def moves_refl elim!: neutral_after [rotated])

lemma request_account_recovery_moves:
  "ledger_ok db \<Longrightarrow> request_account_recovery_evaluator op db = Inr db' \<Longrightarrow> moves db db' 0 0 0"
  by (auto simp: request_account_recovery_evaluator_def Let_def moves_refl split: option.splits if_splits)

lemma stop_withdraw_credited: "Inr (stop_withdraw a) = (Inr a' :: account_object res) \<Longrightarrow> credited a a' 0 0"
  by (auto simp: stop_withdraw_def credited_def)

lemma recover_account_moves:
  assumes "ledger_ok db" "recover_account_evaluator op db = Inr db'"
  shows "moves db db' 0 0 0"
proof -
  obtain db1 now db2 where run: "update_owner_authority (rac_account_to_recover op) (rac_new_owner_authority op)
      (db\<lparr>db_recovery_requests := del_by rrq_account_to_recover (rac_account_to_recover op) (db_recovery_requests db)\<rparr>) = Inr db1"
    "modify_account (rac_account_to_recover op) (\<lambda>a. Inr (a\<lparr>acc_last_account_recovery := now\<rparr>)) db1 = Inr db2"
    "db' = db2 \<or> modify_account (rac_account_to_recover op) (\<lambda>a. Inr (stop_withdraw a)) db2 = Inr db'"
    using assms(2) unfolding recover_account_evaluator_def Let_def bindR_eq_Inr if_eq_Inr sum.inject remove_vesting_routes_id
    by blast
  have "moves db db1 0 0 0" using update_owner_authority_moves [OF _ run(1)] moves_refl [OF assms(1)] by simp
  then have m: "moves db db2 0 0 0" using run(2) by (rule neutral_after) (auto simp: credited_def)
  from run(3) show ?thesis
  proof
    assume "modify_account (rac_account_to_recover op) (\<lambda>a. Inr (stop_withdraw a)) db2 = Inr db'"
    with m show ?thesis using stop_withdraw_credited by (rule neutral_after)
  qed (simp add: m)
qed

lemma change_recovery_account_moves:
  assumes "ledger_ok db" "change_recovery_account_evaluator op db = Inr db'"
  shows "moves db db' 0 0 0"
proof -
  obtain xs where "db\<lparr>db_change_recovery := xs\<rparr> = db'"
    using assms(2) unfolding change_recovery_account_evaluator_def Let_def bindR_eq_Inr
    by (cases "find_by crq_account_to_recover (cra_account_to_recover op) (db_change_recovery db)")
      (auto simp: if_eq_Inr simp del: if_split_eq1 if_split_eq2)
  then show ?thesis using moves_refl [OF assms(1)] by auto
qed

lemma apply_recovery_change_moves:
  "ledger_ok db \<Longrightarrow> apply_recovery_change r db = Inr db' \<Longrightarrow> moves db db' 0 0 0"
  by (auto simp: apply_recovery_change_def credited_def moves_refl elim!: neutral_after [rotated])

lemma account_recovery_processing_moves:
  assumes "ledger_ok db" "account_recovery_processing db = Inr db'"
  shows "moves db db' 0 0 0"
proof -
  let ?db = "clear_owner_history (clear_recovery_requests db)"
  have m: "moves db ?db 0 0 0"
    using moves_refl [OF assms(1)] by (simp add: clear_owner_history_def clear_recovery_requests_def)
  have "foldR apply_recovery_change (due_recovery_changes ?db) ?db = Inr db'"
    using assms(2) by (simp add: account_recovery_processing_def Let_def)
  from m loop_moves [OF apply_recovery_change_moves _ this] show ?thesis by (rule step_after)
qed

section \<open>Witnesses\<close>

lemma modify_or_create_witness_moves:
  "ledger_ok db \<Longrightarrow> modify_or_create_witness n f db = Inr db' \<Longrightarrow> moves db db' 0 0 0"
  by (auto simp: modify_or_create_witness_def moves_refl split: option.splits)

lemma witness_update_moves:
  "ledger_ok db \<Longrightarrow> witness_update_evaluator op db = Inr db' \<Longrightarrow> moves db db' 0 0 0"
  using modify_or_create_witness_moves by (auto simp: witness_update_evaluator_def)

lemma chain_properties_update_moves:
  "ledger_ok db \<Longrightarrow> chain_properties_update_evaluator op db = Inr db' \<Longrightarrow> moves db db' 0 0 0"
  using modify_or_create_witness_moves by (auto simp: chain_properties_update_evaluator_def)

lemma transit_to_cyberway_moves:
  "ledger_ok db \<Longrightarrow> transit_to_cyberway_evaluator op db = Inr db' \<Longrightarrow> moves db db' 0 0 0"
  by (auto simp: transit_to_cyberway_evaluator_def moves_refl)

end
