(* ===== verification/Comments.thy ===== *)
theory Comments
  imports Accounts Maintenance Delegation
begin

text \<open>
  Comments and votes on them (\<^verbatim>\<open>comment_object.hpp\<close>; \<^verbatim>\<open>comment_evaluator\<close>, \<^verbatim>\<open>comment_options_evaluator\<close>,
  \<^verbatim>\<open>delete_comment_evaluator\<close> and \<^verbatim>\<open>vote_evaluator\<close> of \<^verbatim>\<open>steem_evaluator.cpp\<close>; \<^verbatim>\<open>adjust_rshares2\<close> and
  \<^verbatim>\<open>calculate_vshares\<close> of \<^verbatim>\<open>database.cpp\<close>). Two walks go from a comment up to the root of its
  discussion. They take as many rounds as there are comments: a walk that needs more passes
  the same comment twice and never ends, since a walk changes no link.
\<close>

section \<open>Lookup\<close>

definition STEEMIT_ROOT_POST_PARENT :: account_name_type where "STEEMIT_ROOT_POST_PARENT = []"

text \<open>Permlinks are compared by \<^verbatim>\<open>strcmp\<close>.\<close>

definition c_str :: "string \<Rightarrow> string" where
  "c_str s = takeWhile (\<lambda>c. c \<noteq> CHR 0x00) s"

definition com_key :: "comment_object \<Rightarrow> account_name_type \<times> string" where
  "com_key c = (com_author c, c_str (com_permlink c))"

definition find_comment :: "account_name_type \<Rightarrow> string \<Rightarrow> database \<Rightarrow> comment_object option" where
  "find_comment author permlink db = find_by com_key (author, c_str permlink) (db_comments db)"

definition get_comment :: "account_name_type \<Rightarrow> string \<Rightarrow> database \<Rightarrow> comment_object res" where
  "get_comment author permlink db = of_option (Missing_object ''comment'') (find_comment author permlink db)"

definition get_comment_by_id :: "nat \<Rightarrow> database \<Rightarrow> comment_object res" where
  "get_comment_by_id i db = of_option (Missing_object ''comment'') (find_by com_id i (db_comments db))"

definition set_comment :: "comment_object \<Rightarrow> database \<Rightarrow> database" where
  "set_comment c db = db\<lparr>db_comments := upd_by com_id c (db_comments db)\<rparr>"

definition modify_comment ::
  "nat \<Rightarrow> (comment_object \<Rightarrow> comment_object res) \<Rightarrow> database \<Rightarrow> database res" where
  "modify_comment i f db =
     bindR (get_comment_by_id i db) (\<lambda>c. bindR (f c) (\<lambda>c. Inr (set_comment c db)))"

definition cmv_key :: "comment_vote_object \<Rightarrow> nat \<times> nat" where
  "cmv_key v = (cmv_comment v, cmv_voter v)"

definition calculate_discussion_payout_time :: "comment_object \<Rightarrow> database \<Rightarrow> time_point_sec res" where
  "calculate_discussion_payout_time c db =
     (if has_hardfork 17 db \<or> com_parent_author c = STEEMIT_ROOT_POST_PARENT then Inr (com_cashout_time c)
      else bindR (get_comment_by_id (com_root_comment c) db) (\<lambda>r. Inr (com_cashout_time r)))"

definition check_not_challenged :: "account_object \<Rightarrow> unit res" where
  "check_not_challenged a =
     check_logic (\<not> (acc_owner_challenged a \<or> acc_active_challenged a)) ''account_is_currently_challenged''"

section \<open>Reward shares\<close>

definition get_content_constant_s :: "fc_lib \<Rightarrow> int" where
  "get_content_constant_s fc = u128_of fc 2000000000000"

definition calculate_vshares :: "fc_lib \<Rightarrow> int \<Rightarrow> database \<Rightarrow> int" where
  "calculate_vshares fc rshares db =
     (if has_hardfork 17 db then rshares
      else
        let s = get_content_constant_s fc; rs = u128_add fc rshares s
        in u128_sub fc (u128_mul fc rs rs) (u128_mul fc s s))"

definition shift_shares :: "fc_lib \<Rightarrow> int \<Rightarrow> int \<Rightarrow> int \<Rightarrow> int" where
  "shift_shares fc old_rshares2 new_rshares2 x = u128_add fc (u128_sub fc x old_rshares2) new_rshares2"

fun adjust_rshares2_walk :: "fc_lib \<Rightarrow> nat \<Rightarrow> nat \<Rightarrow> int \<Rightarrow> int \<Rightarrow> database \<Rightarrow> database res" where
  "adjust_rshares2_walk fc 0 i old_rshares2 new_rshares2 db = Inl (Internal_error ''endless walk to the root'')"
| "adjust_rshares2_walk fc (Suc n) i old_rshares2 new_rshares2 db =
     bindR (get_comment_by_id i db) (\<lambda>c.
     let db = set_comment (c\<lparr>com_children_rshares2 :=
           shift_shares fc old_rshares2 new_rshares2 (com_children_rshares2 c)\<rparr>) db in
     if com_depth c \<noteq> 0 then
       bindR (get_comment (com_parent_author c) (com_parent_permlink c) db) (\<lambda>p.
       adjust_rshares2_walk fc n (com_id p) old_rshares2 new_rshares2 db)
     else Inr (db\<lparr>db_dgp := (db_dgp db)\<lparr>dgp_total_reward_shares2 :=
       shift_shares fc old_rshares2 new_rshares2 (dgp_total_reward_shares2 (db_dgp db))\<rparr>\<rparr>))"

definition adjust_rshares2 :: "fc_lib \<Rightarrow> nat \<Rightarrow> int \<Rightarrow> int \<Rightarrow> database \<Rightarrow> database res" where
  "adjust_rshares2 fc i old_rshares2 new_rshares2 db =
     adjust_rshares2_walk fc (length (db_comments db)) i old_rshares2 new_rshares2 db"

text \<open>The loop that counts a new or a removed comment at all its ancestors.\<close>

fun count_children_walk :: "(nat \<Rightarrow> nat) \<Rightarrow> nat \<Rightarrow> nat \<Rightarrow> database \<Rightarrow> database res" where
  "count_children_walk f 0 i db = Inl (Internal_error ''endless walk to the root'')"
| "count_children_walk f (Suc n) i db =
     bindR (get_comment_by_id i db) (\<lambda>c.
     let db = set_comment (c\<lparr>com_children := f (com_children c)\<rparr>) db in
     if com_parent_author c \<noteq> STEEMIT_ROOT_POST_PARENT then
       bindR (get_comment (com_parent_author c) (com_parent_permlink c) db) (\<lambda>p.
       count_children_walk f n (com_id p) db)
     else Inr db)"

definition count_children :: "(nat \<Rightarrow> nat) \<Rightarrow> nat \<Rightarrow> database \<Rightarrow> database res" where
  "count_children f i db = count_children_walk f (length (db_comments db)) i db"

section \<open>Deletion\<close>

definition delete_comment_evaluator :: "node_flags \<Rightarrow> delete_comment_operation \<Rightarrow> database \<Rightarrow> database res" where
  "delete_comment_evaluator nf op db =
     bindR (if has_hardfork 10 db then bindR (get_account (dlc_author op) db) check_not_challenged else Inr ()) (\<lambda>_.
     bindR (get_comment (dlc_author op) (dlc_permlink op) db) (\<lambda>c.
     bindR (check_logic (com_children c = 0) ''cannot_delete_comment_with_replies'') (\<lambda>_.
     bindR (check_logic (is_producing nf \<longrightarrow> com_net_rshares c \<le> 0) ''cannot_delete_comment_with_positive_votes'') (\<lambda>_.
     if com_net_rshares c > 0 then Inr db
     else
       let db = db\<lparr>db_comment_votes := filter (\<lambda>v. cmv_comment v \<noteq> com_id c) (db_comment_votes db)\<rparr> in
       bindR (if has_hardfork 6 db \<and> com_parent_author c \<noteq> STEEMIT_ROOT_POST_PARENT then
                bindR (get_comment (com_parent_author c) (com_parent_permlink c) db) (\<lambda>p.
                count_children (dec_w 32) (com_id p) db)
              else Inr db) (\<lambda>db.
       Inr (db\<lparr>db_comments := del_by com_id (com_id c) (db_comments db)\<rparr>))))))"

section \<open>Options\<close>

definition STEEMIT_MAX_COMMENT_BENEFICIARIES :: nat where "STEEMIT_MAX_COMMENT_BENEFICIARIES = 64"

text \<open>The weight of the referrer's share, when the comment has that one share already.\<close>

definition referrer_weight :: "comment_object \<Rightarrow> account_object \<Rightarrow> beneficiary_route_type list \<Rightarrow> nat res" where
  "referrer_weight c a bs =
     (case com_beneficiaries c of
        [b] \<Rightarrow>
          if bnf_account b = acc_referrer_account a then
            bindR (check_logic (acc_referrer_account a \<notin> bnf_account ` set bs) ''beneficiaries_should_be_unique'') (\<lambda>_.
            Inr (bnf_weight b))
          else Inl (Logic_error ''comment_already_has_beneficiaries'')
      | [] \<Rightarrow> Inr 0
      | _ \<Rightarrow> Inl (Logic_error ''comment_already_has_beneficiaries''))"

definition add_beneficiaries ::
  "node_flags \<Rightarrow> nat \<Rightarrow> account_object \<Rightarrow> beneficiary_route_type list \<Rightarrow> database \<Rightarrow> database res" where
  "add_beneficiaries nf i a bs db =
     bindR (check_logic (is_producing nf \<longrightarrow> length bs \<le> STEEMIT_MAX_COMMENT_BENEFICIARIES)
       ''cannot_specify_more_beneficiaries'') (\<lambda>_.
     bindR (get_comment_by_id i db) (\<lambda>c.
     bindR (referrer_weight c a bs) (\<lambda>total_weight.
     bindR (check_logic (com_abs_rshares c = 0) ''comment_must_not_have_been_voted'') (\<lambda>_.
     bindR (foldR (\<lambda>b _. bindR (get_account (bnf_account b) db) (\<lambda>_. Inr ())) bs ()) (\<lambda>_.
     let total_weight = (total_weight + sum_list (map bnf_weight bs)) mod 2 ^ 16 in
     bindR (check_param ''beneficiaries'' (check_value (total_weight \<le> STEEMIT_100_PERCENT)
       ''Cannot allocate more than 100% of rewards to a comment'')) (\<lambda>_.
     Inr (set_comment (c\<lparr>com_beneficiaries := com_beneficiaries c @ bs\<rparr>) db)))))))"

definition set_reward_destination :: "nat \<Rightarrow> auction_window_reward_destination_type \<Rightarrow> database \<Rightarrow> database res" where
  "set_reward_destination i destination db =
     (let mprops = wso_median_props (db_schedule db) in
      bindR (ensure (has_hardfork 19 db) (Unsupported_operation ''auction window reward destination option'')) (\<lambda>_.
      bindR (get_comment_by_id i db) (\<lambda>c.
      bindR (check_logic (has_hardfork 20 db \<longrightarrow> com_abs_rshares c = 0) ''comment_must_not_have_been_voted'') (\<lambda>_.
      bindR (check_param ''cawrd.destination'' (check_value
        (destination \<noteq> to_reward_fund \<or> allow_return_auction_reward_to_fund mprops)
        ''Returning to reward fund is disallowed.'')) (\<lambda>_.
      bindR (check_param ''cawrd.destination'' (check_value
        (destination \<noteq> to_curators \<or> allow_distribute_auction_reward mprops)
        ''Distributing between curators is disallowed.'')) (\<lambda>_.
      Inr (set_comment (c\<lparr>com_auction_window_reward_destination := destination\<rparr>) db)))))))"

definition set_curation_percent :: "nat \<Rightarrow> nat \<Rightarrow> database \<Rightarrow> database res" where
  "set_curation_percent i percent db =
     (let mprops = wso_median_props (db_schedule db) in
      bindR (ensure (has_hardfork 19 db) (Unsupported_operation ''comment curation rewards percent option'')) (\<lambda>_.
      bindR (get_comment_by_id i db) (\<lambda>c.
      bindR (check_logic (has_hardfork 20 db \<longrightarrow> com_abs_rshares c = 0) ''comment_must_not_have_been_voted'') (\<lambda>_.
      bindR (check_param ''percent'' (check_value
        (min_curation_percent mprops \<le> percent \<and> percent \<le> max_curation_percent mprops)
        ''Curation rewards percent must be between.'')) (\<lambda>_.
      Inr (set_comment (c\<lparr>com_curation_rewards_percent := percent\<rparr>) db))))))"

text \<open>The visitor looks up the author once per extension, when it is constructed.\<close>

fun apply_comment_option ::
  "node_flags \<Rightarrow> account_name_type \<Rightarrow> nat \<Rightarrow> comment_options_extension \<Rightarrow> database \<Rightarrow> database res" where
  "apply_comment_option nf author i (Comment_payout_beneficiaries bs) db =
     bindR (get_account author db) (\<lambda>a. add_beneficiaries nf i a bs db)"
| "apply_comment_option nf author i (Comment_auction_window_reward_destination d) db =
     bindR (get_account author db) (\<lambda>_. set_reward_destination i d db)"
| "apply_comment_option nf author i (Comment_curation_rewards_percent p) db =
     bindR (get_account author db) (\<lambda>_. set_curation_percent i p db)"

definition check_comment_options :: "comment_options_operation \<Rightarrow> comment_object \<Rightarrow> unit res" where
  "check_comment_options op c =
     bindR (if \<not> cop_allow_curation_rewards op \<or> \<not> cop_allow_votes op then Inr True
            else asset_lt (cop_max_accepted_payout op) (com_max_accepted_payout c)) (\<lambda>restricts.
     bindR (check_logic (restricts \<longrightarrow> com_abs_rshares c = 0) ''comment_options_requires_no_rshares'') (\<lambda>_.
     bindR (check_logic (cop_allow_curation_rewards op \<longrightarrow> com_allow_curation_rewards c)
       ''curation_rewards_cannot_be_reenabled'') (\<lambda>_.
     bindR (check_logic (cop_allow_votes op \<longrightarrow> com_allow_votes c) ''voting_cannot_be_reenabled'') (\<lambda>_.
     bindR (asset_ge (com_max_accepted_payout c) (cop_max_accepted_payout op)) (\<lambda>ge.
     bindR (check_logic ge ''comment_cannot_accept_greater_payout'') (\<lambda>_.
     check_logic (com_percent_steem_dollars c \<ge> cop_percent_steem_dollars op)
       ''comment_cannot_accept_greater_percent_GBG''))))))"

definition comment_options_evaluator :: "node_flags \<Rightarrow> comment_options_operation \<Rightarrow> database \<Rightarrow> database res" where
  "comment_options_evaluator nf op db =
     bindR (if has_hardfork 10 db then bindR (get_account (cop_author op) db) check_not_challenged else Inr ()) (\<lambda>_.
     bindR (get_comment (cop_author op) (cop_permlink op) db) (\<lambda>c.
     bindR (check_comment_options op c) (\<lambda>_.
     let db = set_comment (c\<lparr>com_max_accepted_payout := cop_max_accepted_payout op,
           com_percent_steem_dollars := cop_percent_steem_dollars op, com_allow_votes := cop_allow_votes op,
           com_allow_curation_rewards := cop_allow_curation_rewards op\<rparr>) db
     in foldR (apply_comment_option nf (com_author c) (com_id c)) (cop_extensions op) db)))"

section \<open>Batteries\<close>

text \<open>
  Posts, comments and votes draw on a battery of 16 bits that refills by one per second up to the
  window and gives \<^verbatim>\<open>window / per_window\<close> to each use. Dividing by zero ends the program.
\<close>

definition use_battery :: "nat \<Rightarrow> nat \<Rightarrow> nat \<Rightarrow> int \<Rightarrow> string \<Rightarrow> nat res" where
  "use_battery window per_window capacity elapsed_seconds err =
     bindR (ensure (per_window \<noteq> 0) (Internal_error ''division by zero'')) (\<lambda>_.
     let consumption = window div per_window;
         regenerated_capacity = min window (nat (elapsed_seconds mod 2 ^ 32));
         current_capacity = min ((capacity + regenerated_capacity) mod 2 ^ 16) window
     in bindR (ensure (current_capacity + 1 > consumption) (Bandwidth_error err)) (\<lambda>_.
        Inr (current_capacity - consumption)))"

section \<open>Posting\<close>

definition STEEMIT_MAX_COMMENT_DEPTH :: nat where "STEEMIT_MAX_COMMENT_DEPTH = 65520"
definition STEEMIT_MAX_COMMENT_DEPTH_PRE_HF17 :: nat where "STEEMIT_MAX_COMMENT_DEPTH_PRE_HF17 = 5"
definition STEEMIT_SOFT_MAX_COMMENT_DEPTH :: nat where "STEEMIT_SOFT_MAX_COMMENT_DEPTH = 255"
definition STEEMIT_CASHOUT_WINDOW_SECONDS_PRE_HF12 :: int where "STEEMIT_CASHOUT_WINDOW_SECONDS_PRE_HF12 = 60 * 60 * 24"
definition STEEMIT_CASHOUT_WINDOW_SECONDS_PRE_HF17 :: int where
  "STEEMIT_CASHOUT_WINDOW_SECONDS_PRE_HF17 = STEEMIT_CASHOUT_WINDOW_SECONDS_PRE_HF12"
definition STEEMIT_SECOND_CASHOUT_WINDOW :: int where "STEEMIT_SECOND_CASHOUT_WINDOW = 60 * 60 * 24 * 30"
definition STEEMIT_MAX_CASHOUT_WINDOW_SECONDS :: int where "STEEMIT_MAX_CASHOUT_WINDOW_SECONDS = 60 * 60 * 24 * 14"
definition STEEMIT_REVERSE_AUCTION_WINDOW_SECONDS :: nat where "STEEMIT_REVERSE_AUCTION_WINDOW_SECONDS = 60 * 30"
definition STEEMIT_POST_AVERAGE_WINDOW :: int where "STEEMIT_POST_AVERAGE_WINDOW = 60 * 60 * 24"
definition STEEMIT_POST_WEIGHT_CONSTANT :: int where "STEEMIT_POST_WEIGHT_CONSTANT = (4 * 10000) * (4 * 10000)"
definition STEEMIT_MIN_ROOT_COMMENT_INTERVAL :: int where "STEEMIT_MIN_ROOT_COMMENT_INTERVAL = 60 * 5"
definition STEEMIT_MIN_REPLY_INTERVAL :: int where "STEEMIT_MIN_REPLY_INTERVAL = 20"
definition STEEMIT_MIN_PERMLINK_LENGTH :: nat where "STEEMIT_MIN_PERMLINK_LENGTH = 0"

definition validate_permlink_0_1 :: "string \<Rightarrow> unit res" where
  "validate_permlink_0_1 permlink =
     bindR (check_value (length permlink > STEEMIT_MIN_PERMLINK_LENGTH \<and> length permlink < STEEMIT_MAX_PERMLINK_LENGTH)
       ''Permlink is not a valid size'') (\<lambda>_.
     ensure (\<forall>c \<in> set permlink. CHR ''a'' \<le> c \<and> c \<le> CHR ''z'' \<or> CHR ''0'' \<le> c \<and> c \<le> CHR ''9'' \<or> c = CHR ''-'')
       (Invalid_value ''Invalid permlink character''))"

text \<open>
  The structure \<^verbatim>\<open>comment_bandwidth\<close>: what limits how often an account may post, by hardfork. Times
  to which an interval of the library is added are compared without wrap-around.
\<close>

definition check_posting_rate ::
  "comment_operation \<Rightarrow> account_bandwidth_object \<Rightarrow> account_object \<Rightarrow> database \<Rightarrow> account_object res" where
  "check_posting_rate op band auth db =
     (let now = head_block_time db; mprops = wso_median_props (db_schedule db);
          root = (cmt_parent_author op = STEEMIT_ROOT_POST_PARENT); elapsed_seconds = now - acc_last_post auth in
      if has_hardfork 19 db then
        if root then
          bindR (use_battery (posts_window mprops) (posts_per_window mprops) (acc_posts_capacity auth) elapsed_seconds
            ''post_bandwidth'') (\<lambda>c. Inr (auth\<lparr>acc_posts_capacity := c\<rparr>))
        else
          bindR (use_battery (comments_window mprops) (comments_per_window mprops) (acc_comments_capacity auth)
            elapsed_seconds ''comment_bandwidth'') (\<lambda>c. Inr (auth\<lparr>acc_comments_capacity := c\<rparr>))
      else if has_hardfork 12 db then
        bindR (if root then check_bandwidth now (abw_last_bandwidth_update band + STEEMIT_MIN_ROOT_COMMENT_INTERVAL)
                 ''post_bandwidth''
               else check_bandwidth now (acc_last_post auth + STEEMIT_MIN_REPLY_INTERVAL) ''comment_bandwidth'') (\<lambda>_.
        Inr auth)
      else if has_hardfork 6 db then
        bindR (if root then check_bandwidth now (acc_last_post auth + STEEMIT_MIN_ROOT_COMMENT_INTERVAL) ''post_bandwidth''
               else check_bandwidth now (acc_last_post auth + STEEMIT_MIN_REPLY_INTERVAL) ''comment_bandwidth'') (\<lambda>_.
        Inr auth)
      else bindR (check_bandwidth now (time_plus (acc_last_post auth) 60) ''post_bandwidth'') (\<lambda>_. Inr auth))"

text \<open>The average of recent posts and the weight of the reward of a new one.\<close>

definition average_posts :: "fc_lib \<Rightarrow> account_bandwidth_object \<Rightarrow> time_point_sec \<Rightarrow> int res" where
  "average_posts fc band now =
     (let post_delta_time = min ((now - abw_last_bandwidth_update band) mod 2 ^ 32) STEEMIT_POST_AVERAGE_WINDOW in
      bindR (safe_mul fc (abw_average_bandwidth band) (STEEMIT_POST_AVERAGE_WINDOW - post_delta_time)) (\<lambda>m.
      bindR (safe_div fc m STEEMIT_POST_AVERAGE_WINDOW) (\<lambda>old_weight.
      safe_add fc old_weight INT_100_PERCENT)))"

definition post_weight :: "int \<Rightarrow> nat res" where
  "post_weight pb =
     bindR (ensure ((pb * pb) mod 2 ^ 64 \<noteq> 0) (Internal_error ''division by zero'')) (\<lambda>_.
     Inr (nat (min (STEEMIT_POST_WEIGHT_CONSTANT * INT_100_PERCENT div ((pb * pb) mod 2 ^ 64)) INT_100_PERCENT)))"

definition calc_reward_weight :: "fc_lib \<Rightarrow> comment_operation \<Rightarrow> account_object \<Rightarrow> database \<Rightarrow> (nat \<times> database) res" where
  "calc_reward_weight fc op auth db =
     (let now = head_block_time db;
          band = find_bandwidth (cmt_author op) post_bandwidth (db_bandwidth db);
          db = db\<lparr>db_bandwidth := put_bandwidth band (db_bandwidth db)\<rparr> in
      bindR (check_posting_rate op band auth db) (\<lambda>auth.
      let db = set_account auth db in
      if cmt_parent_author op = STEEMIT_ROOT_POST_PARENT then
        bindR (if has_hardfork 12 db then
                 bindR (average_posts fc band now) (\<lambda>pb. bindR (post_weight pb) (\<lambda>w. Inr (pb, w)))
               else Inr (abw_average_bandwidth band, STEEMIT_100_PERCENT)) (\<lambda>(pb, weight).
        Inr (weight, db\<lparr>db_bandwidth := put_bandwidth (band\<lparr>abw_last_bandwidth_update := now,
          abw_average_bandwidth := pb\<rparr>) (db_bandwidth db)\<rparr>))
      else Inr (STEEMIT_100_PERCENT, db)))"

text \<open>The members of a new comment, with their initial values where the evaluator sets none.\<close>

definition new_comment ::
  "nat \<Rightarrow> comment_operation \<Rightarrow> comment_object option \<Rightarrow> nat \<Rightarrow> account_object \<Rightarrow> database \<Rightarrow> comment_object" where
  "new_comment i op parent reward_weight auth db =
     (let mprops = wso_median_props (db_schedule db); now = head_block_time db in
      \<lparr>com_id = i,
       com_parent_author = (case parent of None \<Rightarrow> [] | Some p \<Rightarrow> com_author p),
       com_parent_permlink = (case parent of None \<Rightarrow> cmt_parent_permlink op | Some p \<Rightarrow> com_permlink p),
       com_author = cmt_author op, com_permlink = cmt_permlink op, com_created = now, com_last_payout = 0,
       com_depth = (case parent of None \<Rightarrow> 0 | Some p \<Rightarrow> Suc (com_depth p)), com_children = 0,
       com_children_rshares2 = 0, com_net_rshares = 0, com_abs_rshares = 0, com_vote_rshares = 0,
       com_children_abs_rshares = 0,
       com_cashout_time =
         (if has_hardfork 17 db then time_plus now STEEMIT_CASHOUT_WINDOW_SECONDS
          else if parent = None \<and> has_hardfork 12 db then time_plus now STEEMIT_CASHOUT_WINDOW_SECONDS_PRE_HF17
          else time_maximum),
       com_max_cashout_time = time_maximum, com_reward_weight = reward_weight, com_net_votes = 0, com_total_votes = 0,
       com_root_comment = (case parent of None \<Rightarrow> i | Some p \<Rightarrow> com_root_comment p),
       com_mode = first_payout, com_curation_reward_curve = Curve_detect,
       com_auction_window_reward_destination =
         (if has_hardfork 19 db then if allow_distribute_auction_reward mprops then to_curators else to_reward_fund
          else to_author),
       com_auction_window_size =
         (if has_hardfork 19 db then auction_window_size mprops else STEEMIT_REVERSE_AUCTION_WINDOW_SECONDS),
       com_max_accepted_payout = \<lparr>amount = 1000000000, symbol = SBD_SYMBOL\<rparr>,
       com_percent_steem_dollars = STEEMIT_100_PERCENT, com_allow_replies = True, com_allow_votes = True,
       com_allow_curation_rewards = True,
       com_curation_rewards_percent =
         (if has_hardfork 19 db then min_curation_percent mprops else STEEMIT_MIN_CURATION_PERCENT),
       com_beneficiaries =
         (if acc_referrer_account auth \<noteq> [] \<and> now < acc_referral_end_date auth
          then [\<lparr>bnf_account = acc_referrer_account auth, bnf_weight = acc_referrer_interest_rate auth\<rparr>] else [])\<rparr>)"

definition count_post :: "comment_operation \<Rightarrow> time_point_sec \<Rightarrow> account_object \<Rightarrow> account_object" where
  "count_post op now a =
     (let a = a\<lparr>acc_last_post := now\<rparr> in
      if cmt_parent_author op \<noteq> STEEMIT_ROOT_POST_PARENT then a\<lparr>acc_comment_count := inc_w 32 (acc_comment_count a)\<rparr>
      else a\<lparr>acc_post_count := inc_w 32 (acc_post_count a)\<rparr>)"

definition forget_referrer :: "account_object \<Rightarrow> account_object" where
  "forget_referrer a = a\<lparr>acc_referrer_account := [], acc_referrer_interest_rate := 0, acc_referral_end_date := 0,
     acc_referral_break_fee := (acc_referral_break_fee a)\<lparr>amount := 0\<rparr>\<rparr>"

definition create_comment ::
  "fc_lib \<Rightarrow> comment_operation \<Rightarrow> comment_object option \<Rightarrow> database \<Rightarrow> database res" where
  "create_comment fc op parent db =
     bindR (case parent of
              None \<Rightarrow> Inr ()
            | Some p \<Rightarrow> bindR (get_comment_by_id (com_root_comment p) db) (\<lambda>r.
                check_logic (com_allow_replies r) ''replies_are_not_allowed'')) (\<lambda>_.
     bindR (get_account (cmt_author op) db) (\<lambda>auth.
     bindR (calc_reward_weight fc op auth db) (\<lambda>(reward_weight, db).
     bindR (modify_account (cmt_author op) (\<lambda>a. Inr (count_post op (head_block_time db) a)) db) (\<lambda>db.
     bindR (get_account (cmt_author op) db) (\<lambda>auth.
     bindR (if has_hardfork 1 db then
              bindR (check_param ''parent_permlink'' (validate_permlink_0_1 (cmt_parent_permlink op))) (\<lambda>_.
              check_param ''permlink'' (validate_permlink_0_1 (cmt_permlink op)))
            else Inr ()) (\<lambda>_.
     let com = new_comment (db_next_id db comment_object_type) op parent reward_weight auth db in
     bindR (create_in com_key com (db_comments db)) (\<lambda>cs.
     let db = bump_id comment_object_type (db\<lparr>db_comments := cs\<rparr>) in
     bindR (if acc_referrer_account auth \<noteq> [] \<and> \<not> head_block_time db < acc_referral_end_date auth
            then modify_account (cmt_author op) (\<lambda>a. Inr (forget_referrer a)) db else Inr db) (\<lambda>db.
     case parent of None \<Rightarrow> Inr db | Some p \<Rightarrow> count_children (inc_w 32) (com_id p) db))))))))"

text \<open>
  Editing changes nothing in the state; the comparison of the permlinks is the one the code has,
  which takes any two strings of the same length for equal.
\<close>

definition strcmp_equal :: "string \<Rightarrow> string \<Rightarrow> bool" where
  "strcmp_equal a b \<longleftrightarrow> length a = length b \<or> c_str a = c_str b"

definition edit_comment :: "comment_operation \<Rightarrow> comment_object option \<Rightarrow> comment_object \<Rightarrow> database \<Rightarrow> database res" where
  "edit_comment op parent com db =
     bindR (check_logic (com_parent_author com = (if parent = None then [] else cmt_parent_author op))
       ''parent_of_comment_cannot_change'') (\<lambda>_.
     bindR (check_logic (strcmp_equal (com_parent_permlink com) (cmt_parent_permlink op))
       ''parent_perlink_of_comment_cannot_change'') (\<lambda>_. Inr db))"

definition comment_parent :: "node_flags \<Rightarrow> comment_operation \<Rightarrow> database \<Rightarrow> comment_object option res" where
  "comment_parent nf op db =
     (if cmt_parent_author op = STEEMIT_ROOT_POST_PARENT then Inr None
      else
        bindR (get_comment (cmt_parent_author op) (cmt_parent_permlink op) db) (\<lambda>p.
        let max_depth = (if \<not> has_hardfork 17 db then STEEMIT_MAX_COMMENT_DEPTH_PRE_HF17
              else if is_producing nf then STEEMIT_SOFT_MAX_COMMENT_DEPTH else STEEMIT_MAX_COMMENT_DEPTH)
        in bindR (check_logic (com_depth p < max_depth) ''reached_comment_max_depth'') (\<lambda>_. Inr (Some p))))"

definition comment_evaluator :: "fc_lib \<Rightarrow> node_flags \<Rightarrow> comment_operation \<Rightarrow> database \<Rightarrow> database res" where
  "comment_evaluator fc nf op db =
     bindR (check_logic (is_producing nf \<or> has_hardfork 5 db \<longrightarrow> cmt_title op @ cmt_body op @ cmt_json_metadata op \<noteq> [])
       ''cannot_update_comment_because_nothing_changed'') (\<lambda>_.
     bindR (get_account (cmt_author op) db) (\<lambda>auth.
     bindR (if has_hardfork 10 db then check_not_challenged auth else Inr ()) (\<lambda>_.
     bindR (comment_parent nf op db) (\<lambda>parent.
     case find_comment (cmt_author op) (cmt_permlink op) db of
       None \<Rightarrow> create_comment fc op parent db
     | Some com \<Rightarrow> edit_comment op parent com db))))"

section \<open>Votes\<close>

definition STEEMIT_MIN_VOTE_INTERVAL_SEC :: int where "STEEMIT_MIN_VOTE_INTERVAL_SEC = 3"
definition STEEMIT_UPVOTE_LOCKOUT :: int where "STEEMIT_UPVOTE_LOCKOUT = 60"
definition STEEMIT_MAX_VOTE_CHANGES :: int where "STEEMIT_MAX_VOTE_CHANGES = 5"
definition STEEMIT_HARDFORK_0_6_REVERSE_AUCTION_TIME :: time_point_sec where
  "STEEMIT_HARDFORK_0_6_REVERSE_AUCTION_TIME = 1476788510"
definition GOLOS_BUG1074_BLOCK :: nat where "GOLOS_BUG1074_BLOCK = 23569125"

definition as_int64 :: "int \<Rightarrow> int" where
  "as_int64 x = (x + 2 ^ 63) mod 2 ^ 64 - 2 ^ 63"

definition find_comment_vote :: "nat \<Rightarrow> nat \<Rightarrow> database \<Rightarrow> comment_vote_object option" where
  "find_comment_vote c voter db = find_by cmv_key (c, voter) (db_comment_votes db)"

definition create_comment_vote :: "comment_vote_object \<Rightarrow> database \<Rightarrow> database res" where
  "create_comment_vote v db =
     bindR (create_in cmv_key v (db_comment_votes db)) (\<lambda>vs.
     Inr (bump_id comment_vote_object_type (db\<lparr>db_comment_votes := vs\<rparr>)))"

definition set_comment_vote :: "comment_vote_object \<Rightarrow> database \<Rightarrow> database" where
  "set_comment_vote v db = db\<lparr>db_comment_votes := upd_by cmv_key v (db_comment_votes db)\<rparr>"

text \<open>A vote after the payout is recorded, but it has no effect on rewards.\<close>

definition vote_archived :: "vote_operation \<Rightarrow> account_object \<Rightarrow> comment_object \<Rightarrow> database \<Rightarrow> database res" where
  "vote_archived op voter c db =
     (let now = head_block_time db in
      case find_comment_vote (com_id c) (acc_id voter) db of
        None \<Rightarrow>
          let db = set_comment (c\<lparr>com_total_votes := inc_w 32 (com_total_votes c)\<rparr>) db
          in create_comment_vote \<lparr>cmv_id = db_next_id db comment_vote_object_type, cmv_voter = acc_id voter,
               cmv_comment = com_id c, cmv_orig_rshares = 0, cmv_rshares = 0, cmv_vote_percent = vot_weight op,
               cmv_auction_time = 0, cmv_last_update = now, cmv_num_changes = -2,
               cmv_delegator_vote_interest_rates = []\<rparr> db
      | Some v \<Rightarrow> Inr (set_comment_vote (v\<lparr>cmv_vote_percent := vot_weight op, cmv_last_update := now\<rparr>) db))"

definition spend_vote_capacity :: "account_object \<Rightarrow> database \<Rightarrow> account_object res" where
  "spend_vote_capacity voter db =
     (let now = head_block_time db; mprops = wso_median_props (db_schedule db) in
      if has_hardfork 19 db then
        bindR (use_battery (votes_window mprops) (votes_per_window mprops) (acc_voting_capacity voter)
          (now - acc_last_vote_time voter) ''vote_bandwidth'') (\<lambda>c. Inr (voter\<lparr>acc_voting_capacity := c\<rparr>))
      else
        bindR (check_bandwidth now (time_plus (acc_last_vote_time voter) (STEEMIT_MIN_VOTE_INTERVAL_SEC - 1))
          ''vote_bandwidth'') (\<lambda>_. Inr voter))"

text \<open>The voting power of an account, regenerated within five days, and what a vote takes of it.\<close>

definition current_power :: "account_object \<Rightarrow> database \<Rightarrow> int" where
  "current_power voter db =
     (let elapsed_seconds = head_block_time db - acc_last_vote_time voter;
          regenerated_power = cdiv (INT_100_PERCENT * elapsed_seconds) STEEMIT_VOTE_REGENERATION_SECONDS
      in min (int (acc_voting_power voter) + regenerated_power) INT_100_PERCENT)"

definition used_power :: "int \<Rightarrow> int \<Rightarrow> database \<Rightarrow> int res" where
  "used_power pow_left weight db =
     (let max_vote_denom = (int (dgp_vote_regeneration_per_day (db_dgp db)) * STEEMIT_VOTE_REGENERATION_SECONDS) mod 2 ^ 32
            div (60 * 60 * 24);
          used = cdiv (pow_left * \<bar>weight\<bar>) INT_100_PERCENT in
      bindR (ensure (max_vote_denom > 0) (Internal_error ''max_vote_denom is too small'')) (\<lambda>_.
      let used = (if \<not> has_hardfork 14 db then cdiv used max_vote_denom + 1
                  else cdiv (used + max_vote_denom - 1) max_vote_denom)
      in bindR (check_logic (used \<le> pow_left) ''does_not_have_voting_power'') (\<lambda>_. Inr used)))"

definition vote_shares :: "fc_lib \<Rightarrow> account_object \<Rightarrow> int \<Rightarrow> vote_operation \<Rightarrow> database \<Rightarrow> int res" where
  "vote_shares fc voter used op db =
     bindR (effective_vesting_shares fc voter) (\<lambda>effective.
     bindR (u128_div fc (u128_mul fc (u128_of fc (amount effective)) (u128_of fc used)) (u128_of fc INT_100_PERCENT)) (\<lambda>q.
     bindR (u128_to_uint64 fc q) (\<lambda>r.
     let abs_rshares = as_int64 r;
         abs_rshares = (if \<not> has_hardfork 14 db \<and> abs_rshares = 0 then 1 else abs_rshares) in
     bindR (check_logic
       (if has_hardfork 14 db then abs_rshares > 30000000 \<or> vot_weight op = 0
        else has_hardfork 13 db \<longrightarrow> abs_rshares > 30000000 \<or> abs_rshares = 1)
       ''voting_weight_is_too_small'') (\<lambda>_.
     Inr abs_rshares))))"

text \<open>
  The share of every delegator in the curation rewards of the voter, by the part of the voter's
  shares that is delegated. Before the repair of a bug the product was taken in 64 bits.
\<close>

definition delegator_rate :: "fc_lib \<Rightarrow> int \<Rightarrow> vesting_delegation_object \<Rightarrow> database \<Rightarrow> nat res" where
  "delegator_rate fc effective d db =
     (let shares = amount (vdo_vesting_shares d); rate = int (vdo_interest_rate d) in
      if head_block_num db < GOLOS_BUG1074_BLOCK \<and> \<not> has_hardfork 20 db then
        bindR (ensure (effective \<noteq> 0) (Internal_error ''division by zero'')) (\<lambda>_.
        Inr (nat (cdiv (as_int64 (shares * rate)) effective mod 2 ^ 16)))
      else
        bindR (u128_div fc (u128_mul fc (u128_of fc shares) (u128_of fc rate)) (u128_of fc effective)) (\<lambda>q.
        bindR (u128_to_uint64 fc q) (\<lambda>r. Inr (nat (r mod 2 ^ 16)))))"

definition delegator_rates :: "fc_lib \<Rightarrow> account_object \<Rightarrow> database \<Rightarrow> delegator_vote_interest_rate list res" where
  "delegator_rates fc voter db =
     bindR (if has_hardfork 19 db then asset_gt (acc_received_vesting_shares voter) \<lparr>amount = 0, symbol = VESTS_SYMBOL\<rparr>
            else Inr False) (\<lambda>received.
     if received then
       foldR (\<lambda>d rs.
         bindR (effective_vesting_shares fc voter) (\<lambda>effective.
         bindR (delegator_rate fc (amount effective) d db) (\<lambda>r.
         Inr (if r > 0 then rs @ [\<lparr>dvir_account = vdo_delegator d, dvir_interest_rate = r,
                dvir_payout_strategy = vdo_payout_strategy d\<rparr>] else rs))))
         (sort_by (\<lambda>a b. vdo_delegator a < vdo_delegator b)
           (filter (\<lambda>d. vdo_delegatee d = acc_name voter) (db_delegations db))) []
     else Inr [])"

definition check_lockout :: "comment_object \<Rightarrow> database \<Rightarrow> unit res" where
  "check_lockout c db =
     bindR (calculate_discussion_payout_time c db) (\<lambda>t.
     check_logic (head_block_time db < t - STEEMIT_UPVOTE_LOCKOUT) ''cannot_vote_within_last_minute_before_payout'')"

text \<open>Until hardfork 17 a vote moves the payout time of the discussion: the average by shares.\<close>

definition average_cashout :: "fc_lib \<Rightarrow> bool \<Rightarrow> comment_object \<Rightarrow> int \<Rightarrow> int \<Rightarrow> database \<Rightarrow> int res" where
  "average_cashout fc keep c old_root_abs_rshares abs_rshares db =
     (if has_hardfork 17 db then Inr 0
      else
        bindR (calculate_discussion_payout_time c db) (\<lambda>cur.
        if keep \<and> has_hardfork 14 db \<and> abs_rshares = 0 then Inr cur
        else
          let w = (if has_hardfork 12 db \<and> \<not> has_hardfork 13 db then STEEMIT_CASHOUT_WINDOW_SECONDS_PRE_HF17
                   else STEEMIT_CASHOUT_WINDOW_SECONDS_PRE_HF12);
              new = u128_add fc (u128_of fc (head_block_time db)) (u128_of fc w)
          in u128_div fc (u128_add fc (u128_mul fc (u128_of fc cur) (u128_of fc old_root_abs_rshares))
               (u128_mul fc new (u128_of fc abs_rshares))) (u128_of fc (old_root_abs_rshares + abs_rshares))))"

definition touch_root :: "fc_lib \<Rightarrow> int \<Rightarrow> int \<Rightarrow> database \<Rightarrow> comment_object \<Rightarrow> comment_object res" where
  "touch_root fc abs_rshares avg_cashout_sec db c =
     bindR (safe_add fc (com_children_abs_rshares c) abs_rshares) (\<lambda>s.
     let c = c\<lparr>com_children_abs_rshares := s\<rparr> in
     if has_hardfork 17 db then Inr c
     else
       bindR (if has_hardfork 12 db \<and> com_last_payout c > 0
              then Inr (time_plus (com_last_payout c) STEEMIT_SECOND_CASHOUT_WINDOW)
              else bindR (u128_to_uint64 fc avg_cashout_sec) (\<lambda>t. Inr (min (t mod 2 ^ 32) (com_max_cashout_time c)))) (\<lambda>t.
       Inr (c\<lparr>com_cashout_time := t, com_max_cashout_time :=
         (if com_max_cashout_time c = time_maximum then time_plus (head_block_time db) STEEMIT_MAX_CASHOUT_WINDOW_SECONDS
          else com_max_cashout_time c)\<rparr>)))"

text \<open>The comment counts the shares of a new vote; \<^verbatim>\<open>net_votes\<close> is a signed 32-bit number.\<close>

definition as_int32 :: "int \<Rightarrow> int" where
  "as_int32 x = (x + 2 ^ 31) mod 2 ^ 32 - 2 ^ 31"

definition add_vote :: "fc_lib \<Rightarrow> int \<Rightarrow> int \<Rightarrow> database \<Rightarrow> comment_object \<Rightarrow> comment_object res" where
  "add_vote fc rshares abs_rshares db c =
     bindR (safe_add fc (com_net_rshares c) rshares) (\<lambda>net.
     bindR (safe_add fc (com_abs_rshares c) abs_rshares) (\<lambda>abs.
     bindR (if rshares > 0 then safe_add fc (com_vote_rshares c) rshares else Inr (com_vote_rshares c)) (\<lambda>votes.
     let net_votes = as_int32 (if rshares > 0 then com_net_votes c + 1 else com_net_votes c - 1) in
     bindR (if has_hardfork 6 db then Inr False else bindR (safe_neg fc abs) (\<lambda>m. Inr (net = m))) (\<lambda>all_negative.
     bindR (ensure (all_negative \<longrightarrow> net_votes < 0) (Internal_error ''Comment has negative network votes?'')) (\<lambda>_.
     Inr (c\<lparr>com_net_rshares := net, com_abs_rshares := abs, com_total_votes := inc_w 32 (com_total_votes c),
       com_vote_rshares := votes, com_net_votes := net_votes\<rparr>))))))"

text \<open>The part of the auction window that has passed; it matters for votes that earn a reward.\<close>

definition vote_auction_time :: "account_object \<Rightarrow> comment_object \<Rightarrow> database \<Rightarrow> nat" where
  "vote_auction_time voter c db =
     (let now = head_block_time db;
          delta_t = min ((now - com_created c) mod 2 ^ 64) (int (com_auction_window_size c)) in
      if now > STEEMIT_HARDFORK_0_6_REVERSE_AUCTION_TIME then
        if has_hardfork 19 db \<and> acc_name voter = com_author c then com_auction_window_size c else nat (delta_t mod 2 ^ 16)
      else 0)"

definition new_comment_vote ::
  "vote_operation \<Rightarrow> int \<Rightarrow> delegator_vote_interest_rate list \<Rightarrow> account_object \<Rightarrow> comment_object \<Rightarrow> database \<Rightarrow>
   comment_vote_object" where
  "new_comment_vote op rshares rates voter c db =
     (let earns = (rshares > 0 \<and> com_last_payout c = 0 \<and> com_allow_curation_rewards c) in
      \<lparr>cmv_id = db_next_id db comment_vote_object_type, cmv_voter = acc_id voter, cmv_comment = com_id c,
       cmv_orig_rshares = (if earns then rshares else 0), cmv_rshares = rshares, cmv_vote_percent = vot_weight op,
       cmv_auction_time = (if earns then vote_auction_time voter c db else 0), cmv_last_update = head_block_time db,
       cmv_num_changes = 0, cmv_delegator_vote_interest_rates = (if earns then rates else [])\<rparr>)"

definition spend_power :: "account_name_type \<Rightarrow> int \<Rightarrow> int \<Rightarrow> database \<Rightarrow> database res" where
  "spend_power n pow_left used db =
     modify_account n (\<lambda>a. Inr (a\<lparr>acc_voting_power := nat ((pow_left - used) mod 2 ^ 16),
       acc_last_vote_time := head_block_time db\<rparr>)) db"

text \<open>The shares that count: a comment with negative shares earns nothing.\<close>

definition counted_shares :: "fc_lib \<Rightarrow> comment_object \<Rightarrow> database \<Rightarrow> int" where
  "counted_shares fc c db = calculate_vshares fc (u128_of fc (max (com_net_rshares c) 0)) db"

definition first_vote ::
  "fc_lib \<Rightarrow> vote_operation \<Rightarrow> account_object \<Rightarrow> comment_object \<Rightarrow> int \<Rightarrow> int \<Rightarrow> int \<Rightarrow> database \<Rightarrow> database res" where
  "first_vote fc op voter c pow_left used abs_rshares db =
     bindR (delegator_rates fc voter db) (\<lambda>rates.
     bindR (check_param ''weight'' (check_value (vot_weight op \<noteq> 0) ''Vote weight cannot be 0'')) (\<lambda>_.
     let rshares = (if vot_weight op < 0 then - abs_rshares else abs_rshares) in
     bindR (if rshares > 0 then check_lockout c db else Inr ()) (\<lambda>_.
     bindR (spend_power (acc_name voter) pow_left used db) (\<lambda>db.
     bindR (get_comment_by_id (com_root_comment c) db) (\<lambda>root.
     bindR (average_cashout fc False c (com_children_abs_rshares root) abs_rshares db) (\<lambda>avg.
     bindR (check_logic (abs_rshares > 0) ''cannot_vote_with_zero_rshares'') (\<lambda>_.
     bindR (modify_comment (com_id c) (add_vote fc rshares abs_rshares db) db) (\<lambda>db.
     bindR (modify_comment (com_root_comment c) (touch_root fc abs_rshares avg db) db) (\<lambda>db.
     bindR (get_comment_by_id (com_id c) db) (\<lambda>c'.
     bindR (create_comment_vote (new_comment_vote op rshares rates voter c' db) db) (\<lambda>db.
     adjust_rshares2 fc (com_id c) (counted_shares fc c db) (counted_shares fc c' db) db)))))))))))"

definition vote_delta :: "int \<Rightarrow> int \<Rightarrow> int" where
  "vote_delta old new = sgn new - sgn old"

definition change_shares :: "fc_lib \<Rightarrow> int \<Rightarrow> int \<Rightarrow> int \<Rightarrow> comment_object \<Rightarrow> comment_object res" where
  "change_shares fc old rshares abs_rshares c =
     bindR (safe_sub fc (com_net_rshares c) old) (\<lambda>net.
     bindR (safe_add fc net rshares) (\<lambda>net.
     bindR (safe_add fc (com_abs_rshares c) abs_rshares) (\<lambda>abs.
     Inr (c\<lparr>com_net_rshares := net, com_abs_rshares := abs,
       com_net_votes := as_int32 (com_net_votes c + vote_delta old rshares)\<rparr>))))"

definition change_vote ::
  "fc_lib \<Rightarrow> vote_operation \<Rightarrow> account_object \<Rightarrow> comment_object \<Rightarrow> comment_vote_object \<Rightarrow> int \<Rightarrow> int \<Rightarrow> int \<Rightarrow>
   database \<Rightarrow> database res" where
  "change_vote fc op voter c v pow_left used abs_rshares db =
     bindR (check_logic (cmv_num_changes v < STEEMIT_MAX_VOTE_CHANGES) ''voter_has_used_maximum_vote_changes'') (\<lambda>_.
     bindR (check_logic (cmv_vote_percent v \<noteq> vot_weight op) ''already_voted_in_similar_way'') (\<lambda>_.
     let rshares = (if vot_weight op < 0 then - abs_rshares else abs_rshares) in
     bindR (if cmv_rshares v < rshares then check_lockout c db else Inr ()) (\<lambda>_.
     bindR (spend_power (acc_name voter) pow_left used db) (\<lambda>db.
     bindR (get_comment_by_id (com_root_comment c) db) (\<lambda>root.
     bindR (average_cashout fc True c (com_children_abs_rshares root) abs_rshares db) (\<lambda>avg.
     bindR (modify_comment (com_id c) (change_shares fc (cmv_rshares v) rshares abs_rshares) db) (\<lambda>db.
     bindR (modify_comment (com_root_comment c) (touch_root fc abs_rshares avg db) db) (\<lambda>db.
     bindR (get_comment_by_id (com_id c) db) (\<lambda>c'.
     let db = set_comment_vote (v\<lparr>cmv_rshares := rshares, cmv_vote_percent := vot_weight op,
           cmv_last_update := head_block_time db, cmv_num_changes := cmv_num_changes v + 1,
           cmv_delegator_vote_interest_rates := []\<rparr>) db
     in adjust_rshares2 fc (com_id c) (counted_shares fc c db) (counted_shares fc c' db) db)))))))))"

definition vote_evaluator :: "fc_lib \<Rightarrow> vote_operation \<Rightarrow> database \<Rightarrow> database res" where
  "vote_evaluator fc op db =
     bindR (get_comment (vot_author op) (vot_permlink op) db) (\<lambda>c.
     bindR (get_account (vot_voter op) db) (\<lambda>voter.
     bindR (check_not_challenged voter) (\<lambda>_.
     bindR (check_logic (acc_can_vote voter) ''voter_declined_voting_rights'') (\<lambda>_.
     bindR (check_logic (vot_weight op > 0 \<longrightarrow> com_allow_votes c) ''votes_are_not_allowed'') (\<lambda>_.
     bindR (calculate_discussion_payout_time c db) (\<lambda>t.
     if t = time_maximum then vote_archived op voter c db
     else
       bindR (spend_vote_capacity voter db) (\<lambda>voter.
       let db = set_account voter db; pow_left = current_power voter db in
       bindR (check_logic (pow_left > 0) ''does_not_have_voting_power'') (\<lambda>_.
       bindR (used_power pow_left (vot_weight op) db) (\<lambda>used.
       bindR (vote_shares fc voter used op db) (\<lambda>abs_rshares.
       case find_comment_vote (com_id c) (acc_id voter) db of
         None \<Rightarrow> first_vote fc op voter c pow_left used abs_rshares db
       | Some v \<Rightarrow> change_vote fc op voter c v pow_left used abs_rshares db))))))))))"

end
