(* ===== verification/Comment_Conservation.thy ===== *)
theory Comment_Conservation
  imports Comments Vote_Conservation
begin

text \<open>
  The operations on comments move no tokens. Each lemma says that a step may follow any sequence of
  steps without changing what that sequence moved.
\<close>

lemma moves_comment_objects [simp]:
  "moves db (db'\<lparr>db_comments := cs\<rparr>) s g v = moves db db' s g v"
  "moves db (db'\<lparr>db_comment_votes := vs\<rparr>) s g v = moves db db' s g v"
  "moves db (db'\<lparr>db_bandwidth := bs\<rparr>) s g v = moves db db' s g v"
  "moves db (db'\<lparr>db_proposals := ps\<rparr>) s g v = moves db db' s g v"
  "moves db (db'\<lparr>db_required_approvals := rs\<rparr>) s g v = moves db db' s g v"
  "moves db (db'\<lparr>db_dgp := (db_dgp db')\<lparr>dgp_total_reward_shares2 := x\<rparr>\<rparr>) s g v = moves db db' s g v"
  by (simp_all add: moves_def ledger_ok_def dgp_ok_def gap_steem_def gap_sbd_def gap_vests_def held_def)

lemma set_comment_moves [simp]: "moves db (set_comment c db') s g v = moves db db' s g v"
  by (simp add: set_comment_def)

lemma set_comment_vote_moves [simp]: "moves db (set_comment_vote cv db') s g v = moves db db' s g v"
  by (simp add: set_comment_vote_def)

lemma modify_comment_after: "modify_comment i f db = Inr db' \<Longrightarrow> moves db0 db s g v \<Longrightarrow> moves db0 db' s g v"
  by (auto simp: modify_comment_def)

lemma create_comment_vote_after: "create_comment_vote cv db = Inr db' \<Longrightarrow> moves db0 db s g v \<Longrightarrow> moves db0 db' s g v"
  by (auto simp: create_comment_vote_def)

lemma set_account_after:
  assumes "get_account n db = Inr a" "credited a a' 0 0" "moves db0 db s g v"
  shows "moves db0 (set_account a' db) s g v"
proof (rule step_after [OF assms(3)])
  assume "ledger_ok db"
  moreover have "modify_account n (\<lambda>_. Inr a') db = Inr (set_account a' db)" by (simp add: modify_account_def assms(1))
  moreover have "account_ok a" using calculation(1) assms(1) by (rule ledger_ok_account)
  ultimately show "moves db (set_account a' db) 0 0 0"
    using set_account_moves [of db n a a'] assms(1,2) credited_account [OF assms(2)] get_account_name
    by (auto simp: credited_def)
qed

lemma adjust_rshares2_after:
  "adjust_rshares2 fc i x y db = Inr db' \<Longrightarrow> moves db0 db s g v \<Longrightarrow> moves db0 db' s g v"
proof -
  have "adjust_rshares2_walk fc n i x y db = Inr db' \<Longrightarrow> moves db0 db s g v \<Longrightarrow> moves db0 db' s g v" for n
    by (induction fc n i x y db rule: adjust_rshares2_walk.induct) (auto simp: Let_def split: if_split_asm)
  then show "adjust_rshares2 fc i x y db = Inr db' \<Longrightarrow> moves db0 db s g v \<Longrightarrow> moves db0 db' s g v"
    by (simp add: adjust_rshares2_def)
qed

lemma count_children_after:
  "count_children f i db = Inr db' \<Longrightarrow> moves db0 db s g v \<Longrightarrow> moves db0 db' s g v"
proof -
  have "count_children_walk f n i db = Inr db' \<Longrightarrow> moves db0 db s g v \<Longrightarrow> moves db0 db' s g v" for n
    by (induction f n i db rule: count_children_walk.induct) (auto simp: Let_def split: if_split_asm)
  then show "count_children f i db = Inr db' \<Longrightarrow> moves db0 db s g v \<Longrightarrow> moves db0 db' s g v"
    by (simp add: count_children_def)
qed

section \<open>Evaluators\<close>

lemma delete_comment_moves:
  assumes "ledger_ok db" "delete_comment_evaluator nf op db = Inr db'"
  shows "moves db db' 0 0 0"
proof -
  obtain c :: comment_object where run: "(if com_net_rshares c > 0 then Inr db
     else
       let db = db\<lparr>db_comment_votes := filter (\<lambda>v. cmv_comment v \<noteq> com_id c) (db_comment_votes db)\<rparr> in
       bindR (if has_hardfork 6 db \<and> com_parent_author c \<noteq> STEEMIT_ROOT_POST_PARENT then
                bindR (get_comment (com_parent_author c) (com_parent_permlink c) db) (\<lambda>p.
                count_children (dec_w 32) (com_id p) db)
              else Inr db) (\<lambda>db.
       Inr (db\<lparr>db_comments := del_by com_id (com_id c) (db_comments db)\<rparr>))) = Inr db'"
    using assms(2) unfolding delete_comment_evaluator_def bindR_eq_Inr by (elim exE conjE) (rule that)
  have "moves db (db\<lparr>db_comment_votes := vs\<rparr>) 0 0 0" for vs by (simp add: moves_refl assms(1))
  note base = count_children_after [OF _ this] this
  show ?thesis
  proof (cases "com_net_rshares c > 0")
    case True
    then show ?thesis using run moves_refl [OF assms(1)] by simp
  next
    case False
    then show ?thesis
      using run moves_refl [OF assms(1)] unfolding Let_def bindR_eq_Inr by (auto split: if_split_asm dest: base(1))
  qed
qed

lemma apply_comment_option_after:
  "apply_comment_option nf a i e db = Inr db' \<Longrightarrow> moves db0 db s g v \<Longrightarrow> moves db0 db' s g v"
  by (induction nf a i e db rule: apply_comment_option.induct)
    (auto simp: add_beneficiaries_def set_reward_destination_def set_curation_percent_def Let_def)

lemma foldR_after:
  assumes "foldR f xs db = Inr db'" "moves db0 db s g v"
    and "\<And>x db db'. x \<in> set xs \<Longrightarrow> f x db = Inr db' \<Longrightarrow> moves db0 db s g v \<Longrightarrow> moves db0 db' s g v"
  shows "moves db0 db' s g v"
  using assms by (induction xs arbitrary: db) auto

lemma comment_options_moves:
  assumes "ledger_ok db" "comment_options_evaluator nf op db = Inr db'"
  shows "moves db db' 0 0 0"
proof -
  obtain c where "foldR (apply_comment_option nf (com_author c) (com_id c)) (cop_extensions op)
      (set_comment (c\<lparr>com_max_accepted_payout := cop_max_accepted_payout op,
         com_percent_steem_dollars := cop_percent_steem_dollars op, com_allow_votes := cop_allow_votes op,
         com_allow_curation_rewards := cop_allow_curation_rewards op\<rparr>) db) = Inr db'"
    using assms(2) by (auto simp: comment_options_evaluator_def Let_def)
  then show ?thesis
    by (rule foldR_after) (auto simp: moves_refl assms(1) dest: apply_comment_option_after)
qed

lemma check_posting_rate_credited: "check_posting_rate op band a db = Inr a' \<Longrightarrow> credited a a' 0 0"
  by (auto simp: check_posting_rate_def credited_def Let_def split: if_split_asm)

lemma calc_reward_weight_after:
  assumes "calc_reward_weight fc op a db = Inr (w, db')" "get_account n db = Inr a" "moves db0 db s g v"
  shows "moves db0 db' s g v"
proof -
  let ?db = "\<lambda>bs. db\<lparr>db_bandwidth := bs\<rparr>"
  obtain bs a' bs' where "check_posting_rate op (find_bandwidth (cmt_author op) post_bandwidth (db_bandwidth db)) a (?db bs) = Inr a'"
    "db' = (set_account a' (?db bs))\<lparr>db_bandwidth := bs'\<rparr>"
  proof -
    let ?b = "find_bandwidth (cmt_author op) post_bandwidth (db_bandwidth db)"
    assume hyp: "\<And>bs a' bs'. check_posting_rate op ?b a (?db bs) = Inr a' \<Longrightarrow>
      db' = (set_account a' (?db bs))\<lparr>db_bandwidth := bs'\<rparr> \<Longrightarrow> thesis"
    from assms(1) obtain a' where a': "check_posting_rate op ?b a (?db (put_bandwidth ?b (db_bandwidth db))) = Inr a'"
      and rest: "db' = set_account a' (?db (put_bandwidth ?b (db_bandwidth db))) \<or>
        (\<exists>bs'. db' = (set_account a' (?db (put_bandwidth ?b (db_bandwidth db))))\<lparr>db_bandwidth := bs'\<rparr>)"
      by (auto simp: calc_reward_weight_def Let_def split: if_split_asm)
    have "\<exists>bs'. db' = (set_account a' (?db (put_bandwidth ?b (db_bandwidth db))))\<lparr>db_bandwidth := bs'\<rparr>"
      using rest
    proof
      assume e: "db' = set_account a' (?db (put_bandwidth ?b (db_bandwidth db)))"
      show ?thesis by (rule exI [of _ "db_bandwidth db'"]) (simp add: e)
    qed
    with a' hyp show thesis by blast
  qed
  moreover have "get_account n (?db bs) = Inr a" using assms(2) by (simp add: get_account_def find_account_def)
  ultimately show ?thesis
    using set_account_after [of n "?db bs" a a' db0 s g v] check_posting_rate_credited assms(3) by simp
qed

lemma create_comment_moves:
  assumes "ledger_ok db" "create_comment fc op parent db = Inr db'"
  shows "moves db db' 0 0 0"
proof -
  obtain auth w db1 db2 auth' cs db3 where run: "get_account (cmt_author op) db = Inr auth"
    "calc_reward_weight fc op auth db = Inr (w, db1)"
    "modify_account (cmt_author op) (\<lambda>a. Inr (count_post op (head_block_time db1) a)) db1 = Inr db2"
    "get_account (cmt_author op) db2 = Inr auth'"
    and rest: "(if acc_referrer_account auth' \<noteq> [] \<and>
         \<not> head_block_time (bump_id comment_object_type (db2\<lparr>db_comments := cs\<rparr>)) < acc_referral_end_date auth'
       then modify_account (cmt_author op) (\<lambda>a. Inr (forget_referrer a)) (bump_id comment_object_type (db2\<lparr>db_comments := cs\<rparr>))
       else Inr (bump_id comment_object_type (db2\<lparr>db_comments := cs\<rparr>))) = Inr db3"
      "(case parent of None \<Rightarrow> Inr db3 | Some p \<Rightarrow> count_children (inc_w 32) (com_id p) db3) = Inr db'"
    using assms(2) unfolding create_comment_def Let_def bindR_eq_Inr by (auto split: prod.splits)
  have "moves db db1 0 0 0" using calc_reward_weight_after [OF run(2,1)] moves_refl [OF assms(1)] .
  from neutral_after [OF this run(3)] have "moves db db2 0 0 0"
    by (auto simp: credited_def count_post_def Let_def split: if_split_asm)
  then have "moves db db3 0 0 0"
    using rest(1) by (auto simp: credited_def forget_referrer_def split: if_split_asm elim!: neutral_after [rotated])
  then show ?thesis using rest(2) by (auto split: option.split_asm dest: count_children_after)
qed

lemma comment_moves:
  assumes "ledger_ok db" "comment_evaluator fc nf op db = Inr db'"
  shows "moves db db' 0 0 0"
  using assms create_comment_moves
  by (auto simp: comment_evaluator_def edit_comment_def moves_refl split: option.split_asm)

lemma spend_power_after: "spend_power n p u db = Inr db' \<Longrightarrow> moves db0 db s g v \<Longrightarrow> moves db0 db' s g v"
  unfolding spend_power_def by (erule neutral_after [rotated]) (auto simp: credited_def)

lemmas vote_after = spend_power_after modify_comment_after create_comment_vote_after adjust_rshares2_after

lemma first_vote_after:
  "first_vote fc op voter c p u a db = Inr db' \<Longrightarrow> moves db0 db s g v \<Longrightarrow> moves db0 db' s g v"
  unfolding first_vote_def Let_def bindR_eq_Inr by (elim exE conjE) (blast dest: vote_after)

lemma change_vote_after:
  "change_vote fc op voter c cv p u a db = Inr db' \<Longrightarrow> moves db0 db s g v \<Longrightarrow> moves db0 db' s g v"
  unfolding change_vote_def Let_def bindR_eq_Inr
  by (elim exE conjE) (auto dest!: vote_after)

lemma vote_archived_after:
  "vote_archived op voter c db = Inr db' \<Longrightarrow> moves db0 db s g v \<Longrightarrow> moves db0 db' s g v"
  by (auto simp: vote_archived_def Let_def split: option.split_asm dest: create_comment_vote_after)

lemma spend_vote_capacity_credited: "spend_vote_capacity a db = Inr a' \<Longrightarrow> credited a a' 0 0"
  by (auto simp: spend_vote_capacity_def credited_def Let_def split: if_split_asm)

lemma vote_moves:
  assumes "ledger_ok db" "vote_evaluator fc op db = Inr db'"
  shows "moves db db' 0 0 0"
proof -
  obtain c voter t where run: "get_account (vot_voter op) db = Inr voter"
    "(if t = time_maximum then vote_archived op voter c db
      else bindR (spend_vote_capacity voter db) (\<lambda>voter.
       let db = set_account voter db; pow_left = current_power voter db in
       bindR (check_logic (pow_left > 0) ''does_not_have_voting_power'') (\<lambda>_.
       bindR (used_power pow_left (vot_weight op) db) (\<lambda>used.
       bindR (vote_shares fc voter used op db) (\<lambda>abs_rshares.
       case find_comment_vote (com_id c) (acc_id voter) db of
         None \<Rightarrow> first_vote fc op voter c pow_left used abs_rshares db
       | Some v \<Rightarrow> change_vote fc op voter c v pow_left used abs_rshares db))))) = Inr db'"
    using assms(2) unfolding vote_evaluator_def bindR_eq_Inr by (elim exE conjE) (rule that)
  show ?thesis
  proof (cases "t = time_maximum")
    case True
    then show ?thesis using run(2) vote_archived_after moves_refl [OF assms(1)] by simp
  next
    case False
    then obtain voter' used a where step: "spend_vote_capacity voter db = Inr voter'"
      "(case find_comment_vote (com_id c) (acc_id voter') (set_account voter' db) of
         None \<Rightarrow> first_vote fc op voter' c (current_power voter' (set_account voter' db)) used a (set_account voter' db)
       | Some v \<Rightarrow> change_vote fc op voter' c v (current_power voter' (set_account voter' db)) used a (set_account voter' db)) = Inr db'"
      using run(2) unfolding Let_def bindR_eq_Inr by auto
    have "moves db (set_account voter' db) 0 0 0"
      by (rule set_account_after [OF run(1) spend_vote_capacity_credited [OF step(1)] moves_refl [OF assms(1)]])
    then show ?thesis using step(2) by (auto split: option.split_asm dest: first_vote_after change_vote_after)
  qed
qed

end
