(* ===== verification/Evaluate.thy ===== *)
theory Evaluate
  imports Withdrawal_Conservation Account_Conservation Comment_Conservation
begin

text \<open>
  The evaluator registry: \<open>evaluate\<close> is \<^verbatim>\<open>database::apply_operation\<close> on the operations whose
  evaluators are modelled (the notifications to plugins left aside), \<open>None\<close> on the others. A run of
  validated operations conserves the ledger; the argument is made once, in the locale
  \<open>ledger_steps\<close>, for any family of steps.
\<close>

section \<open>The registry\<close>

fun evaluate :: "fc_lib \<Rightarrow> node_flags \<Rightarrow> operation \<Rightarrow> database \<Rightarrow> database res option" where
  "evaluate fc nf (Op_transfer op) db = Some (transfer_evaluator fc op db)"
| "evaluate fc nf (Op_transfer_to_vesting op) db = Some (transfer_to_vesting_evaluator fc op db)"
| "evaluate fc nf (Op_withdraw_vesting op) db = Some (withdraw_vesting_evaluator fc nf op db)"
| "evaluate fc nf (Op_set_withdraw_vesting_route op) db = Some (set_withdraw_vesting_route_evaluator op db)"
| "evaluate fc nf (Op_account_witness_vote op) db = Some (account_witness_vote_evaluator fc op db)"
| "evaluate fc nf (Op_account_witness_proxy op) db = Some (account_witness_proxy_evaluator fc op db)"
| "evaluate fc nf (Op_report_over_production op) db = Some (report_over_production_evaluator op db)"
| "evaluate fc nf (Op_feed_publish op) db = Some (feed_publish_evaluator op db)"
| "evaluate fc nf (Op_convert op) db = Some (convert_evaluator fc op db)"
| "evaluate fc nf (Op_limit_order_create op) db = Some (limit_order_create_evaluator fc op db)"
| "evaluate fc nf (Op_limit_order_create2 op) db = Some (limit_order_create2_evaluator fc op db)"
| "evaluate fc nf (Op_limit_order_cancel op) db = Some (limit_order_cancel_evaluator fc op db)"
| "evaluate fc nf (Op_challenge_authority op) db = Some (challenge_authority_evaluator fc op db)"
| "evaluate fc nf (Op_prove_authority op) db = Some (prove_authority_evaluator op db)"
| "evaluate fc nf (Op_escrow_transfer op) db = Some (escrow_transfer_evaluator fc op db)"
| "evaluate fc nf (Op_escrow_approve op) db = Some (escrow_approve_evaluator fc op db)"
| "evaluate fc nf (Op_escrow_dispute op) db = Some (escrow_dispute_evaluator op db)"
| "evaluate fc nf (Op_escrow_release op) db = Some (escrow_release_evaluator fc op db)"
| "evaluate fc nf (Op_transfer_to_savings op) db = Some (transfer_to_savings_evaluator fc op db)"
| "evaluate fc nf (Op_transfer_from_savings op) db = Some (transfer_from_savings_evaluator fc nf op db)"
| "evaluate fc nf (Op_cancel_transfer_from_savings op) db = Some (cancel_transfer_from_savings_evaluator fc op db)"
| "evaluate fc nf (Op_decline_voting_rights op) db = Some (decline_voting_rights_evaluator op db)"
| "evaluate fc nf (Op_reset_account op) db = Some (reset_account_evaluator op db)"
| "evaluate fc nf (Op_set_reset_account op) db = Some (set_reset_account_evaluator op db)"
| "evaluate fc nf (Op_delegate_vesting_shares op) db = Some (delegate_vesting_shares_evaluator fc op db)"
| "evaluate fc nf (Op_delegate_vesting_shares_with_interest op) db =
     Some (delegate_vesting_shares_with_interest_evaluator fc op db)"
| "evaluate fc nf (Op_reject_vesting_shares_delegation op) db =
     Some (reject_vesting_shares_delegation_evaluator fc op db)"
| "evaluate fc nf (Op_break_free_referral op) db = Some (break_free_referral_evaluator fc op db)"
| "evaluate fc nf (Op_account_create op) db = Some (account_create_evaluator fc nf op db)"
| "evaluate fc nf (Op_account_create_with_delegation op) db =
     Some (account_create_with_delegation_evaluator fc nf op db)"
| "evaluate fc nf (Op_account_update op) db = Some (account_update_evaluator nf op db)"
| "evaluate fc nf (Op_account_metadata op) db = Some (account_metadata_evaluator nf op db)"
| "evaluate fc nf (Op_request_account_recovery op) db = Some (request_account_recovery_evaluator op db)"
| "evaluate fc nf (Op_recover_account op) db = Some (recover_account_evaluator op db)"
| "evaluate fc nf (Op_change_recovery_account op) db = Some (change_recovery_account_evaluator op db)"
| "evaluate fc nf (Op_witness_update op) db = Some (witness_update_evaluator op db)"
| "evaluate fc nf (Op_chain_properties_update op) db = Some (chain_properties_update_evaluator op db)"
| "evaluate fc nf (Op_transit_to_cyberway op) db = Some (transit_to_cyberway_evaluator op db)"
| "evaluate fc nf (Op_vote op) db = Some (vote_evaluator fc op db)"
| "evaluate fc nf (Op_comment op) db = Some (comment_evaluator fc nf op db)"
| "evaluate fc nf (Op_comment_options op) db = Some (comment_options_evaluator nf op db)"
| "evaluate fc nf (Op_delete_comment op) db = Some (delete_comment_evaluator nf op db)"
| "evaluate fc nf (Op_custom op) db = Some (custom_evaluator op db)"
| "evaluate fc nf _ db = None"

lemma validated_amounts:
  "convert_validate c = Inr () \<Longrightarrow> symbol (cvo_amount c) = SBD_SYMBOL"
  "escrow_transfer_validate fc e = Inr () \<Longrightarrow> symbol (est_steem_amount e) = STEEM_SYMBOL \<and>
     symbol (est_sbd_amount e) = SBD_SYMBOL \<and> symbol (est_fee e) \<in> {STEEM_SYMBOL, SBD_SYMBOL}"
  "limit_order_create2_validate fc l = Inr () \<Longrightarrow> symbol (base (loc2_exchange_rate l)) = symbol (loc2_amount_to_sell l)"
  "account_create_validate fc ac = Inr () \<Longrightarrow> 0 \<le> amount (acr_fee ac)"
  "account_create_with_delegation_validate fc ad = Inr () \<Longrightarrow> 0 \<le> amount (acd_fee ad)"
  by (auto simp: convert_validate_def escrow_transfer_validate_def limit_order_create2_validate_def
      account_create_validate_def account_create_with_delegation_validate_def check_asset_gt0_def
      check_asset_ge0_def check_asset_val_def check_value_def check_asset_cmp_def asset_cmp_Inr)

lemma evaluate_moves:
  assumes "fc_safe fc" "ledger_ok db" "operation_validate fc cr op = Inr ()" "evaluate fc nf op db = Some (Inr db')"
  shows "moves db db' 0 0 0"
proof (cases op)
  case (Op_convert c)
  then show ?thesis using assms validated_amounts(1) convert_moves by auto
next
  case (Op_escrow_transfer e)
  then show ?thesis using assms validated_amounts(2) escrow_transfer_moves by auto
next
  case (Op_limit_order_create2 l)
  then show ?thesis using assms validated_amounts(3) limit_order_create2_moves by auto
next
  case (Op_account_create a)
  then show ?thesis using assms validated_amounts(4) account_create_moves by auto
next
  case (Op_account_create_with_delegation a)
  then show ?thesis using assms validated_amounts(5) account_create_with_delegation_moves by auto
qed (use assms in \<open>auto simp: report_over_production_evaluator_def reset_account_evaluator_def
    set_reset_account_evaluator_def custom_evaluator_def moves_refl split: if_splits
    intro: transfer_moves transfer_to_vesting_moves withdraw_vesting_moves set_withdraw_vesting_route_moves
      account_witness_vote_moves account_witness_proxy_moves feed_publish_moves limit_order_create_moves
      limit_order_cancel_moves challenge_authority_moves prove_authority_moves escrow_approve_moves
      escrow_dispute_moves escrow_release_moves transfer_to_savings_moves transfer_from_savings_moves
      cancel_transfer_from_savings_moves decline_voting_rights_moves delegate_vesting_shares_evaluator_moves
      delegate_with_interest_moves reject_delegation_moves break_free_referral_moves account_update_moves
      account_metadata_moves request_account_recovery_moves recover_account_moves change_recovery_account_moves
      witness_update_moves chain_properties_update_moves transit_to_cyberway_moves vote_moves comment_moves
      comment_options_moves delete_comment_moves\<close>)

section \<open>Runs of ledger steps\<close>

locale ledger_steps =
  fixes step :: "'c \<Rightarrow> 'i \<Rightarrow> database \<Rightarrow> database res"
    and good :: "'c \<Rightarrow> 'i \<Rightarrow> bool"
  assumes step_moves: "good c i \<Longrightarrow> ledger_ok db \<Longrightarrow> step c i db = Inr db' \<Longrightarrow> moves db db' 0 0 0"
begin

lemma run_moves:
  "list_all (good c) is \<Longrightarrow> ledger_ok db \<Longrightarrow> foldR (step c) is db = Inr db' \<Longrightarrow> moves db db' 0 0 0"
proof (induction "is" arbitrary: db)
  case (Cons i "is")
  then obtain db1 where run: "step c i db = Inr db1" "foldR (step c) is db1 = Inr db'" by auto
  have m: "moves db db1 0 0 0" using step_moves [OF _ Cons.prems(2) run(1)] Cons.prems(1) by simp
  from step_after [OF m] show ?case using Cons.IH [OF _ _ run(2)] Cons.prems(1) by simp
qed (simp add: moves_refl)

lemma run_conserves:
  assumes "list_all (good c) is" "ledger_ok db" "foldR (step c) is db = Inr db'"
  shows "ledger_ok db'" "gaps db' = gaps db"
  using run_moves [OF assms] by (auto intro: moves_ok moves_gaps)

lemma prefix_conserves:
  assumes "list_all (good c) (is @ js)" "ledger_ok db" "foldR (step c) (is @ js) db = Inr db'"
  shows "\<exists>db1. foldR (step c) is db = Inr db1 \<and> ledger_ok db1 \<and> gaps db1 = gaps db"
  using assms run_conserves [of c "is"] by (auto simp: foldR_append)

end

text \<open>The operations of a transaction, one after the other; an operation without a model stops the run.\<close>

definition apply_one :: "fc_lib \<times> crypto_lib \<times> node_flags \<Rightarrow> operation \<Rightarrow> database \<Rightarrow> database res" where
  "apply_one = (\<lambda>(fc, cr, nf) op db.
     case evaluate fc nf op db of Some r \<Rightarrow> r | None \<Rightarrow> Inl (Internal_error ''operation without a model''))"

definition operation_good :: "fc_lib \<times> crypto_lib \<times> node_flags \<Rightarrow> operation \<Rightarrow> bool" where
  "operation_good = (\<lambda>(fc, cr, nf) op. fc_safe fc \<and> operation_validate fc cr op = Inr ())"

definition apply_operations :: "fc_lib \<Rightarrow> crypto_lib \<Rightarrow> node_flags \<Rightarrow> operation list \<Rightarrow> database \<Rightarrow> database res" where
  "apply_operations fc cr nf ops db = foldR (apply_one (fc, cr, nf)) ops db"

interpretation op_run: ledger_steps apply_one operation_good
  by unfold_locales (auto simp: apply_one_def operation_good_def split: option.splits intro: evaluate_moves)

end
