(* ===== verification/Funds_Frame.thy ===== *)
theory Funds_Frame
  imports Balance
begin

text \<open>
  What the functions on balances leave alone. \<open>post P m\<close> says that every state the computation \<open>m\<close>
  returns satisfies \<open>P\<close>; its rules follow the structure of the functions. The locale
  \<open>funds_frame\<close> is a view of the chain state that does not depend on accounts, votes for
  witnesses, delegations and the supplies, and shows once that payments do not change it.
\<close>

section \<open>What a computation returns\<close>

definition post :: "('a \<Rightarrow> bool) \<Rightarrow> 'a res \<Rightarrow> bool" where
  "post P m \<longleftrightarrow> (\<forall>x. m = Inr x \<longrightarrow> P x)"

lemma post_Inr [simp]: "post P (Inr x) \<longleftrightarrow> P x"
  by (simp add: post_def)

lemma post_Inl [simp]: "post P (Inl e)"
  by (simp add: post_def)

lemma post_check_param [simp]: "post P (check_param p m) \<longleftrightarrow> post P m"
  by (simp add: post_def)

lemma postD: "post P m \<Longrightarrow> m = Inr x \<Longrightarrow> P x"
  by (simp add: post_def)

lemma post_any: "(\<And>x. P x) \<Longrightarrow> post P m"
  by (simp add: post_def)

lemma post_bind: "post (\<lambda>x. post P (f x)) m \<Longrightarrow> post P (bindR m f)"
  by (cases m) simp_all

lemma post_if: "(c \<Longrightarrow> post P m) \<Longrightarrow> (\<not> c \<Longrightarrow> post P n) \<Longrightarrow> post P (if c then m else n)"
  by simp

lemma post_option: "(x = None \<Longrightarrow> post P m) \<Longrightarrow> (\<And>y. x = Some y \<Longrightarrow> post P (f y)) \<Longrightarrow> post P (case x of None \<Rightarrow> m | Some y \<Rightarrow> f y)"
  by (cases x) simp_all

text \<open>
  The rules by type: a value that is not a state says nothing about the state, so that only
  computations on states are taken apart.
\<close>

lemmas post_values = post_any [where 'a = unit] post_any [where 'a = bool] post_any [where 'a = int]
  post_any [where 'a = asset] post_any [where 'a = account_object] post_any [where 'a = witness_object]
  post_any [where 'a = escrow_object] post_any [where 'a = "'b list"] post_any [where 'a = limit_order_object]
  post_any [where 'a = price] post_any [where 'a = savings_withdraw_object] post_any [where 'a = "asset \<times> asset"]
  post_any [where 'a = account_authority_object] post_any [where 'a = account_recovery_request_object]
  post_any [where 'a = vesting_delegation_object] post_any [where 'a = chain_properties_19]
  post_any [where 'a = convert_request_object] post_any [where 'a = comment_object] post_any [where 'a = nat]
  post_any [where 'a = "comment_object option"] post_any [where 'a = "int \<times> nat"]

lemmas post_states = post_bind [where 'b = database] post_bind [where 'b = "'c \<times> database"]
  post_if [where 'a = database] post_if [where 'a = "'c \<times> database"]
  post_option [where 'b = database] post_option [where 'b = "'c \<times> database"]

section \<open>Views that payments do not change\<close>

text \<open>The global properties that are not supplies or funds.\<close>

definition no_funds :: asset where
  "no_funds = \<lparr>amount = 0, symbol = STEEM_SYMBOL\<rparr>"

definition dgp_funds :: "dynamic_global_property_object \<Rightarrow> dynamic_global_property_object" where
  "dgp_funds d = d\<lparr>dgp_virtual_supply := no_funds, dgp_current_supply := no_funds, dgp_current_sbd_supply := no_funds,
     dgp_total_vesting_fund_steem := no_funds, dgp_total_vesting_shares := no_funds,
     dgp_total_reward_fund_steem := no_funds\<rparr>"

locale funds_frame =
  fixes view :: "database \<Rightarrow> 'v"
  assumes view_funds [simp]:
      "view (db\<lparr>db_accounts := a\<rparr>) = view db" "view (db\<lparr>db_delegations := g\<rparr>) = view db"
      "view (db\<lparr>db_witnesses := w\<rparr>) = view db" "view (db\<lparr>db_witness_votes := wv\<rparr>) = view db"
      "view (db\<lparr>db_vops := v\<rparr>) = view db"
    and view_dgp: "dgp_funds p = dgp_funds (db_dgp db) \<Longrightarrow> view (db\<lparr>db_dgp := p\<rparr>) = view db"
begin

lemma view_money [simp]:
  "view (set_account a db) = view db" "view (push_virtual_operation v db) = view db" "view (set_witness w db) = view db"
  by (simp_all add: set_account_def push_virtual_operation_def set_witness_def)

text \<open>The rule of a step: what holds of every state with the same view holds of its result.\<close>

lemma modify_account_post [intro!]:
  "view db = v \<Longrightarrow> (\<And>db'. view db' = v \<Longrightarrow> P db') \<Longrightarrow> post P (modify_account n f db)"
  by (auto simp: modify_account_def post_def)

lemma foldR_post:
  assumes "\<And>x db. view db = v \<Longrightarrow> post (\<lambda>db'. view db' = v) (f x db)"
    "view db = v" "\<And>db'. view db' = v \<Longrightarrow> P db'"
  shows "post P (foldR f xs db)"
  using assms(2,3)
proof (induction xs arbitrary: db)
  case (Cons x xs)
  then have "post (\<lambda>db'. post P (foldR f xs db')) (f x db)"
    using assms(1) [of db x] by (auto simp: post_def)
  then show ?case by (auto intro: post_bind)
qed simp

lemma step_post: "post (\<lambda>db'. view db' = v) m \<Longrightarrow> (\<And>db'. view db' = v \<Longrightarrow> P db') \<Longrightarrow> post P m"
  by (simp add: post_def)

lemma step_post2: "post (\<lambda>(x, db'). view db' = v) m \<Longrightarrow> (\<And>x db'. view db' = v \<Longrightarrow> P (x, db')) \<Longrightarrow> post P m"
  by (auto simp: post_def)

subsection \<open>Balances and votes\<close>

lemma add_interest_supply_post [intro!]:
  "view db = v \<Longrightarrow> (\<And>db'. view db' = v \<Longrightarrow> P db') \<Longrightarrow> post P (add_interest_supply fc i db)"
  by (rule step_post [where v = v])
    (auto simp: add_interest_supply_def Let_def dgp_funds_def view_dgp intro!: post_states post_values)

lemma accrue_sbd_interest_post [intro!]:
  "view db = v \<Longrightarrow> (\<And>x db'. view db' = v \<Longrightarrow> P (x, db')) \<Longrightarrow> post P (accrue_sbd_interest fc b a db)"
  by (rule step_post2 [where v = v])
    (auto simp: accrue_sbd_interest_def Let_def intro!: post_states post_values)

lemma accrue_savings_interest_post [intro!]:
  "view db = v \<Longrightarrow> (\<And>x db'. view db' = v \<Longrightarrow> P (x, db')) \<Longrightarrow> post P (accrue_savings_interest fc a db)"
  by (rule step_post2 [where v = v])
    (auto simp: accrue_savings_interest_def Let_def intro!: post_states post_values)

lemma adjust_sbd_balance_post [intro!]:
  "view db = v \<Longrightarrow> (\<And>db'. view db' = v \<Longrightarrow> P db') \<Longrightarrow> post P (adjust_sbd_balance fc n d db)"
  by (rule step_post [where v = v])
    (auto simp: adjust_sbd_balance_def Let_def intro!: post_states post_values)

lemma adjust_balance_post [intro!]:
  "view db = v \<Longrightarrow> (\<And>db'. view db' = v \<Longrightarrow> P db') \<Longrightarrow> post P (adjust_balance fc n d db)"
  by (rule step_post [where v = v])
    (auto simp: adjust_balance_def intro!: post_states post_values)

lemma adjust_savings_balance_post [intro!]:
  "view db = v \<Longrightarrow> (\<And>db'. view db' = v \<Longrightarrow> P db') \<Longrightarrow> post P (adjust_savings_balance fc n d db)"
  by (rule step_post [where v = v])
    (auto simp: adjust_savings_balance_def intro!: post_states post_values)

lemma adjust_supply_post [intro!]:
  "view db = v \<Longrightarrow> (\<And>db'. view db' = v \<Longrightarrow> P db') \<Longrightarrow> post P (adjust_supply fc d b db)"
  by (rule step_post [where v = v])
    (auto simp: adjust_supply_def Let_def dgp_funds_def view_dgp intro!: post_states post_values)

lemma adjust_witness_vote_post [intro!]:
  "view db = v \<Longrightarrow> (\<And>db'. view db' = v \<Longrightarrow> P db') \<Longrightarrow> post P (adjust_witness_vote fc i d db)"
  by (rule step_post [where v = v])
    (auto simp: adjust_witness_vote_def Let_def intro!: post_states post_values)

lemma adjust_witness_votes_post [intro!]:
  "view db = v \<Longrightarrow> (\<And>db'. view db' = v \<Longrightarrow> P db') \<Longrightarrow> post P (adjust_witness_votes fc a d db)"
  by (rule step_post [where v = v])
    (auto simp: adjust_witness_votes_def intro!: post_states post_values foldR_post)

lemma adjust_proxied_witness_votes_post [intro!]:
  "view db = v \<Longrightarrow> (\<And>db'. view db' = v \<Longrightarrow> P db') \<Longrightarrow> post P (adjust_proxied_witness_votes fc k n d db)"
proof (induction k arbitrary: n db)
  case 0
  then show ?case by (subst adjust_proxied_witness_votes.simps) (auto intro!: post_states post_values)
next
  case (Suc k)
  then show ?case by (subst adjust_proxied_witness_votes.simps) (auto simp: Let_def intro!: post_states post_values)
qed

lemma adjust_proxied_witness_votes_array_post [intro!]:
  "view db = v \<Longrightarrow> (\<And>db'. view db' = v \<Longrightarrow> P db') \<Longrightarrow> post P (adjust_proxied_witness_votes_array fc k n d db)"
proof (induction k arbitrary: n db)
  case 0
  then show ?case
    by (subst adjust_proxied_witness_votes_array.simps) (auto simp: Let_def intro!: post_states post_values)
next
  case (Suc k)
  then show ?case
    by (subst adjust_proxied_witness_votes_array.simps) (auto simp: Let_def intro!: post_states post_values)
qed

lemma clear_witness_votes_post [intro!]:
  "view db = v \<Longrightarrow> (\<And>db'. view db' = v \<Longrightarrow> P db') \<Longrightarrow> post P (clear_witness_votes n db)"
  by (rule step_post [where v = v])
    (auto simp: clear_witness_votes_def Let_def intro!: post_states post_values)

lemma create_vesting_post [intro!]:
  "view db = v \<Longrightarrow> (\<And>x db'. view db' = v \<Longrightarrow> P (x, db')) \<Longrightarrow> post P (create_vesting fc n a db)"
  by (rule step_post2 [where v = v])
    (auto simp: create_vesting_def Let_def dgp_funds_def view_dgp intro!: post_states post_values)

end

end
