(* ===== verification/Frame.thy ===== *)
theory Frame
  imports Evaluate Funds_Frame
begin

text \<open>
  What operations leave alone. The locale \<open>frame\<close> extends \<open>funds_frame\<close> to views that depend on
  no object operations work on, and shows once that no operation changes them. The interpretations
  at the end are the clock of the chain and the part the witnesses decide (price feed and schedule).
\<close>

section \<open>Views that operations do not change\<close>

text \<open>The global properties that are not supplies, funds or reward shares.\<close>

definition dgp_frame :: "dynamic_global_property_object \<Rightarrow> dynamic_global_property_object" where
  "dgp_frame d = (dgp_funds d)\<lparr>dgp_total_reward_shares2 := 0\<rparr>"

locale frame = funds_frame +
  assumes view_objects [simp]:
      "view (db\<lparr>db_converts := c\<rparr>) = view db" "view (db\<lparr>db_escrows := e\<rparr>) = view db"
      "view (db\<lparr>db_savings := s\<rparr>) = view db" "view (db\<lparr>db_liquidity := l\<rparr>) = view db"
      "view (db\<lparr>db_orders := oo\<rparr>) = view db" "view (db\<lparr>db_routes := r\<rparr>) = view db"
      "view (db\<lparr>db_declines := d\<rparr>) = view db" "view (db\<lparr>db_delegation_expirations := x\<rparr>) = view db"
      "view (db\<lparr>db_authorities := au\<rparr>) = view db" "view (db\<lparr>db_metadata := m\<rparr>) = view db"
      "view (db\<lparr>db_owner_history := h\<rparr>) = view db" "view (db\<lparr>db_recovery_requests := q\<rparr>) = view db"
      "view (db\<lparr>db_change_recovery := k\<rparr>) = view db" "view (db\<lparr>db_next_id := n\<rparr>) = view db"
      "view (db\<lparr>db_comments := cm\<rparr>) = view db" "view (db\<lparr>db_comment_votes := cv\<rparr>) = view db"
      "view (db\<lparr>db_bandwidth := bw\<rparr>) = view db"
      "view (db\<lparr>db_dgp := (db_dgp db)\<lparr>dgp_total_reward_shares2 := x2\<rparr>\<rparr>) = view db"
begin

lemma view_small [simp]:
  "view (bump_id t db) = view db" "view (set_escrow e db) = view db" "view (remove_escrow e db) = view db"
  "view (set_order o' db) = view db" "view (remove_order o' db) = view db"
  "view (create_delegation_expiration n s d db) = view db" "view (store_account_json_metadata nf n j b db) = view db"
  "view (create_owner_history n auth db) = view db" "view (remove_vesting_routes i db) = view db"
  "view (set_comment com db) = view db" "view (set_comment_vote cmv db) = view db"
  by (simp_all add: bump_id_def set_escrow_def
      remove_escrow_def set_order_def remove_order_def create_delegation_expiration_def store_account_json_metadata_def
      create_owner_history_def remove_vesting_routes_def set_comment_def set_comment_vote_def Let_def split: option.split)

subsection \<open>Evaluators\<close>

lemma transfer_evaluator_post [intro!]:
  "view db = v \<Longrightarrow> (\<And>db'. view db' = v \<Longrightarrow> P db') \<Longrightarrow> post P (transfer_evaluator fc op db)"
  by (rule step_post [where v = v])
    (auto simp: transfer_evaluator_def Let_def intro!: post_states post_values)

lemma transfer_to_vesting_evaluator_post [intro!]:
  "view db = v \<Longrightarrow> (\<And>db'. view db' = v \<Longrightarrow> P db') \<Longrightarrow> post P (transfer_to_vesting_evaluator fc op db)"
  by (rule step_post [where v = v])
    (auto simp: transfer_to_vesting_evaluator_def Let_def intro!: post_states post_values)

lemma withdraw_vesting_evaluator_post [intro!]:
  "view db = v \<Longrightarrow> (\<And>db'. view db' = v \<Longrightarrow> P db') \<Longrightarrow> post P (withdraw_vesting_evaluator fc nf op db)"
  by (rule step_post [where v = v])
    (auto simp: withdraw_vesting_evaluator_def Let_def intro!: post_states post_values)

lemma set_withdraw_vesting_route_evaluator_post [intro!]:
  "view db = v \<Longrightarrow> (\<And>db'. view db' = v \<Longrightarrow> P db') \<Longrightarrow> post P (set_withdraw_vesting_route_evaluator op db)"
  by (rule step_post [where v = v])
    (auto simp: set_withdraw_vesting_route_evaluator_def Let_def intro!: post_states post_values)

lemma create_witness_vote_post [intro!]:
  "view db = v \<Longrightarrow> (\<And>db'. view db' = v \<Longrightarrow> P db') \<Longrightarrow> post P (create_witness_vote w i db)"
  by (rule step_post [where v = v])
    (auto simp: create_witness_vote_def Let_def intro!: post_states post_values)

lemma account_witness_proxy_evaluator_post [intro!]:
  "view db = v \<Longrightarrow> (\<And>db'. view db' = v \<Longrightarrow> P db') \<Longrightarrow> post P (account_witness_proxy_evaluator fc op db)"
  by (rule step_post [where v = v])
    (auto simp: account_witness_proxy_evaluator_def Let_def intro!: post_states post_values)

lemma account_witness_vote_evaluator_post [intro!]:
  "view db = v \<Longrightarrow> (\<And>db'. view db' = v \<Longrightarrow> P db') \<Longrightarrow> post P (account_witness_vote_evaluator fc op db)"
  by (rule step_post [where v = v])
    (auto simp: account_witness_vote_evaluator_def Let_def intro!: post_states post_values)

lemma feed_publish_evaluator_post [intro!]:
  "view db = v \<Longrightarrow> (\<And>db'. view db' = v \<Longrightarrow> P db') \<Longrightarrow> post P (feed_publish_evaluator op db)"
  by (rule step_post [where v = v])
    (auto simp: feed_publish_evaluator_def Let_def intro!: post_states post_values)

lemma convert_evaluator_post [intro!]:
  "view db = v \<Longrightarrow> (\<And>db'. view db' = v \<Longrightarrow> P db') \<Longrightarrow> post P (convert_evaluator fc op db)"
  by (rule step_post [where v = v])
    (auto simp: convert_evaluator_def Let_def intro!: post_states post_values)

lemma transfer_to_savings_evaluator_post [intro!]:
  "view db = v \<Longrightarrow> (\<And>db'. view db' = v \<Longrightarrow> P db') \<Longrightarrow> post P (transfer_to_savings_evaluator fc op db)"
  by (rule step_post [where v = v])
    (auto simp: transfer_to_savings_evaluator_def Let_def intro!: post_states post_values)

lemma transfer_from_savings_evaluator_post [intro!]:
  "view db = v \<Longrightarrow> (\<And>db'. view db' = v \<Longrightarrow> P db') \<Longrightarrow> post P (transfer_from_savings_evaluator fc nf op db)"
  by (rule step_post [where v = v])
    (auto simp: transfer_from_savings_evaluator_def Let_def intro!: post_states post_values)

lemma cancel_transfer_from_savings_evaluator_post [intro!]:
  "view db = v \<Longrightarrow> (\<And>db'. view db' = v \<Longrightarrow> P db') \<Longrightarrow> post P (cancel_transfer_from_savings_evaluator fc op db)"
  by (rule step_post [where v = v])
    (auto simp: cancel_transfer_from_savings_evaluator_def Let_def intro!: post_states post_values)

lemma decline_voting_rights_evaluator_post [intro!]:
  "view db = v \<Longrightarrow> (\<And>db'. view db' = v \<Longrightarrow> P db') \<Longrightarrow> post P (decline_voting_rights_evaluator op db)"
  by (rule step_post [where v = v])
    (auto simp: decline_voting_rights_evaluator_def Let_def intro!: post_states post_values)

lemma challenge_authority_evaluator_post [intro!]:
  "view db = v \<Longrightarrow> (\<And>db'. view db' = v \<Longrightarrow> P db') \<Longrightarrow> post P (challenge_authority_evaluator fc op db)"
  by (rule step_post [where v = v])
    (auto simp: challenge_authority_evaluator_def Let_def intro!: post_states post_values)

lemma prove_authority_evaluator_post [intro!]:
  "view db = v \<Longrightarrow> (\<And>db'. view db' = v \<Longrightarrow> P db') \<Longrightarrow> post P (prove_authority_evaluator op db)"
  by (rule step_post [where v = v])
    (auto simp: prove_authority_evaluator_def Let_def intro!: post_states post_values)

lemma report_over_production_evaluator_post [intro!]:
  "view db = v \<Longrightarrow> (\<And>db'. view db' = v \<Longrightarrow> P db') \<Longrightarrow> post P (report_over_production_evaluator op db)"
  by (rule step_post [where v = v])
    (auto simp: report_over_production_evaluator_def Let_def intro!: post_states post_values)

lemma break_free_referral_evaluator_post [intro!]:
  "view db = v \<Longrightarrow> (\<And>db'. view db' = v \<Longrightarrow> P db') \<Longrightarrow> post P (break_free_referral_evaluator fc op db)"
  by (rule step_post [where v = v])
    (auto simp: break_free_referral_evaluator_def Let_def intro!: post_states post_values)

lemma escrow_transfer_evaluator_post [intro!]:
  "view db = v \<Longrightarrow> (\<And>db'. view db' = v \<Longrightarrow> P db') \<Longrightarrow> post P (escrow_transfer_evaluator fc op db)"
  by (rule step_post [where v = v])
    (auto simp: escrow_transfer_evaluator_def Let_def intro!: post_states post_values)

lemma refund_escrow_post [intro!]:
  "view db = v \<Longrightarrow> (\<And>db'. view db' = v \<Longrightarrow> P db') \<Longrightarrow> post P (refund_escrow fc e db)"
  by (rule step_post [where v = v])
    (auto simp: refund_escrow_def Let_def intro!: post_states post_values)

lemma escrow_approve_evaluator_post [intro!]:
  "view db = v \<Longrightarrow> (\<And>db'. view db' = v \<Longrightarrow> P db') \<Longrightarrow> post P (escrow_approve_evaluator fc op db)"
  by (rule step_post [where v = v])
    (auto simp: escrow_approve_evaluator_def Let_def intro!: post_states post_values)

lemma escrow_dispute_evaluator_post [intro!]:
  "view db = v \<Longrightarrow> (\<And>db'. view db' = v \<Longrightarrow> P db') \<Longrightarrow> post P (escrow_dispute_evaluator op db)"
  by (rule step_post [where v = v])
    (auto simp: escrow_dispute_evaluator_def Let_def intro!: post_states post_values)

lemma escrow_release_evaluator_post [intro!]:
  "view db = v \<Longrightarrow> (\<And>db'. view db' = v \<Longrightarrow> P db') \<Longrightarrow> post P (escrow_release_evaluator fc op db)"
  by (rule step_post [where v = v])
    (auto simp: escrow_release_evaluator_def Let_def intro!: post_states post_values)

lemma cancel_order_post [intro!]:
  "view db = v \<Longrightarrow> (\<And>db'. view db' = v \<Longrightarrow> P db') \<Longrightarrow> post P (cancel_order fc o1 db)"
  by (rule step_post [where v = v])
    (auto simp: cancel_order_def Let_def intro!: post_states post_values)

lemma fill_order_post [intro!]:
  "view db = v \<Longrightarrow> (\<And>x db'. view db' = v \<Longrightarrow> P (x, db')) \<Longrightarrow> post P (fill_order fc k p r db)"
  by (rule step_post2 [where v = v])
    (auto simp: fill_order_def Let_def intro!: post_states post_values)

lemma adjust_liquidity_reward_post [intro!]:
  "view db = v \<Longrightarrow> (\<And>db'. view db' = v \<Longrightarrow> P db') \<Longrightarrow> post P (adjust_liquidity_reward fc n a b db)"
  by (rule step_post [where v = v])
    (auto simp: adjust_liquidity_reward_def Let_def intro!: post_states post_values)

lemma reward_liquidity_post [intro!]:
  "view db = v \<Longrightarrow> (\<And>db'. view db' = v \<Longrightarrow> P db') \<Longrightarrow> post P (reward_liquidity fc o1 o2 a b db)"
  by (rule step_post [where v = v])
    (auto simp: reward_liquidity_def Let_def intro!: post_states post_values)

lemma match_orders_post [intro!]:
  "view db = v \<Longrightarrow> (\<And>x db'. view db' = v \<Longrightarrow> P (x, db')) \<Longrightarrow> post P (match_orders fc k l p db)"
  by (rule step_post2 [where v = v])
    (auto simp: match_orders_def Let_def intro!: post_states post_values)


lemma match_loop_post [intro!]:
  "view db = v \<Longrightarrow> (\<And>db'. view db' = v \<Longrightarrow> P db') \<Longrightarrow> post P (match_loop fc k olds db)"
  by (induction olds arbitrary: db) (auto intro!: post_states)

lemma apply_order_post [intro!]:
  "view db = v \<Longrightarrow> (\<And>x db'. view db' = v \<Longrightarrow> P (x, db')) \<Longrightarrow> post P (apply_order fc k db)"
  by (rule step_post2 [where v = v])
    (auto simp: apply_order_def Let_def intro!: post_states post_values)

lemma create_order_post [intro!]:
  "view db = v \<Longrightarrow> (\<And>db'. view db' = v \<Longrightarrow> P db') \<Longrightarrow> post P (create_order fc n i a p b e db)"
  by (rule step_post [where v = v])
    (auto simp: create_order_def Let_def intro!: post_states post_values)

lemma limit_order_create_evaluator_post [intro!]:
  "view db = v \<Longrightarrow> (\<And>db'. view db' = v \<Longrightarrow> P db') \<Longrightarrow> post P (limit_order_create_evaluator fc op db)"
  by (rule step_post [where v = v])
    (auto simp: limit_order_create_evaluator_def Let_def intro!: post_states post_values)

lemma limit_order_create2_evaluator_post [intro!]:
  "view db = v \<Longrightarrow> (\<And>db'. view db' = v \<Longrightarrow> P db') \<Longrightarrow> post P (limit_order_create2_evaluator fc op db)"
  by (rule step_post [where v = v])
    (auto simp: limit_order_create2_evaluator_def Let_def intro!: post_states post_values)

lemma limit_order_cancel_evaluator_post [intro!]:
  "view db = v \<Longrightarrow> (\<And>db'. view db' = v \<Longrightarrow> P db') \<Longrightarrow> post P (limit_order_cancel_evaluator fc op db)"
  by (rule step_post [where v = v])
    (auto simp: limit_order_cancel_evaluator_def Let_def intro!: post_states post_values)

lemma delegate_vesting_shares_post [intro!]:
  "view db = v \<Longrightarrow> (\<And>db'. view db' = v \<Longrightarrow> P db') \<Longrightarrow> post P (delegate_vesting_shares fc n m a f g db)"
  by (rule step_post [where v = v], unfold delegate_vesting_shares_def Let_def)
    (auto intro!: post_states post_values refl)

lemma delegate_vesting_shares_evaluator_post [intro!]:
  "view db = v \<Longrightarrow> (\<And>db'. view db' = v \<Longrightarrow> P db') \<Longrightarrow> post P (delegate_vesting_shares_evaluator fc op db)"
  by (rule step_post [where v = v])
    (auto simp: delegate_vesting_shares_evaluator_def Let_def intro!: post_states post_values)

lemma delegate_vesting_shares_with_interest_evaluator_post [intro!]:
  "view db = v \<Longrightarrow> (\<And>db'. view db' = v \<Longrightarrow> P db') \<Longrightarrow> post P (delegate_vesting_shares_with_interest_evaluator fc op db)"
  by (rule step_post [where v = v])
    (auto simp: delegate_vesting_shares_with_interest_evaluator_def Let_def intro!: post_states post_values)

lemma reject_vesting_shares_delegation_evaluator_post [intro!]:
  "view db = v \<Longrightarrow> (\<And>db'. view db' = v \<Longrightarrow> P db') \<Longrightarrow> post P (reject_vesting_shares_delegation_evaluator fc op db)"
  by (rule step_post [where v = v])
    (auto simp: reject_vesting_shares_delegation_evaluator_def Let_def intro!: post_states post_values)

lemma create_account_post [intro!]:
  "view db = v \<Longrightarrow> (\<And>db'. view db' = v \<Longrightarrow> P db') \<Longrightarrow> post P (create_account a db)"
  by (rule step_post [where v = v])
    (auto simp: create_account_def Let_def intro!: post_states post_values)

lemma create_authority_post [intro!]:
  "view db = v \<Longrightarrow> (\<And>db'. view db' = v \<Longrightarrow> P db') \<Longrightarrow> post P (create_authority n o1 o2 o3 db)"
  by (rule step_post [where v = v])
    (auto simp: create_authority_def Let_def intro!: post_states post_values)

lemma fee_into_vesting_post [intro!]:
  "view db = v \<Longrightarrow> (\<And>db'. view db' = v \<Longrightarrow> P db') \<Longrightarrow> post P (fee_into_vesting fc n a db)"
  by (rule step_post [where v = v])
    (auto simp: fee_into_vesting_def Let_def intro!: post_states post_values)

lemma account_create_evaluator_post [intro!]:
  "view db = v \<Longrightarrow> (\<And>db'. view db' = v \<Longrightarrow> P db') \<Longrightarrow> post P (account_create_evaluator fc nf op db)"
  by (rule step_post [where v = v])
    (auto simp: account_create_evaluator_def Let_def intro!: post_states post_values)

lemma account_referral_visitor_post [intro!]:
  "view db = v \<Longrightarrow> (\<And>db'. view db' = v \<Longrightarrow> P db') \<Longrightarrow> post P (account_referral_visitor n aro db)"
  by (rule step_post [where v = v])
    (auto simp: account_referral_visitor_def Let_def intro!: post_states post_values)

lemma account_create_with_delegation_evaluator_post [intro!]:
  "view db = v \<Longrightarrow> (\<And>db'. view db' = v \<Longrightarrow> P db') \<Longrightarrow> post P (account_create_with_delegation_evaluator fc nf op db)"
  by (rule step_post [where v = v])
    (auto simp: account_create_with_delegation_evaluator_def Let_def intro!: post_states post_values foldR_post)

lemma update_owner_authority_post [intro!]:
  "view db = v \<Longrightarrow> (\<And>db'. view db' = v \<Longrightarrow> P db') \<Longrightarrow> post P (update_owner_authority n auth db)"
  by (rule step_post [where v = v])
    (auto simp: update_owner_authority_def Let_def intro!: post_states post_values)

lemma account_update_evaluator_post [intro!]:
  "view db = v \<Longrightarrow> (\<And>db'. view db' = v \<Longrightarrow> P db') \<Longrightarrow> post P (account_update_evaluator nf op db)"
  by (rule step_post [where v = v])
    (auto simp: account_update_evaluator_def Let_def intro!: post_states post_values)

lemma account_metadata_evaluator_post [intro!]:
  "view db = v \<Longrightarrow> (\<And>db'. view db' = v \<Longrightarrow> P db') \<Longrightarrow> post P (account_metadata_evaluator nf op db)"
  by (rule step_post [where v = v])
    (auto simp: account_metadata_evaluator_def Let_def intro!: post_states post_values)

lemma request_account_recovery_evaluator_post [intro!]:
  "view db = v \<Longrightarrow> (\<And>db'. view db' = v \<Longrightarrow> P db') \<Longrightarrow> post P (request_account_recovery_evaluator op db)"
  by (rule step_post [where v = v])
    (auto simp: request_account_recovery_evaluator_def Let_def intro!: post_states post_values)

lemma recover_account_evaluator_post [intro!]:
  "view db = v \<Longrightarrow> (\<And>db'. view db' = v \<Longrightarrow> P db') \<Longrightarrow> post P (recover_account_evaluator op db)"
  by (rule step_post [where v = v])
    (auto simp: recover_account_evaluator_def Let_def intro!: post_states post_values)

lemma change_recovery_account_evaluator_post [intro!]:
  "view db = v \<Longrightarrow> (\<And>db'. view db' = v \<Longrightarrow> P db') \<Longrightarrow> post P (change_recovery_account_evaluator op db)"
  by (rule step_post [where v = v])
    (auto simp: change_recovery_account_evaluator_def Let_def intro!: post_states post_values)

lemma modify_or_create_witness_post [intro!]:
  "view db = v \<Longrightarrow> (\<And>db'. view db' = v \<Longrightarrow> P db') \<Longrightarrow> post P (modify_or_create_witness n f db)"
  by (rule step_post [where v = v])
    (auto simp: modify_or_create_witness_def Let_def intro!: post_states post_values)

lemma witness_update_evaluator_post [intro!]:
  "view db = v \<Longrightarrow> (\<And>db'. view db' = v \<Longrightarrow> P db') \<Longrightarrow> post P (witness_update_evaluator op db)"
  by (rule step_post [where v = v])
    (auto simp: witness_update_evaluator_def Let_def intro!: post_states post_values)

lemma chain_properties_update_evaluator_post [intro!]:
  "view db = v \<Longrightarrow> (\<And>db'. view db' = v \<Longrightarrow> P db') \<Longrightarrow> post P (chain_properties_update_evaluator op db)"
  by (rule step_post [where v = v])
    (auto simp: chain_properties_update_evaluator_def Let_def intro!: post_states post_values)

lemma transit_to_cyberway_evaluator_post [intro!]:
  "view db = v \<Longrightarrow> (\<And>db'. view db' = v \<Longrightarrow> P db') \<Longrightarrow> post P (transit_to_cyberway_evaluator op db)"
  by (rule step_post [where v = v])
    (auto simp: transit_to_cyberway_evaluator_def Let_def intro!: post_states post_values)

subsection \<open>Comments and votes\<close>

lemma modify_comment_post [intro!]:
  "view db = v \<Longrightarrow> (\<And>db'. view db' = v \<Longrightarrow> P db') \<Longrightarrow> post P (modify_comment i f db)"
  by (auto simp: modify_comment_def post_def)

lemma create_comment_vote_post [intro!]:
  "view db = v \<Longrightarrow> (\<And>db'. view db' = v \<Longrightarrow> P db') \<Longrightarrow> post P (create_comment_vote cmv db)"
  by (auto simp: create_comment_vote_def post_def)

lemma adjust_rshares2_walk_post:
  "view db = v \<Longrightarrow> (\<And>db'. view db' = v \<Longrightarrow> P db') \<Longrightarrow> post P (adjust_rshares2_walk fc n i x y db)"
proof (induction n arbitrary: i db)
  case (Suc n)
  then show ?case
    by (auto simp: Let_def intro!: post_states post_values)
qed simp

lemma adjust_rshares2_post [intro!]:
  "view db = v \<Longrightarrow> (\<And>db'. view db' = v \<Longrightarrow> P db') \<Longrightarrow> post P (adjust_rshares2 fc i x y db)"
  unfolding adjust_rshares2_def by (rule adjust_rshares2_walk_post)

lemma count_children_walk_post:
  "view db = v \<Longrightarrow> (\<And>db'. view db' = v \<Longrightarrow> P db') \<Longrightarrow> post P (count_children_walk f n i db)"
proof (induction n arbitrary: i db)
  case (Suc n)
  then show ?case by (auto simp: Let_def intro!: post_states post_values)
qed simp

lemma count_children_post [intro!]:
  "view db = v \<Longrightarrow> (\<And>db'. view db' = v \<Longrightarrow> P db') \<Longrightarrow> post P (count_children f i db)"
  unfolding count_children_def by (rule count_children_walk_post)

lemma delete_comment_evaluator_post [intro!]:
  "view db = v \<Longrightarrow> (\<And>db'. view db' = v \<Longrightarrow> P db') \<Longrightarrow> post P (delete_comment_evaluator nf op db)"
  by (rule step_post [where v = v])
    (auto simp: delete_comment_evaluator_def Let_def intro!: post_states post_values)

lemma apply_comment_option_post [intro!]:
  "view db = v \<Longrightarrow> (\<And>db'. view db' = v \<Longrightarrow> P db') \<Longrightarrow> post P (apply_comment_option nf a i e db)"
  by (rule step_post [where v = v], cases e)
    (auto simp: add_beneficiaries_def set_reward_destination_def set_curation_percent_def Let_def
      intro!: post_states post_values)

lemma comment_options_evaluator_post [intro!]:
  "view db = v \<Longrightarrow> (\<And>db'. view db' = v \<Longrightarrow> P db') \<Longrightarrow> post P (comment_options_evaluator nf op db)"
  by (rule step_post [where v = v])
    (auto simp: comment_options_evaluator_def Let_def intro!: post_states post_values foldR_post)

lemma calc_reward_weight_post [intro!]:
  "view db = v \<Longrightarrow> (\<And>x db'. view db' = v \<Longrightarrow> P (x, db')) \<Longrightarrow> post P (calc_reward_weight fc op a db)"
  by (rule step_post2 [where v = v])
    (auto simp: calc_reward_weight_def Let_def intro!: post_states post_values)

lemma create_comment_post [intro!]:
  "view db = v \<Longrightarrow> (\<And>db'. view db' = v \<Longrightarrow> P db') \<Longrightarrow> post P (create_comment fc op parent db)"
  by (rule step_post [where v = v])
    (auto simp: create_comment_def Let_def intro!: post_states post_values)

lemma comment_evaluator_post [intro!]:
  "view db = v \<Longrightarrow> (\<And>db'. view db' = v \<Longrightarrow> P db') \<Longrightarrow> post P (comment_evaluator fc nf op db)"
  by (rule step_post [where v = v])
    (auto simp: comment_evaluator_def edit_comment_def Let_def intro!: post_states post_values)

lemma spend_power_post [intro!]:
  "view db = v \<Longrightarrow> (\<And>db'. view db' = v \<Longrightarrow> P db') \<Longrightarrow> post P (spend_power n p u db)"
  unfolding spend_power_def by (rule modify_account_post)

lemma first_vote_post [intro!]:
  "view db = v \<Longrightarrow> (\<And>db'. view db' = v \<Longrightarrow> P db') \<Longrightarrow> post P (first_vote fc op voter c p u a db)"
  by (rule step_post [where v = v])
    (auto simp: first_vote_def Let_def intro!: post_states post_values)

lemma change_vote_post [intro!]:
  "view db = v \<Longrightarrow> (\<And>db'. view db' = v \<Longrightarrow> P db') \<Longrightarrow> post P (change_vote fc op voter c cmv p u a db)"
  by (rule step_post [where v = v])
    (auto simp: change_vote_def Let_def intro!: post_states post_values)

lemma vote_archived_post [intro!]:
  "view db = v \<Longrightarrow> (\<And>db'. view db' = v \<Longrightarrow> P db') \<Longrightarrow> post P (vote_archived op voter c db)"
  by (rule step_post [where v = v])
    (auto simp: vote_archived_def Let_def intro!: post_states post_values)

lemma vote_evaluator_post [intro!]:
  "view db = v \<Longrightarrow> (\<And>db'. view db' = v \<Longrightarrow> P db') \<Longrightarrow> post P (vote_evaluator fc op db)"
  by (rule step_post [where v = v])
    (auto simp: vote_evaluator_def Let_def intro!: post_states post_values)

subsection \<open>The registry\<close>

lemma evaluate_post: "evaluate fc nf op db = Some r \<Longrightarrow> post (\<lambda>db'. view db' = view db) r"
  by (cases op) (auto simp: reset_account_evaluator_def set_reset_account_evaluator_def custom_evaluator_def)

lemma evaluate_view: "evaluate fc nf op db = Some (Inr db') \<Longrightarrow> view db' = view db"
  by (rule postD [OF evaluate_post]) simp_all

lemma apply_operations_view: "apply_operations fc cr nf ops db = Inr db' \<Longrightarrow> view db' = view db"
  unfolding apply_operations_def
  by (erule foldR_invariant) (auto simp: apply_one_def split: option.splits dest: evaluate_view)

end

section \<open>The clock and the decisions of the witnesses\<close>

interpretation clock: frame "\<lambda>db. (dgp_frame (db_dgp db), db_processed_hardforks db)"
  by unfold_locales (simp_all add: dgp_frame_def, simp add: dgp_funds_def)

interpretation decided: frame "\<lambda>db. (db_feed db, db_schedule db)"
  by unfold_locales simp_all

end
