(* ===== verification/Transaction.thy ===== *)
theory Transaction
  imports Operation_Validate
begin

text \<open>
  Transactions and the check of their signatures: \<^verbatim>\<open>libraries/protocol/transaction.cpp\<close>. The
  serialisation of a transaction is third-party code (field \<open>pack_transaction\<close> of the library
  record); the three authority getters are the callbacks that the chain passes in.
\<close>

record transaction =
  ref_block_num :: "16 word"
  ref_block_prefix :: "32 word"
  tx_expiration :: time_point_sec
  operations :: "operation list"

record signed_transaction = transaction +
  signatures :: "signature_type list"

record tx_lib = crypto_lib +
  pack_transaction :: "transaction \<Rightarrow> string"
  pack_signed_transaction :: "signed_transaction \<Rightarrow> string"

section \<open>Digests\<close>

definition merkle_digest :: "tx_lib \<Rightarrow> signed_transaction \<Rightarrow> digest_type" where
  "merkle_digest cr t = sha256 cr (pack_signed_transaction cr t)"

definition tx_digest :: "tx_lib \<Rightarrow> transaction \<Rightarrow> digest_type" where
  "tx_digest cr t = sha256 cr (pack_transaction cr t)"

definition sig_digest :: "tx_lib \<Rightarrow> digest_type \<Rightarrow> transaction \<Rightarrow> digest_type" where
  "sig_digest cr chain_id t = sha256 cr (chain_id @ pack_transaction cr t)"

definition tx_id :: "tx_lib \<Rightarrow> transaction \<Rightarrow> string" where
  "tx_id cr t = take 20 (tx_digest cr t)"

definition set_reference_block :: "transaction \<Rightarrow> block_id_type \<Rightarrow> transaction" where
  "set_reference_block t reference_block = t\<lparr>
     ref_block_num := of_nat (be_value 0 (take 4 reference_block)),
     ref_block_prefix := of_nat (be_value 0 (rev (take 4 (drop 4 reference_block))))\<rparr>"

section \<open>Validation\<close>

fun validate_operations :: "fc_lib \<Rightarrow> crypto_lib \<Rightarrow> nat \<Rightarrow> operation list \<Rightarrow> unit res" where
  "validate_operations fc cr i [] = Inr ()"
| "validate_operations fc cr i (op # ops) =
     (case operation_validate fc cr op of
        Inl e \<Rightarrow> Inl (Tx_invalid_operation i)
      | Inr _ \<Rightarrow> validate_operations fc cr (Suc i) ops)"

definition transaction_validate :: "fc_lib \<Rightarrow> crypto_lib \<Rightarrow> 'a transaction_scheme \<Rightarrow> unit res" where
  "transaction_validate fc cr t =
     (if length (operations t) > 0 then validate_operations fc cr 0 (operations t)
      else Inl (Tx_exception ''A transaction must have at least one operation''))"

definition get_required_authorities :: "operation list \<Rightarrow> required_auths \<Rightarrow> required_auths" where
  "get_required_authorities ops r = fold operation_get_required_authorities ops r"

section \<open>Verification of authorities\<close>

definition assert_unused_approvals :: "sign_state \<Rightarrow> unit res" where
  "assert_unused_approvals s =
     (let (unused_sigs, s) = remove_unused_signatures s in
      if unused_sigs then Inl (Tx_irrelevant_authority ''sig'' (unused_signatures s))
      else let (unused_apps, s) = filter_unused_approvals s in
        if unused_apps then Inl (Tx_irrelevant_authority ''approval'' (unused_approvals s)) else Inr ())"

text \<open>The accounts that are missing, and the signatures that were used so far.\<close>

definition missing_authority :: "string \<Rightarrow> account_name_type list \<Rightarrow> sign_state \<Rightarrow> golos_error" where
  "missing_authority which missing s =
     Tx_missing_authority which missing (used_signatures (snd (remove_unused_signatures s)))"

type_synonym sign_check = "sign_state \<Rightarrow> (bool \<times> sign_state) res"

text \<open>The short-circuit disjunction of checks: the first that succeeds ends it.\<close>

fun any_check :: "sign_check list \<Rightarrow> sign_check" where
  "any_check [] s = Inr (False, s)"
| "any_check (c # cs) s = bindR (c s) (\<lambda>(ok, s). if ok then Inr (True, s) else any_check cs s)"

text \<open>A loop that collects the elements for which the check fails.\<close>

fun collect_missing :: "('a \<Rightarrow> sign_check) \<Rightarrow> 'a list \<Rightarrow> sign_state \<Rightarrow> ('a list \<times> sign_state) res" where
  "collect_missing c [] s = Inr ([], s)"
| "collect_missing c (x # xs) s =
     bindR (c x s) (\<lambda>(ok, s). bindR (collect_missing c xs s) (\<lambda>(missing, s).
       Inr (if ok then missing else x # missing, s)))"

text \<open>\<^verbatim>\<open>s.check_authority(getter(id))\<close>, where \<open>G\<close> is the getter of the signature state.\<close>

definition check_of :: "authority_getter \<Rightarrow> authority_getter \<Rightarrow> account_name_type \<Rightarrow> sign_check" where
  "check_of G getter i s = bindR (getter i) (\<lambda>auth. check_authority G auth s)"

definition start_state :: "public_key_type list \<Rightarrow> nat \<Rightarrow> account_name_type list \<Rightarrow> sign_state" where
  "start_state sigs max_depth approved =
     (let s = (mk_sign_state sigs [])\<lparr>max_recursion := max_depth\<rparr>
      in s\<lparr>approved_by := fold (\<lambda>i. flat_put i False) approved (approved_by s)\<rparr>)"

definition verify_posting ::
  "account_name_type list \<Rightarrow> public_key_type list \<Rightarrow>
   authority_getter \<Rightarrow> authority_getter \<Rightarrow> authority_getter \<Rightarrow> nat \<Rightarrow> account_name_type list \<Rightarrow> unit res" where
  "verify_posting req_posting sigs get_active get_owner get_posting max_depth posting_approvals =
     bindR (collect_missing (\<lambda>i. any_check
         [check_account_authority get_posting i,
          check_of get_posting get_active i,
          check_of get_posting get_owner i]) req_posting
       (start_state sigs max_depth posting_approvals)) (\<lambda>(missing, s).
     if missing \<noteq> [] then Inl (missing_authority ''posting'' missing s)
     else assert_unused_approvals s)"

text \<open>The loop over \<^verbatim>\<open>required_owner\<close>, which marks an account as approved when it passes.\<close>

fun owner_loop ::
  "authority_getter \<Rightarrow> authority_getter \<Rightarrow> account_name_type list \<Rightarrow> account_name_type list \<Rightarrow>
   sign_state \<Rightarrow> (account_name_type list \<times> sign_state) res" where
  "owner_loop get_active get_owner owner_approvals [] s = Inr ([], s)"
| "owner_loop get_active get_owner owner_approvals (i # is) s =
     bindR (if i \<in> set owner_approvals then Inr (True, s) else check_of get_active get_owner i s) (\<lambda>(ok, s).
     let s = (if ok then s\<lparr>approved_by := flat_put i True (approved_by s)\<rparr> else s) in
     bindR (owner_loop get_active get_owner owner_approvals is s) (\<lambda>(missing, s).
       Inr (if ok then missing else i # missing, s)))"

definition verify_active ::
  "account_name_type list \<Rightarrow> account_name_type list \<Rightarrow> authority list \<Rightarrow> public_key_type list \<Rightarrow>
   authority_getter \<Rightarrow> authority_getter \<Rightarrow> nat \<Rightarrow> account_name_type list \<Rightarrow> account_name_type list \<Rightarrow> unit res" where
  "verify_active req_active req_owner other sigs get_active get_owner max_depth
     active_approvals owner_approvals =
     bindR (collect_missing (check_authority get_active) other
       (start_state sigs max_depth (active_approvals @ owner_approvals))) (\<lambda>(missing_auths, s).
     if missing_auths \<noteq> [] then Inl (Tx_missing_authority ''other'' [] [])
     else bindR (collect_missing (\<lambda>i. any_check
         [check_account_authority get_active i, check_of get_active get_owner i]) req_active s) (\<lambda>(missing, s).
     if missing \<noteq> [] then Inl (missing_authority ''active'' missing s)
     else bindR (owner_loop get_active get_owner owner_approvals req_owner s) (\<lambda>(missing, s).
     if missing \<noteq> [] then Inl (missing_authority ''owner'' missing s)
     else assert_unused_approvals s)))"

definition verify_authority ::
  "operation list \<Rightarrow> public_key_type list \<Rightarrow>
   authority_getter \<Rightarrow> authority_getter \<Rightarrow> authority_getter \<Rightarrow> nat \<Rightarrow>
   account_name_type list \<Rightarrow> account_name_type list \<Rightarrow> account_name_type list \<Rightarrow> unit res" where
  "verify_authority ops sigs get_active get_owner get_posting max_depth
     active_approvals owner_approvals posting_approvals =
     (let (active, owner, posting, other) = get_required_authorities ops ([], [], [], []) in
      if posting \<noteq> [] then
        if active = [] \<and> owner = [] \<and> other = []
        then verify_posting posting sigs get_active get_owner get_posting max_depth posting_approvals
        else Inl (Logic_error ''tx_with_both_posting_active_ops'')
      else verify_active active owner other sigs get_active get_owner max_depth
        active_approvals owner_approvals)"

section \<open>Signatures of a transaction\<close>

text \<open>The set of recovered keys; a key that is there already is a duplicate signature.\<close>

fun insert_keys ::
  "(signature_type \<Rightarrow> public_key_type res) \<Rightarrow> signature_type list \<Rightarrow> public_key_type list \<Rightarrow>
   public_key_type list res" where
  "insert_keys recover [] result = Inr result"
| "insert_keys recover (sig # sigs) result =
     bindR (recover sig) (\<lambda>k.
     if k \<in> set result then Inl Tx_duplicate_sig
     else insert_keys recover sigs (flat_ins k result))"

definition get_signature_keys :: "tx_lib \<Rightarrow> digest_type \<Rightarrow> signed_transaction \<Rightarrow> public_key_type list res" where
  "get_signature_keys cr chain_id t =
     (let d = sig_digest cr chain_id (transaction.truncate t)
      in insert_keys (\<lambda>sig. ecc_recover cr sig d True) (signatures t) [])"

definition signed_verify_authority ::
  "tx_lib \<Rightarrow> digest_type \<Rightarrow> authority_getter \<Rightarrow> authority_getter \<Rightarrow> authority_getter \<Rightarrow> nat \<Rightarrow>
   signed_transaction \<Rightarrow> unit res" where
  "signed_verify_authority cr chain_id get_active get_owner get_posting max_depth t =
     bindR (get_signature_keys cr chain_id t) (\<lambda>sigs.
     verify_authority (operations t) sigs get_active get_owner get_posting max_depth [] [] [])"

text \<open>Running checks for their effect on the signature state only.\<close>

fun run_checks :: "sign_check list \<Rightarrow> sign_state \<Rightarrow> sign_state res" where
  "run_checks [] s = Inr s"
| "run_checks (c # cs) s = bindR (c s) (\<lambda>(_, s). run_checks cs s)"

definition get_required_signatures ::
  "tx_lib \<Rightarrow> digest_type \<Rightarrow> public_key_type list \<Rightarrow>
   authority_getter \<Rightarrow> authority_getter \<Rightarrow> authority_getter \<Rightarrow> nat \<Rightarrow>
   signed_transaction \<Rightarrow> public_key_type list res" where
  "get_required_signatures cr chain_id avail get_active get_owner get_posting max_depth t =
     (let (active, owner, posting, other) = get_required_authorities (operations t) ([], [], [], []) in
      bindR (get_signature_keys cr chain_id t) (\<lambda>sigs.
      let s = (mk_sign_state sigs avail)\<lparr>max_recursion := max_depth\<rparr> in
      bindR
        (if posting \<noteq> [] then
           if active = [] \<and> owner = []
           then run_checks (map (check_account_authority get_posting) posting) s
           else Inl (Logic_error ''tx_with_both_posting_active_ops'')
         else run_checks
           (map (check_authority get_active) other @
            map (check_of get_active get_owner) owner @
            map (check_account_authority get_active) active) s) (\<lambda>s.
      let (_, s) = remove_unused_signatures s in
      Inr (fold flat_ins (filter (\<lambda>k. k \<in> set avail) (map fst (provided_signatures s))) []))))"

definition is_missing_auth :: "golos_error \<Rightarrow> bool" where
  "is_missing_auth e = (case e of Tx_missing_authority _ _ _ \<Rightarrow> True | _ \<Rightarrow> False)"

text \<open>The loop of \<^verbatim>\<open>minimize_required_signatures\<close>; an exception of another class leaves it.\<close>

fun minimize_loop ::
  "(public_key_type list \<Rightarrow> unit res) \<Rightarrow> public_key_type list \<Rightarrow> public_key_type list \<Rightarrow>
   public_key_type list res" where
  "minimize_loop verify [] result = Inr result"
| "minimize_loop verify (k # ks) result =
     (let result = filter (\<lambda>x. x \<noteq> k) result in
      case verify result of
        Inr _ \<Rightarrow> minimize_loop verify ks result
      | Inl e \<Rightarrow> if is_missing_auth e then minimize_loop verify ks (flat_ins k result) else Inl e)"

definition minimize_required_signatures ::
  "tx_lib \<Rightarrow> digest_type \<Rightarrow> public_key_type list \<Rightarrow>
   authority_getter \<Rightarrow> authority_getter \<Rightarrow> authority_getter \<Rightarrow> nat \<Rightarrow>
   signed_transaction \<Rightarrow> public_key_type list res" where
  "minimize_required_signatures cr chain_id avail get_active get_owner get_posting max_depth t =
     bindR (get_required_signatures cr chain_id avail get_active get_owner get_posting max_depth t) (\<lambda>s.
     minimize_loop (\<lambda>result. verify_authority (operations t) result
         get_active get_owner get_posting max_depth [] [] []) s (fold flat_ins s []))"

end
