(* ===== verification/Fork_Database.thy ===== *)
theory Fork_Database
  imports Transaction
begin

text \<open>
  The tree of candidate blocks: \<^verbatim>\<open>libraries/chain/fork_database.cpp\<close>. An item is held by shared
  pointers from the two indices and from the head, and points weakly to its predecessor:
  \<open>fi_ptr\<close> is the address of an item, \<open>fi_prev\<close> the address in its weak pointer, and \<open>lock\<close> finds
  the item as long as something still holds it. Items do not change once they are stored.
\<close>

record signed_block = signed_block_header +
  sb_transactions :: "signed_transaction list"

definition signed_block_id :: "crypto_lib \<Rightarrow> signed_block \<Rightarrow> block_id_type" where
  "signed_block_id cr b = signed_block_header_id cr (signed_block_header.truncate b)"

definition no_block_id :: block_id_type where
  "no_block_id = replicate 20 (char_of (0::nat))"

record fork_item =
  fi_ptr :: nat
  fi_prev :: "nat option"
  fi_num :: nat
  fi_invalid :: bool
  fi_id :: block_id_type
  fi_data :: signed_block

definition previous_id :: "fork_item \<Rightarrow> block_id_type" where
  "previous_id i = bh_previous (fi_data i)"

record fork_database =
  fdb_max_size :: nat
  fdb_unlinked_index :: "fork_item list"
  fdb_index :: "fork_item list"
  fdb_head :: "fork_item option"
  fdb_next_ptr :: nat

definition new_fork_database :: fork_database where
  "new_fork_database = \<lparr>fdb_max_size = 1024, fdb_unlinked_index = [], fdb_index = [], fdb_head = None, fdb_next_ptr = 0\<rparr>"

text \<open>\<^verbatim>\<open>std::make_shared<fork_item>\<close> at a fresh address.\<close>

definition make_item :: "crypto_lib \<Rightarrow> signed_block \<Rightarrow> fork_database \<Rightarrow> fork_item \<times> fork_database" where
  "make_item cr b db =
     (\<lparr>fi_ptr = fdb_next_ptr db, fi_prev = None, fi_num = block_num b, fi_invalid = False,
       fi_id = signed_block_id cr b, fi_data = b\<rparr>, db\<lparr>fdb_next_ptr := fdb_next_ptr db + 1\<rparr>)"

definition find_id :: "block_id_type \<Rightarrow> fork_item list \<Rightarrow> fork_item option" where
  "find_id i items = find (\<lambda>it. fi_id it = i) items"

text \<open>Insertion into an index that is unique by identifier.\<close>

definition index_insert :: "fork_item \<Rightarrow> fork_item list \<Rightarrow> fork_item list" where
  "index_insert it items = (if find_id (fi_id it) items = None then items @ [it] else items)"

definition live :: "fork_database \<Rightarrow> fork_item list" where
  "live db = fdb_index db @ fdb_unlinked_index db @ (case fdb_head db of None \<Rightarrow> [] | Some h \<Rightarrow> [h])"

definition lock :: "fork_database \<Rightarrow> nat option \<Rightarrow> fork_item option" where
  "lock db p = (case p of None \<Rightarrow> None | Some a \<Rightarrow> find (\<lambda>it. fi_ptr it = a) (live db))"

section \<open>Operations\<close>

definition fdb_reset :: "fork_database \<Rightarrow> fork_database" where
  "fdb_reset db = db\<lparr>fdb_head := None, fdb_index := []\<rparr>"

definition fdb_pop_block :: "fork_database \<Rightarrow> fork_database res" where
  "fdb_pop_block db =
     (case fdb_head db of
        None \<Rightarrow> Inl (Fc_assert ''cannot pop an empty fork database'')
      | Some h \<Rightarrow>
          case lock db (fi_prev h) of
            None \<Rightarrow> Inl (Fc_assert ''popping head block would leave fork DB empty'')
          | Some prev \<Rightarrow> Inr (db\<lparr>fdb_head := Some prev\<rparr>))"

definition start_block :: "crypto_lib \<Rightarrow> signed_block \<Rightarrow> fork_database \<Rightarrow> fork_database" where
  "start_block cr b db =
     (let (item, db) = make_item cr b db
      in db\<lparr>fdb_index := index_insert item (fdb_index db), fdb_head := Some item\<rparr>)"

text \<open>The range of blocks that are cached: \<^verbatim>\<open>std::max<int64_t>(0, _head->num - _max_size)\<close>.\<close>

definition oldest_num :: "fork_item \<Rightarrow> fork_database \<Rightarrow> int" where
  "oldest_num h db = max 0 (int (fi_num h) - int (fdb_max_size db))"

definition link_item :: "fork_item \<Rightarrow> fork_database \<Rightarrow> fork_item res" where
  "link_item item db =
     (if fdb_head db \<noteq> None \<and> previous_id item \<noteq> no_block_id then
        case find_id (previous_id item) (fdb_index db) of
          None \<Rightarrow> Inl Unlinkable_block
        | Some p \<Rightarrow> bindR (ensure (\<not> fi_invalid p) (Fc_assert ''!(*itr)->invalid'')) (\<lambda>_.
            Inr (item\<lparr>fi_prev := Some (fi_ptr p)\<rparr>))
      else Inr item)"

definition fdb_push_item :: "fork_item \<Rightarrow> fork_database \<Rightarrow> fork_database res" where
  "fdb_push_item item db =
     bindR (case fdb_head db of
          None \<Rightarrow> Inr ()
        | Some h \<Rightarrow> ensure (int (fi_num item) > oldest_num h db)
            (Fc_assert ''attempting to push a block that is too old'')) (\<lambda>_.
     bindR (link_item item db) (\<lambda>item.
     let db = db\<lparr>fdb_index := index_insert item (fdb_index db)\<rparr> in
     Inr (case fdb_head db of
            None \<Rightarrow> db\<lparr>fdb_head := Some item\<rparr>
          | Some h \<Rightarrow> if fi_num item > fi_num h then db\<lparr>fdb_head := Some item\<rparr> else db)))"

text \<open>
  \<^verbatim>\<open>fork_database::push_block\<close>: the handler of an unlinkable block rethrows before it would store
  the block, so an exception leaves the database as it was.
\<close>

definition fdb_push_block :: "crypto_lib \<Rightarrow> signed_block \<Rightarrow> fork_database \<Rightarrow> (fork_item option \<times> fork_database) res" where
  "fdb_push_block cr b db =
     (let (item, db) = make_item cr b db
      in bindR (fdb_push_item item db) (\<lambda>db. Inr (fdb_head db, db)))"

definition set_max_size :: "nat \<Rightarrow> fork_database \<Rightarrow> fork_database" where
  "set_max_size s db =
     (let db = db\<lparr>fdb_max_size := s\<rparr> in
      case fdb_head db of
        None \<Rightarrow> db
      | Some h \<Rightarrow>
          let keep = (\<lambda>it. \<not> int (fi_num it) < oldest_num h db)
          in db\<lparr>fdb_index := filter keep (fdb_index db), fdb_unlinked_index := filter keep (fdb_unlinked_index db)\<rparr>)"

definition fdb_is_known_block :: "block_id_type \<Rightarrow> fork_database \<Rightarrow> bool" where
  "fdb_is_known_block i db =
     (if find_id i (fdb_index db) \<noteq> None then True else find_id i (fdb_unlinked_index db) \<noteq> None)"

definition fetch_block :: "block_id_type \<Rightarrow> fork_database \<Rightarrow> fork_item option" where
  "fetch_block i db =
     (case find_id i (fdb_index db) of Some it \<Rightarrow> Some it | None \<Rightarrow> find_id i (fdb_unlinked_index db))"

definition fetch_block_by_number :: "nat \<Rightarrow> fork_database \<Rightarrow> fork_item list" where
  "fetch_block_by_number n db = filter (\<lambda>it. fi_num it = n) (fdb_index db)"

text \<open>
  The three loops of \<^verbatim>\<open>fetch_branch_from\<close>. They follow weak pointers, so that their end rests on
  the shape of the tree; \<open>None\<close> is a loop that does not end.
\<close>

partial_function (option) branch_down ::
  "fork_database \<Rightarrow> nat \<Rightarrow> fork_item \<Rightarrow> fork_item list \<Rightarrow> (fork_item list \<times> fork_item) res option" where
  "branch_down db n branch result =
     (if block_num (fi_data branch) > n then
        case lock db (fi_prev branch) of
          None \<Rightarrow> Some (Inl (Fc_assert ''branch''))
        | Some p \<Rightarrow> branch_down db n p (result @ [branch])
      else Some (Inr (result, branch)))"

partial_function (option) branch_both ::
  "fork_database \<Rightarrow> fork_item \<Rightarrow> fork_item \<Rightarrow> fork_item list \<Rightarrow> fork_item list \<Rightarrow>
   (fork_item list \<times> fork_item list) res option" where
  "branch_both db first_branch second_branch result1 result2 =
     (if previous_id first_branch \<noteq> previous_id second_branch then
        case lock db (fi_prev first_branch) of
          None \<Rightarrow> Some (Inl (Fc_assert ''first_branch''))
        | Some p \<Rightarrow> (case lock db (fi_prev second_branch) of
            None \<Rightarrow> Some (Inl (Fc_assert ''second_branch''))
          | Some q \<Rightarrow> branch_both db p q (result1 @ [first_branch]) (result2 @ [second_branch]))
      else Some (Inr (result1 @ [first_branch], result2 @ [second_branch])))"

definition fetch_branch_from ::
  "block_id_type \<Rightarrow> block_id_type \<Rightarrow> fork_database \<Rightarrow> (fork_item list \<times> fork_item list) res option" where
  "fetch_branch_from first second db =
     (case find_id first (fdb_index db) of
        None \<Rightarrow> Some (Inl (Fc_assert ''first_branch_itr''))
      | Some first_branch \<Rightarrow>
          case find_id second (fdb_index db) of
            None \<Rightarrow> Some (Inl (Fc_assert ''second_branch_itr''))
          | Some second_branch \<Rightarrow>
              case branch_down db (block_num (fi_data second_branch)) first_branch [] of
                None \<Rightarrow> None
              | Some (Inl e) \<Rightarrow> Some (Inl e)
              | Some (Inr (result1, first_branch)) \<Rightarrow>
                  case branch_down db (block_num (fi_data first_branch)) second_branch [] of
                    None \<Rightarrow> None
                  | Some (Inl e) \<Rightarrow> Some (Inl e)
                  | Some (Inr (result2, second_branch)) \<Rightarrow>
                      branch_both db first_branch second_branch result1 result2)"

partial_function (option) walk_down :: "fork_database \<Rightarrow> nat \<Rightarrow> fork_item option \<Rightarrow> fork_item option option" where
  "walk_down db n it =
     (case it of
        None \<Rightarrow> Some None
      | Some i \<Rightarrow> if fi_num i > n then walk_down db n (lock db (fi_prev i)) else Some (Some i))"

text \<open>\<^verbatim>\<open>walk_main_branch_to_num\<close> reads the head without a check; the error stands for that.\<close>

definition walk_main_branch_to_num :: "nat \<Rightarrow> fork_database \<Rightarrow> fork_item option res option" where
  "walk_main_branch_to_num n db =
     (case fdb_head db of
        None \<Rightarrow> Some (Inl (Internal_error ''null head''))
      | Some h \<Rightarrow>
          if n > fi_num h then Some (Inr None)
          else map_option Inr (walk_down db n (Some h)))"

definition fetch_block_on_main_branch_by_number :: "nat \<Rightarrow> fork_database \<Rightarrow> fork_item option res option" where
  "fetch_block_on_main_branch_by_number n db =
     (let blocks = fetch_block_by_number n db in
      if length blocks = 1 then Some (Inr (Some (hd blocks)))
      else if length blocks = 0 then Some (Inr None)
      else walk_main_branch_to_num n db)"

definition set_head :: "fork_item \<Rightarrow> fork_database \<Rightarrow> fork_database" where
  "set_head h db = db\<lparr>fdb_head := Some h\<rparr>"

definition fdb_remove :: "block_id_type \<Rightarrow> fork_database \<Rightarrow> fork_database" where
  "fdb_remove i db = db\<lparr>fdb_index := filter (\<lambda>it. fi_id it \<noteq> i) (fdb_index db)\<rparr>"

end
