(* ===== verification/Chain_Transactions.thy ===== *)
theory Chain_Transactions
  imports Frame Transaction Fork_Database
begin

text \<open>
  How the chain applies a transaction: \<^verbatim>\<open>_apply_transaction\<close>, \<^verbatim>\<open>_validate_transaction\<close>,
  \<^verbatim>\<open>update_account_bandwidth\<close> and \<^verbatim>\<open>clear_expired_transactions\<close> of \<^verbatim>\<open>database.cpp\<close>. The chain is the
  object database together with the recent transactions and the summaries of recent blocks. The flags that make a node skip checks are bits of a mask, as in the
  code.
\<close>

section \<open>State\<close>

record transaction_object =
  tro_trx_id :: string
  tro_expiration :: time_point_sec
  tro_packed_trx :: string

text \<open>The 65536 block summaries are created at genesis, one for each 16-bit number.\<close>

record chain =
  ch_db :: database
  ch_transactions :: "transaction_object list"
  ch_block_summaries :: "16 word \<Rightarrow> block_id_type"

type_synonym skip_flags = "32 word"

definition skip_witness_signature :: skip_flags where "skip_witness_signature = push_bit 0 1"
definition skip_transaction_signatures :: skip_flags where "skip_transaction_signatures = push_bit 1 1"
definition skip_transaction_dupe_check :: skip_flags where "skip_transaction_dupe_check = push_bit 2 1"
definition skip_block_size_check :: skip_flags where "skip_block_size_check = push_bit 4 1"
definition skip_tapos_check :: skip_flags where "skip_tapos_check = push_bit 5 1"
definition skip_authority_check :: skip_flags where "skip_authority_check = push_bit 6 1"
definition skip_merkle_check :: skip_flags where "skip_merkle_check = push_bit 7 1"
definition skip_undo_history_check :: skip_flags where "skip_undo_history_check = push_bit 8 1"
definition skip_witness_schedule_check :: skip_flags where "skip_witness_schedule_check = push_bit 9 1"
definition skip_validate_operations :: skip_flags where "skip_validate_operations = push_bit 10 1"

definition skips :: "skip_flags \<Rightarrow> skip_flags \<Rightarrow> bool" where
  "skips skip f \<longleftrightarrow> and skip f \<noteq> 0"

section \<open>Constants\<close>

definition BLOCKCHAIN_NAME :: string where "BLOCKCHAIN_NAME = ''GOLOS''"

definition STEEMIT_CHAIN_ID :: "'a crypto_lib_scheme \<Rightarrow> digest_type" where
  "STEEMIT_CHAIN_ID cr = sha256 cr BLOCKCHAIN_NAME"

definition STEEMIT_MAX_SIG_CHECK_DEPTH :: nat where "STEEMIT_MAX_SIG_CHECK_DEPTH = 2"
definition STEEMIT_MAX_TIME_UNTIL_EXPIRATION :: int where "STEEMIT_MAX_TIME_UNTIL_EXPIRATION = 60 * 60"
definition STEEMIT_BANDWIDTH_AVERAGE_WINDOW_SECONDS :: int where
  "STEEMIT_BANDWIDTH_AVERAGE_WINDOW_SECONDS = 60 * 60 * 24 * 7"
definition STEEMIT_BANDWIDTH_PRECISION :: int where "STEEMIT_BANDWIDTH_PRECISION = 1000000"

text \<open>The blocks for which another Merkle root was accepted, with that root in hexadecimal.\<close>

definition shared_db_merkle :: "(nat \<times> string) list" where
  "shared_db_merkle =
     [(3705111, ''0a8f0fd5450c3706ec8b8cbad795cd0b3679bf35''), (3705120, ''2027edb72b671f7011c8cc4c7a8b59c39b305093''),
      (3713940, ''bf8a1d516927c506ebdbb7b38bef2e992435435f''), (3714132, ''e8b77773d268b72c8d650337b8cce360bbe64779''),
      (3714567, ''45af59a8c2d7d4a606151ef5dae03d2dfe13fbdd''), (3714588, ''e64275443bdc82f104ac936486d367af8f6d1584''),
      (4138790, ''f65a3a788a2ef52406d8ba5705d7288be228403f''), (5435426, ''0b32538b2d22bd3146d54b6e3cb5ae8b9780e8a5'')]"

section \<open>Validation\<close>

definition verify_on_chain :: "tx_lib \<Rightarrow> signed_transaction \<Rightarrow> chain \<Rightarrow> unit res" where
  "verify_on_chain cr trx c =
     (let auth = (\<lambda>sel name. bindR (get_authority name (ch_db c)) (\<lambda>a. Inr (sel a))) in
      case signed_verify_authority cr (STEEMIT_CHAIN_ID cr) (auth aut_active) (auth aut_owner) (auth aut_posting)
          STEEMIT_MAX_SIG_CHECK_DEPTH trx of
        Inl (Tx_missing_authority which missing used) \<Rightarrow>
          if which = ''active'' \<and> map_of shared_db_merkle (head_block_num (ch_db c) + 1) \<noteq> None then Inr ()
          else Inl (Tx_missing_authority which missing used)
      | r \<Rightarrow> r)"

text \<open>The word \<^verbatim>\<open>block_id._hash[1]\<close> of a block identifier.\<close>

definition id_prefix :: "block_id_type \<Rightarrow> 32 word" where
  "id_prefix i = of_nat (be_value 0 (rev (take 4 (drop 4 i))))"

definition check_tapos :: "skip_flags \<Rightarrow> signed_transaction \<Rightarrow> chain \<Rightarrow> unit res" where
  "check_tapos skip trx c =
     ensure (skips skip skip_tapos_check \<or> ref_block_prefix trx = id_prefix (ch_block_summaries c (ref_block_num trx)))
       (Tx_exception ''tx_invalid_field: ref_block_prefix'')"

definition check_expiration :: "node_flags \<Rightarrow> signed_transaction \<Rightarrow> database \<Rightarrow> unit res" where
  "check_expiration nf trx db =
     (let now = head_block_time db; maximum = time_plus now STEEMIT_MAX_TIME_UNTIL_EXPIRATION in
      seqR [ensure (tx_expiration trx \<le> maximum) (Tx_exception ''tx_invalid_field: expiration''),
            ensure (is_producing nf \<or> has_hardfork 9 db \<longrightarrow> now < tx_expiration trx) (Tx_exception ''tx_expired''),
            ensure (now \<le> tx_expiration trx) (Tx_exception ''tx_expired'')])"

definition validate_transaction ::
  "fc_lib \<Rightarrow> tx_lib \<Rightarrow> node_flags \<Rightarrow> skip_flags \<Rightarrow> signed_transaction \<Rightarrow> chain \<Rightarrow> unit res" where
  "validate_transaction fc cr nf skip trx c =
     bindR (if skips skip skip_validate_operations then Inr ()
            else transaction_validate fc (crypto_lib.truncate cr) trx) (\<lambda>_.
     bindR (if skips skip (or skip_transaction_signatures skip_authority_check) then Inr ()
            else verify_on_chain cr trx c) (\<lambda>_.
     if head_block_num (ch_db c) > 0 then
       bindR (check_tapos skip trx c) (\<lambda>_. check_expiration nf trx (ch_db c))
     else Inr ()))"

section \<open>Bandwidth\<close>

text \<open>The average decays linearly over a week. \<open>trx_size\<close> is an unsigned 32-bit number.\<close>

definition decayed_bandwidth :: "fc_lib \<Rightarrow> account_bandwidth_object \<Rightarrow> time_point_sec \<Rightarrow> int res" where
  "decayed_bandwidth fc band now =
     (let delta_time = now - abw_last_bandwidth_update band in
      if delta_time > STEEMIT_BANDWIDTH_AVERAGE_WINDOW_SECONDS then Inr 0
      else
        bindR (u128_div fc
          (u128_mul fc (u128_of fc (STEEMIT_BANDWIDTH_AVERAGE_WINDOW_SECONDS - delta_time))
             (u128_of fc (abw_average_bandwidth band)))
          (u128_of fc STEEMIT_BANDWIDTH_AVERAGE_WINDOW_SECONDS)) (\<lambda>q.
        bindR (u128_to_uint64 fc q) (\<lambda>x. Inr (safe_of_u64 fc x))))"

definition update_account_bandwidth ::
  "fc_lib \<Rightarrow> node_flags \<Rightarrow> account_name_type \<Rightarrow> nat \<Rightarrow> bandwidth_type \<Rightarrow> chain \<Rightarrow> (bool \<times> chain) res" where
  "update_account_bandwidth fc nf n trx_size ty c =
     (let props = db_dgp (ch_db c); now = head_block_time (ch_db c) in
      if amount (dgp_total_vesting_shares props) > 0 then
        bindR (get_account n (ch_db c)) (\<lambda>a.
        let band = find_bandwidth n ty (db_bandwidth (ch_db c));
            trx_bandwidth = int (trx_size mod 2 ^ 32) * STEEMIT_BANDWIDTH_PRECISION in
        bindR (decayed_bandwidth fc band now) (\<lambda>new_bandwidth.
        bindR (safe_add fc new_bandwidth trx_bandwidth) (\<lambda>new_bandwidth.
        bindR (safe_add fc (abw_lifetime_bandwidth band) trx_bandwidth) (\<lambda>lifetime.
        let band = band\<lparr>abw_average_bandwidth := new_bandwidth, abw_lifetime_bandwidth := lifetime,
              abw_last_bandwidth_update := now\<rparr>;
            c = c\<lparr>ch_db := (ch_db c)\<lparr>db_bandwidth := put_bandwidth band (db_bandwidth (ch_db c))\<rparr>\<rparr> in
        bindR (effective_vesting_shares fc a) (\<lambda>effective.
        let has_bandwidth =
              u128_mul fc (u128_of fc (amount effective)) (u128_of fc (int (dgp_max_virtual_bandwidth props))) >
              u128_mul fc (u128_of fc new_bandwidth) (u128_of fc (amount (dgp_total_vesting_shares props)))
        in bindR (ensure (is_producing nf \<longrightarrow> has_bandwidth)
             (Logic_error ''account_exceeded_bandwidth_per_vestring_share'')) (\<lambda>_. Inr (has_bandwidth, c)))))))
      else Inr (True, c))"

text \<open>The first market or custom operation decides which second bandwidth is charged.\<close>

definition charged_operation :: "database \<Rightarrow> operation list \<Rightarrow> operation option" where
  "charged_operation db ops =
     find (\<lambda>op. is_market_operation op \<or> has_hardfork 19 db \<and> is_custom_json_operation op) ops"

definition charge_account ::
  "fc_lib \<Rightarrow> node_flags \<Rightarrow> operation list \<Rightarrow> nat \<Rightarrow> account_name_type \<Rightarrow> chain \<Rightarrow> chain res" where
  "charge_account fc nf ops trx_size n c =
     bindR (get_account n (ch_db c)) (\<lambda>_.
     bindR (update_account_bandwidth fc nf n trx_size forum_bandwidth c) (\<lambda>(_, c).
     case charged_operation (ch_db c) ops of
       None \<Rightarrow> Inr c
     | Some op \<Rightarrow>
         if is_market_operation op then
           bindR (update_account_bandwidth fc nf n (trx_size * 10) market_bandwidth c) (\<lambda>(_, c). Inr c)
         else
           bindR (update_account_bandwidth fc nf n
             (trx_size * dgp_custom_ops_bandwidth_multiplier (db_dgp (ch_db c))) custom_json_bandwidth c) (\<lambda>(_, c). Inr c)))"

text \<open>The three sets of required accounts are one set here, as in the call.\<close>

definition required_accounts :: "operation list \<Rightarrow> account_name_type list" where
  "required_accounts ops =
     (let (active, own, posting, _) = get_required_authorities ops ([], [], [], [])
      in fold flat_ins (active @ own @ posting) [])"

section \<open>Application\<close>

fun apply_indexed ::
  "fc_lib \<Rightarrow> tx_lib \<Rightarrow> node_flags \<Rightarrow> nat \<Rightarrow> operation list \<Rightarrow> database \<Rightarrow> database res" where
  "apply_indexed fc cr nf i [] db = Inr db"
| "apply_indexed fc cr nf i (op # ops) db =
     (case apply_one (fc, crypto_lib.truncate cr, nf) op db of
        Inl e \<Rightarrow> Inl (Tx_invalid_operation i)
      | Inr db \<Rightarrow> apply_indexed fc cr nf (Suc i) ops db)"

definition known_transaction :: "string \<Rightarrow> chain \<Rightarrow> bool" where
  "known_transaction i c \<longleftrightarrow> find_by tro_trx_id i (ch_transactions c) \<noteq> None"

definition signed_tx_id :: "tx_lib \<Rightarrow> signed_transaction \<Rightarrow> string" where
  "signed_tx_id cr trx = tx_id cr (transaction.truncate trx)"

definition remember_transaction :: "tx_lib \<Rightarrow> signed_transaction \<Rightarrow> chain \<Rightarrow> chain" where
  "remember_transaction cr trx c = c\<lparr>ch_transactions := ch_transactions c @
     [\<lparr>tro_trx_id = signed_tx_id cr trx, tro_expiration = tx_expiration trx,
       tro_packed_trx = pack_signed_transaction cr trx\<rparr>]\<rparr>"

definition apply_transaction ::
  "fc_lib \<Rightarrow> tx_lib \<Rightarrow> node_flags \<Rightarrow> skip_flags \<Rightarrow> signed_transaction \<Rightarrow> chain \<Rightarrow> chain res" where
  "apply_transaction fc cr nf skip trx c =
     bindR (ensure (skips skip skip_transaction_dupe_check \<or> \<not> known_transaction (signed_tx_id cr trx) c)
       (Tx_exception ''tx_duplicate_transaction'')) (\<lambda>_.
     bindR (validate_transaction fc cr nf skip trx c) (\<lambda>_.
     bindR (foldR (charge_account fc nf (operations trx) (length (pack_signed_transaction cr trx)))
       (required_accounts (operations trx)) c) (\<lambda>c.
     let c = (if skips skip skip_transaction_dupe_check then c else remember_transaction cr trx c) in
     bindR (apply_indexed fc cr nf 0 (operations trx) (ch_db c)) (\<lambda>db. Inr (c\<lparr>ch_db := db\<rparr>)))))"

text \<open>
  \<^verbatim>\<open>clear_expired_transactions\<close>: the loop removes the transaction with the earliest expiration as
  long as that one lies before the head block, which removes all of those.
\<close>

definition clear_expired_transactions :: "chain \<Rightarrow> chain" where
  "clear_expired_transactions c =
     c\<lparr>ch_transactions := filter (\<lambda>t. \<not> head_block_time (ch_db c) > tro_expiration t) (ch_transactions c)\<rparr>"

end
