(* ===== verification/Block_Log.thy ===== *)
theory Block_Log
  imports Fork_Database
begin

text \<open>
  The log of irreversible blocks: \<^verbatim>\<open>libraries/chain/block_log.cpp\<close>. The log is a file of packed
  blocks, each followed by the position at which it starts, and an index file of these positions.
  Both files are mapped into memory and are lists of bytes here; a missing file is the empty list.
  Packing and unpacking is done by the \<^verbatim>\<open>fc\<close> library and comes as the record \<open>block_codec\<close>; a
  read or write outside a mapped file is an error.
\<close>

record block_codec =
  pack_block :: "signed_block \<Rightarrow> string"
  unpack_block :: "string \<Rightarrow> (signed_block \<times> nat) res"

record block_log_impl =
  bl_head :: "signed_block option"
  bl_head_id :: block_id_type
  bl_block_file :: string
  bl_index_file :: string

definition min_valid_file_size :: nat where "min_valid_file_size = 8"
definition STEEMIT_MAX_BLOCK_SIZE :: nat where "STEEMIT_MAX_BLOCK_SIZE = 1024 * 64 * 3 * 2000"

section \<open>Mapped files\<close>

fun le_value :: "string \<Rightarrow> nat" where
  "le_value [] = 0"
| "le_value (c # cs) = of_char c + 256 * le_value cs"

definition resize_file :: "nat \<Rightarrow> string \<Rightarrow> string" where
  "resize_file n f = take n f @ replicate (n - length f) (CHR 0x00)"

definition write_at :: "nat \<Rightarrow> string \<Rightarrow> string \<Rightarrow> string" where
  "write_at pos bytes f = take pos f @ bytes @ drop (pos + length bytes) f"

definition has_block_records :: "block_log_impl \<Rightarrow> bool" where
  "has_block_records bl \<longleftrightarrow> length (bl_block_file bl) > min_valid_file_size"

definition has_index_records :: "block_log_impl \<Rightarrow> bool" where
  "has_index_records bl \<longleftrightarrow> length (bl_index_file bl) \<ge> min_valid_file_size"

definition get_mapped_size :: "string \<Rightarrow> nat" where
  "get_mapped_size f = (if length f < min_valid_file_size then 0 else length f)"

definition get_uint64 :: "string \<Rightarrow> nat \<Rightarrow> nat res" where
  "get_uint64 f pos =
     bindR (ensure (pos + 8 \<le> get_mapped_size f) (Database_corrupted ''reading_data_beyond_end_of_file'')) (\<lambda>_.
     Inr (le_value (take 8 (drop pos f))))"

definition get_last_uint64 :: "string \<Rightarrow> nat res" where
  "get_last_uint64 f =
     bindR (ensure (8 \<le> get_mapped_size f) (Database_corrupted ''reading_data_beyond_end_of_file'')) (\<lambda>_.
     Inr (le_value (take 8 (drop (get_mapped_size f - 8) f))))"

section \<open>Reading\<close>

text \<open>\<open>None\<close> stands for \<^verbatim>\<open>block_log::npos\<close>.\<close>

definition get_block_pos :: "nat \<Rightarrow> block_log_impl \<Rightarrow> nat option res" where
  "get_block_pos n bl =
     (if bl_head bl \<noteq> None \<and> n \<le> num_from_id (bl_head_id bl) \<and> n > 0
      then bindR (get_uint64 (bl_index_file bl) (8 * (n - 1))) (\<lambda>p. Inr (Some p))
      else Inr None)"

text \<open>The block at a position and the position of the next one.\<close>

definition read_block :: "block_codec \<Rightarrow> nat \<Rightarrow> block_log_impl \<Rightarrow> (signed_block \<times> nat) res" where
  "read_block cd pos bl =
     (let f = bl_block_file bl; file_size = get_mapped_size f in
      bindR (ensure (pos < file_size) (Database_corrupted ''reading_data_beyond_end_of_file'')) (\<lambda>_.
      let available_size = file_size - pos;
          max_block_size = min available_size STEEMIT_MAX_BLOCK_SIZE in
      bindR (unpack_block cd (take max_block_size (drop pos f))) (\<lambda>(block, tellp).
      let end_pos = pos + tellp in
      bindR (get_uint64 f end_pos) (\<lambda>block_pos.
      bindR (ensure (block_pos = pos) (Database_corrupted ''wrong_position_marker_was_read'')) (\<lambda>_.
      Inr (block, end_pos + 8))))))"

definition read_head :: "block_codec \<Rightarrow> block_log_impl \<Rightarrow> signed_block res" where
  "read_head cd bl =
     bindR (get_last_uint64 (bl_block_file bl)) (\<lambda>pos.
     bindR (read_block cd pos bl) (\<lambda>(block, _). Inr block))"

definition read_block_by_num :: "block_codec \<Rightarrow> nat \<Rightarrow> block_log_impl \<Rightarrow> signed_block option res" where
  "read_block_by_num cd n bl =
     bindR (get_block_pos n bl) (\<lambda>p.
     case p of
       None \<Rightarrow> Inr None
     | Some pos \<Rightarrow>
         bindR (read_block cd pos bl) (\<lambda>(block, _).
         bindR (ensure (block_num block = n) (Database_corrupted ''wrong_block_num_was_read'')) (\<lambda>_.
         Inr (Some block))))"

section \<open>Opening\<close>

definition create_nonexist_file :: "string \<Rightarrow> string" where
  "create_nonexist_file f = (if length f = 0 then [CHR 0x00] else f)"

lemma read_block_advances: "read_block cd pos bl = Inr (b, p) \<Longrightarrow> pos < p"
  by (auto simp: read_block_def Let_def split: prod.splits)

text \<open>
  The loop of \<^verbatim>\<open>construct_index\<close>: it walks the block file up to the last position marker and writes
  the position of every block.
\<close>

function index_loop :: "block_codec \<Rightarrow> nat \<Rightarrow> nat \<Rightarrow> nat \<Rightarrow> block_log_impl \<Rightarrow> block_log_impl res" where
  "index_loop cd end_pos pos idx bl =
     (if pos \<le> end_pos then
        if idx + 8 \<le> length (bl_index_file bl) then
          let bl = bl\<lparr>bl_index_file := write_at idx (le_bytes 8 pos) (bl_index_file bl)\<rparr> in
          case read_block cd pos bl of
            Inl e \<Rightarrow> Inl e
          | Inr (_, pos) \<Rightarrow> index_loop cd end_pos pos (idx + 8) bl
        else Inl (Internal_error ''write outside of the mapped file'')
      else Inr bl)"
  by pat_completeness auto
termination
  by (relation "measure (\<lambda>(cd, end_pos, pos, idx, bl). Suc end_pos - pos)") (auto dest!: read_block_advances)

declare index_loop.simps [simp del]

definition construct_index :: "block_codec \<Rightarrow> block_log_impl \<Rightarrow> block_log_impl res" where
  "construct_index cd bl =
     (case bl_head bl of
        None \<Rightarrow> Inl (Internal_error ''null head'')
      | Some h \<Rightarrow>
          let bl = bl\<lparr>bl_index_file := resize_file (block_num h * 8) (create_nonexist_file [])\<rparr> in
          bindR (get_last_uint64 (bl_block_file bl)) (\<lambda>end_pos.
          index_loop cd end_pos 0 0 bl))"

definition bl_open :: "crypto_lib \<Rightarrow> block_codec \<Rightarrow> block_log_impl \<Rightarrow> block_log_impl res" where
  "bl_open cr cd bl =
     (let bl = bl\<lparr>bl_block_file := create_nonexist_file (bl_block_file bl),
                 bl_index_file := create_nonexist_file (bl_index_file bl)\<rparr> in
      if has_block_records bl then
        bindR (read_head cd bl) (\<lambda>h.
        let bl = bl\<lparr>bl_head := Some h, bl_head_id := signed_block_id cr h\<rparr> in
        if has_index_records bl then
          bindR (get_last_uint64 (bl_block_file bl)) (\<lambda>block_pos.
          bindR (get_last_uint64 (bl_index_file bl)) (\<lambda>index_pos.
          if block_pos \<noteq> index_pos then construct_index cd bl else Inr bl))
        else construct_index cd bl)
      else if has_index_records bl then
        Inr (bl\<lparr>bl_block_file := create_nonexist_file [], bl_index_file := create_nonexist_file []\<rparr>)
      else Inr bl)"

section \<open>Appending and closing\<close>

definition bl_append :: "crypto_lib \<Rightarrow> block_codec \<Rightarrow> signed_block \<Rightarrow> block_log_impl \<Rightarrow> (nat \<times> block_log_impl) res" where
  "bl_append cr cd b bl =
     (let data = pack_block cd b; index_pos = get_mapped_size (bl_index_file bl) in
      bindR (ensure (index_pos = 8 * dec_w 32 (block_num b)) (Database_corrupted ''append_index_file_at_wrong_position'')) (\<lambda>_.
      let block_pos = get_mapped_size (bl_block_file bl);
          blocks = resize_file (block_pos + length data + 8) (bl_block_file bl);
          blocks = write_at block_pos data blocks;
          blocks = write_at (block_pos + length data) (le_bytes 8 block_pos) blocks;
          index = resize_file (index_pos + 8) (bl_index_file bl);
          index = write_at index_pos (le_bytes 8 block_pos) index
      in Inr (block_pos, bl\<lparr>bl_block_file := blocks, bl_index_file := index, bl_head := Some b,
           bl_head_id := signed_block_id cr b\<rparr>)))"

text \<open>The call of the chain drops the position.\<close>

definition log_append :: "crypto_lib \<Rightarrow> block_codec \<Rightarrow> signed_block \<Rightarrow> block_log_impl \<Rightarrow> block_log_impl res" where
  "log_append cr cd b bl = bindR (bl_append cr cd b bl) (\<lambda>(_, bl). Inr bl)"

definition bl_close :: "block_log_impl \<Rightarrow> block_log_impl" where
  "bl_close bl = bl\<lparr>bl_head := None, bl_head_id := no_block_id\<rparr>"

end
