(* ===== verification/Block_Maintenance.thy ===== *)
theory Block_Maintenance
  imports Evaluate
begin

text \<open>
  The stages of \<^verbatim>\<open>database::_apply_block\<close> after the transactions, in the order of the code: the
  expiry of orders and delegations, the stages from the price feed to the conversions, and the
  stages from the vesting withdrawals to the declined voting rights. The payout of comments, which
  stands between the last two groups, is not part of them.
\<close>

section \<open>The stages\<close>

definition expiry_stages :: "fc_lib \<Rightarrow> database \<Rightarrow> database res" where
  "expiry_stages fc db =
     bindR (clear_expired_orders fc db) (\<lambda>db.
     clear_expired_delegations fc db)"

definition funds_stages :: "fc_lib \<Rightarrow> database \<Rightarrow> database res" where
  "funds_stages fc db =
     bindR (update_median_feed fc db) (\<lambda>db.
     bindR (update_virtual_supply fc db) (\<lambda>db.
     bindR (clear_null_account_balance fc db) (\<lambda>db.
     bindR (process_funds fc db) (\<lambda>db.
     process_conversions fc db))))"

definition closing_stages :: "fc_lib \<Rightarrow> nat \<Rightarrow> database \<Rightarrow> database res option" where
  "closing_stages fc rounds db =
     map_option (\<lambda>r.
       bindR r (\<lambda>db.
       bindR (process_savings_withdraws fc db) (\<lambda>db.
       bindR (pay_liquidity_reward fc db) (\<lambda>db.
       bindR (update_virtual_supply fc db) (\<lambda>db.
       bindR (account_recovery_processing db) (\<lambda>db.
       bindR (expire_escrow_ratification fc db) (\<lambda>db.
       process_decline_voting_rights fc db)))))))
     (process_vesting_withdrawals fc rounds db)"

section \<open>Conservation\<close>

lemma expiry_stages_moves:
  assumes "fc_safe fc" "ledger_ok db" "expiry_stages fc db = Inr db'"
  shows "moves db db' 0 0 0"
proof -
  obtain db1 where run: "clear_expired_orders fc db = Inr db1" "clear_expired_delegations fc db1 = Inr db'"
    using assms(3) by (auto simp: expiry_stages_def)
  from clear_expired_orders_moves [OF assms(1,2) run(1)] clear_expired_delegations_moves [OF _ run(2)]
  show ?thesis by (rule step_after)
qed

text \<open>The price feed and the virtual supply leave vesting shares alone.\<close>

lemma update_median_feed_vesting: "update_median_feed fc db = Inr db' \<Longrightarrow> same_vesting db db'"
  by (auto simp: same_vesting_def get_account_def find_account_def dest!: update_median_feed_Inr)

lemma update_virtual_supply_vesting: "update_virtual_supply fc db = Inr db' \<Longrightarrow> same_vesting db db'"
  by (auto simp: same_vesting_def get_account_def find_account_def dest!: update_virtual_supply_Inr)

lemma funds_stages_moves:
  assumes "fc_num fc" "ledger_ok db" "null_vesting_sane db" "funds_stages fc db = Inr db'"
  shows "moves db db' 0 0 0"
proof -
  have safe: "fc_safe fc" using assms(1) by (simp add: fc_num_def)
  obtain db1 db2 db3 db4 where run: "update_median_feed fc db = Inr db1" "update_virtual_supply fc db1 = Inr db2"
    "clear_null_account_balance fc db2 = Inr db3" "process_funds fc db3 = Inr db4" "process_conversions fc db4 = Inr db'"
    using assms(4) by (auto simp: funds_stages_def)
  have sane: "null_vesting_sane db2"
    using assms(3) update_median_feed_vesting [OF run(1)] update_virtual_supply_vesting [OF run(2)]
      same_vesting_trans sane_same_vesting by metis
  have "moves db db2 0 0 0"
    by (rule step_after [OF update_median_feed_moves [OF assms(2) run(1)]]) (rule update_virtual_supply_moves [OF _ run(2)])
  then have "moves db db3 0 0 0"
    by (rule step_after) (rule clear_null_account_balance_moves [OF assms(1) _ sane run(3)])
  then have "moves db db4 0 0 0" by (rule step_after) (rule process_funds_moves [OF safe _ run(4)])
  then show ?thesis by (rule step_after) (rule process_conversions_moves [OF safe _ run(5)])
qed

lemma closing_stages_moves:
  assumes "fc_num fc" "ledger_ok db" "withdraw_ready rs db" "closing_stages fc rounds db = Some (Inr db')"
  shows "moves db db' 0 0 0"
proof -
  have safe: "fc_safe fc" using assms(1) by (simp add: fc_num_def)
  obtain db1 db2 db3 db4 db5 db6 where run: "process_vesting_withdrawals fc rounds db = Some (Inr db1)"
    "process_savings_withdraws fc db1 = Inr db2" "pay_liquidity_reward fc db2 = Inr db3"
    "update_virtual_supply fc db3 = Inr db4" "account_recovery_processing db4 = Inr db5"
    "expire_escrow_ratification fc db5 = Inr db6" "process_decline_voting_rights fc db6 = Inr db'"
    using assms(4) by (auto simp: closing_stages_def)
  have "moves db db1 0 0 0" using process_vesting_withdrawals_moves [OF assms(1-3) run(1)] by blast
  then have "moves db db2 0 0 0" by (rule step_after) (rule process_savings_withdraws_moves [OF safe _ run(2)])
  then have "moves db db3 0 0 0" by (rule step_after) (rule pay_liquidity_reward_moves [OF safe _ run(3)])
  then have "moves db db4 0 0 0" by (rule step_after) (rule update_virtual_supply_moves [OF _ run(4)])
  then have "moves db db5 0 0 0" by (rule step_after) (rule account_recovery_processing_moves [OF _ run(5)])
  then have "moves db db6 0 0 0" by (rule step_after) (rule expire_escrow_ratification_moves [OF safe _ run(6)])
  then show ?thesis by (rule step_after) (rule process_decline_voting_rights_moves [OF _ run(7)])
qed

end
