(* ===== verification/Block_Production.thy ===== *)
theory Block_Production
  imports Witness_Schedule Chain_Transactions Block_Log Block_Maintenance
begin

text \<open>
  How a block extends the chain: the slots of the witnesses, the checks of a block header, the
  bookkeeping of head block, missed slots and participation, the last irreversible block with the
  block log, and the migration votes (\<^verbatim>\<open>database.cpp\<close>). A node is the chain together with the
  hardfork state, the tree of candidate blocks and the log of irreversible ones. The undo states of
  the object database are not part of it.
\<close>

record node =
  nd_chain :: chain
  nd_hardforks :: hardfork_property_object
  nd_fork_db :: fork_database
  nd_block_log :: block_log_impl
  nd_fixed_irreversible_block_num :: nat

definition nd_db :: "node \<Rightarrow> database" where
  "nd_db nd = ch_db (nd_chain nd)"

definition set_db :: "database \<Rightarrow> node \<Rightarrow> node" where
  "set_db db nd = nd\<lparr>nd_chain := (nd_chain nd)\<lparr>ch_db := db\<rparr>\<rparr>"

text \<open>The library functions that the code of this theory calls.\<close>

record node_libs =
  nl_fc :: fc_lib
  nl_tx :: tx_lib
  nl_codec :: block_codec
  nl_nth_element :: nth_element

definition skip_block_log :: skip_flags where "skip_block_log = push_bit 13 1"

definition STEEMIT_BLOCK_INTERVAL :: int where "STEEMIT_BLOCK_INTERVAL = 3"
definition STEEMIT_IRREVERSIBLE_THRESHOLD :: nat where "STEEMIT_IRREVERSIBLE_THRESHOLD = 75 * 100"
definition STEEMIT_MAX_UNDO_HISTORY :: nat where "STEEMIT_MAX_UNDO_HISTORY = 10000"
definition STEEMIT_MAX_RESERVE_RATIO :: nat where "STEEMIT_MAX_RESERVE_RATIO = 20000"
definition STEEMIT_TRANSIT_REQUIRED_WITNESSES :: nat where "STEEMIT_TRANSIT_REQUIRED_WITNESSES = 16"

section \<open>Slots\<close>

definition get_scheduled_witness :: "nat \<Rightarrow> database \<Rightarrow> account_name_type" where
  "get_scheduled_witness slot_num db =
     (let current_aslot = (dgp_current_aslot (db_dgp db) + slot_num) mod 2 ^ 64
      in wso_current_shuffled_witnesses (db_schedule db) ! (current_aslot mod wso_num_scheduled_witnesses (db_schedule db)))"

text \<open>Times are counted in unsigned 32-bit seconds, and so are products of a slot number.\<close>

definition get_slot_time :: "nat \<Rightarrow> database \<Rightarrow> time_point_sec" where
  "get_slot_time slot_num db =
     (if slot_num = 0 then 0
      else
        let offset = (int slot_num * STEEMIT_BLOCK_INTERVAL) mod 2 ^ 32 in
        if head_block_num db = 0 then time_plus (dgp_time (db_dgp db)) offset
        else
          let head_block_abs_slot = head_block_time db div STEEMIT_BLOCK_INTERVAL
          in time_plus ((head_block_abs_slot * STEEMIT_BLOCK_INTERVAL) mod 2 ^ 32) offset)"

definition get_slot_at_time :: "time_point_sec \<Rightarrow> database \<Rightarrow> nat" where
  "get_slot_at_time when' db =
     (let first_slot_time = get_slot_time 1 db in
      if when' < first_slot_time then 0
      else nat (((when' - first_slot_time) div STEEMIT_BLOCK_INTERVAL + 1) mod 2 ^ 32))"

definition witness_participation_rate :: "fc_lib \<Rightarrow> database \<Rightarrow> nat" where
  "witness_participation_rate fc db =
     STEEMIT_100_PERCENT * u128_popcount fc (dgp_recent_slots_filled (db_dgp db)) div 128"

section \<open>Checks of a block\<close>

definition to_hex :: "string \<Rightarrow> string" where
  "to_hex bytes = concat (map (\<lambda>c. [''0123456789abcdef'' ! (of_char c div 16), ''0123456789abcdef'' ! (of_char c mod 16)]) bytes)"

definition validate_block_body :: "tx_lib \<Rightarrow> block_codec \<Rightarrow> skip_flags \<Rightarrow> signed_block \<Rightarrow> database \<Rightarrow> unit res" where
  "validate_block_body cr cd skip b db =
     (let merkle_root = calculate_merkle_root (crypto_lib.truncate cr) (map (merkle_digest cr) (sb_transactions b)) in
      bindR (ensure (skips skip skip_merkle_check \<or> bh_transaction_merkle_root b = merkle_root \<or>
               map_option (\<lambda>h. h = to_hex merkle_root) (map_of shared_db_merkle (block_num b)) = Some True)
        (Fc_assert ''Merkle check failed'')) (\<lambda>_.
      ensure (skips skip skip_block_size_check \<or> \<not> has_hardfork 12 db \<or>
              length (pack_block cd b) \<le> dgp_maximum_block_size (db_dgp db)) (Fc_assert ''Block Size is too Big'')))"

definition validate_block_header ::
  "tx_lib \<Rightarrow> skip_flags \<Rightarrow> signed_block \<Rightarrow> database \<Rightarrow> witness_object res" where
  "validate_block_header cr skip b db =
     bindR (ensure (dgp_head_block_id (db_dgp db) = bh_previous b) (Fc_assert ''head_block_id() == next_block.previous'')) (\<lambda>_.
     bindR (ensure (head_block_time db < bh_timestamp b) (Fc_assert ''head_block_time() < next_block.timestamp'')) (\<lambda>_.
     bindR (get_witness (bh_witness b) db) (\<lambda>witness.
     bindR (if skips skip skip_witness_signature then Inr ()
            else bindR (validate_signee (crypto_lib.truncate cr) (signed_block_header.truncate b) (wit_signing_key witness))
              (\<lambda>ok. ensure ok (Fc_assert ''next_block.validate_signee(witness.signing_key)''))) (\<lambda>_.
     bindR (if skips skip skip_witness_schedule_check then Inr ()
            else
              let slot_num = get_slot_at_time (bh_timestamp b) db in
              bindR (ensure (slot_num > 0) (Fc_assert ''slot_num > 0'')) (\<lambda>_.
              ensure (wit_owner witness = get_scheduled_witness slot_num db)
                (Fc_assert ''Witness produced block at wrong time''))) (\<lambda>_.
     Inr witness)))))"

text \<open>What a witness reports in the header of its block.\<close>

fun process_header_extension ::
  "account_name_type \<Rightarrow> block_header_extensions \<Rightarrow> database \<Rightarrow> database res" where
  "process_header_extension n Ext_void db = Inr db"
| "process_header_extension n (Ext_version reported_version) db =
     bindR (get_witness n db) (\<lambda>w. Inr (set_witness (w\<lparr>wit_running_version := reported_version\<rparr>) db))"
| "process_header_extension n (Ext_hardfork_version_vote hfv) db =
     bindR (get_witness n db) (\<lambda>w. Inr (set_witness (w\<lparr>wit_hardfork_version_vote := assign_hardfork (hfv_hf_version hfv),
       wit_hardfork_time_vote := hfv_hf_time hfv\<rparr>) db))"

definition process_header_extensions :: "signed_block \<Rightarrow> database \<Rightarrow> database res" where
  "process_header_extensions b db = foldR (process_header_extension (bh_witness b)) (bh_extensions b) db"

section \<open>Bookkeeping\<close>

text \<open>A witness that missed its slot; after a day without a block its signing key is removed.\<close>

definition long_absent :: "witness_object \<Rightarrow> database \<Rightarrow> bool" where
  "long_absent w db \<longleftrightarrow> has_hardfork 14 db \<and>
     (int (head_block_num db) - int (wit_last_confirmed_block_num w)) mod 2 ^ 64 > int STEEMIT_BLOCKS_PER_DAY"

definition record_miss :: "witness_object \<Rightarrow> database \<Rightarrow> database" where
  "record_miss w db =
     (let w = w\<lparr>wit_total_missed := inc_w 32 (wit_total_missed w)\<rparr> in
      if long_absent w db
      then push_virtual_operation (Shutdown_witness (wit_owner w)) (set_witness (w\<lparr>wit_signing_key := null_public_key\<rparr>) db)
      else set_witness w db)"

definition miss_slot :: "signed_block \<Rightarrow> nat \<Rightarrow> database \<Rightarrow> database res" where
  "miss_slot b i db =
     bindR (get_witness (get_scheduled_witness (i + 1) db) db) (\<lambda>w.
     Inr (if wit_owner w \<noteq> bh_witness b then record_miss w db else db))"

text \<open>One slot enters the record of the last 128 slots; the first one is the slot of the block.\<close>

definition record_slot :: "fc_lib \<Rightarrow> nat \<Rightarrow> dynamic_global_property_object \<Rightarrow> dynamic_global_property_object" where
  "record_slot fc i d =
     (let filled = (if i = 0 then 1 else 0);
          oldest = u128_hi fc (dgp_recent_slots_filled d) div 2 ^ 63 mod 2;
          count = (int (dgp_participation_count d) - oldest) mod 2 ^ 8
      in d\<lparr>dgp_recent_slots_filled := u128_add fc (u128_shl fc (dgp_recent_slots_filled d) 1) (u128_of fc filled),
           dgp_participation_count := nat ((count + filled) mod 2 ^ 8)\<rparr>)"

text \<open>Block sizes and the reserve ratio; unsigned numbers of 32 and 64 bits.\<close>

definition next_average_size :: "nat \<Rightarrow> dynamic_global_property_object \<Rightarrow> nat" where
  "next_average_size block_size d = ((99 * dgp_average_block_size d) mod 2 ^ 32 + block_size) div 100 mod 2 ^ 32"

definition next_reserve_ratio :: "nat \<Rightarrow> database \<Rightarrow> dynamic_global_property_object \<Rightarrow> nat" where
  "next_reserve_ratio average db d =
     (let limit = (if has_hardfork 12 db then dgp_maximum_block_size d div 4 else dgp_maximum_block_size d div 2);
          ratio = dgp_current_reserve_ratio d
      in if dgp_head_block_number d mod 20 = 0
         then let r = (if average > limit then ratio div 2 else inc_w 64 ratio)
              in if has_hardfork 2 db \<and> r > STEEMIT_MAX_RESERVE_RATIO then STEEMIT_MAX_RESERVE_RATIO else r
         else ratio)"

definition virtual_bandwidth :: "nat \<Rightarrow> nat \<Rightarrow> nat" where
  "virtual_bandwidth block_size ratio =
     nat ((int block_size * int ratio * STEEMIT_BANDWIDTH_PRECISION * STEEMIT_BANDWIDTH_AVERAGE_WINDOW_SECONDS) mod 2 ^ 64
       div STEEMIT_BLOCK_INTERVAL)"

definition adjust_reserve :: "nat \<Rightarrow> database \<Rightarrow> dynamic_global_property_object \<Rightarrow> dynamic_global_property_object" where
  "adjust_reserve block_size db d =
     (let average = next_average_size block_size d; ratio = next_reserve_ratio average db d
      in d\<lparr>dgp_average_block_size := average, dgp_current_reserve_ratio := ratio,
           dgp_max_virtual_bandwidth := virtual_bandwidth (dgp_maximum_block_size d) ratio\<rparr>)"

definition missed_slots :: "signed_block \<Rightarrow> database \<Rightarrow> nat" where
  "missed_slots b db =
     (if head_block_time db \<noteq> 0 then dec_w 32 (get_slot_at_time (bh_timestamp b) db) else 0)"

definition advance_head :: "fc_lib \<Rightarrow> tx_lib \<Rightarrow> nat \<Rightarrow> signed_block \<Rightarrow> dynamic_global_property_object \<Rightarrow>
   dynamic_global_property_object" where
  "advance_head fc cr slots b d =
     (fold (record_slot fc) [0..<slots] d)\<lparr>dgp_head_block_number := block_num b,
        dgp_head_block_id := signed_block_id (crypto_lib.truncate cr) b, dgp_time := bh_timestamp b,
        dgp_current_aslot := (dgp_current_aslot d + slots) mod 2 ^ 64\<rparr>"

definition update_global_dynamic_data ::
  "fc_lib \<Rightarrow> tx_lib \<Rightarrow> block_codec \<Rightarrow> skip_flags \<Rightarrow> signed_block \<Rightarrow> database \<Rightarrow> database res" where
  "update_global_dynamic_data fc cr cd skip b db =
     (let missed_blocks = missed_slots b db in
      bindR (foldR (miss_slot b) [0..<missed_blocks] db) (\<lambda>db.
      let dgp = advance_head fc cr ((missed_blocks + 1) mod 2 ^ 32) b (db_dgp db);
          db = db\<lparr>db_dgp := adjust_reserve (length (pack_block cd b)) db dgp\<rparr>
      in bindR (ensure (skips skip skip_undo_history_check \<or>
             nat ((int (head_block_num db) - int (dgp_last_irreversible_block_num (db_dgp db))) mod 2 ^ 32) < STEEMIT_MAX_UNDO_HISTORY)
           (Internal_error ''undo_database_exception'')) (\<lambda>_. Inr db)))"

definition update_signing_witness :: "account_name_type \<Rightarrow> signed_block \<Rightarrow> database \<Rightarrow> database res" where
  "update_signing_witness n b db =
     bindR (get_witness n db) (\<lambda>w.
     Inr (set_witness (w\<lparr>wit_last_aslot := (dgp_current_aslot (db_dgp db) + get_slot_at_time (bh_timestamp b) db) mod 2 ^ 64,
       wit_last_confirmed_block_num := block_num b\<rparr>) db))"

definition create_block_summary :: "tx_lib \<Rightarrow> signed_block \<Rightarrow> chain \<Rightarrow> chain" where
  "create_block_summary cr b c =
     c\<lparr>ch_block_summaries := (ch_block_summaries c)
       (word_of_nat (block_num b) := signed_block_id (crypto_lib.truncate cr) b)\<rparr>"

section \<open>Migration votes\<close>

definition is_transit_enabled :: "database \<Rightarrow> bool" where
  "is_transit_enabled db \<longleftrightarrow> has_hardfork 21 db \<and> dgp_transit_block_num (db_dgp db) \<noteq> 2 ^ 32 - 1"

definition transit_witnesses :: "database \<Rightarrow> account_name_type list res" where
  "transit_witnesses db =
     bindR (scheduled_witnesses db) (\<lambda>ws.
     Inr (map wit_owner (filter (\<lambda>w. wit_schedule w = top19 \<and> wit_transit_to_cyberway_vote w \<noteq> STEEMIT_GENESIS_TIME) ws)))"

text \<open>The last step, which stops the node once the migration block is irreversible, is a callback.\<close>

definition process_transit_to_cyberway :: "signed_block \<Rightarrow> database \<Rightarrow> database res" where
  "process_transit_to_cyberway b db =
     (if \<not> has_hardfork 21 db \<or> is_transit_enabled db then Inr db
      else
        bindR (transit_witnesses db) (\<lambda>ws.
        if length ws \<ge> STEEMIT_TRANSIT_REQUIRED_WITNESSES then
          Inr (db\<lparr>db_dgp := (db_dgp db)\<lparr>dgp_transit_block_num := block_num b,
            dgp_transit_witnesses := ws @ drop (length ws) (dgp_transit_witnesses (db_dgp db))\<rparr>\<rparr>)
        else Inr db))"

section \<open>Irreversible blocks\<close>

definition irreversible_offset :: "nat \<Rightarrow> nat" where
  "irreversible_offset n = (STEEMIT_100_PERCENT - STEEMIT_IRREVERSIBLE_THRESHOLD) * n div STEEMIT_100_PERCENT"

text \<open>
  The number of the block that 75 percent of the scheduled witnesses have built on, limited by the
  node's fixed number and by the migration block.
\<close>

definition new_irreversible :: "nth_element \<Rightarrow> nat \<Rightarrow> database \<Rightarrow> nat res" where
  "new_irreversible nel fixed db =
     (let dpo = db_dgp db in
      if head_block_num db < STEEMIT_START_MINER_VOTING_BLOCK then
        Inr (if head_block_num db > MAX_WITNESSES then head_block_num db - MAX_WITNESSES
             else dgp_last_irreversible_block_num dpo)
      else
        bindR (scheduled_witnesses db) (\<lambda>wit_objs.
        let offset = irreversible_offset (length wit_objs);
            wit_objs = nel (\<lambda>a b. wit_last_confirmed_block_num a < wit_last_confirmed_block_num b) offset wit_objs;
            new_num = min (wit_last_confirmed_block_num (wit_objs ! offset) mod 2 ^ 32) fixed
        in Inr (if new_num > dgp_last_irreversible_block_num dpo then
                  if is_transit_enabled db \<and> dgp_transit_block_num dpo > dgp_last_irreversible_block_num dpo \<and>
                     dgp_transit_block_num dpo \<le> new_num
                  then dgp_transit_block_num dpo else new_num
                else dgp_last_irreversible_block_num dpo)))"

text \<open>The blocks up to a number are copied from the main branch to the log, one by one.\<close>

fun log_blocks :: "crypto_lib \<Rightarrow> block_codec \<Rightarrow> fork_database \<Rightarrow> nat list \<Rightarrow> block_log_impl \<Rightarrow> block_log_impl res option" where
  "log_blocks cr cd fdb [] bl = Some (Inr bl)"
| "log_blocks cr cd fdb (n # ns) bl =
     (case fetch_block_on_main_branch_by_number n fdb of
        None \<Rightarrow> None
      | Some (Inl e) \<Rightarrow> Some (Inl e)
      | Some (Inr None) \<Rightarrow>
          Some (Inl (Fc_assert ''Current fork in the fork database does not contain the last_irreversible_block''))
      | Some (Inr (Some it)) \<Rightarrow>
          case log_append cr cd (fi_data it) bl of
            Inl e \<Rightarrow> Some (Inl e)
          | Inr bl \<Rightarrow> log_blocks cr cd fdb ns bl)"

definition log_head_num :: "block_log_impl \<Rightarrow> nat" where
  "log_head_num bl = (case bl_head bl of None \<Rightarrow> 0 | Some h \<Rightarrow> block_num h)"

definition update_last_irreversible_block :: "node_libs \<Rightarrow> skip_flags \<Rightarrow> node \<Rightarrow> node res option" where
  "update_last_irreversible_block nl skip nd =
     (let db = nd_db nd in
      case new_irreversible (nl_nth_element nl) (nd_fixed_irreversible_block_num nd) db of
        Inl e \<Rightarrow> Some (Inl e)
      | Inr num \<Rightarrow>
          let db = db\<lparr>db_dgp := (db_dgp db)\<lparr>dgp_last_irreversible_block_num := num\<rparr>\<rparr>;
              size = nat ((int (head_block_num db) - int num + 1) mod 2 ^ 32)
          in map_option (\<lambda>r. bindR r (\<lambda>bl. Inr ((set_db db nd)\<lparr>nd_block_log := bl,
                 nd_fork_db := set_max_size size (nd_fork_db nd)\<rparr>)))
               (if skips skip skip_block_log then Some (Inr (nd_block_log nd))
                else log_blocks (crypto_lib.truncate (nl_tx nl)) (nl_codec nl) (nd_fork_db nd)
                       [log_head_num (nd_block_log nd) + 1 ..< num + 1] (nd_block_log nd)))"

section \<open>Application of a block\<close>

text \<open>
  The stages of \<^verbatim>\<open>_apply_block\<close> up to the bookkeeping of the head block. A version is compared with
  the hardfork version as a version.
\<close>

definition check_running_version :: "signed_block \<Rightarrow> hardfork_property_object \<Rightarrow> database \<Rightarrow> unit res" where
  "check_running_version b hpo db =
     (if has_hardfork 5 db then
        bindR (get_witness (bh_witness b) db) (\<lambda>w.
        ensure (v_num (wit_running_version w) \<ge> hv_num (hpo_current_hardfork_version hpo))
          (Fc_assert ''Block produced by witness that is not running current hardfork''))
      else Inr ())"

definition accept_block :: "node_libs \<Rightarrow> node_flags \<Rightarrow> skip_flags \<Rightarrow> signed_block \<Rightarrow> node \<Rightarrow> node res" where
  "accept_block nl nf skip b nd =
     (let db = nd_db nd; fc = nl_fc nl; cr = nl_tx nl; cd = nl_codec nl in
      bindR (validate_block_body cr cd skip b db) (\<lambda>_.
      bindR (validate_block_header cr skip b db) (\<lambda>signing_witness.
      let db = db\<lparr>db_dgp := (db_dgp db)\<lparr>dgp_current_witness := bh_witness b\<rparr>\<rparr> in
      bindR (process_header_extensions b db) (\<lambda>db.
      bindR (check_running_version b (nd_hardforks nd) db) (\<lambda>_.
      bindR (ensure (is_transit_enabled db \<longrightarrow> sb_transactions b = [])
        (Fc_assert ''Migrating to CyberWay disabled accepting blocks with transactions.'')) (\<lambda>_.
      bindR (foldR (apply_transaction fc cr nf skip) (sb_transactions b) ((nd_chain nd)\<lparr>ch_db := db\<rparr>)) (\<lambda>c.
      bindR (update_global_dynamic_data fc cr cd skip b (ch_db c)) (\<lambda>db.
      bindR (update_signing_witness (wit_owner signing_witness) b db) (\<lambda>db.
      Inr (nd\<lparr>nd_chain := c\<lparr>ch_db := db\<rparr>\<rparr>))))))))))"

text \<open>
  The stages from the irreversible block to the schedule of the next round. Expired proposals are
  not part of the state.
\<close>

definition settle_block :: "node_libs \<Rightarrow> signed_block \<Rightarrow> node \<Rightarrow> node res" where
  "settle_block nl b nd =
     (let c = create_block_summary (nl_tx nl) b (nd_chain nd) in
      bindR (if is_transit_enabled (ch_db c) then Inr c
             else
               let c = clear_expired_transactions c in
               bindR (expiry_stages (nl_fc nl) (ch_db c)) (\<lambda>db. Inr (c\<lparr>ch_db := db\<rparr>))) (\<lambda>c.
      bindR (update_witness_schedule (nl_fc nl) (nl_nth_element nl) (nd_hardforks nd) (ch_db c)) (\<lambda>(hpo, db).
      Inr (nd\<lparr>nd_chain := c\<lparr>ch_db := db\<rparr>, nd_hardforks := hpo\<rparr>))))"

definition extend_chain :: "node_libs \<Rightarrow> node_flags \<Rightarrow> skip_flags \<Rightarrow> signed_block \<Rightarrow> node \<Rightarrow> node res option" where
  "extend_chain nl nf skip b nd =
     (case accept_block nl nf skip b nd of
        Inl e \<Rightarrow> Some (Inl e)
      | Inr nd \<Rightarrow> map_option (\<lambda>r. bindR r (settle_block nl b)) (update_last_irreversible_block nl skip nd))"

end
