(* ===== verification/Withdrawal_Termination.thy ===== *)
theory Withdrawal_Termination
  imports Withdrawal_Conservation Funds_Frame
begin

text \<open>
  The loop of the vesting withdrawals ends. A round either ends the withdrawal of its account or
  puts it off by a week, and leaves the dates of all other accounts alone; so the number of
  withdrawals that are due before the head block falls with every round. The bound is
  \<open>withdrawals_due\<close>, one round for every week that an account is behind the clock.
\<close>

section \<open>The withdrawals that are due\<close>

definition rounds_due :: "time_point_sec \<Rightarrow> time_point_sec \<Rightarrow> nat" where
  "rounds_due now t =
     (if t \<le> now then nat ((now - t) div STEEMIT_VESTING_WITHDRAW_INTERVAL_SECONDS) + 1 else 0)"

definition withdrawals_due :: "database \<Rightarrow> nat" where
  "withdrawals_due db = (\<Sum>a\<leftarrow>db_accounts db. rounds_due (head_block_time db) (acc_next_vesting_withdrawal a))"

lemma int_sum_list: "int (\<Sum>x\<leftarrow>xs. f x) = (\<Sum>x\<leftarrow>xs. int (f x))"
  by (induction xs) auto

text \<open>The dates on which accounts withdraw, and the clock they are compared with.\<close>

definition withdraw_dates :: "database \<Rightarrow> (account_name_type \<times> time_point_sec) list \<times> time_point_sec" where
  "withdraw_dates db =
     (map (\<lambda>a. (acc_name a, acc_next_vesting_withdrawal a)) (db_accounts db), head_block_time db)"

lemma withdrawals_due_dates:
  "withdrawals_due db = (\<Sum>(n, t)\<leftarrow>fst (withdraw_dates db). rounds_due (snd (withdraw_dates db)) t)"
  by (simp add: withdrawals_due_def withdraw_dates_def comp_def)

definition dates_kept :: "database \<Rightarrow> database \<Rightarrow> bool" where
  "dates_kept db db' \<longleftrightarrow> withdraw_dates db' = withdraw_dates db \<and> distinct (map acc_name (db_accounts db'))"

lemma dates_kept_names: "dates_kept db db' \<Longrightarrow> distinct (map acc_name (db_accounts db'))"
  by (simp add: dates_kept_def)

lemma dates_kept_frame [simp]:
  "dates_kept db (set_witness w db') = dates_kept db db'"
  "dates_kept db (push_virtual_operation v db') = dates_kept db db'"
  "dgp_time p = dgp_time (db_dgp db') \<Longrightarrow> dates_kept db (db'\<lparr>db_dgp := p\<rparr>) = dates_kept db db'"
  by (simp_all add: dates_kept_def withdraw_dates_def set_witness_def push_virtual_operation_def head_block_time_def)

lemma dates_kept_modify:
  assumes "dates_kept db0 db" "modify_account n f db = Inr db'"
    "\<And>a a'. f a = Inr a' \<Longrightarrow> acc_name a' = acc_name a \<and> acc_next_vesting_withdrawal a' = acc_next_vesting_withdrawal a"
  shows "dates_kept db0 db'"
proof -
  obtain a a' where a: "find_by acc_name n (db_accounts db) = Some a" "f a = Inr a'" "db' = set_account a' db"
    using assms(2) by (auto simp: modify_account_def get_account_Inr)
  note keep = assms(3) [OF a(2)]
  have "acc_next_vesting_withdrawal y = acc_next_vesting_withdrawal a'"
    if "y \<in> set (db_accounts db)" "acc_name y = acc_name a'" for y
    using that keep find_by_Some [OF a(1)] dates_kept_names [OF assms(1)] by (auto simp: distinct_map dest: inj_onD)
  then have "withdraw_dates db' = withdraw_dates db"
    using a(3) by (auto simp: withdraw_dates_def set_account_def upd_by_def head_block_time_def)
  then show ?thesis using assms(1) a(3) by (simp add: dates_kept_def set_account_def)
qed

lemma dates_kept_votes:
  "dates_kept db0 db \<Longrightarrow> adjust_proxied_witness_votes fc levels n delta db = Inr db' \<Longrightarrow> dates_kept db0 db'"
proof (erule adjust_proxied_witness_votes_inv [rotated 2])
  fix n f db db' assume a: "dates_kept db0 db" "modify_account n f db = Inr db'"
    "\<And>a a'. f a = Inr a' \<Longrightarrow> \<exists>v. a' = a\<lparr>acc_proxied_vsf_votes := v\<rparr>"
  show "dates_kept db0 db'" by (rule dates_kept_modify [OF a(1,2)]) (use a(3) in fastforce)
qed simp_all

section \<open>One round\<close>

lemma modify_dates_post:
  assumes "dates_kept db0 db"
    "\<And>a a'. f a = Inr a' \<Longrightarrow> acc_name a' = acc_name a \<and> acc_next_vesting_withdrawal a' = acc_next_vesting_withdrawal a"
    "\<And>db'. dates_kept db0 db' \<Longrightarrow> P db'"
  shows "post P (modify_account n f db)"
  unfolding post_def using dates_kept_modify [OF assms(1) _ assms(2)] assms(3) by blast

lemma votes_dates_post:
  "dates_kept db0 db \<Longrightarrow> (\<And>db'. dates_kept db0 db' \<Longrightarrow> P db') \<Longrightarrow>
   post P (adjust_proxied_witness_votes fc levels n delta db)"
  unfolding post_def using dates_kept_votes by blast

lemmas date_rules = post_states post_if [where 'a = "'c \<times> 'd \<times> database"] post_bind [where 'b = "'c \<times> 'd \<times> database"]
  modify_dates_post votes_dates_post  post_values

lemma route_vests_dates:
  "dates_kept db0 db \<Longrightarrow> post (\<lambda>(dep', db'). dates_kept db0 db') (route_vests fc from w r (dep, db))"
  unfolding route_vests_def by (auto intro!: date_rules)

lemma route_steem_dates:
  "dates_kept db0 db \<Longrightarrow> post (\<lambda>(dep', tc', db'). dates_kept db0 db') (route_steem fc from w r (dep, tc, db))"
  unfolding route_steem_def by (auto intro!: date_rules)

lemma route_vests_loop_dates:
  "foldR (route_vests fc from w) qs (dep, db) = Inr (dep', db') \<Longrightarrow> dates_kept db0 db \<Longrightarrow> dates_kept db0 db'"
proof (induction qs arbitrary: dep db)
  case (Cons q qs)
  then obtain dep1 db1 where run: "route_vests fc from w q (dep, db) = Inr (dep1, db1)"
    "foldR (route_vests fc from w) qs (dep1, db1) = Inr (dep', db')" by auto
  from Cons.IH [OF run(2)] postD [OF route_vests_dates [OF Cons.prems(2)] run(1)] show ?case by simp
qed simp

lemma route_steem_loop_dates:
  "foldR (route_steem fc from w) qs (dep, tc, db) = Inr (dep', tc', db') \<Longrightarrow> dates_kept db0 db \<Longrightarrow> dates_kept db0 db'"
proof (induction qs arbitrary: dep tc db)
  case (Cons q qs)
  then obtain dep1 tc1 db1 where run: "route_steem fc from w q (dep, tc, db) = Inr (dep1, tc1, db1)"
    "foldR (route_steem fc from w) qs (dep1, tc1, db1) = Inr (dep', tc', db')" by auto
  from Cons.IH [OF run(2)] postD [OF route_steem_dates [OF Cons.prems(2)] run(1)] show ?case by simp
qed simp

lemma withdrawn_account_date:
  "withdrawn_account fc h w c a = Inr a' \<Longrightarrow> acc_name a' = acc_name a \<and>
   (acc_next_vesting_withdrawal a' = time_maximum \<or>
    acc_next_vesting_withdrawal a' = time_plus (acc_next_vesting_withdrawal a) STEEMIT_VESTING_WITHDRAW_INTERVAL_SECONDS)"
  by (auto simp: withdrawn_account_def Let_def)

text \<open>
  The clock is more than a week before the last date a 32-bit time can hold (in the year 2106), so
  that the next date of a withdrawal does not wrap around.
\<close>

definition withdraw_clock_ok :: "database \<Rightarrow> bool" where
  "withdraw_clock_ok db \<longleftrightarrow> head_block_time db + STEEMIT_VESTING_WITHDRAW_INTERVAL_SECONDS < 2 ^ 32 \<and>
     (\<forall>a \<in> set (db_accounts db). 0 \<le> acc_next_vesting_withdrawal a)"

lemma later_date:
  assumes "t \<le> now" "now + STEEMIT_VESTING_WITHDRAW_INTERVAL_SECONDS < 2 ^ 32" "0 \<le> t"
    "t' = time_maximum \<or> t' = time_plus t STEEMIT_VESTING_WITHDRAW_INTERVAL_SECONDS"
  shows "rounds_due now t' < rounds_due now t \<and> 0 \<le> t'"
proof -
  have "t' = time_maximum \<or> t' = t + STEEMIT_VESTING_WITHDRAW_INTERVAL_SECONDS"
    using assms by (auto simp: time_plus_def STEEMIT_VESTING_WITHDRAW_INTERVAL_SECONDS_def)
  then show ?thesis
    using assms(1-3) by (auto simp: rounds_due_def time_maximum_def STEEMIT_VESTING_WITHDRAW_INTERVAL_SECONDS_def)
qed

lemma dates_kept_clock: "dates_kept db db' \<Longrightarrow> withdraw_clock_ok db' = withdraw_clock_ok db"
proof -
  have "withdraw_clock_ok d \<longleftrightarrow> snd (withdraw_dates d) + STEEMIT_VESTING_WITHDRAW_INTERVAL_SECONDS < 2 ^ 32 \<and>
      (\<forall>p \<in> set (fst (withdraw_dates d)). 0 \<le> snd p)" for d
    by (simp add: withdraw_clock_ok_def withdraw_dates_def)
  then show "dates_kept db db' \<Longrightarrow> withdraw_clock_ok db' = withdraw_clock_ok db" by (simp add: dates_kept_def)
qed

lemma dates_kept_due: "dates_kept db db' \<Longrightarrow> withdrawals_due db' = withdrawals_due db"
  by (simp add: dates_kept_def withdrawals_due_dates)

lemma dates_kept_account:
  assumes "dates_kept db db'" "get_account n db = Inr a" "get_account n db' = Inr a'"
  shows "acc_next_vesting_withdrawal a' = acc_next_vesting_withdrawal a"
proof -
  have dates: "get_account n d = Inr x \<Longrightarrow> (n, acc_next_vesting_withdrawal x) \<in> set (fst (withdraw_dates d))" for d x
    by (force simp: withdraw_dates_def get_account_Inr dest: find_by_Some)
  have "(n, acc_next_vesting_withdrawal a) \<in> set (fst (withdraw_dates db'))"
    using dates [OF assms(2)] conjunct1 [OF assms(1) [unfolded dates_kept_def]] by simp
  moreover have "distinct (map fst (fst (withdraw_dates db')))"
    using dates_kept_names [OF assms(1)] by (simp add: withdraw_dates_def comp_def)
  ultimately show ?thesis using dates [OF assms(3)] by (meson eq_key_imp_eq_value)
qed

text \<open>The step that moves the date of an account that is due.\<close>

lemma withdrawn_account_due:
  assumes "distinct (map acc_name (db_accounts db))" "withdraw_clock_ok db" "get_account n db = Inr a"
    "acc_next_vesting_withdrawal a \<le> head_block_time db" "modify_account n (withdrawn_account fc h w c) db = Inr db'"
  shows "withdrawals_due db' < withdrawals_due db \<and> withdraw_clock_ok db' \<and> dates_kept db' db'"
proof -
  let ?now = "head_block_time db"
  obtain a' where a': "withdrawn_account fc h w c a = Inr a'" "db' = set_account a' db"
    using assms(3,5) by (auto simp: modify_account_def)
  have a: "find_by acc_name n (db_accounts db) = Some a" using assms(3) by (simp add: get_account_Inr)
  then have in_db: "a \<in> set (db_accounts db)" "acc_name a = n" by (auto dest: find_by_Some)
  note date = withdrawn_account_date [OF a'(1)]
  have later: "rounds_due ?now (acc_next_vesting_withdrawal a') < rounds_due ?now (acc_next_vesting_withdrawal a)"
    "0 \<le> acc_next_vesting_withdrawal a'"
    using later_date [OF assms(4), of "acc_next_vesting_withdrawal a'"] date assms(2) in_db(1)
    by (auto simp: withdraw_clock_ok_def)
  have now: "head_block_time db' = ?now" using a'(2) by (simp add: set_account_def head_block_time_def)
  have find: "find_by acc_name (acc_name a') (db_accounts db) = Some a" using date a in_db by simp
  have "int (withdrawals_due db') = (\<Sum>z\<leftarrow>upd_by acc_name a' (db_accounts db). int (rounds_due ?now (acc_next_vesting_withdrawal z)))"
    using now a'(2) by (simp add: withdrawals_due_def set_account_def int_sum_list)
  also have "\<dots> = int (withdrawals_due db) - int (rounds_due ?now (acc_next_vesting_withdrawal a)) +
      int (rounds_due ?now (acc_next_vesting_withdrawal a'))"
    by (simp add: sum_upd_by [OF assms(1) find] withdrawals_due_def int_sum_list)
  finally have "withdrawals_due db' < withdrawals_due db" using later(1) by linarith
  moreover have "withdraw_clock_ok db'"
    using assms(2) later(2) now a'(2) by (auto simp: withdraw_clock_ok_def set_account_def dest!: set_upd_by)
  moreover have "dates_kept db' db'" using assms(1) a'(2) by (simp add: dates_kept_def set_account_def)
  ultimately show ?thesis by blast
qed

lemma withdraw_vesting_of_due:
  assumes "distinct (map acc_name (db_accounts db))" "withdraw_clock_ok db" "get_account n db = Inr a"
    "acc_next_vesting_withdrawal a \<le> head_block_time db" "withdraw_vesting_of fc n db = Inr db'"
  shows "withdrawals_due db' < withdrawals_due db \<and> withdraw_clock_ok db' \<and> distinct (map acc_name (db_accounts db'))"
proof -
  have refl: "dates_kept db db" using assms(1) by (simp add: dates_kept_def)
  obtain w P Q c db3 fund shares neg db4 v where r:
    "foldR (route_vests fc n w) (routes_of (acc_id a) db) (0, db) = Inr P"
    "foldR (route_steem fc n w) (routes_of (acc_id a) (snd P)) (0, \<lparr>amount = 0, symbol = STEEM_SYMBOL\<rparr>, snd P) = Inr Q"
    "modify_account n (withdrawn_account fc (has_hardfork 19 (snd (snd Q))) w c) (snd (snd Q)) = Inr db3"
    "let db = db3\<lparr>db_dgp := (db_dgp db3)\<lparr>dgp_total_vesting_fund_steem := fund,
       dgp_total_vesting_shares := (dgp_total_vesting_shares (db_dgp db3))\<lparr>amount := shares\<rparr>\<rparr>\<rparr> in
     db' = db \<or> adjust_proxied_witness_votes fc STEEMIT_MAX_PROXY_RECURSION_DEPTH n neg db = Inr db4 \<and>
       db' = push_virtual_operation v db4"
    using assms(5) unfolding withdraw_vesting_of_def Let_def assms(3) bindR_Inr bindR_eq_Inr case_prod_beta if_eq_Inr sum.inject
    by metis
  define db1 db2 where "db1 = snd P" and "db2 = snd (snd Q)"
  define p where "p = (db_dgp db3)\<lparr>dgp_total_vesting_fund_steem := fund,
       dgp_total_vesting_shares := (dgp_total_vesting_shares (db_dgp db3))\<lparr>amount := shares\<rparr>\<rparr>"
  have run: "foldR (route_vests fc n w) (routes_of (acc_id a) db) (0, db) = Inr (fst P, db1)"
    "foldR (route_steem fc n w) (routes_of (acc_id a) db1) (0, \<lparr>amount = 0, symbol = STEEM_SYMBOL\<rparr>, db1) =
      Inr (fst Q, fst (snd Q), db2)"
    "modify_account n (withdrawn_account fc (has_hardfork 19 db2) w c) db2 = Inr db3"
    "dgp_time p = dgp_time (db_dgp db3)"
    "db' = db3\<lparr>db_dgp := p\<rparr> \<or>
     adjust_proxied_witness_votes fc STEEMIT_MAX_PROXY_RECURSION_DEPTH n neg (db3\<lparr>db_dgp := p\<rparr>) = Inr db4 \<and>
       db' = push_virtual_operation v db4"
    using r by (simp_all add: db1_def db2_def p_def Let_def)
  have kept: "dates_kept db db2" by (rule route_steem_loop_dates [OF run(2) route_vests_loop_dates [OF run(1) refl]])
  obtain b where b: "get_account n db2 = Inr b" using run(3) by (auto simp: modify_account_def)
  have "acc_next_vesting_withdrawal b \<le> head_block_time db2"
    using dates_kept_account [OF kept assms(3) b] kept assms(4) by (simp add: dates_kept_def withdraw_dates_def)
  note round = withdrawn_account_due [OF dates_kept_names [OF kept] _ b this run(3)]
  have "dates_kept db3 (db3\<lparr>db_dgp := p\<rparr>)" using round run(4) kept assms(2) dates_kept_clock by simp
  then have "dates_kept db3 db'" using run(5) dates_kept_votes by auto
  then show ?thesis
    using round kept assms(2) dates_kept_clock dates_kept_due dates_kept_names by simp
qed

section \<open>The loop\<close>

lemma withdrawal_loop_ends:
  "distinct (map acc_name (db_accounts db)) \<Longrightarrow> withdraw_clock_ok db \<Longrightarrow> withdrawals_due db < rounds \<Longrightarrow>
   \<exists>r. withdrawal_loop fc rounds n db = Some r"
proof (induction fc rounds n db rule: withdrawal_loop.induct)
  case (3 fc rounds n db)
  show ?case
  proof (cases "get_account n db")
    case (Inr a)
    show ?thesis
    proof (cases "acc_next_vesting_withdrawal a \<le> head_block_time db")
      case True
      show ?thesis
      proof (cases "withdraw_vesting_of fc n db")
        case (Inr db')
        note due = withdraw_vesting_of_due [OF "3.prems"(1,2) \<open>get_account n db = Inr a\<close> True Inr]
        then have "\<exists>r. withdrawal_loop fc rounds (next_in_queue n db) db' = Some r"
          using "3.prems"(3) by (intro "3.IH" [OF \<open>get_account n db = Inr a\<close> True Inr]) auto
        then show ?thesis using Inr \<open>get_account n db = Inr a\<close> True by simp
      qed (use Inr True in simp)
    qed (use Inr in simp)
  qed simp
qed simp_all

lemma withdrawal_loop_more:
  "withdrawal_loop fc k n db = Some r \<Longrightarrow> k \<le> m \<Longrightarrow> withdrawal_loop fc m n db = Some r"
proof (induction fc k n db arbitrary: m rule: withdrawal_loop.induct)
  case (3 fc k n db)
  then obtain m' where "m = Suc m'" "k \<le> m'" by (cases m) auto
  with 3 show ?case by (auto split: sum.splits if_splits)
qed simp_all

text \<open>The loop has one outcome, which every bound above the withdrawals that are due reaches.\<close>

lemma process_vesting_withdrawals_ends:
  assumes "ledger_ok db" "withdraw_clock_ok db"
  obtains r where "\<And>rounds. withdrawals_due db < rounds \<Longrightarrow> process_vesting_withdrawals fc rounds db = Some r"
proof -
  have "\<exists>r. process_vesting_withdrawals fc (Suc (withdrawals_due db)) db = Some r"
    unfolding process_vesting_withdrawals_def using assms by (intro withdrawal_loop_ends) (auto simp: ledger_ok_def)
  then show ?thesis
    using that withdrawal_loop_more unfolding process_vesting_withdrawals_def by (metis Suc_leI)
qed

end
