(* ===== verification/Supply_Check.thy ===== *)
theory Supply_Check
  imports Ledger
begin

text \<open>
  The supply part of \<^verbatim>\<open>database::validate_invariants\<close>: the loops that add up what accounts and
  pending objects hold, with the checked arithmetic of the code, and the comparison with the
  global properties. The check of the comments' reward shares is left aside. It passes only on
  states whose gaps are zero.
\<close>

section \<open>The loops\<close>

record totals =
  tot_supply :: asset
  tot_sbd :: asset
  tot_vesting :: asset
  tot_vsf_votes :: int

definition add_supply :: "fc_lib \<Rightarrow> asset \<Rightarrow> totals \<Rightarrow> totals res" where
  "add_supply fc a t = bindR (asset_add fc (tot_supply t) a) (\<lambda>s. Inr (t\<lparr>tot_supply := s\<rparr>))"

definition add_sbd :: "fc_lib \<Rightarrow> asset \<Rightarrow> totals \<Rightarrow> totals res" where
  "add_sbd fc a t = bindR (asset_add fc (tot_sbd t) a) (\<lambda>s. Inr (t\<lparr>tot_sbd := s\<rparr>))"

definition counted_votes :: "fc_lib \<Rightarrow> account_object \<Rightarrow> int res" where
  "counted_votes fc a =
     (if acc_proxy a = STEEMIT_PROXY_TO_SELF_ACCOUNT then witness_vote_weight fc a
      else Inr (if STEEMIT_MAX_PROXY_RECURSION_DEPTH > 0
        then acc_proxied_vsf_votes a ! (STEEMIT_MAX_PROXY_RECURSION_DEPTH - 1)
        else amount (acc_vesting_shares a)))"

definition add_account_totals :: "fc_lib \<Rightarrow> account_object \<Rightarrow> totals \<Rightarrow> totals res" where
  "add_account_totals fc a t =
     bindR (add_supply fc (acc_balance a) t) (\<lambda>t.
     bindR (add_supply fc (acc_savings_balance a) t) (\<lambda>t.
     bindR (add_sbd fc (acc_sbd_balance a) t) (\<lambda>t.
     bindR (add_sbd fc (acc_savings_sbd_balance a) t) (\<lambda>t.
     bindR (asset_add fc (tot_vesting t) (acc_vesting_shares a)) (\<lambda>v.
     bindR (counted_votes fc a) (\<lambda>w.
     bindR (safe_add fc (tot_vsf_votes t) w) (\<lambda>votes.
     Inr (t\<lparr>tot_vesting := v, tot_vsf_votes := votes\<rparr>))))))))"

text \<open>An amount whose symbol decides which total it enters.\<close>

definition add_by_symbol :: "fc_lib \<Rightarrow> string \<Rightarrow> asset \<Rightarrow> totals \<Rightarrow> totals res" where
  "add_by_symbol fc msg a t =
     (if symbol a = STEEM_SYMBOL then add_supply fc a t
      else if symbol a = SBD_SYMBOL then add_sbd fc a t
      else Inl (Fc_assert msg))"

definition add_convert_totals :: "fc_lib \<Rightarrow> convert_request_object \<Rightarrow> totals \<Rightarrow> totals res" where
  "add_convert_totals fc c t =
     add_by_symbol fc ''Encountered illegal symbol in convert_request_object'' (cvt_amount c) t"

definition add_order_totals :: "fc_lib \<Rightarrow> limit_order_object \<Rightarrow> totals \<Rightarrow> totals res" where
  "add_order_totals fc o' t =
     (let s = symbol (base (ord_sell_price o')) in
      if s = STEEM_SYMBOL then add_supply fc \<lparr>amount = ord_for_sale o', symbol = STEEM_SYMBOL\<rparr> t
      else if s = SBD_SYMBOL then add_sbd fc \<lparr>amount = ord_for_sale o', symbol = SBD_SYMBOL\<rparr> t
      else Inr t)"

definition add_escrow_totals :: "fc_lib \<Rightarrow> escrow_object \<Rightarrow> totals \<Rightarrow> totals res" where
  "add_escrow_totals fc e t =
     bindR (add_supply fc (esc_steem_balance e) t) (\<lambda>t.
     bindR (add_sbd fc (esc_sbd_balance e) t) (\<lambda>t.
     add_by_symbol fc ''found escrow pending fee that is not SBD or STEEM'' (esc_pending_fee e) t))"

definition add_savings_totals :: "fc_lib \<Rightarrow> savings_withdraw_object \<Rightarrow> totals \<Rightarrow> totals res" where
  "add_savings_totals fc w t =
     add_by_symbol fc ''found savings withdraw that is not SBD or STEEM'' (swo_amount w) t"

definition count_totals :: "fc_lib \<Rightarrow> database \<Rightarrow> totals res" where
  "count_totals fc db =
     bindR (foldR (add_account_totals fc) (db_accounts db)
       \<lparr>tot_supply = \<lparr>amount = 0, symbol = STEEM_SYMBOL\<rparr>, tot_sbd = \<lparr>amount = 0, symbol = SBD_SYMBOL\<rparr>,
        tot_vesting = \<lparr>amount = 0, symbol = VESTS_SYMBOL\<rparr>, tot_vsf_votes = 0\<rparr>) (\<lambda>t.
     bindR (foldR (add_convert_totals fc) (db_converts db) t) (\<lambda>t.
     bindR (foldR (add_order_totals fc) (db_orders db) t) (\<lambda>t.
     bindR (foldR (add_escrow_totals fc) (db_escrows db) t) (\<lambda>t.
     foldR (add_savings_totals fc) (db_savings db) t))))"

definition assert_eq :: "bool res \<Rightarrow> string \<Rightarrow> unit res" where
  "assert_eq c msg = bindR c (\<lambda>b. ensure b (Fc_assert msg))"

definition validate_supply :: "fc_lib \<Rightarrow> database \<Rightarrow> unit res" where
  "validate_supply fc db =
     (let gpo = db_dgp db; median = fho_current_median_history (db_feed db) in
      bindR (ensure (\<forall>w \<in> set (db_witnesses db). wit_votes w < amount (dgp_total_vesting_shares gpo))
        (Fc_assert ''itr->votes < gpo.total_vesting_shares.amount'')) (\<lambda>_.
      bindR (count_totals fc db) (\<lambda>t.
      bindR (asset_add fc (dgp_total_vesting_fund_steem gpo) (dgp_total_reward_fund_steem gpo)) (\<lambda>funds.
      bindR (add_supply fc funds t) (\<lambda>t. seqR
        [assert_eq (asset_eq (dgp_current_supply gpo) (tot_supply t)) ''gpo.current_supply == total_supply'',
         assert_eq (asset_eq (dgp_current_sbd_supply gpo) (tot_sbd t)) ''gpo.current_sbd_supply == total_sbd'',
         assert_eq (asset_eq (dgp_total_vesting_shares gpo) (tot_vesting t)) ''gpo.total_vesting_shares == total_vesting'',
         ensure (amount (dgp_total_vesting_shares gpo) = tot_vsf_votes t)
           (Fc_assert ''gpo.total_vesting_shares.amount == total_vsf_votes''),
         assert_eq (asset_ge (dgp_virtual_supply gpo) (dgp_current_supply gpo)) ''gpo.virtual_supply >= gpo.current_supply'',
         (if \<not> price_is_null fc median then
            bindR (asset_mul_price fc (dgp_current_sbd_supply gpo) median) (\<lambda>v.
            bindR (asset_add fc v (dgp_current_supply gpo)) (\<lambda>v.
            assert_eq (asset_eq v (dgp_virtual_supply gpo)) ''gpo.virtual_supply''))
          else Inr ())])))))"

section \<open>What a passed check shows\<close>

text \<open>\<open>grew t t' s g v\<close>: the totals grew by \<open>s\<close> GOLOS, \<open>g\<close> GBG and \<open>v\<close> vesting shares.\<close>

definition grew :: "totals \<Rightarrow> totals \<Rightarrow> int \<Rightarrow> int \<Rightarrow> int \<Rightarrow> bool" where
  "grew t t' s g v \<longleftrightarrow> amount (tot_supply t') = amount (tot_supply t) + s \<and>
     amount (tot_sbd t') = amount (tot_sbd t) + g \<and> amount (tot_vesting t') = amount (tot_vesting t) + v"

lemma add_supply_grew: "fc_safe fc \<Longrightarrow> add_supply fc a t = Inr t' \<Longrightarrow> grew t t' (amount a) 0 0"
  by (auto simp: add_supply_def fc_simps grew_def)

lemma add_sbd_grew: "fc_safe fc \<Longrightarrow> add_sbd fc a t = Inr t' \<Longrightarrow> grew t t' 0 (amount a) 0"
  by (auto simp: add_sbd_def fc_simps grew_def)

lemma grew_trans: "grew t t1 s g v \<Longrightarrow> grew t1 t2 s' g' v' \<Longrightarrow> grew t t2 (s + s') (g + g') (v + v')"
  by (simp add: grew_def)

lemma add_account_totals_grew:
  "fc_safe fc \<Longrightarrow> add_account_totals fc a t = Inr t' \<Longrightarrow> grew t t' (account_steem a) (account_sbd a) (account_vests a)"
  by (auto simp: add_account_totals_def fc_simps account_steem_def account_sbd_def account_vests_def grew_def
      add_supply_def add_sbd_def)

lemma add_by_symbol_grew:
  "fc_safe fc \<Longrightarrow> add_by_symbol fc m a t = Inr t' \<Longrightarrow> grew t t' (amt STEEM_SYMBOL a) (amt SBD_SYMBOL a) 0"
  using add_supply_grew add_sbd_grew by (fastforce simp: add_by_symbol_def amt_def split: if_splits)

lemma add_order_totals_grew:
  "fc_safe fc \<Longrightarrow> add_order_totals fc o' t = Inr t' \<Longrightarrow>
   grew t t' (amt STEEM_SYMBOL (amount_for_sale o')) (amt SBD_SYMBOL (amount_for_sale o')) 0"
  using add_supply_grew add_sbd_grew
  by (fastforce simp: add_order_totals_def amount_for_sale_def amt_def grew_def Let_def split: if_splits)

lemma add_escrow_totals_grew:
  assumes "fc_safe fc" "escrow_ok e" "add_escrow_totals fc e t = Inr t'"
  shows "grew t t' (escrow_holds STEEM_SYMBOL e) (escrow_holds SBD_SYMBOL e) 0"
proof -
  obtain t1 t2 where run: "add_supply fc (esc_steem_balance e) t = Inr t1" "add_sbd fc (esc_sbd_balance e) t1 = Inr t2"
    "add_by_symbol fc ''found escrow pending fee that is not SBD or STEEM'' (esc_pending_fee e) t2 = Inr t'"
    using assms(3) by (auto simp: add_escrow_totals_def)
  note g = add_supply_grew [OF assms(1) run(1)] add_sbd_grew [OF assms(1) run(2)] add_by_symbol_grew [OF assms(1) run(3)]
  from grew_trans [OF grew_trans [OF g(1,2)] g(3)] assms(2) show ?thesis
    by (simp add: escrow_ok_def escrow_holds_def amt_def)
qed

lemma foldR_grew:
  assumes "\<And>x t t'. x \<in> set xs \<Longrightarrow> f x t = Inr t' \<Longrightarrow> grew t t' (s x) (g x) (v x)"
  shows "foldR f xs t = Inr t' \<Longrightarrow> grew t t' (\<Sum>x\<leftarrow>xs. s x) (\<Sum>x\<leftarrow>xs. g x) (\<Sum>x\<leftarrow>xs. v x)"
  using assms
proof (induction xs arbitrary: t)
  case (Cons x xs)
  then obtain t1 where run: "f x t = Inr t1" "foldR f xs t1 = Inr t'" by auto
  have "grew t t1 (s x) (g x) (v x)" using Cons.prems(2) run(1) by simp
  from grew_trans [OF this Cons.IH [OF run(2)]] Cons.prems(2) show ?case by simp
qed (simp add: grew_def)

lemma count_totals_exact:
  assumes "fc_safe fc" "ledger_ok db" "count_totals fc db = Inr t"
  shows "amount (tot_supply t) = (\<Sum>a\<leftarrow>db_accounts db. account_steem a) + held STEEM_SYMBOL db"
    "amount (tot_sbd t) = (\<Sum>a\<leftarrow>db_accounts db. account_sbd a) + held SBD_SYMBOL db"
    "amount (tot_vesting t) = (\<Sum>a\<leftarrow>db_accounts db. account_vests a)"
proof -
  obtain t1 t2 t3 t4 where run: "foldR (add_account_totals fc) (db_accounts db)
       \<lparr>tot_supply = \<lparr>amount = 0, symbol = STEEM_SYMBOL\<rparr>, tot_sbd = \<lparr>amount = 0, symbol = SBD_SYMBOL\<rparr>,
        tot_vesting = \<lparr>amount = 0, symbol = VESTS_SYMBOL\<rparr>, tot_vsf_votes = 0\<rparr> = Inr t1"
    "foldR (add_convert_totals fc) (db_converts db) t1 = Inr t2" "foldR (add_order_totals fc) (db_orders db) t2 = Inr t3"
    "foldR (add_escrow_totals fc) (db_escrows db) t3 = Inr t4" "foldR (add_savings_totals fc) (db_savings db) t4 = Inr t"
    using assms(3) by (auto simp: count_totals_def)
  note g = foldR_grew [OF add_account_totals_grew [OF assms(1)] run(1)]
    foldR_grew [OF add_by_symbol_grew [OF assms(1)] run(2) [unfolded add_convert_totals_def]]
    foldR_grew [OF add_order_totals_grew [OF assms(1)] run(3)]
    foldR_grew [OF add_by_symbol_grew [OF assms(1)] run(5) [unfolded add_savings_totals_def]]
  have "grew t3 t4 (\<Sum>e\<leftarrow>db_escrows db. escrow_holds STEEM_SYMBOL e) (\<Sum>e\<leftarrow>db_escrows db. escrow_holds SBD_SYMBOL e)
      (\<Sum>e\<leftarrow>db_escrows db. 0)"
    by (rule foldR_grew [OF add_escrow_totals_grew [OF assms(1)] run(4)]) (use assms(2) in \<open>auto simp: ledger_ok_def\<close>)
  with g show "amount (tot_supply t) = (\<Sum>a\<leftarrow>db_accounts db. account_steem a) + held STEEM_SYMBOL db"
    "amount (tot_sbd t) = (\<Sum>a\<leftarrow>db_accounts db. account_sbd a) + held SBD_SYMBOL db"
    "amount (tot_vesting t) = (\<Sum>a\<leftarrow>db_accounts db. account_vests a)"
    by (simp_all add: grew_def held_def)
qed

lemma validate_supply_gaps:
  assumes "fc_safe fc" "ledger_ok db" "validate_supply fc db = Inr ()"
  shows "gaps db = (0, 0, 0)"
proof -
  obtain t funds t' where run: "count_totals fc db = Inr t"
    "asset_add fc (dgp_total_vesting_fund_steem (db_dgp db)) (dgp_total_reward_fund_steem (db_dgp db)) = Inr funds"
    "add_supply fc funds t = Inr t'"
    "asset_eq (dgp_current_supply (db_dgp db)) (tot_supply t') = Inr True"
    "asset_eq (dgp_current_sbd_supply (db_dgp db)) (tot_sbd t') = Inr True"
    "asset_eq (dgp_total_vesting_shares (db_dgp db)) (tot_vesting t') = Inr True"
    using assms(3) by (auto simp: validate_supply_def Let_def assert_eq_def)
  show ?thesis
    using count_totals_exact [OF assms(1,2) run(1)] add_supply_grew [OF assms(1) run(3)] run(2,4-6) assms(1)
    by (auto simp: fc_simps grew_def gaps_def gap_steem_def gap_sbd_def gap_vests_def)
qed

end
