(* ===== verification/Authority_Properties.thy ===== *)
theory Authority_Properties
  imports Authority
begin

text \<open>
  The properties of \<open>Authority\<close>: the name check against the grammar documented in
  \<^verbatim>\<open>authority.hpp\<close>, and the authority check against the meaning of an authority.
\<close>

section \<open>Account names and their grammar\<close>

text \<open>The grammar: a name is a sequence of labels separated by dots.\<close>

function name_labels :: "string \<Rightarrow> string list" where
  "name_labels s =
     (case dropWhile (\<lambda>c. c \<noteq> CHR ''.'') s of
        [] \<Rightarrow> [s]
      | _ # rest \<Rightarrow> takeWhile (\<lambda>c. c \<noteq> CHR ''.'') s # name_labels rest)"
  by pat_completeness auto

termination
proof (relation "measure length")
  fix s rest :: string and x
  assume "dropWhile (\<lambda>c. c \<noteq> CHR ''.'') s = x # rest"
  then have "length (x # rest) \<le> length s"
    by (metis length_dropWhile_le)
  then show "(rest, s) \<in> measure length" by simp
qed simp

declare name_labels.simps [simp del]

definition let_dig :: "char \<Rightarrow> bool" where
  "let_dig c \<longleftrightarrow> is_letter c \<or> is_digit c"

definition name_label :: "string \<Rightarrow> bool" where
  "name_label l \<longleftrightarrow> 3 \<le> length l \<and> is_letter (hd l) \<and> let_dig (last l) \<and>
     (\<forall>c \<in> set l. let_dig c \<or> c = CHR ''-'')"

lemma find_dot_label:
  assumes "start \<le> length name"
  shows "find_dot name start = start + length (takeWhile (\<lambda>c. c \<noteq> CHR ''.'') (drop start name))"
proof (cases "CHR ''.'' \<in> set (drop start name)")
  case False
  then have "takeWhile (\<lambda>c. c \<noteq> CHR ''.'') (drop start name) = drop start name"
    by (subst takeWhile_eq_all_conv) auto
  from arg_cong [OF this, of length] False assms show ?thesis by (simp add: find_dot_def)
qed (simp add: find_dot_def)

text \<open>The four checks of one round of the loop are those of a label.\<close>

lemma name_label_checks:
  assumes "l = take n (drop start name)" "start + n \<le> length name" "fin = start + n"
  shows "name_label l \<longleftrightarrow> 3 \<le> n \<and> is_letter (name ! start) \<and> let_dig (name ! (fin - 1)) \<and>
    list_all (\<lambda>i. let_dig (name ! i) \<or> name ! i = CHR ''-'') [start + 1..<fin - 1]"
proof (cases "3 \<le> n")
  case True
  then have len: "length l = n" and ne: "l \<noteq> []" using assms by auto
  have nth: "l ! i = name ! (start + i)" if "i < n" for i using that assms by simp
  have hd: "hd l = name ! start" using ne nth [of 0] True by (simp add: hd_conv_nth)
  have lst: "last l = name ! (fin - 1)"
    using ne nth [of "n - 1"] True assms(3) by (simp add: last_conv_nth len)
  let ?ok = "\<lambda>c. let_dig c \<or> c = CHR ''-''"
  have "(\<forall>c \<in> set l. ?ok c) \<longleftrightarrow> (\<forall>i < n. ?ok (name ! (start + i)))"
    using nth len by (auto simp: all_set_conv_all_nth)
  also have "\<dots> \<longleftrightarrow> (\<forall>j. start \<le> j \<and> j < fin \<longrightarrow> ?ok (name ! j))"
    unfolding assms(3) by (metis add_less_cancel_left le_add1 le_Suc_ex)
  finally have mid: "(\<forall>c \<in> set l. ?ok c) \<longleftrightarrow> (\<forall>j. start \<le> j \<and> j < fin \<longrightarrow> ?ok (name ! j))" .
  have "name_label l \<longleftrightarrow> is_letter (name ! start) \<and> let_dig (name ! (fin - 1)) \<and>
      (\<forall>j. start < j \<and> j < fin - 1 \<longrightarrow> ?ok (name ! j))"
  proof -
    have split: "start \<le> j \<and> j < fin \<longleftrightarrow> j = start \<or> start < j \<and> j < fin - 1 \<or> j = fin - 1" for j
      using True assms(3) by auto
    have all: "(\<forall>j. start \<le> j \<and> j < fin \<longrightarrow> ?ok (name ! j)) \<longleftrightarrow> ?ok (name ! start) \<and>
        (\<forall>j. start < j \<and> j < fin - 1 \<longrightarrow> ?ok (name ! j)) \<and> ?ok (name ! (fin - 1))"
      by (simp only: split imp_disjL all_conj_distrib simp_thms)
    have "is_letter (name ! start) \<Longrightarrow> let_dig (name ! start)" by (simp add: let_dig_def)
    with True show ?thesis unfolding name_label_def mid all hd lst len by argo
  qed
  then show ?thesis using True by (simp add: list_all_iff Ball_def Suc_le_eq)
next
  case False
  then show ?thesis using assms by (simp add: name_label_def)
qed

lemma name_loop_labels:
  "start \<le> length name \<Longrightarrow>
   name_loop name start \<longleftrightarrow> list_all name_label (name_labels (drop start name))"
proof (induction name start rule: name_loop.induct)
  case (1 name start)
  let ?rest = "drop start name"
  let ?n = "length (takeWhile (\<lambda>c. c \<noteq> CHR ''.'') ?rest)"
  let ?l = "takeWhile (\<lambda>c. c \<noteq> CHR ''.'') ?rest"
  let ?fin = "find_dot name start"
  have fin: "?fin = start + ?n" using 1(2) by (rule find_dot_label)
  have n: "start + ?n \<le> length name" using find_dot_le [OF 1(2)] fin by simp
  have l: "?l = take ?n ?rest" by (metis takeWhile_eq_take)
  note checks = name_label_checks [OF l n fin]
  have rest: "dropWhile (\<lambda>c. c \<noteq> CHR ''.'') ?rest = drop ?fin name"
    by (simp add: fin dropWhile_eq_drop add.commute)
  show ?case
  proof (cases "?fin = length name")
    case True
    then have nil: "dropWhile (\<lambda>c. c \<noteq> CHR ''.'') ?rest = []" using rest by simp
    then have "name_labels ?rest = [?rest]" by (subst name_labels.simps) (simp only: list.case)
    moreover have "?l = ?rest"
      using nil by (subst takeWhile_eq_all_conv) (simp only: dropWhile_eq_Nil_conv)
    ultimately have "name_labels ?rest = [?l]" by (simp only:)
    then show ?thesis
      using checks True
      by (subst name_loop.simps) (auto simp: let_dig_def list_all_iff fin Let_def)
  next
    case False
    then have lt: "?fin < length name" using n fin by simp
    then have "name_labels ?rest = ?l # name_labels (drop (?fin + 1) name)"
      using rest by (simp add: name_labels.simps [of ?rest] Cons_nth_drop_Suc [symmetric])
    moreover have "name_loop name start \<longleftrightarrow> name_label ?l \<and> name_loop name (?fin + 1)"
      using checks False lt
      by (subst name_loop.simps) (auto simp: let_dig_def list_all_iff fin Let_def)
    moreover have "name_loop name (?fin + 1) \<longleftrightarrow>
        list_all name_label (name_labels (drop (?fin + 1) name))" if "name_label ?l"
      using 1(1) [OF refl refl] that checks lt False
      by (auto simp: let_dig_def list_all_iff fin)
    ultimately show ?thesis by auto
  qed
qed

lemma valid_account_name_labels:
  "is_valid_account_name name \<longleftrightarrow>
     3 \<le> length name \<and> length name \<le> 16 \<and> list_all name_label (name_labels name)"
  using name_loop_labels [of 0 name]
  by (auto simp: is_valid_account_name_def Let_def STEEMIT_MIN_ACCOUNT_NAME_LENGTH_def
      STEEMIT_MAX_ACCOUNT_NAME_LENGTH_def)

text \<open>
  C40. \<^verbatim>\<open>is_valid_account_name\<close> accepts exactly the names of the grammar in \<^verbatim>\<open>authority.hpp\<close>: 3 to 16
  characters, a dot-separated sequence of labels, each of at least three characters, beginning
  with a lowercase letter, ending with a letter or digit, and made of letters, digits and hyphens.
\<close>

theorem is_valid_account_name_grammar:
  "is_valid_account_name name \<longleftrightarrow>
     3 \<le> length name \<and> length name \<le> 16 \<and> list_all name_label (name_labels name)"
  by (rule valid_account_name_labels)

section \<open>The meaning of an authority\<close>

text \<open>
  \<open>auth_weight K T auth\<close> is the weight, without bounds, of the keys in \<open>K\<close> and the accounts in
  \<open>T\<close>. \<open>grants\<close> is the meaning of an account's consent: it is approved, or the keys and the
  accounts that consent reach the threshold of its authority.
\<close>

definition part_weight :: "'k set \<Rightarrow> ('k \<times> weight_type) list \<Rightarrow> nat" where
  "part_weight K xs = (\<Sum>(k, w) \<leftarrow> xs. if k \<in> K then unat w else 0)"

definition auth_weight :: "public_key_type set \<Rightarrow> account_name_type set \<Rightarrow> authority \<Rightarrow> nat" where
  "auth_weight K T auth = part_weight K (key_auths auth) + part_weight T (account_auths auth)"

definition meets :: "public_key_type set \<Rightarrow> account_name_type set \<Rightarrow> authority \<Rightarrow> bool" where
  "meets K T auth \<longleftrightarrow> unat (weight_threshold auth) \<le> auth_weight K T auth"

inductive grants ::
  "authority_getter \<Rightarrow> public_key_type set \<Rightarrow> account_name_type set \<Rightarrow> account_name_type \<Rightarrow> bool"
  for G K A where
  approved: "a \<in> A \<Longrightarrow> grants G K A a"
| authority: "G a = Inr auth \<Longrightarrow> \<forall>b \<in> T. grants G K A b \<Longrightarrow> meets K T auth \<Longrightarrow> grants G K A a"

text \<open>The same with nesting bounded by a number of levels.\<close>

fun satisfied ::
  "authority_getter \<Rightarrow> public_key_type set \<Rightarrow> account_name_type set \<Rightarrow> nat \<Rightarrow> authority \<Rightarrow> bool" where
  "satisfied G K A 0 auth = meets K A auth"
| "satisfied G K A (Suc n) auth =
     meets K {a. a \<in> A \<or> (\<exists>au. G a = Inr au \<and> satisfied G K A n au)} auth"

definition usable_keys :: "sign_state \<Rightarrow> public_key_type set" where
  "usable_keys s = fst ` set (provided_signatures s) \<union> set (available_keys s)"

definition approvals :: "sign_state \<Rightarrow> account_name_type set" where
  "approvals s = fst ` set (approved_by s)"

text \<open>An authority whose weights add up within 32 bits.\<close>

definition weights_fit :: "authority \<Rightarrow> bool" where
  "weights_fit auth \<longleftrightarrow> auth_weight UNIV UNIV auth < 2 ^ 32"

lemma part_weight_simps [simp]:
  "part_weight K [] = 0"
  "part_weight K ((k, w) # xs) = (if k \<in> K then unat w else 0) + part_weight K xs"
  by (simp_all add: part_weight_def)

lemma part_weight_mono: "K \<subseteq> L \<Longrightarrow> part_weight K xs \<le> part_weight L xs"
  by (induction xs) (auto intro: add_mono)

lemma meets_mono: "K \<subseteq> K' \<Longrightarrow> T \<subseteq> T' \<Longrightarrow> meets K T auth \<Longrightarrow> meets K' T' auth"
  unfolding meets_def auth_weight_def using part_weight_mono add_mono le_trans by meson

lemma unat_weight [simp]: "unat (ucast (w :: weight_type) :: 32 word) = unat w"
proof -
  have "unat w < 2 ^ 32" using unsigned_less [of w] by (rule less_trans) simp
  then show ?thesis by (simp add: unsigned_ucast_eq take_bit_nat_eq_self)
qed

lemma unat_add_weight_le: "unat (t + ucast (w :: weight_type) :: 32 word) \<le> unat t + unat w"
  using unat_weight [of w] by (simp add: unat_word_ariths)

lemma unat_add_weight:
  "unat t + unat w < 2 ^ 32 \<Longrightarrow> unat (t + ucast (w :: weight_type) :: 32 word) = unat t + unat w"
  using unat_weight [of w] by (simp add: unat_word_ariths)

lemma map_of_approved: "map_of (approved_by s) a = None \<longleftrightarrow> a \<notin> approvals s"
  by (simp add: approvals_def map_of_eq_None_iff)

lemma usable_keys_put:
  "k \<in> usable_keys s \<Longrightarrow>
   usable_keys (s\<lparr>provided_signatures := flat_put k b (provided_signatures s)\<rparr>) = usable_keys s"
  by (simp add: usable_keys_def insert_absorb)

lemma approvals_put [simp]:
  "approvals (s\<lparr>approved_by := flat_put a b (approved_by s)\<rparr>) = insert a (approvals s)"
  by (simp add: approvals_def)

lemma usable_keys_approved [simp]: "usable_keys (s\<lparr>approved_by := x\<rparr>) = usable_keys s"
  by (simp add: usable_keys_def)

lemma map_of_provided: "map_of (provided_signatures s) k = None \<longleftrightarrow> k \<notin> fst ` set (provided_signatures s)"
  by (simp add: map_of_eq_None_iff)

lemma signed_by_result:
  assumes "signed_by k s = (b, s')"
  shows "(b \<longleftrightarrow> k \<in> usable_keys s) \<and> usable_keys s' = usable_keys s \<and>
    approved_by s' = approved_by s \<and> max_recursion s' = max_recursion s"
proof (cases "k \<in> usable_keys s")
  case True
  then have "b \<and> s' = s\<lparr>provided_signatures := flat_put k True (provided_signatures s)\<rparr>"
    using assms map_of_provided [of s k]
    by (auto simp: signed_by_def usable_keys_def split: option.splits if_splits)
  then show ?thesis using True usable_keys_put by simp
next
  case False
  then have "map_of (provided_signatures s) k = None" "k \<notin> set (available_keys s)"
    unfolding map_of_provided by (simp_all add: usable_keys_def)
  then show ?thesis using assms False by (simp add: signed_by_def)
qed

lemma check_keys_sound:
  "check_keys thr ks tw s = (r, tw', s') \<Longrightarrow>
   usable_keys s' = usable_keys s \<and> approved_by s' = approved_by s \<and>
   max_recursion s' = max_recursion s \<and>
   unat tw' \<le> unat tw + part_weight (usable_keys s) ks \<and> (r \<longrightarrow> thr \<le> tw')"
proof (induction ks arbitrary: tw s)
  case (Cons kw ks)
  obtain k w b s1 where kw: "kw = (k, w)" and sb: "signed_by k s = (b, s1)" by fastforce
  note res = signed_by_result [OF sb]
  show ?case
    using Cons.IH [of "tw + ucast w" s1] Cons.IH [of tw s1] Cons.prems kw sb res
      unat_add_weight_le [of tw w]
    by (cases b) (auto simp: Let_def split: if_splits)
qed simp

lemma check_keys_exact:
  "check_keys thr ks tw s = (False, tw', s') \<Longrightarrow> unat tw + part_weight UNIV ks < 2 ^ 32 \<Longrightarrow>
   unat tw' = unat tw + part_weight (usable_keys s) ks"
proof (induction ks arbitrary: tw s)
  case (Cons kw ks)
  obtain k w b s1 where kw: "kw = (k, w)" and sb: "signed_by k s = (b, s1)" by fastforce
  note res = signed_by_result [OF sb]
  have "unat tw + unat w < 2 ^ 32" using Cons.prems kw by simp
  note sum = unat_add_weight [OF this]
  show ?case
    using Cons.IH [of "tw + ucast w" s1] Cons.IH [of tw s1] Cons.prems kw sb res sum
    by (cases b) (auto simp: Let_def split: if_splits)
qed simp

section \<open>Soundness of the check\<close>

definition consent :: "authority_getter \<Rightarrow> account_name_type set \<Rightarrow> sign_state \<Rightarrow> account_name_type set" where
  "consent G A s = {a. grants G (usable_keys s) A a}"

text \<open>
  What every part of the check keeps: the usable keys, the recursion bound, the approvals, and that
  every approved account consents.
\<close>

definition sound_step ::
  "authority_getter \<Rightarrow> account_name_type set \<Rightarrow> sign_state \<Rightarrow> sign_state \<Rightarrow> bool" where
  "sound_step G A s s' \<longleftrightarrow> usable_keys s' = usable_keys s \<and> max_recursion s' = max_recursion s \<and>
     approvals s \<subseteq> approvals s' \<and> approvals s' \<subseteq> consent G A s"

definition sound_at :: "authority_getter \<Rightarrow> account_name_type set \<Rightarrow> nat \<Rightarrow> bool" where
  "sound_at G A lv \<longleftrightarrow> (\<forall>auth s b s'. check_authority_at G lv auth s = Inr (b, s') \<longrightarrow>
     approvals s \<subseteq> consent G A s \<longrightarrow>
     sound_step G A s s' \<and> (b \<longrightarrow> meets (usable_keys s) (consent G A s) auth))"

lemma consent_cong: "usable_keys s' = usable_keys s \<Longrightarrow> consent G A s' = consent G A s"
  by (simp add: consent_def)

lemma sound_step_refl: "approvals s \<subseteq> consent G A s \<Longrightarrow> sound_step G A s s"
  by (simp add: sound_step_def)

lemma sound_step_trans:
  "sound_step G A s t \<Longrightarrow> sound_step G A t u \<Longrightarrow> sound_step G A s u"
  using consent_cong [of t s G A] by (auto simp: sound_step_def)

lemma sound_step_approve:
  "sound_step G A s t \<Longrightarrow> a \<in> consent G A s \<Longrightarrow>
   sound_step G A s (t\<lparr>approved_by := flat_put a b (approved_by t)\<rparr>)"
  by (auto simp: sound_step_def)

lemma consent_authority:
  "G a = Inr auth \<Longrightarrow> meets (usable_keys s) (consent G A s) auth \<Longrightarrow> a \<in> consent G A s"
  unfolding consent_def by (auto intro: grants.authority)

lemma word_le_add_weight:
  "thr \<le> (tw + ucast (w :: weight_type) :: 32 word) \<Longrightarrow> unat thr \<le> unat tw + unat w"
  using unat_add_weight_le [of tw w] by (simp add: word_le_nat_alt)

lemma check_accounts_sound:
  assumes "\<And>below. lv = Suc below \<Longrightarrow> sound_at G A below"
  shows "check_accounts G lv thr as tw s = Inr (b, s') \<Longrightarrow> approvals s \<subseteq> consent G A s \<Longrightarrow>
    sound_step G A s s' \<and> (b \<longrightarrow> unat thr \<le> unat tw + part_weight (consent G A s) as)"
proof (induction as arbitrary: tw s)
  case Nil
  then show ?case by (auto simp: word_le_nat_alt intro: sound_step_refl)
next
  case (Cons aw as)
  obtain a w where aw: "aw = (a, w)" by fastforce
  let ?C = "consent G A s"
  \<comment> \<open>continuing from a later state, with the weight counted or not\<close>
  have cont: ?case
    if "sound_step G A s t" "check_accounts G lv thr as tw t = Inr (b, s')" for t
  proof -
    have c: "consent G A t = ?C" "approvals t \<subseteq> consent G A t"
      using that(1) consent_cong [of t s] by (auto simp: sound_step_def)
    then have "sound_step G A t s' \<and> (b \<longrightarrow> unat thr \<le> unat tw + part_weight ?C as)"
      using Cons.IH [OF that(2)] by simp
    then show ?thesis using aw sound_step_trans [OF that(1)] by auto
  qed
  have count: ?case
    if "sound_step G A s t" "a \<in> ?C"
      "(if thr \<le> tw + ucast w then Inr (True, t) else check_accounts G lv thr as (tw + ucast w) t) =
        Inr (b, s')" for t
  proof -
    have c: "consent G A t = ?C" "approvals t \<subseteq> consent G A t"
      using that(1) consent_cong [of t s] by (auto simp: sound_step_def)
    show ?thesis
    proof (cases "thr \<le> tw + ucast w")
      case True
      then show ?thesis using that word_le_add_weight [OF True] aw by auto
    next
      case False
      then have "check_accounts G lv thr as (tw + ucast w) t = Inr (b, s')" using that by simp
      from Cons.IH [OF this c(2)] c(1)
      show ?thesis using that aw sound_step_trans [of G A s t s'] unat_add_weight_le [of tw w] by auto
    qed
  qed
  show ?case
  proof (cases "map_of (approved_by s) a = None")
    case True
    show ?thesis
    proof (cases lv)
      case 0
      then show ?thesis
        using Cons.prems True aw by (intro cont [of s]) (auto intro: sound_step_refl)
    next
      case (Suc below)
      obtain auth ok t where t: "G a = Inr auth" "check_authority_at G below auth s = Inr (ok, t)"
        using Cons.prems True aw Suc by (auto simp del: check_authority_at.simps)
      have st: "sound_step G A s t" and ok: "ok \<Longrightarrow> a \<in> ?C"
        using assms [OF Suc] t Cons.prems(2) consent_authority [of G a auth s A]
        by (auto simp: sound_at_def simp del: check_authority_at.simps)
      show ?thesis
      proof (cases ok)
        case True
        show ?thesis
          using Cons.prems(1) aw Suc t \<open>map_of (approved_by s) a = None\<close> True
          by (intro count [OF sound_step_approve [OF st ok [OF True], of True] ok [OF True]])
            (simp add: Let_def del: check_authority_at.simps split: if_splits)
      next
        case False
        then show ?thesis
          using Cons.prems(1) aw Suc t \<open>map_of (approved_by s) a = None\<close>
          by (intro cont [OF st]) (simp del: check_authority_at.simps)
      qed
    qed
  next
    case False
    then have "a \<in> ?C" using Cons.prems(2) map_of_approved [of s a] by auto
    moreover have "(if thr \<le> tw + ucast w then Inr (True, s)
        else check_accounts G lv thr as (tw + ucast w) s) = Inr (b, s')"
      using False Cons.prems(1) aw by (auto simp: Let_def split: if_splits)
    ultimately show ?thesis using count [OF sound_step_refl [OF Cons.prems(2)]] by simp
  qed
qed

lemma check_authority_sound_at: "sound_at G A lv"
proof (induction lv rule: nat_less_induct)
  case (1 lv)
  then have below: "\<And>below. lv = Suc below \<Longrightarrow> sound_at G A below" by simp
  show ?case
    unfolding sound_at_def
  proof (intro allI impI)
    fix auth s b s'
    assume run: "check_authority_at G lv auth s = Inr (b, s')" and app: "approvals s \<subseteq> consent G A s"
    obtain r tw t where ck: "check_keys (weight_threshold auth) (key_auths auth) 0 s = (r, tw, t)"
      by (metis prod_cases3)
    note keys = check_keys_sound [OF ck]
    have st: "sound_step G A s t" using keys app by (simp add: sound_step_def approvals_def)
    have ct: "consent G A t = consent G A s" using keys by (intro consent_cong) simp
    show "sound_step G A s s' \<and> (b \<longrightarrow> meets (usable_keys s) (consent G A s) auth)"
    proof (cases r)
      case True
      then show ?thesis
        using run ck st keys by (auto simp: meets_def auth_weight_def word_le_nat_alt)
    next
      case False
      then have "check_accounts G lv (weight_threshold auth) (account_auths auth) tw t = Inr (b, s')"
        using run ck by simp
      from check_accounts_sound [OF below this] ct st
      have "sound_step G A t s'" and
        "b \<Longrightarrow> unat (weight_threshold auth) \<le> unat tw + part_weight (consent G A s) (account_auths auth)"
        by (auto simp: sound_step_def)
      then show ?thesis
        using sound_step_trans [OF st] keys unfolding meets_def auth_weight_def by fastforce
    qed
  qed
qed

section \<open>Completeness of the check\<close>

definition nested :: "authority_getter \<Rightarrow> public_key_type set \<Rightarrow> account_name_type set \<Rightarrow> nat \<Rightarrow>
  account_name_type set" where
  "nested G K A lv =
     (case lv of 0 \<Rightarrow> A | Suc n \<Rightarrow> {a. a \<in> A \<or> (\<exists>au. G a = Inr au \<and> satisfied G K A n au)})"

lemma satisfied_nested: "satisfied G K A lv auth \<longleftrightarrow> meets K (nested G K A lv) auth"
  by (cases lv) (simp_all add: nested_def)

text \<open>
  The accounts that an authority names, and those that their authorities name in turn, exist down to
  the given number of levels, and the weights of each authority add up within 32 bits.
\<close>

fun resolvable :: "authority_getter \<Rightarrow> nat \<Rightarrow> authority \<Rightarrow> bool" where
  "resolvable G 0 auth = weights_fit auth"
| "resolvable G (Suc n) auth = (weights_fit auth \<and>
     (\<forall>(a, w) \<in> set (account_auths auth). case G a of Inl e \<Rightarrow> False | Inr au \<Rightarrow> resolvable G n au))"

lemma resolvable_fits: "resolvable G n auth \<Longrightarrow> weights_fit auth"
  by (cases n) auto

lemma resolvable_below:
  "resolvable G (Suc n) auth \<Longrightarrow> (a, w) \<in> set (account_auths auth) \<Longrightarrow> \<exists>au. G a = Inr au \<and> resolvable G n au"
  by (auto split: sum.splits)

text \<open>The check returns, keeps keys and approvals, and says yes to what is satisfied within the levels.\<close>

definition complete_run ::
  "public_key_type set \<Rightarrow> account_name_type set \<Rightarrow> (bool \<times> sign_state) res \<Rightarrow> bool \<Rightarrow> bool" where
  "complete_run K A m c \<longleftrightarrow>
     (\<exists>b s'. m = Inr (b, s') \<and> usable_keys s' = K \<and> A \<subseteq> approvals s' \<and> (c \<longrightarrow> b))"

definition complete_at ::
  "authority_getter \<Rightarrow> public_key_type set \<Rightarrow> account_name_type set \<Rightarrow> nat \<Rightarrow> bool" where
  "complete_at G K A lv \<longleftrightarrow> (\<forall>auth s. resolvable G lv auth \<longrightarrow> usable_keys s = K \<longrightarrow> A \<subseteq> approvals s \<longrightarrow>
     complete_run K A (check_authority_at G lv auth s) (satisfied G K A lv auth))"

lemma complete_atE:
  assumes "complete_at G K A lv" "resolvable G lv auth" "usable_keys s = K" "A \<subseteq> approvals s"
  obtains b s' where "check_authority_at G lv auth s = Inr (b, s')" "usable_keys s' = K"
    "A \<subseteq> approvals s'" "satisfied G K A lv auth \<longrightarrow> b"
  using assms unfolding complete_at_def complete_run_def by blast

lemma complete_run_imp: "complete_run K A m c \<Longrightarrow> (c' \<Longrightarrow> c) \<Longrightarrow> complete_run K A m c'"
  by (auto simp: complete_run_def)

lemma check_accounts_complete:
  assumes below: "\<And>below. lv = Suc below \<Longrightarrow> complete_at G K A below"
  shows "(\<And>n a w. lv = Suc n \<Longrightarrow> (a, w) \<in> set as \<Longrightarrow> \<exists>au. G a = Inr au \<and> resolvable G n au) \<Longrightarrow> usable_keys s = K \<Longrightarrow> A \<subseteq> approvals s \<Longrightarrow> unat tw + part_weight UNIV as < 2 ^ 32 \<Longrightarrow>
    complete_run K A (check_accounts G lv thr as tw s)
      (unat thr \<le> unat tw + part_weight (nested G K A lv) as)"
proof (induction as arbitrary: tw s)
  case Nil
  then show ?case by (simp add: complete_run_def word_le_nat_alt)
next
  case (Cons aw as)
  obtain a w where aw: "aw = (a, w)" by fastforce
  let ?c = "unat thr \<le> unat tw + part_weight (nested G K A lv) (aw # as)"
  have fit: "unat tw + unat w + part_weight UNIV as < 2 ^ 32" using Cons.prems(4) aw by simp
  then have sum: "unat (tw + ucast w) = unat tw + unat w" by (intro unat_add_weight) simp
  have rest: "\<exists>au. G x = Inr au \<and> resolvable G n au" if "lv = Suc n" "(x, v) \<in> set as" for n x v
    using Cons.prems(1) [OF that(1), of x v] that(2) by simp
  have IH: "complete_run K A (check_accounts G lv thr as v t) (unat thr \<le> unat v + part_weight (nested G K A lv) as)"
    if "usable_keys t = K" "A \<subseteq> approvals t" "unat v + part_weight UNIV as < 2 ^ 32" for t v
    using Cons.IH [OF _ that] rest by blast
  have skip: "complete_run K A (check_accounts G lv thr as tw t) ?c"
    if "usable_keys t = K" "A \<subseteq> approvals t" "a \<notin> nested G K A lv" for t
    using IH [OF that(1,2)] fit aw that(3) by simp
  have count: "complete_run K A (if thr \<le> tw + ucast w then Inr (True, t)
      else check_accounts G lv thr as (tw + ucast w) t) ?c"
    if "usable_keys t = K" "A \<subseteq> approvals t" for t
  proof (cases "thr \<le> tw + ucast w")
    case False
    have "complete_run K A (check_accounts G lv thr as (tw + ucast w) t)
        (unat thr \<le> unat tw + unat w + part_weight (nested G K A lv) as)"
      using IH [OF that, of "tw + ucast w"] sum fit by simp
    then show ?thesis using False aw by (auto elim: complete_run_imp split: if_splits)
  qed (use that in \<open>auto simp: complete_run_def\<close>)
  show ?case
  proof (cases "map_of (approved_by s) a = None")
    case True
    then have na: "a \<notin> A" using Cons.prems(3) map_of_approved by blast
    show ?thesis
    proof (cases lv)
      case 0
      then show ?thesis using skip [of s] Cons.prems True na aw by (simp add: nested_def)
    next
      case (Suc n)
      obtain au where au: "G a = Inr au" "resolvable G n au" using Cons.prems(1) [OF Suc] aw by auto
      obtain ok t where t: "check_authority_at G n au s = Inr (ok, t)" "usable_keys t = K"
        "A \<subseteq> approvals t" "satisfied G K A n au \<longrightarrow> ok"
        using complete_atE [OF below [OF Suc] au(2) Cons.prems(2,3)] by blast
      show ?thesis
      proof (cases ok)
        case True
        let ?t = "t\<lparr>approved_by := flat_put a True (approved_by t)\<rparr>"
        have "check_accounts G lv thr (aw # as) tw s = (if thr \<le> tw + ucast w then Inr (True, ?t)
            else check_accounts G lv thr as (tw + ucast w) ?t)"
          using t(1) True au Suc aw \<open>map_of (approved_by s) a = None\<close>
          by (simp add: Let_def del: check_authority_at.simps)
        moreover have "usable_keys ?t = K" "A \<subseteq> approvals ?t" using t(2,3) by auto
        ultimately show ?thesis using count [of ?t] by (simp only:)
      next
        case False
        then have "a \<notin> nested G K A lv" using na au t(4) Suc by (simp add: nested_def)
        then show ?thesis
          using skip [OF t(2,3)] False t(1) au Suc aw \<open>map_of (approved_by s) a = None\<close>
          by (simp del: check_authority_at.simps)
      qed
    qed
  next
    case False
    then have "check_accounts G lv thr (aw # as) tw s = (if thr \<le> tw + ucast w then Inr (True, s)
        else check_accounts G lv thr as (tw + ucast w) s)"
      using aw by (auto simp: Let_def)
    then show ?thesis using count [OF Cons.prems(2,3)] by (simp only:)
  qed
qed

lemma check_authority_complete_at: "complete_at G K A lv"
proof (induction lv rule: nat_less_induct)
  case (1 lv)
  then have below: "\<And>below. lv = Suc below \<Longrightarrow> complete_at G K A below" by simp
  show ?case
    unfolding complete_at_def
  proof (intro allI impI)
    fix auth s
    assume res: "resolvable G lv auth" and K: "usable_keys s = K" and A: "A \<subseteq> approvals s"
    have fit: "weights_fit auth" using res by (rule resolvable_fits)
    obtain r tw t where ck: "check_keys (weight_threshold auth) (key_auths auth) 0 s = (r, tw, t)"
      by (metis prod_cases3)
    note keys = check_keys_sound [OF ck]
    have t: "usable_keys t = K" "A \<subseteq> approvals t" using keys K A by (simp_all add: approvals_def)
    show "complete_run K A (check_authority_at G lv auth s) (satisfied G K A lv auth)"
    proof (cases r)
      case True
      then show ?thesis using ck t by (auto simp: complete_run_def)
    next
      case False
      have le: "part_weight UNIV (key_auths auth) < 2 ^ 32"
        using fit by (simp add: weights_fit_def auth_weight_def)
      have tw: "unat tw = part_weight K (key_auths auth)"
        using check_keys_exact ck False le K by fastforce
      have "part_weight K (key_auths auth) + part_weight UNIV (account_auths auth) < 2 ^ 32"
        using fit part_weight_mono [of K UNIV "key_auths auth"]
        by (simp add: weights_fit_def auth_weight_def)
      moreover have named: "\<exists>au. G a = Inr au \<and> resolvable G n au"
        if "lv = Suc n" "(a, w) \<in> set (account_auths auth)" for n a w
        using that res resolvable_below by blast
      ultimately show ?thesis
        using check_accounts_complete [of lv G K A "account_auths auth" t tw "weight_threshold auth",
            OF below named t] tw ck False
        by (simp add: satisfied_nested meets_def auth_weight_def)
    qed
  qed
qed

section \<open>Theorems\<close>

text \<open>
  C33. \<^verbatim>\<open>sign_state::check_authority\<close> is sound: when it accepts an authority, the weights of the keys
  that signed (or are available) and of accounts that consent reach its threshold, where an account
  consents by approval or, recursively, by its own authority. The 32-bit sum cannot wrap into an
  acceptance, and accounts remembered as approved along the way do consent.
\<close>

theorem check_authority_sound:
  assumes "check_authority get_active auth s = Inr (True, s')"
  shows "(\<exists>T. (\<forall>a \<in> T. grants get_active (usable_keys s) (approvals s) a) \<and> meets (usable_keys s) T auth) \<and>
    (\<forall>a \<in> approvals s'. grants get_active (usable_keys s) (approvals s) a)"
proof -
  have "approvals s \<subseteq> consent get_active (approvals s) s"
    by (auto simp: consent_def intro: grants.approved)
  then have "sound_step get_active (approvals s) s s' \<and>
      meets (usable_keys s) (consent get_active (approvals s) s) auth"
    using check_authority_sound_at [of get_active "approvals s" "max_recursion s"] assms
    by (auto simp: sound_at_def check_authority_def simp del: check_authority_at.simps)
  then show ?thesis by (auto simp: sound_step_def consent_def)
qed

text \<open>
  C34. \<^verbatim>\<open>sign_state::check_authority\<close> terminates and is complete up to its recursion limit: when the
  accounts that the authority names, and those named in turn by their authorities down to
  \<^verbatim>\<open>max_recursion\<close> levels, exist, and the weights of each of these authorities add up within 32 bits, an
  authority that the keys and approvals satisfy with at most \<^verbatim>\<open>max_recursion\<close> levels of nesting is
  accepted, whatever accounts were remembered as approved on the way. Nothing is assumed of other
  accounts: the getter may throw for every name that is not on the chain.
\<close>

theorem check_authority_complete:
  assumes "resolvable get_active (max_recursion s) auth"
    and "satisfied get_active (usable_keys s) (approvals s) (max_recursion s) auth"
  shows "\<exists>s'. check_authority get_active auth s = Inr (True, s')"
proof -
  obtain b s' where "check_authority_at get_active (max_recursion s) auth s = Inr (b, s')"
    "satisfied get_active (usable_keys s) (approvals s) (max_recursion s) auth \<longrightarrow> b"
    by (rule complete_atE [OF check_authority_complete_at assms(1) refl subset_refl]) iprover
  with assms(2) show ?thesis by (simp add: check_authority_def del: check_authority_at.simps)
qed

text \<open>A chain of two accounts: bob signs for alice.\<close>

definition demo_getter :: authority_getter where
  "demo_getter a =
     (if a = ''alice'' then Inr \<lparr>weight_threshold = 2, account_auths = [(''bob'', 1)], key_auths = [(''K1'', 1)]\<rparr>
      else if a = ''bob'' then Inr \<lparr>weight_threshold = 1, account_auths = [], key_auths = [(''K2'', 1)]\<rparr>
      else Inl (Missing_object ''account''))"

definition demo_auth :: authority where
  "demo_auth = \<lparr>weight_threshold = 1, account_auths = [(''alice'', 1)], key_auths = []\<rparr>"

lemma demo_check:
  "\<exists>s'. check_authority demo_getter demo_auth (mk_sign_state [''K1'', ''K2''] []) = Inr (True, s')"
  by (auto simp: check_authority_def demo_getter_def demo_auth_def mk_sign_state_def
      signed_by_def STEEMIT_MAX_SIG_CHECK_DEPTH_def less_char_def word_le_nat_alt)

theorem check_authority_sound_witness:
  "\<exists>T. (\<forall>a \<in> T. grants demo_getter {''K1'', ''K2''} {''temp''} a) \<and> meets {''K1'', ''K2''} T demo_auth"
proof -
  obtain s' where run:
    "check_authority demo_getter demo_auth (mk_sign_state [''K1'', ''K2''] []) = Inr (True, s')"
    using demo_check by blast
  show ?thesis
    using check_authority_sound [OF run]
    by (simp add: usable_keys_def approvals_def mk_sign_state_def insert_commute less_char_def)
qed

lemma resolvable_two: "resolvable G 2 auth = resolvable G (Suc (Suc 0)) auth"
  by (simp add: numeral_2_eq_2)

theorem check_authority_complete_witness:
  "\<exists>s'. check_authority demo_getter demo_auth (mk_sign_state [''K1'', ''K2''] []) = Inr (True, s')"
proof (rule check_authority_complete)
  show "resolvable demo_getter (max_recursion (mk_sign_state [''K1'', ''K2''] [])) demo_auth"
    by (simp add: mk_sign_state_def STEEMIT_MAX_SIG_CHECK_DEPTH_def demo_getter_def demo_auth_def
        weights_fit_def auth_weight_def resolvable_two)
qed (simp add: mk_sign_state_def STEEMIT_MAX_SIG_CHECK_DEPTH_def numeral_2_eq_2 meets_def auth_weight_def
    demo_getter_def demo_auth_def usable_keys_def approvals_def less_char_def)

end
