(* ===== verification/Operation_Properties.thy ===== *)
theory Operation_Properties
  imports Operation_Validate Authority_Properties Asset_Text
begin

text \<open>
  What the stateless checks of operations establish: beneficiary shares stay within the
  reward, orders carry proper prices, no virtual operation hides in a proposal, and every
  operation that passes names somebody who has to authorise it.
\<close>

section \<open>Automation\<close>

lemma check_value_Inr [simp]: "check_value c msg = Inr u \<longleftrightarrow> c"
  by (simp add: check_value_def)

lemma check_logic_Inr [simp]: "check_logic c msg = Inr u \<longleftrightarrow> c"
  by (simp add: check_logic_def)

lemma check_param_account_Inr [simp]: "check_param_account p n = Inr u \<longleftrightarrow> is_valid_account_name n"
  by (simp add: check_param_account_def validate_account_name_def)

lemma validate_account_name_Inr [simp]: "validate_account_name n = Inr u \<longleftrightarrow> is_valid_account_name n"
  by (simp add: validate_account_name_def)

lemma check_asset_Inr [simp]:
  "check_asset_val x syms p = Inr u \<longleftrightarrow> symbol x \<in> set syms \<and> p (amount x)"
  "check_asset_gt0 x syms = Inr u \<longleftrightarrow> symbol x \<in> set syms \<and> 0 < amount x"
  "check_asset_ge0 x syms = Inr u \<longleftrightarrow> symbol x \<in> set syms \<and> 0 \<le> amount x"
  by (simp_all add: check_asset_val_def check_asset_gt0_def check_asset_ge0_def)

lemma flat_ins_not_Nil [simp]: "flat_ins k s \<noteq> []" "[] \<noteq> flat_ins k s"
  by (cases s; simp)+

lemma fold_flat_ins_set: "set (fold flat_ins ks s) = set ks \<union> set s"
  by (induction ks arbitrary: s) auto

lemma fold_flat_ins_Nil [simp]: "fold flat_ins ks s = [] \<longleftrightarrow> ks = [] \<and> s = []"
  using fold_flat_ins_set [of ks s] by (metis Un_empty set_empty)

lemma flat_put_not_Nil [simp]: "flat_put k v m \<noteq> []"
  by (induction k v m rule: flat_put.induct) auto

lemma fold_flat_put_Nil [simp]: "fold (\<lambda>k. flat_put k v) ks m = [] \<longleftrightarrow> ks = [] \<and> m = []"
proof (induction ks arbitrary: m)
  case (Cons k ks)
  then show ?case by simp
qed simp

section \<open>Beneficiaries\<close>

lemma beneficiaries_loop_Inr:
  "beneficiaries_loop bs acc = Inr r \<longleftrightarrow>
     (\<forall>b \<in> set bs. is_valid_account_name (bnf_account b) \<and> bnf_weight b \<le> 10000) \<and>
     r = acc + of_nat (\<Sum>b\<leftarrow>bs. bnf_weight b)"
  by (induction bs arbitrary: acc) (auto simp: STEEMIT_100_PERCENT_def algebra_simps)

lemma sum_weights_bound:
  "\<forall>b \<in> set bs. bnf_weight b \<le> 10000 \<Longrightarrow> (\<Sum>b\<leftarrow>bs. bnf_weight b) \<le> length bs * 10000"
  by (induction bs) auto

lemma sorted_adjacent:
  "(\<forall>i \<in> set [1..<length bs]. bnf_account (bs ! (i - 1)) < bnf_account (bs ! i)) \<longleftrightarrow>
   sorted_wrt (<) (map bnf_account bs)"
proof -
  have "(\<forall>i \<in> set [1..<length bs]. bnf_account (bs ! (i - 1)) < bnf_account (bs ! i)) \<longleftrightarrow>
      (\<forall>i. Suc i < length bs \<longrightarrow> bnf_account (bs ! i) < bnf_account (bs ! Suc i))"
  proof (intro iffI ballI allI impI)
    fix i assume "\<forall>i \<in> set [1..<length bs]. bnf_account (bs ! (i - 1)) < bnf_account (bs ! i)" "Suc i < length bs"
    then show "bnf_account (bs ! i) < bnf_account (bs ! Suc i)" by (auto dest: bspec [of _ _ "Suc i"])
  next
    fix i assume "\<forall>i. Suc i < length bs \<longrightarrow> bnf_account (bs ! i) < bnf_account (bs ! Suc i)" "i \<in> set [1..<length bs]"
    then show "bnf_account (bs ! (i - 1)) < bnf_account (bs ! i)" by (cases i) auto
  qed
  also have "\<dots> \<longleftrightarrow> sorted_wrt (<) (map bnf_account bs)"
    by (subst sorted_wrt_iff_nth_Suc_transp) (auto intro: transpI)
  finally show ?thesis .
qed

lemmas name_eval = valid_account_name_labels name_labels.simps name_label_def let_dig_def
  is_letter_def is_digit_def less_eq_char_def

text \<open>
  \<^verbatim>\<open>comment_payout_beneficiaries::validate\<close> accepts exactly the lists of 1 to 127 beneficiaries
  with valid names in strictly ascending order whose weights add up, without wrap-around of the
  32-bit sum, to at most 100 percent.
\<close>

theorem beneficiaries_validate_iff:
  "comment_payout_beneficiaries_validate bs = Inr () \<longleftrightarrow>
     bs \<noteq> [] \<and> length bs < 128 \<and> (\<forall>b \<in> set bs. is_valid_account_name (bnf_account b)) \<and>
     (\<Sum>b\<leftarrow>bs. bnf_weight b) \<le> 10000 \<and> sorted_wrt (<) (map bnf_account bs)"
proof -
  let ?n = "\<Sum>b\<leftarrow>bs. bnf_weight b"
  have each: "\<forall>b \<in> set bs. bnf_weight b \<le> 10000" if "?n \<le> 10000"
    using that member_le_sum_list [of _ "map bnf_weight bs"] by fastforce
  have wrap: "of_nat ?n \<le> (of_nat 10000 :: 32 word) \<longleftrightarrow> ?n \<le> 10000"
    if "length bs < 128" "\<forall>b \<in> set bs. bnf_weight b \<le> 10000"
  proof -
    have "?n < 2 ^ 32" using sum_weights_bound [OF that(2)] that(1) by simp
    then show ?thesis by (simp add: word_le_nat_alt unat_of_nat)
  qed
  show ?thesis
    using each wrap
    by (auto simp: comment_payout_beneficiaries_validate_def beneficiaries_loop_Inr beneficiary_less_def
        sorted_adjacent [simplified] STEEMIT_100_PERCENT_def)
qed

theorem beneficiaries_validate_iff_witness:
  "comment_payout_beneficiaries_validate [\<lparr>bnf_account = ''alice'', bnf_weight = 2500\<rparr>,
     \<lparr>bnf_account = ''bob'', bnf_weight = 7500\<rparr>] = Inr ()"
  using beneficiaries_validate_iff [of "[\<lparr>bnf_account = ''alice'', bnf_weight = 2500\<rparr>,
     \<lparr>bnf_account = ''bob'', bnf_weight = 7500\<rparr>]"]
  by (simp add: name_eval less_char_def)

section \<open>Orders\<close>

text \<open>
  A limit order that passes \<^verbatim>\<open>validate\<close> trades GOLOS against GBG, both amounts are positive, and
  its price is one for which \<^verbatim>\<open>price::validate\<close> holds; so the order book only ever compares prices
  on which the comparison is exact.
\<close>

theorem limit_order_create_validate_price:
  assumes "limit_order_create_validate op = Inr ()"
  shows "golos_gbg_pair (loc_amount_to_sell op) (loc_min_to_receive op) \<and>
    0 < amount (loc_amount_to_sell op) \<and> 0 < amount (loc_min_to_receive op) \<and>
    (\<exists>p. limit_order_create_get_price op = Inr p \<and> price_validate p = Inr () \<and>
         base p = loc_amount_to_sell op \<and> quote p = loc_min_to_receive op)"
  using assms
  by (auto simp: limit_order_create_validate_def limit_order_create_get_price_def asset_div_def
      price_validate_def split: if_splits)

theorem limit_order_create_validate_price_witness:
  "golos_gbg_pair (golos_of 5) \<lparr>amount = 2, symbol = SBD_SYMBOL\<rparr> \<and> (0::int) < 5"
  using limit_order_create_validate_price
    [of "\<lparr>loc_owner = ''alice'', loc_orderid = 1, loc_amount_to_sell = golos_of 5,
      loc_min_to_receive = \<lparr>amount = 2, symbol = SBD_SYMBOL\<rparr>, loc_fill_or_kill = False,
      loc_expiration = 0\<rparr>"]
  by (simp add: limit_order_create_validate_def asset_div_def asset_symbol_name_def price_validate_def
      golos_gbg_pair_def name_eval)

section \<open>Proposals\<close>

text \<open>\<open>occurs_in v op\<close>: \<open>v\<close> is \<open>op\<close> or is proposed in it, at any depth.\<close>

inductive occurs_in :: "operation \<Rightarrow> operation \<Rightarrow> bool" where
  self: "occurs_in op op"
| proposed: "sub \<in> set ops \<Longrightarrow> occurs_in op sub \<Longrightarrow> occurs_in op (Op_proposal_create a t m ops e r x)"

lemma proposal_create_validate_ops:
  "operation_validate fc cr (Op_proposal_create a t m ops e r x) = Inr () \<Longrightarrow> sub \<in> set ops \<Longrightarrow>
   operation_validate fc cr sub = Inr ()"
  by (auto simp: proposal_create_validate_def)

lemma occurs_in_valid:
  "occurs_in v op \<Longrightarrow> operation_validate fc cr op = Inr () \<Longrightarrow> operation_validate fc cr v = Inr ()"
proof (induction rule: occurs_in.induct)
  case (proposed sub ops op a t m e r x)
  then show ?case using proposal_create_validate_ops by blast
qed

text \<open>
  A valid operation is valid all the way down: every operation proposed in it at any depth
  passes its own validation, and none of them is a virtual operation.
\<close>

theorem valid_operation_deep:
  assumes "operation_validate fc cr op = Inr ()" "occurs_in v op"
  shows "operation_validate fc cr v = Inr () \<and> \<not> is_virtual_operation v"
proof -
  have v: "operation_validate fc cr v = Inr ()" using occurs_in_valid assms by blast
  moreover have "operation_validate fc cr v \<noteq> Inr ()" if "is_virtual_operation v"
    using that by (cases v) (simp_all add: is_virtual_operation_def)
  ultimately show ?thesis by blast
qed

abbreviation demo_vote :: operation where
  "demo_vote \<equiv> Op_vote \<lparr>vot_voter = ''alice'', vot_author = ''bob'', vot_permlink = ''post'', vot_weight = 10000\<rparr>"

abbreviation demo_proposal :: operation where
  "demo_proposal \<equiv> Op_proposal_create ''alice'' ''title'' [] [demo_vote] 100 None []"

lemma demo_proposal_valid: "operation_validate fc_ref cr demo_proposal = Inr ()"
  by (simp add: proposal_create_validate_def proposal_title_checks_def vote_validate_def validate_permlink_def
      check_value_not_empty_def check_value_max_size_def check_value_utf8_def fc_ref_def validate_limits
      name_eval)

theorem valid_operation_deep_witness:
  "operation_validate fc_ref crypto_demo demo_vote = Inr () \<and> \<not> is_virtual_operation demo_vote"
proof (rule valid_operation_deep [OF demo_proposal_valid])
  show "occurs_in demo_vote demo_proposal"
    by (rule occurs_in.proposed [OF _ occurs_in.self]) simp
qed

section \<open>Authorisation\<close>

text \<open>Operations for which the proof of work or the signed headers themselves are the authorisation.\<close>

definition self_authorising :: "operation \<Rightarrow> bool" where
  "self_authorising op = (case op of Op_pow _ \<Rightarrow> True | Op_report_over_production _ \<Rightarrow> True | _ \<Rightarrow> False)"

lemmas required_auth_defs =
  required_active_def required_owner_def required_posting_def required_other_def
  account_create_required_active_def account_create_with_delegation_required_active_def
  account_update_required_active_def account_update_required_owner_def
  account_metadata_required_posting_def comment_required_posting_def comment_options_required_posting_def
  challenge_authority_required_active_def prove_authority_required_active_def
  prove_authority_required_owner_def delete_comment_required_posting_def vote_required_posting_def
  transfer_required_active_def transfer_required_owner_def escrow_transfer_required_active_def
  escrow_approve_required_active_def escrow_dispute_required_active_def escrow_release_required_active_def
  transfer_to_vesting_required_active_def withdraw_vesting_required_active_def
  set_withdraw_vesting_route_required_active_def witness_update_required_active_def
  chain_properties_update_required_active_def account_witness_vote_required_active_def
  account_witness_proxy_required_active_def custom_required_active_def custom_json_required_active_def
  custom_json_required_posting_def custom_binary_required_active_def custom_binary_required_owner_def
  custom_binary_required_posting_def custom_binary_required_other_def
  feed_publish_required_active_def convert_required_active_def
  limit_order_create_required_active_def limit_order_create2_required_active_def
  limit_order_cancel_required_active_def pow2_required_active_def pow2_required_other_def
  request_account_recovery_required_active_def recover_account_required_other_def
  reset_account_required_active_def set_reset_account_required_owner_def
  set_reset_account_required_posting_def change_recovery_account_required_owner_def
  transfer_to_savings_required_active_def transfer_from_savings_required_active_def
  cancel_transfer_from_savings_required_active_def decline_voting_rights_required_owner_def
  delegate_vesting_shares_required_active_def break_free_referral_required_active_def
  delegate_vesting_shares_with_interest_required_active_def
  reject_vesting_shares_delegation_required_active_def transit_to_cyberway_required_active_def
  proposal_update_required_active_def proposal_update_required_owner_def
  proposal_update_required_posting_def proposal_update_required_other_def
  proposal_delete_required_active_def

lemma valid_operation_authorised_aux:
  "operation_validate fc cr op = Inr () \<Longrightarrow> \<not> self_authorising op \<Longrightarrow>
   required_active op [] \<noteq> [] \<or> required_owner op [] \<noteq> [] \<or> required_posting op [] \<noteq> [] \<or>
   required_other op [] \<noteq> []"
  by (cases op)
    (auto simp: required_auth_defs self_authorising_def custom_validate_def custom_json_validate_def
      custom_binary_validate_def proposal_update_validate_def Let_def split: option.splits)

lemma self_authorising_none:
  "self_authorising op \<Longrightarrow> required_active op [] = [] \<and> required_owner op [] = [] \<and> required_posting op [] = [] \<and>
   required_other op [] = []"
  by (cases op) (simp_all add: self_authorising_def required_active_def required_owner_def required_posting_def
      required_other_def pow_required_active_def)

text \<open>
  C36. Exactly two operations go without an authority, the ones that carry their own proof
  (\<^verbatim>\<open>pow_operation\<close> and \<^verbatim>\<open>report_over_production_operation\<close>): every other operation that passes validation
  requires the authority of at least one account or key.
\<close>

theorem valid_operation_authorised:
  assumes "operation_validate fc cr op = Inr ()"
  shows "operation_get_required_authorities op ([], [], [], []) = ([], [], [], []) \<longleftrightarrow> self_authorising op"
  using valid_operation_authorised_aux [OF assms] self_authorising_none [of op]
  by (auto simp: operation_get_required_authorities_def)

theorem valid_operation_authorised_witness:
  "operation_get_required_authorities demo_proposal ([], [], [], []) \<noteq> ([], [], [], [])"
  using valid_operation_authorised [OF demo_proposal_valid] by (simp add: self_authorising_def)

end
