(* ===== verification/Demo_State.thy ===== *)
theory Demo_State
  imports Accounts Asset_Properties
begin

text \<open>
  A small concrete chain state on which the theorems are applied, and the bundles of definitions
  that evaluate operations on it.
\<close>

section \<open>A small chain state\<close>

definition gbg_of :: "int \<Rightarrow> asset" where "gbg_of x = \<lparr>amount = x, symbol = SBD_SYMBOL\<rparr>"

definition vests_of :: "int \<Rightarrow> asset" where "vests_of x = \<lparr>amount = x, symbol = VESTS_SYMBOL\<rparr>"

definition demo_account :: "nat \<Rightarrow> account_name_type \<Rightarrow> int \<Rightarrow> int \<Rightarrow> int \<Rightarrow> account_object" where
  "demo_account i n golos gbg vests = (default_account i n)\<lparr>acc_balance := golos_of golos,
     acc_sbd_balance := gbg_of gbg, acc_vesting_shares := vests_of vests, acc_sbd_seconds_last_update := 1000,
     acc_savings_sbd_seconds_last_update := 1000\<rparr>"

definition demo_dgp :: dynamic_global_property_object where
  "demo_dgp = \<lparr>dgp_head_block_number = 5000000, dgp_head_block_id = [], dgp_time = 1000,
     dgp_current_witness = ''alice'', dgp_total_pow = 0, dgp_num_pow_witnesses = 0,
     dgp_virtual_supply = golos_of 3000000, dgp_current_supply = golos_of 3000000, dgp_confidential_supply = golos_of 0,
     dgp_current_sbd_supply = gbg_of 5000, dgp_confidential_sbd_supply = gbg_of 0,
     dgp_total_vesting_fund_steem = golos_of 1000000, dgp_total_vesting_shares = vests_of 4000000,
     dgp_total_reward_fund_steem = golos_of 500000, dgp_total_reward_shares2 = 0, dgp_sbd_interest_rate = 0,
     dgp_sbd_print_rate = 10000, dgp_is_forced_min_price = False, dgp_average_block_size = 0,
     dgp_maximum_block_size = 65536, dgp_current_aslot = 0, dgp_recent_slots_filled = 0,
     dgp_participation_count = 128, dgp_last_irreversible_block_num = 0, dgp_max_virtual_bandwidth = 0,
     dgp_current_reserve_ratio = 1, dgp_vote_regeneration_per_day = 40, dgp_custom_ops_bandwidth_multiplier = 100,
     dgp_transit_block_num = 4294967295, dgp_transit_witnesses = []\<rparr>"

definition demo_db :: database where
  "demo_db = \<lparr>db_accounts = [demo_account 1 ''alice'' 1000000 5000 3000000, demo_account 2 ''bob'' 500000 0 1000000,
       demo_account 0 ''null'' 0 0 0],
     db_dgp = demo_dgp, db_feed = \<lparr>fho_current_median_history = default_price, fho_price_history = []\<rparr>,
     db_schedule = \<lparr>wso_current_virtual_time = 0, wso_next_shuffle_block_num = 1,
       wso_current_shuffled_witnesses = [''alice''], wso_num_scheduled_witnesses = 1, wso_top19_weight = 1,
       wso_timeshare_weight = 5, wso_miner_weight = 1, wso_witness_pay_normalization_factor = 25,
       wso_median_props = default_chain_properties, wso_majority_version = \<lparr>v_num = 0\<rparr>\<rparr>,
     db_processed_hardforks = 22, db_converts = [], db_escrows = [], db_savings = [], db_liquidity = [],
     db_orders = [], db_routes = [], db_declines = [], db_delegations = [], db_delegation_expirations = [],
     db_witnesses = [default_witness 0 ''alice'' 0], db_witness_votes = [], db_authorities = [], db_metadata = [],
     db_owner_history = [], db_recovery_requests = [], db_change_recovery = [], db_comments = [], db_comment_votes = [],
     db_proposals = [], db_required_approvals = [], db_bandwidth = [], db_next_id = (\<lambda>_. 10), db_vops = []\<rparr>"

definition demo_flags :: node_flags where
  "demo_flags = \<lparr>is_producing = False, store_memo_in_savings_withdraws = True,
     store_account_metadata = store_metadata_for_all, accounts_to_store_metadata = []\<rparr>"

definition run_ok :: "'a res \<Rightarrow> bool" where
  "run_ok r \<longleftrightarrow> (case r of Inl _ \<Rightarrow> False | Inr _ \<Rightarrow> True)"

lemma run_okE: "run_ok r \<Longrightarrow> (\<And>x. r = Inr x \<Longrightarrow> thesis) \<Longrightarrow> thesis"
  by (cases r) (auto simp: run_ok_def)

lemmas demo_defs = demo_db_def demo_account_def demo_dgp_def default_account_def gbg_of_def vests_of_def

lemmas fc_ref_eval = fc_ref_def returning_def in_i64_def asset_add_def asset_sub_def asset_neg_def
  asset_eq_def asset_ne_def asset_lt_def asset_le_def asset_gt_def asset_ge_def

lemma no_proxied_votes: "replicate STEEMIT_MAX_PROXY_RECURSION_DEPTH x = [x, x, x, x]"
  by (simp add: STEEMIT_MAX_PROXY_RECURSION_DEPTH_def eval_nat_numeral)

lemmas lookup_eval = modify_account_def set_account_def get_account_def find_account_def of_option_def find_by_Cons
  get_witness_def find_witness_def head_block_num_def head_block_time_def has_hardfork_def

end
