(* ===== verification/Ledger_Properties.thy ===== *)
theory Ledger_Properties
  imports Block_Maintenance Withdrawal_Termination Supply_Check Operation_Properties Demo_State
begin

text \<open>
  What the ledger promises as a whole: operations and block maintenance conserve every token, a
  state that passes the node's supply check keeps balanced supplies.
\<close>

section \<open>Operations on the demonstration state\<close>

definition demo_operations :: "operation list" where
  "demo_operations =
     [Op_transfer \<lparr>trf_from = ''alice'', trf_to = ''bob'', trf_amount = golos_of 250000, trf_memo = ''rent''\<rparr>,
      Op_transfer_to_savings \<lparr>tts_from = ''bob'', tts_to = ''bob'', tts_amount = golos_of 700000, tts_memo = []\<rparr>]"

lemma demo_ledger_ok: "ledger_ok demo_db"
  by (simp add: ledger_ok_def demo_db_def demo_account_def demo_dgp_def default_account_def account_ok_def dgp_ok_def
      gbg_of_def vests_of_def)

lemma demo_balanced: "gaps demo_db = (0, 0, 0)"
  by (simp add: gaps_def gap_steem_def gap_sbd_def gap_vests_def held_def account_steem_def account_sbd_def
      account_vests_def demo_defs)

lemma demo_supply_check: "validate_supply fc_ref demo_db = Inr ()"
  by (simp add: validate_supply_def count_totals_def add_account_totals_def add_supply_def add_sbd_def counted_votes_def
      witness_vote_weight_def assert_eq_def price_is_null_def price_eq_def default_witness_def
      no_proxied_votes STEEMIT_PROXY_TO_SELF_ACCOUNT_def
      fc_ref_eval demo_defs Let_def)

lemma demo_operations_run: "run_ok (apply_operations fc_ref crypto_demo demo_flags demo_operations demo_db)"
  by (simp add: apply_operations_def apply_one_def demo_operations_def transfer_evaluator_def
      transfer_to_savings_evaluator_def check_balance_def get_balance_def adjust_balance_def adjust_savings_balance_def
      modify_account_def set_account_def get_account_def find_account_def of_option_def find_by_Cons run_ok_def
      ensure_def check_param_def fc_ref_eval demo_defs Let_def)

lemma demo_operations_valid: "\<forall>op \<in> set demo_operations. operation_validate fc_ref crypto_demo op = Inr ()"
  by (simp add: demo_operations_def transfer_validate_def transfer_to_savings_validate_def check_asset_gt0_def
      check_asset_val_def check_value_def check_value_max_size_def check_value_utf8_def name_eval fc_ref_def
      check_param_account_def validate_account_name_def STEEMIT_MAX_MEMO_SIZE_def)

section \<open>Conservation of value\<close>

text \<open>
  C1. Any sequence of validated operations keeps the ledger well formed and leaves, for GOLOS, GBG
  and vesting shares, the difference between the recorded supply and everything that holds the
  token exactly as it was: no operation creates or destroys value (GBG interest enters
  balance and supply alike).
\<close>

theorem operations_conserve:
  assumes "fc_safe fc" "ledger_ok db" "\<forall>op \<in> set ops. operation_validate fc cr op = Inr ()"
    "apply_operations fc cr nf ops db = Inr db'"
  shows "ledger_ok db' \<and> gaps db' = gaps db"
  using op_run.run_conserves [of "(fc, cr, nf)" ops db db'] assms
  by (auto simp: apply_operations_def operation_good_def list_all_iff)

theorem operations_conserve_witness:
  "\<exists>db'. apply_operations fc_ref crypto_demo demo_flags demo_operations demo_db = Inr db' \<and> gaps db' = (0, 0, 0)"
proof -
  obtain db' where run: "apply_operations fc_ref crypto_demo demo_flags demo_operations demo_db = Inr db'"
    using demo_operations_run by (rule run_okE)
  from operations_conserve [OF fc_ref_parts(1) demo_ledger_ok demo_operations_valid run] demo_balanced run
  show ?thesis by auto
qed

text \<open>
  C2. From a state that passes the supply checks of \<^verbatim>\<open>validate_invariants\<close>, every sequence of validated
  operations leads to a state whose supplies are again exactly what accounts, savings, orders,
  escrows, conversions and funds hold.
\<close>

theorem supply_check_preserved:
  assumes "fc_safe fc" "ledger_ok db" "validate_supply fc db = Inr ()"
    "\<forall>op \<in> set ops. operation_validate fc cr op = Inr ()" "apply_operations fc cr nf ops db = Inr db'"
  shows "gap_steem db' = 0 \<and> gap_sbd db' = 0 \<and> gap_vests db' = 0"
  using validate_supply_gaps [OF assms(1-3)] op_run.run_conserves [of "(fc, cr, nf)" ops db db'] assms
  by (auto simp: apply_operations_def operation_good_def list_all_iff gaps_def)

theorem supply_check_preserved_witness:
  "\<exists>db'. apply_operations fc_ref crypto_demo demo_flags demo_operations demo_db = Inr db' \<and>
    gap_steem db' = 0 \<and> gap_sbd db' = 0 \<and> gap_vests db' = 0"
proof -
  obtain db' where run: "apply_operations fc_ref crypto_demo demo_flags demo_operations demo_db = Inr db'"
    using demo_operations_run by (rule run_okE)
  from supply_check_preserved [OF fc_ref_parts(1) demo_ledger_ok demo_supply_check demo_operations_valid run] run
  show ?thesis by auto
qed

section \<open>Block maintenance\<close>

text \<open>
  C3. The stages of a block from the price feed to the conversions (the null account is emptied,
  inflation is paid to the funds and the producer, due conversions are filled) conserve every
  token: supply and holders change by the same amounts.
\<close>

theorem funds_stages_conserve:
  assumes "fc_num fc" "ledger_ok db" "null_vesting_sane db" "funds_stages fc db = Inr db'"
  shows "ledger_ok db' \<and> gaps db' = gaps db"
  using funds_stages_moves [OF assms] moves_ok moves_gaps by blast

lemma demo_null_sane: "null_vesting_sane demo_db"
  by (simp add: null_vesting_sane_def get_account_def find_account_def find_by_Cons STEEMIT_NULL_ACCOUNT_def
      of_option_def demo_defs Let_def)

lemma demo_funds_run: "run_ok (funds_stages fc_ref demo_db)"
  by (simp add: funds_stages_def update_median_feed_def STEEMIT_FEED_INTERVAL_BLOCKS_def update_virtual_supply_def
      price_is_null_def price_eq_def default_price_def clear_null_account_balance_def drain_null_def drain_null_vesting_def
      shrink_supply_def process_funds_def process_funds_hf16_def block_rewards_def inflation_rate_def schedule_weight_def
      grow_funds_def create_vesting_def get_vesting_share_price_def asset_mul_price_def asset_symbol_name_def
      price_convert_def price_mult_def adjust_proxied_witness_votes.simps adjust_witness_votes_def votes_of_def
      process_conversions_def STEEMIT_NULL_ACCOUNT_def STEEMIT_PROXY_TO_SELF_ACCOUNT_def STEEMIT_100_PERCENT_def
      STEEMIT_BLOCKS_PER_YEAR_def STEEMIT_MAX_WITNESSES_def push_virtual_operation_def
      default_witness_def run_ok_def lookup_eval fc_ref_eval demo_defs Let_def cdiv_def)

theorem funds_stages_conserve_witness:
  "\<exists>db'. funds_stages fc_ref demo_db = Inr db' \<and> gaps db' = (0, 0, 0)"
proof -
  obtain db' where run: "funds_stages fc_ref demo_db = Inr db'" using demo_funds_run by (rule run_okE)
  from funds_stages_conserve [OF fc_ref_num demo_ledger_ok demo_null_sane run] demo_balanced run show ?thesis by auto
qed

text \<open>
  C4. The loop of the weekly withdrawals of vesting shares ends, and conserves GOLOS and vesting
  shares: it has one outcome, which every bound on the rounds above the number of withdrawals that
  are due reaches, and when that outcome is a state the ledger is balanced as before. The rounded
  shares of the routes never exceed what leaves the account, and the rest is converted. The
  conditions are that the routes of every account allot at most 100 percent (which
  \<^verbatim>\<open>set_withdraw_vesting_route\<close> enforces), that shares are 64-bit amounts, and that the clock is
  more than a week before the end of 32-bit time.
\<close>

theorem vesting_withdrawals_conserve:
  assumes "fc_num fc" "ledger_ok db" "withdraw_ready rs db" "withdraw_clock_ok db"
  shows "\<exists>r. (\<forall>rounds > withdrawals_due db. process_vesting_withdrawals fc rounds db = Some r) \<and>
    (\<forall>db'. r = Inr db' \<longrightarrow> ledger_ok db' \<and> gaps db' = gaps db \<and> withdraw_ready rs db')"
proof -
  obtain r where r: "\<And>rounds. withdrawals_due db < rounds \<Longrightarrow> process_vesting_withdrawals fc rounds db = Some r"
    using process_vesting_withdrawals_ends [OF assms(2,4)] by blast
  have "ledger_ok db' \<and> gaps db' = gaps db \<and> withdraw_ready rs db'" if "r = Inr db'" for db'
    using process_vesting_withdrawals_moves [OF assms(1-3) r [OF lessI, unfolded that]] moves_ok moves_gaps by blast
  with r show ?thesis by blast
qed

definition demo_routes :: "withdraw_vesting_route_object list" where
  "demo_routes = [\<lparr>wvr_id = 1, wvr_from_account = 1, wvr_to_account = 2, wvr_percent = 3333, wvr_auto_vest = False\<rparr>]"

definition demo_withdraw_db :: database where
  "demo_withdraw_db = demo_db\<lparr>db_routes := demo_routes, db_accounts :=
     [(demo_account 1 ''alice'' 1000000 5000 3000000)\<lparr>acc_to_withdraw := 130000, acc_vesting_withdraw_rate := vests_of 10001,
        acc_next_vesting_withdrawal := 900, acc_withdraw_routes := 1\<rparr>,
      demo_account 2 ''bob'' 500000 0 1000000, demo_account 0 ''null'' 0 0 0]\<rparr>"

lemma demo_withdraw_ok: "ledger_ok demo_withdraw_db" "gaps demo_withdraw_db = (0, 0, 0)"
  "withdraw_ready demo_routes demo_withdraw_db" "withdraw_clock_ok demo_withdraw_db" "withdrawals_due demo_withdraw_db = 1"
  by (simp_all add: demo_withdraw_db_def ledger_ok_def account_ok_def dgp_ok_def gaps_def gap_steem_def gap_sbd_def
      gap_vests_def held_def account_steem_def account_sbd_def account_vests_def withdraw_ready_def route_total_def
      demo_routes_def STEEMIT_100_PERCENT_def withdraw_clock_ok_def withdrawals_due_def rounds_due_def
      STEEMIT_VESTING_WITHDRAW_INTERVAL_SECONDS_def time_maximum_def head_block_time_def demo_defs)

text \<open>A third of the 10001 shares goes to bob as GOLOS; alice withdraws again a week later.\<close>

definition demo_withdrawn_db :: database where
  "demo_withdrawn_db = demo_db\<lparr>db_routes := demo_routes, db_accounts :=
     [(demo_account 1 ''alice'' 1001667 5000 2989999)\<lparr>acc_to_withdraw := 130000, acc_withdrawn := 10001,
        acc_vesting_withdraw_rate := vests_of 10001, acc_next_vesting_withdrawal := 605700, acc_withdraw_routes := 1\<rparr>,
      demo_account 2 ''bob'' 500833 0 1000000, demo_account 0 ''null'' 0 0 0],
     db_dgp := demo_dgp\<lparr>dgp_total_vesting_fund_steem := golos_of 997500, dgp_total_vesting_shares := vests_of 3989999\<rparr>,
     db_vops := [Fill_vesting_withdraw ''alice'' ''bob'' (vests_of 3333) (golos_of 833),
       Fill_vesting_withdraw ''alice'' ''alice'' (vests_of 10001) (golos_of 1667)]\<rparr>"

lemma demo_withdraw_run: "process_vesting_withdrawals fc_ref 2 demo_withdraw_db = Some (Inr demo_withdrawn_db)"
  by (simp add: demo_withdrawn_db_def process_vesting_withdrawals_def withdrawal_queue_def next_in_queue_def withdraw_vesting_of_def
      withdraw_amount_def routes_of_def route_vests_def route_steem_def route_share_def get_account_by_id_def
      withdrawn_account_def get_vesting_share_price_def asset_mul_price_def asset_symbol_name_def price_convert_def
      price_mult_def adjust_proxied_witness_votes.simps adjust_witness_votes_def votes_of_def
      push_virtual_operation_def time_maximum_def demo_routes_def demo_withdraw_db_def cmod_def cdiv_def time_plus_def
      STEEMIT_PROXY_TO_SELF_ACCOUNT_def STEEMIT_100_PERCENT_def STEEMIT_VESTING_WITHDRAW_INTERVAL_SECONDS_def
      numeral_2_eq_2 lookup_eval fc_ref_eval demo_defs Let_def)

theorem vesting_withdrawals_conserve_witness:
  "process_vesting_withdrawals fc_ref 2 demo_withdraw_db = Some (Inr demo_withdrawn_db) \<and> gaps demo_withdrawn_db = (0, 0, 0)"
  using vesting_withdrawals_conserve [OF fc_ref_num demo_withdraw_ok(1,3,4)] demo_withdraw_ok(2,5) demo_withdraw_run
  by fastforce

text \<open>
  C5. The stages at the end of a block (vesting and savings withdrawals, the liquidity reward, the
  virtual supply, account recovery, the expiry of escrows, declined voting rights) come to an end
  and conserve every token, under the conditions of the vesting withdrawals: routes of at most 100
  percent, 64-bit shares and a clock more than a week before the end of 32-bit time.
\<close>

theorem closing_stages_conserve:
  assumes "fc_num fc" "ledger_ok db" "withdraw_ready rs db" "withdraw_clock_ok db"
  shows "\<exists>r. (\<forall>rounds > withdrawals_due db. closing_stages fc rounds db = Some r) \<and>
    (\<forall>db'. r = Inr db' \<longrightarrow> ledger_ok db' \<and> gaps db' = gaps db)"
proof -
  obtain r0 where "\<And>rounds. withdrawals_due db < rounds \<Longrightarrow> process_vesting_withdrawals fc rounds db = Some r0"
    using process_vesting_withdrawals_ends [OF assms(2,4)] by blast
  then obtain r where r: "\<And>rounds. withdrawals_due db < rounds \<Longrightarrow> closing_stages fc rounds db = Some r"
    by (simp add: closing_stages_def)
  have "ledger_ok db' \<and> gaps db' = gaps db" if "r = Inr db'" for db'
    using closing_stages_moves [OF assms(1-3) r [OF lessI, unfolded that]] moves_ok moves_gaps by blast
  with r show ?thesis by blast
qed

text \<open>Stages are evaluated one after the other.\<close>

lemma stage_weak_cong: "m = m' \<Longrightarrow> bindR m f = bindR m' f"
  by simp

lemma demo_closing_run: "\<exists>db'. closing_stages fc_ref 2 demo_withdraw_db = Some (Inr db')"
  unfolding closing_stages_def demo_withdraw_run option.map bindR_Inr
  by (simp add: demo_withdrawn_db_def
      process_savings_withdraws_def due_savings_def pay_liquidity_reward_def update_virtual_supply_def price_is_null_def
      price_eq_def default_price_def account_recovery_processing_def clear_owner_history_def clear_recovery_requests_def
      due_recovery_changes_def expire_escrow_ratification_def expired_escrows_def process_decline_voting_rights_def
      due_declines_def lookup_eval fc_ref_eval demo_defs Let_def cong: stage_weak_cong)

theorem closing_stages_conserve_witness:
  "\<exists>db'. closing_stages fc_ref 2 demo_withdraw_db = Some (Inr db') \<and> gaps db' = (0, 0, 0)"
proof -
  obtain db' where run: "closing_stages fc_ref 2 demo_withdraw_db = Some (Inr db')" using demo_closing_run by blast
  from closing_stages_conserve [OF fc_ref_num demo_withdraw_ok(1,3,4)] demo_withdraw_ok(2,5) run
  show ?thesis by fastforce
qed

end
