(* ===== verification/Transaction_Properties.thy ===== *)
theory Transaction_Properties
  imports Transaction Operation_Properties
begin

text \<open>
  The signature check of transactions is sound: what it accepts is authorised by the keys that
  signed, in the unbounded meaning of authorities of \<open>Authority_Properties\<close>.
\<close>

section \<open>Sound checks\<close>

definition auth_met ::
  "authority_getter \<Rightarrow> public_key_type set \<Rightarrow> account_name_type set \<Rightarrow> authority \<Rightarrow> bool" where
  "auth_met G K A auth \<longleftrightarrow> (\<exists>T. (\<forall>a \<in> T. grants G K A a) \<and> meets K T auth)"

text \<open>
  \<open>sound_state\<close>: the keys are \<open>K\<close> and every approved account consents. A check is sound for a
  statement \<open>P\<close> when it keeps such states and its positive answer implies \<open>P\<close>.
\<close>

definition sound_state ::
  "authority_getter \<Rightarrow> public_key_type set \<Rightarrow> account_name_type set \<Rightarrow> sign_state \<Rightarrow> bool" where
  "sound_state G K A s \<longleftrightarrow> usable_keys s = K \<and> approvals s \<subseteq> {a. grants G K A a}"

definition sound_check ::
  "authority_getter \<Rightarrow> public_key_type set \<Rightarrow> account_name_type set \<Rightarrow> sign_check \<Rightarrow> bool \<Rightarrow> bool" where
  "sound_check G K A c P \<longleftrightarrow> (\<forall>s b s'. c s = Inr (b, s') \<longrightarrow> sound_state G K A s \<longrightarrow>
     sound_state G K A s' \<and> (b \<longrightarrow> P))"

lemma sound_checkD:
  "sound_check G K A c P \<Longrightarrow> c s = Inr (b, s') \<Longrightarrow> sound_state G K A s \<Longrightarrow>
   sound_state G K A s' \<and> (b \<longrightarrow> P)"
  unfolding sound_check_def by blast

lemma sound_check_weaken: "sound_check G K A c P \<Longrightarrow> (P \<Longrightarrow> Q) \<Longrightarrow> sound_check G K A c Q"
  unfolding sound_check_def by blast

lemma sound_check_authority: "sound_check G K A (check_authority G auth) (auth_met G K A auth)"
  unfolding sound_check_def
proof (intro allI impI)
  fix s b s'
  assume run: "check_authority G auth s = Inr (b, s')" and s: "sound_state G K A s"
  then have "approvals s \<subseteq> consent G A s" by (simp add: sound_state_def consent_def)
  then have "sound_step G A s s' \<and> (b \<longrightarrow> meets (usable_keys s) (consent G A s) auth)"
    using check_authority_sound_at [of G A "max_recursion s"] run
    unfolding sound_at_def check_authority_def by blast
  then show "sound_state G K A s' \<and> (b \<longrightarrow> auth_met G K A auth)"
    using s by (auto simp: sound_step_def sound_state_def consent_def auth_met_def)
qed

lemma auth_met_grants: "G i = Inr auth \<Longrightarrow> auth_met G K A auth \<Longrightarrow> grants G K A i"
  by (auto simp: auth_met_def intro: grants.authority)

lemma sound_check_account: "sound_check G K A (check_account_authority G i) (grants G K A i)"
  unfolding sound_check_def
proof (intro allI impI)
  fix s b s'
  assume run: "check_account_authority G i s = Inr (b, s')" and s: "sound_state G K A s"
  show "sound_state G K A s' \<and> (b \<longrightarrow> grants G K A i)"
  proof (cases "map_of (approved_by s) i = None")
    case True
    then obtain auth where "G i = Inr auth" "check_authority G auth s = Inr (b, s')"
      using run by (auto simp: check_account_authority_def)
    then show ?thesis
      using sound_checkD [OF sound_check_authority _ s] auth_met_grants by blast
  next
    case False
    then have "i \<in> approvals s" using map_of_approved [of s i] by simp
    moreover from False have "b" "s' = s\<lparr>approved_by := flat_put i True (approved_by s)\<rparr>"
      using run by (auto simp: check_account_authority_def split: if_splits)
    ultimately show ?thesis using s by (auto simp: sound_state_def)
  qed
qed

lemma sound_check_of:
  "sound_check G K A (check_of G getter i) (\<exists>auth. getter i = Inr auth \<and> auth_met G K A auth)"
  unfolding sound_check_def check_of_def
proof (intro allI impI)
  fix s b s'
  assume "bindR (getter i) (\<lambda>auth. check_authority G auth s) = Inr (b, s')" and s: "sound_state G K A s"
  then obtain auth where "getter i = Inr auth" "check_authority G auth s = Inr (b, s')" by auto
  then show "sound_state G K A s' \<and> (b \<longrightarrow> (\<exists>auth. getter i = Inr auth \<and> auth_met G K A auth))"
    using sound_checkD [OF sound_check_authority _ s] by blast
qed

lemma sound_any_check:
  "(\<And>c. c \<in> set cs \<Longrightarrow> sound_check G K A c P) \<Longrightarrow> sound_check G K A (any_check cs) P"
proof (induction cs)
  case (Cons c cs)
  have c: "sound_check G K A c P" and cs: "sound_check G K A (any_check cs) P" using Cons by simp_all
  show ?case
    unfolding sound_check_def
  proof (intro allI impI)
    fix s b s'
    assume "any_check (c # cs) s = Inr (b, s')" and s: "sound_state G K A s"
    then obtain ok t where t: "c s = Inr (ok, t)" "(if ok then Inr (True, t) else any_check cs t) = Inr (b, s')"
      by auto
    show "sound_state G K A s' \<and> (b \<longrightarrow> P)"
      using sound_checkD [OF c t(1) s] t(2) sound_checkD [OF cs, of t b s'] by (cases ok) auto
  qed
qed (simp add: sound_check_def)

lemma collect_missing_sound:
  assumes "\<And>x. x \<in> set xs \<Longrightarrow> sound_check G K A (c x) (P x)"
  shows "collect_missing c xs s = Inr (missing, s') \<Longrightarrow> sound_state G K A s \<Longrightarrow>
    sound_state G K A s' \<and> (missing = [] \<longrightarrow> (\<forall>x \<in> set xs. P x))"
  using assms
proof (induction xs arbitrary: s missing)
  case (Cons x xs)
  from Cons.prems(1) obtain ok t miss where t: "c x s = Inr (ok, t)"
    "collect_missing c xs t = Inr (miss, s')" "missing = (if ok then miss else x # miss)"
    by auto
  have x: "sound_state G K A t \<and> (ok \<longrightarrow> P x)"
    by (rule sound_checkD [OF Cons.prems(3) t(1) Cons.prems(2)]) simp
  then have "sound_state G K A s' \<and> (miss = [] \<longrightarrow> (\<forall>x \<in> set xs. P x))"
    using Cons.IH [OF t(2)] Cons.prems(3) by simp
  with x t(3) show ?case by auto
qed simp

lemma grants_mono: "grants G K A a \<Longrightarrow> A \<subseteq> B \<Longrightarrow> grants G K B a"
  by (induction rule: grants.induct) (auto intro: grants.intros)

lemma sound_state_mono: "sound_state G K A s \<Longrightarrow> A \<subseteq> B \<Longrightarrow> sound_state G K B s"
  by (auto simp: sound_state_def intro: grants_mono)

lemma sound_state_approve:
  "sound_state G K A s \<Longrightarrow> sound_state G K (insert i A) (s\<lparr>approved_by := flat_put i b (approved_by s)\<rparr>)"
  by (auto simp: sound_state_def intro: grants_mono grants.approved)

text \<open>
  The owner loop: an account is approved from outside, or it may rely on the accounts that were
  passed before it.
\<close>

lemma owner_loop_sound:
  "owner_loop G getter approved is s = Inr ([], s') \<Longrightarrow> sound_state G K A s \<Longrightarrow> is = xs @ i # ys \<Longrightarrow>
   i \<in> set approved \<or> (\<exists>auth. getter i = Inr auth \<and> auth_met G K (A \<union> set xs) auth)"
proof (induction "is" arbitrary: s A xs)
  case (Cons j js)
  have ok: "(if j \<in> set approved then Inr (True, s) else check_of G getter j s) = Inr (ok, t) \<Longrightarrow>
    sound_state G K A t \<and> (ok \<longrightarrow> j \<in> set approved \<or> (\<exists>auth. getter j = Inr auth \<and> auth_met G K A auth))" for ok t
    using sound_checkD [OF sound_check_of _ Cons.prems(2)] Cons.prems(2) by (auto split: if_split_asm)
  obtain t where t: "(if j \<in> set approved then Inr (True, s) else check_of G getter j s) = Inr (True, t)"
    "owner_loop G getter approved js (t\<lparr>approved_by := flat_put j True (approved_by t)\<rparr>) = Inr ([], s')"
    using Cons.prems(1) by (auto split: if_split_asm)
  note j = ok [OF t(1)]
  show ?case
  proof (cases xs)
    case Nil
    then show ?thesis using j Cons.prems(3) by simp
  next
    case (Cons x zs)
    then have "x = j" "js = zs @ i # ys" using \<open>j # js = xs @ i # ys\<close> by simp_all
    then show ?thesis
      using Cons.IH [OF t(2) sound_state_approve [OF conjunct1 [OF j]], of zs] Cons by simp
  qed
qed simp

section \<open>The starting state\<close>

lemma provided_fold: "fst ` set (fold (\<lambda>k. flat_put k b) ks m) = set ks \<union> fst ` set m"
proof (induction ks arbitrary: m)
  case (Cons k ks)
  then show ?case by (simp add: insert_commute)
qed simp

lemma start_state_sound:
  "sound_state G (set sigs) (insert ''temp'' (set approved)) (start_state sigs max_depth approved)"
  by (auto simp: sound_state_def start_state_def mk_sign_state_def usable_keys_def approvals_def
      provided_fold intro: grants.approved)

section \<open>Sufficient authority\<close>

text \<open>
  What the chain takes for sufficient: acceptance, or the complaint that there are more signatures
  or approvals than needed, which comes last. The complaint cannot come from the callbacks.
\<close>

definition irrelevant :: "golos_error \<Rightarrow> bool" where
  "irrelevant e \<longleftrightarrow> (case e of Tx_irrelevant_authority _ _ \<Rightarrow> True | _ \<Rightarrow> False)"

definition sufficient :: "unit res \<Rightarrow> bool" where
  "sufficient r \<longleftrightarrow> (\<forall>e. r = Inl e \<longrightarrow> irrelevant e)"

definition errs :: "'a res \<Rightarrow> bool" where
  "errs m \<longleftrightarrow> (\<forall>e. m = Inl e \<longrightarrow> \<not> irrelevant e)"

lemma errs_simps [simp]: "errs (Inr x)" "errs (Inl e) \<longleftrightarrow> \<not> irrelevant e"
  by (simp_all add: errs_def)

lemma errs_bind: "errs m \<Longrightarrow> (\<And>x. m = Inr x \<Longrightarrow> errs (f x)) \<Longrightarrow> errs (bindR m f)"
  by (cases m) simp_all

lemma not_irrelevant [simp]: "\<not> irrelevant (missing_authority w xs s)" "\<not> irrelevant (Tx_missing_authority w xs ks)"
  "\<not> irrelevant (Logic_error m)" "\<not> irrelevant (Missing_object m)"
  by (simp_all add: irrelevant_def missing_authority_def)

lemma check_accounts_errs:
  assumes "\<And>i. errs (G i)"
  shows "errs (check_accounts G levels thr as tw s)" "errs (check_authority_at G levels auth s)"
  using assms
  by (induction G levels thr as tw s and G levels auth s rule: check_accounts_check_authority_at.induct)
    (auto intro!: errs_bind split: nat.split prod.split simp: Let_def)

lemma collect_missing_errs: "(\<And>x s. errs (c x s)) \<Longrightarrow> errs (collect_missing c xs s)"
  by (induction xs arbitrary: s) (auto intro!: errs_bind)

lemma any_check_errs: "(\<And>c s. c \<in> set cs \<Longrightarrow> errs (c s)) \<Longrightarrow> errs (any_check cs s)"
  by (induction cs arbitrary: s) (auto intro!: errs_bind)

lemma check_errs:
  assumes "\<And>i. errs (G i)"
  shows "errs (check_authority G auth s)" "errs (check_account_authority G i s)"
    "(\<And>i. errs (getter i)) \<Longrightarrow> errs (check_of G getter i s)"
  using check_accounts_errs [OF assms] assms
  by (auto simp: check_authority_def check_account_authority_def check_of_def intro!: errs_bind)

lemma owner_loop_errs:
  assumes "\<And>i. errs (G i)" "\<And>i. errs (getter i)"
  shows "errs (owner_loop G getter approved is s)"
  using check_errs(3) [OF assms] by (induction "is" arbitrary: s) (auto simp: Let_def intro!: errs_bind)

lemma sufficient_bind: "sufficient (bindR m f) \<Longrightarrow> errs m \<Longrightarrow> (\<And>x. m = Inr x \<Longrightarrow> sufficient (f x) \<Longrightarrow> thesis) \<Longrightarrow> thesis"
  by (cases m) (auto simp: sufficient_def errs_def)

lemma sufficient_fail: "sufficient (if b then Inl e else m) \<Longrightarrow> \<not> irrelevant e \<Longrightarrow> \<not> b \<and> sufficient m"
  by (cases b) (auto simp: sufficient_def)

section \<open>The meaning of a sufficient check\<close>

text \<open>
  \<open>posting_met\<close>, \<open>active_met\<close>: the keys \<open>K\<close> and the consent of the accounts \<open>A\<close> satisfy the
  authority of an account that an operation requires.
\<close>

definition posting_met :: "authority_getter \<Rightarrow> authority_getter \<Rightarrow> authority_getter \<Rightarrow> public_key_type set \<Rightarrow>
   account_name_type set \<Rightarrow> account_name_type \<Rightarrow> bool" where
  "posting_met get_active get_owner get_posting K A i \<longleftrightarrow> grants get_posting K A i \<or>
     (\<exists>auth. (get_active i = Inr auth \<or> get_owner i = Inr auth) \<and> auth_met get_posting K A auth)"

definition active_met :: "authority_getter \<Rightarrow> authority_getter \<Rightarrow> public_key_type set \<Rightarrow>
   account_name_type set \<Rightarrow> account_name_type \<Rightarrow> bool" where
  "active_met get_active get_owner K A i \<longleftrightarrow> grants get_active K A i \<or>
     (\<exists>auth. get_owner i = Inr auth \<and> auth_met get_active K A auth)"

lemma sound_posting: "sound_check get_posting K A
  (any_check [check_account_authority get_posting i, check_of get_posting get_active i, check_of get_posting get_owner i])
  (posting_met get_active get_owner get_posting K A i)"
  using sound_check_weaken [OF sound_check_account [of get_posting K A i], of "posting_met get_active get_owner get_posting K A i"]
    sound_check_weaken [OF sound_check_of [of get_posting K A get_active i], of "posting_met get_active get_owner get_posting K A i"]
    sound_check_weaken [OF sound_check_of [of get_posting K A get_owner i], of "posting_met get_active get_owner get_posting K A i"]
  by (intro sound_any_check) (auto simp: posting_met_def)

lemma sound_active: "sound_check get_active K A
  (any_check [check_account_authority get_active i, check_of get_active get_owner i]) (active_met get_active get_owner K A i)"
  using sound_check_weaken [OF sound_check_account [of get_active K A i], of "active_met get_active get_owner K A i"]
    sound_check_weaken [OF sound_check_of [of get_active K A get_owner i], of "active_met get_active get_owner K A i"]
  by (intro sound_any_check) (auto simp: active_met_def)

lemma verify_posting_sound:
  assumes "sufficient (verify_posting posting sigs get_active get_owner get_posting depth approved)"
    "\<And>i. errs (get_active i)" "\<And>i. errs (get_owner i)" "\<And>i. errs (get_posting i)" "i \<in> set posting"
  shows "posting_met get_active get_owner get_posting (set sigs) (insert ''temp'' (set approved)) i"
proof -
  let ?c = "\<lambda>i. any_check [check_account_authority get_posting i, check_of get_posting get_active i, check_of get_posting get_owner i]"
  have "errs (collect_missing ?c posting (start_state sigs depth approved))"
    using check_errs [OF assms(4)] assms(2,3) by (intro collect_missing_errs any_check_errs) auto
  then obtain s where "collect_missing ?c posting (start_state sigs depth approved) = Inr ([], s)"
    using assms(1) unfolding verify_posting_def
    by (elim sufficient_bind) (auto dest: sufficient_fail)
  from collect_missing_sound [OF sound_posting this start_state_sound] assms(5) show ?thesis by simp
qed

lemma verify_active_sound:
  assumes "sufficient (verify_active active owner other sigs get_active get_owner depth aa oa)"
    "\<And>i. errs (get_active i)" "\<And>i. errs (get_owner i)"
  defines "A \<equiv> insert ''temp'' (set aa \<union> set oa)"
  shows "\<forall>auth \<in> set other. auth_met get_active (set sigs) A auth"
    "\<forall>i \<in> set active. active_met get_active get_owner (set sigs) A i"
    "owner = xs @ i # ys \<Longrightarrow> i \<in> set oa \<or> (\<exists>auth. get_owner i = Inr auth \<and> auth_met get_active (set sigs) (A \<union> set xs) auth)"
proof -
  let ?c = "\<lambda>i. any_check [check_account_authority get_active i, check_of get_active get_owner i]"
  have e: "errs (collect_missing (check_authority get_active) other s)" "errs (collect_missing ?c active s)"
    "errs (owner_loop get_active get_owner oa owner s)" for s
    using check_errs [OF assms(2)] assms(3) owner_loop_errs [OF assms(2,3)]
    by (auto intro!: collect_missing_errs any_check_errs)
  obtain s t u where run:
    "collect_missing (check_authority get_active) other (start_state sigs depth (aa @ oa)) = Inr ([], s)"
    "collect_missing ?c active s = Inr ([], t)" "owner_loop get_active get_owner oa owner t = Inr ([], u)"
    using assms(1) unfolding verify_active_def
    by (elim sufficient_bind [OF _ e(1)]) (auto dest!: sufficient_fail elim!: sufficient_bind [OF _ e(2)] sufficient_bind [OF _ e(3)])
  have st: "sound_state get_active (set sigs) A (start_state sigs depth (aa @ oa))"
    using start_state_sound [of get_active sigs "aa @ oa" depth] by (simp add: A_def)
  note o = collect_missing_sound [OF sound_check_authority run(1) st]
  then show "\<forall>auth \<in> set other. auth_met get_active (set sigs) A auth" by simp
  note a = collect_missing_sound [OF sound_active run(2) conjunct1 [OF o]]
  then show "\<forall>i \<in> set active. active_met get_active get_owner (set sigs) A i" by simp
  show "owner = xs @ i # ys \<Longrightarrow> i \<in> set oa \<or> (\<exists>auth. get_owner i = Inr auth \<and> auth_met get_active (set sigs) (A \<union> set xs) auth)"
    using owner_loop_sound [OF run(3) conjunct1 [OF a]] by blast
qed

text \<open>What a set of keys and approvals has to satisfy for a list of operations.\<close>

definition authorised ::
  "operation list \<Rightarrow> public_key_type set \<Rightarrow> authority_getter \<Rightarrow> authority_getter \<Rightarrow> authority_getter \<Rightarrow>
   account_name_type set \<Rightarrow> account_name_type set \<Rightarrow> account_name_type set \<Rightarrow> bool" where
  "authorised ops K get_active get_owner get_posting AA OA PA \<longleftrightarrow>
     (let (active, owner, posting, other) = get_required_authorities ops ([], [], [], []); A = insert ''temp'' (AA \<union> OA) in
      if posting \<noteq> [] then active = [] \<and> owner = [] \<and> other = [] \<and>
        (\<forall>i \<in> set posting. posting_met get_active get_owner get_posting K (insert ''temp'' PA) i)
      else (\<forall>auth \<in> set other. auth_met get_active K A auth) \<and>
        (\<forall>i \<in> set active. active_met get_active get_owner K A i) \<and>
        (\<forall>xs i ys. owner = xs @ i # ys \<longrightarrow> i \<in> OA \<or>
          (\<exists>auth. get_owner i = Inr auth \<and> auth_met get_active K (A \<union> set xs) auth)))"

lemma sufficient_authorised:
  assumes "sufficient (verify_authority ops sigs get_active get_owner get_posting depth aa oa pa)"
    "\<And>i. errs (get_active i)" "\<And>i. errs (get_owner i)" "\<And>i. errs (get_posting i)"
  shows "authorised ops (set sigs) get_active get_owner get_posting (set aa) (set oa) (set pa)"
proof -
  obtain active owner posting other where req: "get_required_authorities ops ([], [], [], []) = (active, owner, posting, other)"
    by (metis prod_cases4)
  show ?thesis
  proof (cases "posting = []")
    case True
    then have "sufficient (verify_active active owner other sigs get_active get_owner depth aa oa)"
      using assms(1) req by (simp add: verify_authority_def)
    from verify_active_sound [OF this assms(2,3)] True req show ?thesis by (simp add: authorised_def) blast
  next
    case False
    have *: "active = [] \<and> owner = [] \<and> other = [] \<and>
      sufficient (verify_posting posting sigs get_active get_owner get_posting depth pa)"
      using assms(1) req False by (auto simp: verify_authority_def sufficient_def split: if_split_asm)
    then show ?thesis
      using verify_posting_sound [OF conjunct2 [OF conjunct2 [OF conjunct2 [OF *]]] assms(2-4)] False req by (simp add: authorised_def)
  qed
qed

section \<open>Theorems\<close>

text \<open>
  C32. \<^verbatim>\<open>verify_authority\<close> is sound. When it accepts the operations of a transaction with a set of
  signing keys and approvals of accounts, or finds only that some of them are not needed, then:
  posting operations are not mixed with others, and for every account whose posting authority is
  required the keys and approvals satisfy its posting, active or owner authority; otherwise they
  satisfy every explicitly listed authority, the active or owner authority of every account whose
  active authority is required, and the owner authority of every account whose owner authority is
  required and that has not approved as an owner (which may count accounts checked before it). The
  only account that needs neither a key nor an approval is the open account \<^verbatim>\<open>temp\<close>.
\<close>

theorem verify_authority_sound:
  assumes "sufficient (verify_authority ops sigs get_active get_owner get_posting max_depth aa oa pa)"
    "\<And>i. errs (get_active i)" "\<And>i. errs (get_owner i)" "\<And>i. errs (get_posting i)"
  shows "authorised ops (set sigs) get_active get_owner get_posting (set aa) (set oa) (set pa)"
  by (rule sufficient_authorised [OF assms])

definition alice_getter :: authority_getter where
  "alice_getter a = (if a = ''alice''
     then Inr \<lparr>weight_threshold = 1, account_auths = [], key_auths = [(''K1'', 1)]\<rparr>
     else Inl (Missing_object ''account''))"

lemma alice_vote_verified:
  "verify_authority [demo_vote] [''K1''] alice_getter alice_getter alice_getter 2 [] [] [] = Inr ()"
  by (simp add: verify_authority_def get_required_authorities_def operation_get_required_authorities_def
      required_auth_defs verify_posting_def start_state_def mk_sign_state_def check_account_authority_def
      alice_getter_def check_authority_def signed_by_def assert_unused_approvals_def
      remove_unused_signatures_def filter_unused_approvals_def)

theorem verify_authority_sound_witness:
  "authorised [demo_vote] {''K1''} alice_getter alice_getter alice_getter {} {} {}"
  using verify_authority_sound [of "[demo_vote]" "[''K1'']" alice_getter alice_getter alice_getter 2 "[]" "[]" "[]"]
    alice_vote_verified by (simp add: sufficient_def alice_getter_def)

section \<open>Signature keys\<close>

lemma insert_keys_result:
  "insert_keys recover sigs result = Inr keys \<Longrightarrow> sorted_wrt (<) result \<Longrightarrow>
   sorted_wrt (<) keys \<and> length keys = length result + length sigs \<and>
   set keys = set result \<union> {k. \<exists>sig \<in> set sigs. recover sig = Inr k}"
proof (induction sigs arbitrary: result)
  case (Cons sig sigs)
  then obtain k where k: "recover sig = Inr k" "k \<notin> set result"
    "insert_keys recover sigs (flat_ins k result) = Inr keys"
    by (auto split: if_splits)
  have "length (flat_ins k result) = Suc (length result)"
    using k(2) by (induction result) auto
  with Cons.IH [OF k(3) sorted_flat_ins [OF Cons.prems(2)]] k(1) show ?case by auto
qed auto

text \<open>
  \<^verbatim>\<open>get_signature_keys\<close> returns the set of keys recovered from the signatures, one for each
  signature: it throws when a signature does not recover or when two recover to the same key.
\<close>

theorem get_signature_keys_exact:
  assumes "get_signature_keys cr chain_id t = Inr keys"
  shows "sorted_wrt (<) keys \<and> length keys = length (signatures t) \<and>
    set keys = {k. \<exists>sig \<in> set (signatures t).
      ecc_recover cr sig (sig_digest cr chain_id (transaction.truncate t)) True = Inr k}"
  using insert_keys_result [of _ "signatures t" "[]" keys] assms
  by (auto simp: get_signature_keys_def)

section \<open>Minimal signatures\<close>

lemma sorted_flat_ins_filter:
  assumes "sorted_wrt (<) r" "k \<in> set r"
  shows "flat_ins k (filter (\<lambda>x. x \<noteq> k) r) = (r :: 'a :: linorder list)"
proof -
  let ?l = "flat_ins k (filter (\<lambda>x. x \<noteq> k) r)"
  have "sorted_wrt (<) ?l" using assms(1) by (intro sorted_flat_ins sorted_wrt_filter)
  moreover have "set ?l = set r" using assms(2) by auto
  ultimately show ?thesis
    using assms(1) strict_sorted_equal by (metis strict_sorted_iff)
qed

lemma minimize_loop_verified:
  "minimize_loop verify ks r = Inr r' \<Longrightarrow> verify r = Inr () \<Longrightarrow> sorted_wrt (<) r \<Longrightarrow> set ks \<subseteq> set r \<Longrightarrow>
   distinct ks \<Longrightarrow> verify r' = Inr () \<and> set r' \<subseteq> set r \<and> sorted_wrt (<) r'"
proof (induction ks arbitrary: r)
  case (Cons k ks)
  let ?r = "filter (\<lambda>x. x \<noteq> k) r"
  have sorted: "sorted_wrt (<) ?r" using Cons.prems(3) by (rule sorted_wrt_filter)
  have sub: "set ks \<subseteq> set ?r" using Cons.prems(4,5) by auto
  show ?case
  proof (cases "verify ?r")
    case (Inl e)
    have same: "flat_ins k ?r = r" using sorted_flat_ins_filter [of r k] Cons.prems(3,4) by simp
    have "minimize_loop verify ks r = Inr r'"
      using Cons.prems(1) Inl same by (auto simp: Let_def split: if_splits)
    then show ?thesis using Cons.IH [of r] Cons.prems by auto
  next
    case (Inr u)
    then have "minimize_loop verify ks ?r = Inr r'" "verify ?r = Inr ()"
      using Cons.prems(1) by (simp_all add: Let_def)
    then show ?thesis using Cons.IH [of ?r] sorted sub Cons.prems(5) by auto
  qed
qed simp

lemma fold_flat_ins_sorted: "sorted_wrt (<) s \<Longrightarrow> sorted_wrt (<) (fold flat_ins ks s)"
  by (induction ks arbitrary: s) (auto intro: sorted_flat_ins)

text \<open>
  \<^verbatim>\<open>minimize_required_signatures\<close> only drops signatures it can do without: the keys it returns are
  among those of \<^verbatim>\<open>get_required_signatures\<close>, and if the latter authorise the transaction then so do
  the returned ones.
\<close>

theorem minimize_required_signatures_sound:
  assumes "get_required_signatures cr chain_id avail get_active get_owner get_posting max_depth t = Inr s"
    and "verify_authority (operations t) s get_active get_owner get_posting max_depth [] [] [] = Inr ()"
    and "minimize_required_signatures cr chain_id avail get_active get_owner get_posting max_depth t = Inr r"
  shows "set r \<subseteq> set s \<and>
    verify_authority (operations t) r get_active get_owner get_posting max_depth [] [] [] = Inr ()"
proof -
  let ?v = "\<lambda>r. verify_authority (operations t) r get_active get_owner get_posting max_depth [] [] []"
  obtain ks where s: "s = fold flat_ins ks []"
    using assms(1) by (auto simp: get_required_signatures_def Let_def split_beta split: if_splits)
  have sorted: "sorted_wrt (<) s" unfolding s by (rule fold_flat_ins_sorted) simp
  have "sorted_wrt (<) (fold flat_ins s [])" "set (fold flat_ins s []) = set s"
    by (simp_all add: fold_flat_ins_sorted fold_flat_ins_set)
  then have same: "fold flat_ins s [] = s"
    using sorted strict_sorted_equal by (metis strict_sorted_iff)
  have "minimize_loop ?v s s = Inr r"
    using assms(1,3) same by (simp add: minimize_required_signatures_def)
  from minimize_loop_verified [OF this assms(2) sorted subset_refl]
  show ?thesis using sorted strict_sorted_iff by auto
qed

definition tx_demo :: tx_lib where
  "tx_demo = crypto_lib.extend crypto_demo
     (tx_lib.fields (\<lambda>t. ''tx'') (\<lambda>t. concat (signatures t)))"

definition vote_tx :: "string list \<Rightarrow> signed_transaction" where
  "vote_tx sigs = \<lparr>ref_block_num = 0, ref_block_prefix = 0, tx_expiration = 0,
     operations = [demo_vote], signatures = sigs\<rparr>"

lemmas tx_demo_defs = tx_demo_def crypto_demo_def crypto_lib.defs tx_lib.defs vote_tx_def
  get_signature_keys_def sig_digest_def

theorem get_signature_keys_exact_witness:
  "sorted_wrt (<) [''K1'', ''K2''] \<and> length [''K1'', ''K2''] = length (signatures (vote_tx [''K2'', ''K1'']))"
proof -
  have "get_signature_keys tx_demo ''chain'' (vote_tx [''K2'', ''K1'']) = Inr [''K1'', ''K2'']"
    by (simp add: tx_demo_defs less_char_def)
  from get_signature_keys_exact [OF this] show ?thesis by blast
qed

lemmas verify_eval = verify_authority_def get_required_authorities_def
  operation_get_required_authorities_def required_auth_defs verify_posting_def start_state_def
  mk_sign_state_def check_account_authority_def alice_getter_def check_authority_def signed_by_def
  assert_unused_approvals_def remove_unused_signatures_def filter_unused_approvals_def check_of_def

lemma vote_tx_required:
  "get_required_signatures tx_demo ''chain'' [''K1''] alice_getter alice_getter alice_getter 2 (vote_tx []) =
     Inr [''K1'']"
  by (auto simp: get_required_signatures_def verify_eval tx_demo_defs)

lemma vote_tx_minimized:
  "minimize_required_signatures tx_demo ''chain'' [''K1''] alice_getter alice_getter alice_getter 2 (vote_tx []) =
     Inr [''K1'']"
  by (simp add: minimize_required_signatures_def vote_tx_required)
    (simp add: verify_eval vote_tx_def is_missing_auth_def missing_authority_def)

theorem minimize_required_signatures_sound_witness:
  "verify_authority (operations (vote_tx [])) [''K1''] alice_getter alice_getter alice_getter 2 [] [] [] = Inr ()"
proof -
  have "verify_authority (operations (vote_tx [])) [''K1''] alice_getter alice_getter alice_getter 2 [] [] [] = Inr ()"
    by (simp add: vote_tx_def alice_vote_verified)
  from minimize_required_signatures_sound [OF vote_tx_required this vote_tx_minimized]
  show ?thesis by blast
qed

end
