(* ===== verification/Fork_Properties.thy ===== *)
theory Fork_Properties
  imports Fork_Database
begin

text \<open>
  The fork database keeps a forest of blocks: what links, numbers and identifiers promise
  (\<open>fork_ok\<close>), that every operation keeps it, and what \<^verbatim>\<open>fetch_branch_from\<close> and \<^verbatim>\<open>push_block\<close> return.
\<close>

section \<open>The invariant\<close>

definition item_ok :: "crypto_lib \<Rightarrow> fork_item \<Rightarrow> bool" where
  "item_ok cr i \<longleftrightarrow> fi_num i = block_num (fi_data i) \<and> fi_id i = signed_block_id cr (fi_data i) \<and> fi_num i \<noteq> 0"

definition pair_ok :: "fork_item \<Rightarrow> fork_item \<Rightarrow> bool" where
  "pair_ok i j \<longleftrightarrow> (fi_ptr i = fi_ptr j \<longrightarrow> i = j) \<and> (fi_id i = fi_id j \<longrightarrow> fi_data i = fi_data j) \<and>
     (fi_prev i = Some (fi_ptr j) \<longrightarrow> previous_id i = fi_id j)"

definition fork_ok :: "crypto_lib \<Rightarrow> fork_database \<Rightarrow> bool" where
  "fork_ok cr db \<longleftrightarrow> distinct (map fi_id (fdb_index db)) \<and>
     (\<forall>i \<in> set (live db). item_ok cr i \<and> fi_ptr i < fdb_next_ptr db \<and>
        (\<forall>p. fi_prev i = Some p \<longrightarrow> p < fdb_next_ptr db)) \<and>
     (\<forall>i \<in> set (live db). \<forall>j \<in> set (live db). pair_ok i j)"

text \<open>The predecessor relation, by identifier.\<close>

definition follows :: "fork_item \<Rightarrow> fork_item \<Rightarrow> bool" where
  "follows i j \<longleftrightarrow> previous_id i = fi_id j"

lemma find_id_Some: "find_id k items = Some i \<Longrightarrow> i \<in> set items \<and> fi_id i = k"
  by (auto simp: find_id_def find_Some_iff)

lemma find_id_None: "find_id k items = None \<longleftrightarrow> k \<notin> fi_id ` set items"
  by (auto simp: find_id_def find_None_iff)

lemma index_live: "i \<in> set (fdb_index db) \<Longrightarrow> i \<in> set (live db)"
  by (simp add: live_def)

lemma head_live: "fdb_head db = Some h \<Longrightarrow> h \<in> set (live db)"
  by (simp add: live_def)

lemma lock_Some: "lock db p = Some j \<Longrightarrow> j \<in> set (live db) \<and> p = Some (fi_ptr j)"
  by (auto simp: lock_def find_Some_iff split: option.splits)

lemma follows_num:
  assumes "item_ok cr i" "item_ok cr j" "follows i j"
  shows "fi_num i = fi_num j + 1"
proof -
  have "fi_num i = (num_from_id (previous_id i) + 1) mod 2 ^ 32"
    using assms(1) by (simp add: item_ok_def block_num_def previous_id_def)
  also have "num_from_id (previous_id i) = fi_num j"
    using assms(2,3)
    by (simp add: item_ok_def follows_def signed_block_id_def num_from_id_header)
      (simp add: block_num_def signed_block_header.truncate_def)
  finally have e: "fi_num i = (fi_num j + 1) mod 2 ^ 32" .
  have "fi_num j < 2 ^ 32" using assms(2) by (simp add: item_ok_def block_num_def)
  then show ?thesis using e assms(1) by (cases "fi_num j + 1 = 2 ^ 32") (auto simp: item_ok_def)
qed

lemma lock_prev:
  assumes "fork_ok cr db" "i \<in> set (live db)" "lock db (fi_prev i) = Some j"
  shows "j \<in> set (live db)" "follows i j" "fi_num i = fi_num j + 1"
proof -
  show j: "j \<in> set (live db)" using lock_Some [OF assms(3)] by blast
  show f: "follows i j"
    using assms(1,2) j lock_Some [OF assms(3)] by (auto simp: fork_ok_def pair_ok_def follows_def)
  show "fi_num i = fi_num j + 1"
    using follows_num f assms(1,2) j unfolding fork_ok_def by blast
qed

lemma same_id_same_block:
  assumes "fork_ok cr db" "i \<in> set (live db)" "j \<in> set (live db)" "fi_id i = fi_id j"
  shows "previous_id i = previous_id j" "fi_num i = fi_num j"
proof -
  have "fi_data i = fi_data j" using assms unfolding fork_ok_def pair_ok_def by blast
  then show "previous_id i = previous_id j" "fi_num i = fi_num j"
    using assms(1-3) by (auto simp: previous_id_def fork_ok_def item_ok_def)
qed

section \<open>Every operation keeps the invariant\<close>

lemma fork_ok_fewer:
  assumes "fork_ok cr db" "distinct (map fi_id (fdb_index db'))" "set (live db') \<subseteq> set (live db)"
    "fdb_next_ptr db \<le> fdb_next_ptr db'"
  shows "fork_ok cr db'"
  using assms unfolding fork_ok_def by (meson less_le_trans subsetD)

lemma distinct_filter_ids: "distinct (map f xs) \<Longrightarrow> distinct (map f (filter P xs))"
  by (induction xs) auto

lemma new_fork_ok: "fork_ok cr new_fork_database"
  by (simp add: fork_ok_def new_fork_database_def live_def)

lemma reset_ok: "fork_ok cr db \<Longrightarrow> fork_ok cr (fdb_reset db)"
  by (rule fork_ok_fewer) (auto simp: fdb_reset_def live_def)

lemma remove_ok: "fork_ok cr db \<Longrightarrow> fork_ok cr (fdb_remove i db)"
  by (rule fork_ok_fewer) (auto simp: fdb_remove_def live_def fork_ok_def distinct_filter_ids)

lemma set_head_ok: "fork_ok cr db \<Longrightarrow> h \<in> set (live db) \<Longrightarrow> fork_ok cr (set_head h db)"
  by (rule fork_ok_fewer) (auto simp: set_head_def live_def fork_ok_def split: option.splits)

lemma pop_ok:
  assumes "fork_ok cr db" "fdb_pop_block db = Inr db'"
  shows "fork_ok cr db'"
proof -
  obtain h j where "fdb_head db = Some h" "lock db (fi_prev h) = Some j" "db' = set_head j db"
    using assms(2) by (auto simp: fdb_pop_block_def set_head_def split: option.splits)
  then show ?thesis using set_head_ok assms(1) lock_Some by blast
qed

lemma set_max_size_ok: "fork_ok cr db \<Longrightarrow> fork_ok cr (set_max_size s db)"
  by (rule fork_ok_fewer)
    (auto simp: set_max_size_def live_def fork_ok_def distinct_filter_ids Let_def split: option.splits)

text \<open>A block with a new identifier, or one that is stored already, and with a number that has not wrapped.\<close>

definition admissible :: "crypto_lib \<Rightarrow> signed_block \<Rightarrow> fork_database \<Rightarrow> bool" where
  "admissible cr b db \<longleftrightarrow> block_num b \<noteq> 0 \<and>
     (\<forall>j \<in> set (live db). fi_id j = signed_block_id cr b \<longrightarrow> fi_data j = b)"

lemma index_insert_distinct:
  "distinct (map fi_id items) \<Longrightarrow> distinct (map fi_id (index_insert it items))"
  by (auto simp: index_insert_def find_id_None image_iff)

lemma set_index_insert: "set (index_insert it items) \<subseteq> insert it (set items)"
  by (auto simp: index_insert_def)

lemma fork_ok_insert:
  assumes ok: "fork_ok cr db" and adm: "admissible cr b db"
    and it: "fi_num it = block_num b" "fi_id it = signed_block_id cr b" "fi_data it = b" "fi_ptr it = fdb_next_ptr db"
    and prev: "fi_prev it = None \<or> (\<exists>p \<in> set (live db). fi_prev it = Some (fi_ptr p) \<and> fi_id p = previous_id it)"
    and new: "distinct (map fi_id (fdb_index db'))" "set (live db') \<subseteq> insert it (set (live db))"
      "fdb_next_ptr db' = fdb_next_ptr db + 1"
  shows "fork_ok cr db'"
proof -
  have old: "item_ok cr i \<and> fi_ptr i < fdb_next_ptr db \<and> (\<forall>p. fi_prev i = Some p \<longrightarrow> p < fdb_next_ptr db)"
    if "i \<in> set (live db)" for i using ok that by (simp add: fork_ok_def)
  have pairs: "pair_ok i j" if "i \<in> set (live db)" "j \<in> set (live db)" for i j
    using ok that by (simp add: fork_ok_def)
  have it_ok: "item_ok cr it" using it adm by (simp add: item_ok_def admissible_def)
  have it_prev: "p < fdb_next_ptr db" if "fi_prev it = Some p" for p using prev that old by auto
  have self: "pair_ok it it" using it_prev it(4) by (auto simp: pair_ok_def)
  have mixed: "pair_ok it j" "pair_ok j it" if j: "j \<in> set (live db)" for j
  proof -
    have "fi_ptr j \<noteq> fi_ptr it" "fi_prev j \<noteq> Some (fi_ptr it)" using old [OF j] it(4) by auto
    moreover have "fi_id j = fi_id it \<longrightarrow> fi_data j = fi_data it" using adm it j by (simp add: admissible_def)
    moreover have "fi_prev it = Some (fi_ptr j) \<longrightarrow> previous_id it = fi_id j"
    proof
      assume e: "fi_prev it = Some (fi_ptr j)"
      then obtain p where "p \<in> set (live db)" "fi_ptr p = fi_ptr j" "fi_id p = previous_id it" using prev by auto
      then show "previous_id it = fi_id j" using pairs [of p j] j by (simp add: pair_ok_def)
    qed
    ultimately show "pair_ok it j" "pair_ok j it" by (auto simp: pair_ok_def)
  qed
  have "pair_ok i j" if "i \<in> set (live db')" "j \<in> set (live db')" for i j
    using that new(2) by (cases "i = it"; cases "j = it") (auto intro: self mixed pairs)
  moreover have "item_ok cr i \<and> fi_ptr i < fdb_next_ptr db' \<and> (\<forall>p. fi_prev i = Some p \<longrightarrow> p < fdb_next_ptr db')"
    if "i \<in> set (live db')" for i
  proof (cases "i = it")
    case True
    then show ?thesis using it_ok it(4) it_prev new(3) by fastforce
  next
    case False
    then have "i \<in> set (live db)" using that new(2) by blast
    then show ?thesis using old [of i] new(3) by fastforce
  qed
  ultimately show ?thesis using new(1) by (simp add: fork_ok_def)
qed

lemma start_block_ok:
  assumes "fork_ok cr db" "admissible cr b db"
  shows "fork_ok cr (start_block cr b db)"
proof (rule fork_ok_insert [OF assms])
  show "distinct (map fi_id (fdb_index (start_block cr b db)))"
    using assms(1) by (simp add: start_block_def make_item_def Let_def index_insert_distinct fork_ok_def)
  show "set (live (start_block cr b db)) \<subseteq> insert (fst (make_item cr b db)) (set (live db))"
    using set_index_insert [of "fst (make_item cr b db)" "fdb_index db"]
    by (auto simp: start_block_def make_item_def live_def Let_def)
qed (simp_all add: make_item_def start_block_def)

lemma link_item_Inr:
  assumes "link_item it db = Inr it'"
  shows "\<exists>pr. it' = it\<lparr>fi_prev := pr\<rparr> \<and>
    (pr = fi_prev it \<or> (\<exists>p \<in> set (fdb_index db). pr = Some (fi_ptr p) \<and> fi_id p = previous_id it))"
  using assms by (force simp: link_item_def split: if_splits option.splits dest: find_id_Some)

text \<open>What a successful push does.\<close>

lemma push_block_cases:
  assumes "fdb_push_block cr b db = Inr (h, db')"
  obtains it pr where "it = (fst (make_item cr b db))\<lparr>fi_prev := pr\<rparr>"
    "pr = None \<or> (\<exists>p \<in> set (fdb_index db). pr = Some (fi_ptr p) \<and> fi_id p = bh_previous b)"
    "fdb_index db' = index_insert it (fdb_index db)" "fdb_unlinked_index db' = fdb_unlinked_index db"
    "fdb_next_ptr db' = fdb_next_ptr db + 1" "h = fdb_head db'"
    "fdb_head db' = (case fdb_head db of None \<Rightarrow> Some it
       | Some h0 \<Rightarrow> if fi_num it > fi_num h0 then Some it else Some h0)"
proof -
  let ?i0 = "fst (make_item cr b db)" and ?db0 = "snd (make_item cr b db)"
  obtain it where l: "link_item ?i0 ?db0 = Inr it" and h: "h = fdb_head db'"
    and d: "db' = (let db1 = ?db0\<lparr>fdb_index := index_insert it (fdb_index ?db0)\<rparr> in
       case fdb_head db1 of None \<Rightarrow> db1\<lparr>fdb_head := Some it\<rparr>
       | Some h \<Rightarrow> if fi_num it > fi_num h then db1\<lparr>fdb_head := Some it\<rparr> else db1)"
    using assms unfolding fdb_push_block_def fdb_push_item_def case_prod_beta Let_def bindR_eq_Inr by auto
  obtain pr where "it = ?i0\<lparr>fi_prev := pr\<rparr>"
    "pr = fi_prev ?i0 \<or> (\<exists>p \<in> set (fdb_index ?db0). pr = Some (fi_ptr p) \<and> fi_id p = previous_id ?i0)"
    using link_item_Inr [OF l] by blast
  then show thesis
    using d h by (intro that [of it pr])
      (auto simp: make_item_def previous_id_def Let_def split: option.splits)
qed

lemma push_block_ok:
  assumes "fork_ok cr db" "admissible cr b db" "fdb_push_block cr b db = Inr (h, db')"
  shows "fork_ok cr db'"
proof -
  obtain it pr where p: "it = (fst (make_item cr b db))\<lparr>fi_prev := pr\<rparr>"
    "pr = None \<or> (\<exists>p \<in> set (fdb_index db). pr = Some (fi_ptr p) \<and> fi_id p = bh_previous b)"
    "fdb_index db' = index_insert it (fdb_index db)" "fdb_unlinked_index db' = fdb_unlinked_index db"
    "fdb_next_ptr db' = fdb_next_ptr db + 1" "h = fdb_head db'"
    "fdb_head db' = (case fdb_head db of None \<Rightarrow> Some it
       | Some h0 \<Rightarrow> if fi_num it > fi_num h0 then Some it else Some h0)"
    by (rule push_block_cases [OF assms(3)])
  show ?thesis
  proof (rule fork_ok_insert [OF assms(1,2), of it])
    show "distinct (map fi_id (fdb_index db'))"
      using assms(1) by (simp add: p(3) index_insert_distinct fork_ok_def)
    show "set (live db') \<subseteq> insert it (set (live db))"
      using set_index_insert [of it "fdb_index db"]
      by (cases "fdb_head db") (auto simp: live_def p(3,4,7))
    show "fi_prev it = None \<or> (\<exists>p \<in> set (live db). fi_prev it = Some (fi_ptr p) \<and> fi_id p = previous_id it)"
      using p(1,2) by (auto simp: make_item_def previous_id_def live_def)
  qed (use p in \<open>simp_all add: make_item_def\<close>)
qed

section \<open>The states the database can reach\<close>

inductive fork_step :: "crypto_lib \<Rightarrow> fork_database \<Rightarrow> fork_database \<Rightarrow> bool" for cr where
  reset: "fork_step cr db (fdb_reset db)"
| pop: "fdb_pop_block db = Inr db' \<Longrightarrow> fork_step cr db db'"
| start: "admissible cr b db \<Longrightarrow> fork_step cr db (start_block cr b db)"
| push: "admissible cr b db \<Longrightarrow> fdb_push_block cr b db = Inr (h, db') \<Longrightarrow> fork_step cr db db'"
| max_size: "fork_step cr db (set_max_size s db)"
| head: "h \<in> set (live db) \<Longrightarrow> fork_step cr db (set_head h db)"
| remove: "fork_step cr db (fdb_remove i db)"

lemma fork_step_ok: "fork_step cr db db' \<Longrightarrow> fork_ok cr db \<Longrightarrow> fork_ok cr db'"
  by (induction rule: fork_step.induct)
    (auto intro: reset_ok pop_ok start_block_ok push_block_ok set_max_size_ok set_head_ok remove_ok)

inductive fork_reachable :: "crypto_lib \<Rightarrow> fork_database \<Rightarrow> bool" for cr where
  new: "fork_reachable cr new_fork_database"
| step: "fork_reachable cr db \<Longrightarrow> fork_step cr db db' \<Longrightarrow> fork_reachable cr db'"

lemma fork_reachable_ok: "fork_reachable cr db \<Longrightarrow> fork_ok cr db"
  by (induction rule: fork_reachable.induct) (auto intro: new_fork_ok fork_step_ok)

section \<open>The head after a push\<close>

definition longest_head :: "fork_database \<Rightarrow> bool" where
  "longest_head db \<longleftrightarrow> (\<forall>i \<in> set (fdb_index db). \<exists>h. fdb_head db = Some h \<and> fi_num i \<le> fi_num h)"

lemma index_insert_has: "\<exists>i \<in> set (index_insert it items). fi_id i = fi_id it"
  by (cases "find_id (fi_id it) items") (auto simp: index_insert_def dest: find_id_Some)

lemma push_block_head:
  assumes "longest_head db" "fdb_push_block cr b db = Inr (h, db')"
  shows "longest_head db'" "h = fdb_head db'" "\<exists>it. h = Some it \<and> block_num b \<le> fi_num it"
    "\<exists>i \<in> set (fdb_index db'). fi_id i = signed_block_id cr b"
proof -
  obtain it pr where p: "it = (fst (make_item cr b db))\<lparr>fi_prev := pr\<rparr>"
    "pr = None \<or> (\<exists>p \<in> set (fdb_index db). pr = Some (fi_ptr p) \<and> fi_id p = bh_previous b)"
    "fdb_index db' = index_insert it (fdb_index db)" "fdb_unlinked_index db' = fdb_unlinked_index db"
    "fdb_next_ptr db' = fdb_next_ptr db + 1" "h = fdb_head db'"
    "fdb_head db' = (case fdb_head db of None \<Rightarrow> Some it
       | Some h0 \<Rightarrow> if fi_num it > fi_num h0 then Some it else Some h0)"
    by (rule push_block_cases [OF assms(2)])
  have it: "fi_num it = block_num b" "fi_id it = signed_block_id cr b" using p(1) by (simp_all add: make_item_def)
  show "h = fdb_head db'" by (fact p(6))
  show "\<exists>it. h = Some it \<and> block_num b \<le> fi_num it"
    using it(1) by (auto simp: p(6,7) split: option.splits)
  show "longest_head db'"
    using assms(1) set_index_insert [of it "fdb_index db"]
    by (fastforce simp: longest_head_def p(3,7) split: option.splits)
  show "\<exists>i \<in> set (fdb_index db'). fi_id i = signed_block_id cr b"
    using index_insert_has [of it "fdb_index db"] by (simp add: p(3) it(2))
qed

section \<open>Branches\<close>

lemma branch_down_spec:
  assumes "fork_ok cr db" "i \<in> set (live db)"
  shows "\<exists>r. branch_down db n i acc = Some r \<and>
    (\<forall>xs j. r = Inr (xs, j) \<longrightarrow> (\<exists>zs. xs = acc @ zs \<and> j \<in> set (live db) \<and> set zs \<subseteq> set (live db) \<and>
       successively follows (zs @ [j]) \<and> hd (zs @ [j]) = i \<and> (\<forall>z \<in> set zs. n < fi_num z) \<and>
       (if n < fi_num i then fi_num j = n else j = i \<and> zs = [])))"
  using assms(2)
proof (induction "fi_num i" arbitrary: i acc rule: less_induct)
  case less
  have num: "block_num (fi_data i) = fi_num i" using assms(1) less.prems by (auto simp: fork_ok_def item_ok_def)
  show ?case
  proof (cases "n < fi_num i \<and> lock db (fi_prev i) \<noteq> None")
    case True
    then obtain p where l: "lock db (fi_prev i) = Some p" by blast
    note lp = lock_prev [OF assms(1) less.prems l]
    from less.hyps [of p "acc @ [i]"] lp obtain r where r: "branch_down db n p (acc @ [i]) = Some r"
      "\<forall>xs j. r = Inr (xs, j) \<longrightarrow> (\<exists>zs. xs = (acc @ [i]) @ zs \<and> j \<in> set (live db) \<and> set zs \<subseteq> set (live db) \<and>
         successively follows (zs @ [j]) \<and> hd (zs @ [j]) = p \<and> (\<forall>z \<in> set zs. n < fi_num z) \<and>
         (if n < fi_num p then fi_num j = n else j = p \<and> zs = []))" by auto
    have e: "branch_down db n i acc = Some r" using True r(1) num l by (subst branch_down.simps) simp
    show ?thesis
    proof (intro exI [of _ r] conjI allI impI)
      fix xs j assume "r = Inr (xs, j)"
      with r(2) obtain zs where zs: "xs = acc @ i # zs" "j \<in> set (live db)" "set zs \<subseteq> set (live db)"
        "successively follows (zs @ [j])" "hd (zs @ [j]) = p" "\<forall>z \<in> set zs. n < fi_num z"
        "if n < fi_num p then fi_num j = n else j = p \<and> zs = []" by auto
      have "successively follows (i # zs @ [j])"
        using zs(4,5) lp(2) by (cases "zs @ [j]") auto
      moreover have "fi_num j = n" using zs(7) lp(3) True by (auto split: if_splits)
      ultimately show "\<exists>zs. xs = acc @ zs \<and> j \<in> set (live db) \<and> set zs \<subseteq> set (live db) \<and>
         successively follows (zs @ [j]) \<and> hd (zs @ [j]) = i \<and> (\<forall>z \<in> set zs. n < fi_num z) \<and>
         (if n < fi_num i then fi_num j = n else j = i \<and> zs = [])"
        using zs True less.prems by (intro exI [of _ "i # zs"]) auto
    qed (fact e)
  next
    case False
    then show ?thesis using less.prems num
      by (subst branch_down.simps) (auto split: option.splits)
  qed
qed

text \<open>Two branches of the same length that meet below their last blocks and nowhere above.\<close>

definition parallel :: "fork_item list \<Rightarrow> fork_item list \<Rightarrow> bool" where
  "parallel zs ws \<longleftrightarrow> length zs = length ws \<and> zs \<noteq> [] \<and> successively follows zs \<and> successively follows ws \<and>
     previous_id (last zs) = previous_id (last ws) \<and>
     list_all2 (\<lambda>z w. fi_num z = fi_num w) zs ws \<and>
     list_all2 (\<lambda>z w. previous_id z \<noteq> previous_id w) (butlast zs) (butlast ws)"

lemma parallel_Cons:
  "parallel zs ws \<Longrightarrow> follows i (hd zs) \<Longrightarrow> follows j (hd ws) \<Longrightarrow> fi_num i = fi_num j \<Longrightarrow>
   previous_id i \<noteq> previous_id j \<Longrightarrow> parallel (i # zs) (j # ws)"
  by (cases zs; cases ws) (auto simp: parallel_def)

lemma branch_both_spec:
  assumes "fork_ok cr db" "i \<in> set (live db)" "j \<in> set (live db)" "fi_num i = fi_num j"
  shows "\<exists>r. branch_both db i j acc1 acc2 = Some r \<and>
    (\<forall>xs ys. r = Inr (xs, ys) \<longrightarrow> (\<exists>zs ws. xs = acc1 @ zs \<and> ys = acc2 @ ws \<and> parallel zs ws \<and>
       hd zs = i \<and> hd ws = j \<and> set zs \<subseteq> set (live db) \<and> set ws \<subseteq> set (live db)))"
  using assms(2-4)
proof (induction "fi_num i" arbitrary: i j acc1 acc2 rule: less_induct)
  case less
  show ?case
  proof (cases "previous_id i \<noteq> previous_id j \<and> lock db (fi_prev i) \<noteq> None \<and> lock db (fi_prev j) \<noteq> None")
    case True
    then obtain p q where l: "lock db (fi_prev i) = Some p" "lock db (fi_prev j) = Some q" by blast
    note lp = lock_prev [OF assms(1) less.prems(1) l(1)] lock_prev [OF assms(1) less.prems(2) l(2)]
    from less.hyps [of p q "acc1 @ [i]" "acc2 @ [j]"] lp less.prems(3) obtain r
      where r: "branch_both db p q (acc1 @ [i]) (acc2 @ [j]) = Some r"
      "\<forall>xs ys. r = Inr (xs, ys) \<longrightarrow> (\<exists>zs ws. xs = (acc1 @ [i]) @ zs \<and> ys = (acc2 @ [j]) @ ws \<and> parallel zs ws \<and>
         hd zs = p \<and> hd ws = q \<and> set zs \<subseteq> set (live db) \<and> set ws \<subseteq> set (live db))" by auto
    have e: "branch_both db i j acc1 acc2 = Some r" using True r(1) l by (subst branch_both.simps) simp
    show ?thesis
    proof (intro exI [of _ r] conjI allI impI)
      fix xs ys assume "r = Inr (xs, ys)"
      with r(2) obtain zs ws where zw: "xs = acc1 @ i # zs" "ys = acc2 @ j # ws" "parallel zs ws"
        "hd zs = p" "hd ws = q" "set zs \<subseteq> set (live db)" "set ws \<subseteq> set (live db)" by auto
      then show "\<exists>zs ws. xs = acc1 @ zs \<and> ys = acc2 @ ws \<and> parallel zs ws \<and>
         hd zs = i \<and> hd ws = j \<and> set zs \<subseteq> set (live db) \<and> set ws \<subseteq> set (live db)"
        using lp less.prems True by (intro exI [of _ "i # zs"] exI [of _ "j # ws"]) (auto intro: parallel_Cons)
    qed (fact e)
  next
    case False
    then show ?thesis using less.prems
      by (subst branch_both.simps) (auto simp: parallel_def split: option.splits)
  qed
qed

lemma follows_below:
  assumes "successively follows (i # zs)" "\<forall>z \<in> set (i # zs). item_ok cr z" "z \<in> set zs"
  shows "fi_num z < fi_num i"
  using assms
proof (induction zs arbitrary: i)
  case (Cons j zs)
  then have "fi_num i = fi_num j + 1" using follows_num [of cr i j] by simp
  then show ?case using Cons by (cases "z = j") fastforce+
qed simp

lemma parallel_meet:
  assumes ok: "fork_ok cr db"
  shows "parallel zs ws \<Longrightarrow> set zs \<subseteq> set (live db) \<Longrightarrow> set ws \<subseteq> set (live db) \<Longrightarrow>
    x \<in> set zs \<Longrightarrow> y \<in> set ws \<Longrightarrow> fi_id x = fi_id y \<Longrightarrow> x = last zs \<and> y = last ws"
proof (induction zs arbitrary: ws)
  case (Cons i zs)
  then obtain j ws' where ws: "ws = j # ws'" by (cases ws) auto
  have items: "\<forall>z \<in> set (i # zs). item_ok cr z" "\<forall>z \<in> set (j # ws'). item_ok cr z"
    using ok Cons.prems(2,3) ws by (auto simp: fork_ok_def)
  show ?case
  proof (cases "zs = []")
    case True
    then show ?thesis using Cons.prems ws by (simp add: parallel_def)
  next
    case False
    then have ne: "ws' \<noteq> []" using Cons.prems(1) ws by (auto simp: parallel_def)
    have tail: "parallel zs ws'" and diff: "previous_id i \<noteq> previous_id j" and num: "fi_num i = fi_num j"
      using Cons.prems(1) False ne by (auto simp: parallel_def ws successively_Cons)
    have below: "fi_num z < fi_num i" if "z \<in> set zs" for z
      using follows_below [OF _ items(1) that] Cons.prems(1) by (simp add: parallel_def)
    have below': "fi_num z < fi_num j" if "z \<in> set ws'" for z
      using follows_below [OF _ items(2) that] Cons.prems(1) by (simp add: parallel_def ws)
    have same: "previous_id x = previous_id y" "fi_num x = fi_num y"
      using same_id_same_block [OF ok, of x y] Cons.prems ws by auto
    have "x \<in> set zs \<and> y \<in> set ws'"
      using Cons.prems(4,5) same diff num below below' ws by (cases "x = i"; cases "y = j") force+
    then show ?thesis using Cons.IH [OF tail _ _ _ _ Cons.prems(6)] Cons.prems(2,3) False ne ws by auto
  qed
qed (simp add: parallel_def)

lemma successively_join:
  "successively P (zs @ [j]) \<Longrightarrow> ws \<noteq> [] \<Longrightarrow> hd ws = j \<Longrightarrow> successively P ws \<Longrightarrow> successively P (zs @ ws)"
  by (cases ws) (auto simp: successively_append_iff)

text \<open>What a pair of branches from two blocks to their common ancestor is.\<close>

definition branches_meet :: "fork_item \<Rightarrow> fork_item \<Rightarrow> fork_item list \<Rightarrow> fork_item list \<Rightarrow> bool" where
  "branches_meet x y xs ys \<longleftrightarrow> xs \<noteq> [] \<and> ys \<noteq> [] \<and> hd xs = x \<and> hd ys = y \<and>
     successively follows xs \<and> successively follows ys \<and> previous_id (last xs) = previous_id (last ys) \<and>
     (\<forall>i \<in> set xs. \<forall>j \<in> set ys. fi_id i = fi_id j \<longrightarrow> i = last xs \<and> j = last ys)"

lemma branches_meet_upper:
  assumes ok: "fork_ok cr db" and z: "parallel zs ws" "set zs \<subseteq> set (live db)" "set ws \<subseteq> set (live db)"
    and up: "successively follows (us @ [hd zs])" "set us \<subseteq> set (live db)" "\<forall>u \<in> set us. fi_num (hd zs) < fi_num u"
  shows "branches_meet (hd (us @ [hd zs])) (hd ws) (us @ zs) ws"
    and "branches_meet (hd ws) (hd (us @ [hd zs])) ws (us @ zs)"
proof -
  have ne: "zs \<noteq> []" "ws \<noteq> []" and top: "fi_num (hd zs) = fi_num (hd ws)"
    using z(1) by (auto simp: parallel_def) (cases zs; cases ws; simp)
  have high: "fi_num j \<le> fi_num (hd zs)" if "j \<in> set ws" for j
  proof -
    have ws: "hd ws # tl ws = ws" using ne by simp
    have "\<forall>z \<in> set ws. item_ok cr z" using ok z(3) unfolding fork_ok_def by blast
    then have "j \<in> set (tl ws) \<Longrightarrow> fi_num j < fi_num (hd ws)"
      using follows_below [of "hd ws" "tl ws" cr j] z(1) unfolding ws parallel_def by blast
    then show ?thesis using that top ws by (metis order_less_imp_le order_refl set_ConsD)
  qed
  have meet: "i = last zs \<and> j = last ws" if "i \<in> set (us @ zs)" "j \<in> set ws" "fi_id i = fi_id j" for i j
  proof -
    have "fi_num i = fi_num j" using same_id_same_block [OF ok _ _ that(3)] that z up by auto
    then have "i \<notin> set us" using high [OF that(2)] up(3) by fastforce
    then show ?thesis using parallel_meet [OF ok z] that by auto
  qed
  have "successively follows (us @ zs)" using successively_join [OF up(1) ne(1)] z(1) by (simp add: parallel_def)
  moreover have "hd (us @ zs) = hd (us @ [hd zs])" using ne by (cases us) simp_all
  ultimately show "branches_meet (hd (us @ [hd zs])) (hd ws) (us @ zs) ws"
    using meet ne z(1) by (auto simp: branches_meet_def parallel_def)
  then show "branches_meet (hd ws) (hd (us @ [hd zs])) ws (us @ zs)"
    by (auto simp: branches_meet_def)
qed

text \<open>A walk from \<open>i\<close> down to height \<open>n\<close>: the blocks passed and the one reached.\<close>

definition walked :: "fork_database \<Rightarrow> nat \<Rightarrow> fork_item \<Rightarrow> fork_item list \<Rightarrow> fork_item \<Rightarrow> bool" where
  "walked db n i zs j \<longleftrightarrow> j \<in> set (live db) \<and> set zs \<subseteq> set (live db) \<and> successively follows (zs @ [j]) \<and>
     hd (zs @ [j]) = i \<and> (\<forall>z \<in> set zs. n < fi_num z) \<and> (if n < fi_num i then fi_num j = n else j = i \<and> zs = [])"

lemma branch_down_walked:
  assumes "fork_ok cr db" "i \<in> set (live db)"
  shows "\<exists>r. branch_down db n i [] = Some r \<and> (\<forall>xs j. r = Inr (xs, j) \<longrightarrow> walked db n i xs j)"
  using branch_down_spec [OF assms, of n "[]"] by (auto simp: walked_def)

lemma branches_join:
  assumes ok: "fork_ok cr db" and w: "walked db (fi_num y) x us i" "walked db (fi_num i) y vs j"
    and zw: "parallel zs ws" "hd zs = i" "hd ws = j" "set zs \<subseteq> set (live db)" "set ws \<subseteq> set (live db)"
  shows "branches_meet x y (us @ zs) (vs @ ws)"
proof -
  have num: "fi_num i = fi_num j" using w by (auto simp: walked_def split: if_splits)
  have "us = [] \<or> vs = [] \<and> fi_num i = fi_num y" using w by (auto simp: walked_def split: if_splits)
  then show ?thesis
  proof
    assume us: "us = []"
    have "parallel ws zs" using zw(1) by (auto simp: parallel_def list_all2_conv_all_nth)
    moreover have "successively follows (vs @ [hd ws])" "set vs \<subseteq> set (live db)"
      "\<forall>v \<in> set vs. fi_num (hd ws) < fi_num v" using w(2) num zw(3) by (simp_all add: walked_def)
    ultimately have "branches_meet (hd zs) (hd (vs @ [hd ws])) zs (vs @ ws)"
      using branches_meet_upper(2) [OF ok _ zw(5,4)] by blast
    then show ?thesis using us w zw(2,3) by (simp add: walked_def)
  next
    assume v: "vs = [] \<and> fi_num i = fi_num y"
    have "successively follows (us @ [hd zs])" "set us \<subseteq> set (live db)"
      "\<forall>u \<in> set us. fi_num (hd zs) < fi_num u" using w(1) v zw(2) by (simp_all add: walked_def)
    then have "branches_meet (hd (us @ [hd zs])) (hd ws) (us @ zs) ws"
      using branches_meet_upper(1) [OF ok zw(1,4,5)] by blast
    then show ?thesis using v w zw(2,3) by (simp add: walked_def)
  qed
qed

lemma fetch_branch_spec:
  assumes ok: "fork_ok cr db" and x: "find_id a (fdb_index db) = Some x" and y: "find_id b (fdb_index db) = Some y"
  shows "\<exists>r. fetch_branch_from a b db = Some r \<and> (\<forall>xs ys. r = Inr (xs, ys) \<longrightarrow> branches_meet x y xs ys)"
proof -
  have xy: "x \<in> set (live db)" "y \<in> set (live db)"
    using x y by (auto dest!: find_id_Some intro: index_live)
  have num: "block_num (fi_data i) = fi_num i" if "i \<in> set (live db)" for i
    using ok that by (auto simp: fork_ok_def item_ok_def)
  obtain r1 where r1: "branch_down db (fi_num y) x [] = Some r1"
    "\<forall>us i. r1 = Inr (us, i) \<longrightarrow> walked db (fi_num y) x us i"
    using branch_down_walked [OF ok xy(1)] by blast
  show ?thesis
  proof (cases r1)
    case (Inl e)
    then show ?thesis using r1(1) x y num [OF xy(2)] by (simp add: fetch_branch_from_def)
  next
    case (Inr ui)
    then obtain us i where ui: "r1 = Inr (us, i)" and wi: "walked db (fi_num y) x us i" using r1(2) by (cases ui) auto
    have i: "i \<in> set (live db)" using wi by (simp add: walked_def)
    obtain r2 where r2: "branch_down db (fi_num i) y [] = Some r2"
      "\<forall>vs j. r2 = Inr (vs, j) \<longrightarrow> walked db (fi_num i) y vs j"
      using branch_down_walked [OF ok xy(2)] by blast
    show ?thesis
    proof (cases r2)
      case (Inl e)
      then show ?thesis using r1(1) r2(1) ui x y num xy i by (simp add: fetch_branch_from_def)
    next
      case (Inr vj)
      then obtain vs j where vj: "r2 = Inr (vs, j)" and wj: "walked db (fi_num i) y vs j" using r2(2) by (cases vj) auto
      have j: "j \<in> set (live db)" "fi_num i = fi_num j" using wi wj by (auto simp: walked_def split: if_splits)
      have "fetch_branch_from a b db = branch_both db i j us vs"
        using r1(1) r2(1) ui vj x y num xy i by (simp add: fetch_branch_from_def)
      moreover obtain r where r: "branch_both db i j us vs = Some r"
        "\<forall>xs ys. r = Inr (xs, ys) \<longrightarrow> (\<exists>zs ws. xs = us @ zs \<and> ys = vs @ ws \<and> parallel zs ws \<and>
           hd zs = i \<and> hd ws = j \<and> set zs \<subseteq> set (live db) \<and> set ws \<subseteq> set (live db))"
        using branch_both_spec [OF ok i j, of us vs] by blast
      moreover have "\<forall>xs ys. r = Inr (xs, ys) \<longrightarrow> branches_meet x y xs ys"
      proof (intro allI impI)
        fix xs ys assume "r = Inr (xs, ys)"
        then obtain zs ws where zw: "xs = us @ zs" "ys = vs @ ws" "parallel zs ws" "hd zs = i" "hd ws = j"
          "set zs \<subseteq> set (live db)" "set ws \<subseteq> set (live db)" using r(2) by auto
        show "branches_meet x y xs ys" using branches_join [OF ok wi wj zw(3-7)] zw(1,2) by simp
      qed
      ultimately show ?thesis by simp
    qed
  qed
qed

text \<open>A tree: every block but the root still finds its predecessor.\<close>

definition rooted :: "fork_database \<Rightarrow> fork_item \<Rightarrow> bool" where
  "rooted db root \<longleftrightarrow> root \<in> set (live db) \<and>
     (\<forall>i \<in> set (live db). fi_id i \<noteq> fi_id root \<longrightarrow> lock db (fi_prev i) \<noteq> None)"

lemma rooted_lowest:
  assumes "fork_ok cr db" "rooted db root" "i \<in> set (live db)"
  shows "fi_num root \<le> fi_num i \<and> (fi_num i = fi_num root \<longrightarrow> fi_id i = fi_id root)"
  using assms(3)
proof (induction "fi_num i" arbitrary: i rule: less_induct)
  case less
  show ?case
  proof (cases "fi_id i = fi_id root")
    case True
    then show ?thesis using same_id_same_block(2) [OF assms(1) less.prems _ True] assms(2) by (simp add: rooted_def)
  next
    case False
    then obtain j where "lock db (fi_prev i) = Some j" using assms(2) less.prems by (auto simp: rooted_def)
    from lock_prev [OF assms(1) less.prems this] less.hyps [of j] show ?thesis by auto
  qed
qed

lemma rooted_lock:
  assumes "fork_ok cr db" "rooted db root" "i \<in> set (live db)" "fi_num root < fi_num i"
  shows "\<exists>j. lock db (fi_prev i) = Some j"
proof -
  have "fi_id i \<noteq> fi_id root"
    using same_id_same_block(2) [OF assms(1,3), of root] assms(2,4) by (auto simp: rooted_def)
  then show ?thesis using assms(2,3) by (auto simp: rooted_def)
qed

lemma branch_down_returns:
  assumes "fork_ok cr db" "rooted db root" "i \<in> set (live db)" "fi_num root \<le> n"
  shows "\<exists>p. branch_down db n i acc = Some (Inr p)"
  using assms(3)
proof (induction "fi_num i" arbitrary: i acc rule: less_induct)
  case less
  have num: "block_num (fi_data i) = fi_num i" using assms(1) less.prems by (auto simp: fork_ok_def item_ok_def)
  show ?case
  proof (cases "n < fi_num i")
    case True
    then obtain j where j: "lock db (fi_prev i) = Some j"
      using rooted_lock [OF assms(1,2) less.prems] assms(4) by auto
    from lock_prev [OF assms(1) less.prems j] less.hyps [of j "acc @ [i]"] True num j show ?thesis
      by (subst branch_down.simps) auto
  next
    case False
    then show ?thesis using num by (subst branch_down.simps) simp
  qed
qed

lemma branch_both_returns:
  assumes "fork_ok cr db" "rooted db root" "i \<in> set (live db)" "j \<in> set (live db)" "fi_num i = fi_num j"
  shows "\<exists>p. branch_both db i j acc1 acc2 = Some (Inr p)"
  using assms(3-5)
proof (induction "fi_num i" arbitrary: i j acc1 acc2 rule: less_induct)
  case less
  show ?case
  proof (cases "previous_id i = previous_id j")
    case False
    have "fi_num i \<noteq> fi_num root"
      using False rooted_lowest [OF assms(1,2)] less.prems same_id_same_block(1) [OF assms(1) less.prems(1,2)] by auto
    then have "fi_num root < fi_num i" using rooted_lowest [OF assms(1,2) less.prems(1)] by simp
    then have low: "fi_num root < fi_num i" "fi_num root < fi_num j" using less.prems(3) by simp_all
    obtain p where pq1: "lock db (fi_prev i) = Some p" using rooted_lock [OF assms(1,2) less.prems(1) low(1)] by blast
    obtain q where pq2: "lock db (fi_prev j) = Some q" using rooted_lock [OF assms(1,2) less.prems(2) low(2)] by blast
    note lp = lock_prev [OF assms(1) less.prems(1) pq1] lock_prev [OF assms(1) less.prems(2) pq2]
    have "\<exists>r. branch_both db p q (acc1 @ [i]) (acc2 @ [j]) = Some (Inr r)"
      using lp less.prems(3) by (intro less.hyps) simp_all
    then show ?thesis by (subst branch_both.simps) (simp add: False pq1 pq2)
  next
    case True
    then show ?thesis by (subst branch_both.simps) simp
  qed
qed

lemma fetch_branch_returns:
  assumes ok: "fork_ok cr db" "rooted db root"
    and x: "find_id a (fdb_index db) = Some x" and y: "find_id b (fdb_index db) = Some y"
  shows "\<exists>xs ys. fetch_branch_from a b db = Some (Inr (xs, ys))"
proof -
  have xy: "x \<in> set (live db)" "y \<in> set (live db)"
    using x y by (auto dest!: find_id_Some intro: index_live)
  have num: "block_num (fi_data i) = fi_num i" if "i \<in> set (live db)" for i
    using ok that by (auto simp: fork_ok_def item_ok_def)
  obtain us i where i: "branch_down db (fi_num y) x [] = Some (Inr (us, i))"
    using branch_down_returns [OF ok xy(1)] rooted_lowest [OF ok xy(2)] by fastforce
  then have wi: "walked db (fi_num y) x us i" using branch_down_walked [OF ok(1) xy(1), of "fi_num y"] by auto
  then have il: "i \<in> set (live db)" by (simp add: walked_def)
  obtain vs j where j: "branch_down db (fi_num i) y [] = Some (Inr (vs, j))"
    using branch_down_returns [OF ok xy(2)] rooted_lowest [OF ok il] by fastforce
  then have wj: "walked db (fi_num i) y vs j" using branch_down_walked [OF ok(1) xy(2), of "fi_num i"] by auto
  have "j \<in> set (live db)" "fi_num i = fi_num j" using wi wj by (auto simp: walked_def split: if_splits)
  then obtain p where "branch_both db i j us vs = Some (Inr p)" using branch_both_returns [OF ok il] by blast
  then show ?thesis using x y i j num xy il by (cases p) (simp add: fetch_branch_from_def)
qed

section \<open>A small tree of blocks\<close>

text \<open>Identifiers that carry the name of the producer in place of a hash.\<close>

definition fork_crypto :: crypto_lib where
  "fork_crypto = crypto_demo\<lparr>pack_signed_header := (\<lambda>h. ''####'' @ bh_witness h)\<rparr>"

definition demo_block :: "block_id_type \<Rightarrow> string \<Rightarrow> signed_block" where
  "demo_block prev w = \<lparr>bh_previous = prev, bh_timestamp = 0, bh_witness = w, bh_transaction_merkle_root = [],
     bh_extensions = [], sbh_witness_signature = [], sb_transactions = []\<rparr>"

definition block_g :: signed_block where "block_g = demo_block no_block_id ''g''"
definition block_a1 :: signed_block where "block_a1 = demo_block (signed_block_id fork_crypto block_g) ''a1''"
definition block_a2 :: signed_block where "block_a2 = demo_block (signed_block_id fork_crypto block_a1) ''a2''"
definition block_b1 :: signed_block where "block_b1 = demo_block (signed_block_id fork_crypto block_g) ''b1''"

lemma num_from_be32: "n < 2 ^ 32 \<Longrightarrow> num_from_id (be32 n @ w) = n"
  by (simp add: num_from_id_def be_value_be32)

lemma be_value_zeros: "be_value 0 (replicate k (char_of (0::nat))) = 0"
  by (induction k) simp_all

lemma num_no_block_id: "num_from_id no_block_id = 0"
  by (simp only: num_from_id_def no_block_id_def take_replicate be_value_zeros)

lemma demo_ids:
  "signed_block_id fork_crypto block_g = be32 1 @ ''g''" "signed_block_id fork_crypto block_a1 = be32 2 @ ''a1''"
  "signed_block_id fork_crypto block_a2 = be32 3 @ ''a2''" "signed_block_id fork_crypto block_b1 = be32 2 @ ''b1''"
  "block_num block_g = 1" "block_num block_a1 = 2" "block_num block_a2 = 3" "block_num block_b1 = 2"
proof -
  have i: "signed_block_id fork_crypto (demo_block p w) = take 20 (be32 (block_num (demo_block p w)) @ w)" for p w
    by (simp add: signed_block_id_def signed_block_header_id_def fork_crypto_def crypto_demo_def demo_block_def
        signed_block_header.truncate_def block_num_def)
  have n: "block_num (demo_block p w) = (num_from_id p + 1) mod 2 ^ 32" for p w
    by (simp add: block_num_def demo_block_def)
  show g: "signed_block_id fork_crypto block_g = be32 1 @ ''g''" "block_num block_g = 1"
    by (simp_all add: block_g_def i n num_no_block_id)
  show a: "signed_block_id fork_crypto block_a1 = be32 2 @ ''a1''" "block_num block_a1 = 2"
    by (simp_all add: block_a1_def i n g num_from_be32) (simp only: numeral_2_eq_2)
  show "signed_block_id fork_crypto block_a2 = be32 3 @ ''a2''" "block_num block_a2 = 3"
    by (simp_all add: block_a2_def i n a num_from_be32)
  show "signed_block_id fork_crypto block_b1 = be32 2 @ ''b1''" "block_num block_b1 = 2"
    by (simp_all add: block_b1_def i n g num_from_be32) (simp only: numeral_2_eq_2)
qed

definition demo_item :: "nat \<Rightarrow> nat option \<Rightarrow> signed_block \<Rightarrow> fork_item" where
  "demo_item a p b = \<lparr>fi_ptr = a, fi_prev = p, fi_num = block_num b, fi_invalid = False,
     fi_id = signed_block_id fork_crypto b, fi_data = b\<rparr>"

definition tree2 :: fork_database where
  "tree2 = \<lparr>fdb_max_size = 1024, fdb_unlinked_index = [], fdb_index = [demo_item 0 None block_g, demo_item 1 (Some 0) block_a1],
     fdb_head = Some (demo_item 1 (Some 0) block_a1), fdb_next_ptr = 2\<rparr>"

definition tree4 :: fork_database where
  "tree4 = \<lparr>fdb_max_size = 1024, fdb_unlinked_index = [],
     fdb_index = [demo_item 0 None block_g, demo_item 1 (Some 0) block_a1, demo_item 2 (Some 1) block_a2,
       demo_item 3 (Some 0) block_b1],
     fdb_head = Some (demo_item 2 (Some 1) block_a2), fdb_next_ptr = 4\<rparr>"

lemma demo_previous:
  "bh_previous block_g = no_block_id" "bh_previous block_a1 = be32 1 @ ''g''"
  "bh_previous block_a2 = be32 2 @ ''a1''" "bh_previous block_b1 = be32 1 @ ''g''"
proof -
  have "bh_previous (demo_block p w) = p" for p w by (simp add: demo_block_def)
  then show "bh_previous block_g = no_block_id" "bh_previous block_a1 = be32 1 @ ''g''"
    "bh_previous block_a2 = be32 2 @ ''a1''" "bh_previous block_b1 = be32 1 @ ''g''"
    by (simp_all only: block_g_def block_a1_def [unfolded demo_ids(1)] block_a2_def [unfolded demo_ids(2)]
        block_b1_def [unfolded demo_ids(1)])
qed

lemma demo_ids_differ:
  "be32 1 \<noteq> be32 2" "be32 1 \<noteq> be32 3" "be32 2 \<noteq> be32 3" "be32 2 \<noteq> be32 1" "be32 3 \<noteq> be32 1" "be32 3 \<noteq> be32 2"
  "be32 1 @ w \<noteq> no_block_id" "be32 2 @ w \<noteq> no_block_id"
  using be_value_be32 [of 1] be_value_be32 [of 2] be_value_be32 [of 3] num_no_block_id
    num_from_be32 [of 1 w] num_from_be32 [of 2 w] by auto

lemmas tree_eval = tree2_def tree4_def demo_item_def demo_ids demo_previous demo_ids_differ [unfolded One_nat_def]
  demo_ids_differ find_id_def index_insert_def previous_id_def live_def lock_def

lemma tree4_push:
  "fdb_push_block fork_crypto block_a2 tree2 = Inr (Some (demo_item 2 (Some 1) block_a2),
     tree4\<lparr>fdb_index := butlast (fdb_index tree4), fdb_next_ptr := 3\<rparr>)"
  by (simp add: fdb_push_block_def make_item_def fdb_push_item_def link_item_def oldest_num_def tree_eval)

lemma tree4_ok: "fork_ok fork_crypto tree4"
  by (auto simp: fork_ok_def item_ok_def pair_ok_def tree_eval)

lemma tree4_rooted: "rooted tree4 (demo_item 0 None block_g)"
  by (simp add: rooted_def tree_eval)

section \<open>Properties\<close>

text \<open>
  C20. Whatever sequence of operations led there, the fork database is well formed: the identifiers
  of the index are distinct, every block carries its own number and identifier, addresses
  identify items, and a link leads to the block that the header names.
\<close>

theorem fork_database_invariant: "fork_reachable cr db \<Longrightarrow> fork_ok cr db"
  by (rule fork_reachable_ok)

theorem fork_database_invariant_witness:
  "\<exists>db h. fdb_push_block fork_crypto block_g new_fork_database = Inr (h, db) \<and> fork_ok fork_crypto db"
proof -
  have p: "fdb_push_block fork_crypto block_g new_fork_database =
      Inr (Some (demo_item 0 None block_g), \<lparr>fdb_max_size = 1024, fdb_unlinked_index = [],
        fdb_index = [demo_item 0 None block_g], fdb_head = Some (demo_item 0 None block_g), fdb_next_ptr = 1\<rparr>)"
    by (simp add: fdb_push_block_def make_item_def fdb_push_item_def link_item_def new_fork_database_def tree_eval)
  have "admissible fork_crypto block_g new_fork_database"
    by (simp add: admissible_def demo_ids new_fork_database_def live_def)
  from fork_reachable.step [OF fork_reachable.new fork_step.push [OF this p]]
  show ?thesis using p fork_database_invariant by blast
qed

text \<open>
  C19. \<^verbatim>\<open>push_block\<close> returns the head of the longest chain: when the head has the highest number, it
  has it again after a block was pushed, the new block is stored, and the returned block is at
  least as high as it. The invariant is kept.
\<close>

theorem push_block_longest:
  assumes "fork_ok cr db" "longest_head db" "admissible cr b db" "fdb_push_block cr b db = Inr (h, db')"
  shows "fork_ok cr db' \<and> longest_head db' \<and> h = fdb_head db' \<and> (\<exists>it. h = Some it \<and> block_num b \<le> fi_num it) \<and>
    (\<exists>i \<in> set (fdb_index db'). fi_id i = signed_block_id cr b)"
  using push_block_ok [OF assms(1,3,4)] push_block_head [OF assms(2,4)] by blast

lemma tree2_ok: "fork_ok fork_crypto tree2" "longest_head tree2" "admissible fork_crypto block_a2 tree2"
  by (auto simp: fork_ok_def item_ok_def pair_ok_def longest_head_def admissible_def tree_eval)

theorem push_block_longest_witness:
  "\<exists>it db. fdb_push_block fork_crypto block_a2 tree2 = Inr (Some it, db) \<and> longest_head db \<and> 3 \<le> fi_num it"
proof -
  have "3 \<le> fi_num (demo_item 2 (Some 1) block_a2)" by (simp add: demo_item_def demo_ids(7))
  then show ?thesis using push_block_longest [OF tree2_ok tree4_push] tree4_push by blast
qed

text \<open>
  C18. \<^verbatim>\<open>fetch_branch_from\<close> ends on every well-formed database, and the branches it returns lead from
  the two given blocks, each block followed by its predecessor, to blocks with the same
  predecessor; no block but the last is on both.
\<close>

theorem fetch_branch_from_meets:
  assumes "fork_ok cr db" "find_id a (fdb_index db) = Some x" "find_id b (fdb_index db) = Some y"
  shows "\<exists>r. fetch_branch_from a b db = Some r \<and> (\<forall>xs ys. r = Inr (xs, ys) \<longrightarrow> branches_meet x y xs ys)"
  by (rule fetch_branch_spec [OF assms])

text \<open>
  C21. In a tree, where every stored block but the root still finds its predecessor,
  \<^verbatim>\<open>fetch_branch_from\<close> returns the branches of any two stored blocks.
\<close>

theorem fetch_branch_from_succeeds:
  assumes "fork_ok cr db" "rooted db root" "find_id a (fdb_index db) = Some x" "find_id b (fdb_index db) = Some y"
  shows "\<exists>xs ys. fetch_branch_from a b db = Some (Inr (xs, ys))"
  by (rule fetch_branch_returns [OF assms])

lemma tree4_ids:
  "find_id (be32 3 @ ''a2'') (fdb_index tree4) = Some (demo_item 2 (Some 1) block_a2)"
  "find_id (be32 2 @ ''b1'') (fdb_index tree4) = Some (demo_item 3 (Some 0) block_b1)"
  by (simp_all add: tree_eval)

theorem fetch_branch_from_meets_witness:
  "\<exists>r. fetch_branch_from (be32 3 @ ''a2'') (be32 2 @ ''b1'') tree4 = Some r \<and> (\<forall>xs ys. r = Inr (xs, ys) \<longrightarrow>
    branches_meet (demo_item 2 (Some 1) block_a2) (demo_item 3 (Some 0) block_b1) xs ys)"
  by (rule fetch_branch_from_meets [OF tree4_ok tree4_ids])

theorem fetch_branch_from_succeeds_witness:
  "\<exists>xs ys. fetch_branch_from (be32 3 @ ''a2'') (be32 2 @ ''b1'') tree4 = Some (Inr (xs, ys))"
  by (rule fetch_branch_from_succeeds [OF tree4_ok tree4_rooted tree4_ids])

end
