(* ===== verification/Chain_Properties.thy ===== *)
theory Chain_Properties
  imports Chain_Transactions Ledger_Properties Transaction_Properties Fork_Properties
begin

text \<open>
  What holds when the chain accepts a transaction: the checks that it passed, the conservation
  of the ledger, and that no transaction is accepted twice, however many transactions and
  blocks lie in between.
\<close>

section \<open>The parts of an application\<close>

text \<open>Charging the accounts changes their bandwidth only.\<close>

definition charged :: "chain \<Rightarrow> chain \<Rightarrow> bool" where
  "charged c c' \<longleftrightarrow> (\<exists>bs. c' = c\<lparr>ch_db := (ch_db c)\<lparr>db_bandwidth := bs\<rparr>\<rparr>)"

lemma charged_refl: "charged c c"
  unfolding charged_def by (rule exI [of _ "db_bandwidth (ch_db c)"]) simp

lemma charged_trans: "charged c c' \<Longrightarrow> charged c' c'' \<Longrightarrow> charged c c''"
  by (auto simp: charged_def)

lemma update_account_bandwidth_frame:
  "update_account_bandwidth fc nf n s ty c = Inr (b, c') \<Longrightarrow> charged c c'"
  by (auto simp: update_account_bandwidth_def Let_def charged_refl split: if_splits) (auto simp: charged_def)

lemma charge_account_frame: "charge_account fc nf ops s n c = Inr c' \<Longrightarrow> charged c c'"
  by (auto simp: charge_account_def split: option.splits if_splits
      dest!: update_account_bandwidth_frame intro: charged_trans)

lemma charge_accounts_frame: "foldR (charge_account fc nf ops s) ns c = Inr c' \<Longrightarrow> charged c c'"
  by (erule foldR_invariant [where P = "charged c"]) (auto simp: charged_refl dest: charge_account_frame intro: charged_trans)

lemma apply_indexed_Inr:
  "apply_indexed fc cr nf i ops db = Inr db' \<Longrightarrow> apply_operations fc (crypto_lib.truncate cr) nf ops db = Inr db'"
  by (induction fc cr nf i ops db rule: apply_indexed.induct)
    (auto simp: apply_operations_def split: sum.splits)

text \<open>Everything a successful application says.\<close>

lemma apply_transaction_Inr:
  assumes "apply_transaction fc cr nf skip trx c = Inr c'"
  shows "skips skip skip_transaction_dupe_check \<or> \<not> known_transaction (signed_tx_id cr trx) c"
    "validate_transaction fc cr nf skip trx c = Inr ()"
    "\<exists>bs. apply_operations fc (crypto_lib.truncate cr) nf (operations trx) ((ch_db c)\<lparr>db_bandwidth := bs\<rparr>) = Inr (ch_db c')"
    "ch_transactions c' = (if skips skip skip_transaction_dupe_check then ch_transactions c
       else ch_transactions (remember_transaction cr trx c))"
    "ch_block_summaries c' = ch_block_summaries c"
proof -
  obtain c1 db where v: "skips skip skip_transaction_dupe_check \<or> \<not> known_transaction (signed_tx_id cr trx) c"
    "validate_transaction fc cr nf skip trx c = Inr ()"
    and run: "foldR (charge_account fc nf (operations trx) (length (pack_signed_transaction cr trx)))
       (required_accounts (operations trx)) c = Inr c1"
    "apply_indexed fc cr nf 0 (operations trx)
       (ch_db (if skips skip skip_transaction_dupe_check then c1 else remember_transaction cr trx c1)) = Inr db"
    and c': "c' = (if skips skip skip_transaction_dupe_check then c1 else remember_transaction cr trx c1)\<lparr>ch_db := db\<rparr>"
    using assms unfolding apply_transaction_def Let_def bindR_eq_Inr ensure_eq_Inr sum.inject by auto
  obtain bs where fr: "c1 = c\<lparr>ch_db := (ch_db c)\<lparr>db_bandwidth := bs\<rparr>\<rparr>"
    using charge_accounts_frame [OF run(1)] by (auto simp: charged_def)
  then have "ch_db (if skips skip skip_transaction_dupe_check then c1 else remember_transaction cr trx c1) =
      (ch_db c)\<lparr>db_bandwidth := bs\<rparr>" by (simp add: remember_transaction_def)
  then show "\<exists>bs. apply_operations fc (crypto_lib.truncate cr) nf (operations trx) ((ch_db c)\<lparr>db_bandwidth := bs\<rparr>) = Inr (ch_db c')"
    using apply_indexed_Inr [OF run(2)] by (auto simp: c')
  show "skips skip skip_transaction_dupe_check \<or> \<not> known_transaction (signed_tx_id cr trx) c"
    "validate_transaction fc cr nf skip trx c = Inr ()" by (fact v)+
  show "ch_transactions c' = (if skips skip skip_transaction_dupe_check then ch_transactions c
       else ch_transactions (remember_transaction cr trx c))"
    "ch_block_summaries c' = ch_block_summaries c"
    using fr by (simp_all add: c' remember_transaction_def)
qed

lemma validate_operations_Inr:
  "validate_operations fc cr i ops = Inr u \<Longrightarrow> \<forall>op \<in> set ops. operation_validate fc cr op = Inr ()"
  by (induction fc cr i ops rule: validate_operations.induct) (auto split: sum.splits)

lemma validate_transaction_Inr:
  assumes "validate_transaction fc cr nf skip trx c = Inr ()"
  shows "\<not> skips skip skip_validate_operations \<Longrightarrow>
      \<forall>op \<in> set (operations trx). operation_validate fc (crypto_lib.truncate cr) op = Inr ()"
    "\<not> skips skip (or skip_transaction_signatures skip_authority_check) \<Longrightarrow> verify_on_chain cr trx c = Inr ()"
    "head_block_num (ch_db c) > 0 \<Longrightarrow> check_tapos skip trx c = Inr ()"
    "head_block_num (ch_db c) > 0 \<Longrightarrow> check_expiration nf trx (ch_db c) = Inr ()"
  using assms by (auto simp: validate_transaction_def transaction_validate_def split: if_splits
      dest!: validate_operations_Inr)

lemma operations_clock:
  assumes "apply_operations fc cr nf ops db = Inr db'"
  shows "head_block_time db' = head_block_time db" "head_block_num db' = head_block_num db"
    "db_processed_hardforks db' = db_processed_hardforks db"
proof -
  have "dgp_frame (db_dgp db') = dgp_frame (db_dgp db)" "db_processed_hardforks db' = db_processed_hardforks db"
    using clock.apply_operations_view [OF assms] by simp_all
  moreover have "dgp_time (dgp_frame d) = dgp_time d" "dgp_head_block_number (dgp_frame d) = dgp_head_block_number d" for d
    by (simp_all add: dgp_frame_def dgp_funds_def)
  ultimately show "head_block_time db' = head_block_time db" "head_block_num db' = head_block_num db"
    "db_processed_hardforks db' = db_processed_hardforks db"
    by (metis head_block_time_def, metis head_block_num_def, simp)
qed

text \<open>
  C10. A transaction that the chain applies after the first block, with the duplicate check and the
  validation of operations switched on, was not among the recent transactions and is afterwards;
  each of its operations passes \<^verbatim>\<open>operation_validate\<close>; unless the corresponding check was skipped, its
  authorities were verified against the current accounts and it refers to a block of this chain; it
  has not expired and expires within the next hour; and applying it keeps every supply in balance.
\<close>

theorem applied_transaction_checked:
  assumes "fc_safe fc" "ledger_ok (ch_db c)" "apply_transaction fc cr nf skip trx c = Inr c'"
    "\<not> skips skip skip_transaction_dupe_check" "\<not> skips skip skip_validate_operations" "head_block_num (ch_db c) > 0"
  shows "\<not> known_transaction (signed_tx_id cr trx) c \<and> known_transaction (signed_tx_id cr trx) c' \<and>
    (\<forall>op \<in> set (operations trx). operation_validate fc (crypto_lib.truncate cr) op = Inr ()) \<and>
    head_block_time (ch_db c) \<le> tx_expiration trx \<and>
    tx_expiration trx \<le> time_plus (head_block_time (ch_db c)) STEEMIT_MAX_TIME_UNTIL_EXPIRATION \<and>
    (skips skip skip_tapos_check \<or> ref_block_prefix trx = id_prefix (ch_block_summaries c (ref_block_num trx))) \<and>
    (skips skip (or skip_transaction_signatures skip_authority_check) \<or> verify_on_chain cr trx c = Inr ()) \<and>
    ledger_ok (ch_db c') \<and> gaps (ch_db c') = gaps (ch_db c)"
proof -
  note a = apply_transaction_Inr [OF assms(3)]
  note v = validate_transaction_Inr [OF a(2)]
  have "\<not> known_transaction (signed_tx_id cr trx) c" using a(1) assms(4) by simp
  moreover have "known_transaction (signed_tx_id cr trx) c'"
    using a(4) assms(4) by (simp add: known_transaction_def remember_transaction_def table_simps find_by_Cons
        split: option.split)
  moreover have "ledger_ok (ch_db c') \<and> gaps (ch_db c') = gaps (ch_db c)"
  proof -
    obtain bs where run: "apply_operations fc (crypto_lib.truncate cr) nf (operations trx) ((ch_db c)\<lparr>db_bandwidth := bs\<rparr>) = Inr (ch_db c')"
      using a(3) by blast
    have "ledger_ok ((ch_db c)\<lparr>db_bandwidth := bs\<rparr>)" "gaps ((ch_db c)\<lparr>db_bandwidth := bs\<rparr>) = gaps (ch_db c)"
      using assms(2) by (simp_all add: ledger_ok_def gaps_def gap_steem_def gap_sbd_def gap_vests_def held_def)
    then show ?thesis
      using op_run.run_conserves [of "(fc, crypto_lib.truncate cr, nf)" "operations trx" "(ch_db c)\<lparr>db_bandwidth := bs\<rparr>" "ch_db c'"]
        run v(1) assms(1,5) by (auto simp: apply_operations_def operation_good_def list_all_iff)
  qed
  moreover have "check_expiration nf trx (ch_db c) = Inr ()" "check_tapos skip trx c = Inr ()" using v(3,4) assms(6) by auto
  ultimately show ?thesis using v(2) v(1) [OF assms(5)] by (auto simp: check_expiration_def check_tapos_def Let_def)
qed

section \<open>No transaction is applied twice\<close>

text \<open>
  A step of the chain: a transaction, or the rest of a block, which may change the objects in any
  way but does not set the clock back, followed by the removal of expired transactions.
\<close>

inductive chain_step :: "fc_lib \<Rightarrow> tx_lib \<Rightarrow> chain \<Rightarrow> chain \<Rightarrow> bool" for fc cr where
  transaction: "apply_transaction fc cr nf skip trx c = Inr c' \<Longrightarrow> chain_step fc cr c c'"
| block: "ch_transactions c1 = ch_transactions c \<Longrightarrow> head_block_time (ch_db c) \<le> head_block_time (ch_db c1) \<Longrightarrow>
    head_block_num (ch_db c) \<le> head_block_num (ch_db c1) \<Longrightarrow> chain_step fc cr c (clear_expired_transactions c1)"

definition remembered :: "string \<Rightarrow> time_point_sec \<Rightarrow> chain \<Rightarrow> bool" where
  "remembered i ex c \<longleftrightarrow> (\<exists>t \<in> set (ch_transactions c). tro_trx_id t = i \<and> tro_expiration t = ex) \<or>
     ex < head_block_time (ch_db c)"

lemma apply_transaction_clock:
  assumes "apply_transaction fc cr nf skip trx c = Inr c'"
  shows "head_block_time (ch_db c') = head_block_time (ch_db c)" "head_block_num (ch_db c') = head_block_num (ch_db c)"
proof -
  obtain bs where "apply_operations fc (crypto_lib.truncate cr) nf (operations trx) ((ch_db c)\<lparr>db_bandwidth := bs\<rparr>) = Inr (ch_db c')"
    using apply_transaction_Inr(3) [OF assms] by blast
  note run = operations_clock(1) [OF this] operations_clock(2) [OF this]
  show "head_block_time (ch_db c') = head_block_time (ch_db c)" "head_block_num (ch_db c') = head_block_num (ch_db c)"
    using run by (simp_all add: head_block_time_def head_block_num_def)
qed

lemma chain_step_remembered: "chain_step fc cr c c' \<Longrightarrow> remembered i ex c \<Longrightarrow> remembered i ex c'"
proof (induction rule: chain_step.induct)
  case (transaction nf skip trx c c')
  note a = apply_transaction_Inr [OF transaction.hyps]
  then show ?case
    using transaction.prems apply_transaction_clock(1) [OF transaction.hyps]
    by (auto simp: remembered_def remember_transaction_def split: if_splits)
next
  case (block c1 c)
  then show ?case by (fastforce simp: remembered_def clear_expired_transactions_def)
qed

lemma chain_step_num: "chain_step fc cr c c' \<Longrightarrow> 0 < head_block_num (ch_db c) \<Longrightarrow> 0 < head_block_num (ch_db c')"
proof (induction rule: chain_step.induct)
  case (transaction nf skip trx c c')
  then show ?case using apply_transaction_clock(2) [OF transaction.hyps] by simp
qed (simp add: clear_expired_transactions_def)

lemma chain_run_remembered:
  assumes "(chain_step fc cr)\<^sup>*\<^sup>* c c'" "remembered i ex c" "0 < head_block_num (ch_db c)"
  shows "remembered i ex c' \<and> 0 < head_block_num (ch_db c')"
  using assms by (induction rule: rtranclp_induct) (auto intro: chain_step_remembered chain_step_num)

text \<open>
  C11. A transaction is applied at most once: after it was applied, whatever transactions and
  blocks follow, every later attempt to apply it (with the duplicate check on) is refused,
  because the chain still remembers it or it has expired.
\<close>

theorem transaction_not_replayed:
  assumes "apply_transaction fc cr nf skip trx c = Inr c1" "\<not> skips skip skip_transaction_dupe_check"
    "0 < head_block_num (ch_db c)" "(chain_step fc cr)\<^sup>*\<^sup>* c1 c2" "\<not> skips skip' skip_transaction_dupe_check"
  shows "\<exists>e. apply_transaction fc cr nf' skip' trx c2 = Inl e"
proof (rule ccontr)
  assume "\<not> ?thesis"
  then obtain c3 where "apply_transaction fc cr nf' skip' trx c2 = Inr c3"
    by (cases "apply_transaction fc cr nf' skip' trx c2") auto
  note b = apply_transaction_Inr [OF this]
  note a = apply_transaction_Inr [OF assms(1)]
  have "remembered (signed_tx_id cr trx) (tx_expiration trx) c1" "0 < head_block_num (ch_db c1)"
    using a(4) assms(2,3) apply_transaction_clock(2) [OF assms(1)] by (auto simp: remembered_def remember_transaction_def)
  from chain_run_remembered [OF assms(4) this]
  have r: "remembered (signed_tx_id cr trx) (tx_expiration trx) c2" "0 < head_block_num (ch_db c2)" by auto
  have "head_block_time (ch_db c2) \<le> tx_expiration trx"
    using validate_transaction_Inr(4) [OF b(2) r(2)] by (simp add: check_expiration_def Let_def)
  moreover have "signed_tx_id cr trx \<notin> tro_trx_id ` set (ch_transactions c2)"
    using b(1) assms(5) by (simp add: known_transaction_def find_by_None)
  ultimately show False using r(1) by (force simp: remembered_def)
qed

text \<open>
  C27. Operations do not touch what blocks and witnesses decide: head block, time, producer, slots,
  bandwidth limits and every other global property besides supplies, funds and reward shares, the hardforks,
  the price feed and the witness schedule are the same after any sequence of operations.
\<close>

theorem operations_keep_consensus_state:
  assumes "apply_operations fc cr nf ops db = Inr db'"
  shows "dgp_frame (db_dgp db') = dgp_frame (db_dgp db) \<and> db_processed_hardforks db' = db_processed_hardforks db \<and>
    db_feed db' = db_feed db \<and> db_schedule db' = db_schedule db"
  using clock.apply_operations_view [OF assms] decided.apply_operations_view [OF assms] by simp

theorem operations_keep_consensus_state_witness:
  "\<exists>db'. apply_operations fc_ref crypto_demo demo_flags demo_operations demo_db = Inr db' \<and>
    db_schedule db' = db_schedule demo_db \<and> db_feed db' = db_feed demo_db"
proof -
  obtain db' where run: "apply_operations fc_ref crypto_demo demo_flags demo_operations demo_db = Inr db'"
    using demo_operations_run by (rule run_okE)
  from operations_keep_consensus_state [OF run] run show ?thesis by auto
qed

section \<open>A transaction on a small chain\<close>

definition key_authority :: "public_key_type \<Rightarrow> authority" where
  "key_authority k = \<lparr>weight_threshold = 1, account_auths = [], key_auths = [(k, 1)]\<rparr>"

definition demo_chain :: chain where
  "demo_chain = \<lparr>ch_db = demo_db\<lparr>db_authorities := [\<lparr>aut_account = ''alice'', aut_owner = key_authority ''K0'',
       aut_active = key_authority ''K1'', aut_posting = key_authority ''K2'', aut_last_owner_update = 0\<rparr>]\<rparr>,
     ch_transactions = [], ch_block_summaries = (\<lambda>_. no_block_id)\<rparr>"

definition demo_trx :: signed_transaction where
  "demo_trx = \<lparr>ref_block_num = 7, ref_block_prefix = 0, tx_expiration = 1600,
     operations = [Op_transfer \<lparr>trf_from = ''alice'', trf_to = ''bob'', trf_amount = golos_of 250000, trf_memo = ''rent''\<rparr>],
     signatures = [''K1'']\<rparr>"

lemma demo_chain_ok: "ledger_ok (ch_db demo_chain)" "0 < head_block_num (ch_db demo_chain)"
  using demo_ledger_ok by (simp_all add: demo_chain_def ledger_ok_def head_block_num_def demo_defs)

lemma skips_nothing: "\<not> skips 0 f"
  by (simp add: skips_def)

lemma demo_verified: "verify_on_chain tx_demo demo_trx demo_chain = Inr ()"
  by (simp add: verify_on_chain_def signed_verify_authority_def demo_trx_def get_signature_keys_def sig_digest_def
      verify_eval verify_active_def tx_demo_defs demo_chain_def get_authority_def find_by_Cons of_option_def
      key_authority_def STEEMIT_MAX_SIG_CHECK_DEPTH_def)

lemma demo_trx_valid: "validate_transaction fc_ref tx_demo demo_flags 0 demo_trx demo_chain = Inr ()"
proof -
  have "transaction_validate fc_ref (crypto_lib.truncate tx_demo) demo_trx = Inr ()"
    using demo_operations_valid by (simp add: transaction_validate_def demo_trx_def demo_operations_def)
  moreover have "check_tapos 0 demo_trx demo_chain = Inr ()"
    by (simp add: check_tapos_def demo_trx_def demo_chain_def id_prefix_def no_block_id_def
        be_value_zeros [of 4, simplified])
  moreover have "check_expiration demo_flags demo_trx (ch_db demo_chain) = Inr ()"
    by (simp add: check_expiration_def demo_trx_def demo_chain_def demo_defs head_block_time_def time_plus_def
        STEEMIT_MAX_TIME_UNTIL_EXPIRATION_def)
  ultimately show ?thesis
    using demo_verified by (simp add: validate_transaction_def skips_nothing)
qed

lemma demo_trx_charged:
  "\<exists>c. foldR (charge_account fc_ref demo_flags (operations demo_trx) 2) [''alice''] demo_chain = Inr c"
  by (simp add: charge_account_def charged_operation_def update_account_bandwidth_def decayed_bandwidth_def
      find_bandwidth_def effective_vesting_shares_def is_market_operation_def STEEMIT_BANDWIDTH_PRECISION_def
      STEEMIT_BANDWIDTH_AVERAGE_WINDOW_SECONDS_def put_bandwidth_def abw_key_def demo_trx_def demo_chain_def
      demo_flags_def find_by_Cons lookup_eval fc_ref_eval demo_defs Let_def)

lemma demo_trx_run:
  "\<exists>db. apply_indexed fc_ref tx_demo demo_flags 0 (operations demo_trx) ((ch_db demo_chain)\<lparr>db_bandwidth := bs\<rparr>) = Inr db"
  by (simp add: demo_trx_def demo_chain_def apply_one_def transfer_evaluator_def check_balance_def get_balance_def
      adjust_balance_def lookup_eval ensure_def check_param_def fc_ref_eval demo_defs Let_def)

lemma demo_trx_applied: "\<exists>c. apply_transaction fc_ref tx_demo demo_flags 0 demo_trx demo_chain = Inr c"
proof -
  have "required_accounts (operations demo_trx) = [''alice'']"
    by (simp add: required_accounts_def demo_trx_def get_required_authorities_def
        operation_get_required_authorities_def required_auth_defs)
  moreover have "length (pack_signed_transaction tx_demo demo_trx) = 2"
    by (simp add: tx_demo_defs demo_trx_def)
  moreover obtain c where c: "foldR (charge_account fc_ref demo_flags (operations demo_trx) 2) [''alice''] demo_chain = Inr c"
    using demo_trx_charged by blast
  moreover obtain bs where "ch_db (remember_transaction tx_demo demo_trx c) = (ch_db demo_chain)\<lparr>db_bandwidth := bs\<rparr>"
    using charge_accounts_frame [OF c] by (auto simp: charged_def remember_transaction_def)
  moreover have "\<not> known_transaction (signed_tx_id tx_demo demo_trx) demo_chain"
    by (simp add: known_transaction_def demo_chain_def)
  ultimately show ?thesis
    using demo_trx_valid demo_trx_run by (auto simp: apply_transaction_def skips_nothing Let_def)
qed

theorem applied_transaction_checked_witness:
  "\<exists>c. apply_transaction fc_ref tx_demo demo_flags 0 demo_trx demo_chain = Inr c \<and>
     known_transaction (signed_tx_id tx_demo demo_trx) c \<and> verify_on_chain tx_demo demo_trx demo_chain = Inr ()"
proof -
  obtain c where c: "apply_transaction fc_ref tx_demo demo_flags 0 demo_trx demo_chain = Inr c"
    using demo_trx_applied by blast
  from applied_transaction_checked [OF fc_ref_parts(1) demo_chain_ok(1) c skips_nothing skips_nothing demo_chain_ok(2)] c
  show ?thesis by (simp add: skips_nothing)
qed

theorem transaction_not_replayed_witness:
  "\<exists>c e. apply_transaction fc_ref tx_demo demo_flags 0 demo_trx demo_chain = Inr c \<and>
     apply_transaction fc_ref tx_demo demo_flags 0 demo_trx c = Inl e"
proof -
  obtain c where c: "apply_transaction fc_ref tx_demo demo_flags 0 demo_trx demo_chain = Inr c"
    using demo_trx_applied by blast
  from transaction_not_replayed [OF c skips_nothing demo_chain_ok(2) rtranclp.rtrancl_refl skips_nothing] c
  show ?thesis by blast
qed

end
