(* ===== verification/Schedule_Properties.thy ===== *)
theory Schedule_Properties
  imports Witness_Schedule Demo_State "HOL-Library.Multiset"
begin

text \<open>
  Properties of the witness schedule: the shuffle permutes a round, a round names eligible
  witnesses once each and contains the most voted ones, and the medians of valid proposals are
  valid proposals.
\<close>

section \<open>The shuffle\<close>

lemma length_swap_at [simp]: "length (swap_at i j xs) = length xs"
  by (simp add: swap_at_def)

lemma mset_swap_at: "i < length xs \<Longrightarrow> j < length xs \<Longrightarrow> mset (swap_at i j xs) = mset xs"
  by (simp add: swap_at_def mset_swap)

lemma take_swap_at: "i < n \<Longrightarrow> j < n \<Longrightarrow> n \<le> length xs \<Longrightarrow> take n (swap_at i j xs) = swap_at i j (take n xs)"
  by (simp add: swap_at_def take_update_swap)

lemma shuffle_prefix:
  assumes "m \<le> n" "n \<le> length xs"
  shows "length (fold (\<lambda>i xs. swap_at i (i + f i mod (n - i)) xs) [0..<m] xs) = length xs \<and>
    mset (take n (fold (\<lambda>i xs. swap_at i (i + f i mod (n - i)) xs) [0..<m] xs)) = mset (take n xs)"
  using assms
proof (induction m)
  case (Suc m)
  let ?ys = "fold (\<lambda>i xs. swap_at i (i + f i mod (n - i)) xs) [0..<m] xs"
  have ys: "length ?ys = length xs" "mset (take n ?ys) = mset (take n xs)" using Suc by auto
  have "m + f m mod (n - m) < n" using Suc.prems(1) mod_less_divisor [of "n - m" "f m"] by linarith
  then show ?case using ys Suc.prems by (simp add: take_swap_at mset_swap_at)
qed simp

lemma mset_shuffle: "n \<le> length xs \<Longrightarrow> mset (take n (shuffle_witnesses now n xs)) = mset (take n xs)"
  using shuffle_prefix [of n n xs "\<lambda>i. unat (shuffle_word now i)"] by (simp add: shuffle_witnesses_def)

lemma names_install_round:
  assumes "active \<noteq> []" "length active \<le> MAX_WITNESSES"
  shows "mset (scheduled_names (db_schedule (install_round active e m t vt v db))) = mset active"
proof -
  have n: "max (length active mod 256) 1 = length active"
    using assms by (cases active)
      (auto simp: MAX_WITNESSES_def STEEMIT_MAX_VOTED_WITNESSES_def STEEMIT_MAX_MINER_WITNESSES_def STEEMIT_MAX_RUNNER_WITNESSES_def)
  have "length active \<le> length (fill_schedule active)" "take (length active) (fill_schedule active) = active"
    by (auto simp: fill_schedule_def)
  then show ?thesis
    by (simp add: scheduled_names_def install_round_def Let_def n [unfolded One_nat_def] mset_shuffle)
qed

section \<open>The selection\<close>

text \<open>What identifies a witness and makes it eligible is not changed by the selection.\<close>

definition wit_core :: "witness_object \<Rightarrow> nat \<times> account_name_type \<times> public_key_type \<times> int" where
  "wit_core w = (wit_id w, wit_owner w, wit_signing_key w, wit_votes w)"

definition cores :: "database \<Rightarrow> (nat \<times> account_name_type \<times> public_key_type \<times> int) list" where
  "cores db = map wit_core (db_witnesses db)"

definition witness_index_ok :: "database \<Rightarrow> bool" where
  "witness_index_ok db \<longleftrightarrow> distinct (map wit_id (db_witnesses db)) \<and> distinct (map wit_owner (db_witnesses db))"

text \<open>A candidate is a witness of the index, possibly with another schedule state.\<close>

definition candidate :: "database \<Rightarrow> witness_object \<Rightarrow> bool" where
  "candidate db w \<longleftrightarrow> wit_core w \<in> set (cores db)"

lemma cores_update_witness [simp]:
  "(\<And>w. wit_core (f w) = wit_core w) \<Longrightarrow> cores (update_witness i f db) = cores db"
  by (auto simp: cores_def update_witness_def comp_def)

lemma has_hardfork_update_witness [simp]: "has_hardfork h (update_witness i f db) = has_hardfork h db"
  by (simp add: has_hardfork_def update_witness_def)

lemma may_produce_cong: "db_processed_hardforks db' = db_processed_hardforks db \<Longrightarrow> may_produce db' w = may_produce db w"
  by (simp add: may_produce_def has_hardfork_def)

lemma may_produce_core: "wit_core w = wit_core v \<Longrightarrow> may_produce db w = may_produce db v"
  by (simp add: may_produce_def wit_core_def)

lemma candidate_cong: "cores db' = cores db \<Longrightarrow> candidate db' = candidate db"
  by (auto simp: candidate_def)

lemma candidateD: "candidate db w \<Longrightarrow> \<exists>w0 \<in> set (db_witnesses db). wit_core w0 = wit_core w"
  by (auto simp: candidate_def cores_def)

lemma candidate_in: "w \<in> set (db_witnesses db) \<Longrightarrow> candidate db w"
  by (simp add: candidate_def cores_def)

definition same_index :: "database \<Rightarrow> database \<Rightarrow> bool" where
  "same_index db db' \<longleftrightarrow> cores db' = cores db \<and> db_processed_hardforks db' = db_processed_hardforks db"

lemma same_index_refl [simp]: "same_index db db"
  by (simp add: same_index_def)

lemma same_index_trans: "same_index a b \<Longrightarrow> same_index b c \<Longrightarrow> same_index a c"
  by (simp add: same_index_def)

lemma same_index_update [simp]:
  "(\<And>w. wit_core (f w) = wit_core w) \<Longrightarrow> same_index db (update_witness i f db)"
  by (simp add: same_index_def) (simp add: update_witness_def)

lemma same_index_fold:
  "(\<And>w. wit_core (f w) = wit_core w) \<Longrightarrow> same_index db (fold (\<lambda>w. update_witness (wit_id w) f) ws db)"
proof (induction ws arbitrary: db)
  case (Cons w ws)
  then show ?case using same_index_trans [OF same_index_update [of f db "wit_id w"]] by simp
qed simp

lemma same_index_ids: "same_index db db' \<Longrightarrow> map wit_id (db_witnesses db') = map wit_id (db_witnesses db)"
proof -
  assume "same_index db db'"
  then have "map fst (cores db') = map fst (cores db)" by (simp add: same_index_def)
  then show ?thesis by (simp add: cores_def wit_core_def comp_def)
qed

text \<open>A selection is a list of distinct eligible candidates.\<close>

definition selection :: "database \<Rightarrow> witness_object list \<Rightarrow> bool" where
  "selection db ws \<longleftrightarrow> distinct (map wit_id ws) \<and> (\<forall>w \<in> set ws. candidate db w \<and> may_produce db w)"

lemma selection_same_index: "same_index db db' \<Longrightarrow> selection db' ws = selection db ws"
proof -
  assume "same_index db db'"
  then have "candidate db' = candidate db" "may_produce db' = may_produce db"
    by (auto simp: same_index_def candidate_def may_produce_def has_hardfork_def fun_eq_iff)
  then show ?thesis by (simp add: selection_def)
qed

lemma selection_append:
  "selection db (xs @ ys) \<longleftrightarrow> selection db xs \<and> selection db ys \<and> (\<forall>w \<in> set ys. wit_id w \<notin> wit_id ` set xs)"
proof -
  have "A \<inter> wit_id ` set ys = {} \<longleftrightarrow> (\<forall>w \<in> set ys. wit_id w \<notin> A)" for A by auto
  then show ?thesis
    by (simp only: selection_def map_append distinct_append set_map set_append ball_Un)
      (rule iffI; elim conjE; intro conjI; assumption)
qed

lemma distinct_take_filter: "distinct (map f xs) \<Longrightarrow> distinct (map f (take k (filter P xs)))"
  unfolding take_map [symmetric] by (intro distinct_take distinct_map_filter)

lemma select_voted_ok:
  assumes "select_voted db = (voted, db')" "witness_index_ok db"
  shows "selection db voted" "same_index db db'" "length voted \<le> STEEMIT_MAX_VOTED_WITNESSES"
proof -
  have v: "voted = take STEEMIT_MAX_VOTED_WITNESSES (filter (may_produce db) (sort_by vote_name_lt (db_witnesses db)))"
    and d: "db' = fold (\<lambda>w. update_witness (wit_id w) (\<lambda>wo. wo\<lparr>wit_schedule := top19\<rparr>)) voted db"
    using assms(1) by (auto simp: select_voted_def Let_def)
  have "distinct (map wit_id (sort_by vote_name_lt (db_witnesses db)))" using assms(2) by (simp add: witness_index_ok_def)
  then have "distinct (map wit_id voted)" unfolding v by (rule distinct_take_filter)
  then show "selection db voted"
    unfolding selection_def v by (auto dest!: in_set_takeD intro: candidate_in)
  show "same_index db db'" unfolding d by (rule same_index_fold) (simp add: wit_core_def)
  show "length voted \<le> STEEMIT_MAX_VOTED_WITNESSES" by (simp add: v)
qed

lemma same_index_miner_step:
  "same_index db ((update_witness i (\<lambda>wit. wit\<lparr>wit_pow_worker := 0\<rparr>)
     (if c then update_witness i (\<lambda>wo. wo\<lparr>wit_schedule := miner\<rparr>) db else db))\<lparr>db_dgp := d\<rparr>)"
  by (auto simp: same_index_def cores_def wit_core_def update_witness_def comp_def)

lemma select_miners_ok:
  assumes "select_miners voted queue miners db = (miners', db')"
    and "distinct (map wit_id (miners @ queue))" "\<forall>w \<in> set queue. candidate db w"
    and "\<forall>w \<in> set miners. wit_id w \<notin> set voted" "selection db miners" "length miners \<le> STEEMIT_MAX_MINER_WITNESSES"
  shows "selection db miners' \<and> same_index db db' \<and> length miners' \<le> STEEMIT_MAX_MINER_WITNESSES \<and>
    (\<forall>w \<in> set miners'. wit_id w \<notin> set voted)"
  using assms
proof (induction voted queue miners db rule: select_miners.induct)
  case (2 voted m queue miners db)
  show ?case
  proof (cases "length miners < STEEMIT_MAX_MINER_WITNESSES")
    case True
    define chosen where "chosen = (wit_id m \<notin> set voted \<and> may_produce db m)"
    define db1 where "db1 = update_witness (wit_id m) (\<lambda>wit. wit\<lparr>wit_pow_worker := 0\<rparr>)
      (if chosen then update_witness (wit_id m) (\<lambda>wo. wo\<lparr>wit_schedule := miner\<rparr>) db else db)"
    define db2 where "db2 = db1\<lparr>db_dgp := (db_dgp db1)\<lparr>dgp_num_pow_witnesses := dec_w 32 (dgp_num_pow_witnesses (db_dgp db1))\<rparr>\<rparr>"
    define ms where "ms = (if chosen then miners @ [m] else miners)"
    have run: "select_miners voted queue ms db2 = (miners', db')"
      using 2(2) True by (simp add: Let_def chosen_def db1_def db2_def ms_def)
    have same: "same_index db db2" unfolding db2_def db1_def by (rule same_index_miner_step)
    have "selection db ms" using 2(3-) by (auto simp: ms_def chosen_def selection_def)
    then have "selection db2 ms" by (simp add: selection_same_index [OF same])
    moreover have "\<forall>w \<in> set queue. candidate db2 w" using 2(4) same by (auto simp: same_index_def candidate_def)
    moreover have "distinct (map wit_id (ms @ queue))" "\<forall>w \<in> set ms. wit_id w \<notin> set voted"
      "length ms \<le> STEEMIT_MAX_MINER_WITNESSES" using 2(3,5) True by (auto simp: ms_def chosen_def)
    ultimately have "selection db2 miners' \<and> same_index db2 db' \<and> length miners' \<le> STEEMIT_MAX_MINER_WITNESSES \<and>
      (\<forall>w \<in> set miners'. wit_id w \<notin> set voted)"
      using 2(1) [OF True chosen_def refl refl] run
      by (simp add: db1_def db2_def ms_def)
    then show ?thesis using selection_same_index [OF same] same_index_trans [OF same] by blast
  next
    case False
    then show ?thesis using 2(2-) by simp
  qed
qed auto

lemma select_timeshare_ok:
  assumes "select_timeshare selected k ws vt processed chosen db = (vt', processed', chosen', db')"
    and "distinct (map wit_id (chosen @ ws))" "\<forall>w \<in> set ws. candidate db w"
    and "\<forall>w \<in> set chosen. wit_id w \<notin> set selected" "selection db chosen"
    and "k = n + length chosen" "k \<le> MAX_WITNESSES"
  shows "selection db chosen' \<and> same_index db db' \<and> n + length chosen' \<le> MAX_WITNESSES \<and>
    (\<forall>w \<in> set chosen'. wit_id w \<notin> set selected)"
  using assms
proof (induction selected k ws vt processed chosen db rule: select_timeshare.induct)
  case (2 selected k w ws vt processed chosen db)
  consider "\<not> k < MAX_WITNESSES" | "k < MAX_WITNESSES" "may_produce db w" "wit_id w \<notin> set selected"
    | "k < MAX_WITNESSES" "\<not> may_produce db w" | "k < MAX_WITNESSES" "may_produce db w" "wit_id w \<in> set selected" by blast
  then show ?case
  proof cases
    case 1
    then show ?thesis using 2(4-) by simp
  next
    case 2
    let ?db = "update_witness (wit_id w) (\<lambda>wo. wo\<lparr>wit_schedule := timeshare\<rparr>) db"
    have same: "same_index db ?db" by (rule same_index_update) (simp add: wit_core_def)
    have "selection db (chosen @ [w])" using "2.prems" 2 by (auto simp: selection_def)
    then have "selection ?db (chosen @ [w])" by (simp add: selection_same_index [OF same])
    moreover have "\<forall>v \<in> set ws. candidate ?db v" using "2.prems"(3) same by (auto simp: same_index_def candidate_def)
    ultimately have "selection ?db chosen' \<and> same_index ?db db' \<and> n + length chosen' \<le> MAX_WITNESSES \<and>
      (\<forall>w \<in> set chosen'. wit_id w \<notin> set selected)"
      using "2.IH"(2) [OF 2(1) refl refl _ 2(3)] "2.prems" 2 by simp
    then show ?thesis using selection_same_index [OF same] same_index_trans [OF same] by blast
  next
    case 3
    then show ?thesis using "2.IH"(1) [OF 3(1) refl refl 3(2)] "2.prems" by simp
  next
    case 4
    then show ?thesis using "2.IH"(3) [OF 4(1) refl refl] "2.prems" by simp
  qed
qed auto

lemma select_round_ok:
  assumes "select_round db = ((voted, miners, chosen), vt, processed, db')" "witness_index_ok db"
  shows "selection db (voted @ miners @ chosen)" "length (voted @ miners @ chosen) \<le> MAX_WITNESSES" "same_index db db'"
    "voted = fst (select_voted db)"
proof -
  obtain db1 db2 where run: "select_voted db = (voted, db1)"
    "select_miners (map wit_id voted) (pow_queue db1) [] db1 = (miners, db2)"
    "select_timeshare (map wit_id voted @ map wit_id miners) (length voted + length miners)
       (sort_by schedule_time_lt (db_witnesses db2)) (wso_current_virtual_time (db_schedule db2)) [] [] db2 =
       (vt, processed, chosen, db')"
    using assms(1) unfolding select_round_def Let_def by (auto split: prod.splits)
  note v = select_voted_ok [OF run(1) assms(2)]
  have ids1: "distinct (map wit_id (db_witnesses db1))"
    using assms(2) same_index_ids [OF v(2)] by (simp add: witness_index_ok_def)
  have m: "selection db1 miners \<and> same_index db1 db2 \<and> length miners \<le> STEEMIT_MAX_MINER_WITNESSES \<and>
    (\<forall>w \<in> set miners. wit_id w \<notin> set (map wit_id voted))"
    by (rule select_miners_ok [OF run(2)])
      (use ids1 in \<open>auto simp: pow_queue_def selection_def distinct_map_filter intro: candidate_in\<close>)
  have ids2: "distinct (map wit_id (db_witnesses db2))" using ids1 m same_index_ids by auto
  have k: "length voted + length miners \<le> MAX_WITNESSES" using v(3) m by (simp add: MAX_WITNESSES_def)
  have c: "selection db2 chosen \<and> same_index db2 db' \<and> length voted + length miners + length chosen \<le> MAX_WITNESSES \<and>
    (\<forall>w \<in> set chosen. wit_id w \<notin> set (map wit_id voted @ map wit_id miners))"
    by (rule select_timeshare_ok [OF run(3)])
      (use ids2 k in \<open>auto simp: selection_def intro: candidate_in\<close>)
  have same: "same_index db db1" "same_index db db2" "same_index db db'"
    using v(2) m c same_index_trans by blast+
  have "selection db voted" "selection db miners" "selection db chosen"
    using v(1) m c selection_same_index [OF same(1)] selection_same_index [OF same(2)] by auto
  then show "selection db (voted @ miners @ chosen)" using m c by (auto simp: selection_append)
  show "length (voted @ miners @ chosen) \<le> MAX_WITNESSES" using c by simp
  show "same_index db db'" by (rule same)
  show "voted = fst (select_voted db)" by (simp add: run(1))
qed

lemma selection_owners:
  assumes "selection db ws" "witness_index_ok db"
  shows "distinct (map wit_owner ws)"
proof -
  have "inj_on wit_owner (set ws)"
  proof (rule inj_onI)
    fix w v assume wv: "w \<in> set ws" "v \<in> set ws" "wit_owner w = wit_owner v"
    have "candidate db w" "candidate db v" using assms(1) wv(1,2) by (auto simp: selection_def)
    then obtain w0 v0 where o: "w0 \<in> set (db_witnesses db)" "wit_core w0 = wit_core w"
      "v0 \<in> set (db_witnesses db)" "wit_core v0 = wit_core v" using candidateD by meson
    then have "wit_owner w0 = wit_owner v0" using wv(3) by (simp add: wit_core_def)
    then have "w0 = v0" using o(1,3) assms(2) by (auto simp: witness_index_ok_def distinct_map dest: inj_onD)
    then have "wit_id w = wit_id v" using o by (simp add: wit_core_def)
    then show "w = v" using wv(1,2) assms(1) by (auto simp: selection_def distinct_map dest: inj_onD)
  qed
  moreover have "distinct ws" using assms(1) by (auto simp: selection_def distinct_map)
  ultimately show ?thesis by (simp add: distinct_map)
qed

section \<open>The elected witnesses\<close>

interpretation vote_order: strict_weak_order vote_name_lt "\<lambda>_. True"
  by unfold_locales (auto simp: vote_name_lt_def)

lemma take_of_rank:
  assumes "sorted_wrt (\<lambda>a b. \<not> lt b a) ys" "distinct ys" "\<forall>a \<in> set ys. \<forall>b \<in> set ys. a \<noteq> b \<longrightarrow> lt a b \<or> lt b a"
    and "w \<in> set ys" "card {v \<in> set ys. lt v w} < k"
  shows "w \<in> set (take k ys)"
proof (rule ccontr)
  assume out: "w \<notin> set (take k ys)"
  obtain i where i: "i < length ys" "ys ! i = w" using assms(4) by (auto simp: in_set_conv_nth)
  have "\<not> i < k" using out i by (auto simp: in_set_conv_nth)
  have "set (take i ys) \<subseteq> {v \<in> set ys. lt v w}"
  proof
    fix v assume "v \<in> set (take i ys)"
    then obtain j where j: "j < i" "ys ! j = v" using i(1) by (auto simp: in_set_conv_nth)
    then have "\<not> lt w v" "v \<noteq> w" "v \<in> set ys"
      using assms(1,2) i by (auto simp: sorted_wrt_iff_nth_less nth_eq_iff_index_eq)
    then show "v \<in> {v \<in> set ys. lt v w}" using assms(3,4) by blast
  qed
  then have "card (set (take i ys)) \<le> card {v \<in> set ys. lt v w}" by (rule card_mono [rotated]) simp
  moreover have "card (set (take i ys)) = i" using assms(2) i(1) by (simp add: distinct_card)
  ultimately show False using assms(5) \<open>\<not> i < k\<close> by linarith
qed

definition ahead :: "database \<Rightarrow> witness_object \<Rightarrow> witness_object set" where
  "ahead db w = {v \<in> set (db_witnesses db). may_produce db v \<and> vote_name_lt v w}"

lemma elected:
  assumes "witness_index_ok db" "w \<in> set (db_witnesses db)" "may_produce db w"
    and "card (ahead db w) < STEEMIT_MAX_VOTED_WITNESSES"
  shows "w \<in> set (fst (select_voted db))"
proof -
  let ?ys = "filter (may_produce db) (sort_by vote_name_lt (db_witnesses db))"
  have owners: "inj_on wit_owner (set (db_witnesses db))" using assms(1) by (simp add: witness_index_ok_def distinct_map)
  have "distinct (map wit_owner ?ys)" using assms(1) by (simp add: witness_index_ok_def distinct_map_filter)
  then have "distinct ?ys" by (simp add: distinct_map)
  moreover have "sorted_wrt (\<lambda>a b. \<not> vote_name_lt b a) ?ys"
    by (intro sorted_wrt_filter vote_order.sorted_sort_by) (simp add: list_all_iff)
  moreover have "\<forall>a \<in> set ?ys. \<forall>b \<in> set ?ys. a \<noteq> b \<longrightarrow> vote_name_lt a b \<or> vote_name_lt b a"
    using owners by (auto simp: vote_name_lt_def not_less_iff_gr_or_eq dest: inj_onD)
  moreover have "{v \<in> set ?ys. vote_name_lt v w} = ahead db w" by (auto simp: ahead_def)
  ultimately have "w \<in> set (take STEEMIT_MAX_VOTED_WITNESSES ?ys)"
    using assms(2-) by (intro take_of_rank) auto
  then show ?thesis by (simp add: select_voted_def Let_def)
qed

section \<open>Who is in the round\<close>

text \<open>
  The round in terms of the database before the update: the 19 eligible witnesses with most votes,
  the first eligible miner of the queue that is not among them, and, for the places left, the
  eligible witnesses with the smallest virtual time that are neither.
\<close>

definition round_voted :: "database \<Rightarrow> witness_object list" where
  "round_voted db = take STEEMIT_MAX_VOTED_WITNESSES (filter (may_produce db) (sort_by vote_name_lt (db_witnesses db)))"

definition round_miners :: "database \<Rightarrow> witness_object list" where
  "round_miners db = take STEEMIT_MAX_MINER_WITNESSES
     (filter (\<lambda>w. may_produce db w \<and> wit_id w \<notin> wit_id ` set (round_voted db)) (pow_queue db))"

definition round_runners :: "database \<Rightarrow> witness_object list" where
  "round_runners db = take (MAX_WITNESSES - length (round_voted db) - length (round_miners db))
     (filter (\<lambda>w. may_produce db w \<and> wit_id w \<notin> wit_id ` set (round_voted db @ round_miners db))
       (sort_by schedule_time_lt (db_witnesses db)))"

lemma map_sort_by:
  assumes "\<And>a b. lt (f a) (f b) = lt a b"
  shows "map f (sort_by lt xs) = sort_by lt (map f xs)"
proof -
  have "map f (insert_by lt x ys) = insert_by lt (f x) (map f ys)" for x ys
    by (induction ys) (auto simp: assms)
  then show ?thesis by (induction xs) auto
qed

lemma map_filter_view:
  assumes "\<And>x. P (f x) = P x" "map f xs = map f ys"
  shows "map f (filter P xs) = map f (filter P ys)"
proof -
  have "map f (filter P zs) = filter P (map f zs)" for zs by (induction zs) (auto simp: assms(1))
  then show ?thesis using assms(2) by simp
qed

lemma map_take_view: "map f xs = map f ys \<Longrightarrow> map f (take k xs) = map f (take k ys)"
  by (simp add: take_map [symmetric])

text \<open>The fields that the steps of the selection leave alone.\<close>

definition unscheduled :: "witness_object \<Rightarrow> witness_object" where
  "unscheduled w = w\<lparr>wit_schedule := top19\<rparr>"

definition unqueued :: "witness_object \<Rightarrow> witness_object" where
  "unqueued w = w\<lparr>wit_schedule := top19, wit_pow_worker := 0\<rparr>"

lemma unscheduled_simps [simp]:
  "wit_id (unscheduled w) = wit_id w" "wit_owner (unscheduled w) = wit_owner w"
  "wit_pow_worker (unscheduled w) = wit_pow_worker w" "may_produce db (unscheduled w) = may_produce db w"
  "pow_lt (unscheduled a) (unscheduled b) = pow_lt a b"
  by (simp_all add: unscheduled_def may_produce_def pow_lt_def)

lemma unqueued_simps [simp]:
  "wit_id (unqueued w) = wit_id w" "wit_owner (unqueued w) = wit_owner w" "may_produce db (unqueued w) = may_produce db w"
  "schedule_time_lt (unqueued a) (unqueued b) = schedule_time_lt a b" "unqueued (unscheduled w) = unqueued w"
  by (simp_all add: unqueued_def unscheduled_def may_produce_def schedule_time_lt_def)

lemma unscheduled_votes:
  "map unscheduled (db_witnesses (fold (\<lambda>w. update_witness (wit_id w) (\<lambda>wo. wo\<lparr>wit_schedule := s\<rparr>)) ws db)) =
   map unscheduled (db_witnesses db)"
  by (induction ws arbitrary: db) (auto simp: update_witness_def unscheduled_def)

lemma may_produce_update [simp]: "may_produce (update_witness i f db) = may_produce db"
  by (simp add: may_produce_def fun_eq_iff)

lemma may_produce_dgp [simp]: "may_produce (db\<lparr>db_dgp := d\<rparr>) = may_produce db"
  by (simp add: may_produce_def has_hardfork_def fun_eq_iff)

lemma unqueued_update:
  assumes "\<And>w. unqueued (f w) = unqueued w"
  shows "map unqueued (db_witnesses (update_witness i f db)) = map unqueued (db_witnesses db)"
  by (auto simp: update_witness_def assms)

lemma select_miners_exact:
  "length miners \<le> STEEMIT_MAX_MINER_WITNESSES \<Longrightarrow> select_miners voted queue miners db = (miners', db') \<Longrightarrow>
   miners' = miners @ take (STEEMIT_MAX_MINER_WITNESSES - length miners)
     (filter (\<lambda>m. may_produce db m \<and> wit_id m \<notin> set voted) queue) \<and>
   map unqueued (db_witnesses db') = map unqueued (db_witnesses db) \<and> may_produce db' = may_produce db"
proof (induction voted queue miners db rule: select_miners.induct)
  case (2 voted m queue miners db)
  show ?case
  proof (cases "length miners < STEEMIT_MAX_MINER_WITNESSES")
    case True
    define chosen where "chosen = (wit_id m \<notin> set voted \<and> may_produce db m)"
    define db1 where "db1 = update_witness (wit_id m) (\<lambda>wit. wit\<lparr>wit_pow_worker := 0\<rparr>)
      (if chosen then update_witness (wit_id m) (\<lambda>wo. wo\<lparr>wit_schedule := miner\<rparr>) db else db)"
    define db2 where "db2 = db1\<lparr>db_dgp := (db_dgp db1)\<lparr>dgp_num_pow_witnesses := dec_w 32 (dgp_num_pow_witnesses (db_dgp db1))\<rparr>\<rparr>"
    define ms where "ms = (if chosen then miners @ [m] else miners)"
    have run: "select_miners voted queue ms db2 = (miners', db')"
      using "2.prems"(2) True by (simp add: Let_def chosen_def db1_def db2_def ms_def)
    have same: "map unqueued (db_witnesses db2) = map unqueued (db_witnesses db)" "may_produce db2 = may_produce db"
      by (simp_all add: db2_def db1_def unqueued_update unqueued_def)
    have "length ms \<le> STEEMIT_MAX_MINER_WITNESSES" using True by (simp add: ms_def)
    then have "miners' = ms @ take (STEEMIT_MAX_MINER_WITNESSES - length ms)
        (filter (\<lambda>m. may_produce db2 m \<and> wit_id m \<notin> set voted) queue) \<and>
      map unqueued (db_witnesses db') = map unqueued (db_witnesses db2) \<and> may_produce db' = may_produce db2"
      using "2.IH" [OF True chosen_def refl refl] run by (simp add: db1_def db2_def ms_def)
    moreover obtain d where "STEEMIT_MAX_MINER_WITNESSES - length miners = Suc d"
      "STEEMIT_MAX_MINER_WITNESSES - Suc (length miners) = d" using True by (metis Suc_diff_Suc)
    ultimately show ?thesis using same by (auto simp: ms_def chosen_def)
  qed (use "2.prems" in auto)
qed auto

lemma select_timeshare_exact:
  "k \<le> MAX_WITNESSES \<Longrightarrow> select_timeshare selected k ws vt processed chosen db = (vt', processed', chosen', db') \<Longrightarrow>
   chosen' = chosen @ take (MAX_WITNESSES - k) (filter (\<lambda>w. may_produce db w \<and> wit_id w \<notin> set selected) ws)"
proof (induction selected k ws vt processed chosen db rule: select_timeshare.induct)
  case (2 selected k w ws vt processed chosen db)
  show ?case
  proof (cases "k < MAX_WITNESSES")
    case True
    then obtain d where d: "MAX_WITNESSES - k = Suc d" "MAX_WITNESSES - Suc k = d" by (metis Suc_diff_Suc)
    show ?thesis
      using 2 True d by (cases "may_produce db w"; cases "wit_id w \<in> set selected") (simp_all add: Let_def)
  qed (use "2.prems" in auto)
qed auto

lemma select_round_exact:
  assumes "select_round db = ((voted, miners, chosen), vt, processed, db')"
  shows "map wit_owner (voted @ miners @ chosen) = map wit_owner (round_voted db @ round_miners db @ round_runners db)"
proof -
  obtain db1 db2 where run: "select_voted db = (voted, db1)"
    "select_miners (map wit_id voted) (pow_queue db1) [] db1 = (miners, db2)"
    "select_timeshare (map wit_id voted @ map wit_id miners) (length voted + length miners)
       (sort_by schedule_time_lt (db_witnesses db2)) (wso_current_virtual_time (db_schedule db2)) [] [] db2 =
       (vt, processed, chosen, db')"
    using assms(1) unfolding select_round_def Let_def by (auto split: prod.splits)
  have v: "voted = round_voted db"
    and d1: "db1 = fold (\<lambda>w. update_witness (wit_id w) (\<lambda>wo. wo\<lparr>wit_schedule := top19\<rparr>)) voted db"
    using run(1) by (auto simp: select_voted_def round_voted_def Let_def)
  have w1: "map unscheduled (db_witnesses db1) = map unscheduled (db_witnesses db)" unfolding d1 by (rule unscheduled_votes)
  have p1: "may_produce db1 = may_produce db" unfolding d1
    by (induction voted arbitrary: db) simp_all
  note m = select_miners_exact [OF _ run(2), simplified]
  have "map unscheduled (sort_by pow_lt (db_witnesses db1)) = map unscheduled (sort_by pow_lt (db_witnesses db))"
    by (simp only: map_sort_by unscheduled_simps w1)
  then have queue: "map unscheduled (pow_queue db1) = map unscheduled (pow_queue db)"
    unfolding pow_queue_def by (rule map_filter_view [rotated]) simp
  have mm: "map unscheduled miners = map unscheduled (round_miners db)"
    unfolding conjunct1 [OF m] round_miners_def p1 set_map v
    by (intro map_take_view map_filter_view [OF _ queue]) simp
  have ids: "map wit_id miners = map wit_id (round_miners db)" and owners: "map wit_owner miners = map wit_owner (round_miners db)"
    using arg_cong [OF mm, of "map wit_id"] arg_cong [OF mm, of "map wit_owner"] by (simp_all add: comp_def)
  have len: "length miners = length (round_miners db)" using arg_cong [OF mm, of length] by simp
  have "map unqueued (db_witnesses db2) = map unqueued (db_witnesses db1)" using m by simp
  also have "\<dots> = map unqueued (db_witnesses db)" using arg_cong [OF w1, of "map unqueued"] by (simp add: comp_def)
  finally have "map unqueued (sort_by schedule_time_lt (db_witnesses db2)) =
      map unqueued (sort_by schedule_time_lt (db_witnesses db))"
    by (simp only: map_sort_by unqueued_simps)
  note order = this
  have p2: "may_produce db2 = may_produce db" using m p1 by simp
  have room: "length voted + length miners \<le> MAX_WITNESSES"
    by (simp add: v len round_voted_def round_miners_def MAX_WITNESSES_def)
  have sel: "set (map wit_id voted @ map wit_id miners) = wit_id ` set (round_voted db @ round_miners db)"
    unfolding ids v by (simp add: image_Un)
  have "map unqueued chosen = map unqueued (round_runners db)"
    unfolding select_timeshare_exact [OF room run(3), unfolded sel p2 append_Nil] round_runners_def v len diff_diff_left
    by (intro map_take_view map_filter_view [OF _ order]) simp
  from arg_cong [OF this, of "map wit_owner"] have "map wit_owner chosen = map wit_owner (round_runners db)"
    by (simp add: comp_def)
  then show ?thesis by (simp add: v owners)
qed

section \<open>The installed round\<close>

lemma median_props_names:
  "update_median_witness_props nel db = Inr db' \<Longrightarrow> scheduled_names (db_schedule db') = scheduled_names (db_schedule db)"
  by (auto simp: update_median_witness_props_def scheduled_names_def)

lemma schedule4_run:
  assumes "update_witness_schedule4 fc nel hpo db = Inr (hpo', db')"
  obtains voted miners chosen vt processed db1 db2 t v where
    "select_round db = ((voted, miners, chosen), vt, processed, db1)"
    "update_median_witness_props nel (install_round (map wit_owner (voted @ miners @ chosen)) (length voted) (length miners)
       (length chosen) t v db2) = Inr db'"
  using assms unfolding update_witness_schedule4_def Let_def by (auto split: prod.splits)

lemma round_names:
  assumes "witness_index_ok db" "\<exists>w \<in> set (db_witnesses db). may_produce db w"
    and "update_witness_schedule4 fc nel hpo db = Inr (hpo', db')"
  obtains ws where "mset (scheduled_names (db_schedule db')) = mset (map wit_owner ws)" "selection db ws"
    "length ws \<le> MAX_WITNESSES" "set (fst (select_voted db)) \<subseteq> set ws"
    "map wit_owner ws = map wit_owner (round_voted db @ round_miners db @ round_runners db)"
proof -
  obtain voted miners chosen vt processed db1 db2 t v where run:
    "select_round db = ((voted, miners, chosen), vt, processed, db1)"
    "update_median_witness_props nel (install_round (map wit_owner (voted @ miners @ chosen)) (length voted) (length miners)
       (length chosen) t v db2) = Inr db'"
    by (rule schedule4_run [OF assms(3)])
  note sel = select_round_ok [OF run(1) assms(1)]
  obtain w where "w \<in> set (filter (may_produce db) (sort_by vote_name_lt (db_witnesses db)))" using assms(2) by auto
  then have "voted \<noteq> []" by (auto simp: sel(4) select_voted_def Let_def STEEMIT_MAX_VOTED_WITNESSES_def filter_empty_conv)
  then have "mset (scheduled_names (db_schedule db')) = mset (map wit_owner (voted @ miners @ chosen))"
    using sel(2) names_install_round [of "map wit_owner (voted @ miners @ chosen)"]
    by (simp only: median_props_names [OF run(2)]) simp
  then show ?thesis using that [of "voted @ miners @ chosen"] sel select_round_exact [OF run(1)] by auto
qed

section \<open>Valid proposals\<close>

lemma golos_cmp [simp]:
  "check_asset_cmp (asset_ge a b) msg = Inr () \<longleftrightarrow> symbol a = symbol b \<and> amount b \<le> amount a"
  "check_asset_cmp (asset_le a b) msg = Inr () \<longleftrightarrow> symbol a = symbol b \<and> amount a \<le> amount b"
  by (cases "symbol a = symbol b"; cases "amount a = amount b";
      simp add: check_asset_cmp_def asset_ge_def asset_le_def asset_lt_def asset_eq_def check_value_def not_less order_le_less)+

text \<open>The conditions on one proposal, those on a single parameter first.\<close>

definition single_ok :: "chain_properties_19 \<Rightarrow> bool" where
  "single_ok p \<longleftrightarrow>
     (symbol (account_creation_fee p) = STEEM_SYMBOL \<and> amount (account_creation_fee p) \<ge> STEEMIT_MIN_ACCOUNT_CREATION_FEE) \<and>
     maximum_block_size p \<ge> STEEMIT_MIN_BLOCK_SIZE_LIMIT \<and> sbd_interest_rate p \<le> STEEMIT_100_PERCENT \<and>
     (symbol (create_account_min_golos_fee p) = STEEM_SYMBOL \<and> amount (create_account_min_golos_fee p) > 0) \<and>
     (symbol (create_account_min_delegation p) = STEEM_SYMBOL \<and> amount (create_account_min_delegation p) > 0) \<and>
     (symbol (min_delegation p) = STEEM_SYMBOL \<and> amount (min_delegation p) > 0) \<and>
     create_account_delegation_time p > GOLOS_CREATE_ACCOUNT_DELEGATION_TIME div 2 \<and>
     max_referral_interest_rate p \<le> GOLOS_MAX_REFERRAL_INTEREST_RATE \<and>
     max_referral_term_sec p \<le> GOLOS_MAX_REFERRAL_TERM_SEC \<and>
     (symbol (min_referral_break_fee p) = STEEM_SYMBOL \<and> amount (min_referral_break_fee p) \<ge> 0) \<and>
     (symbol (max_referral_break_fee p) = STEEM_SYMBOL \<and> amount (max_referral_break_fee p) \<le> 100000) \<and>
     max_delegated_vesting_interest_rate p \<le> STEEMIT_MAX_DELEGATED_VESTING_INTEREST_RATE \<and>
     custom_ops_bandwidth_multiplier p \<ge> 1 \<and>
     curation_reward_curve p \<in> {Curve_bounded, Curve_linear, Curve_square_root}"

definition pairs_ok :: "chain_properties_19 \<Rightarrow> bool" where
  "pairs_ok p \<longleftrightarrow>
     (1 \<le> posts_window p \<and> posts_window p \<le> 65535 div 2 \<and> 1 \<le> posts_per_window p \<and> posts_per_window p \<le> posts_window p) \<and>
     (1 \<le> comments_window p \<and> comments_window p \<le> 65535 div 2 \<and>
        1 \<le> comments_per_window p \<and> comments_per_window p \<le> comments_window p) \<and>
     (1 \<le> votes_window p \<and> votes_window p \<le> 65535 div 2 \<and> 1 \<le> votes_per_window p \<and> votes_per_window p \<le> votes_window p) \<and>
     (STEEMIT_MIN_CURATION_PERCENT \<le> min_curation_percent p \<and> min_curation_percent p \<le> max_curation_percent p \<and>
        max_curation_percent p \<le> STEEMIT_MAX_CURATION_PERCENT)"

definition separate_ok :: "chain_properties_19 \<Rightarrow> bool" where
  "separate_ok p \<longleftrightarrow> amount (min_referral_break_fee p) \<le> amount (max_referral_break_fee p) \<and>
     (allow_return_auction_reward_to_fund p \<or> allow_distribute_auction_reward p)"

lemma props_valid_iff: "chain_properties_19_validate p = Inr () \<longleftrightarrow> single_ok p \<and> pairs_ok p \<and> separate_ok p"
  unfolding chain_properties_19_validate_def chain_properties_18_validate_def chain_properties_17_validate_def
  by (auto simp: check_asset_val_def check_asset_gt0_def check_value_lege_def check_value_def single_ok_def pairs_ok_def
      separate_ok_def GOLOS_MAX_REFERRAL_BREAK_FEE_def)

section \<open>Medians\<close>

text \<open>
  \<^verbatim>\<open>std::nth_element\<close>: for a strict weak order, the elements are permuted such that none before
  position \<open>n\<close> is greater than the one there and none after it is less.
\<close>

definition nth_element_ok :: "nth_element \<Rightarrow> bool" where
  "nth_element_ok nel \<longleftrightarrow>
     (\<forall>lt n xs. strict_weak_order lt (\<lambda>w. w \<in> set xs) \<and> n < length xs \<longrightarrow>
        mset (nel lt n xs) = mset xs \<and> (\<forall>i < n. \<not> lt (nel lt n xs ! n) (nel lt n xs ! i)) \<and>
        (\<forall>i. n < i \<and> i < length xs \<longrightarrow> \<not> lt (nel lt n xs ! i) (nel lt n xs ! n)))"

definition median_elem :: "(witness_object \<Rightarrow> witness_object \<Rightarrow> bool) \<Rightarrow> witness_object list \<Rightarrow> witness_object \<Rightarrow> bool" where
  "median_elem lt ws m \<longleftrightarrow> m \<in> set ws \<and> length ws div 2 < length (filter (\<lambda>w. \<not> lt m w) ws) \<and>
     length ws - length ws div 2 \<le> length (filter (\<lambda>w. \<not> lt w m) ws)"

text \<open>More than half of the values are at most \<open>v\<close>, and at least half are at least \<open>v\<close>.\<close>

definition is_median :: "('a \<Rightarrow> 'b::linorder) \<Rightarrow> 'a list \<Rightarrow> 'b \<Rightarrow> bool" where
  "is_median f ws v \<longleftrightarrow> v \<in> f ` set ws \<and> length ws div 2 < length (filter (\<lambda>w. f w \<le> v) ws) \<and>
     length ws - length ws div 2 \<le> length (filter (\<lambda>w. v \<le> f w) ws)"

lemma median_elem_key: "median_elem (\<lambda>a b. key a < key b) ws m \<Longrightarrow> is_median key ws (key m)"
  by (auto simp: median_elem_def is_median_def not_less)

lemma length_filter_mset: "mset xs = mset ys \<Longrightarrow> length (filter P xs) = length (filter P ys)"
  by (metis mset_filter size_mset)

lemma filter_prefix_length:
  assumes "k \<le> length xs" "\<forall>i < k. P (xs ! i)"
  shows "k \<le> length (filter P xs)"
proof -
  have "filter P (take k xs) = take k xs" using assms by (auto simp: filter_id_conv in_set_conv_nth)
  then have "length (filter P (take k xs)) = k" using assms(1) by simp
  then show ?thesis by (metis append_take_drop_id filter_append length_append le_add1)
qed

lemma filter_suffix_length:
  assumes "k \<le> length xs" "\<forall>i. k \<le> i \<and> i < length xs \<longrightarrow> P (xs ! i)"
  shows "length xs - k \<le> length (filter P xs)"
proof -
  have "filter P (drop k xs) = drop k xs" using assms by (auto simp: filter_id_conv in_set_conv_nth)
  then have "length (filter P (drop k xs)) = length xs - k" by simp
  then show ?thesis by (metis append_take_drop_id filter_append length_append le_add2)
qed

lemma nth_element_median:
  assumes "nth_element_ok nel" "strict_weak_order lt (\<lambda>_. True)" "mset active = mset ws" "ws \<noteq> []"
  shows "mset (nel lt (length active div 2) active) = mset ws"
    "median_elem lt ws (nel lt (length active div 2) active ! (length active div 2))"
proof -
  let ?k = "length active div 2" and ?r = "nel lt (length active div 2) active"
  have len: "length active = length ws" using mset_eq_length [OF assms(3)] .
  then have k: "?k < length active" using assms(4) by simp
  have irr: "\<not> lt x x" for x using assms(2) by (simp add: strict_weak_order_def)
  have "strict_weak_order lt (\<lambda>w. w \<in> set active)" using assms(2) unfolding strict_weak_order_def by blast
  then have r: "mset ?r = mset active" "\<forall>i < ?k. \<not> lt (?r ! ?k) (?r ! i)"
    "\<forall>i. ?k < i \<and> i < length active \<longrightarrow> \<not> lt (?r ! i) (?r ! ?k)"
    using assms(1) k unfolding nth_element_ok_def by blast+
  then have rlen: "length ?r = length active" by (metis mset_eq_length)
  have low: "\<forall>i < Suc ?k. \<not> lt (?r ! ?k) (?r ! i)" using r(2) irr by (auto simp: less_Suc_eq)
  have high: "\<forall>i. ?k \<le> i \<and> i < length ?r \<longrightarrow> \<not> lt (?r ! i) (?r ! ?k)" using r(3) irr rlen by (auto simp: le_less)
  show m: "mset ?r = mset ws" using r(1) assms(3) by simp
  have "?r ! ?k \<in> set ws" using k rlen nth_mem [of ?k ?r] mset_eq_setD [OF m] by simp
  then show "median_elem lt ws (?r ! ?k)"
    using filter_prefix_length [OF _ low] filter_suffix_length [OF _ high] k rlen len
    by (auto simp: median_elem_def length_filter_mset [OF m, symmetric])
qed

lemma run_median_steps:
  assumes "nth_element_ok nel" "ws \<noteq> []" "\<forall>s \<in> set steps. strict_weak_order (ms_lt s) (\<lambda>_. True)"
    and "\<forall>s \<in> set steps. \<forall>a. mset a = mset ws \<longrightarrow> ms_check s a = Inr ()" "mset active = mset ws"
  shows "\<exists>active' ms. foldR (run_median_step nel) steps (active, p) =
      Inr (active', fold (\<lambda>(s, m). ms_assign s (wit_props m)) (zip steps ms) p) \<and>
    list_all2 (\<lambda>s m. median_elem (ms_lt s) ws m) steps ms"
  using assms(3-)
proof (induction steps arbitrary: active p)
  case (Cons s steps)
  let ?r = "nel (ms_lt s) (length active div 2) active"
  let ?m = "?r ! (length active div 2)"
  have "strict_weak_order (ms_lt s) (\<lambda>_. True)" using Cons.prems(1) by simp
  note r = nth_element_median [OF assms(1) this Cons.prems(3) assms(2)]
  obtain active' ms where rest: "foldR (run_median_step nel) steps (?r, ms_assign s (wit_props ?m) p) =
      Inr (active', fold (\<lambda>(s, m). ms_assign s (wit_props m)) (zip steps ms) (ms_assign s (wit_props ?m) p))"
    "list_all2 (\<lambda>s m. median_elem (ms_lt s) ws m) steps ms"
    using Cons.IH [of ?r "ms_assign s (wit_props ?m) p"] Cons.prems r(1) by auto
  have "ms_check s active = Inr ()" using Cons.prems(2,3) by simp
  then have "foldR (run_median_step nel) (s # steps) (active, p) =
      Inr (active', fold (\<lambda>(s, m). ms_assign s (wit_props m)) (zip (s # steps) (?m # ms)) p)"
    using rest(1) by (simp add: run_median_step_def Let_def)
  then show ?case using rest(2) r(2) by (intro exI [of _ active'] exI [of _ "?m # ms"]) simp
qed simp

lemma key_order: "strict_weak_order (\<lambda>a b. key a < (key b :: 'b::linorder)) (\<lambda>_. True)"
  by unfold_locales auto

lemma step_fields [simp]:
  "ms_check (calc_median key upd sel) = (\<lambda>_. Inr ())" "ms_check (calc_median_min_max u lo v hi) = (\<lambda>_. Inr ())"
  "ms_lt (calc_median key upd sel) = (\<lambda>a b. key (wit_props a) < key (wit_props b))"
  "ms_lt (calc_median_asset uasset sasset) = (\<lambda>a b. amount (sasset (wit_props a)) < amount (sasset (wit_props b)))"
  "ms_lt (calc_median_min_max u lo v hi) =
     (\<lambda>a b. (lo (wit_props a), hi (wit_props a)) < (lo (wit_props b), hi (wit_props b)))"
  "ms_lt (calc_median_battery u window v items) =
     (\<lambda>a b. (window (wit_props a) div items (wit_props a), items (wit_props a)) <
        (window (wit_props b) div items (wit_props b), items (wit_props b)))"
  "ms_assign (calc_median key upd sel) = (\<lambda>src. upd (\<lambda>_. sel src))"
  "ms_assign (calc_median_asset uasset sasset) = (\<lambda>src. uasset (\<lambda>_. sasset src))"
  "ms_assign (calc_median_min_max u lo v hi) = (\<lambda>src p. v (\<lambda>_. hi src) (u (\<lambda>_. lo src) p))"
  "ms_assign (calc_median_battery u window v items) = (\<lambda>src p. v (\<lambda>_. items src) (u (\<lambda>_. window src) p))"
  by (simp_all add: calc_median_def calc_median_asset_def calc_median_min_max_def calc_median_battery_def del: less_prod_simp)

lemma median_steps_order: "\<forall>s \<in> set median_steps. strict_weak_order (ms_lt s) (\<lambda>_. True)"
  unfolding median_steps_def by (auto intro!: key_order simp del: less_prod_simp less_bool_def)

lemma median_steps_check:
  assumes "\<forall>w \<in> set ws. single_ok (wit_props w) \<and> pairs_ok (wit_props w)"
  shows "\<forall>s \<in> set median_steps. \<forall>a. mset a = mset ws \<longrightarrow> ms_check s a = Inr ()"
proof (intro ballI allI impI)
  fix s a assume s: "s \<in> set median_steps" and "mset a = mset ws"
  then have a: "\<forall>w \<in> set a. single_ok (wit_props w) \<and> pairs_ok (wit_props w)" using assms mset_eq_setD by blast
  have asset: "ms_check (calc_median_asset upd sel) a = Inr ()"
    if "\<And>w. w \<in> set a \<Longrightarrow> symbol (sel (wit_props w)) = STEEM_SYMBOL" for upd sel
    using that by (simp add: calc_median_asset_def)
  have battery: "ms_check (calc_median_battery u window v items) a = Inr ()"
    if "\<And>w. w \<in> set a \<Longrightarrow> items (wit_props w) \<noteq> 0" for u window v items
    using that by (simp add: calc_median_battery_def)
  show "ms_check s a = Inr ()"
    using s a unfolding median_steps_def by (auto intro!: asset battery simp: single_ok_def pairs_ok_def)
qed

lemma filters_meet:
  assumes "length ws < length (filter P ws) + length (filter Q ws)"
  shows "\<exists>w \<in> set ws. P w \<and> Q w"
proof (rule ccontr)
  assume "\<not> ?thesis"
  then have "length (filter Q ws) \<le> length (filter (\<lambda>w. \<not> P w) ws)"
    by (induction ws) auto
  then show False using assms sum_length_filter_compl [of P ws] by linarith
qed

lemma median_mono:
  assumes "is_median f ws a" "is_median g ws b" "\<forall>w \<in> set ws. f w \<le> g w"
  shows "a \<le> b"
proof -
  have "\<exists>w \<in> set ws. a \<le> f w \<and> g w \<le> b"
    by (rule filters_meet) (use assms(1,2) in \<open>auto simp: is_median_def\<close>)
  then obtain w where w: "w \<in> set ws" "a \<le> f w" "g w \<le> b" by blast
  then have "f w \<le> g w" using assms(3) by blast
  with w(2,3) show ?thesis by simp
qed

lemma median_either:
  assumes "is_median f ws a" "is_median g ws b" "\<forall>w \<in> set ws. f w \<or> g w"
  shows "a \<or> b"
proof (rule ccontr)
  assume "\<not> (a \<or> b)"
  then have "\<exists>w \<in> set ws. \<not> f w \<and> \<not> g w"
    by (intro filters_meet) (use assms(1,2) in \<open>auto simp: is_median_def\<close>)
  then show False using assms(3) by blast
qed

text \<open>The parameters of the median properties come from medians of the single steps.\<close>

lemma median_fields:
  assumes "list_all2 (\<lambda>s m. median_elem (ms_lt s) ws m) median_steps ms"
    and "p = fold (\<lambda>(s, m). ms_assign s (wit_props m)) (zip median_steps ms) p0"
  obtains m1 m2 m3 m4 m5 m6 m7 m8 m9 m10 m11 m12 m13 m14 m15 m16 m17 m18 m19 m20 m21 where "set [m1, m2, m3, m4, m5, m6, m7, m8, m9, m10, m11, m12, m13, m14, m15, m16, m17, m18, m19, m20, m21] \<subseteq> set ws"
    "p = \<lparr>account_creation_fee = account_creation_fee (wit_props m1), maximum_block_size = maximum_block_size (wit_props m2),
       sbd_interest_rate = sbd_interest_rate (wit_props m3),
       create_account_min_golos_fee = create_account_min_golos_fee (wit_props m4),
       create_account_min_delegation = create_account_min_delegation (wit_props m5),
       create_account_delegation_time = create_account_delegation_time (wit_props m6),
       min_delegation = min_delegation (wit_props m7),
       max_referral_interest_rate = max_referral_interest_rate (wit_props m9),
       max_referral_term_sec = max_referral_term_sec (wit_props m10),
       min_referral_break_fee = min_referral_break_fee (wit_props m11),
       max_referral_break_fee = max_referral_break_fee (wit_props m12),
       posts_window = posts_window (wit_props m13), posts_per_window = posts_per_window (wit_props m13),
       comments_window = comments_window (wit_props m14), comments_per_window = comments_per_window (wit_props m14),
       votes_window = votes_window (wit_props m15), votes_per_window = votes_per_window (wit_props m15),
       auction_window_size = auction_window_size (wit_props m8),
       max_delegated_vesting_interest_rate = max_delegated_vesting_interest_rate (wit_props m16),
       custom_ops_bandwidth_multiplier = custom_ops_bandwidth_multiplier (wit_props m17),
       min_curation_percent = min_curation_percent (wit_props m18), max_curation_percent = max_curation_percent (wit_props m18),
       curation_reward_curve = curation_reward_curve (wit_props m19),
       allow_return_auction_reward_to_fund = allow_return_auction_reward_to_fund (wit_props m21),
       allow_distribute_auction_reward = allow_distribute_auction_reward (wit_props m20)\<rparr>"
    "median_elem (\<lambda>a b. maximum_block_size (wit_props a) < maximum_block_size (wit_props b)) ws m2"
    "median_elem (\<lambda>a b. sbd_interest_rate (wit_props a) < sbd_interest_rate (wit_props b)) ws m3"
    "median_elem (\<lambda>a b. amount (min_referral_break_fee (wit_props a)) < amount (min_referral_break_fee (wit_props b))) ws m11"
    "median_elem (\<lambda>a b. amount (max_referral_break_fee (wit_props a)) < amount (max_referral_break_fee (wit_props b))) ws m12"
    "median_elem (\<lambda>a b. allow_distribute_auction_reward (wit_props a) < allow_distribute_auction_reward (wit_props b)) ws m20"
    "median_elem (\<lambda>a b. allow_return_auction_reward_to_fund (wit_props a) < allow_return_auction_reward_to_fund (wit_props b)) ws m21"
proof -
  obtain m1 m2 m3 m4 m5 m6 m7 m8 m9 m10 m11 m12 m13 m14 m15 m16 m17 m18 m19 m20 m21 where ms: "ms = [m1, m2, m3, m4, m5, m6, m7, m8, m9, m10, m11, m12, m13, m14, m15, m16, m17, m18, m19, m20, m21]"
    using list_all2_lengthD [OF assms(1)] by (auto simp: median_steps_def Suc_length_conv length_Suc_conv)
  have elems: "list_all2 (\<lambda>s m. median_elem (ms_lt s) ws m) median_steps [m1, m2, m3, m4, m5, m6, m7, m8, m9, m10, m11, m12, m13, m14, m15, m16, m17, m18, m19, m20, m21]"
    using assms(1) ms by simp
  then have "list_all2 (\<lambda>s m. m \<in> set ws) median_steps [m1, m2, m3, m4, m5, m6, m7, m8, m9, m10, m11, m12, m13, m14, m15, m16, m17, m18, m19, m20, m21]"
    by (rule list_all2_mono) (simp add: median_elem_def)
  then have sub: "set [m1, m2, m3, m4, m5, m6, m7, m8, m9, m10, m11, m12, m13, m14, m15, m16, m17, m18, m19, m20, m21] \<subseteq> set ws" by (auto simp: median_steps_def)
  show ?thesis
    by (rule that [OF sub])
      (use elems in \<open>simp_all add: assms(2) ms median_steps_def del: less_bool_def less_prod_simp\<close>)
qed

lemma median_props_ok:
  assumes "list_all2 (\<lambda>s m. median_elem (ms_lt s) ws m) median_steps ms"
    and "p = fold (\<lambda>(s, m). ms_assign s (wit_props m)) (zip median_steps ms) p0"
    and "\<forall>w \<in> set ws. chain_properties_19_validate (wit_props w) = Inr ()"
  shows "chain_properties_19_validate p = Inr () \<and> is_median (\<lambda>w. maximum_block_size (wit_props w)) ws (maximum_block_size p) \<and>
    is_median (\<lambda>w. sbd_interest_rate (wit_props w)) ws (sbd_interest_rate p)"
  using assms(1,2)
proof (rule median_fields, goal_cases)
  case (1 m1 m2 m3 m4 m5 m6 m7 m8 m9 m10 m11 m12 m13 m14 m15 m16 m17 m18 m19 m20 m21)
  have valid: "single_ok (wit_props w)" "pairs_ok (wit_props w)" "separate_ok (wit_props w)" if "w \<in> set ws" for w
    using assms(3) that by (auto simp: props_valid_iff)
  have "single_ok p" using 1(1) valid(1) by (simp add: 1(2) single_ok_def)
  moreover have "pairs_ok p" using 1(1) valid(2) by (simp add: 1(2) pairs_ok_def)
  moreover have "amount (min_referral_break_fee p) \<le> amount (max_referral_break_fee p)"
    using median_mono [OF median_elem_key [OF 1(5)] median_elem_key [OF 1(6)]] valid(3) by (simp add: 1(2) separate_ok_def)
  moreover have "allow_return_auction_reward_to_fund p \<or> allow_distribute_auction_reward p"
    using median_either [OF median_elem_key [OF 1(8)] median_elem_key [OF 1(7)]] valid(3) by (simp add: 1(2) separate_ok_def)
  ultimately show ?case
    using median_elem_key [OF 1(3)] median_elem_key [OF 1(4)] by (simp add: props_valid_iff separate_ok_def) (simp add: 1(2))
qed

lemma median_props_computed:
  assumes "nth_element_ok nel" and "scheduled_witnesses db = Inr ws" and "ws \<noteq> []"
    and "\<forall>w \<in> set ws. chain_properties_19_validate (wit_props w) = Inr ()"
  shows "\<exists>db'. update_median_witness_props nel db = Inr db' \<and>
    chain_properties_19_validate (wso_median_props (db_schedule db')) = Inr () \<and>
    is_median (\<lambda>w. maximum_block_size (wit_props w)) ws (dgp_maximum_block_size (db_dgp db')) \<and>
    is_median (\<lambda>w. sbd_interest_rate (wit_props w)) ws (dgp_sbd_interest_rate (db_dgp db'))"
proof -
  have "\<forall>w \<in> set ws. single_ok (wit_props w) \<and> pairs_ok (wit_props w)" using assms(4) by (simp add: props_valid_iff)
  from run_median_steps [OF assms(1,3) median_steps_order median_steps_check [OF this] refl]
  obtain active' ms where run: "foldR (run_median_step nel) median_steps (ws, default_chain_properties) =
      Inr (active', fold (\<lambda>(s, m). ms_assign s (wit_props m)) (zip median_steps ms) default_chain_properties)"
    "list_all2 (\<lambda>s m. median_elem (ms_lt s) ws m) median_steps ms" by blast
  show ?thesis
    using median_props_ok [OF run(2) refl assms(4)] by (simp add: update_median_witness_props_def assms(2) run(1))
qed

section \<open>Demonstration\<close>

lemma scheduled_witnesses_ok:
  assumes "\<forall>n \<in> set (scheduled_names (db_schedule db)). find_witness n db \<noteq> None"
  shows "\<exists>ws. scheduled_witnesses db = Inr ws \<and> set ws \<subseteq> set (db_witnesses db) \<and>
    length ws = length (scheduled_names (db_schedule db))"
proof -
  have "\<exists>ws'. foldR (\<lambda>n ws. bindR (get_witness n db) (\<lambda>w. Inr (ws @ [w]))) ns ws = Inr (ws @ ws') \<and>
      set ws' \<subseteq> set (db_witnesses db) \<and> length ws' = length ns"
    if "\<forall>n \<in> set ns. find_witness n db \<noteq> None" for ns ws
    using that
  proof (induction ns arbitrary: ws)
    case (Cons n ns)
    then obtain w where w: "find_witness n db = Some w" by auto
    then have "w \<in> set (db_witnesses db)" by (auto simp: find_witness_def dest: find_by_Some)
    moreover obtain ws' where "foldR (\<lambda>n ws. bindR (get_witness n db) (\<lambda>w. Inr (ws @ [w]))) ns (ws @ [w]) = Inr ((ws @ [w]) @ ws')"
      "set ws' \<subseteq> set (db_witnesses db)" "length ws' = length ns" using Cons by fastforce
    ultimately show ?case using w by (intro exI [of _ "w # ws'"]) (simp add: get_witness_def of_option_def)
  qed simp
  from this [OF assms, of "[]"] show ?thesis by (auto simp: scheduled_witnesses_def)
qed

lemma median_after_install:
  assumes "nth_element_ok nel" "active \<noteq> []" "length active \<le> MAX_WITNESSES" "\<forall>n \<in> set active. find_witness n db \<noteq> None"
    and "\<forall>w \<in> set (db_witnesses db). chain_properties_19_validate (wit_props w) = Inr ()"
  shows "\<exists>db'. update_median_witness_props nel (install_round active e m t vt v db) = Inr db'"
proof -
  let ?db = "install_round active e m t vt v db"
  have same: "db_witnesses ?db = db_witnesses db" by (simp add: install_round_def Let_def)
  note names = names_install_round [OF assms(2,3), of e m t vt v db]
  have "\<forall>n \<in> set (scheduled_names (db_schedule ?db)). find_witness n ?db \<noteq> None"
    using assms(4) mset_eq_setD [OF names] same by (simp add: find_witness_def)
  from scheduled_witnesses_ok [OF this] obtain ws where ws: "scheduled_witnesses ?db = Inr ws" "set ws \<subseteq> set (db_witnesses db)"
    "length ws = length active" using mset_eq_length [OF names] same by auto
  then have "ws \<noteq> []" using assms(2) by auto
  from median_props_computed [OF assms(1) ws(1) this] ws(2) assms(5) show ?thesis by blast
qed

definition sort_element :: nth_element where
  "sort_element lt n xs = sort_by lt xs"

lemma mset_insert_by: "mset (insert_by lt x ys) = add_mset x (mset ys)"
  by (induction ys) auto

lemma mset_sort_by: "mset (sort_by lt xs) = mset xs"
  by (induction xs) (auto simp: mset_insert_by)

lemma sort_element_ok: "nth_element_ok sort_element"
  unfolding nth_element_ok_def
proof (intro allI impI, elim conjE)
  fix lt :: "witness_object \<Rightarrow> witness_object \<Rightarrow> bool" and n :: nat and xs :: "witness_object list"
  assume ord: "strict_weak_order lt (\<lambda>w. w \<in> set xs)" and n: "n < length xs"
  have "sorted_wrt (\<lambda>a b. \<not> lt b a) (sort_by lt xs)"
    by (rule strict_weak_order.sorted_sort_by [OF ord]) (simp add: list_all_iff)
  then show "mset (sort_element lt n xs) = mset xs \<and> (\<forall>i < n. \<not> lt (sort_element lt n xs ! n) (sort_element lt n xs ! i)) \<and>
    (\<forall>i. n < i \<and> i < length xs \<longrightarrow> \<not> lt (sort_element lt n xs ! i) (sort_element lt n xs ! n))"
    using n by (simp add: sort_element_def mset_sort_by sorted_wrt_iff_nth_less)
qed

definition demo_hpo :: hardfork_property_object where
  "demo_hpo = \<lparr>hpo_last_hardfork = 21, hpo_current_hardfork_version = \<lparr>hv_num = 0\<rparr>, hpo_next_hardfork = \<lparr>hv_num = 0\<rparr>,
     hpo_next_hardfork_time = 0\<rparr>"

definition round_witness :: "nat \<Rightarrow> account_name_type \<Rightarrow> public_key_type \<Rightarrow> int \<Rightarrow> witness_object" where
  "round_witness i n k v = (default_witness i n 0)\<lparr>wit_signing_key := k, wit_votes := v, wit_virtual_scheduled_time := 0\<rparr>"

text \<open>Three witnesses, of which the third has no signing key.\<close>

definition round_db :: database where
  "round_db = demo_db\<lparr>db_witnesses := [round_witness 0 ''alice'' ''key'' 5, round_witness 1 ''bob'' ''key'' 9,
       round_witness 2 ''carol'' null_public_key 7],
     db_dgp := demo_dgp\<lparr>dgp_head_block_number := 21\<rparr>\<rparr>"

lemma demo_key: "''key'' \<noteq> null_public_key"
proof
  assume "''key'' = null_public_key"
  then have "length ''key'' = length null_public_key" by simp
  then show False by (simp add: null_public_key_def)
qed

lemma round_names_db:
  "map wit_owner (db_witnesses round_db) = [''alice'', ''bob'', ''carol'']" "witness_index_ok round_db"
  "\<exists>w \<in> set (db_witnesses round_db). may_produce round_db w"
  by (auto simp: round_db_def round_witness_def default_witness_def witness_index_ok_def may_produce_def demo_key)

lemma round_props: "chain_properties_19_validate default_chain_properties = Inr ()"
  by (simp add: props_valid_iff single_ok_def pairs_ok_def separate_ok_def default_chain_properties_def
      STEEMIT_MIN_ACCOUNT_CREATION_FEE_def STEEMIT_MIN_BLOCK_SIZE_LIMIT_def STEEMIT_100_PERCENT_def
      GOLOS_CREATE_ACCOUNT_DELEGATION_TIME_def GOLOS_MAX_REFERRAL_INTEREST_RATE_def GOLOS_MAX_REFERRAL_TERM_SEC_def
      STEEMIT_MAX_DELEGATED_VESTING_INTEREST_RATE_def STEEMIT_MIN_CURATION_PERCENT_def STEEMIT_MAX_CURATION_PERCENT_def
      STEEMIT_POSTS_WINDOW_def STEEMIT_COMMENTS_WINDOW_def STEEMIT_VOTES_WINDOW_def)

lemmas round_eval = round_db_def round_witness_def default_witness_def demo_db_def demo_dgp_def update_witness_def
  has_hardfork_def head_block_num_def may_produce_def

lemma round_selected:
  "\<exists>voted processed db. select_round round_db = ((voted, [], []), 0, processed, db) \<and>
     map wit_owner voted = [''bob'', ''alice''] \<and>
     (\<exists>db'. advance_virtual fc_ref 0 processed db = Inr (False, db') \<and> head_block_num db' = 21 \<and>
        has_hardfork 5 db' \<and> db_schedule db' = db_schedule demo_db \<and>
        map wit_owner (db_witnesses db') = [''alice'', ''bob'', ''carol''] \<and>
        (\<forall>w \<in> set (db_witnesses db'). wit_props w = default_chain_properties))"
  by (simp add: select_round_def select_voted_def pow_queue_def vote_name_lt_def pow_lt_def schedule_time_lt_def
      STEEMIT_MAX_VOTED_WITNESSES_def STEEMIT_MAX_MINER_WITNESSES_def STEEMIT_MAX_RUNNER_WITNESSES_def MAX_WITNESSES_def
      VIRTUAL_SCHEDULE_LAP_LENGTH2_def demo_key fc_ref_def returning_def round_eval Let_def)

lemma round_run: "\<exists>hpo db'. update_witness_schedule4 fc_ref sort_element demo_hpo round_db = Inr (hpo, db')"
proof -
  obtain voted processed db1 db2 where run: "select_round round_db = ((voted, [], []), 0, processed, db1)"
    "map wit_owner voted = [''bob'', ''alice'']" "advance_virtual fc_ref 0 processed db1 = Inr (False, db2)"
    "head_block_num db2 = 21" "has_hardfork 5 db2" "db_schedule db2 = db_schedule demo_db"
    "map wit_owner (db_witnesses db2) = [''alice'', ''bob'', ''carol'']"
    "\<forall>w \<in> set (db_witnesses db2). wit_props w = default_chain_properties"
    using round_selected by (elim exE conjE) (rule that)
  have found: "find_witness n db2 \<noteq> None" if "n \<in> {''alice'', ''bob''}" for n
    using that arg_cong [OF run(7), of set] by (auto simp: find_witness_def find_by_None)
  have "\<forall>n \<in> set (scheduled_names (db_schedule db2)). find_witness n db2 \<noteq> None"
    using found by (simp add: run(6) scheduled_names_def demo_db_def)
  from scheduled_witnesses_ok [OF this] obtain ws where ws: "scheduled_witnesses db2 = Inr ws" by blast
  have "\<exists>db'. update_median_witness_props sort_element (install_round (map wit_owner voted) e m t vt v db2) = Inr db'"
    for e m t vt v
    by (rule median_after_install [OF sort_element_ok])
      (use found run(2,8) round_props in \<open>simp_all add: MAX_WITNESSES_def STEEMIT_MAX_VOTED_WITNESSES_def\<close>)
  then obtain f where "update_median_witness_props sort_element (install_round (map wit_owner voted) e m t vt v db2) = Inr (f e m t vt v)"
    for e m t vt v by metis
  then show ?thesis
    by (simp add: update_witness_schedule4_def run(1,3,4,5) count_votes_def ws Let_def ensure_def)
qed

text \<open>
  C17. The medians of valid proposals are valid. When every scheduled witness proposes chain properties
  that pass validation and \<^verbatim>\<open>std::nth_element\<close> does what the standard says, the median properties are
  computed without an exception and pass the same validation, although most parameters are taken
  from different witnesses (the lower referral fee stays below the upper one, and at least one way
  to spend the auction reward stays allowed). The block size limit and the interest rate of the
  chain become the medians of the proposals: more than half of the witnesses propose at most, and
  at least half propose at least, that value.
\<close>

theorem median_props_valid:
  assumes "nth_element_ok nel" and "scheduled_witnesses db = Inr ws" and "ws \<noteq> []"
    and "\<forall>w \<in> set ws. chain_properties_19_validate (wit_props w) = Inr ()"
  shows "\<exists>db'. update_median_witness_props nel db = Inr db' \<and>
    chain_properties_19_validate (wso_median_props (db_schedule db')) = Inr () \<and>
    is_median (\<lambda>w. maximum_block_size (wit_props w)) ws (dgp_maximum_block_size (db_dgp db')) \<and>
    is_median (\<lambda>w. sbd_interest_rate (wit_props w)) ws (dgp_sbd_interest_rate (db_dgp db'))"
  by (rule median_props_computed [OF assms])

theorem median_props_valid_witness:
  "\<exists>db'. update_median_witness_props sort_element demo_db = Inr db' \<and>
     chain_properties_19_validate (wso_median_props (db_schedule db')) = Inr () \<and>
     dgp_maximum_block_size (db_dgp db') = 131072"
proof -
  have "scheduled_witnesses demo_db = Inr [default_witness 0 ''alice'' 0]"
    by (simp add: scheduled_witnesses_def scheduled_names_def get_witness_def find_witness_def find_by_Cons of_option_def
        demo_db_def default_witness_def)
  from median_props_valid [OF sort_element_ok this] show ?thesis
    using round_props
    by (auto simp: default_witness_def is_median_def default_chain_properties_def STEEMIT_MIN_BLOCK_SIZE_LIMIT_def)
qed

text \<open>
  C16. A round of block producers is exactly the elected witnesses, the first miner of the queue and
  the next witnesses by virtual time. When witnesses have unique identifiers and names and one of them
  may produce, the round that \<open>update_witness_schedule4\<close> installs is, up to the shuffle, the 19 eligible
  witnesses with most votes, then the first eligible miner of the queue that is not among them, then,
  up to 21 in all, the eligible witnesses with the smallest virtual scheduled time that are neither, all
  as they stand in the database before the update. The names are at most 21, all different, each the
  owner of an eligible witness; and every eligible witness with fewer than 19 eligible ones ahead of it
  by votes is in the round.
\<close>

theorem scheduled_round:
  assumes "witness_index_ok db" and "\<exists>w \<in> set (db_witnesses db). may_produce db w"
    and "update_witness_schedule4 fc nel hpo db = Inr (hpo', db')"
  shows "mset (scheduled_names (db_schedule db')) =
      mset (map wit_owner (round_voted db @ round_miners db @ round_runners db)) \<and>
    distinct (scheduled_names (db_schedule db')) \<and> length (scheduled_names (db_schedule db')) \<le> MAX_WITNESSES \<and>
    (\<forall>n \<in> set (scheduled_names (db_schedule db')). \<exists>w \<in> set (db_witnesses db). wit_owner w = n \<and> may_produce db w) \<and>
    (\<forall>w \<in> set (db_witnesses db). may_produce db w \<and> card (ahead db w) < STEEMIT_MAX_VOTED_WITNESSES \<longrightarrow>
       wit_owner w \<in> set (scheduled_names (db_schedule db')))"
proof -
  obtain ws where ws: "mset (scheduled_names (db_schedule db')) = mset (map wit_owner ws)" "selection db ws"
    "length ws \<le> MAX_WITNESSES" "set (fst (select_voted db)) \<subseteq> set ws"
    and exact: "map wit_owner ws = map wit_owner (round_voted db @ round_miners db @ round_runners db)"
    by (rule round_names [OF assms])
  have set: "set (scheduled_names (db_schedule db')) = wit_owner ` set ws" using mset_eq_setD [OF ws(1)] by simp
  have len: "length (scheduled_names (db_schedule db')) = length ws" using mset_eq_length [OF ws(1)] by simp
  have "distinct (scheduled_names (db_schedule db'))"
    using selection_owners [OF ws(2) assms(1)] mset_eq_imp_distinct_iff [OF ws(1)] by simp
  moreover have "\<exists>w \<in> set (db_witnesses db). wit_owner w = n \<and> may_produce db w" if n: "n \<in> wit_owner ` set ws" for n
  proof -
    obtain w where w: "w \<in> set ws" "n = wit_owner w" using n by blast
    then have "candidate db w" "may_produce db w" using ws(2) by (auto simp: selection_def)
    then obtain w0 where "w0 \<in> set (db_witnesses db)" "wit_core w0 = wit_core w" using candidateD by blast
    then show ?thesis using w(2) \<open>may_produce db w\<close> may_produce_core [of w0 w db] by (auto simp: wit_core_def)
  qed
  moreover have "wit_owner w \<in> wit_owner ` set ws"
    if "w \<in> set (db_witnesses db)" "may_produce db w" "card (ahead db w) < STEEMIT_MAX_VOTED_WITNESSES" for w
    using elected [OF assms(1) that] ws(4) by auto
  ultimately show ?thesis using ws(1,3) unfolding exact [symmetric] set len by blast
qed

theorem scheduled_round_witness:
  "\<exists>hpo db'. update_witness_schedule4 fc_ref sort_element demo_hpo round_db = Inr (hpo, db') \<and>
     distinct (scheduled_names (db_schedule db')) \<and> set (scheduled_names (db_schedule db')) = {''alice'', ''bob''}"
proof -
  obtain hpo db' where run: "update_witness_schedule4 fc_ref sort_element demo_hpo round_db = Inr (hpo, db')"
    using round_run by blast
  let ?ws = "db_witnesses round_db"
  have ws: "may_produce round_db (?ws ! 0)" "may_produce round_db (?ws ! 1)" "\<not> may_produce round_db (?ws ! 2)"
    by (simp_all add: round_eval demo_key)
  have all: "?ws = [?ws ! 0, ?ws ! 1, ?ws ! 2]" by (simp add: round_db_def)
  then have sets: "set ?ws = {?ws ! 0, ?ws ! 1, ?ws ! 2}" by (metis empty_set list.simps(15))
  have "card (ahead round_db w) < STEEMIT_MAX_VOTED_WITNESSES" for w
  proof -
    have "card (ahead round_db w) \<le> card (set ?ws)" by (rule card_mono) (auto simp: ahead_def)
    also have "\<dots> \<le> length ?ws" by (rule card_length)
    finally show ?thesis by (simp add: round_db_def STEEMIT_MAX_VOTED_WITNESSES_def)
  qed
  with scheduled_round [OF round_names_db(2,3) run] show ?thesis
    using run ws sets by (intro exI [of _ hpo] exI [of _ db']) (auto simp: round_db_def round_witness_def default_witness_def)
qed

end
