(* ===== verification/Block_Log_Properties.thy ===== *)
theory Block_Log_Properties
  imports Block_Log Fork_Properties
begin

text \<open>
  The block log implements a list of blocks: \<open>log_of\<close> relates the bytes of the two files to the
  list, and every operation on the files acts as the corresponding one on the list. The index
  file can be lost or stale and is rebuilt when the log is opened.
\<close>

section \<open>The files of a list of blocks\<close>

fun records :: "block_codec \<Rightarrow> nat \<Rightarrow> signed_block list \<Rightarrow> string" where
  "records cd p [] = []"
| "records cd p (b # bs) = pack_block cd b @ le_bytes 8 p @ records cd (p + length (pack_block cd b) + 8) bs"

fun positions :: "block_codec \<Rightarrow> nat \<Rightarrow> signed_block list \<Rightarrow> string" where
  "positions cd p [] = []"
| "positions cd p (b # bs) = le_bytes 8 p @ positions cd (p + length (pack_block cd b) + 8) bs"

text \<open>Unpacking a packed block yields the block and the number of bytes it takes, whatever follows it.\<close>

definition codec_fits :: "block_codec \<Rightarrow> signed_block \<Rightarrow> bool" where
  "codec_fits cd b \<longleftrightarrow>
     0 < length (pack_block cd b) \<and> length (pack_block cd b) \<le> STEEMIT_MAX_BLOCK_SIZE \<and>
     (\<forall>rest. unpack_block cd (pack_block cd b @ rest) = Inr (b, length (pack_block cd b)))"

definition numbered :: "signed_block list \<Rightarrow> bool" where
  "numbered bs \<longleftrightarrow> map block_num bs = [1..<Suc (length bs)]"

definition blocks_fit :: "block_codec \<Rightarrow> signed_block list \<Rightarrow> bool" where
  "blocks_fit cd bs \<longleftrightarrow> numbered bs \<and> list_all (codec_fits cd) bs \<and> length (records cd 0 bs) < 2 ^ 64"

definition log_of :: "crypto_lib \<Rightarrow> block_codec \<Rightarrow> signed_block list \<Rightarrow> block_log_impl \<Rightarrow> bool" where
  "log_of cr cd bs bl \<longleftrightarrow> blocks_fit cd bs \<and>
     (if bs = [] then bl_head bl = None \<and> length (bl_block_file bl) < 8 \<and> length (bl_index_file bl) < 8
      else bl_head bl = Some (last bs) \<and> bl_head_id bl = signed_block_id cr (last bs) \<and>
           bl_block_file bl = records cd 0 bs \<and> bl_index_file bl = positions cd 0 bs)"

section \<open>Bytes\<close>

lemma length_le_bytes [simp]: "length (le_bytes k n) = k"
  by (induction k arbitrary: n) auto

lemma le_value_le_bytes: "n < 256 ^ k \<Longrightarrow> le_value (le_bytes k n) = n"
proof (induction k arbitrary: n)
  case (Suc k)
  then have "n div 256 < 256 ^ k" by (simp add: less_mult_imp_div_less mult.commute)
  with Suc.IH show ?case by simp
qed simp

lemma le_value_8: "n < 2 ^ 64 \<Longrightarrow> le_value (le_bytes 8 n) = n"
  by (rule le_value_le_bytes) simp

lemma get_uint64_at:
  "f = pre @ le_bytes 8 n @ post \<Longrightarrow> length pre = pos \<Longrightarrow> n < 2 ^ 64 \<Longrightarrow> get_uint64 f pos = Inr n"
  by (auto simp: get_uint64_def get_mapped_size_def min_valid_file_size_def le_value_8)

lemma get_last_uint64_at: "f = pre @ le_bytes 8 n \<Longrightarrow> n < 2 ^ 64 \<Longrightarrow> get_last_uint64 f = Inr n"
  by (auto simp: get_last_uint64_def get_mapped_size_def min_valid_file_size_def le_value_8)

lemma write_over: "length old = length bytes \<Longrightarrow> write_at (length pre) bytes (pre @ old @ post) = pre @ bytes @ post"
  by (simp add: write_at_def)

section \<open>Lists of records\<close>

lemma length_records [simp]: "length (records cd p bs) = (\<Sum>b\<leftarrow>bs. length (pack_block cd b) + 8)"
  by (induction bs arbitrary: p) auto

lemma length_positions [simp]: "length (positions cd p bs) = 8 * length bs"
  by (induction bs arbitrary: p) auto

lemma records_append: "records cd p (bs @ cs) = records cd p bs @ records cd (p + length (records cd p bs)) cs"
  by (induction bs arbitrary: p) (simp_all add: add.assoc)

lemma positions_append: "positions cd p (bs @ cs) = positions cd p bs @ positions cd (p + length (records cd p bs)) cs"
  by (induction bs arbitrary: p) (simp_all add: add.assoc)

lemma numbered_append: "numbered (bs @ [b]) \<longleftrightarrow> numbered bs \<and> block_num b = Suc (length bs)"
  by (auto simp: numbered_def)

lemma numbered_nth: "numbered bs \<Longrightarrow> i < length bs \<Longrightarrow> block_num (bs ! i) = Suc i"
  by (metis numbered_def length_map nth_map nth_upt plus_1_eq_Suc add_less_cancel_left diff_Suc_1 length_upt)

lemma numbered_last: "numbered bs \<Longrightarrow> bs \<noteq> [] \<Longrightarrow> block_num (last bs) = length bs"
  by (simp add: last_conv_nth numbered_nth)

lemma numbered_prefix: "numbered (xs @ ys) \<Longrightarrow> numbered xs"
proof -
  assume "numbered (xs @ ys)"
  then have "take (length xs) (map block_num (xs @ ys)) = take (length xs) [1..<Suc (length (xs @ ys))]"
    by (simp add: numbered_def del: upt_Suc)
  then show ?thesis by (simp add: numbered_def take_map take_upt del: upt_Suc)
qed

lemma blocks_fit_split:
  assumes "blocks_fit cd (xs @ b # ys)"
  shows "codec_fits cd b" "length (records cd 0 xs) < 2 ^ 64" "blocks_fit cd xs"
  using assms by (auto simp: blocks_fit_def list_all_iff dest: numbered_prefix)

lemma id_carries_number: "num_from_id (signed_block_id cr b) = block_num b"
  by (simp add: signed_block_id_def num_from_id_header block_num_def signed_block_header.defs)

section \<open>Reading\<close>

lemma read_block_at:
  assumes "bl_block_file bl = pre @ pack_block cd b @ le_bytes 8 (length pre) @ post"
    and "codec_fits cd b" "length pre < 2 ^ 64"
  shows "read_block cd (length pre) bl = Inr (b, length pre + length (pack_block cd b) + 8)"
proof -
  let ?d = "pack_block cd b" and ?rest = "le_bytes 8 (length pre) @ post"
  let ?n = "min (length ?d + length ?rest) STEEMIT_MAX_BLOCK_SIZE"
  have d: "0 < length ?d" "length ?d \<le> ?n" using assms(2) by (auto simp: codec_fits_def)
  have "take ?n (?d @ ?rest) = ?d @ take (?n - length ?d) ?rest" using d(2) by (simp only: take_append take_all)
  then have unpack: "unpack_block cd (take ?n (?d @ ?rest)) = Inr (b, length ?d)"
    using assms(2) by (simp add: codec_fits_def)
  have marker: "get_uint64 (bl_block_file bl) (length pre + length ?d) = Inr (length pre)"
    by (rule get_uint64_at [of _ "pre @ ?d" _ post]) (use assms in auto)
  have size: "get_mapped_size (bl_block_file bl) = length pre + (length ?d + length ?rest)"
    by (simp add: assms(1) get_mapped_size_def min_valid_file_size_def)
  have rest: "drop (length pre) (bl_block_file bl) = ?d @ ?rest" by (simp add: assms(1))
  have avail: "length pre + (length ?d + length ?rest) - length pre = length ?d + length ?rest" by simp
  show ?thesis
    unfolding read_block_def Let_def size rest avail unpack using marker d(1) by (simp add: ensure_def)
qed

lemma read_block_nth:
  assumes "blocks_fit cd (xs @ b # ys)" "bl_block_file bl = records cd 0 (xs @ b # ys)"
  shows "read_block cd (length (records cd 0 xs)) bl = Inr (b, length (records cd 0 (xs @ [b])))"
proof -
  have "read_block cd (length (records cd 0 xs)) bl = Inr (b, length (records cd 0 xs) + length (pack_block cd b) + 8)"
    using assms(2) blocks_fit_split [OF assms(1)]
    by (intro read_block_at) (auto simp: records_append simp del: length_records)
  then show ?thesis by simp
qed

lemma read_block_by_num_log:
  assumes "log_of cr cd bs bl"
  shows "read_block_by_num cd n bl = Inr (if 0 < n \<and> n \<le> length bs then Some (bs ! (n - 1)) else None)"
proof (cases "0 < n \<and> n \<le> length bs")
  case True
  then obtain xs b ys where bs: "bs = xs @ b # ys" and xs: "length xs = n - 1"
    by (metis Cons_nth_drop_Suc Suc_diff_1 Suc_le_eq append_take_drop_id length_take min.absorb4)
  have fit: "blocks_fit cd (xs @ b # ys)" and files: "bl_block_file bl = records cd 0 (xs @ b # ys)"
    "bl_index_file bl = positions cd 0 (xs @ b # ys)" "bl_head bl = Some (last bs)"
    "bl_head_id bl = signed_block_id cr (last bs)" using assms bs by (auto simp: log_of_def)
  have num: "numbered bs" using fit bs by (simp add: blocks_fit_def)
  have "n \<le> num_from_id (bl_head_id bl)" using True numbered_last [OF num] bs by (simp add: files(4) id_carries_number)
  moreover have "get_uint64 (bl_index_file bl) (8 * (n - 1)) = Inr (length (records cd 0 xs))"
    using blocks_fit_split(2) [OF fit] xs
    by (intro get_uint64_at [of _ "positions cd 0 xs" _ "positions cd (length (records cd 0 xs) + length (pack_block cd b) + 8) ys"])
       (auto simp: files positions_append ac_simps simp del: length_records)
  ultimately have pos: "get_block_pos n bl = Inr (Some (length (records cd 0 xs)))"
    using True files(3) by (simp add: get_block_pos_def del: length_records)
  have "n - 1 < length bs" using True by linarith
  then have "block_num b = n" using numbered_nth [OF num, of "n - 1"] True bs xs by (simp add: nth_append)
  then show ?thesis
    using True bs xs
    by (simp add: read_block_by_num_def pos read_block_nth [OF fit files(1)] nth_append del: length_records)
next
  case False
  then show ?thesis
    using assms numbered_last [of bs]
    by (auto simp: read_block_by_num_def get_block_pos_def log_of_def blocks_fit_def id_carries_number split: if_splits)
qed

section \<open>Appending\<close>

lemma append_at:
  assumes "p = get_mapped_size f" "p \<noteq> 0 \<longrightarrow> f = pre" "p = length pre"
  shows "write_at (p + length d) m (write_at p d (resize_file (p + length d + length m) f)) = pre @ d @ m"
  using assms by (auto simp: write_at_def resize_file_def get_mapped_size_def split: if_splits)

lemma bl_append_log:
  assumes "log_of cr cd bs bl" "block_num b = Suc (length bs)" "blocks_fit cd (bs @ [b])"
  shows "\<exists>bl'. bl_append cr cd b bl = Inr (length (records cd 0 bs), bl') \<and> log_of cr cd (bs @ [b]) bl'"
proof -
  let ?f = "bl_block_file bl" and ?i = "bl_index_file bl" and ?d = "pack_block cd b"
  have size: "get_mapped_size ?f = length (records cd 0 bs)" "get_mapped_size ?i = length (positions cd 0 bs)"
    and same: "bs \<noteq> [] \<longrightarrow> ?f = records cd 0 bs" "bs \<noteq> [] \<longrightarrow> ?i = positions cd 0 bs"
    using assms(1) by (cases bs; auto simp: log_of_def get_mapped_size_def min_valid_file_size_def)+
  have nonempty: "length (records cd 0 bs) \<noteq> 0 \<longrightarrow> bs \<noteq> []" "length (positions cd 0 bs) \<noteq> 0 \<longrightarrow> bs \<noteq> []"
    by auto
  have "block_num b < 2 ^ 32" by (simp add: block_num_def)
  then have guard: "length (positions cd 0 bs) = 8 * dec_w 32 (block_num b)" using assms(2) by (simp add: dec_w_def)
  show ?thesis
    using append_at [of _ ?f "records cd 0 bs" ?d "le_bytes 8 (length (records cd 0 bs))"]
      append_at [of _ ?i "positions cd 0 bs" "[]" "le_bytes 8 (length (records cd 0 bs))"]
      nonempty same assms(3) guard
    unfolding bl_append_def Let_def size
    by (auto simp: log_of_def records_append positions_append write_at_def simp del: length_records length_positions)
qed

lemma bl_append_wrong_number:
  assumes "log_of cr cd bs bl" "block_num b \<noteq> Suc (length bs)" "length bs < 2 ^ 32 - 1"
  shows "bl_append cr cd b bl = Inl (Database_corrupted ''append_index_file_at_wrong_position'')"
proof -
  have "get_mapped_size (bl_index_file bl) = 8 * length bs"
    using assms(1) by (cases bs; auto simp: log_of_def get_mapped_size_def min_valid_file_size_def)
  moreover have "dec_w 32 (block_num b) \<noteq> length bs"
    using assms(2,3) by (cases "block_num b") (auto simp: dec_w_def block_num_def)
  ultimately show ?thesis by (simp add: bl_append_def ensure_def)
qed

section \<open>Rebuilding the index\<close>

lemma index_loop_log:
  assumes "blocks_fit cd (xs @ ys)" "xs @ ys \<noteq> []" "bl_block_file bl = records cd 0 (xs @ ys)"
    and "bl_index_file bl = positions cd 0 xs @ rest" "length rest = 8 * length ys"
  shows "index_loop cd (length (records cd 0 (butlast (xs @ ys)))) (length (records cd 0 xs)) (8 * length xs) bl =
    Inr (bl\<lparr>bl_index_file := positions cd 0 (xs @ ys)\<rparr>)"
  using assms
proof (induction ys arbitrary: xs bl rest)
  case Nil
  then have "length (records cd 0 (butlast xs)) < length (records cd 0 xs)" by (cases xs rule: rev_cases) auto
  then show ?case using Nil by (subst index_loop.simps) (simp del: length_records)
next
  case (Cons b ys)
  let ?p = "length (records cd 0 xs)"
  let ?bl = "bl\<lparr>bl_index_file := positions cd 0 (xs @ [b]) @ drop 8 rest\<rparr>"
  have "butlast (xs @ b # ys) = xs @ butlast (b # ys)" by (simp add: butlast_append)
  then have le: "?p \<le> length (records cd 0 (butlast (xs @ b # ys)))" by simp
  have "write_at (8 * length xs) (le_bytes 8 ?p) (bl_index_file bl) = positions cd 0 (xs @ [b]) @ drop 8 rest"
    using Cons.prems(4,5) write_over [of "take 8 rest" "le_bytes 8 ?p" "positions cd 0 xs" "drop 8 rest"]
    by (simp add: positions_append)
  moreover have "read_block cd ?p ?bl = Inr (b, length (records cd 0 (xs @ [b])))"
    by (rule read_block_nth) (use Cons.prems in auto)
  ultimately have "index_loop cd (length (records cd 0 (butlast (xs @ b # ys)))) ?p (8 * length xs) bl =
    index_loop cd (length (records cd 0 (butlast ((xs @ [b]) @ ys)))) (length (records cd 0 (xs @ [b])))
      (8 * length (xs @ [b])) ?bl"
    using le Cons.prems(4,5) by (subst index_loop.simps) (simp add: Let_def add.commute [of 8] del: length_records)
  also have "\<dots> = Inr (?bl\<lparr>bl_index_file := positions cd 0 ((xs @ [b]) @ ys)\<rparr>)"
    by (rule Cons.IH) (use Cons.prems in auto)
  finally show ?case by simp
qed

lemma get_last_record:
  assumes "blocks_fit cd bs" "bs \<noteq> []"
  shows "get_last_uint64 (records cd 0 bs) = Inr (length (records cd 0 (butlast bs)))"
    "get_last_uint64 (positions cd 0 bs) = Inr (length (records cd 0 (butlast bs)))"
proof -
  have split: "bs = butlast bs @ [last bs]" using assms(2) by simp
  have "blocks_fit cd (butlast bs @ last bs # [])" using assms(1) split by simp
  from blocks_fit_split(2) [OF this]
  have "get_last_uint64 (records cd 0 (butlast bs @ [last bs])) = Inr (length (records cd 0 (butlast bs)))"
    "get_last_uint64 (positions cd 0 (butlast bs @ [last bs])) = Inr (length (records cd 0 (butlast bs)))"
    by (intro get_last_uint64_at [where pre = "records cd 0 (butlast bs) @ pack_block cd (last bs)"]
          get_last_uint64_at [where pre = "positions cd 0 (butlast bs)"];
        simp add: records_append positions_append del: length_records)+
  then show "get_last_uint64 (records cd 0 bs) = Inr (length (records cd 0 (butlast bs)))"
    "get_last_uint64 (positions cd 0 bs) = Inr (length (records cd 0 (butlast bs)))" using split by simp_all
qed

lemma construct_index_log:
  assumes "blocks_fit cd bs" "bs \<noteq> []" "bl_block_file bl = records cd 0 bs" "bl_head bl = Some (last bs)"
  shows "construct_index cd bl = Inr (bl\<lparr>bl_index_file := positions cd 0 bs\<rparr>)"
proof -
  let ?bl = "bl\<lparr>bl_index_file := resize_file (length bs * 8) (create_nonexist_file [])\<rparr>"
  have len: "length (resize_file (length bs * 8) (create_nonexist_file [])) = 8 * length bs"
    using assms(2) by (cases bs) (auto simp: resize_file_def create_nonexist_file_def)
  have "block_num (last bs) = length bs" using assms(1,2) by (simp add: blocks_fit_def numbered_last)
  then show ?thesis
    using get_last_record(1) [OF assms(1,2)] assms len
      index_loop_log [of cd "[]" bs ?bl "resize_file (length bs * 8) (create_nonexist_file [])"]
    by (simp add: construct_index_def del: length_records)
qed

lemma read_head_log:
  assumes "blocks_fit cd bs" "bs \<noteq> []" "bl_block_file bl = records cd 0 bs"
  shows "read_head cd bl = Inr (last bs)"
proof -
  have split: "bs = butlast bs @ last bs # []" using assms(2) by simp
  have "read_block cd (length (records cd 0 (butlast bs))) bl = Inr (last bs, length (records cd 0 (butlast bs @ [last bs])))"
    by (rule read_block_nth [where ys = "[]"]) (use assms split in simp_all)
  then show ?thesis using get_last_record(1) [OF assms(1,2)] assms(3) by (simp add: read_head_def del: length_records)
qed

text \<open>The index needs no rebuilding, or its last entry shows that it does.\<close>

definition index_recoverable :: "block_codec \<Rightarrow> signed_block list \<Rightarrow> string \<Rightarrow> bool" where
  "index_recoverable cd bs f \<longleftrightarrow> f = positions cd 0 bs \<or> length f < 8 \<or>
     get_last_uint64 f \<noteq> Inr (length (records cd 0 (butlast bs)))"

lemma bl_open_log:
  assumes "blocks_fit cd bs" "bs \<noteq> []" "bl_block_file bl = records cd 0 bs" "index_recoverable cd bs (bl_index_file bl)"
  shows "\<exists>bl'. bl_open cr cd bl = Inr bl' \<and> log_of cr cd bs bl'"
proof -
  let ?i = "create_nonexist_file (bl_index_file bl)"
  let ?bl = "bl\<lparr>bl_block_file := records cd 0 bs, bl_index_file := ?i\<rparr>"
  let ?h = "?bl\<lparr>bl_head := Some (last bs), bl_head_id := signed_block_id cr (last bs)\<rparr>"
  let ?p = "length (records cd 0 (butlast bs))"
  obtain b cs where bs: "bs = b # cs" using assms(2) by (cases bs) auto
  have "codec_fits cd b" using assms(1) bs by (simp add: blocks_fit_def)
  then have big: "length (records cd 0 bs) > 8" using bs by (simp add: codec_fits_def)
  then have created: "create_nonexist_file (records cd 0 bs) = records cd 0 bs"
    by (auto simp: create_nonexist_file_def simp del: length_records)
  have head: "read_head cd ?bl = Inr (last bs)" using assms(1,2) by (rule read_head_log) simp
  have built: "construct_index cd ?h = Inr (?h\<lparr>bl_index_file := positions cd 0 bs\<rparr>)"
    using assms(1,2) by (rule construct_index_log) simp_all
  have last: "get_last_uint64 (records cd 0 bs) = Inr ?p" using get_last_record(1) [OF assms(1,2)] .
  have "bl_open cr cd bl = Inr (?h\<lparr>bl_index_file := positions cd 0 bs\<rparr>)"
  proof (cases "length ?i < 8")
    case True
    then show ?thesis
      using big head built
      by (simp add: bl_open_def assms(3) created has_block_records_def has_index_records_def min_valid_file_size_def
           Let_def del: length_records)
  next
    case False
    then have i: "?i = bl_index_file bl" "8 \<le> length (bl_index_file bl)"
      by (auto simp: create_nonexist_file_def split: if_splits)
    then obtain q where q: "get_last_uint64 (bl_index_file bl) = Inr q"
      by (simp add: get_last_uint64_def get_mapped_size_def min_valid_file_size_def)
    have "q = ?p \<longrightarrow> bl_index_file bl = positions cd 0 bs"
      using assms(4) i q by (auto simp: index_recoverable_def)
    then show ?thesis
      using big head built last q i
      by (cases "q = ?p") (simp_all add: bl_open_def assms(3) created has_block_records_def has_index_records_def
           min_valid_file_size_def Let_def del: length_records)
  qed
  then show ?thesis using assms(1,2) by (auto simp: log_of_def)
qed

section \<open>The contract of an append-only log\<close>

locale append_log =
  fixes represents :: "'b list \<Rightarrow> 's \<Rightarrow> bool" and good :: "'b list \<Rightarrow> bool"
    and add :: "'b \<Rightarrow> 's \<Rightarrow> 's res" and lookup :: "nat \<Rightarrow> 's \<Rightarrow> 'b option res"
  assumes add_ok: "represents bs s \<Longrightarrow> good (bs @ [b]) \<Longrightarrow> \<exists>s'. add b s = Inr s' \<and> represents (bs @ [b]) s'"
    and lookup_ok: "represents bs s \<Longrightarrow>
      lookup n s = Inr (if 0 < n \<and> n \<le> length bs then Some (bs ! (n - 1)) else None)"
    and good_prefix: "good (xs @ ys) \<Longrightarrow> good xs"
begin

lemma add_all:
  "represents bs s \<Longrightarrow> good (bs @ cs) \<Longrightarrow> \<exists>s'. foldR add cs s = Inr s' \<and> represents (bs @ cs) s'"
proof (induction cs arbitrary: bs s)
  case (Cons c cs)
  have "good (bs @ [c])" using Cons.prems(2) good_prefix [of "bs @ [c]" cs] by simp
  then obtain s1 where s1: "add c s = Inr s1" "represents (bs @ [c]) s1" using add_ok Cons.prems(1) by blast
  then show ?case using Cons.IH [of "bs @ [c]" s1] Cons.prems(2) by simp
qed simp

text \<open>What has been written stays readable under the same number.\<close>

lemma kept:
  assumes "represents bs s" "good (bs @ cs)" "foldR add cs s = Inr s'" "0 < n" "n \<le> length bs"
  shows "lookup n s' = lookup n s"
proof -
  have "represents (bs @ cs) s'" using add_all [OF assms(1,2)] assms(3) by auto
  then show ?thesis using assms(1,4,5) by (auto simp: lookup_ok nth_append)
qed

end

lemma blocks_fit_prefix: "blocks_fit cd (xs @ ys) \<Longrightarrow> blocks_fit cd xs"
  by (cases ys) (auto dest: blocks_fit_split(3))

interpretation blog: append_log "log_of cr cd" "blocks_fit cd" "log_append cr cd" "read_block_by_num cd" for cr cd
proof unfold_locales
  fix bs bl b assume log: "log_of cr cd bs bl" and fit: "blocks_fit cd (bs @ [b])"
  then have "block_num b = Suc (length bs)" by (simp add: blocks_fit_def numbered_append)
  from bl_append_log [OF log this fit] show "\<exists>bl'. log_append cr cd b bl = Inr bl' \<and> log_of cr cd (bs @ [b]) bl'"
    by (auto simp: log_append_def)
qed (auto simp: read_block_by_num_log dest: blocks_fit_prefix)

section \<open>Demonstration\<close>

definition demo_codec :: block_codec where
  "demo_codec = \<lparr>pack_block = bh_witness, unpack_block = (\<lambda>s.
     if take 1 s = ''g'' then Inr (block_g, 1)
     else if take 2 s = ''a1'' then Inr (block_a1, 2)
     else if take 2 s = ''a2'' then Inr (block_a2, 2)
     else Inl (Fc_exception ''unpack''))\<rparr>"

lemma demo_witnesses: "bh_witness block_g = ''g''" "bh_witness block_a1 = ''a1''" "bh_witness block_a2 = ''a2''"
  by (simp_all add: block_g_def block_a1_def block_a2_def demo_block_def)

lemma demo_fits: "blocks_fit demo_codec [block_g, block_a1, block_a2]"
  by (simp add: blocks_fit_def numbered_def codec_fits_def demo_codec_def demo_ids demo_witnesses STEEMIT_MAX_BLOCK_SIZE_def)

definition empty_log :: block_log_impl where
  "empty_log = \<lparr>bl_head = None, bl_head_id = no_block_id, bl_block_file = [], bl_index_file = []\<rparr>"

lemma empty_log_of: "log_of cr cd [] empty_log"
  by (simp add: log_of_def empty_log_def blocks_fit_def numbered_def)

section \<open>Theorems\<close>

text \<open>
  C15. The block log implements an append-only list of blocks. When the files hold the list \<open>bs\<close> and the
  blocks \<open>cs\<close> carry the following numbers, appending them all succeeds, the files then hold
  \<open>bs @ cs\<close>, reading any block number yields the block of that number in the list (and nothing for a
  number outside it), and the head is the last block.
\<close>

theorem block_log_refines_list:
  assumes "log_of cr cd bs bl" and "blocks_fit cd (bs @ cs)"
  shows "\<exists>bl'. foldR (log_append cr cd) cs bl = Inr bl' \<and> log_of cr cd (bs @ cs) bl' \<and>
    (\<forall>n. read_block_by_num cd n bl' = Inr (if 0 < n \<and> n \<le> length (bs @ cs) then Some ((bs @ cs) ! (n - 1)) else None)) \<and>
    bl_head bl' = (if bs @ cs = [] then None else Some (last (bs @ cs)))"
proof -
  obtain bl' where run: "foldR (log_append cr cd) cs bl = Inr bl'" "log_of cr cd (bs @ cs) bl'"
    using blog.add_all [OF assms] by blast
  then have "bl_head bl' = (if bs @ cs = [] then None else Some (last (bs @ cs)))"
    by (auto simp: log_of_def)
  then show ?thesis using run blog.lookup_ok by blast
qed

theorem block_log_refines_list_witness:
  "\<exists>bl. foldR (log_append fork_crypto demo_codec) [block_g, block_a1, block_a2] empty_log = Inr bl \<and>
    read_block_by_num demo_codec 2 bl = Inr (Some block_a1)"
  using block_log_refines_list [OF empty_log_of, of demo_codec "[block_g, block_a1, block_a2]" fork_crypto]
    demo_fits by auto

text \<open>
  C29. A log whose index file is lost, too short or stale is repaired when it is opened. From a block
  file that holds the blocks \<open>bs\<close> and an index file that is right, has less than one entry or ends
  in another position than the block file, \<open>bl_open\<close> succeeds, and both files represent \<open>bs\<close>
  again, so that every block can be read by its number.
\<close>

theorem block_log_index_rebuilt:
  assumes "blocks_fit cd bs" and "bs \<noteq> []" and "bl_block_file bl = records cd 0 bs"
    and "index_recoverable cd bs (bl_index_file bl)"
  shows "\<exists>bl'. bl_open cr cd bl = Inr bl' \<and> log_of cr cd bs bl' \<and>
    (\<forall>n. 0 < n \<and> n \<le> length bs \<longrightarrow> read_block_by_num cd n bl' = Inr (Some (bs ! (n - 1))))"
proof -
  obtain bl' where "bl_open cr cd bl = Inr bl'" "log_of cr cd bs bl'" using bl_open_log [OF assms] by blast
  then show ?thesis using blog.lookup_ok by auto
qed

theorem block_log_index_rebuilt_witness:
  "\<exists>bl. bl_open fork_crypto demo_codec (empty_log\<lparr>bl_block_file := records demo_codec 0 [block_g, block_a1, block_a2]\<rparr>) = Inr bl \<and>
    read_block_by_num demo_codec 3 bl = Inr (Some block_a2)"
  using block_log_index_rebuilt [OF demo_fits, of "empty_log\<lparr>bl_block_file := records demo_codec 0 [block_g, block_a1, block_a2]\<rparr>"
      fork_crypto]
  by (auto simp: index_recoverable_def empty_log_def)

end
