(* ===== verification/Block_Properties.thy ===== *)
theory Block_Properties
  imports Block_Production Chain_Properties Schedule_Properties Block_Log_Properties
begin

text \<open>
  Properties of block production: slot times and slot numbers are inverse to each other, the
  participation counter counts the filled slots, a block extends the chain by one, and irreversible
  blocks only grow and end up in the block log.
\<close>

section \<open>Slots\<close>

definition slot_base :: "database \<Rightarrow> time_point_sec" where
  "slot_base db = (if head_block_num db = 0 then head_block_time db else head_block_time db div 3 * 3)"

lemma slot_time_eq:
  assumes "0 \<le> head_block_time db" "0 < n" "head_block_time db + 3 * int n < 2 ^ 32"
  shows "get_slot_time n db = slot_base db + 3 * int n"
proof -
  have "head_block_time db div 3 * 3 \<le> head_block_time db" by simp
  moreover have "0 \<le> head_block_time db div 3 * 3" using assms(1) by simp
  ultimately show ?thesis
    using assms by (auto simp: get_slot_time_def slot_base_def time_plus_def STEEMIT_BLOCK_INTERVAL_def head_block_time_def Let_def)
qed

lemma slot_at_time_eq:
  assumes "0 \<le> head_block_time db" "head_block_time db + 3 < 2 ^ 32" "slot_base db + 3 \<le> t" "t < 2 ^ 32"
  shows "int (get_slot_at_time t db) = (t - slot_base db) div 3"
proof -
  have first: "get_slot_time 1 db = slot_base db + 3" using slot_time_eq [of db 1] assms(1,2) by simp
  have "0 \<le> slot_base db" using assms(1) by (simp add: slot_base_def)
  then have "(t - (slot_base db + 3)) div 3 + 1 < 2 ^ 32" "0 \<le> (t - (slot_base db + 3)) div 3"
    using assms(3,4) by auto
  moreover have "(t - (slot_base db + 3)) div 3 + 1 = (t - slot_base db) div 3" by simp
  ultimately show ?thesis using assms(3) by (simp add: get_slot_at_time_def first [unfolded One_nat_def] STEEMIT_BLOCK_INTERVAL_def Let_def)
qed

section \<open>Participation\<close>







lemma record_miss_dgp [simp]: "db_dgp (record_miss w db) = db_dgp db"
  by (simp add: record_miss_def set_witness_def push_virtual_operation_def Let_def)

lemma miss_slot_dgp: "miss_slot b i db = Inr db' \<Longrightarrow> db_dgp db' = db_dgp db"
  by (auto simp: miss_slot_def)

lemma miss_slots_dgp: "foldR (miss_slot b) is db = Inr db' \<Longrightarrow> db_dgp db' = db_dgp db"
proof (induction "is" arbitrary: db)
  case (Cons i "is")
  then show ?case by (auto dest!: miss_slot_dgp)
qed simp

lemma update_global_Inr:
  assumes "update_global_dynamic_data fc cr cd skip b db = Inr db'"
  shows "\<exists>db1. foldR (miss_slot b) [0..<missed_slots b db] db = Inr db1 \<and>
    db_dgp db' = adjust_reserve (length (pack_block cd b)) db1
      (advance_head fc cr ((missed_slots b db + 1) mod 2 ^ 32) b (db_dgp db)) \<and>
    db' = db1\<lparr>db_dgp := db_dgp db'\<rparr>"
proof -
  obtain db1 where run: "foldR (miss_slot b) [0..<missed_slots b db] db = Inr db1"
    "db' = db1\<lparr>db_dgp := adjust_reserve (length (pack_block cd b)) db1
       (advance_head fc cr ((missed_slots b db + 1) mod 2 ^ 32) b (db_dgp db1))\<rparr>"
    using assms unfolding update_global_dynamic_data_def Let_def by auto
  show ?thesis using run by (intro exI [of _ db1]) (simp add: miss_slots_dgp [OF run(1)])
qed

lemma adjust_reserve_fields [simp]:
  "dgp_recent_slots_filled (adjust_reserve n db d) = dgp_recent_slots_filled d"
  "dgp_participation_count (adjust_reserve n db d) = dgp_participation_count d"
  "dgp_head_block_number (adjust_reserve n db d) = dgp_head_block_number d"
  "dgp_head_block_id (adjust_reserve n db d) = dgp_head_block_id d"
  "dgp_time (adjust_reserve n db d) = dgp_time d" "dgp_current_aslot (adjust_reserve n db d) = dgp_current_aslot d"
  "dgp_last_irreversible_block_num (adjust_reserve n db d) = dgp_last_irreversible_block_num d"
  by (simp_all add: adjust_reserve_def Let_def)



section \<open>The head of the chain\<close>

definition head_of :: "database \<Rightarrow> nat \<times> block_id_type \<times> time_point_sec \<times> nat" where
  "head_of db = (dgp_head_block_number (db_dgp db), dgp_head_block_id (db_dgp db), dgp_time (db_dgp db),
     dgp_current_aslot (db_dgp db))"

lemma dgp_frame_head: "dgp_frame (db_dgp db') = dgp_frame (db_dgp db) \<Longrightarrow> head_of db' = head_of db"
proof -
  assume eq: "dgp_frame (db_dgp db') = dgp_frame (db_dgp db)"
  have "head_of db = (dgp_head_block_number (dgp_frame (db_dgp db)), dgp_head_block_id (dgp_frame (db_dgp db)),
      dgp_time (dgp_frame (db_dgp db)), dgp_current_aslot (dgp_frame (db_dgp db)))" for db
    by (simp add: head_of_def dgp_frame_def dgp_funds_def)
  then show ?thesis using eq by metis
qed

lemma head_dgp: "db_dgp db' = db_dgp db \<Longrightarrow> head_of db' = head_of db"
  by (simp add: head_of_def)

lemma head_set_witness [simp]: "head_of (set_witness w db) = head_of db"
  by (simp add: head_of_def set_witness_def)

lemma head_update_witness [simp]: "head_of (update_witness i f db) = head_of db"
  by (simp add: head_of_def update_witness_def)

lemma header_extensions_head: "process_header_extensions b db = Inr db' \<Longrightarrow> head_of db' = head_of db"
proof -
  have step: "process_header_extension n e db = Inr db' \<Longrightarrow> head_of db' = head_of db" for n e db db'
    by (cases e) auto
  show "process_header_extensions b db = Inr db' \<Longrightarrow> head_of db' = head_of db"
    unfolding process_header_extensions_def
    by (erule foldR_invariant [where P = "\<lambda>x. head_of x = head_of db"]) (simp_all add: step)
qed

lemma apply_transaction_head:
  assumes "apply_transaction fc cr nf skip trx c = Inr c'"
  shows "head_of (ch_db c') = head_of (ch_db c)"
proof -
  obtain bs where "apply_operations fc (crypto_lib.truncate cr) nf (operations trx) ((ch_db c)\<lparr>db_bandwidth := bs\<rparr>) =
      Inr (ch_db c')"
    using apply_transaction_Inr(3) [OF assms] by blast
  from clock.apply_operations_view [OF this]
  have "dgp_frame (db_dgp (ch_db c')) = dgp_frame (db_dgp (ch_db c))" by simp
  then show ?thesis by (rule dgp_frame_head)
qed

lemma apply_transactions_head:
  "foldR (apply_transaction fc cr nf skip) ts c = Inr c' \<Longrightarrow> head_of (ch_db c') = head_of (ch_db c)"
  by (erule foldR_invariant [where P = "\<lambda>x. head_of (ch_db x) = head_of (ch_db c)"]) (simp_all add: apply_transaction_head)

text \<open>Slots depend on the head only.\<close>

lemma slots_of_head:
  "head_of db' = head_of db \<Longrightarrow> get_slot_at_time t db' = get_slot_at_time t db \<and> missed_slots b db' = missed_slots b db"
proof -
  assume "head_of db' = head_of db"
  then have same: "head_block_num db' = head_block_num db" "head_block_time db' = head_block_time db"
    "dgp_time (db_dgp db') = dgp_time (db_dgp db)" by (simp_all add: head_of_def head_block_num_def head_block_time_def)
  then have "get_slot_time n db' = get_slot_time n db" for n by (simp add: get_slot_time_def Let_def)
  then have "get_slot_at_time t db' = get_slot_at_time t db" for t by (simp add: get_slot_at_time_def)
  then show ?thesis by (simp add: missed_slots_def same)
qed

lemma advance_head_of:
  assumes "update_global_dynamic_data fc cr cd skip b db = Inr db'"
  shows "head_of db' = (block_num b, signed_block_id (crypto_lib.truncate cr) b, bh_timestamp b,
    (dgp_current_aslot (db_dgp db) + (missed_slots b db + 1) mod 2 ^ 32) mod 2 ^ 64)"
  using update_global_Inr [OF assms] by (auto simp: head_of_def advance_head_def)

lemma signing_witness_head: "update_signing_witness n b db = Inr db' \<Longrightarrow> head_of db' = head_of db"
  by (auto simp: update_signing_witness_def)

text \<open>The signing witness is the producer that the header names.\<close>

lemma validate_header_Inr:
  assumes "validate_block_header cr skip b db = Inr w"
  shows "dgp_head_block_id (db_dgp db) = bh_previous b" "head_block_time db < bh_timestamp b" "wit_owner w = bh_witness b"
    "\<not> skips skip skip_witness_schedule_check \<Longrightarrow> 0 < get_slot_at_time (bh_timestamp b) db \<and>
       bh_witness b = get_scheduled_witness (get_slot_at_time (bh_timestamp b) db) db"
proof -
  have run: "dgp_head_block_id (db_dgp db) = bh_previous b" "head_block_time db < bh_timestamp b"
    "get_witness (bh_witness b) db = Inr w"
    "\<not> skips skip skip_witness_schedule_check \<Longrightarrow> 0 < get_slot_at_time (bh_timestamp b) db \<and>
       wit_owner w = get_scheduled_witness (get_slot_at_time (bh_timestamp b) db) db"
    using assms unfolding validate_block_header_def Let_def bindR_eq_Inr by (auto split: if_split_asm)
  then show "dgp_head_block_id (db_dgp db) = bh_previous b" "head_block_time db < bh_timestamp b" by simp_all
  show own: "wit_owner w = bh_witness b" using run(3) by (auto simp: get_witness_def find_witness_def dest: find_by_Some)
  show "\<not> skips skip skip_witness_schedule_check \<Longrightarrow> 0 < get_slot_at_time (bh_timestamp b) db \<and>
       bh_witness b = get_scheduled_witness (get_slot_at_time (bh_timestamp b) db) db"
    using run(4) own by simp
qed

section \<open>Stages that leave the head alone\<close>

context frame
begin

lemma expiry_stages_view: "expiry_stages fc db = Inr db' \<Longrightarrow> view db' = view db"
proof -
  assume run: "expiry_stages fc db = Inr db'"
  have "post (\<lambda>db'. view db' = view db) (expiry_stages fc db)"
    unfolding expiry_stages_def clear_expired_orders_def clear_expired_delegations_def return_delegation_def Let_def
    by (auto intro!: post_states post_values foldR_post)
  then show "view db' = view db" using run by (simp add: post_def)
qed

end

lemma expiry_stages_head: "expiry_stages fc db = Inr db' \<Longrightarrow> head_of db' = head_of db"
  using clock.expiry_stages_view dgp_frame_head by blast

lemma select_miners_head: "select_miners voted queue miners db = (miners', db') \<Longrightarrow> head_of db' = head_of db"
proof (induction voted queue miners db rule: select_miners.induct)
  case (2 voted m queue miners db)
  have num_pow: "head_of (x\<lparr>db_dgp := (db_dgp x)\<lparr>dgp_num_pow_witnesses := n\<rparr>\<rparr>) = head_of x" for x n
    by (simp add: head_of_def)
  show ?case using 2 by (auto simp: Let_def num_pow split: if_split_asm)
qed simp

lemma select_timeshare_head:
  "select_timeshare selected k ws vt processed chosen db = (vt', processed', chosen', db') \<Longrightarrow> head_of db' = head_of db"
  by (induction selected k ws vt processed chosen db rule: select_timeshare.induct)
    (auto simp: Let_def split: if_split_asm)

lemma fold_update_head: "head_of (fold (\<lambda>w. update_witness (g w) f) ws db) = head_of db"
  by (induction ws arbitrary: db) auto

lemma select_round_head: "select_round db = (r, vt, processed, db') \<Longrightarrow> head_of db' = head_of db"
  unfolding select_round_def select_voted_def Let_def
  by (auto split: prod.splits simp: fold_update_head dest!: select_miners_head select_timeshare_head)

lemma advance_virtual_head: "advance_virtual fc vt ws db = Inr (r, db') \<Longrightarrow> head_of db' = head_of db"
  by (induction fc vt ws db rule: advance_virtual.induct) (auto simp: Let_def split: if_split_asm)

lemma reset_virtual_head: "reset_virtual_schedule_time fc db = Inr db' \<Longrightarrow> head_of db' = head_of db"
  unfolding reset_virtual_schedule_time_def Let_def
  by (erule foldR_invariant [where P = "\<lambda>x. head_of x = head_of db"]) (auto simp: head_of_def update_witness_def)

lemma install_round_head: "head_of (install_round a e m t vt v db) = head_of db"
  by (simp add: install_round_def head_of_def Let_def)

lemma median_props_head: "update_median_witness_props nel db = Inr db' \<Longrightarrow> head_of db' = head_of db"
  by (auto simp: update_median_witness_props_def head_of_def)

lemma schedule4_head: "update_witness_schedule4 fc nel hpo db = Inr (hpo', db') \<Longrightarrow> head_of db' = head_of db"
proof -
  assume run: "update_witness_schedule4 fc nel hpo db = Inr (hpo', db')"
  obtain r vt processed db1 where r: "select_round db = (r, vt, processed, db1)" by (cases "select_round db") auto
  obtain c db2 db3 a e m t v x where s: "advance_virtual fc vt processed db1 = Inr (c, db2)"
    "(if c then reset_virtual_schedule_time fc db2 else Inr db2) = Inr db3"
    "update_median_witness_props nel (install_round a e m t v x db3) = Inr db'"
    using run unfolding update_witness_schedule4_def r Let_def by (cases r) auto
  show ?thesis
    using select_round_head [OF r] advance_virtual_head [OF s(1)] s(2) reset_virtual_head [of fc db2 db3]
      median_props_head [OF s(3)] by (auto simp: install_round_head split: if_split_asm)
qed

lemma pop_miner_head: "head_of (pop_miner db) = head_of db"
  by (auto simp: pop_miner_def head_of_def update_witness_def split: list.split)

lemma schedule_early_head: "schedule_early fc active db = Inr (a, vt, db') \<Longrightarrow> head_of db' = head_of db"
  by (auto simp: schedule_early_def Let_def split: list.split_asm)

lemma early_head: "update_witness_schedule_early fc nel db = Inr db' \<Longrightarrow> head_of db' = head_of db"
proof -
  assume run: "update_witness_schedule_early fc nel db = Inr db'"
  obtain e1 e2 where e: "elect_early db = (e1, e2)" by (cases "elect_early db")
  obtain active vt db1 x where s: "(if voting_decides db then schedule_early fc e1 e2 else Inr ([], 0, db)) = Inr (active, vt, db1)"
    "update_median_witness_props nel ((pop_miner db1)\<lparr>db_schedule := x\<rparr>) = Inr db'"
    using run unfolding update_witness_schedule_early_def Let_def e by auto
  have "head_of e2 = head_of db" using e by (auto simp: elect_early_def Let_def fold_update_head)
  then have "head_of db1 = head_of db" using s(1) by (auto dest!: schedule_early_head split: if_split_asm)
  moreover have "head_of ((pop_miner db1)\<lparr>db_schedule := x\<rparr>) = head_of (pop_miner db1)" by (simp add: head_of_def)
  ultimately show ?thesis using median_props_head [OF s(2)] pop_miner_head by metis
qed

lemma schedule_head: "update_witness_schedule fc nel hpo db = Inr (hpo', db') \<Longrightarrow> head_of db' = head_of db"
  by (auto simp: update_witness_schedule_def dest: schedule4_head early_head split: if_split_asm)

lemma irreversible_Inr:
  assumes "update_last_irreversible_block nl skip nd = Some (Inr nd')"
  obtains num bl where "new_irreversible (nl_nth_element nl) (nd_fixed_irreversible_block_num nd) (nd_db nd) = Inr num"
    "nd_db nd' = (nd_db nd)\<lparr>db_dgp := (db_dgp (nd_db nd))\<lparr>dgp_last_irreversible_block_num := num\<rparr>\<rparr>"
    "(if skips skip skip_block_log then Some (Inr (nd_block_log nd))
      else log_blocks (crypto_lib.truncate (nl_tx nl)) (nl_codec nl) (nd_fork_db nd)
        [log_head_num (nd_block_log nd) + 1 ..< num + 1] (nd_block_log nd)) = Some (Inr bl)"
    "nd_block_log nd' = bl"
proof -
  obtain num where num: "new_irreversible (nl_nth_element nl) (nd_fixed_irreversible_block_num nd) (nd_db nd) = Inr num"
    using assms by (auto simp: update_last_irreversible_block_def Let_def split: sum.split_asm)
  show ?thesis
    using assms num that [OF num] unfolding update_last_irreversible_block_def Let_def num sum.case map_option_eq_Some
    by (auto simp: nd_db_def set_db_def)
qed

lemma irreversible_head: "update_last_irreversible_block nl skip nd = Some (Inr nd') \<Longrightarrow> head_of (nd_db nd') = head_of (nd_db nd)"
  by (erule irreversible_Inr) (simp add: head_of_def)

lemma settle_block_head: "settle_block nl b nd = Inr nd' \<Longrightarrow> head_of (nd_db nd') = head_of (nd_db nd)"
proof -
  assume run: "settle_block nl b nd = Inr nd'"
  let ?c = "create_block_summary (nl_tx nl) b (nd_chain nd)"
  have c: "ch_db ?c = nd_db nd" "ch_db (clear_expired_transactions ?c) = nd_db nd"
    by (simp_all add: create_block_summary_def clear_expired_transactions_def nd_db_def)
  obtain c1 hpo db where s: "(if is_transit_enabled (ch_db ?c) then Inr ?c
      else bindR (expiry_stages (nl_fc nl) (ch_db (clear_expired_transactions ?c)))
        (\<lambda>db. Inr ((clear_expired_transactions ?c)\<lparr>ch_db := db\<rparr>))) = Inr c1"
    "update_witness_schedule (nl_fc nl) (nl_nth_element nl) (nd_hardforks nd) (ch_db c1) = Inr (hpo, db)"
    "nd' = nd\<lparr>nd_chain := c1\<lparr>ch_db := db\<rparr>, nd_hardforks := hpo\<rparr>"
    using run unfolding settle_block_def Let_def by (auto split: prod.splits)
  have "head_of (ch_db c1) = head_of (nd_db nd)"
    using s(1) c by (auto dest: expiry_stages_head split: if_split_asm)
  then show ?thesis using schedule_head [OF s(2)] s(3) by (simp add: nd_db_def)
qed

lemma accept_block_Inr:
  assumes "accept_block nl nf skip b nd = Inr nd'"
  shows "dgp_head_block_id (db_dgp (nd_db nd)) = bh_previous b" "head_block_time (nd_db nd) < bh_timestamp b"
    "\<not> skips skip skip_witness_schedule_check \<Longrightarrow> 0 < get_slot_at_time (bh_timestamp b) (nd_db nd) \<and>
       bh_witness b = get_scheduled_witness (get_slot_at_time (bh_timestamp b) (nd_db nd)) (nd_db nd)"
    "head_of (nd_db nd') = (block_num b, signed_block_id (crypto_lib.truncate (nl_tx nl)) b, bh_timestamp b,
       (dgp_current_aslot (db_dgp (nd_db nd)) + (missed_slots b (nd_db nd) + 1) mod 2 ^ 32) mod 2 ^ 64)"
proof -
  let ?db = "(nd_db nd)\<lparr>db_dgp := (db_dgp (nd_db nd))\<lparr>dgp_current_witness := bh_witness b\<rparr>\<rparr>"
  obtain w db1 c db2 db3 where run: "validate_block_header (nl_tx nl) skip b (nd_db nd) = Inr w"
    "process_header_extensions b ?db = Inr db1"
    "foldR (apply_transaction (nl_fc nl) (nl_tx nl) nf skip) (sb_transactions b) ((nd_chain nd)\<lparr>ch_db := db1\<rparr>) = Inr c"
    "update_global_dynamic_data (nl_fc nl) (nl_tx nl) (nl_codec nl) skip b (ch_db c) = Inr db2"
    "update_signing_witness (wit_owner w) b db2 = Inr db3" "nd' = nd\<lparr>nd_chain := c\<lparr>ch_db := db3\<rparr>\<rparr>"
    using assms unfolding accept_block_def Let_def bindR_eq_Inr by auto
  have "head_of (ch_db c) = head_of (nd_db nd)"
    using apply_transactions_head [OF run(3)] header_extensions_head [OF run(2)] by (simp add: head_of_def)
  note same = this slots_of_head [OF this]
  show "head_of (nd_db nd') = (block_num b, signed_block_id (crypto_lib.truncate (nl_tx nl)) b, bh_timestamp b,
       (dgp_current_aslot (db_dgp (nd_db nd)) + (missed_slots b (nd_db nd) + 1) mod 2 ^ 32) mod 2 ^ 64)"
    using advance_head_of [OF run(4)] signing_witness_head [OF run(5)] run(6) same by (simp add: nd_db_def head_of_def)
qed (use validate_header_Inr assms in \<open>auto simp: accept_block_def Let_def\<close>)

section \<open>Irreversible blocks\<close>

lemma irreversible_offset_quarter: "irreversible_offset n = n div 4"
proof -
  have "2500 * n div 10000 = n div 4" by (simp add: div_mult2_eq [of "2500 * n" 2500 4, simplified])
  then show ?thesis by (simp add: irreversible_offset_def STEEMIT_100_PERCENT_def STEEMIT_IRREVERSIBLE_THRESHOLD_def)
qed

definition confirmations :: "nat \<Rightarrow> witness_object list \<Rightarrow> nat" where
  "confirmations n ws = length (filter (\<lambda>w. n \<le> wit_last_confirmed_block_num w) ws)"

lemma confirmations_mono: "m \<le> n \<Longrightarrow> confirmations n ws \<le> confirmations m ws"
  unfolding confirmations_def by (induction ws) auto

lemma nth_element_confirmed:
  assumes "nth_element_ok nel" "ws \<noteq> []"
  shows "3 * length ws \<le> 4 * confirmations (wit_last_confirmed_block_num
    (nel (\<lambda>a b. wit_last_confirmed_block_num a < wit_last_confirmed_block_num b) (irreversible_offset (length ws)) ws !
      irreversible_offset (length ws))) ws"
proof -
  let ?lt = "\<lambda>a b. wit_last_confirmed_block_num a < wit_last_confirmed_block_num b" and ?k = "irreversible_offset (length ws)"
  let ?r = "nel ?lt ?k ws"
  have k: "?k < length ws" "?k = length ws div 4" using assms(2) by (auto simp: irreversible_offset_quarter)
  have "strict_weak_order ?lt (\<lambda>w. w \<in> set ws)" by unfold_locales auto
  then have r: "mset ?r = mset ws" "\<forall>i. ?k < i \<and> i < length ws \<longrightarrow> \<not> ?lt (?r ! i) (?r ! ?k)"
    using assms(1) k(1) unfolding nth_element_ok_def by blast+
  then have len: "length ?r = length ws" by (metis mset_eq_length)
  have "\<forall>i. ?k \<le> i \<and> i < length ?r \<longrightarrow> wit_last_confirmed_block_num (?r ! ?k) \<le> wit_last_confirmed_block_num (?r ! i)"
    using r(2) len by (auto simp: le_less not_less)
  from filter_suffix_length [OF _ this] k(1) len
  have "length ws - ?k \<le> confirmations (wit_last_confirmed_block_num (?r ! ?k)) ws"
    unfolding confirmations_def length_filter_mset [OF r(1), symmetric] by simp
  then show ?thesis using k(2) by linarith
qed

lemma new_irreversible_confirmed:
  assumes "nth_element_ok nel" "scheduled_witnesses db = Inr ws" "ws \<noteq> []"
    and "STEEMIT_START_MINER_VOTING_BLOCK \<le> head_block_num db" "new_irreversible nel fixed db = Inr n"
  shows "n = dgp_last_irreversible_block_num (db_dgp db) \<or>
    dgp_last_irreversible_block_num (db_dgp db) < n \<and> n \<le> fixed \<and> 3 * length ws \<le> 4 * confirmations n ws"
proof -
  define w where "w = nel (\<lambda>a b. wit_last_confirmed_block_num a < wit_last_confirmed_block_num b)
    (irreversible_offset (length ws)) ws ! irreversible_offset (length ws)"
  define m where "m = min (wit_last_confirmed_block_num w mod 2 ^ 32) fixed"
  have n: "n = (if m > dgp_last_irreversible_block_num (db_dgp db) then
      if is_transit_enabled db \<and> dgp_transit_block_num (db_dgp db) > dgp_last_irreversible_block_num (db_dgp db) \<and>
         dgp_transit_block_num (db_dgp db) \<le> m then dgp_transit_block_num (db_dgp db) else m
    else dgp_last_irreversible_block_num (db_dgp db))"
    using assms(4,5) unfolding new_irreversible_def Let_def assms(2) bindR_Inr w_def [symmetric] m_def [symmetric] by auto
  have "m \<le> wit_last_confirmed_block_num w" "m \<le> fixed"
    using mod_less_eq_dividend [of "wit_last_confirmed_block_num w" "2 ^ 32"] by (auto simp: m_def simp del: mod_less_eq_dividend)
  moreover have "3 * length ws \<le> 4 * confirmations (wit_last_confirmed_block_num w) ws"
    unfolding w_def by (rule nth_element_confirmed [OF assms(1,3)])
  ultimately show ?thesis
    using confirmations_mono [of n "wit_last_confirmed_block_num w" ws] n by (auto split: if_split_asm)
qed

section \<open>The block log\<close>

lemma walk_down_live:
  assumes "walk_down db n it = Some r" "set_option it \<subseteq> set (live db)"
  shows "set_option r \<subseteq> set (live db)"
proof -
  have "set_option it \<subseteq> set (live db) \<longrightarrow> set_option r \<subseteq> set (live db)"
  proof (rule walk_down.raw_induct [OF _ assms(1), where P = "\<lambda>db n it r. set_option it \<subseteq> set (live db) \<longrightarrow> set_option r \<subseteq> set (live db)"],
      goal_cases)
    case (1 walk db' n' it' r')
    show ?case
    proof (cases it')
      case None
      then show ?thesis using 1(2) by auto
    next
      case (Some i)
      show ?thesis
      proof (cases "fi_num i > n'")
        case True
        then have "walk db' n' (lock db' (fi_prev i)) = Some r'" using 1(2) Some by simp
        from 1(1) [OF this] show ?thesis using lock_Some [of db' "fi_prev i"] by (cases "lock db' (fi_prev i)") auto
      qed (use 1(2) Some in auto)
    qed
  qed
  then show ?thesis using assms(2) by blast
qed

lemma fetch_main_live:
  assumes "fetch_block_on_main_branch_by_number n db = Some (Inr (Some it))"
  shows "it \<in> set (live db)"
proof (cases "length (fetch_block_by_number n db) = 1")
  case True
  then obtain x where x: "fetch_block_by_number n db = [x]" by (auto simp: length_Suc_conv)
  have "set (fetch_block_by_number n db) \<subseteq> set (fdb_index db)" by (auto simp: fetch_block_by_number_def)
  then have "x \<in> set (fdb_index db)" using x by simp
  then show ?thesis using assms x by (simp add: fetch_block_on_main_branch_by_number_def live_def)
next
  case False
  then obtain h where h: "fdb_head db = Some h" "walk_down db n (Some h) = Some (Some it)"
    using assms by (auto simp: fetch_block_on_main_branch_by_number_def walk_main_branch_to_num_def Let_def
        split: if_split_asm option.split_asm)
  then have "set_option (Some h) \<subseteq> set (live db)" by (simp add: live_def)
  from walk_down_live [OF h(2) this] show ?thesis by simp
qed

lemma log_append_Inr:
  assumes "log_of cr cd bs bl" "log_append cr cd b bl = Inr bl'" "codec_fits cd b" "length bs < 2 ^ 32 - 1"
  shows "log_of cr cd (bs @ [b]) bl'"
proof -
  have num: "block_num b = Suc (length bs)"
  proof (rule ccontr)
    assume "block_num b \<noteq> Suc (length bs)"
    from bl_append_wrong_number [OF assms(1) this assms(4)] assms(2) show False by (simp add: log_append_def)
  qed
  have fit: "numbered bs" "list_all (codec_fits cd) bs" using assms(1) by (auto simp: log_of_def blocks_fit_def)
  have "length (pack_block cd x) + 8 \<le> STEEMIT_MAX_BLOCK_SIZE + 8" if "x \<in> set (bs @ [b])" for x
    using fit(2) assms(3) that by (auto simp: list_all_iff codec_fits_def)
  then have "(\<Sum>x\<leftarrow>bs @ [b]. length (pack_block cd x) + 8) \<le> (\<Sum>x\<leftarrow>bs @ [b]. STEEMIT_MAX_BLOCK_SIZE + 8)"
    by (rule sum_list_mono)
  also have "\<dots> = Suc (length bs) * (STEEMIT_MAX_BLOCK_SIZE + 8)" by (simp add: sum_list_triv)
  also have "\<dots> < 2 ^ 64" using assms(4) by (simp add: STEEMIT_MAX_BLOCK_SIZE_def)
  finally have "length (records cd 0 (bs @ [b])) < 2 ^ 64" by simp
  then have "blocks_fit cd (bs @ [b])" using num fit assms(3) by (simp add: blocks_fit_def numbered_append)
  from bl_append_log [OF assms(1) num this] show ?thesis using assms(2) by (auto simp: log_append_def)
qed

lemma log_blocks_Inr:
  assumes "log_blocks cr cd fdb ns bl = Some (Inr bl')" "log_of cr cd bs bl" "\<forall>it \<in> set (live fdb). codec_fits cd (fi_data it)"
    and "length bs + length ns < 2 ^ 32"
  shows "\<exists>cs. log_of cr cd (bs @ cs) bl' \<and> length cs = length ns \<and> set cs \<subseteq> fi_data ` set (live fdb)"
  using assms
proof (induction ns arbitrary: bs bl)
  case (Cons n ns)
  obtain it bl1 where s: "fetch_block_on_main_branch_by_number n fdb = Some (Inr (Some it))"
    "log_append cr cd (fi_data it) bl = Inr bl1" "log_blocks cr cd fdb ns bl1 = Some (Inr bl')"
    using Cons.prems(1) by (auto split: option.split_asm sum.split_asm)
  have it: "it \<in> set (live fdb)" using fetch_main_live [OF s(1)] .
  have log: "log_of cr cd (bs @ [fi_data it]) bl1"
    by (rule log_append_Inr [OF Cons.prems(2) s(2)]) (use it Cons.prems(3,4) in auto)
  obtain cs where "log_of cr cd ((bs @ [fi_data it]) @ cs) bl'" "length cs = length ns" "set cs \<subseteq> fi_data ` set (live fdb)"
    using Cons.IH [OF s(3) log] Cons.prems(3,4) by auto
  then show ?case using it by (intro exI [of _ "fi_data it # cs"]) auto
qed auto

section \<open>Theorems\<close>

text \<open>
  C31. Slot numbers and slot times fit together. As long as the time does not leave 32 bits, every
  time in the three seconds from the start of slot \<open>n\<close> on belongs to slot \<open>n\<close>, and a time before
  the first slot to none; so consecutive slots neither overlap nor leave a gap.
\<close>

theorem slots_partition_time:
  assumes "0 \<le> head_block_time db" and "0 < n" and "head_block_time db + 3 * int n + 3 < 2 ^ 32"
  shows "(\<forall>t. get_slot_time n db \<le> t \<and> t < get_slot_time n db + 3 \<longrightarrow> get_slot_at_time t db = n) \<and>
    get_slot_time (n + 1) db = get_slot_time n db + 3 \<and> (\<forall>t < get_slot_time 1 db. get_slot_at_time t db = 0)"
proof -
  have base: "get_slot_time n db = slot_base db + 3 * int n" "get_slot_time (n + 1) db = slot_base db + 3 * int n + 3"
    using slot_time_eq [of db n] slot_time_eq [of db "n + 1"] assms by auto
  have "head_block_time db div 3 * 3 \<le> head_block_time db" by simp
  then have le: "slot_base db \<le> head_block_time db" by (simp add: slot_base_def)
  have "get_slot_at_time t db = n" if t: "slot_base db + 3 * int n \<le> t" "t < slot_base db + 3 * int n + 3" for t
  proof -
    have "int (get_slot_at_time t db) = (t - slot_base db) div 3" using assms t le by (intro slot_at_time_eq) auto
    also have "\<dots> = int n" using t by linarith
    finally show ?thesis by simp
  qed
  moreover have "get_slot_at_time t db = 0" if "t < get_slot_time 1 db" for t using that by (simp add: get_slot_at_time_def Let_def)
  ultimately show ?thesis unfolding base by blast
qed


text \<open>
  C12. A block extends the chain by itself. When a node applies a block and the check of the schedule
  is not switched off, the block names the head as its predecessor, is later than the head, and is
  made by the witness scheduled for its slot; afterwards it is the head, with its number, its
  identifier and its time, the identifier carries the number, and the slot counter has advanced by
  the slot of the block.
\<close>

theorem block_extends_chain:
  assumes "extend_chain nl nf skip b nd = Some (Inr nd')" and "\<not> skips skip skip_witness_schedule_check"
    and "head_block_time (nd_db nd) \<noteq> 0"
  shows "bh_previous b = dgp_head_block_id (db_dgp (nd_db nd)) \<and> head_block_time (nd_db nd) < bh_timestamp b \<and>
    bh_witness b = get_scheduled_witness (get_slot_at_time (bh_timestamp b) (nd_db nd)) (nd_db nd) \<and>
    head_of (nd_db nd') = (block_num b, signed_block_id (crypto_lib.truncate (nl_tx nl)) b, bh_timestamp b,
      (dgp_current_aslot (db_dgp (nd_db nd)) + get_slot_at_time (bh_timestamp b) (nd_db nd)) mod 2 ^ 64) \<and>
    num_from_id (dgp_head_block_id (db_dgp (nd_db nd'))) = dgp_head_block_number (db_dgp (nd_db nd'))"
proof -
  obtain nd1 nd2 where run: "accept_block nl nf skip b nd = Inr nd1"
    "update_last_irreversible_block nl skip nd1 = Some (Inr nd2)" "settle_block nl b nd2 = Inr nd'"
    using assms(1) by (auto simp: extend_chain_def split: sum.split_asm)
  note acc = accept_block_Inr [OF run(1)]
  define slot where "slot = get_slot_at_time (bh_timestamp b) (nd_db nd)"
  have slot: "0 < slot" "slot < 2 ^ 32" using acc(3) [OF assms(2)] by (auto simp: slot_def get_slot_at_time_def Let_def)
  have "(missed_slots b (nd_db nd) + 1) mod 2 ^ 32 = slot"
    using slot assms(3) by (simp add: missed_slots_def slot_def [symmetric] dec_w_def) (simp add: mod_simps)
  then have head: "head_of (nd_db nd') = (block_num b, signed_block_id (crypto_lib.truncate (nl_tx nl)) b, bh_timestamp b,
      (dgp_current_aslot (db_dgp (nd_db nd)) + slot) mod 2 ^ 64)"
    using acc(4) irreversible_head [OF run(2)] settle_block_head [OF run(3)] by simp
  then show ?thesis using acc(1-3) assms(2) by (auto simp: slot_def head_of_def id_carries_number)
qed

text \<open>
  C13. What becomes irreversible, on both branches of \<^verbatim>\<open>update_last_irreversible_block\<close>. Before voting
  decides the schedule (below block \<^verbatim>\<open>STEEMIT_START_MINER_VOTING_BLOCK\<close>) it is the block 21 below the
  head, without any confirmation, or the old one while the head is not above 21. From then on, with a
  schedule that is not empty, the last irreversible block never goes back: it is the old one, or it is
  higher, within the node's fixed limit, and at least 75 percent of the scheduled witnesses have
  confirmed a block of at least that number.
\<close>

theorem irreversible_confirmed:
  assumes "nth_element_ok (nl_nth_element nl)" and "scheduled_witnesses (nd_db nd) = Inr ws" and "ws \<noteq> []"
    and "update_last_irreversible_block nl skip nd = Some (Inr nd')"
  shows "if head_block_num (nd_db nd) < STEEMIT_START_MINER_VOTING_BLOCK
    then dgp_last_irreversible_block_num (db_dgp (nd_db nd')) =
      (if MAX_WITNESSES < head_block_num (nd_db nd) then head_block_num (nd_db nd) - MAX_WITNESSES
       else dgp_last_irreversible_block_num (db_dgp (nd_db nd)))
    else dgp_last_irreversible_block_num (db_dgp (nd_db nd')) = dgp_last_irreversible_block_num (db_dgp (nd_db nd)) \<or>
      dgp_last_irreversible_block_num (db_dgp (nd_db nd)) < dgp_last_irreversible_block_num (db_dgp (nd_db nd')) \<and>
      dgp_last_irreversible_block_num (db_dgp (nd_db nd')) \<le> nd_fixed_irreversible_block_num nd \<and>
      3 * length ws \<le> 4 * confirmations (dgp_last_irreversible_block_num (db_dgp (nd_db nd'))) ws"
proof (cases "head_block_num (nd_db nd) < STEEMIT_START_MINER_VOTING_BLOCK")
  case True
  from assms(4) show ?thesis by (rule irreversible_Inr) (use True in \<open>simp add: new_irreversible_def Let_def\<close>)
next
  case False
  from assms(4) show ?thesis
    by (rule irreversible_Inr) (use new_irreversible_confirmed [OF assms(1-3)] False in simp)
qed

text \<open>
  C14. Irreversible blocks are logged. When the log holds the blocks \<open>bs\<close> and every candidate block can
  be packed and unpacked, a successful update of the irreversible block leaves a log that holds \<open>bs\<close>
  followed by further candidate blocks, up to the last irreversible one; nothing that was logged is
  changed.
\<close>

theorem irreversible_blocks_logged:
  assumes "update_last_irreversible_block nl skip nd = Some (Inr nd')" and "\<not> skips skip skip_block_log"
    and "log_of (crypto_lib.truncate (nl_tx nl)) (nl_codec nl) bs (nd_block_log nd)"
    and "\<forall>it \<in> set (live (nd_fork_db nd)). codec_fits (nl_codec nl) (fi_data it)"
    and "length bs < 2 ^ 32" and "dgp_last_irreversible_block_num (db_dgp (nd_db nd')) < 2 ^ 32"
  shows "\<exists>cs. log_of (crypto_lib.truncate (nl_tx nl)) (nl_codec nl) (bs @ cs) (nd_block_log nd') \<and>
    set cs \<subseteq> fi_data ` set (live (nd_fork_db nd)) \<and>
    length (bs @ cs) = max (length bs) (dgp_last_irreversible_block_num (db_dgp (nd_db nd')))"
  using assms(1)
proof (rule irreversible_Inr)
  fix num bl
  assume db: "nd_db nd' = (nd_db nd)\<lparr>db_dgp := (db_dgp (nd_db nd))\<lparr>dgp_last_irreversible_block_num := num\<rparr>\<rparr>"
    and bl: "nd_block_log nd' = bl" and run: "(if skips skip skip_block_log then Some (Inr (nd_block_log nd))
      else log_blocks (crypto_lib.truncate (nl_tx nl)) (nl_codec nl) (nd_fork_db nd)
        [log_head_num (nd_block_log nd) + 1 ..< num + 1] (nd_block_log nd)) = Some (Inr bl)"
  have "log_head_num (nd_block_log nd) = length bs"
    using assms(3) numbered_last [of bs] by (auto simp: log_head_num_def log_of_def blocks_fit_def split: if_split_asm)
  then have "log_blocks (crypto_lib.truncate (nl_tx nl)) (nl_codec nl) (nd_fork_db nd) [length bs + 1 ..< num + 1]
      (nd_block_log nd) = Some (Inr bl)" using run assms(2) by simp
  note log = log_blocks_Inr [OF this assms(3,4)]
  have len: "length [length bs + 1 ..< num + 1] = num - length bs" by (simp only: length_upt)
  have "length bs + (num - length bs) < 2 ^ 32" using assms(5,6) by (auto simp: db)
  with log obtain cs where "log_of (crypto_lib.truncate (nl_tx nl)) (nl_codec nl) (bs @ cs) bl" "length cs = num - length bs"
    "set cs \<subseteq> fi_data ` set (live (nd_fork_db nd))" unfolding len by blast
  then show ?thesis by (intro exI [of _ cs]) (auto simp: db bl max_def)
qed

section \<open>A block on a small chain\<close>

text \<open>A node at block 5 whose only witness makes block 6 in the second slot after the head.\<close>

definition start_db :: database where
  "start_db = demo_db\<lparr>db_dgp := demo_dgp\<lparr>dgp_head_block_number := 5, dgp_head_block_id := be32 5 @ ''h'',
     dgp_participation_count := 0\<rparr>\<rparr>"

definition start_node :: node where
  "start_node = \<lparr>nd_chain = demo_chain\<lparr>ch_db := start_db\<rparr>, nd_hardforks = demo_hpo, nd_fork_db = new_fork_database,
     nd_block_log = empty_log, nd_fixed_irreversible_block_num = 2 ^ 32 - 1\<rparr>"

definition block_6 :: signed_block where
  "block_6 = \<lparr>bh_previous = be32 5 @ ''h'', bh_timestamp = 1006, bh_witness = ''alice'',
     bh_transaction_merkle_root = replicate 20 (char_of (0::nat)), bh_extensions = [], sbh_witness_signature = [],
     sb_transactions = []\<rparr>"

definition demo_libs :: node_libs where
  "demo_libs = \<lparr>nl_fc = fc_ref, nl_tx = tx_demo, nl_codec = demo_codec, nl_nth_element = sort_element\<rparr>"

lemma block_6_num: "block_num block_6 = 6"
  by (simp add: block_num_def block_6_def num_from_be32)

lemma start_slot: "get_slot_at_time 1006 start_db = 2" "get_slot_time 1 start_db = 1002" "get_slot_time 2 start_db = 1005"
  by (simp_all add: get_slot_at_time_def get_slot_time_def start_db_def demo_db_def demo_dgp_def head_block_num_def
      head_block_time_def time_plus_def STEEMIT_BLOCK_INTERVAL_def)

theorem slots_partition_time_witness: "get_slot_at_time 1006 start_db = 2 \<and> get_slot_time 3 start_db = 1008"
  using slots_partition_time [of start_db 2] start_slot
  by (simp add: start_db_def demo_dgp_def demo_db_def head_block_time_def)

lemmas start_eval = start_db_def demo_db_def demo_dgp_def head_block_num_def head_block_time_def has_hardfork_def

lemma record_slots_other:
  "dgp_last_irreversible_block_num (fold (record_slot fc) is d) = dgp_last_irreversible_block_num d"
  "dgp_transit_block_num (fold (record_slot fc) is d) = dgp_transit_block_num d"
  by (induction "is" arbitrary: d) (auto simp: record_slot_def Let_def)

lemma advance_head_fields:
  "dgp_head_block_number (advance_head fc cr k b d) = block_num b"
  "dgp_last_irreversible_block_num (advance_head fc cr k b d) = dgp_last_irreversible_block_num d"
  "dgp_transit_block_num (advance_head fc cr k b d) = dgp_transit_block_num d"
  "dgp_transit_block_num (adjust_reserve n db d) = dgp_transit_block_num d"
  by (simp_all add: advance_head_def record_slots_other adjust_reserve_def Let_def)

lemma flags_apart:
  "\<not> skips skip_witness_signature skip_merkle_check" "\<not> skips skip_witness_signature skip_block_size_check"
  "skips skip_witness_signature skip_witness_signature" "\<not> skips skip_witness_signature skip_witness_schedule_check"
  "\<not> skips skip_witness_signature skip_undo_history_check" "\<not> skips skip_witness_signature skip_block_log"
  by (simp_all add: skips_def skip_witness_signature_def skip_merkle_check_def skip_block_size_check_def
      skip_witness_schedule_check_def skip_undo_history_check_def skip_block_log_def)

lemma start_witness:
  assumes "db_witnesses db = [default_witness 0 ''alice'' 0]"
  shows "get_witness ''alice'' db = Inr (default_witness 0 ''alice'' 0)"
  using assms by (simp add: get_witness_def find_witness_def find_by_Cons of_option_def default_witness_def)

lemma start_header:
  "validate_block_body tx_demo demo_codec skip_witness_signature block_6 start_db = Inr ()"
  "validate_block_header tx_demo skip_witness_signature block_6 start_db = Inr (default_witness 0 ''alice'' 0)"
proof -
  show "validate_block_body tx_demo demo_codec skip_witness_signature block_6 start_db = Inr ()"
    by (simp add: validate_block_body_def calculate_merkle_root_def block_6_def demo_codec_def start_eval Let_def)
  have "get_witness ''alice'' start_db = Inr (default_witness 0 ''alice'' 0)"
    by (rule start_witness) (simp add: start_eval)
  moreover have "get_scheduled_witness 2 start_db = ''alice''" by (simp add: get_scheduled_witness_def start_eval)
  moreover have "bh_timestamp block_6 = 1006" "bh_witness block_6 = ''alice''" "bh_previous block_6 = be32 5 @ ''h''"
    by (simp_all add: block_6_def)
  moreover have "wit_owner (default_witness 0 ''alice'' 0) = ''alice''" by (simp add: default_witness_def)
  ultimately show "validate_block_header tx_demo skip_witness_signature block_6 start_db = Inr (default_witness 0 ''alice'' 0)"
    by (simp add: validate_block_header_def flags_apart start_slot) (simp add: start_eval)
qed

lemma start_global:
  assumes "db = start_db\<lparr>db_dgp := (db_dgp start_db)\<lparr>dgp_current_witness := ''alice''\<rparr>\<rparr>"
  shows "\<exists>d. update_global_dynamic_data fc_ref tx_demo demo_codec skip_witness_signature block_6 db = Inr (db\<lparr>db_dgp := d\<rparr>) \<and>
    dgp_head_block_number d = 6 \<and> dgp_transit_block_num d = 2 ^ 32 - 1 \<and> dgp_last_irreversible_block_num d = 0"
proof -
  have "head_of db = head_of start_db" by (simp add: assms head_of_def)
  then have "missed_slots block_6 db = missed_slots block_6 start_db" using slots_of_head by blast
  also have "\<dots> = 1" using start_slot(1) by (simp add: missed_slots_def block_6_def dec_w_def) (simp add: start_eval)
  finally have missed: "missed_slots block_6 db = 1" .
  have "get_witness ''alice'' db = Inr (default_witness 0 ''alice'' 0)" by (rule start_witness) (simp add: assms start_eval)
  moreover have "get_scheduled_witness 1 db = ''alice''" by (simp add: get_scheduled_witness_def assms start_eval)
  ultimately have miss: "miss_slot block_6 0 db = Inr db"
    by (simp add: miss_slot_def block_6_def default_witness_def)
  have dgp: "dgp_last_irreversible_block_num (db_dgp db) = 0" "dgp_transit_block_num (db_dgp db) = 2 ^ 32 - 1"
    by (simp_all add: assms start_eval)
  let ?d = "adjust_reserve (length (pack_block demo_codec block_6)) db (advance_head fc_ref tx_demo (Suc (Suc 0)) block_6 (db_dgp db))"
  have "update_global_dynamic_data fc_ref tx_demo demo_codec skip_witness_signature block_6 db = Inr (db\<lparr>db_dgp := ?d\<rparr>)"
    unfolding update_global_dynamic_data_def Let_def missed
    by (simp add: miss dgp advance_head_fields adjust_reserve_fields block_6_num flags_apart head_block_num_def
        STEEMIT_MAX_UNDO_HISTORY_def)
  then show ?thesis
    by (intro exI [of _ ?d]) (simp add: dgp advance_head_fields adjust_reserve_fields block_6_num)
qed

lemma start_run:
  "\<exists>nd. extend_chain demo_libs demo_flags skip_witness_signature block_6 start_node = Some (Inr nd)"
proof -
  let ?db = "start_db\<lparr>db_dgp := (db_dgp start_db)\<lparr>dgp_current_witness := ''alice''\<rparr>\<rparr>"
  obtain d where d: "update_global_dynamic_data fc_ref tx_demo demo_codec skip_witness_signature block_6 ?db = Inr (?db\<lparr>db_dgp := d\<rparr>)"
    "dgp_head_block_number d = 6" "dgp_transit_block_num d = 2 ^ 32 - 1" "dgp_last_irreversible_block_num d = 0"
    using start_global [OF refl] by blast
  have b: "bh_witness block_6 = ''alice''" "bh_extensions block_6 = []" "sb_transactions block_6 = []" by (simp_all add: block_6_def)
  have wits: "db_witnesses start_db = [default_witness 0 ''alice'' 0]" by (simp add: start_eval)
  then have w: "get_witness ''alice'' ?db = Inr (default_witness 0 ''alice'' 0)"
    "get_witness ''alice'' (start_db\<lparr>db_dgp := d\<rparr>) = Inr (default_witness 0 ''alice'' 0)" by (simp_all add: start_witness)
  have global: "update_global_dynamic_data fc_ref tx_demo demo_codec skip_witness_signature block_6 ?db = Inr (start_db\<lparr>db_dgp := d\<rparr>)"
    using d(1) by simp
  obtain db where sign: "update_signing_witness ''alice'' block_6 (start_db\<lparr>db_dgp := d\<rparr>) = Inr db"
    and same: "db_dgp db = d" "db_orders db = db_orders start_db" "db_delegation_expirations db = db_delegation_expirations start_db"
    by (simp add: update_signing_witness_def w(2) set_witness_def)
  have owner: "wit_owner (default_witness 0 ''alice'' 0) = ''alice''" by (simp add: default_witness_def)
  have check: "check_running_version block_6 demo_hpo ?db = Inr ()"
    using w(1) by (simp add: check_running_version_def b(1) default_witness_def demo_hpo_def)
  have quiet: "\<not> is_transit_enabled ?db" by (simp add: is_transit_enabled_def start_eval)
  have nd: "nd_db start_node = start_db" "nd_hardforks start_node = demo_hpo" by (simp_all add: start_node_def nd_db_def)
  have acc: "accept_block demo_libs demo_flags skip_witness_signature block_6 start_node = Inr (set_db db start_node)"
    "db_dgp db = d" "db_orders db = []" "db_delegation_expirations db = []"
    using check global sign quiet
    by (simp_all add: accept_block_def nd start_header b process_header_extensions_def owner demo_libs_def set_db_def same)
      (simp_all add: start_eval)
  have "new_irreversible sort_element (2 ^ 32 - 1) db = Inr 0"
    using d(2,4) acc(2) by (simp add: new_irreversible_def head_block_num_def STEEMIT_START_MINER_VOTING_BLOCK_def
        MAX_WITNESSES_def STEEMIT_MAX_VOTED_WITNESSES_def Let_def)
  then have "update_last_irreversible_block demo_libs skip_witness_signature (set_db db start_node) =
      Some (Inr ((set_db db start_node)\<lparr>nd_fork_db := set_max_size 7 new_fork_database\<rparr>))"
    using d(2,4) acc(2)
    by (simp add: update_last_irreversible_block_def nd_db_def set_db_def start_node_def demo_libs_def flags_apart
        log_head_num_def empty_log_def head_block_num_def Let_def)
  moreover have "\<exists>nd. settle_block demo_libs block_6 ((set_db db start_node)\<lparr>nd_fork_db := x\<rparr>) = Inr nd" for x
  proof -
    have "expiry_stages fc_ref db = Inr db"
      using acc(3,4) by (simp add: expiry_stages_def clear_expired_orders_def clear_expired_delegations_def expired_orders_def
          expired_delegations_def)
    moreover have "update_witness_schedule fc_ref sort_element demo_hpo db = Inr (demo_hpo, db)"
      using d(2) acc(2) by (simp add: update_witness_schedule_def head_block_num_def MAX_WITNESSES_def
          STEEMIT_MAX_VOTED_WITNESSES_def STEEMIT_MAX_MINER_WITNESSES_def STEEMIT_MAX_RUNNER_WITNESSES_def)
    moreover have "\<not> is_transit_enabled db" using d(3) acc(2) by (simp add: is_transit_enabled_def)
    ultimately show ?thesis
      by (simp add: settle_block_def create_block_summary_def clear_expired_transactions_def set_db_def demo_libs_def
          start_node_def Let_def)
  qed
  ultimately show ?thesis using acc(1) by (simp add: extend_chain_def)
qed

theorem block_extends_chain_witness:
  "\<exists>nd. extend_chain demo_libs demo_flags skip_witness_signature block_6 start_node = Some (Inr nd) \<and>
     head_block_num (nd_db nd) = 6 \<and> head_block_time (nd_db nd) = 1006 \<and> dgp_current_aslot (db_dgp (nd_db nd)) = 2"
proof -
  obtain nd where run: "extend_chain demo_libs demo_flags skip_witness_signature block_6 start_node = Some (Inr nd)"
    using start_run by blast
  have db: "nd_db start_node = start_db" by (simp add: start_node_def nd_db_def)
  have "dgp_current_aslot (db_dgp start_db) = 0" "head_block_time start_db \<noteq> 0" by (simp_all add: start_eval)
  then show ?thesis
    using block_extends_chain [OF run flags_apart(4)] run start_slot(1) block_6_num
    by (auto simp: db head_of_def head_block_num_def head_block_time_def block_6_def)
qed


text \<open>A node whose only witness has confirmed the first two blocks of its main branch.\<close>

definition confirm_db :: database where
  "confirm_db = demo_db\<lparr>db_witnesses := [(default_witness 0 ''alice'' 0)\<lparr>wit_last_confirmed_block_num := 2\<rparr>]\<rparr>"

definition confirm_node :: node where
  "confirm_node = start_node\<lparr>nd_chain := demo_chain\<lparr>ch_db := confirm_db\<rparr>, nd_fork_db := tree2\<rparr>"

lemma confirm_scheduled:
  "scheduled_witnesses confirm_db = Inr [(default_witness 0 ''alice'' 0)\<lparr>wit_last_confirmed_block_num := 2\<rparr>]"
  by (simp add: scheduled_witnesses_def scheduled_names_def confirm_db_def demo_db_def get_witness_def find_witness_def
      find_by_Cons of_option_def default_witness_def)

lemma confirm_logged:
  "\<exists>bl. log_blocks cr demo_codec tree2 [1, 2] empty_log = Some (Inr bl)"
proof -
  have fit: "blocks_fit demo_codec [block_g]" "blocks_fit demo_codec [block_g, block_a1]"
    using demo_fits by (simp_all add: blocks_fit_def numbered_def)
  obtain bl where a: "log_append cr demo_codec block_g empty_log = Inr bl" "log_of cr demo_codec [block_g] bl"
    using bl_append_log [OF empty_log_of, of block_g demo_codec cr] fit(1) demo_ids(5) by (auto simp: log_append_def)
  obtain bl' where b: "log_append cr demo_codec block_a1 bl = Inr bl'"
    using bl_append_log [OF a(2), of block_a1] fit(2) demo_ids(6) by (auto simp: log_append_def)
  have "fetch_block_on_main_branch_by_number 1 tree2 = Some (Inr (Some (demo_item 0 None block_g)))"
    "fetch_block_on_main_branch_by_number 2 tree2 = Some (Inr (Some (demo_item 1 (Some 0) block_a1)))"
    by (simp_all add: fetch_block_on_main_branch_by_number_def fetch_block_by_number_def tree2_def demo_item_def demo_ids)
  then show ?thesis using a(1) b by (simp add: demo_item_def)
qed

lemma confirm_run:
  "\<exists>nd. update_last_irreversible_block demo_libs 0 confirm_node = Some (Inr nd) \<and>
     dgp_last_irreversible_block_num (db_dgp (nd_db nd)) = 2"
proof -
  have sort1: "sort_element lt 0 [x] = [x]" for lt :: "witness_object \<Rightarrow> witness_object \<Rightarrow> bool" and x
    by (simp add: sort_element_def)
  have "new_irreversible sort_element (2 ^ 32 - 1) confirm_db = Inr 2"
    by (simp add: new_irreversible_def confirm_scheduled irreversible_offset_quarter sort1 Let_def)
      (simp add: confirm_db_def start_eval is_transit_enabled_def STEEMIT_START_MINER_VOTING_BLOCK_def default_witness_def)
  moreover obtain bl where "log_blocks (crypto_lib.truncate tx_demo) demo_codec tree2 [1, 2] empty_log = Some (Inr bl)"
    using confirm_logged by blast
  moreover have "[Suc 0 ..< 3] = [1, 2]" by (simp add: upt_rec)
  ultimately show ?thesis
    by (simp add: update_last_irreversible_block_def confirm_node_def start_node_def demo_libs_def nd_db_def set_db_def
        skips_def log_head_num_def empty_log_def Let_def)
qed

theorem irreversible_confirmed_witness:
  "\<exists>nd. update_last_irreversible_block demo_libs 0 confirm_node = Some (Inr nd) \<and>
     dgp_last_irreversible_block_num (db_dgp (nd_db nd)) = 2 \<and> 2 \<le> nd_fixed_irreversible_block_num confirm_node"
proof -
  obtain nd where run: "update_last_irreversible_block demo_libs 0 confirm_node = Some (Inr nd)"
    "dgp_last_irreversible_block_num (db_dgp (nd_db nd)) = 2" using confirm_run by blast
  have "nth_element_ok (nl_nth_element demo_libs)" by (simp add: demo_libs_def sort_element_ok)
  moreover have "nd_db confirm_node = confirm_db" by (simp add: confirm_node_def nd_db_def)
  moreover have "dgp_last_irreversible_block_num (db_dgp confirm_db) = 0" "STEEMIT_START_MINER_VOTING_BLOCK \<le> head_block_num confirm_db"
    by (simp_all add: confirm_db_def start_eval STEEMIT_START_MINER_VOTING_BLOCK_def)
  ultimately show ?thesis
    using irreversible_confirmed [of demo_libs confirm_node, OF _ _ _ run(1)] confirm_scheduled run by auto
qed

theorem irreversible_blocks_logged_witness:
  "\<exists>nd cs. update_last_irreversible_block demo_libs 0 confirm_node = Some (Inr nd) \<and> length cs = 2 \<and>
     log_of (crypto_lib.truncate tx_demo) demo_codec cs (nd_block_log nd) \<and> set cs \<subseteq> {block_g, block_a1}"
proof -
  obtain nd where run: "update_last_irreversible_block demo_libs 0 confirm_node = Some (Inr nd)"
    "dgp_last_irreversible_block_num (db_dgp (nd_db nd)) = 2" using confirm_run by blast
  have live: "set (live (nd_fork_db confirm_node)) = {demo_item 0 None block_g, demo_item 1 (Some 0) block_a1}"
    by (auto simp: confirm_node_def tree2_def live_def)
  have fits: "\<forall>it \<in> set (live (nd_fork_db confirm_node)). codec_fits (nl_codec demo_libs) (fi_data it)"
    unfolding live using demo_fits by (simp add: demo_item_def demo_libs_def blocks_fit_def)
  have "log_of (crypto_lib.truncate (nl_tx demo_libs)) (nl_codec demo_libs) [] (nd_block_log confirm_node)"
    by (simp add: confirm_node_def start_node_def empty_log_of)
  from irreversible_blocks_logged [OF run(1) _ this fits] run(2)
  obtain cs where "log_of (crypto_lib.truncate (nl_tx demo_libs)) (nl_codec demo_libs) cs (nd_block_log nd)"
    "set cs \<subseteq> fi_data ` set (live (nd_fork_db confirm_node))" "length cs = 2" by (auto simp: skips_def)
  then show ?thesis using run(1) unfolding live by (intro exI [of _ nd] exI [of _ cs]) (simp add: demo_libs_def demo_item_def)
qed

end
