(* ===== verification/Rewards.thy ===== *)
theory Rewards
  imports Comments
begin

text \<open>
  The payout of comments: \<^verbatim>\<open>curation_info.cpp\<close>, and \<^verbatim>\<open>claim_rshare_reward\<close>, \<^verbatim>\<open>pay_delegators\<close>,
  \<^verbatim>\<open>pay_curator\<close>, \<^verbatim>\<open>pay_curators\<close>, \<^verbatim>\<open>cashout_comment_helper\<close> and \<^verbatim>\<open>process_comment_cashout\<close> of
  \<^verbatim>\<open>database.cpp\<close>. A comment claims a part of the reward fund by its reward shares; curators,
  their delegators, beneficiaries and the author share it. Weights and claims are unsigned
  64-bit numbers.
\<close>

section \<open>Weights of votes\<close>

record calculate_weight_helper =
  cwh_vote_rshares :: int
  cwh_old_vote_weight :: int
  cwh_total_vote_weight :: int
  cwh_auction_window_weight :: int
  cwh_votes_in_auction_window_weight :: int

definition calculate_bounded :: "fc_lib \<Rightarrow> int \<Rightarrow> int res" where
  "calculate_bounded fc vote_rshares =
     (let constant_alfa = u128_mul fc (u128_of fc 2) (get_content_constant_s fc); rshares = u128_of fc vote_rshares in
      bindR (u128_div fc (u128_mul fc rshares (u128_of fc (2 ^ 64 - 1))) (u128_add fc constant_alfa rshares)) (\<lambda>q.
      u128_to_uint64 fc q))"

definition find_msb :: "fc_lib \<Rightarrow> int \<Rightarrow> nat" where
  "find_msb fc u =
     (let lo = u128_lo fc u; hi = u128_hi fc u;
          x = (if lo \<noteq> 0 then lo else 1);
          places = (if hi \<noteq> 0 then 64 else 0);
          x = (if hi \<noteq> 0 then hi else x)
      in find_msb64 fc x + places)"

definition approx_sqrt :: "fc_lib \<Rightarrow> int \<Rightarrow> int" where
  "approx_sqrt fc x =
     (if u128_lo fc x = 0 \<and> u128_hi fc x = 0 then 0
      else
        let msb_x = find_msb fc x;
            msb_z = msb_x div 2;
            msb_x_bit = u128_shl fc 1 msb_x;
            msb_z_bit = 2 ^ msb_z;
            mantissa_mask = u128_sub fc msb_x_bit 1;
            mantissa_x = u128_and fc x mantissa_mask;
            mantissa_z_hi = (if odd msb_x then msb_z_bit else 0);
            mantissa_z_lo = u128_lo fc (u128_shr fc mantissa_x (msb_x - msb_z));
            mantissa_z = or mantissa_z_hi mantissa_z_lo div 2
        in or msb_z_bit mantissa_z)"

text \<open>The weight of the next vote on a curve, and the weight from which the one after it starts.\<close>

definition calculate_curve :: "fc_lib \<Rightarrow> curation_curve \<Rightarrow> comment_vote_object \<Rightarrow> calculate_weight_helper \<Rightarrow>
   (int \<times> calculate_weight_helper) res" where
  "calculate_curve fc curve v h =
     (let increase = (\<lambda>new_weight. ((new_weight - cwh_old_vote_weight h) mod 2 ^ 64,
           h\<lparr>cwh_old_vote_weight := new_weight\<rparr>)) in
      case curve of
        Curve_bounded \<Rightarrow> bindR (calculate_bounded fc (cwh_vote_rshares h)) (\<lambda>w. Inr (increase w))
      | Curve_linear \<Rightarrow> Inr (cmv_rshares v mod 2 ^ 64, h)
      | Curve_square_root \<Rightarrow> Inr (increase (approx_sqrt fc (u128_of fc (cwh_vote_rshares h))))
      | _ \<Rightarrow> Inl (Fc_assert ''Unknown curation reward curve.''))"

definition was_changed :: "comment_vote_object \<Rightarrow> bool" where
  "was_changed v \<longleftrightarrow> cmv_num_changes v \<noteq> 0 \<and> cmv_num_changes v \<noteq> -1"

text \<open>A vote within the auction window gives a part of its weight to the window.\<close>

definition auction_split ::
  "fc_lib \<Rightarrow> comment_object \<Rightarrow> comment_vote_object \<Rightarrow> int \<Rightarrow> calculate_weight_helper \<Rightarrow> (int \<times> calculate_weight_helper) res" where
  "auction_split fc c v weight h =
     (if weight > 0 \<and> cmv_auction_time v \<noteq> com_auction_window_size c then
        bindR (u128_div fc (u128_mul fc (u128_of fc weight) (u128_of fc (int (cmv_auction_time v))))
          (u128_of fc (int (com_auction_window_size c)))) (\<lambda>q.
        bindR (u128_to_uint64 fc q) (\<lambda>new_weight.
        let auction_weight = (weight - new_weight) mod 2 ^ 64 in
        Inr (new_weight, h\<lparr>cwh_total_vote_weight := (cwh_total_vote_weight h + auction_weight) mod 2 ^ 64,
          cwh_auction_window_weight := (cwh_auction_window_weight h + auction_weight) mod 2 ^ 64,
          cwh_votes_in_auction_window_weight :=
            (if was_changed v then cwh_votes_in_auction_window_weight h
             else (cwh_votes_in_auction_window_weight h + new_weight) mod 2 ^ 64)\<rparr>)))
      else Inr (weight, h))"

definition calculate_weight ::
  "fc_lib \<Rightarrow> comment_object \<Rightarrow> curation_curve \<Rightarrow> comment_vote_object \<Rightarrow> calculate_weight_helper \<Rightarrow>
   (int \<times> calculate_weight_helper) res" where
  "calculate_weight fc c curve v h =
     (if cmv_orig_rshares v \<le> 0 then Inr (0, h)
      else
        bindR (safe_add fc (cwh_vote_rshares h) (cmv_orig_rshares v)) (\<lambda>s.
        bindR (calculate_curve fc curve v (h\<lparr>cwh_vote_rshares := s\<rparr>)) (\<lambda>(weight, h).
        bindR (auction_split fc c v weight h) (\<lambda>(weight, h).
        Inr (if was_changed v then (0, h)
             else (weight, h\<lparr>cwh_total_vote_weight := (cwh_total_vote_weight h + weight) mod 2 ^ 64\<rparr>))))))"

definition detect_curation_curve :: "comment_object \<Rightarrow> database \<Rightarrow> curation_curve" where
  "detect_curation_curve c db =
     (if com_curation_reward_curve c = Curve_detect then
        if has_hardfork 19 db then curation_reward_curve (wso_median_props (db_schedule db)) else Curve_bounded
      else com_curation_reward_curve c)"

record comment_curation_info =
  cci_vote_list :: "(comment_vote_object \<times> int) list"
  cci_total_vote_weight :: int
  cci_auction_window_weight :: int
  cci_votes_in_auction_window_weight :: int
  cci_votes_after_auction_window_weight :: int
  cci_curve :: curation_curve

definition new_weight_helper :: calculate_weight_helper where
  "new_weight_helper = \<lparr>cwh_vote_rshares = 0, cwh_old_vote_weight = 0, cwh_total_vote_weight = 0,
     cwh_auction_window_weight = 0, cwh_votes_in_auction_window_weight = 0\<rparr>"

text \<open>The votes of a comment in the order in which they were made.\<close>

definition comment_votes_of :: "comment_object \<Rightarrow> database \<Rightarrow> comment_vote_object list" where
  "comment_votes_of c db = sort_by (\<lambda>a b. cmv_id a < cmv_id b) (filter (\<lambda>v. cmv_comment v = com_id c) (db_comment_votes db))"

definition weigh_votes ::
  "fc_lib \<Rightarrow> comment_object \<Rightarrow> curation_curve \<Rightarrow> bool \<Rightarrow> comment_vote_object list \<Rightarrow>
   ((comment_vote_object \<times> int) list \<times> calculate_weight_helper) res" where
  "weigh_votes fc c curve full_list votes =
     foldR (\<lambda>v (vs, h).
       bindR (calculate_weight fc c curve v h) (\<lambda>(weight, h).
       Inr (if weight > 0 \<or> full_list then vs @ [(v, weight)] else vs, h))) votes ([], new_weight_helper)"

definition heavier :: "comment_vote_object \<times> int \<Rightarrow> comment_vote_object \<times> int \<Rightarrow> bool" where
  "heavier r l \<longleftrightarrow> (if snd r = snd l then cmv_voter (fst r) < cmv_voter (fst l) else snd r > snd l)"

definition mk_comment_curation_info :: "fc_lib \<Rightarrow> comment_object \<Rightarrow> bool \<Rightarrow> database \<Rightarrow> comment_curation_info res" where
  "mk_comment_curation_info fc c full_list db =
     (let curve = detect_curation_curve c db in
      if com_last_payout c \<noteq> 0 \<and> \<not> full_list then
        Inr \<lparr>cci_vote_list = [], cci_total_vote_weight = 0, cci_auction_window_weight = 0,
          cci_votes_in_auction_window_weight = 0, cci_votes_after_auction_window_weight = 0, cci_curve = curve\<rparr>
      else
        bindR (weigh_votes fc c curve full_list (comment_votes_of c db)) (\<lambda>(vs, h).
        Inr \<lparr>cci_vote_list = sort_by heavier vs, cci_total_vote_weight = cwh_total_vote_weight h,
          cci_auction_window_weight = cwh_auction_window_weight h,
          cci_votes_in_auction_window_weight = cwh_votes_in_auction_window_weight h,
          cci_votes_after_auction_window_weight =
            (cwh_total_vote_weight h - cwh_votes_in_auction_window_weight h - cwh_auction_window_weight h) mod 2 ^ 64,
          cci_curve = curve\<rparr>))"

section \<open>The claim of a comment\<close>

definition STEEMIT_MIN_PAYOUT_SBD :: asset where "STEEMIT_MIN_PAYOUT_SBD = \<lparr>amount = 20, symbol = SBD_SYMBOL\<rparr>"

definition to_sbd :: "fc_lib \<Rightarrow> asset \<Rightarrow> database \<Rightarrow> asset res" where
  "to_sbd fc steem db =
     bindR (ensure (symbol steem = STEEM_SYMBOL) (Fc_assert ''steem.symbol == STEEM_SYMBOL'')) (\<lambda>_.
     let p = fho_current_median_history (db_feed db) in
     if price_is_null fc p then Inr \<lparr>amount = 0, symbol = SBD_SYMBOL\<rparr> else asset_mul_price fc steem p)"

definition to_steem :: "fc_lib \<Rightarrow> asset \<Rightarrow> database \<Rightarrow> asset res" where
  "to_steem fc sbd db =
     bindR (ensure (symbol sbd = SBD_SYMBOL) (Fc_assert ''sbd.symbol == SBD_SYMBOL'')) (\<lambda>_.
     let p = fho_current_median_history (db_feed db) in
     if price_is_null fc p then Inr \<lparr>amount = 0, symbol = STEEM_SYMBOL\<rparr> else asset_mul_price fc sbd p)"

text \<open>Numbers of 256 bits; \<open>max_steem\<close> is compared as an unsigned number.\<close>

definition reward_payout :: "fc_lib \<Rightarrow> int \<Rightarrow> nat \<Rightarrow> database \<Rightarrow> int res" where
  "reward_payout fc rshares reward_weight db =
     (let rf = amount (dgp_total_reward_fund_steem (db_dgp db)) mod 2 ^ 256;
          total_rshares2 = dgp_total_reward_shares2 (db_dgp db);
          rs2 = calculate_vshares fc (u128_of fc rshares) db;
          rs2 = (rs2 * int reward_weight) mod 2 ^ 256 div INT_100_PERCENT in
      bindR (ensure (total_rshares2 \<noteq> 0) (Fc_exception ''Division by zero.'')) (\<lambda>_.
      let payout = (rf * rs2) mod 2 ^ 256 div total_rshares2 in
      bindR (ensure (payout \<le> 2 ^ 63 - 1) (Fc_assert ''payout_u256 <= max'')) (\<lambda>_. Inr payout)))"

definition claim_rshare_reward ::
  "fc_lib \<Rightarrow> int \<Rightarrow> nat \<Rightarrow> asset \<Rightarrow> database \<Rightarrow> (int \<times> database) res" where
  "claim_rshare_reward fc rshares reward_weight max_steem db =
     bindR (ensure (rshares > 0) (Fc_assert ''rshares > 0'')) (\<lambda>_.
     bindR (reward_payout fc rshares reward_weight db) (\<lambda>payout.
     bindR (to_sbd fc \<lparr>amount = safe_of_u64 fc payout, symbol = STEEM_SYMBOL\<rparr> db) (\<lambda>sbd_payout_value.
     bindR (asset_lt sbd_payout_value STEEMIT_MIN_PAYOUT_SBD) (\<lambda>dust.
     let payout = (if dust then 0 else payout);
         payout = min payout (amount max_steem mod 2 ^ 64);
         fund = dgp_total_reward_fund_steem (db_dgp db) in
     bindR (safe_sub fc (amount fund) (safe_of_u64 fc payout)) (\<lambda>f.
     Inr (safe_of_u64 fc payout, db\<lparr>db_dgp := (db_dgp db)\<lparr>dgp_total_reward_fund_steem := fund\<lparr>amount := f\<rparr>\<rparr>\<rparr>))))))"

section \<open>Curators and delegators\<close>

definition add_rewards ::
  "fc_lib \<Rightarrow> (account_object \<Rightarrow> int) \<Rightarrow> ((int \<Rightarrow> int) \<Rightarrow> account_object \<Rightarrow> account_object) \<Rightarrow> int \<Rightarrow> account_name_type \<Rightarrow>
   database \<Rightarrow> database res" where
  "add_rewards fc get upd x n db =
     modify_account n (\<lambda>a. bindR (safe_add fc (get a) x) (\<lambda>y. Inr (upd (\<lambda>_. y) a))) db"

definition grow_delegation :: "fc_lib \<Rightarrow> account_name_type \<Rightarrow> account_name_type \<Rightarrow> asset \<Rightarrow> database \<Rightarrow> database res" where
  "grow_delegation fc delegatee delegator vesting db =
     (case find_by vdo_key (delegator, delegatee) (db_delegations db) of
        None \<Rightarrow> Inr db
      | Some d \<Rightarrow>
          bindR (modify_account delegator (add_delegated fc vesting) db) (\<lambda>db.
          bindR (modify_account delegatee (add_received fc vesting) db) (\<lambda>db.
          bindR (asset_add fc (vdo_vesting_shares d) vesting) (\<lambda>s.
          Inr (db\<lparr>db_delegations := upd_by vdo_key (d\<lparr>vdo_vesting_shares := s\<rparr>) (db_delegations db)\<rparr>)))))"

definition pay_delegator ::
  "fc_lib \<Rightarrow> account_name_type \<Rightarrow> int \<Rightarrow> delegator_vote_interest_rate \<Rightarrow> int \<times> database \<Rightarrow> (int \<times> database) res" where
  "pay_delegator fc delegatee claim dvir = (\<lambda>(delegators_reward, db).
     let delegator_claim = (claim * int (dvir_interest_rate dvir)) mod 2 ^ 64 div INT_100_PERCENT;
         golos = \<lparr>amount = safe_of_u64 fc delegator_claim, symbol = STEEM_SYMBOL\<rparr> in
     if dvir_interest_rate dvir > STEEMIT_100_PERCENT \<or> delegator_claim = 0 then Inr (delegators_reward, db)
     else
       bindR (get_account (dvir_account dvir) db) (\<lambda>delegator.
       bindR (create_vesting fc (acc_name delegator) golos db) (\<lambda>(vesting, db).
       bindR (if dvir_payout_strategy dvir = to_delegated_vesting
              then grow_delegation fc delegatee (dvir_account dvir) vesting db else Inr db) (\<lambda>db.
       let db = push_virtual_operation (Delegation_reward (acc_name delegator) delegatee (dvir_payout_strategy dvir)
             vesting golos) db in
       bindR (add_rewards fc acc_delegation_rewards acc_delegation_rewards_update (safe_of_u64 fc delegator_claim)
         (acc_name delegator) db) (\<lambda>db.
       Inr ((delegators_reward + delegator_claim) mod 2 ^ 64, db))))))"

definition pay_delegators ::
  "fc_lib \<Rightarrow> account_name_type \<Rightarrow> comment_vote_object \<Rightarrow> int \<Rightarrow> database \<Rightarrow> (int \<times> database) res" where
  "pay_delegators fc delegatee v claim db =
     foldR (pay_delegator fc delegatee claim) (cmv_delegator_vote_interest_rates v) (0, db)"

definition pay_curator ::
  "fc_lib \<Rightarrow> comment_vote_object \<Rightarrow> int \<Rightarrow> account_name_type \<Rightarrow> string \<Rightarrow> database \<Rightarrow> (int \<times> database) res" where
  "pay_curator fc v claim author permlink db =
     bindR (get_account_by_id (cmv_voter v) db) (\<lambda>voter.
     bindR (if has_hardfork 19 db then pay_delegators fc (acc_name voter) v claim db else Inr (0, db)) (\<lambda>(d, db).
     let voter_claim = (claim - d) mod 2 ^ 64;
         golos = \<lparr>amount = safe_of_u64 fc voter_claim, symbol = STEEM_SYMBOL\<rparr> in
     bindR (create_vesting fc (acc_name voter) golos db) (\<lambda>(reward, db).
     let db = push_virtual_operation (Curation_reward (acc_name voter) reward author permlink golos) db in
     bindR (add_rewards fc acc_curation_rewards acc_curation_rewards_update (safe_of_u64 fc voter_claim)
       (acc_name voter) db) (\<lambda>db.
     Inr (voter_claim, db)))))"

text \<open>
  The loop over the votes, heaviest first: unclaimed and actual rewards, and the vote with the
  greatest weight after the auction window, which is paid last.
\<close>

definition after_window :: "comment_object \<Rightarrow> comment_vote_object \<Rightarrow> bool" where
  "after_window c v \<longleftrightarrow> com_auction_window_reward_destination c = to_curators \<and>
     cmv_auction_time v = com_auction_window_size c"

definition curator_claim :: "fc_lib \<Rightarrow> comment_curation_info \<Rightarrow> comment_object \<Rightarrow> int \<Rightarrow> int \<Rightarrow> comment_vote_object \<Rightarrow> int \<Rightarrow> int res" where
  "curator_claim fc ci c max_rewards auction_window_reward v weight =
     bindR (u128_div fc (u128_mul fc (u128_of fc max_rewards) (u128_of fc weight)) (u128_of fc (cci_total_vote_weight ci))) (\<lambda>q.
     bindR (u128_to_uint64 fc q) (\<lambda>claim.
     if after_window c v \<and> cci_votes_after_auction_window_weight ci \<noteq> 0 then
       bindR (u128_div fc (u128_mul fc auction_window_reward (u128_of fc weight))
         (u128_of fc (cci_votes_after_auction_window_weight ci))) (\<lambda>q.
       bindR (u128_to_uint64 fc q) (\<lambda>x. Inr ((claim + x) mod 2 ^ 64)))
     else Inr claim))"

fun pay_votes ::
  "fc_lib \<Rightarrow> comment_curation_info \<Rightarrow> comment_object \<Rightarrow> int \<Rightarrow> int \<Rightarrow> (comment_vote_object \<times> int) list \<Rightarrow>
   comment_vote_object option \<Rightarrow> int \<Rightarrow> int \<Rightarrow> database \<Rightarrow> (comment_vote_object option \<times> int \<times> int \<times> database) res" where
  "pay_votes fc ci c max_rewards awr [] heaviest unclaimed actual db = Inr (heaviest, unclaimed, actual, db)"
| "pay_votes fc ci c max_rewards awr ((v, weight) # vs) heaviest unclaimed actual db =
     bindR (curator_claim fc ci c max_rewards awr v weight) (\<lambda>claim.
     if after_window c v \<and> heaviest = None then pay_votes fc ci c max_rewards awr vs (Some v) unclaimed actual db
     else if claim > 0 then
       bindR (safe_sub fc unclaimed (safe_of_u64 fc claim)) (\<lambda>unclaimed.
       bindR (pay_curator fc v claim (com_author c) (com_permlink c) db) (\<lambda>(paid, db).
       bindR (safe_add fc actual (safe_of_u64 fc paid)) (\<lambda>actual.
       pay_votes fc ci c max_rewards awr vs heaviest unclaimed actual db)))
     else Inr (heaviest, unclaimed, actual, db))"

definition return_to_fund :: "fc_lib \<Rightarrow> int \<Rightarrow> database \<Rightarrow> database res" where
  "return_to_fund fc x db =
     bindR (asset_add fc (dgp_total_reward_fund_steem (db_dgp db)) \<lparr>amount = x, symbol = STEEM_SYMBOL\<rparr>) (\<lambda>f.
     Inr (db\<lparr>db_dgp := (db_dgp db)\<lparr>dgp_total_reward_fund_steem := f\<rparr>\<rparr>))"

text \<open>The result: what is left for the author, and what the curators got.\<close>

definition pay_curators ::
  "fc_lib \<Rightarrow> comment_curation_info \<Rightarrow> comment_object \<Rightarrow> int \<Rightarrow> database \<Rightarrow> (int \<times> int \<times> database) res" where
  "pay_curators fc ci c max_rewards db =
     bindR (if cci_total_vote_weight ci > 0 \<and> com_allow_curation_rewards c then
              bindR (u128_div fc (u128_mul fc (u128_of fc max_rewards) (u128_of fc (cci_auction_window_weight ci)))
                (u128_of fc (cci_total_vote_weight ci))) (\<lambda>awr.
              bindR (pay_votes fc ci c max_rewards awr (cci_vote_list ci) None max_rewards 0 db) (\<lambda>(heaviest, unclaimed, actual, db).
              case heaviest of
                Some v \<Rightarrow>
                  bindR (pay_curator fc v (unclaimed mod 2 ^ 64) (com_author c) (com_permlink c) db) (\<lambda>(paid, db).
                  Inr (0, safe_of_u64 fc paid, db))
              | None \<Rightarrow> Inr (unclaimed, actual, db)))
            else Inr (max_rewards, 0, db)) (\<lambda>(unclaimed, actual, db).
     if \<not> com_allow_curation_rewards c then
       bindR (return_to_fund fc unclaimed db) (\<lambda>db. Inr (0, actual, db))
     else if com_auction_window_reward_destination c \<noteq> to_author \<and> unclaimed > 0 then
       let db = push_virtual_operation (Auction_window_reward \<lparr>amount = unclaimed, symbol = STEEM_SYMBOL\<rparr>
             (com_author c) (com_permlink c)) db
       in bindR (return_to_fund fc unclaimed db) (\<lambda>db. Inr (0, actual, db))
     else Inr (unclaimed, actual, db))"

section \<open>The payout of a comment\<close>

definition pay_beneficiary ::
  "fc_lib \<Rightarrow> comment_object \<Rightarrow> int \<Rightarrow> beneficiary_route_type \<Rightarrow> int \<times> database \<Rightarrow> (int \<times> database) res" where
  "pay_beneficiary fc c author_tokens b = (\<lambda>(total_beneficiary, db).
     bindR (safe_mul fc author_tokens (int (bnf_weight b))) (\<lambda>m.
     bindR (safe_div fc m INT_100_PERCENT) (\<lambda>benefactor_tokens.
     let golos = \<lparr>amount = benefactor_tokens, symbol = STEEM_SYMBOL\<rparr> in
     bindR (get_account (bnf_account b) db) (\<lambda>_.
     bindR (create_vesting fc (bnf_account b) golos db) (\<lambda>(vest_created, db).
     let db = push_virtual_operation (Comment_benefactor_reward (bnf_account b) (com_author c) (com_permlink c)
           vest_created golos) db in
     bindR (add_rewards fc acc_benefaction_rewards acc_benefaction_rewards_update benefactor_tokens (bnf_account b) db) (\<lambda>db.
     bindR (safe_add fc total_beneficiary benefactor_tokens) (\<lambda>total_beneficiary.
     Inr (total_beneficiary, db))))))))"

text \<open>What the author gets: half of it, or less, in GBG or GOLOS and the rest as vesting shares.\<close>

definition pay_author :: "fc_lib \<Rightarrow> comment_object \<Rightarrow> int \<Rightarrow> int \<Rightarrow> database \<Rightarrow> database res" where
  "pay_author fc c reward_tokens author_tokens db =
     bindR (safe_mul fc author_tokens (int (com_percent_steem_dollars c))) (\<lambda>m.
     bindR (safe_div fc m (2 * INT_100_PERCENT)) (\<lambda>sbd_steem.
     bindR (safe_sub fc author_tokens sbd_steem) (\<lambda>vesting_steem.
     let sbd_golos = \<lparr>amount = sbd_steem, symbol = STEEM_SYMBOL\<rparr>;
         vesting_golos = \<lparr>amount = vesting_steem, symbol = STEEM_SYMBOL\<rparr> in
     bindR (get_account (com_author c) db) (\<lambda>author.
     bindR (create_vesting fc (acc_name author) vesting_golos db) (\<lambda>(vest_created, db).
     bindR (create_sbd fc (acc_name author) sbd_golos db) (\<lambda>((sbd_payout, steem_payout), db).
     bindR (to_sbd fc \<lparr>amount = safe_of_u64 fc reward_tokens, symbol = STEEM_SYMBOL\<rparr> db) (\<lambda>total_payout.
     let db = push_virtual_operation (Author_reward (com_author c) (com_permlink c) sbd_payout steem_payout vest_created
           sbd_golos vesting_golos) db;
         db = push_virtual_operation (Comment_reward (com_author c) (com_permlink c) total_payout) db
     in add_rewards fc acc_posting_rewards acc_posting_rewards_update author_tokens (com_author c) db)))))))"

text \<open>The division of the reward; the result is the curve by which the votes were weighed.\<close>

definition distribute_reward ::
  "fc_lib \<Rightarrow> comment_object \<Rightarrow> int \<Rightarrow> database \<Rightarrow> (curation_curve \<times> database) res" where
  "distribute_reward fc c reward_tokens db =
     bindR (u128_div fc (u128_mul fc reward_tokens (u128_of fc (int (com_curation_rewards_percent c))))
       (u128_of fc INT_100_PERCENT)) (\<lambda>q.
     bindR (u128_to_uint64 fc q) (\<lambda>x.
     let curation_tokens = safe_of_u64 fc x in
     bindR (u128_to_uint64 fc reward_tokens) (\<lambda>r.
     bindR (safe_sub fc (safe_of_u64 fc r) curation_tokens) (\<lambda>author_tokens.
     bindR (mk_comment_curation_info fc c False db) (\<lambda>ci.
     bindR (pay_curators fc ci c curation_tokens db) (\<lambda>(unclaimed, total_curator, db).
     bindR (safe_add fc author_tokens unclaimed) (\<lambda>author_tokens.
     bindR (foldR (pay_beneficiary fc c author_tokens) (com_beneficiaries c) (0, db)) (\<lambda>(total_beneficiary, db).
     bindR (safe_sub fc author_tokens total_beneficiary) (\<lambda>author_tokens.
     bindR (pay_author fc c r author_tokens db) (\<lambda>db.
     let golos = (\<lambda>x. \<lparr>amount = x, symbol = STEEM_SYMBOL\<rparr>) in
     Inr (cci_curve ci, push_virtual_operation (Total_comment_reward (com_author c) (com_permlink c) (golos author_tokens)
       (golos total_beneficiary) (golos total_curator) (com_net_rshares c)) db)))))))))))"

definition pay_comment :: "fc_lib \<Rightarrow> comment_object \<Rightarrow> database \<Rightarrow> (curation_curve \<times> database) res" where
  "pay_comment fc c db =
     (if com_net_rshares c > 0 then
        bindR (to_steem fc (com_max_accepted_payout c) db) (\<lambda>max_steem.
        bindR (claim_rshare_reward fc (com_net_rshares c) (com_reward_weight c) max_steem db) (\<lambda>(claimed, db).
        let reward_tokens = u128_of fc claimed in
        bindR (if reward_tokens > 0 then distribute_reward fc c reward_tokens db
               else Inr (com_curation_reward_curve c, db)) (\<lambda>(curve, db).
        bindR (adjust_rshares2 fc (com_id c) (calculate_vshares fc (u128_of fc (com_net_rshares c)) db) 0 db) (\<lambda>db.
        Inr (curve, db)))))
      else Inr (com_curation_reward_curve c, db))"

definition close_comment :: "curation_curve \<Rightarrow> database \<Rightarrow> comment_object \<Rightarrow> comment_object res" where
  "close_comment curve db c =
     (let c = c\<lparr>com_net_rshares := min (com_net_rshares c) 0, com_children_abs_rshares := 0, com_abs_rshares := 0,
            com_vote_rshares := 0, com_max_cashout_time := time_maximum, com_curation_reward_curve := curve\<rparr>;
          c = (if has_hardfork 17 db then c\<lparr>com_cashout_time := time_maximum\<rparr>
               else if com_parent_author c = STEEMIT_ROOT_POST_PARENT then
                 c\<lparr>com_cashout_time := (if com_last_payout c = 0
                   then time_plus (head_block_time db) STEEMIT_SECOND_CASHOUT_WINDOW else time_maximum)\<rparr>
               else c)
      in bindR (calculate_discussion_payout_time c db) (\<lambda>t.
         Inr (c\<lparr>com_mode := (if t = time_maximum then archived else second_payout), com_last_payout := head_block_time db\<rparr>)))"

text \<open>The votes on an archived comment are marked for removal.\<close>

definition mark_votes :: "nat \<Rightarrow> database \<Rightarrow> database" where
  "mark_votes i db = db\<lparr>db_comment_votes := map (\<lambda>v. if cmv_comment v = i
     then v\<lparr>cmv_num_changes := -1 - cmv_num_changes v\<rparr> else v) (db_comment_votes db)\<rparr>"

definition cashout_comment_helper :: "fc_lib \<Rightarrow> nat \<Rightarrow> database \<Rightarrow> database res" where
  "cashout_comment_helper fc i db =
     bindR (get_comment_by_id i db) (\<lambda>c.
     bindR (pay_comment fc c db) (\<lambda>(curve, db).
     bindR (modify_comment i (close_comment curve db) db) (\<lambda>db.
     let db = push_virtual_operation (Comment_payout_update (com_author c) (com_permlink c)) db in
     bindR (get_comment_by_id i db) (\<lambda>c.
     Inr (if com_mode c = archived then mark_votes i db else db)))))"

section \<open>The payouts of a block\<close>

definition STEEMIT_FIRST_CASHOUT_TIME :: time_point_sec where "STEEMIT_FIRST_CASHOUT_TIME = 1484478000"

definition cashout_time_lt :: "comment_object \<Rightarrow> comment_object \<Rightarrow> bool" where
  "cashout_time_lt a b \<longleftrightarrow> com_cashout_time a < com_cashout_time b \<or>
     com_cashout_time a = com_cashout_time b \<and> com_id a < com_id b"

definition next_cashout :: "database \<Rightarrow> comment_object option" where
  "next_cashout db =
     (case sort_by cashout_time_lt (db_comments db) of
        [] \<Rightarrow> None
      | c # _ \<Rightarrow> if com_cashout_time c \<le> head_block_time db then Some c else None)"

text \<open>Until hardfork 17 a discussion is paid as a whole.\<close>

definition cashout_round :: "fc_lib \<Rightarrow> comment_object \<Rightarrow> database \<Rightarrow> database res" where
  "cashout_round fc c db =
     (if has_hardfork 17 db then cashout_comment_helper fc (com_id c) db
      else foldR (cashout_comment_helper fc)
        (map com_id (sort_by (\<lambda>a b. com_id a < com_id b)
          (filter (\<lambda>d. com_root_comment d = com_root_comment c) (db_comments db)))) db)"

text \<open>
  A round leaves the first comment of the queue in place or removes it for good, so that more
  rounds than there are comments mean that the loop does not end.
\<close>

fun cashout_loop :: "fc_lib \<Rightarrow> nat \<Rightarrow> database \<Rightarrow> database res" where
  "cashout_loop fc n db =
     (case next_cashout db of
        None \<Rightarrow> Inr db
      | Some c \<Rightarrow> (case n of
            0 \<Rightarrow> Inl (Internal_error ''endless cashout'')
          | Suc n \<Rightarrow> bindR (cashout_round fc c db) (cashout_loop fc n)))"

declare cashout_loop.simps [simp del]

definition process_comment_cashout :: "fc_lib \<Rightarrow> database \<Rightarrow> database res" where
  "process_comment_cashout fc db =
     (if head_block_time db \<le> STEEMIT_FIRST_CASHOUT_TIME then Inr db
      else cashout_loop fc (length (db_comments db)) db)"

end
