(* ===== verification/Curation.thy ===== *)
theory Curation
  imports Rewards Withdrawal_Conservation Asset_Properties
begin

text \<open>
  The weights of the votes on a comment. Weights are kept in wrapping 64-bit counters; the locale
  \<open>weighing\<close> says what a reward curve has to promise for the counters to be exact, and shows
  that the total is then the sum of the weights of the votes and of the auction window. Its
  instances are the three curves of the chain: the bounded and the square-root curve, whose weights
  are the increments of a growing function, and the linear one.
\<close>

section \<open>What a curve promises\<close>

definition earns :: "comment_vote_object \<Rightarrow> bool" where
  "earns v \<longleftrightarrow> 0 < cmv_orig_rshares v"

text \<open>The weights of the votes in and after the auction window, without wrap-around.\<close>

definition weights_total :: "(comment_vote_object \<times> int) list \<Rightarrow> int" where
  "weights_total vs = (\<Sum>x\<leftarrow>vs. snd x)"

definition in_window :: "comment_object \<Rightarrow> comment_vote_object \<times> int \<Rightarrow> bool" where
  "in_window c x \<longleftrightarrow> cmv_auction_time (fst x) \<noteq> com_auction_window_size c"

definition exact_weights :: "comment_object \<Rightarrow> (comment_vote_object \<times> int) list \<Rightarrow> calculate_weight_helper \<Rightarrow> bool" where
  "exact_weights c vs h \<longleftrightarrow> (\<forall>x \<in> set vs. 0 \<le> snd x) \<and> 0 \<le> cwh_auction_window_weight h \<and>
     cwh_total_vote_weight h = weights_total vs + cwh_auction_window_weight h \<and>
     cwh_votes_in_auction_window_weight h = weights_total (filter (in_window c) vs)"

lemma weights_total_simps [simp]:
  "weights_total [] = 0" "weights_total (x # vs) = snd x + weights_total vs"
  "weights_total (vs @ ws) = weights_total vs + weights_total ws"
  by (simp_all add: weights_total_def)

lemma weights_total_split: "weights_total vs = weights_total (filter P vs) + weights_total (filter (\<lambda>x. \<not> P x) vs)"
  by (induction vs) simp_all

lemma weights_total_nonneg: "\<forall>x \<in> set vs. 0 \<le> snd x \<Longrightarrow> 0 \<le> weights_total vs"
  by (induction vs) auto

lemma weights_total_filter_sort: "weights_total (filter P (sort_by lt vs)) = weights_total (filter P vs)"
proof -
  have ins: "weights_total (filter P (insert_by lt x ys)) = weights_total (filter P (x # ys))" for x and ys :: "(comment_vote_object \<times> int) list"
    by (induction ys) auto
  show ?thesis by (induction vs) (simp_all add: ins)
qed

text \<open>A share of \<open>x\<close> in proportion \<open>a / b\<close>, taken in 128 bits, is exact and at most \<open>x\<close>.\<close>

lemma pro_rata:
  assumes "fc_u128 fc" "0 \<le> x" "x < 2 ^ 64" "0 \<le> a" "a \<le> b" "0 < b" "b < 2 ^ 64"
  shows "u128_div fc (u128_mul fc (u128_of fc x) (u128_of fc a)) (u128_of fc b) = Inr (x * a div b)"
    "u128_to_uint64 fc (x * a div b) = Inr (x * a div b)" "0 \<le> x * a div b" "x * a div b \<le> x"
proof -
  have b: "(0::int) \<le> 2 ^ 64" "(2::int) ^ 64 * 2 ^ 64 = 2 ^ 128" by simp_all
  have "x * a < 2 ^ 64 * 2 ^ 64" by (rule mult_strict_mono') (use assms in auto)
  then have xa: "0 \<le> x * a" "x * a < 2 ^ 128" using assms b by auto
  have "(2::int) ^ 64 < 2 ^ 128" by simp
  then have lt: "x < 2 ^ 128" "a < 2 ^ 128" "b < 2 ^ 128" using assms by linarith+
  show "u128_div fc (u128_mul fc (u128_of fc x) (u128_of fc a)) (u128_of fc b) = Inr (x * a div b)"
    using assms lt xa by (simp add: u128_ops u128_div_Inr mod_pos_pos_trivial)
  show nonneg: "0 \<le> x * a div b" using xa assms(6) by (simp add: pos_imp_zdiv_nonneg_iff)
  have "x * a div b \<le> x * b div b" by (rule zdiv_mono1) (use assms in \<open>auto intro: mult_left_mono\<close>)
  then show "x * a div b \<le> x" using assms(6) by simp
  then show "u128_to_uint64 fc (x * a div b) = Inr (x * a div b)"
    using nonneg assms(1,3) by (intro u128_ops(9)) auto
qed

text \<open>
  A vote within the window is split: what it keeps and what it gives to the window add up to what
  the curve gave it.
\<close>

lemma auction_split_exact:
  assumes "fc_u128 fc" "auction_split fc c v w h = Inr (w', h')" "0 \<le> w"
    "cmv_auction_time v \<le> com_auction_window_size c" "com_auction_window_size c < 2 ^ 16"
    "0 \<le> cwh_auction_window_weight h" "cwh_auction_window_weight h \<le> cwh_total_vote_weight h"
    "0 \<le> cwh_votes_in_auction_window_weight h" "cwh_votes_in_auction_window_weight h \<le> cwh_total_vote_weight h"
    "cwh_total_vote_weight h + w < 2 ^ 64"
  shows "0 \<le> w' \<and> w' \<le> w \<and> (cmv_auction_time v = com_auction_window_size c \<longrightarrow> w' = w) \<and>
    h' = h\<lparr>cwh_total_vote_weight := cwh_total_vote_weight h + (w - w'),
      cwh_auction_window_weight := cwh_auction_window_weight h + (w - w'),
      cwh_votes_in_auction_window_weight := cwh_votes_in_auction_window_weight h +
        (if was_changed v \<or> cmv_auction_time v = com_auction_window_size c then 0 else w')\<rparr>"
proof (cases "w > 0 \<and> cmv_auction_time v \<noteq> com_auction_window_size c")
  case False
  then show ?thesis using assms(2,3) by (auto simp: auction_split_def)
next
  case True
  let ?t = "int (cmv_auction_time v)" and ?s = "int (com_auction_window_size c)"
  have size: "0 \<le> ?t" "?t \<le> ?s" "0 < ?s" using assms(4) True by simp_all
  have "?s < 2 ^ 16" "(2::int) ^ 16 \<le> 2 ^ 64" using assms(5) by simp_all
  then have s64: "?s < 2 ^ 64" by linarith
  have w64: "w < 2 ^ 64" using assms(6,7,10) by linarith
  note share = pro_rata [OF assms(1,3) w64 size s64]
  let ?n = "w * ?t div ?s"
  have mods: "(w - ?n) mod 2 ^ 64 = w - ?n"
    "(cwh_total_vote_weight h + (w - ?n)) mod 2 ^ 64 = cwh_total_vote_weight h + (w - ?n)"
    "(cwh_auction_window_weight h + (w - ?n)) mod 2 ^ 64 = cwh_auction_window_weight h + (w - ?n)"
    "(cwh_votes_in_auction_window_weight h + ?n) mod 2 ^ 64 = cwh_votes_in_auction_window_weight h + ?n"
    by (rule mod_pos_pos_trivial; use share(3,4) assms(6-10) w64 in linarith)+
  have "auction_split fc c v w h = Inr (?n, h\<lparr>cwh_total_vote_weight := cwh_total_vote_weight h + (w - ?n),
      cwh_auction_window_weight := cwh_auction_window_weight h + (w - ?n),
      cwh_votes_in_auction_window_weight := (if was_changed v then cwh_votes_in_auction_window_weight h
        else cwh_votes_in_auction_window_weight h + ?n)\<rparr>)"
    unfolding auction_split_def if_P [OF True] share(1) bindR_Inr share(2) Let_def mods ..
  then show ?thesis using assms(2) True share(3,4) by auto
qed

section \<open>Weighing the votes\<close>

text \<open>
  What a curve promises: \<open>spent\<close> is the sum of the weights given out so far, it grows by the weight
  of each vote and never reaches \<open>2 ^ 64\<close>. The curve may keep an invariant of the shares and the
  weight that the loop carries along, and may ask something of the votes.
\<close>

locale weighing =
  fixes curve :: curation_curve
    and sound :: "comment_vote_object list \<Rightarrow> bool"
    and keeps :: "fc_lib \<Rightarrow> comment_vote_object list \<Rightarrow> int \<Rightarrow> int \<Rightarrow> bool"
    and spent :: "comment_vote_object list \<Rightarrow> int \<Rightarrow> int"
  assumes start: "fc_num fc \<Longrightarrow> keeps fc [] 0 0" "spent [] 0 = 0"
    and idle: "\<not> earns v \<Longrightarrow> keeps fc vs r w \<Longrightarrow> keeps fc (vs @ [v]) r w" "\<not> earns v \<Longrightarrow> spent (vs @ [v]) w = spent vs w"
    and step: "fc_num fc \<Longrightarrow> sound (vs @ v # ws) \<Longrightarrow> keeps fc vs (cwh_vote_rshares h) (cwh_old_vote_weight h) \<Longrightarrow> earns v \<Longrightarrow>
      s = cwh_vote_rshares h + cmv_orig_rshares v \<Longrightarrow> in_i64 s \<Longrightarrow>
      calculate_curve fc curve v (h\<lparr>cwh_vote_rshares := s\<rparr>) = Inr (w, h') \<Longrightarrow>
      \<exists>u. h' = h\<lparr>cwh_vote_rshares := s, cwh_old_vote_weight := u\<rparr> \<and> keeps fc (vs @ [v]) s u \<and>
        0 \<le> w \<and> spent (vs @ [v]) u = spent vs (cwh_old_vote_weight h) + w \<and> spent (vs @ [v]) u < 2 ^ 64"
begin

text \<open>The state of the loop after the votes \<open>done\<close>.\<close>

definition weighed :: "fc_lib \<Rightarrow> comment_object \<Rightarrow> comment_vote_object list \<Rightarrow> (comment_vote_object \<times> int) list \<Rightarrow>
   calculate_weight_helper \<Rightarrow> bool" where
  "weighed fc c vs ws h \<longleftrightarrow> exact_weights c ws h \<and> keeps fc vs (cwh_vote_rshares h) (cwh_old_vote_weight h) \<and>
     cwh_total_vote_weight h \<le> spent vs (cwh_old_vote_weight h) \<and> cwh_total_vote_weight h < 2 ^ 64"

lemma weighed_start: "fc_num fc \<Longrightarrow> weighed fc c [] [] new_weight_helper"
  by (simp add: weighed_def exact_weights_def new_weight_helper_def start)

lemma exact_window_le:
  assumes "exact_weights c ws h"
  shows "0 \<le> cwh_votes_in_auction_window_weight h"
    "cwh_votes_in_auction_window_weight h + cwh_auction_window_weight h \<le> cwh_total_vote_weight h"
proof -
  have "0 \<le> weights_total (filter P ws)" for P
    using assms by (intro weights_total_nonneg) (auto simp: exact_weights_def)
  then show "0 \<le> cwh_votes_in_auction_window_weight h"
    "cwh_votes_in_auction_window_weight h + cwh_auction_window_weight h \<le> cwh_total_vote_weight h"
    using assms weights_total_split [of ws "in_window c"] by (simp_all add: exact_weights_def)
qed

lemma calculate_weight_step:
  assumes "fc_num fc" "weighed fc c vs ws h" "sound (vs @ v # us)"
    "cmv_auction_time v \<le> com_auction_window_size c" "com_auction_window_size c < 2 ^ 16"
    "calculate_weight fc c curve v h = Inr (w, h')"
  shows "weighed fc c (vs @ [v]) (ws @ [(v, w)]) h' \<and> 0 \<le> w"
proof (cases "earns v")
  case False
  then have "w = 0" "h' = h" using assms(6) by (auto simp: calculate_weight_def earns_def)
  then show ?thesis using assms(2) idle [OF False] by (simp add: weighed_def exact_weights_def)
next
  case True
  have lib: "fc_safe fc" "fc_u128 fc" using assms(1) by (auto simp: fc_num_def)
  obtain s w1 h1 w2 h2 where s: "in_i64 s" "s = cwh_vote_rshares h + cmv_orig_rshares v"
    and c: "calculate_curve fc curve v (h\<lparr>cwh_vote_rshares := s\<rparr>) = Inr (w1, h1)"
    and a: "auction_split fc c v w1 h1 = Inr (w2, h2)"
    and r: "(w, h') = (if was_changed v then (0, h2)
       else (w2, h2\<lparr>cwh_total_vote_weight := (cwh_total_vote_weight h2 + w2) mod 2 ^ 64\<rparr>))"
    using assms(6) True lib(1) by (auto simp: calculate_weight_def earns_def safe_add_Inr split: prod.splits)
  obtain u where u: "h1 = h\<lparr>cwh_vote_rshares := s, cwh_old_vote_weight := u\<rparr>" "keeps fc (vs @ [v]) s u" "0 \<le> w1"
    "spent (vs @ [v]) u = spent vs (cwh_old_vote_weight h) + w1" "spent (vs @ [v]) u < 2 ^ 64"
    using step [OF assms(1,3) _ True s(2,1) c] assms(2) unfolding weighed_def by blast
  have ex: "exact_weights c ws h" and le: "cwh_total_vote_weight h \<le> spent vs (cwh_old_vote_weight h)"
    using assms(2) by (simp_all add: weighed_def)
  note win = exact_window_le [OF ex]
  have aw: "0 \<le> cwh_auction_window_weight h" using ex by (simp add: exact_weights_def)
  have lt: "cwh_total_vote_weight h + w1 < 2 ^ 64" using u(4,5) le by linarith
  have split: "0 \<le> w2 \<and> w2 \<le> w1 \<and> (cmv_auction_time v = com_auction_window_size c \<longrightarrow> w2 = w1) \<and>
    h2 = h1\<lparr>cwh_total_vote_weight := cwh_total_vote_weight h + (w1 - w2),
      cwh_auction_window_weight := cwh_auction_window_weight h + (w1 - w2),
      cwh_votes_in_auction_window_weight := cwh_votes_in_auction_window_weight h +
        (if was_changed v \<or> cmv_auction_time v = com_auction_window_size c then 0 else w2)\<rparr>"
    using auction_split_exact [OF lib(2) a u(3) assms(4,5)] win aw lt by (simp add: u(1))
  have "(cwh_total_vote_weight h2 + w2) mod 2 ^ 64 = cwh_total_vote_weight h + w1"
    using split lt win aw by (subst mod_pos_pos_trivial) auto
  then have res: "w = (if was_changed v then 0 else w2)"
    "h' = h2\<lparr>cwh_total_vote_weight := cwh_total_vote_weight h + (if was_changed v then w1 - w2 else w1)\<rparr>"
    using r split by (auto split: if_splits)
  have "exact_weights c (ws @ [(v, w)]) h'"
    using ex split by (auto simp: exact_weights_def res in_window_def)
  then show ?thesis using u split le lt res by (auto simp: weighed_def)
qed

lemma weighed_drop: "weighed fc c vs (ws @ [(v, 0)]) h \<Longrightarrow> weighed fc c vs ws h"
  by (auto simp: weighed_def exact_weights_def)

lemma weigh_loop:
  assumes "fc_num fc" "com_auction_window_size c < 2 ^ 16"
  shows "foldR (\<lambda>v (ws, h).
       bindR (calculate_weight fc c curve v h) (\<lambda>(weight, h).
       Inr (if weight > 0 \<or> full_list then ws @ [(v, weight)] else ws, h))) us (ws, h) = Inr (ws', h') \<Longrightarrow>
    weighed fc c vs ws h \<Longrightarrow> sound (vs @ us) \<Longrightarrow> \<forall>v \<in> set us. cmv_auction_time v \<le> com_auction_window_size c \<Longrightarrow>
    weighed fc c (vs @ us) ws' h' \<and> fst ` set ws' \<subseteq> fst ` set ws \<union> set us"
proof (induction us arbitrary: vs ws h)
  case (Cons v us)
  let ?ws = "\<lambda>w. if w > 0 \<or> full_list then ws @ [(v, w)] else ws"
  obtain w h1 where one: "calculate_weight fc c curve v h = Inr (w, h1)"
    and rest: "foldR (\<lambda>v (ws, h).
       bindR (calculate_weight fc c curve v h) (\<lambda>(weight, h).
       Inr (if weight > 0 \<or> full_list then ws @ [(v, weight)] else ws, h))) us (?ws w, h1) = Inr (ws', h')"
    using Cons.prems(1) by auto
  have w: "weighed fc c (vs @ [v]) (ws @ [(v, w)]) h1" "0 \<le> w"
    using calculate_weight_step [OF assms(1) Cons.prems(2,3) _ assms(2) one] Cons.prems(4) by simp_all
  then have "weighed fc c (vs @ [v]) (?ws w) h1" using weighed_drop by (cases "w = 0") auto
  from Cons.IH [OF rest this] Cons.prems(3,4) show ?case by (auto split: if_split_asm)
qed simp

lemma weigh_votes_exact:
  assumes "fc_num fc" "com_auction_window_size c < 2 ^ 16" "sound us"
    "\<forall>v \<in> set us. cmv_auction_time v \<le> com_auction_window_size c" "weigh_votes fc c curve full_list us = Inr (ws, h)"
  shows "exact_weights c ws h \<and> cwh_total_vote_weight h < 2 ^ 64 \<and> fst ` set ws \<subseteq> set us"
  using weigh_loop [OF assms(1,2) assms(5) [unfolded weigh_votes_def] weighed_start [OF assms(1)]] assms(3,4)
  by (auto simp: weighed_def)

end

section \<open>Curves that give the increments of a growing function\<close>

locale growing_curve =
  fixes curve :: curation_curve and total_weight :: "fc_lib \<Rightarrow> int \<Rightarrow> int"
  assumes curve: "fc_num fc \<Longrightarrow> 0 \<le> cwh_vote_rshares h \<Longrightarrow> cwh_vote_rshares h < 2 ^ 63 \<Longrightarrow> calculate_curve fc curve v h =
      Inr ((total_weight fc (cwh_vote_rshares h) - cwh_old_vote_weight h) mod 2 ^ 64,
        h\<lparr>cwh_old_vote_weight := total_weight fc (cwh_vote_rshares h)\<rparr>)"
    and zero: "fc_num fc \<Longrightarrow> total_weight fc 0 = 0"
    and grows: "fc_num fc \<Longrightarrow> 0 \<le> r \<Longrightarrow> r \<le> s \<Longrightarrow> s < 2 ^ 63 \<Longrightarrow> total_weight fc r \<le> total_weight fc s"
    and bounded: "fc_num fc \<Longrightarrow> 0 \<le> r \<Longrightarrow> r < 2 ^ 63 \<Longrightarrow> total_weight fc r < 2 ^ 64"
begin

sublocale weighing curve "\<lambda>_. True" "\<lambda>fc _ r w. 0 \<le> r \<and> r < 2 ^ 63 \<and> w = total_weight fc r" "\<lambda>_ w. w"
proof
  fix fc :: fc_lib and vs us :: "comment_vote_object list" and v :: comment_vote_object and h h' :: calculate_weight_helper and s w :: int
  assume lib: "fc_num fc" and inv: "0 \<le> cwh_vote_rshares h \<and> cwh_vote_rshares h < 2 ^ 63 \<and> cwh_old_vote_weight h = total_weight fc (cwh_vote_rshares h)"
    and v: "earns v" and s: "s = cwh_vote_rshares h + cmv_orig_rshares v" "in_i64 s"
    and run: "calculate_curve fc curve v (h\<lparr>cwh_vote_rshares := s\<rparr>) = Inr (w, h')"
  have range: "0 \<le> s" "s < 2 ^ 63" "cwh_vote_rshares h \<le> s" using inv v s by (auto simp: earns_def in_i64_def)
  let ?u = "total_weight fc s"
  have le: "cwh_old_vote_weight h \<le> ?u" using grows [OF lib] inv range by auto
  have "0 \<le> cwh_old_vote_weight h" using grows [OF lib, of 0 "cwh_vote_rshares h"] inv zero [OF lib] by simp
  then have "(?u - cwh_old_vote_weight h) mod 2 ^ 64 = ?u - cwh_old_vote_weight h"
    using le bounded [OF lib range(1,2)] by (intro mod_pos_pos_trivial) auto
  then have "w = ?u - cwh_old_vote_weight h" "h' = h\<lparr>cwh_vote_rshares := s, cwh_old_vote_weight := ?u\<rparr>"
    using run curve [OF lib, of "h\<lparr>cwh_vote_rshares := s\<rparr>" v] range(1,2) by simp_all
  then show "\<exists>u. h' = h\<lparr>cwh_vote_rshares := s, cwh_old_vote_weight := u\<rparr> \<and>
      (0 \<le> s \<and> s < 2 ^ 63 \<and> u = total_weight fc s) \<and> 0 \<le> w \<and> u = cwh_old_vote_weight h + w \<and> u < 2 ^ 64"
    using le range bounded [OF lib range(1,2)] by auto
qed (simp_all add: zero)

end

section \<open>The bounded curve\<close>

definition bounded_weight :: "int \<Rightarrow> int" where
  "bounded_weight r = r * (2 ^ 64 - 1) div (4000000000000 + r)"

lemma int_le_div: "q * d \<le> n \<Longrightarrow> 0 < d \<Longrightarrow> q \<le> n div d" for q d n :: int
  using zdiv_mono1 [of "q * d" n d] by simp

lemma div_mult_le_int: "0 < d \<Longrightarrow> n div d * d \<le> n" for d n :: int
  using div_mult_mod_eq [of n d] pos_mod_sign [of d n] by linarith

lemma bounded_weight_le: "0 \<le> r \<Longrightarrow> 0 \<le> bounded_weight r \<and> bounded_weight r \<le> 2 ^ 64 - 1"
proof
  assume r: "0 \<le> r"
  have d: "0 < 4000000000000 + r" using r by simp
  show "0 \<le> bounded_weight r" using r by (simp add: bounded_weight_def pos_imp_zdiv_nonneg_iff)
  have "r * (2 ^ 64 - 1) \<le> (2 ^ 64 - 1) * (4000000000000 + r)" using r by simp
  from zdiv_mono1 [OF this d] show "bounded_weight r \<le> 2 ^ 64 - 1"
    using d unfolding bounded_weight_def by (metis less_irrefl nonzero_mult_div_cancel_right)
qed

lemma bounded_weight_mono:
  assumes "0 \<le> r" "r \<le> s"
  shows "bounded_weight r \<le> bounded_weight s"
proof -
  let ?q = "bounded_weight r" and ?k = "4000000000000 :: int" and ?b = "2 ^ 64 - 1 :: int"
  have "?q * (?k + r) \<le> r * ?b"
    using div_mult_le_int [of "?k + r" "r * ?b"] assms by (simp add: bounded_weight_def)
  then have "?q * ?k \<le> r * (?b - ?q)" by (simp only: algebra_simps)
  also have "\<dots> \<le> s * (?b - ?q)" using assms bounded_weight_le [OF assms(1)] by (intro mult_right_mono) auto
  finally have "?q * (?k + s) \<le> s * ?b" by (simp only: algebra_simps)
  then show ?thesis using assms unfolding bounded_weight_def [of s] by (intro int_le_div) auto
qed

lemma calculate_bounded_exact:
  assumes "fc_u128 fc" "0 \<le> r" "r < 2 ^ 63"
  shows "calculate_bounded fc r = Inr (bounded_weight r)"
proof -
  have "(4000000000000 :: int) + r < 2 ^ 128" "r < 2 ^ 128" "(2 :: int) ^ 64 - 1 < 2 ^ 128" using assms(3) by auto
  moreover have "r * (2 ^ 64 - 1) < 2 ^ 63 * 2 ^ 64" by (rule mult_strict_mono') (use assms in auto)
  then have "r * (2 ^ 64 - 1) < 2 ^ 128" by simp
  ultimately have q: "u128_div fc (u128_mul fc (u128_of fc r) (u128_of fc (2 ^ 64 - 1)))
      (u128_add fc (u128_mul fc (u128_of fc 2) (get_content_constant_s fc)) (u128_of fc r)) = Inr (bounded_weight r)"
    using assms by (simp add: u128_ops u128_div_Inr get_content_constant_s_def bounded_weight_def mod_pos_pos_trivial)
  have "u128_to_uint64 fc (bounded_weight r) = Inr (bounded_weight r)"
    using bounded_weight_le [OF assms(2)] assms(1) by (intro u128_ops(9)) auto
  with q show ?thesis by (simp add: calculate_bounded_def Let_def)
qed

interpretation bounded: growing_curve Curve_bounded "\<lambda>_. bounded_weight"
proof
  show "calculate_curve fc Curve_bounded v h = Inr ((bounded_weight (cwh_vote_rshares h) - cwh_old_vote_weight h) mod 2 ^ 64,
      h\<lparr>cwh_old_vote_weight := bounded_weight (cwh_vote_rshares h)\<rparr>)"
    if "fc_num fc" "0 \<le> cwh_vote_rshares h" "cwh_vote_rshares h < 2 ^ 63" for fc h v
    using that by (simp add: calculate_curve_def calculate_bounded_exact fc_num_def)
  show "bounded_weight r < 2 ^ 64" if "0 \<le> r" for r using bounded_weight_le [OF that] by linarith
  show "bounded_weight r \<le> bounded_weight s" if "0 \<le> r" "r \<le> s" for r s using bounded_weight_mono that .
qed (simp add: bounded_weight_def)

section \<open>The linear curve\<close>

text \<open>
  The weight of a vote is the 64-bit pattern of its shares; they have to be non-negative, which
  votes that were never changed guarantee, and their sum has to fit.
\<close>

definition linear_sum :: "comment_vote_object list \<Rightarrow> int" where
  "linear_sum vs = (\<Sum>v\<leftarrow>filter earns vs. cmv_rshares v)"

definition linear_sound :: "comment_vote_object list \<Rightarrow> bool" where
  "linear_sound vs \<longleftrightarrow> (\<forall>v \<in> set vs. earns v \<longrightarrow> 0 \<le> cmv_rshares v) \<and> linear_sum vs < 2 ^ 64"

lemma linear_sum_nonneg: "\<forall>v \<in> set vs. earns v \<longrightarrow> 0 \<le> cmv_rshares v \<Longrightarrow> 0 \<le> linear_sum vs"
  by (induction vs) (auto simp: linear_sum_def)

interpretation linear: weighing Curve_linear linear_sound "\<lambda>_ _ _ _. True" "\<lambda>vs _. linear_sum vs"
proof
  fix fc :: fc_lib and vs us :: "comment_vote_object list" and v :: comment_vote_object
    and h h' :: calculate_weight_helper and s w :: int
  assume sound: "linear_sound (vs @ v # us)" and v: "earns v"
    and run: "calculate_curve fc Curve_linear v (h\<lparr>cwh_vote_rshares := s\<rparr>) = Inr (w, h')"
  have "0 \<le> linear_sum us" "0 \<le> linear_sum vs"
    using sound by (auto simp: linear_sound_def intro!: linear_sum_nonneg)
  moreover have "linear_sum (vs @ v # us) = linear_sum vs + cmv_rshares v + linear_sum us"
    using v by (simp add: linear_sum_def)
  ultimately have b: "0 \<le> cmv_rshares v" "linear_sum vs + cmv_rshares v < 2 ^ 64" "0 \<le> linear_sum vs"
    using sound v by (auto simp: linear_sound_def)
  then have "w = cmv_rshares v" "h' = h\<lparr>cwh_vote_rshares := s\<rparr>"
    using run by (auto simp: calculate_curve_def)
  then show "\<exists>u. h' = h\<lparr>cwh_vote_rshares := s, cwh_old_vote_weight := u\<rparr> \<and> True \<and> 0 \<le> w \<and>
      linear_sum (vs @ [v]) = linear_sum vs + w \<and> linear_sum (vs @ [v]) < 2 ^ 64"
    using b v by (intro exI [of _ "cwh_old_vote_weight h"]) (simp add: linear_sum_def)
qed (simp_all add: linear_sum_def)

section \<open>The square-root curve\<close>

text \<open>
  The approximate square root without wrap-around: half of the exponent, and half of the
  mantissa below it. \<open>root_floor\<close> is its value at the powers of two.
\<close>

definition root_of :: "nat \<Rightarrow> int \<Rightarrow> int" where
  "root_of n x = 2 ^ (n div 2) + ((if odd n then 2 ^ (n div 2) else 0) + (x - 2 ^ n) div 2 ^ (n - n div 2)) div 2"

definition root_floor :: "nat \<Rightarrow> int" where
  "root_floor n = 2 ^ (n div 2) + (if odd n then 2 ^ (n div 2) div 2 else 0)"

definition leading :: "nat \<Rightarrow> int \<Rightarrow> bool" where
  "leading n x \<longleftrightarrow> 2 ^ n \<le> x \<and> x < 2 ^ Suc n"

lemma leading_unique: "leading n x \<Longrightarrow> leading k x \<Longrightarrow> n = k"
proof (induction n k rule: linorder_wlog)
  case (le n k)
  then have "(2::int) ^ k < 2 ^ Suc n" by (auto simp: leading_def)
  then have "k < Suc n" by (rule power_less_imp_less_exp [rotated]) simp
  with le(1) show ?case by simp
qed auto

lemma leading_exists:
  assumes "0 < x"
  shows "\<exists>n. leading n x"
proof -
  have "int (2 ^ msb_of (nat x)) \<le> int (nat x)" "int (nat x) < int (2 ^ Suc (msb_of (nat x)))"
    using msb_of_bounds [of "nat x"] assms by (simp_all only: of_nat_le_iff of_nat_less_iff zero_less_nat_eq)
  then show ?thesis using assms by (auto simp: leading_def)
qed

lemma leading_mono:
  assumes "leading n x" "leading k y" "x \<le> y"
  shows "n \<le> k"
proof -
  have "(2::int) ^ n < 2 ^ Suc k" using assms by (auto simp: leading_def)
  then have "n < Suc k" by (rule power_less_imp_less_exp [rotated]) simp
  then show ?thesis by simp
qed

lemma mantissa_range:
  assumes "leading n x"
  shows "0 \<le> (x - 2 ^ n) div 2 ^ (n - n div 2)" "(x - 2 ^ n) div 2 ^ (n - n div 2) < 2 ^ (n div 2)"
proof -
  have "x - 2 ^ n < 2 ^ (n div 2) * 2 ^ (n - n div 2)"
    using assms by (simp add: leading_def flip: power_add)
  then show "(x - 2 ^ n) div 2 ^ (n - n div 2) < 2 ^ (n div 2)"
    using div_mult_le_int [of "2 ^ (n - n div 2)" "x - 2 ^ n"] by (metis le_less_trans mult_right_less_imp_less zero_le_numeral
      zero_le_power zero_less_numeral zero_less_power)
  show "0 \<le> (x - 2 ^ n) div 2 ^ (n - n div 2)" using assms by (simp add: leading_def pos_imp_zdiv_nonneg_iff)
qed

lemma root_of_range: "leading n x \<Longrightarrow> root_floor n \<le> root_of n x \<and> root_of n x \<le> root_floor (Suc n)"
  using mantissa_range [of n x]
  by (cases "even n") (auto simp: root_of_def root_floor_def elim!: evenE oddE)

lemma root_floor_mono: "n \<le> k \<Longrightarrow> root_floor n \<le> root_floor k"
proof (rule lift_Suc_mono_le [of root_floor])
  fix m
  have "leading m (2 ^ m)" by (simp add: leading_def)
  then show "root_floor m \<le> root_floor (Suc m)" using root_of_range by fastforce
qed

lemma root_of_mono:
  assumes "leading n x" "leading k y" "x \<le> y"
  shows "root_of n x \<le> root_of k y"
proof (cases "n = k")
  case True
  have "(x - 2 ^ n) div 2 ^ (n - n div 2) \<le> (y - 2 ^ n) div 2 ^ (n - n div 2)"
    using assms(3) by (intro zdiv_mono1) auto
  then show ?thesis unfolding root_of_def True by (intro add_left_mono zdiv_mono1 [where b = 2]) auto
next
  case False
  then have "Suc n \<le> k" using leading_mono [OF assms] by simp
  then show ?thesis
    using root_of_range [OF assms(1)] root_of_range [OF assms(2)] root_floor_mono [of "Suc n" k] by linarith
qed

lemma or_exp: "0 \<le> a \<Longrightarrow> a < 2 ^ m \<Longrightarrow> or (2 ^ m) a = 2 ^ m + a" for a :: int
proof -
  assume a: "0 \<le> a" "a < 2 ^ m"
  then have "\<not> bit a m" by (simp add: bit_iff_odd)
  then have "and (2 ^ m) a = 0" by (simp add: and.commute [of "2 ^ m"] and_exp_eq_0_iff_not_bit)
  then show ?thesis by (simp add: disjunctive_add_eq_or)
qed

lemma find_msb_exact:
  assumes "fc_u128 fc" "leading n x" "x < 2 ^ 63"
  shows "find_msb fc x = n"
proof -
  have x: "0 < x" "x < 2 ^ 64" using assms(2,3) by (auto simp: leading_def intro: order_less_le_trans [rotated])
  have "u128_lo fc x = x" "u128_hi fc x = 0" "leading (find_msb64 fc x) x"
    using assms(1) x by (auto simp: fc_u128_def leading_def)
  then show ?thesis using x leading_unique [OF assms(2)] by (simp add: find_msb_def Let_def)
qed

lemma approx_sqrt_exact:
  assumes "fc_u128 fc" "leading n x" "x < 2 ^ 63"
  shows "approx_sqrt fc x = root_of n x"
proof -
  let ?m = "n div 2"
  have x: "0 < x" using assms(2) by (auto simp: leading_def intro: order_less_le_trans [rotated])
  have "(2::int) ^ n < 2 ^ 63" using assms(2,3) by (auto simp: leading_def)
  then have n: "n < 63" by (rule power_less_imp_less_exp [rotated]) simp
  then have "(2::int) ^ n < 2 ^ 128" by (intro power_strict_increasing) auto
  then have bit: "u128_sub fc (u128_shl fc 1 n) 1 = mask n"
    using assms(1) by (simp add: u128_ops mask_eq_exp_minus_1)
  have "u128_and fc x (mask n) = x mod 2 ^ n"
    using assms(1) by (simp add: fc_u128_def take_bit_eq_mask [symmetric] take_bit_eq_mod)
  also have "x mod 2 ^ n = x - 2 ^ n"
    using mod_pos_pos_trivial [of "x - 2 ^ n" "2 ^ n"] assms(2) by (simp add: leading_def)
  finally have mant: "u128_and fc x (mask n) = x - 2 ^ n" .
  let ?z = "(x - 2 ^ n) div 2 ^ (n - ?m)"
  note z = mantissa_range [OF assms(2)]
  have "(2::int) ^ ?m \<le> 2 ^ 64" using n by (intro power_increasing) auto
  then have lo: "u128_lo fc (u128_shr fc (x - 2 ^ n) (n - ?m)) = ?z"
    using assms(1) z by (simp add: u128_ops(6) fc_u128_def mod_pos_pos_trivial)
  have inner: "or (if odd n then 2 ^ ?m else 0) ?z = (if odd n then 2 ^ ?m else 0) + ?z"
    using or_exp [OF z] by simp
  have half: "or (2 ^ ?m) (((if odd n then 2 ^ ?m else 0) + ?z) div 2) = root_of n x"
  proof -
    have "0 \<le> ((if b then p else 0) + y) div 2 \<and> ((if b then p else 0) + y) div 2 < p" if "0 \<le> y" "y < p" for b and p y :: int
      using that by auto
    from or_exp [OF conjunct1 [OF this [OF z]] conjunct2 [OF this [OF z]]] show ?thesis by (simp add: root_of_def)
  qed
  have "u128_lo fc x \<noteq> 0" using assms(1,3) x by (simp add: fc_u128_def)
  then show ?thesis
    by (simp add: approx_sqrt_def Let_def find_msb_exact [OF assms] bit mant lo inner half)
qed

lemma approx_sqrt_zero: "fc_u128 fc \<Longrightarrow> approx_sqrt fc 0 = 0"
  by (simp add: approx_sqrt_def fc_u128_def)

lemma approx_sqrt_mono:
  assumes "fc_u128 fc" "0 \<le> x" "x \<le> y" "y < 2 ^ 63"
  shows "approx_sqrt fc x \<le> approx_sqrt fc y"
proof (cases "x = 0")
  case False
  then obtain n k where nk: "leading n x" "leading k y" using leading_exists [of x] leading_exists [of y] assms by auto
  then show ?thesis
    using root_of_mono [OF nk assms(3)] approx_sqrt_exact [OF assms(1)] assms(3,4) by simp
next
  case True
  show ?thesis
  proof (cases "y = 0")
    case False
    then obtain k where k: "leading k y" using leading_exists [of y] assms(2,3) by auto
    have "0 \<le> root_floor k" by (simp add: root_floor_def)
    then show ?thesis
      using root_of_range [OF k] approx_sqrt_exact [OF assms(1) k assms(4)] approx_sqrt_zero [OF assms(1)] by (simp add: True)
  qed (use True in simp)
qed

lemma approx_sqrt_bound:
  assumes "fc_u128 fc" "0 \<le> x" "x < 2 ^ 63"
  shows "approx_sqrt fc x < 2 ^ 64"
proof (cases "x = 0")
  case False
  then obtain n where n: "leading n x" using leading_exists [of x] assms(2) by auto
  have "(2::int) ^ n < 2 ^ 63" using n assms(3) by (auto simp: leading_def)
  then have "n < 63" by (rule power_less_imp_less_exp [rotated]) simp
  then have "root_floor (Suc n) \<le> root_floor 63" by (intro root_floor_mono) simp
  also have "root_floor 63 < 2 ^ 64" by (simp add: root_floor_def)
  finally show ?thesis using root_of_range [OF n] approx_sqrt_exact [OF assms(1) n assms(3)] by linarith
qed (use approx_sqrt_zero [OF assms(1)] in simp)

interpretation square_root: growing_curve Curve_square_root approx_sqrt
proof
  fix fc :: fc_lib assume "fc_num fc"
  then have lib: "fc_u128 fc" by (simp add: fc_num_def)
  show "calculate_curve fc Curve_square_root v h = Inr ((approx_sqrt fc (cwh_vote_rshares h) - cwh_old_vote_weight h) mod 2 ^ 64,
      h\<lparr>cwh_old_vote_weight := approx_sqrt fc (cwh_vote_rshares h)\<rparr>)"
    if "0 \<le> cwh_vote_rshares h" "cwh_vote_rshares h < 2 ^ 63" for h v
    using that lib by (simp add: calculate_curve_def u128_ops(1) mod_pos_pos_trivial)
  show "approx_sqrt fc 0 = 0" using lib by (rule approx_sqrt_zero)
  show "approx_sqrt fc r \<le> approx_sqrt fc s" if "0 \<le> r" "r \<le> s" "s < 2 ^ 63" for r s using approx_sqrt_mono [OF lib that] .
  show "approx_sqrt fc r < 2 ^ 64" if "0 \<le> r" "r < 2 ^ 63" for r using approx_sqrt_bound [OF lib that] .
qed

section \<open>The curation of a comment\<close>

text \<open>On a curve that does not exist no vote can earn.\<close>

lemma unknown_curve: "curve \<notin> {Curve_bounded, Curve_linear, Curve_square_root} \<Longrightarrow>
  weighing curve (\<lambda>_. True) (\<lambda>_ _ _ _. True) (\<lambda>_ _. 0)"
  by unfold_locales (auto simp: calculate_curve_def Let_def split: curation_curve.splits)

definition votes_sound :: "comment_object \<Rightarrow> database \<Rightarrow> bool" where
  "votes_sound c db \<longleftrightarrow> com_auction_window_size c < 2 ^ 16 \<and>
     (\<forall>v \<in> set (comment_votes_of c db). cmv_auction_time v \<le> com_auction_window_size c) \<and>
     (detect_curation_curve c db = Curve_linear \<longrightarrow> linear_sound (comment_votes_of c db))"

definition info_exact :: "comment_object \<Rightarrow> comment_curation_info \<Rightarrow> bool" where
  "info_exact c ci \<longleftrightarrow> (\<forall>x \<in> set (cci_vote_list ci). 0 \<le> snd x) \<and> 0 \<le> cci_auction_window_weight ci \<and>
     cci_total_vote_weight ci = weights_total (cci_vote_list ci) + cci_auction_window_weight ci \<and>
     cci_total_vote_weight ci < 2 ^ 64 \<and>
     cci_votes_in_auction_window_weight ci = weights_total (filter (in_window c) (cci_vote_list ci)) \<and>
     cci_votes_after_auction_window_weight ci = weights_total (filter (\<lambda>x. \<not> in_window c x) (cci_vote_list ci))"

lemma weigh_votes_any_curve:
  assumes "fc_num fc" "votes_sound c db"
    "weigh_votes fc c (detect_curation_curve c db) full_list (comment_votes_of c db) = Inr (ws, h)"
  shows "exact_weights c ws h \<and> cwh_total_vote_weight h < 2 ^ 64 \<and> fst ` set ws \<subseteq> set (comment_votes_of c db)"
proof -
  have v: "com_auction_window_size c < 2 ^ 16" "\<forall>v \<in> set (comment_votes_of c db). cmv_auction_time v \<le> com_auction_window_size c"
    using assms(2) by (auto simp: votes_sound_def)
  consider (b) "detect_curation_curve c db = Curve_bounded" | (l) "detect_curation_curve c db = Curve_linear"
    | (q) "detect_curation_curve c db = Curve_square_root"
    | (u) "detect_curation_curve c db \<notin> {Curve_bounded, Curve_linear, Curve_square_root}"
    by blast
  then show ?thesis
  proof cases
    case b
    show ?thesis by (rule bounded.weigh_votes_exact [OF assms(1) v(1) TrueI v(2)]) (use assms(3) b in simp)
  next
    case l
    have "linear_sound (comment_votes_of c db)" using assms(2) l by (simp add: votes_sound_def)
    then show ?thesis by (rule linear.weigh_votes_exact [OF assms(1) v(1) _ v(2)]) (use assms(3) l in simp)
  next
    case q
    show ?thesis by (rule square_root.weigh_votes_exact [OF assms(1) v(1) TrueI v(2)]) (use assms(3) q in simp)
  next
    case u
    show ?thesis by (rule weighing.weigh_votes_exact [OF unknown_curve [OF u] assms(1) v(1) TrueI v(2) assms(3)])
  qed
qed

lemma mk_curation_info_exact:
  assumes "fc_num fc" "votes_sound c db" "mk_comment_curation_info fc c full_list db = Inr ci"
  shows "info_exact c ci \<and> fst ` set (cci_vote_list ci) \<subseteq> set (comment_votes_of c db) \<and> cci_curve ci = detect_curation_curve c db"
proof (cases "com_last_payout c \<noteq> 0 \<and> \<not> full_list")
  case True
  then show ?thesis using assms(3) by (auto simp: mk_comment_curation_info_def Let_def info_exact_def)
next
  case False
  then obtain ws h where w: "weigh_votes fc c (detect_curation_curve c db) full_list (comment_votes_of c db) = Inr (ws, h)"
    and ci: "ci = \<lparr>cci_vote_list = sort_by heavier ws, cci_total_vote_weight = cwh_total_vote_weight h,
          cci_auction_window_weight = cwh_auction_window_weight h,
          cci_votes_in_auction_window_weight = cwh_votes_in_auction_window_weight h,
          cci_votes_after_auction_window_weight =
            (cwh_total_vote_weight h - cwh_votes_in_auction_window_weight h - cwh_auction_window_weight h) mod 2 ^ 64,
          cci_curve = detect_curation_curve c db\<rparr>"
    using assms(3) by (auto simp: mk_comment_curation_info_def Let_def split: prod.splits)
  note ex = weigh_votes_any_curve [OF assms(1,2) w]
  have parts: "0 \<le> weights_total (filter P ws)" for P
    using ex by (intro weights_total_nonneg) (auto simp: exact_weights_def)
  let ?after = "weights_total (filter (\<lambda>x. \<not> in_window c x) ws)"
  have "cwh_total_vote_weight h - cwh_votes_in_auction_window_weight h - cwh_auction_window_weight h = ?after"
    using ex weights_total_split [of ws "in_window c"] by (simp add: exact_weights_def)
  moreover have "?after mod 2 ^ 64 = ?after"
    using parts [of "\<lambda>x. \<not> in_window c x"] parts [of "in_window c"] ex weights_total_split [of ws "in_window c"]
    by (intro mod_pos_pos_trivial) (auto simp: exact_weights_def)
  moreover have "weights_total (sort_by heavier ws) = weights_total ws"
    using weights_total_filter_sort [of "\<lambda>_. True"] by simp
  ultimately show ?thesis
    using ex unfolding ci by (simp add: info_exact_def exact_weights_def weights_total_filter_sort)
qed

end
