(* ===== verification/Reward_Conservation.thy ===== *)
theory Reward_Conservation
  imports Curation Comment_Conservation Funds_Frame
begin

text \<open>
  The payout of comments conserves tokens: what a comment claims from the reward fund is what
  curators, delegators, beneficiaries and the author get, and what is not claimed returns to the
  fund or goes to the author. The shares of the curators never exceed what is meant for them,
  because the weights of the votes add up (theory \<open>Curation\<close>).
\<close>

section \<open>Views\<close>

context funds_frame
begin

lemma create_sbd_post [intro!]:
  "view db = v \<Longrightarrow> (\<And>x db'. view db' = v \<Longrightarrow> P (x, db')) \<Longrightarrow> post P (create_sbd fc n a db)"
  by (rule step_post2 [where v = v]) (auto simp: create_sbd_def Let_def intro!: post_states post_values)

lemma grow_delegation_post [intro!]:
  "view db = v \<Longrightarrow> (\<And>db'. view db' = v \<Longrightarrow> P db') \<Longrightarrow> post P (grow_delegation fc n m a db)"
  by (rule step_post [where v = v]) (auto simp: grow_delegation_def Let_def intro!: post_states post_values)

end

section \<open>Payments\<close>

text \<open>Inversion of a run without the simplifier, which would compute powers of two.\<close>

lemmas inverted = bindR_eq_Inr split_paired_Ex case_prod_conv sum.inject prod.inject


text \<open>What payments leave alone: comments, votes and everything that decides how votes are weighed.\<close>

definition payout_view :: "database \<Rightarrow> comment_object list \<times> comment_vote_object list \<times> witness_schedule_object \<times>
   nat \<times> dynamic_global_property_object" where
  "payout_view db = (db_comments db, db_comment_votes db, db_schedule db, db_processed_hardforks db, dgp_funds (db_dgp db))"

interpretation payout: funds_frame payout_view
  by unfold_locales (simp_all add: payout_view_def)

definition pays :: "database \<Rightarrow> database \<Rightarrow> int \<Rightarrow> bool" where
  "pays db db' x \<longleftrightarrow> moves db db' (- x) 0 0 \<and> payout_view db' = payout_view db"

lemma pays_ok: "pays db db' x \<Longrightarrow> ledger_ok db'"
  by (auto simp: pays_def intro: moves_ok)

lemma pays_refl: "ledger_ok db \<Longrightarrow> pays db db 0"
  by (simp add: pays_def moves_refl)

lemma pays_after:
  assumes "pays db db1 x" "ledger_ok db1 \<Longrightarrow> pays db1 db2 y" "z = x + y"
  shows "pays db db2 z"
  using assms moves_after [of db db1 "- x" 0 0 db2 "- y" 0 0] by (auto simp: pays_def dest: moves_ok)

lemma pays_push [simp]: "pays db (push_virtual_operation v db') x = pays db db' x"
  by (simp add: pays_def)

lemma pays_modify:
  assumes "ledger_ok db" "modify_account n f db = Inr db'" "\<And>a a'. f a = Inr a' \<Longrightarrow> credited a a' 0 0"
  shows "pays db db' 0"
  using modify_account_neutral [OF assms] postD [OF payout.modify_account_post [OF refl, of db] assms(2)]
  by (simp add: pays_def)

lemma create_vesting_pays:
  assumes "fc_safe fc" "ledger_ok db" "create_vesting fc n a db = Inr (v, db')"
  shows "pays db db' (amount a)"
  using create_vesting_moves [OF assms] payout.create_vesting_post [OF refl, of db "\<lambda>(v, x). payout_view x = payout_view db" fc n a]
    assms(3) by (simp add: pays_def post_def)

lemma create_sbd_moves:
  assumes "fc_safe fc" "ledger_ok db" "create_sbd fc n a db = Inr (p, db')" "symbol a = STEEM_SYMBOL"
  shows "moves db db' (- amount a) 0 0"
proof (cases "amount a = 0")
  case True
  then show ?thesis using assms by (auto simp: create_sbd_def Let_def moves_refl)
next
  case False
  show ?thesis
  proof (cases "price_is_null fc (fho_current_median_history (db_feed db))")
    case True
    then show ?thesis
      using False assms adjust_balance_moves [OF assms(1,2), of n a]
      by (auto simp: create_sbd_def Let_def amt_def SBD_SYMBOL_def STEEM_SYMBOL_def)
  next
    case nonnull: False
    obtain x y sbd db1 db2 db3 where run: "y = amount a - x" "adjust_balance fc n sbd db = Inr db1"
      "adjust_balance fc n \<lparr>amount = y, symbol = STEEM_SYMBOL\<rparr> db1 = Inr db2"
      "adjust_supply fc \<lparr>amount = - x, symbol = STEEM_SYMBOL\<rparr> False db2 = Inr db3"
      "adjust_supply fc sbd False db3 = Inr db'"
      using assms False nonnull by (auto simp: create_sbd_def Let_def fc_simps)
    have m1: "moves db db1 (- amt STEEM_SYMBOL sbd) (- amt SBD_SYMBOL sbd) 0"
      using adjust_balance_moves [OF assms(1,2) run(2)] by blast
    have m2: "moves db1 db2 (- y) 0 0"
      using adjust_balance_moves [OF assms(1) moves_ok [OF m1] run(3)] by (simp add: amt_def SBD_SYMBOL_def STEEM_SYMBOL_def)
    have m3: "moves db2 db3 (- x) 0 0"
      using adjust_supply_moves [OF assms(1) moves_ok [OF m2] run(4)] by (simp add: amt_def SBD_SYMBOL_def STEEM_SYMBOL_def)
    note m4 = adjust_supply_moves [OF assms(1) moves_ok [OF m3] run(5)]
    from moves_trans [OF moves_trans [OF moves_trans [OF m1 m2] m3] m4] show ?thesis
      by (rule moves_cast) (simp_all add: run(1))
  qed
qed

lemma create_sbd_pays:
  assumes "fc_safe fc" "ledger_ok db" "create_sbd fc n a db = Inr (p, db')" "symbol a = STEEM_SYMBOL"
  shows "pays db db' (amount a)"
  using create_sbd_moves [OF assms] payout.create_sbd_post [OF refl, of db "\<lambda>(v, x). payout_view x = payout_view db" fc n a]
    assms(3) by (simp add: pays_def post_def)

text \<open>The counters of rewards are not balances.\<close>

definition reward_counter :: "((int \<Rightarrow> int) \<Rightarrow> account_object \<Rightarrow> account_object) \<Rightarrow> bool" where
  "reward_counter upd \<longleftrightarrow> (\<forall>f a. credited a (upd f a) 0 0)"

lemma reward_counters [simp]:
  "reward_counter acc_delegation_rewards_update" "reward_counter acc_curation_rewards_update"
  "reward_counter acc_benefaction_rewards_update" "reward_counter acc_posting_rewards_update"
  by (simp_all add: reward_counter_def credited_def)

lemma add_rewards_pays:
  assumes "ledger_ok db" "add_rewards fc get upd x n db = Inr db'" "reward_counter upd"
  shows "pays db db' 0"
  using pays_modify [OF assms(1) assms(2) [unfolded add_rewards_def]] assms(3)
  by (auto simp: reward_counter_def)

lemma grow_delegation_pays:
  assumes "ledger_ok db" "grow_delegation fc n m a db = Inr db'"
  shows "pays db db' 0"
proof -
  have "moves db db' 0 0 0"
  proof (cases "find_by vdo_key (m, n) (db_delegations db)")
    case None
    then show ?thesis using assms by (simp add: grow_delegation_def moves_refl)
  next
    case (Some d)
    then obtain db1 db2 ds where run: "modify_account m (add_delegated fc a) db = Inr db1"
      "modify_account n (add_received fc a) db1 = Inr db2" "db' = db2\<lparr>db_delegations := ds\<rparr>"
      using assms(2) by (auto simp: grow_delegation_def)
    have "moves db db1 0 0 0" by (rule neutral_after [OF moves_refl [OF assms(1)] run(1) add_delegated_credited])
    then have "moves db db2 0 0 0" by (rule neutral_after [OF _ run(2) add_received_credited])
    then show ?thesis by (simp add: run(3))
  qed
  then show ?thesis
    using postD [OF payout.grow_delegation_post [OF refl, of db] assms(2)] by (simp add: pays_def)
qed

section \<open>Delegators and curators\<close>

definition rate_total :: "delegator_vote_interest_rate list \<Rightarrow> int" where
  "rate_total rs = (\<Sum>r\<leftarrow>rs. int (dvir_interest_rate r))"

lemma rate_total_simps [simp]: "rate_total [] = 0" "rate_total (r # rs) = int (dvir_interest_rate r) + rate_total rs"
  by (simp_all add: rate_total_def)

lemma rate_total_nonneg [simp]: "0 \<le> rate_total rs"
  by (induction rs) simp_all

text \<open>A delegator gets at most the part of the claim that the rate names.\<close>

lemma delegator_claim_le:
  fixes claim :: int
  assumes "0 \<le> claim"
  shows "0 \<le> (claim * int r) mod 2 ^ 64 div INT_100_PERCENT"
    "(claim * int r) mod 2 ^ 64 div INT_100_PERCENT * INT_100_PERCENT \<le> claim * int r"
proof -
  have "0 \<le> claim * int r" using assms by simp
  then have "(claim * int r) mod 2 ^ 64 \<le> claim * int r" by (rule zmod_le_nonneg_dividend)
  moreover have "(claim * int r) mod 2 ^ 64 div INT_100_PERCENT * INT_100_PERCENT \<le> (claim * int r) mod 2 ^ 64"
    by (rule div_mult_le_int) (simp add: INT_100_PERCENT_def)
  ultimately show "(claim * int r) mod 2 ^ 64 div INT_100_PERCENT * INT_100_PERCENT \<le> claim * int r" by linarith
  show "0 \<le> (claim * int r) mod 2 ^ 64 div INT_100_PERCENT"
    by (simp add: INT_100_PERCENT_def pos_imp_zdiv_nonneg_iff)
qed

lemma pay_delegator_pays:
  assumes "fc_safe fc" "ledger_ok db" "0 \<le> claim" "claim < 2 ^ 63" "0 \<le> acc"
    "acc * INT_100_PERCENT + claim * int (dvir_interest_rate r) \<le> claim * INT_100_PERCENT"
    "pay_delegator fc n claim r (acc, db) = Inr (acc', db')"
  shows "pays db db' (acc' - acc) \<and> acc \<le> acc' \<and>
    (acc' - acc) * INT_100_PERCENT \<le> claim * int (dvir_interest_rate r)"
proof -
  let ?d = "(claim * int (dvir_interest_rate r)) mod 2 ^ 64 div INT_100_PERCENT"
  note d = delegator_claim_le [OF assms(3), of "dvir_interest_rate r"]
  have "(acc + ?d) * INT_100_PERCENT \<le> claim * INT_100_PERCENT" using d(2) assms(6) by (simp add: algebra_simps)
  then have le: "acc + ?d \<le> claim" by (simp add: INT_100_PERCENT_def)
  then have dlt: "?d < 2 ^ 63" "acc + ?d < 2 ^ 63" using assms(4,5) by linarith+
  have fits: "safe_of_u64 fc ?d = ?d" using safe_of_u64_id [OF assms(1) d(1) dlt(1)] .
  have noskip: "(acc + ?d) mod 2 ^ 64 = acc + ?d"
    by (rule mod_pos_pos_trivial) (use d(1) dlt(2) assms(5) in auto)
  show ?thesis
  proof (cases "dvir_interest_rate r > STEEMIT_100_PERCENT \<or> ?d = 0")
    case True
    then have "acc' = acc" "db' = db" using assms(7) by (auto simp: pay_delegator_def Let_def)
    then show ?thesis using assms(2,3) pays_refl by simp
  next
    case False
    obtain m v db1 db2 op where run: "create_vesting fc m \<lparr>amount = ?d, symbol = STEEM_SYMBOL\<rparr> db = Inr (v, db1)"
      "(if dvir_payout_strategy r = to_delegated_vesting then grow_delegation fc n (dvir_account r) v db1 else Inr db1) = Inr db2"
      "add_rewards fc acc_delegation_rewards acc_delegation_rewards_update ?d m (push_virtual_operation op db2) = Inr db'"
      "acc' = acc + ?d"
      using assms(7)
      unfolding pay_delegator_def Let_def case_prod_conv if_not_P [OF False] fits noskip inverted
      by (elim exE conjE) (rule that, assumption, assumption, erule subst, assumption, erule sym)
    have p1: "pays db db1 ?d" using create_vesting_pays [OF assms(1,2) run(1)] by simp
    have "pays db db2 ?d"
      using run(2) p1 pays_after [OF p1, of db2 0] grow_delegation_pays by (auto split: if_split_asm)
    then have "pays db (push_virtual_operation op db2) ?d" by simp
    then have "pays db db' ?d"
      by (rule pays_after [of _ _ _ _ 0]) (auto intro: add_rewards_pays [OF _ run(3)])
    then show ?thesis using run(4) d by simp
  qed
qed

lemma pay_delegators_loop:
  assumes "fc_safe fc" "0 \<le> claim" "claim < 2 ^ 63"
  shows "foldR (pay_delegator fc n claim) rs (acc, db) = Inr (acc', db') \<Longrightarrow> ledger_ok db \<Longrightarrow> 0 \<le> acc \<Longrightarrow>
    acc * INT_100_PERCENT + claim * rate_total rs \<le> claim * INT_100_PERCENT \<Longrightarrow>
    pays db db' (acc' - acc) \<and> acc \<le> acc' \<and> acc' \<le> claim"
proof (induction rs arbitrary: acc db)
  case Nil
  then show ?case by (auto simp: pays_refl INT_100_PERCENT_def)
next
  case (Cons r rs)
  obtain acc1 db1 where one: "pay_delegator fc n claim r (acc, db) = Inr (acc1, db1)"
    and rest: "foldR (pay_delegator fc n claim) rs (acc1, db1) = Inr (acc', db')"
    using Cons.prems(1) by auto
  have room: "acc * INT_100_PERCENT + claim * int (dvir_interest_rate r) + claim * rate_total rs \<le> claim * INT_100_PERCENT"
    using Cons.prems(4) by (simp add: algebra_simps)
  moreover have "0 \<le> claim * rate_total rs" using assms(2) by simp
  ultimately have first: "pays db db1 (acc1 - acc) \<and> acc \<le> acc1 \<and>
      (acc1 - acc) * INT_100_PERCENT \<le> claim * int (dvir_interest_rate r)"
    using pay_delegator_pays [OF assms(1) Cons.prems(2) assms(2,3) Cons.prems(3) _ one] by linarith
  have "acc1 * INT_100_PERCENT + claim * rate_total rs \<le> claim * INT_100_PERCENT"
    using first room by (simp add: left_diff_distrib)
  with Cons.IH [OF rest] first Cons.prems(3) have "pays db1 db' (acc' - acc1) \<and> acc1 \<le> acc' \<and> acc' \<le> claim"
    by (auto dest: pays_ok)
  then show ?case using first pays_after [of db db1 "acc1 - acc" db' "acc' - acc1"] by auto
qed

definition rates_sound :: "comment_vote_object \<Rightarrow> bool" where
  "rates_sound v \<longleftrightarrow> rate_total (cmv_delegator_vote_interest_rates v) \<le> INT_100_PERCENT"

lemma pay_delegators_pays:
  assumes "fc_safe fc" "ledger_ok db" "0 \<le> claim" "claim < 2 ^ 63" "rates_sound v"
    "pay_delegators fc n v claim db = Inr (d, db')"
  shows "pays db db' d \<and> 0 \<le> d \<and> d \<le> claim"
proof -
  have "claim * rate_total (cmv_delegator_vote_interest_rates v) \<le> claim * INT_100_PERCENT"
    using assms(3,5) by (intro mult_left_mono) (auto simp: rates_sound_def)
  then show ?thesis
    using pay_delegators_loop [OF assms(1,3,4) assms(6) [unfolded pay_delegators_def] assms(2)] by simp
qed

lemma pay_curator_pays:
  assumes "fc_safe fc" "ledger_ok db" "0 \<le> claim" "claim < 2 ^ 63" "rates_sound v"
    "pay_curator fc v claim n l db = Inr (x, db')"
  shows "pays db db' claim \<and> 0 \<le> x \<and> x \<le> claim"
proof -
  obtain voter :: account_object and d db1 r db2 op where run:
    "(if has_hardfork 19 db then pay_delegators fc (acc_name voter) v claim db else Inr (0, db)) = Inr (d, db1)"
    "create_vesting fc (acc_name voter) \<lparr>amount = safe_of_u64 fc ((claim - d) mod 2 ^ 64), symbol = STEEM_SYMBOL\<rparr> db1 = Inr (r, db2)"
    "add_rewards fc acc_curation_rewards acc_curation_rewards_update (safe_of_u64 fc ((claim - d) mod 2 ^ 64)) (acc_name voter)
       (push_virtual_operation op db2) = Inr db'" "x = (claim - d) mod 2 ^ 64"
    using assms(6) unfolding pay_curator_def Let_def inverted
    by (elim exE conjE) (rule that, assumption, assumption, erule subst, assumption, erule sym)
  have p1: "pays db db1 d \<and> 0 \<le> d \<and> d \<le> claim"
    using run(1) pay_delegators_pays [OF assms(1-5)] pays_refl [OF assms(2)] assms(3) by (auto split: if_split_asm)
  then have c: "(claim - d) mod 2 ^ 64 = claim - d" using assms(4) by (intro mod_pos_pos_trivial) auto
  have f: "safe_of_u64 fc (claim - d) = claim - d" using safe_of_u64_id [OF assms(1)] p1 assms(4) by auto
  have "pays db1 db2 (claim - d)"
    using create_vesting_pays [OF assms(1) _ run(2)] pays_ok p1 unfolding c f by auto
  then have "pays db (push_virtual_operation op db2) claim" using p1 pays_after [of db db1 d db2 "claim - d" claim] by simp
  then have "pays db db' claim"
    by (rule pays_after [of _ _ _ _ 0]) (auto intro: add_rewards_pays [OF _ run(3)])
  then show ?thesis using p1 run(4) unfolding c by simp
qed

section \<open>The budget of the curators\<close>

lemma u128_of_small: "fc_u128 fc \<Longrightarrow> 0 \<le> x \<Longrightarrow> x < 2 ^ 64 \<Longrightarrow> u128_of fc x = x"
  by (simp add: u128_ops(1) mod_pos_pos_trivial)

text \<open>The claim of a vote without wrap-around, and the sum of all claims.\<close>

definition claim_of :: "comment_curation_info \<Rightarrow> comment_object \<Rightarrow> int \<Rightarrow> comment_vote_object \<times> int \<Rightarrow> int" where
  "claim_of ci c m x = m * snd x div cci_total_vote_weight ci +
     (if after_window c (fst x) \<and> cci_votes_after_auction_window_weight ci \<noteq> 0
      then (m * cci_auction_window_weight ci div cci_total_vote_weight ci) * snd x div cci_votes_after_auction_window_weight ci
      else 0)"

definition claims :: "comment_curation_info \<Rightarrow> comment_object \<Rightarrow> int \<Rightarrow> (comment_vote_object \<times> int) list \<Rightarrow> int" where
  "claims ci c m xs = (\<Sum>x\<leftarrow>xs. claim_of ci c m x)"

lemma claims_simps [simp]: "claims ci c m [] = 0" "claims ci c m (x # xs) = claim_of ci c m x + claims ci c m xs"
  by (simp_all add: claims_def)

lemma pro_rata_sum:
  assumes "0 < t" "0 \<le> m"
  shows "(\<Sum>x\<leftarrow>xs. m * snd x div t) * t \<le> m * weights_total xs"
proof (induction xs)
  case (Cons x xs)
  have "m * snd x div t * t \<le> m * snd x" using assms(1) by (rule div_mult_le_int)
  then show ?case using Cons by (simp add: algebra_simps)
qed simp

lemma claims_split:
  "claims ci c m xs = (\<Sum>x\<leftarrow>xs. m * snd x div cci_total_vote_weight ci) +
    (if cci_votes_after_auction_window_weight ci = 0 then 0
     else \<Sum>x\<leftarrow>filter (\<lambda>x. after_window c (fst x)) xs.
       (m * cci_auction_window_weight ci div cci_total_vote_weight ci) * snd x div cci_votes_after_auction_window_weight ci)"
  by (induction xs) (auto simp: claim_of_def)

lemma weights_total_mono:
  assumes "\<forall>x \<in> set xs. 0 \<le> snd x" "\<And>x. P x \<Longrightarrow> Q x"
  shows "weights_total (filter P xs) \<le> weights_total (filter Q xs)"
  using assms(1) by (induction xs) (auto simp: assms(2))

text \<open>Whatever the weights are, the claims of all votes together stay within the budget.\<close>

lemma claims_within_budget:
  assumes "info_exact c ci" "0 < cci_total_vote_weight ci" "0 \<le> m"
  shows "claims ci c m (cci_vote_list ci) \<le> m"
proof -
  let ?t = "cci_total_vote_weight ci" and ?a = "cci_votes_after_auction_window_weight ci"
    and ?w = "cci_auction_window_weight ci" and ?l = "cci_vote_list ci"
  let ?r = "m * ?w div ?t"
  have w: "\<forall>x \<in> set ?l. 0 \<le> snd x" "0 \<le> ?w" "?t = weights_total ?l + ?w"
    "?a = weights_total (filter (\<lambda>x. \<not> in_window c x) ?l)"
    using assms(1) by (auto simp: info_exact_def)
  have r: "0 \<le> ?r" "?r * ?t \<le> m * ?w"
    using assms(2,3) w(2) div_mult_le_int [OF assms(2)] by (auto simp: pos_imp_zdiv_nonneg_iff)
  let ?s = "\<Sum>x\<leftarrow>filter (\<lambda>x. after_window c (fst x)) ?l. ?r * snd x div ?a"
  have "?s \<le> ?r" if "?a \<noteq> 0"
  proof -
    have a: "0 < ?a" using that weights_total_nonneg [of "filter (\<lambda>x. \<not> in_window c x) ?l"] w(1,4) by auto
    have "?s * ?a \<le> ?r * weights_total (filter (\<lambda>x. after_window c (fst x)) ?l)" by (rule pro_rata_sum [OF a r(1)])
    also have "\<dots> \<le> ?r * ?a"
      unfolding w(4) using w(1) r(1)
      by (intro mult_left_mono weights_total_mono) (auto simp: after_window_def in_window_def)
    finally show ?thesis using a by simp
  qed
  then have "claims ci c m ?l \<le> (\<Sum>x\<leftarrow>?l. m * snd x div ?t) + ?r" using r(1) by (simp add: claims_split)
  then have "claims ci c m ?l * ?t \<le> ((\<Sum>x\<leftarrow>?l. m * snd x div ?t) + ?r) * ?t"
    using assms(2) by (intro mult_right_mono) auto
  also have "\<dots> \<le> m * weights_total ?l + m * ?w"
    using pro_rata_sum [OF assms(2,3), of ?l] r(2) by (simp add: distrib_right)
  also have "\<dots> = m * ?t" by (simp add: w(3) distrib_left)
  finally show ?thesis using assms(2) by simp
qed

lemma weight_le_total:
  assumes "\<forall>x \<in> set xs. 0 \<le> snd x" "x \<in> set xs"
  shows "snd x \<le> weights_total xs"
  using assms
proof (induction xs)
  case (Cons y ys)
  then show ?case using weights_total_nonneg [of ys] by auto
qed simp

lemma curator_claim_exact:
  assumes "fc_u128 fc" "info_exact c ci" "0 < cci_total_vote_weight ci" "0 \<le> m" "m < 2 ^ 63" "(v, w) \<in> set (cci_vote_list ci)"
  shows "curator_claim fc ci c m (m * cci_auction_window_weight ci div cci_total_vote_weight ci) v w = Inr (claim_of ci c m (v, w))"
    "0 \<le> claim_of ci c m (v, w)"
proof -
  let ?t = "cci_total_vote_weight ci" and ?a = "cci_votes_after_auction_window_weight ci"
    and ?aw = "cci_auction_window_weight ci" and ?l = "cci_vote_list ci"
  let ?r = "m * ?aw div ?t"
  have i: "\<forall>x \<in> set ?l. 0 \<le> snd x" "0 \<le> ?aw" "?t = weights_total ?l + ?aw" "?t < 2 ^ 64"
    "?a = weights_total (filter (\<lambda>x. \<not> in_window c x) ?l)"
    using assms(2) by (auto simp: info_exact_def)
  have m64: "m < 2 ^ 64" using assms(5) by simp
  have w: "0 \<le> w" "w \<le> ?t" using i weight_le_total [OF i(1) assms(6)] assms(6) by auto
  have "0 \<le> weights_total ?l" using weights_total_nonneg i(1) by blast
  then have aw: "?aw \<le> ?t" using i(3) by linarith
  note share = pro_rata [OF assms(1,4) m64 w assms(3) i(4)]
  note window = pro_rata [OF assms(1,4) m64 i(2) aw assms(3) i(4)]
  show nonneg: "0 \<le> claim_of ci c m (v, w)"
    using share(3) window(3) w(1) weights_total_nonneg [of "filter (\<lambda>x. \<not> in_window c x) ?l"] i(1,5)
    by (auto simp: claim_of_def pos_imp_zdiv_nonneg_iff)
  show "curator_claim fc ci c m ?r v w = Inr (claim_of ci c m (v, w))"
  proof (cases "after_window c v \<and> ?a \<noteq> 0")
    case False
    then show ?thesis
      unfolding curator_claim_def share(1) bindR_Inr share(2) if_not_P [OF False] by (auto simp: claim_of_def)
  next
    case True
    have "(v, w) \<in> set (filter (\<lambda>x. \<not> in_window c x) ?l)" using True assms(6) by (simp add: after_window_def in_window_def)
    then have wa: "w \<le> ?a" using weight_le_total [of "filter (\<lambda>x. \<not> in_window c x) ?l" "(v, w)"] i(1,5) by auto
    have rest: "0 < ?a" using wa w(1) True by linarith
    have "?a \<le> weights_total (filter (\<lambda>_. True) ?l)" unfolding i(5) using i(1) by (rule weights_total_mono) simp
    then have a64: "?a < 2 ^ 64" using i(2-4) by simp
    have r64: "?r < 2 ^ 64" using window(4) m64 by linarith
    note after = pro_rata [OF assms(1) window(3) r64 w(1) wa rest a64]
    note of_r = u128_of_small [OF assms(1) window(3) r64]
    have "(m * w div ?t + ?r * w div ?a) mod 2 ^ 64 = m * w div ?t + ?r * w div ?a"
      by (rule mod_pos_pos_trivial) (use share(3,4) after(3,4) window(4) assms(5) in auto)
    then show ?thesis
      unfolding curator_claim_def share(1) bindR_Inr share(2) if_P [OF True] after(1) [unfolded of_r] after(2)
      using True by (simp add: claim_of_def)
  qed
qed

lemma pay_votes_pays:
  assumes "fc_num fc" "info_exact c ci" "0 < cci_total_vote_weight ci" "0 \<le> m" "m < 2 ^ 63"
  shows "pay_votes fc ci c m (m * cci_auction_window_weight ci div cci_total_vote_weight ci) xs hv unclaimed actual db =
      Inr (hv', unclaimed', actual', db') \<Longrightarrow> ledger_ok db \<Longrightarrow> set xs \<subseteq> set (cci_vote_list ci) \<Longrightarrow>
    \<forall>x \<in> set xs. rates_sound (fst x) \<Longrightarrow> claims ci c m xs \<le> unclaimed \<Longrightarrow> unclaimed \<le> m \<Longrightarrow>
    pays db db' (unclaimed - unclaimed') \<and> 0 \<le> unclaimed' \<and> unclaimed' \<le> m \<and> (hv' = hv \<or> hv' \<in> Some ` fst ` set xs)"
proof (induction xs arbitrary: hv unclaimed actual db)
  case Nil
  then show ?case by (auto simp: pays_refl)
next
  case (Cons x xs)
  obtain v w where x: "x = (v, w)" by force
  have lib: "fc_safe fc" "fc_u128 fc" using assms(1) by (auto simp: fc_num_def)
  have "0 \<le> claim_of ci c m y" if "y \<in> set (x # xs)" for y
    using curator_claim_exact(2) [OF lib(2) assms(2-5), of "fst y" "snd y"] that Cons.prems(3) by auto
  moreover have "0 \<le> claims ci c m xs"
    using calculation unfolding claims_def by (intro sum_list_nonneg) auto
  ultimately have k: "0 \<le> claim_of ci c m x" "0 \<le> claims ci c m xs" by simp_all
  note claim = curator_claim_exact(1) [OF lib(2) assms(2-5), of v w]
  let ?k = "claim_of ci c m (v, w)" and ?r = "m * cci_auction_window_weight ci div cci_total_vote_weight ci"
  have run: "(if after_window c v \<and> hv = None then pay_votes fc ci c m ?r xs (Some v) unclaimed actual db
     else if ?k > 0 then
       bindR (safe_sub fc unclaimed (safe_of_u64 fc ?k)) (\<lambda>unclaimed.
       bindR (pay_curator fc v ?k (com_author c) (com_permlink c) db) (\<lambda>(paid, db).
       bindR (safe_add fc actual (safe_of_u64 fc paid)) (\<lambda>actual.
       pay_votes fc ci c m ?r xs hv unclaimed actual db)))
     else Inr (hv, unclaimed, actual, db)) = Inr (hv', unclaimed', actual', db')"
    using Cons.prems(1,3) claim by (simp add: x)
  consider (skip) "after_window c v" "hv = None" | (pay) "\<not> (after_window c v \<and> hv = None)" "?k > 0"
    | (stop) "\<not> (after_window c v \<and> hv = None)" "\<not> ?k > 0" by blast
  then show ?case
  proof cases
    case skip
    then have "pay_votes fc ci c m ?r xs (Some v) unclaimed actual db = Inr (hv', unclaimed', actual', db')" using run by simp
    from Cons.IH [OF this Cons.prems(2)] Cons.prems(3-6) k show ?thesis by (auto simp: x)
  next
    case pay
    have le: "?k \<le> unclaimed" "unclaimed < 2 ^ 63" using Cons.prems(5,6) k assms(5) by (auto simp: x)
    have fits: "safe_of_u64 fc ?k = ?k" using safe_of_u64_id [OF lib(1)] le pay(2) by auto
    obtain paid db1 actual1 where one: "pay_curator fc v ?k (com_author c) (com_permlink c) db = Inr (paid, db1)"
      and rest: "pay_votes fc ci c m ?r xs hv (unclaimed - ?k) actual1 db1 = Inr (hv', unclaimed', actual', db')"
      using run pay fits lib(1) by (auto simp: safe_sub_Inr split: prod.splits)
    have p1: "pays db db1 ?k"
      using pay_curator_pays [OF lib(1) Cons.prems(2) _ _ _ one] le pay(2) Cons.prems(4) by (auto simp: x)
    have "pays db1 db' (unclaimed - ?k - unclaimed') \<and> 0 \<le> unclaimed' \<and> unclaimed' \<le> m \<and> (hv' = hv \<or> hv' \<in> Some ` fst ` set xs)"
      using Cons.IH [OF rest pays_ok [OF p1]] Cons.prems(3-6) k by (auto simp: x)
    then show ?thesis using pays_after [OF p1, of db' "unclaimed - ?k - unclaimed'"] by auto
  next
    case stop
    then have "hv' = hv" "unclaimed' = unclaimed" "db' = db" using run by auto
    then show ?thesis using Cons.prems(2,5,6) k pays_refl by auto
  qed
qed

lemma return_to_fund_pays:
  assumes "fc_safe fc" "ledger_ok db" "return_to_fund fc x db = Inr db'"
  shows "pays db db' x"
proof -
  have f: "symbol (dgp_total_reward_fund_steem (db_dgp db)) = STEEM_SYMBOL"
    using ledger_ok_dgp_ok [OF assms(2)] by (simp add: dgp_ok_def)
  then have db': "db' = db\<lparr>db_dgp := (db_dgp db)\<lparr>dgp_total_reward_fund_steem :=
      \<lparr>amount = amount (dgp_total_reward_fund_steem (db_dgp db)) + x, symbol = STEEM_SYMBOL\<rparr>\<rparr>\<rparr>"
    using assms(1,3) by (auto simp: return_to_fund_def fc_simps)
  show ?thesis
    using assms(2) ledger_ok_dgp_ok [OF assms(2)] unfolding db' pays_def
    by (auto simp: moves_def gap_steem_def gap_sbd_def gap_vests_def dgp_ok_def payout_view_def dgp_funds_def intro!: ledger_ok_dgp)
qed

lemma pay_curators_pays:
  assumes "fc_num fc" "ledger_ok db" "info_exact c ci" "\<forall>x \<in> set (cci_vote_list ci). rates_sound (fst x)"
    "0 \<le> m" "m < 2 ^ 63" "pay_curators fc ci c m db = Inr (unclaimed, actual, db')"
  shows "pays db db' (m - unclaimed) \<and> 0 \<le> unclaimed \<and> unclaimed \<le> m"
proof -
  have lib: "fc_safe fc" "fc_u128 fc" using assms(1) by (auto simp: fc_num_def)
  let ?first = "if cci_total_vote_weight ci > 0 \<and> com_allow_curation_rewards c then
              bindR (u128_div fc (u128_mul fc (u128_of fc m) (u128_of fc (cci_auction_window_weight ci)))
                (u128_of fc (cci_total_vote_weight ci))) (\<lambda>awr.
              bindR (pay_votes fc ci c m awr (cci_vote_list ci) None m 0 db) (\<lambda>(heaviest, unclaimed, actual, db).
              case heaviest of
                Some v \<Rightarrow>
                  bindR (pay_curator fc v (unclaimed mod 2 ^ 64) (com_author c) (com_permlink c) db) (\<lambda>(paid, db).
                  Inr (0, safe_of_u64 fc paid, db))
              | None \<Rightarrow> Inr (unclaimed, actual, db)))
            else Inr (m, 0, db)"
  obtain u act db1 where first: "?first = Inr (u, act, db1)"
    and second: "(if \<not> com_allow_curation_rewards c then bindR (return_to_fund fc u db1) (\<lambda>db. Inr (0, act, db))
      else if com_auction_window_reward_destination c \<noteq> to_author \<and> u > 0 then
        bindR (return_to_fund fc u (push_virtual_operation (Auction_window_reward \<lparr>amount = u, symbol = STEEM_SYMBOL\<rparr>
             (com_author c) (com_permlink c)) db1)) (\<lambda>db. Inr (0, act, db))
      else Inr (u, act, db1)) = Inr (unclaimed, actual, db')"
    using assms(7) unfolding pay_curators_def Let_def inverted by (elim exE conjE) (rule that)
  have p1: "pays db db1 (m - u) \<and> 0 \<le> u \<and> u \<le> m"
  proof (cases "cci_total_vote_weight ci > 0 \<and> com_allow_curation_rewards c")
    case False
    then show ?thesis using first pays_refl [OF assms(2)] assms(5) by auto
  next
    case True
    let ?r = "m * cci_auction_window_weight ci div cci_total_vote_weight ci"
    have i: "0 \<le> cci_auction_window_weight ci" "cci_auction_window_weight ci \<le> cci_total_vote_weight ci" "cci_total_vote_weight ci < 2 ^ 64"
      using assms(3) weights_total_nonneg [of "cci_vote_list ci"] by (auto simp: info_exact_def)
    have "m < 2 ^ 64" using assms(6) by simp
    note window = pro_rata(1) [OF lib(2) assms(5) this i(1,2) conjunct1 [OF True] i(3)]
    obtain hv u1 act1 db2 where votes: "pay_votes fc ci c m ?r (cci_vote_list ci) None m 0 db = Inr (hv, u1, act1, db2)"
      and last: "(case hv of
                Some v \<Rightarrow>
                  bindR (pay_curator fc v (u1 mod 2 ^ 64) (com_author c) (com_permlink c) db2) (\<lambda>(paid, db).
                  Inr (0, safe_of_u64 fc paid, db))
              | None \<Rightarrow> Inr (u1, act1, db2)) = Inr (u, act, db1)"
      using first unfolding if_P [OF True] window bindR_Inr inverted by (elim exE conjE) (rule that)
    have p2: "pays db db2 (m - u1) \<and> 0 \<le> u1 \<and> u1 \<le> m \<and> (hv = None \<or> hv \<in> Some ` fst ` set (cci_vote_list ci))"
      using pay_votes_pays [OF assms(1,3) conjunct1 [OF True] assms(5,6) votes assms(2) subset_refl assms(4)
          claims_within_budget [OF assms(3) conjunct1 [OF True] assms(5)] order_refl] by simp
    show ?thesis
    proof (cases hv)
      case None
      then show ?thesis using last p2 by auto
    next
      case (Some v)
      have um: "u1 mod 2 ^ 64 = u1" using p2 assms(6) by (intro mod_pos_pos_trivial) auto
      obtain paid where cur: "pay_curator fc v u1 (com_author c) (com_permlink c) db2 = Inr (paid, db1)" and u: "u = 0"
        using last unfolding Some option.case um by (auto split: prod.splits)
      have "rates_sound v" using p2 Some assms(4) by auto
      from pay_curator_pays [OF lib(1) pays_ok [OF conjunct1 [OF p2]] _ _ this cur] p2 assms(6)
      have "pays db2 db1 u1" by auto
      then show ?thesis using p2 pays_after [of db db2 "m - u1" db1 u1 m] u assms(5) by auto
    qed
  qed
  have returned: "pays db db' m" if "return_to_fund fc u db2 = Inr db'" "pays db db2 (m - u)" for db2
    using pays_after [OF that(2) return_to_fund_pays [OF lib(1) _ that(1)]] by simp
  show ?thesis using second p1 returned assms(5) by (auto split: if_split_asm)
qed

section \<open>The division of a reward\<close>

lemma pay_beneficiary_pays:
  assumes "fc_safe fc" "ledger_ok db" "pay_beneficiary fc c a b (t, db) = Inr (t', db')"
  shows "pays db db' (t' - t)"
proof -
  obtain x v db1 op where run: "create_vesting fc (bnf_account b) \<lparr>amount = x, symbol = STEEM_SYMBOL\<rparr> db = Inr (v, db1)"
    "add_rewards fc acc_benefaction_rewards acc_benefaction_rewards_update x (bnf_account b) (push_virtual_operation op db1) = Inr db'"
    "safe_add fc t x = Inr t'"
    using assms(3) unfolding pay_beneficiary_def Let_def case_prod_conv inverted
    by (elim exE conjE) (rule that, assumption, erule subst, assumption, erule subst, assumption)
  have "pays db (push_virtual_operation op db1) x" using create_vesting_pays [OF assms(1,2) run(1)] by simp
  then have "pays db db' x" by (rule pays_after [of _ _ _ _ 0]) (auto intro: add_rewards_pays [OF _ run(2)])
  then show ?thesis using run(3) assms(1) by (simp add: safe_add_Inr)
qed

lemma pay_beneficiaries_pays:
  assumes "fc_safe fc"
  shows "foldR (pay_beneficiary fc c a) bs (t, db) = Inr (t', db') \<Longrightarrow> ledger_ok db \<Longrightarrow> pays db db' (t' - t)"
proof (induction bs arbitrary: t db)
  case (Cons b bs)
  obtain t1 db1 where one: "pay_beneficiary fc c a b (t, db) = Inr (t1, db1)"
    and rest: "foldR (pay_beneficiary fc c a) bs (t1, db1) = Inr (t', db')" using Cons.prems(1) by auto
  note p1 = pay_beneficiary_pays [OF assms Cons.prems(2) one]
  from pays_after [OF p1 Cons.IH [OF rest], of "t' - t"] show ?case by simp
qed (simp add: pays_refl)

lemma pay_author_pays:
  assumes "fc_safe fc" "ledger_ok db" "pay_author fc c r a db = Inr db'"
  shows "pays db db' a"
proof -
  obtain s v and author :: account_object and x y db1 db2 o1 o2 where run: "safe_sub fc a s = Inr v"
    "create_vesting fc (acc_name author) \<lparr>amount = v, symbol = STEEM_SYMBOL\<rparr> db = Inr (x, db1)"
    "create_sbd fc (acc_name author) \<lparr>amount = s, symbol = STEEM_SYMBOL\<rparr> db1 = Inr (y, db2)"
    "add_rewards fc acc_posting_rewards acc_posting_rewards_update a (com_author c)
       (push_virtual_operation o2 (push_virtual_operation o1 db2)) = Inr db'"
    using assms(3) unfolding pay_author_def Let_def inverted
    by (elim exE conjE) (rule that, assumption, assumption, assumption, assumption)
  note p1 = create_vesting_pays [OF assms(1,2) run(2)]
  note p2 = create_sbd_pays [OF assms(1) pays_ok [OF p1] run(3)]
  have "v = a - s" using run(1) assms(1) by (simp add: safe_sub_Inr)
  then have "pays db (push_virtual_operation o2 (push_virtual_operation o1 db2)) a"
    using pays_after [OF p1 p2, of a] by simp
  then show ?thesis by (rule pays_after [of _ _ _ _ 0]) (auto intro: add_rewards_pays [OF _ run(4)])
qed

definition payout_sound :: "comment_object \<Rightarrow> database \<Rightarrow> bool" where
  "payout_sound c db \<longleftrightarrow> votes_sound c db \<and> com_curation_rewards_percent c \<le> STEEMIT_100_PERCENT \<and>
     (\<forall>v \<in> set (comment_votes_of c db). rates_sound v)"

lemma distribute_reward_pays:
  assumes "fc_num fc" "ledger_ok db" "payout_sound c db" "0 \<le> r" "r < 2 ^ 63"
    "distribute_reward fc c r db = Inr (curve, db')"
  shows "pays db db' r \<and> curve = detect_curation_curve c db"
proof -
  have lib: "fc_safe fc" "fc_u128 fc" using assms(1) by (auto simp: fc_num_def)
  let ?p = "int (com_curation_rewards_percent c)"
  have r64: "r < 2 ^ 64" using assms(5) by simp
  have p: "0 \<le> ?p" "?p \<le> INT_100_PERCENT" "0 < INT_100_PERCENT" "INT_100_PERCENT < 2 ^ 64"
    using assms(3) by (auto simp: payout_sound_def INT_100_PERCENT_def STEEMIT_100_PERCENT_def)
  note share = pro_rata [OF lib(2) assms(4) r64 p]
  let ?x = "r * ?p div INT_100_PERCENT"
  have x63: "?x < 2 ^ 63" using share(4) assms(5) by linarith
  note fits = safe_of_u64_id [OF lib(1) share(3) x63] safe_of_u64_id [OF lib(1) assms(4,5)]
  obtain a ci u tc db1 a1 tb db2 a2 db3 op where run: "safe_sub fc r ?x = Inr a" "mk_comment_curation_info fc c False db = Inr ci"
    "pay_curators fc ci c ?x db = Inr (u, tc, db1)" "safe_add fc a u = Inr a1"
    "foldR (pay_beneficiary fc c a1) (com_beneficiaries c) (0, db1) = Inr (tb, db2)" "safe_sub fc a1 tb = Inr a2"
    "pay_author fc c r a2 db2 = Inr db3" "curve = cci_curve ci" "db' = push_virtual_operation op db3"
    using assms(6)
    unfolding distribute_reward_def Let_def share(1) [unfolded u128_of_small [OF lib(2) assms(4) r64]] bindR_Inr share(2)
      u128_ops(9) [OF lib(2) assms(4) r64] fits inverted
    by (elim exE conjE) (rule that; (assumption | erule sym))
  note info = mk_curation_info_exact [OF assms(1) _ run(2)]
  have "\<forall>x \<in> set (cci_vote_list ci). rates_sound (fst x)" "info_exact c ci"
    using info assms(3) by (auto simp: payout_sound_def)
  then have p1: "pays db db1 (?x - u)"
    using pay_curators_pays [OF assms(1,2) _ _ share(3) x63 run(3)] by blast
  have p2: "pays db1 db2 tb" using pay_beneficiaries_pays [OF lib(1) run(5) pays_ok [OF p1]] by simp
  have p12: "pays db db2 (?x - u + tb)" by (rule pays_after [OF p1 p2 refl])
  have "pays db db3 r"
    using pays_after [OF p12 pay_author_pays [OF lib(1) pays_ok [OF p12] run(7)]] run(1,4,6) lib(1)
    by (simp add: safe_sub_Inr safe_add_Inr)
  then show ?thesis using run(8,9) info assms(3) by (simp add: payout_sound_def)
qed

section \<open>The claim\<close>

text \<open>Taking the claim out of the reward fund opens a gap of that size.\<close>

lemma claim_rshare_reward_pays:
  assumes "fc_safe fc" "ledger_ok db" "0 \<le> dgp_total_reward_shares2 (db_dgp db)"
    "claim_rshare_reward fc rs w mx db = Inr (x, db')"
  shows "pays db db' (- x) \<and> 0 \<le> x \<and> x < 2 ^ 63"
proof -
  obtain payout dust f where run: "reward_payout fc rs w db = Inr payout"
    "safe_sub fc (amount (dgp_total_reward_fund_steem (db_dgp db)))
      (safe_of_u64 fc (min (if dust then 0 else payout) (amount mx mod 2 ^ 64))) = Inr f"
    "x = safe_of_u64 fc (min (if dust then 0 else payout) (amount mx mod 2 ^ 64))"
    "db' = db\<lparr>db_dgp := (db_dgp db)\<lparr>dgp_total_reward_fund_steem := (dgp_total_reward_fund_steem (db_dgp db))\<lparr>amount := f\<rparr>\<rparr>\<rparr>"
    using assms(4) unfolding claim_rshare_reward_def Let_def inverted
    by (elim exE conjE) (rule that; (assumption | erule sym))
  have "0 \<le> payout \<and> payout < 2 ^ 63"
  proof -
    obtain a b where "payout = a mod 2 ^ 256 div b" "b = dgp_total_reward_shares2 (db_dgp db)" "payout \<le> 2 ^ 63 - 1"
      using run(1) unfolding reward_payout_def Let_def inverted by (auto simp: inverted)
    then show ?thesis using assms(3) by (cases "b = 0") (auto simp: pos_imp_zdiv_nonneg_iff)
  qed
  moreover have "0 \<le> amount mx mod 2 ^ 64" by simp
  ultimately have b: "0 \<le> min (if dust then 0 else payout) (amount mx mod 2 ^ 64)"
    "min (if dust then 0 else payout) (amount mx mod 2 ^ 64) < 2 ^ 63"
    by (auto simp: min_def)
  have f: "f = amount (dgp_total_reward_fund_steem (db_dgp db)) - x" "0 \<le> x" "x < 2 ^ 63"
    using run(2,3) safe_of_u64_id [OF assms(1) b] b assms(1) by (simp_all add: safe_sub_Inr)
  show ?thesis
    using assms(2) ledger_ok_dgp_ok [OF assms(2)] f unfolding run(4) pays_def
    by (auto simp: moves_def gap_steem_def gap_sbd_def gap_vests_def dgp_ok_def payout_view_def dgp_funds_def intro!: ledger_ok_dgp)
qed

section \<open>What a payout needs, kept by payouts\<close>

text \<open>
  \<open>cashout_ready\<close>: every comment can be paid. \<open>settles\<close>: what payouts change of comments and
  votes does not matter for that; the mark that a vote may be removed is cleared in the comparison.
\<close>

definition cashout_ready :: "database \<Rightarrow> bool" where
  "cashout_ready db \<longleftrightarrow> 0 \<le> dgp_total_reward_shares2 (db_dgp db) \<and> (\<forall>c \<in> set (db_comments db). payout_sound c db)"

definition unmarked :: "comment_vote_object \<Rightarrow> comment_vote_object" where
  "unmarked v = v\<lparr>cmv_num_changes := 0\<rparr>"

definition same_terms :: "database \<Rightarrow> comment_object \<Rightarrow> database \<Rightarrow> comment_object \<Rightarrow> bool" where
  "same_terms db c db' c' \<longleftrightarrow> com_id c' = com_id c \<and> com_auction_window_size c' = com_auction_window_size c \<and>
     com_curation_rewards_percent c' = com_curation_rewards_percent c \<and>
     detect_curation_curve c' db' = detect_curation_curve c db"

definition settles :: "database \<Rightarrow> database \<Rightarrow> bool" where
  "settles db db' \<longleftrightarrow> (\<forall>c' \<in> set (db_comments db'). \<exists>c \<in> set (db_comments db). same_terms db c db' c') \<and>
     map unmarked (db_comment_votes db') = map unmarked (db_comment_votes db) \<and>
     db_schedule db' = db_schedule db \<and> db_processed_hardforks db' = db_processed_hardforks db \<and>
     (0 \<le> dgp_total_reward_shares2 (db_dgp db) \<longrightarrow> 0 \<le> dgp_total_reward_shares2 (db_dgp db'))"

lemma settles_refl: "settles db db"
  by (auto simp: settles_def same_terms_def)

lemma settles_trans: "settles db db1 \<Longrightarrow> settles db1 db2 \<Longrightarrow> settles db db2"
  unfolding settles_def same_terms_def by metis

lemma detect_cong:
  "db_schedule db' = db_schedule db \<Longrightarrow> db_processed_hardforks db' = db_processed_hardforks db \<Longrightarrow>
   detect_curation_curve c db' = detect_curation_curve c db"
  by (simp add: detect_curation_curve_def has_hardfork_def)

lemma detect_frame [simp]:
  "detect_curation_curve c (set_comment d db) = detect_curation_curve c db"
  "detect_curation_curve c (db\<lparr>db_dgp := p\<rparr>) = detect_curation_curve c db"
  "detect_curation_curve c (db\<lparr>db_comment_votes := vs\<rparr>) = detect_curation_curve c db"
  "detect_curation_curve c (push_virtual_operation op db) = detect_curation_curve c db"
  by (rule detect_cong; simp add: set_comment_def push_virtual_operation_def)+

lemma pays_settles: "pays db db' x \<Longrightarrow> settles db db'"
proof -
  assume "pays db db' x"
  then have v: "db_comments db' = db_comments db" "db_comment_votes db' = db_comment_votes db"
    "db_schedule db' = db_schedule db" "db_processed_hardforks db' = db_processed_hardforks db"
    "dgp_funds (db_dgp db') = dgp_funds (db_dgp db)" by (auto simp: pays_def payout_view_def)
  have "dgp_total_reward_shares2 (dgp_funds (db_dgp d)) = dgp_total_reward_shares2 (db_dgp d)" for d by (simp add: dgp_funds_def)
  then have "dgp_total_reward_shares2 (db_dgp db') = dgp_total_reward_shares2 (db_dgp db)" using v(5) by metis
  then show ?thesis using v detect_cong [OF v(3,4)] by (auto simp: settles_def same_terms_def)
qed

lemma sort_by_map:
  assumes "\<And>a b. lt (f a) (f b) = lt a b"
  shows "sort_by lt (map f xs) = map f (sort_by lt xs)"
proof -
  have ins: "insert_by lt (f x) (map f ys) = map f (insert_by lt x ys)" for x ys
    by (induction ys) (auto simp: assms)
  show ?thesis by (induction xs) (auto simp: ins)
qed

lemma unmarked_votes: "map unmarked (comment_votes_of c db) =
  sort_by (\<lambda>a b. cmv_id a < cmv_id b) (filter (\<lambda>v. cmv_comment v = com_id c) (map unmarked (db_comment_votes db)))"
  unfolding comment_votes_of_def
  by (subst sort_by_map [symmetric]) (auto simp: unmarked_def filter_map comp_def)

lemma unmarked_fields [simp]:
  "cmv_auction_time (unmarked v) = cmv_auction_time v" "cmv_rshares (unmarked v) = cmv_rshares v"
  "earns (unmarked v) = earns v" "rates_sound (unmarked v) = rates_sound v"
  by (simp_all add: unmarked_def earns_def rates_sound_def)

lemma votes_by_fields:
  assumes "map unmarked vs = map unmarked us"
  shows "(\<forall>v \<in> set vs. cmv_auction_time v \<le> n) = (\<forall>v \<in> set us. cmv_auction_time v \<le> n)"
    "(\<forall>v \<in> set vs. rates_sound v) = (\<forall>v \<in> set us. rates_sound v)" "linear_sound vs = linear_sound us"
proof -
  have all: "(\<forall>v \<in> set vs. P (unmarked v)) = (\<forall>v \<in> set us. P (unmarked v))" for P
  proof -
    have "(\<forall>v \<in> set xs. P (unmarked v)) = list_all P (map unmarked xs)" for xs by (simp add: list_all_iff)
    then show ?thesis using assms by metis
  qed
  show "(\<forall>v \<in> set vs. cmv_auction_time v \<le> n) = (\<forall>v \<in> set us. cmv_auction_time v \<le> n)"
    using all [of "\<lambda>v. cmv_auction_time v \<le> n"] by simp
  show "(\<forall>v \<in> set vs. rates_sound v) = (\<forall>v \<in> set us. rates_sound v)" using all [of rates_sound] by simp
  have "linear_sum (map unmarked xs) = linear_sum xs" for xs by (induction xs) (auto simp: linear_sum_def)
  then have "linear_sum vs = linear_sum us" using assms by metis
  then show "linear_sound vs = linear_sound us"
    using all [of "\<lambda>v. earns v \<longrightarrow> 0 \<le> cmv_rshares v"] by (simp add: linear_sound_def)
qed

lemma settles_ready:
  assumes "cashout_ready db" "settles db db'"
  shows "cashout_ready db'"
  unfolding cashout_ready_def
proof (intro conjI ballI)
  show "0 \<le> dgp_total_reward_shares2 (db_dgp db')" using assms by (auto simp: cashout_ready_def settles_def)
  fix c' assume "c' \<in> set (db_comments db')"
  then obtain c where c: "c \<in> set (db_comments db)" "same_terms db c db' c'" using assms(2) by (auto simp: settles_def)
  have "payout_sound c db" using assms(1) c(1) by (simp add: cashout_ready_def)
  moreover have "map unmarked (comment_votes_of c' db') = map unmarked (comment_votes_of c db)"
    using assms(2) c(2) by (simp add: unmarked_votes settles_def same_terms_def)
  ultimately show "payout_sound c' db'"
    using c(2) votes_by_fields [of "comment_votes_of c' db'" "comment_votes_of c db"]
    by (simp add: payout_sound_def votes_sound_def same_terms_def)
qed

section \<open>The payouts of a block\<close>

text \<open>A payout step: no token is created or lost, and all comments can still be paid.\<close>

definition paid_out :: "database \<Rightarrow> database \<Rightarrow> bool" where
  "paid_out db db' \<longleftrightarrow> moves db db' 0 0 0 \<and> settles db db'"

lemma paid_out_refl: "ledger_ok db \<Longrightarrow> paid_out db db"
  by (simp add: paid_out_def moves_refl settles_refl)

lemma paid_out_trans: "paid_out db db1 \<Longrightarrow> paid_out db1 db2 \<Longrightarrow> paid_out db db2"
  using moves_trans [of db db1 0 0 0 db2 0 0 0] settles_trans by (auto simp: paid_out_def)

lemma paid_out_ok: "paid_out db db' \<Longrightarrow> cashout_ready db \<Longrightarrow> ledger_ok db' \<and> cashout_ready db'"
  by (auto simp: paid_out_def dest: moves_ok intro: settles_ready)

lemma set_comment_settles:
  assumes "get_comment_by_id i db = Inr c" "same_terms db c (set_comment c' db) c'"
  shows "settles db (set_comment c' db)"
proof -
  have "c \<in> set (db_comments db)" using assms(1) by (auto simp: get_comment_by_id_def dest: find_by_Some)
  moreover have "same_terms db d (set_comment c' db) d" for d
    by (simp add: same_terms_def)
  ultimately have "\<exists>e \<in> set (db_comments db). same_terms db e (set_comment c' db) d"
    if "d \<in> set (upd_by com_id c' (db_comments db))" for d
    using set_upd_by [OF that] assms(2) by blast
  then show ?thesis by (simp add: settles_def) (simp add: set_comment_def)
qed

lemma adjust_rshares2_settles:
  assumes "fc_u128 fc"
  shows "adjust_rshares2 fc i x y db = Inr db' \<Longrightarrow> settles db db'"
proof -
  have "adjust_rshares2_walk fc n i x y db = Inr db' \<Longrightarrow> settles db db'" for n
  proof (induction n arbitrary: i db)
    case (Suc n)
    obtain c where c: "get_comment_by_id i db = Inr c" using Suc.prems by auto
    let ?db = "set_comment (c\<lparr>com_children_rshares2 := shift_shares fc x y (com_children_rshares2 c)\<rparr>) db"
    have s: "settles db ?db"
      by (rule set_comment_settles [OF c]) (simp add: same_terms_def, simp add: detect_curation_curve_def)
    have "settles ?db (?db\<lparr>db_dgp := (db_dgp ?db)\<lparr>dgp_total_reward_shares2 := shift_shares fc x y z\<rparr>\<rparr>)" for z
      using assms by (auto simp: settles_def same_terms_def shift_shares_def u128_ops)
    then show ?case
      using Suc.prems c s settles_trans [OF s] Suc.IH by (auto simp: Let_def split: if_split_asm)
  qed simp
  then show "adjust_rshares2 fc i x y db = Inr db' \<Longrightarrow> settles db db'" by (simp add: adjust_rshares2_def)
qed

text \<open>The curve that a comment names; until it is closed it stays as it is.\<close>

definition named_curve :: "nat \<Rightarrow> database \<Rightarrow> curation_curve option" where
  "named_curve i db = map_option com_curation_reward_curve (find_by com_id i (db_comments db))"

lemma adjust_rshares2_curve: "adjust_rshares2 fc j x y db = Inr db' \<Longrightarrow> named_curve i db' = named_curve i db"
proof -
  have "adjust_rshares2_walk fc n j x y db = Inr db' \<Longrightarrow> named_curve i db' = named_curve i db" for n
  proof (induction n arbitrary: j db)
    case (Suc n)
    obtain c where c: "get_comment_by_id j db = Inr c" using Suc.prems by auto
    let ?c = "c\<lparr>com_children_rshares2 := shift_shares fc x y (com_children_rshares2 c)\<rparr>"
    have "find_by com_id (com_id c) (db_comments db) = Some c"
      using c by (auto simp: get_comment_by_id_def dest: find_by_Some)
    then have s: "named_curve i (set_comment ?c db) = named_curve i db"
      by (simp add: named_curve_def set_comment_def table_simps)
    have "named_curve i (d\<lparr>db_dgp := p\<rparr>) = named_curve i d" for d p by (simp add: named_curve_def)
    then show ?case using Suc.prems c s Suc.IH by (auto simp: Let_def split: if_split_asm)
  qed simp
  then show "adjust_rshares2 fc j x y db = Inr db' \<Longrightarrow> named_curve i db' = named_curve i db" by (simp add: adjust_rshares2_def)
qed

lemma pays_curve: "pays db db' x \<Longrightarrow> named_curve i db' = named_curve i db"
  by (simp add: pays_def payout_view_def named_curve_def)

lemma pay_comment_paid:
  assumes "fc_num fc" "ledger_ok db" "cashout_ready db" "get_comment_by_id i db = Inr c"
    "pay_comment fc c db = Inr (curve, db')"
  shows "paid_out db db' \<and> named_curve i db' = named_curve i db \<and> curve \<in> {com_curation_reward_curve c, detect_curation_curve c db}"
proof (cases "com_net_rshares c > 0")
  case False
  then show ?thesis using assms(2,5) by (auto simp: pay_comment_def paid_out_refl)
next
  case True
  have lib: "fc_safe fc" "fc_u128 fc" using assms(1) by (auto simp: fc_num_def)
  have "c \<in> set (db_comments db)" using assms(4) by (auto simp: get_comment_by_id_def dest: find_by_Some)
  then have sound: "payout_sound c db" "0 \<le> dgp_total_reward_shares2 (db_dgp db)"
    using assms(3) by (auto simp: cashout_ready_def)
  obtain mx x db1 db2 where run: "claim_rshare_reward fc (com_net_rshares c) (com_reward_weight c) mx db = Inr (x, db1)"
    "(if u128_of fc x > 0 then distribute_reward fc c (u128_of fc x) db1 else Inr (com_curation_reward_curve c, db1)) = Inr (curve, db2)"
    "adjust_rshares2 fc (com_id c) (calculate_vshares fc (u128_of fc (com_net_rshares c)) db2) 0 db2 = Inr db'"
    using assms(5) True by (auto simp: pay_comment_def Let_def)
  note p1 = claim_rshare_reward_pays [OF lib(1) assms(2) sound(2) run(1)]
  have of_x: "u128_of fc x = x" using p1 by (intro u128_of_small [OF lib(2)]) auto
  have v: "payout_view db1 = payout_view db" using p1 by (simp add: pays_def)
  then have same: "comment_votes_of c db1 = comment_votes_of c db" "detect_curation_curve c db1 = detect_curation_curve c db"
    by (auto simp: payout_view_def comment_votes_of_def intro: detect_cong)
  then have "payout_sound c db1" using sound(1) by (simp add: payout_sound_def votes_sound_def)
  note p2 = distribute_reward_pays [OF assms(1) _ this]
  have "pays db1 db2 x \<and> curve \<in> {com_curation_reward_curve c, detect_curation_curve c db}"
    using run(2) p1 p2 [of x curve db2] same(2) pays_refl [of db1] by (auto simp: of_x dest: pays_ok split: if_split_asm)
  then have p: "pays db db2 0" and curve: "curve \<in> {com_curation_reward_curve c, detect_curation_curve c db}"
    using p1 pays_after [of db db1 "- x" db2 x 0] by auto
  have "moves db db' 0 0 0" using adjust_rshares2_after [OF run(3)] p by (simp add: pays_def)
  then show ?thesis
    using settles_trans [OF pays_settles [OF p] adjust_rshares2_settles [OF lib(2) run(3)]] curve
      adjust_rshares2_curve [OF run(3)] pays_curve [OF p] by (simp add: paid_out_def)
qed

lemma paid_out_push: "paid_out db d \<Longrightarrow> paid_out db (push_virtual_operation op d)"
proof -
  have "settles d (push_virtual_operation op d)"
    by (auto simp: settles_def same_terms_def push_virtual_operation_def detect_curation_curve_def has_hardfork_def)
  then show "paid_out db d \<Longrightarrow> paid_out db (push_virtual_operation op d)"
    using settles_trans [of db d] by (simp add: paid_out_def)
qed

lemma paid_out_mark: "paid_out db d \<Longrightarrow> paid_out db (mark_votes i d)"
proof -
  have "settles d (mark_votes i d)"
    by (auto simp: settles_def same_terms_def mark_votes_def unmarked_def)
  moreover have "moves db (mark_votes i d) 0 0 0 = moves db d 0 0 0" by (simp add: mark_votes_def)
  ultimately show "paid_out db d \<Longrightarrow> paid_out db (mark_votes i d)"
    using settles_trans [of db d] by (simp add: paid_out_def)
qed

lemma close_comment_terms:
  assumes "close_comment curve db c = Inr c'"
  shows "com_id c' = com_id c \<and> com_auction_window_size c' = com_auction_window_size c \<and>
    com_curation_rewards_percent c' = com_curation_rewards_percent c \<and> com_curation_reward_curve c' = curve"
  using assms by (auto simp: close_comment_def Let_def)

text \<open>A comment that names the curve that was detected for it is weighed by that curve.\<close>

lemma detect_named:
  assumes "com_curation_reward_curve c' = detect_curation_curve c db"
  shows "detect_curation_curve c' db = detect_curation_curve c db"
  using assms by (auto simp: detect_curation_curve_def)

lemma cashout_comment_helper_paid:
  assumes "fc_num fc" "ledger_ok db" "cashout_ready db" "cashout_comment_helper fc i db = Inr db'"
  shows "paid_out db db'"
proof -
  obtain c curve db1 c1 c2 where run: "get_comment_by_id i db = Inr c" "pay_comment fc c db = Inr (curve, db1)"
    "get_comment_by_id i db1 = Inr c1" "close_comment curve db1 c1 = Inr c2"
    and db': "db' \<in> {push_virtual_operation (Comment_payout_update (com_author c) (com_permlink c)) (set_comment c2 db1),
      mark_votes i (push_virtual_operation (Comment_payout_update (com_author c) (com_permlink c)) (set_comment c2 db1))}"
    using assms(4) by (auto simp: cashout_comment_helper_def modify_comment_def Let_def)
  note p = pay_comment_paid [OF assms(1-3) run(1,2)]
  note t = close_comment_terms [OF run(4)]
  have rules: "detect_curation_curve d db1 = detect_curation_curve d db" for d
    using p by (intro detect_cong) (auto simp: paid_out_def settles_def)
  have named: "com_curation_reward_curve c1 = com_curation_reward_curve c"
    using p run(1,3) by (auto simp: named_curve_def get_comment_by_id_def)
  then have "detect_curation_curve c1 db1 = detect_curation_curve c db1"
    by (simp add: detect_curation_curve_def)
  then have "detect_curation_curve c2 db1 = detect_curation_curve c1 db1"
    using p t named detect_named [of c2 c db1] rules [of c] by (auto simp: detect_curation_curve_def)
  then have s: "settles db1 (set_comment c2 db1)"
    using t by (intro set_comment_settles [OF run(3)]) (simp add: same_terms_def)
  have "paid_out db (set_comment c2 db1)"
    using p settles_trans [OF _ s] by (simp add: paid_out_def)
  then show ?thesis using db' paid_out_push paid_out_mark by blast
qed

lemma cashouts_paid:
  assumes "fc_num fc"
  shows "foldR (cashout_comment_helper fc) is db = Inr db' \<Longrightarrow> ledger_ok db \<Longrightarrow> cashout_ready db \<Longrightarrow> paid_out db db'"
proof (induction "is" arbitrary: db)
  case (Cons i "is")
  obtain db1 where run: "cashout_comment_helper fc i db = Inr db1" "foldR (cashout_comment_helper fc) is db1 = Inr db'"
    using Cons.prems(1) by auto
  note p = cashout_comment_helper_paid [OF assms Cons.prems(2,3) run(1)]
  from paid_out_trans [OF p Cons.IH [OF run(2)]] paid_out_ok [OF p Cons.prems(3)] show ?case by blast
qed (simp add: paid_out_refl)

lemma cashout_round_paid:
  assumes "fc_num fc" "ledger_ok db" "cashout_ready db" "cashout_round fc c db = Inr db'"
  shows "paid_out db db'"
  using assms(4) cashout_comment_helper_paid [OF assms(1-3)] cashouts_paid [OF assms(1) _ assms(2,3)]
  unfolding cashout_round_def by (auto split: if_split_asm)

lemma cashout_loop_paid:
  assumes "fc_num fc"
  shows "cashout_loop fc n db = Inr db' \<Longrightarrow> ledger_ok db \<Longrightarrow> cashout_ready db \<Longrightarrow> paid_out db db'"
proof (induction n arbitrary: db)
  case 0
  then show ?case by (auto simp: cashout_loop.simps [of fc 0] paid_out_refl split: option.split_asm)
next
  case (Suc n)
  show ?case
  proof (cases "next_cashout db")
    case None
    then show ?thesis using Suc.prems by (simp add: cashout_loop.simps [of fc "Suc n"] paid_out_refl)
  next
    case (Some c)
    then obtain db1 where run: "cashout_round fc c db = Inr db1" "cashout_loop fc n db1 = Inr db'"
      using Suc.prems(1) by (auto simp: cashout_loop.simps [of fc "Suc n"])
    note p = cashout_round_paid [OF assms Suc.prems(2,3) run(1)]
    from paid_out_trans [OF p Suc.IH [OF run(2)]] paid_out_ok [OF p Suc.prems(3)] show ?thesis by blast
  qed
qed

lemma process_comment_cashout_paid:
  assumes "fc_num fc" "ledger_ok db" "cashout_ready db" "process_comment_cashout fc db = Inr db'"
  shows "paid_out db db'"
  using assms(4) cashout_loop_paid [OF assms(1) _ assms(2,3)] paid_out_refl [OF assms(2)]
  by (auto simp: process_comment_cashout_def split: if_split_asm)

end
