(* ===== verification/Reward_Properties.thy ===== *)
theory Reward_Properties
  imports Reward_Conservation Ledger_Properties
begin

text \<open>
  The theorems about comment rewards: the weights of votes are exact, curators stay within their
  budget, payouts conserve tokens, and the loop over the due comments ends.
\<close>

section \<open>Payments leave comments and votes alone\<close>

text \<open>The values that occur in payouts and are not states.\<close>

lemmas payout_values = post_values post_any [where 'a = comment_curation_info] post_any [where 'a = "string"]

context funds_frame
begin

lemma foldR_post2:
  assumes "\<And>x y db. view db = v \<Longrightarrow> post (\<lambda>(z, db'). view db' = v) (f x (y, db))"
    "view db = v" "\<And>z db'. view db' = v \<Longrightarrow> P (z, db')"
  shows "post P (foldR f xs (y, db))"
  using assms(2,3)
proof (induction xs arbitrary: y db)
  case (Cons x xs)
  then have "post (\<lambda>s. post P (foldR f xs s)) (f x (y, db))"
    using assms(1) [of db x y] by (auto simp: post_def)
  then show ?case by (auto intro: post_bind)
qed simp

lemma add_rewards_post [intro!]:
  "view db = v \<Longrightarrow> (\<And>db'. view db' = v \<Longrightarrow> P db') \<Longrightarrow> post P (add_rewards fc get upd x n db)"
  by (auto simp: add_rewards_def)

lemma pay_delegator_post [intro!]:
  "view db = v \<Longrightarrow> (\<And>y db'. view db' = v \<Longrightarrow> P (y, db')) \<Longrightarrow> post P (pay_delegator fc n claim r (x, db))"
  by (rule step_post2 [where v = v]) (auto simp: pay_delegator_def Let_def intro!: post_states payout_values)

lemma pay_delegators_post [intro!]:
  "view db = v \<Longrightarrow> (\<And>y db'. view db' = v \<Longrightarrow> P (y, db')) \<Longrightarrow> post P (pay_delegators fc n w claim db)"
  unfolding pay_delegators_def by (rule foldR_post2 [where v = v]) auto

lemma pay_curator_post [intro!]:
  "view db = v \<Longrightarrow> (\<And>y db'. view db' = v \<Longrightarrow> P (y, db')) \<Longrightarrow> post P (pay_curator fc w claim n l db)"
  by (rule step_post2 [where v = v]) (auto simp: pay_curator_def Let_def intro!: post_states payout_values)

lemma pay_votes_post [intro!]:
  "view db = v \<Longrightarrow> (\<And>h u a db'. view db' = v \<Longrightarrow> P (h, u, a, db')) \<Longrightarrow> post P (pay_votes fc ci c m awr vs hv un act db)"
proof (induction vs arbitrary: hv un act db)
  case (Cons w vs)
  then show ?case
    by (cases w) (auto simp: Let_def intro!: post_bind post_if payout_values)
qed simp

lemma return_to_fund_post [intro!]:
  "view db = v \<Longrightarrow> (\<And>db'. view db' = v \<Longrightarrow> P db') \<Longrightarrow> post P (return_to_fund fc x db)"
  by (rule step_post [where v = v])
    (auto simp: return_to_fund_def dgp_funds_def view_dgp intro!: post_states payout_values)

lemma pay_curators_post [intro!]:
  "view db = v \<Longrightarrow> (\<And>x y db'. view db' = v \<Longrightarrow> P (x, y, db')) \<Longrightarrow> post P (pay_curators fc ci c m db)"
  unfolding pay_curators_def
  by (auto simp: Let_def intro!: post_bind post_if post_option payout_values)

lemma pay_beneficiary_post [intro!]:
  "view db = v \<Longrightarrow> (\<And>y db'. view db' = v \<Longrightarrow> P (y, db')) \<Longrightarrow> post P (pay_beneficiary fc c a b (x, db))"
  by (rule step_post2 [where v = v]) (auto simp: pay_beneficiary_def Let_def intro!: post_states payout_values)

lemma pay_author_post [intro!]:
  "view db = v \<Longrightarrow> (\<And>db'. view db' = v \<Longrightarrow> P db') \<Longrightarrow> post P (pay_author fc c r a db)"
  by (rule step_post [where v = v]) (auto simp: pay_author_def Let_def intro!: post_states payout_values)

lemma distribute_reward_post [intro!]:
  "view db = v \<Longrightarrow> (\<And>y db'. view db' = v \<Longrightarrow> P (y, db')) \<Longrightarrow> post P (distribute_reward fc c r db)"
  by (rule step_post2 [where v = v])
    (auto simp: distribute_reward_def Let_def intro!: post_states payout_values foldR_post2 [where v = v])

lemma claim_rshare_reward_post [intro!]:
  "view db = v \<Longrightarrow> (\<And>y db'. view db' = v \<Longrightarrow> P (y, db')) \<Longrightarrow> post P (claim_rshare_reward fc rs w mx db)"
  by (rule step_post2 [where v = v])
    (auto simp: claim_rshare_reward_def Let_def dgp_funds_def view_dgp intro!: post_states payout_values)

end

section \<open>The loop over due comments ends\<close>

text \<open>
  Since hardfork 17 a paid comment is never due again, so that the number of due comments goes
  down in every round.
\<close>

definition times :: "database \<Rightarrow> (nat \<times> time_point_sec) list" where
  "times db = map (\<lambda>c. (com_id c, com_cashout_time c)) (db_comments db)"

definition due :: "database \<Rightarrow> nat" where
  "due db = length (filter (\<lambda>x. snd x \<le> head_block_time db) (times db))"

text \<open>What decides whether a comment is due.\<close>

definition clock :: "database \<Rightarrow> (nat \<times> time_point_sec) list \<times> time_point_sec \<times> nat" where
  "clock db = (times db, head_block_time db, db_processed_hardforks db)"

definition apart :: "database \<Rightarrow> bool" where
  "apart db \<longleftrightarrow> distinct (map com_id (db_comments db))"

lemma apart_times: "apart db \<longleftrightarrow> distinct (map fst (times db))"
  by (simp add: apart_def times_def comp_def)

lemma clock_apart: "clock db' = clock db \<Longrightarrow> apart db' = apart db"
  by (simp add: clock_def apart_times)

lemma clock_hardfork: "clock db' = clock db \<Longrightarrow> has_hardfork n db' = has_hardfork n db"
  by (simp add: clock_def has_hardfork_def)

lemma view_clock: "payout_view db' = payout_view db \<Longrightarrow> clock db' = clock db"
proof -
  assume v: "payout_view db' = payout_view db"
  have "dgp_time (dgp_funds (db_dgp d)) = head_block_time d" for d by (simp add: dgp_funds_def head_block_time_def)
  then have "head_block_time db' = head_block_time db" using v unfolding payout_view_def by (metis prod.inject)
  then show ?thesis using v by (simp add: clock_def times_def payout_view_def)
qed

lemma times_set_comment:
  "times (set_comment c db) = map (\<lambda>x. if fst x = com_id c then (com_id c, com_cashout_time c) else x) (times db)"
  by (simp add: times_def set_comment_def upd_by_def)

lemma clock_kept:
  assumes "get_comment_by_id i db = Inr c" "apart db" "com_id c' = com_id c" "com_cashout_time c' = com_cashout_time c"
  shows "clock (set_comment c' db) = clock db"
proof -
  have "c \<in> set (db_comments db)" using assms(1) by (auto simp: get_comment_by_id_def dest: find_by_Some)
  then have "x = (com_id c, com_cashout_time c)" if "x \<in> set (times db)" "fst x = com_id c" for x
    using that assms(2) by (auto simp: apart_def times_def distinct_map inj_on_def)
  then have "times (set_comment c' db) = times db" unfolding times_set_comment using assms(3,4) by (intro map_idI) auto
  then show ?thesis by (simp add: clock_def set_comment_def head_block_time_def)
qed

lemma adjust_rshares2_clock:
  assumes "adjust_rshares2 fc i x y db = Inr db'" "apart db"
  shows "clock db' = clock db"
proof -
  have "adjust_rshares2_walk fc n i x y db = Inr db' \<Longrightarrow> apart db \<Longrightarrow> clock db' = clock db" for n
  proof (induction n arbitrary: i db)
    case (Suc n)
    obtain c where c: "get_comment_by_id i db = Inr c" using Suc.prems by auto
    let ?db = "set_comment (c\<lparr>com_children_rshares2 := shift_shares fc x y (com_children_rshares2 c)\<rparr>) db"
    have k: "clock ?db = clock db" by (rule clock_kept [OF c Suc.prems(2)]) simp_all
    show ?case
    proof (cases "com_depth c = 0")
      case True
      then have "clock db' = clock ?db"
        using Suc.prems(1) c by (auto simp: Let_def clock_def times_def head_block_time_def)
      then show ?thesis using k by simp
    next
      case False
      then obtain p :: comment_object where "adjust_rshares2_walk fc n (com_id p) x y ?db = Inr db'"
        using Suc.prems(1) c by (auto simp: Let_def)
      from Suc.IH [OF this] Suc.prems(2) k clock_apart [OF k] show ?thesis by simp
    qed
  qed simp
  then show ?thesis using assms by (simp add: adjust_rshares2_def)
qed

lemma pay_comment_clock:
  assumes "pay_comment fc c db = Inr (curve, db')" "apart db"
  shows "clock db' = clock db"
proof (cases "com_net_rshares c > 0")
  case True
  then obtain mx x db1 db2 where run: "claim_rshare_reward fc (com_net_rshares c) (com_reward_weight c) mx db = Inr (x, db1)"
    "(if u128_of fc x > 0 then distribute_reward fc c (u128_of fc x) db1 else Inr (com_curation_reward_curve c, db1)) = Inr (curve, db2)"
    "adjust_rshares2 fc (com_id c) (calculate_vshares fc (u128_of fc (com_net_rshares c)) db2) 0 db2 = Inr db'"
    using assms(1) by (auto simp: pay_comment_def Let_def)
  have "payout_view db1 = payout_view db"
    using postD [OF payout.claim_rshare_reward_post [OF refl, of db "\<lambda>(_, d). payout_view d = payout_view db"] run(1)] by simp
  moreover have "payout_view db2 = payout_view db1"
    using run(2) postD [OF payout.distribute_reward_post [OF refl, of db1 "\<lambda>(_, d). payout_view d = payout_view db1"]]
    by (auto split: if_split_asm)
  ultimately have "clock db2 = clock db" by (intro view_clock) simp
  then show ?thesis using adjust_rshares2_clock [OF run(3)] clock_apart [of db2 db] assms(2) by simp
qed (use assms in \<open>auto simp: pay_comment_def\<close>)

text \<open>A paid comment is due at the end of time.\<close>

definition retire :: "nat \<Rightarrow> (nat \<times> time_point_sec) list \<Rightarrow> (nat \<times> time_point_sec) list" where
  "retire i = map (\<lambda>x. if fst x = i then (i, time_maximum) else x)"

lemma cashout_comment_helper_clock:
  assumes "cashout_comment_helper fc i db = Inr db'" "apart db" "has_hardfork 17 db"
  shows "clock db' = (retire i (times db), head_block_time db, db_processed_hardforks db)"
proof -
  obtain c curve db1 c1 c2 where run: "pay_comment fc c db = Inr (curve, db1)"
    "get_comment_by_id i db1 = Inr c1" "close_comment curve db1 c1 = Inr c2"
    and db': "db' \<in> {push_virtual_operation (Comment_payout_update (com_author c) (com_permlink c)) (set_comment c2 db1),
      mark_votes i (push_virtual_operation (Comment_payout_update (com_author c) (com_permlink c)) (set_comment c2 db1))}"
    using assms(1) by (auto simp: cashout_comment_helper_def modify_comment_def Let_def)
  note k = pay_comment_clock [OF run(1) assms(2)]
  have "com_id c1 = i" using run(2) by (auto simp: get_comment_by_id_def dest: find_by_Some)
  then have "com_id c2 = i" "com_cashout_time c2 = time_maximum"
    using run(3) clock_hardfork [OF k, of 17] assms(3) by (auto simp: close_comment_def Let_def)
  then have t: "times (set_comment c2 db1) = retire i (times db1)" by (simp add: times_set_comment retire_def)
  have "clock db' = clock (set_comment c2 db1)"
    using db' by (auto simp: clock_def times_def head_block_time_def push_virtual_operation_def mark_votes_def)
  also have "\<dots> = (retire i (times db1), head_block_time db1, db_processed_hardforks db1)"
    unfolding clock_def t by (simp add: set_comment_def head_block_time_def)
  finally show ?thesis using k by (simp add: clock_def)
qed

lemma retire_due:
  assumes "(i, t) \<in> set ts" "t \<le> now" "now < time_maximum"
  shows "length (filter (\<lambda>x. snd x \<le> now) (retire i ts)) < length (filter (\<lambda>x. snd x \<le> now) ts)"
  using assms
proof (induction ts)
  case (Cons x ts)
  have le: "length (filter (\<lambda>x. snd x \<le> now) (retire i ts)) \<le> length (filter (\<lambda>x. snd x \<le> now) ts)"
    using assms(3) by (induction ts) (auto simp: retire_def)
  show ?case
  proof (cases "x = (i, t)")
    case True
    then show ?thesis using le assms(2,3) by (simp add: retire_def)
  next
    case False
    then show ?thesis using Cons assms(3) by (auto simp: retire_def)
  qed
qed simp

lemma next_cashout_due:
  assumes "next_cashout db = Some c"
  shows "(com_id c, com_cashout_time c) \<in> set (times db) \<and> com_cashout_time c \<le> head_block_time db"
proof -
  obtain cs where q: "sort_by cashout_time_lt (db_comments db) = c # cs" "com_cashout_time c \<le> head_block_time db"
    using assms by (auto simp: next_cashout_def split: list.split_asm if_split_asm)
  have "c \<in> set (sort_by cashout_time_lt (db_comments db))" unfolding q(1) by simp
  then show ?thesis using q(2) by (auto simp: times_def)
qed

lemma next_cashout_pos: "next_cashout db = Some c \<Longrightarrow> 0 < due db"
  using next_cashout_due [of db c] by (auto simp: due_def filter_empty_conv intro!: bexI)

lemma cashout_round_due:
  assumes "next_cashout db = Some c" "cashout_round fc c db = Inr db'" "apart db" "has_hardfork 17 db"
    "head_block_time db < time_maximum"
  shows "due db' < due db \<and> apart db' \<and> has_hardfork 17 db' \<and> head_block_time db' = head_block_time db"
proof -
  note k = cashout_comment_helper_clock [of fc "com_id c" db db']
  have "clock db' = (retire (com_id c) (times db), head_block_time db, db_processed_hardforks db)"
    using k assms(2-4) by (simp add: cashout_round_def)
  then have t: "times db' = retire (com_id c) (times db)" "head_block_time db' = head_block_time db"
    "db_processed_hardforks db' = db_processed_hardforks db" by (simp_all add: clock_def)
  have "map fst (times db') = map fst (times db)" unfolding t(1) retire_def by simp
  then have "apart db'" using assms(3) by (simp only: apart_times)
  moreover have "due db' < due db"
    unfolding due_def t using retire_due [of "com_id c" _ "times db"] next_cashout_due [OF assms(1)] assms(5) by blast
  ultimately show ?thesis using t assms(4) by (simp add: has_hardfork_def)
qed

lemma due_le: "due db \<le> length (db_comments db)"
  unfolding due_def times_def by (rule order_trans [OF length_filter_le]) simp

text \<open>
  A step of the loop: the first due comment is paid. The loop follows the steps until no comment is
  due or a payout throws, and a bound of one round for every due comment lets it get there.
\<close>

definition cashout_step :: "fc_lib \<Rightarrow> database \<Rightarrow> database \<Rightarrow> bool" where
  "cashout_step fc db db' \<longleftrightarrow> (\<exists>c. next_cashout db = Some c \<and> cashout_round fc c db = Inr db')"

definition cashout_end :: "fc_lib \<Rightarrow> database \<Rightarrow> database res \<Rightarrow> bool" where
  "cashout_end fc db r \<longleftrightarrow> next_cashout db = None \<and> r = Inr db \<or>
     (\<exists>c e. next_cashout db = Some c \<and> cashout_round fc c db = Inl e \<and> r = Inl e)"

lemma cashout_loop_ends:
  assumes "apart db" "has_hardfork 17 db" "head_block_time db < time_maximum" "due db \<le> n"
  shows "\<exists>d. (cashout_step fc)\<^sup>*\<^sup>* db d \<and> cashout_end fc d (cashout_loop fc n db)"
  using assms
proof (induction "due db" arbitrary: db n rule: less_induct)
  case less
  show ?case
  proof (cases "next_cashout db")
    case None
    then show ?thesis by (intro exI [of _ db]) (simp add: cashout_loop.simps cashout_end_def)
  next
    case (Some c)
    obtain m where n: "n = Suc m" using next_cashout_pos [OF Some] less.prems(4) by (cases n) auto
    show ?thesis
    proof (cases "cashout_round fc c db")
      case (Inl e)
      then show ?thesis
        using Some by (intro exI [of _ db]) (simp add: n cashout_loop.simps [of fc "Suc m"] cashout_end_def)
    next
      case (Inr db1)
      note fewer = cashout_round_due [OF Some Inr less.prems(1-3)]
      then obtain d where "(cashout_step fc)\<^sup>*\<^sup>* db1 d" "cashout_end fc d (cashout_loop fc m db1)"
        using less.hyps [of db1 m] less.prems(3,4) n by auto
      moreover have "cashout_step fc db db1" using Some Inr by (auto simp: cashout_step_def)
      moreover have "cashout_loop fc n db = cashout_loop fc m db1"
        using Some Inr by (simp add: n cashout_loop.simps [of fc "Suc m"])
      ultimately show ?thesis by (metis converse_rtranclp_into_rtranclp)
    qed
  qed
qed

section \<open>A state with a due comment\<close>

definition comment_vote_of :: "nat \<Rightarrow> nat \<Rightarrow> int \<Rightarrow> nat \<Rightarrow> comment_vote_object" where
  "comment_vote_of i voter rshares t = \<lparr>cmv_id = i, cmv_voter = voter, cmv_comment = 7, cmv_orig_rshares = rshares,
     cmv_rshares = rshares, cmv_vote_percent = 10000, cmv_auction_time = t, cmv_last_update = 900, cmv_num_changes = 0,
     cmv_delegator_vote_interest_rates = []\<rparr>"

definition demo_comment :: comment_object where
  "demo_comment = \<lparr>com_id = 7, com_parent_author = [], com_parent_permlink = ''news'', com_author = ''alice'',
     com_permlink = ''post'', com_created = 800, com_last_payout = 0, com_depth = 0, com_children = 0,
     com_children_rshares2 = 4000, com_net_rshares = 4000, com_abs_rshares = 4000, com_vote_rshares = 4000,
     com_children_abs_rshares = 4000, com_cashout_time = 1500000000, com_max_cashout_time = 1500000000,
     com_reward_weight = 10000, com_net_votes = 2, com_total_votes = 2, com_root_comment = 7, com_mode = first_payout,
     com_curation_reward_curve = Curve_linear, com_auction_window_reward_destination = to_curators,
     com_auction_window_size = 1800, com_max_accepted_payout = gbg_of 1000000000, com_percent_steem_dollars = 10000,
     com_allow_replies = True, com_allow_votes = True, com_allow_curation_rewards = True,
     com_curation_rewards_percent = 2500, com_beneficiaries = []\<rparr>"

definition demo_cashout_db :: database where
  "demo_cashout_db = demo_db\<lparr>
     db_dgp := demo_dgp\<lparr>dgp_time := 1500000000, dgp_total_reward_shares2 := 8000\<rparr>,
     db_feed := \<lparr>fho_current_median_history = \<lparr>base = gbg_of 1, quote = golos_of 2\<rparr>, fho_price_history = []\<rparr>,
     db_comments := [demo_comment], db_comment_votes := [comment_vote_of 1 2 3000 900, comment_vote_of 2 1 1000 1800]\<rparr>"

lemmas cashout_defs = demo_cashout_db_def demo_comment_def comment_vote_of_def demo_defs

lemma demo_cashout_ok: "ledger_ok demo_cashout_db" "gaps demo_cashout_db = (0, 0, 0)"
  by (simp_all add: ledger_ok_def account_ok_def dgp_ok_def gaps_def gap_steem_def gap_sbd_def gap_vests_def held_def
      account_steem_def account_sbd_def account_vests_def cashout_defs)

lemma demo_votes: "comment_votes_of demo_comment demo_cashout_db = [comment_vote_of 1 2 3000 900, comment_vote_of 2 1 1000 1800]"
  by (simp add: comment_votes_of_def cashout_defs)

lemma demo_payout_sound: "payout_sound demo_comment demo_cashout_db"
  unfolding payout_sound_def votes_sound_def demo_votes
  by (simp add: linear_sound_def linear_sum_def earns_def was_changed_def rates_sound_def STEEMIT_100_PERCENT_def
      INT_100_PERCENT_def demo_comment_def comment_vote_of_def)

lemma demo_cashout_ready: "cashout_ready demo_cashout_db"
  using demo_payout_sound by (simp add: cashout_ready_def demo_cashout_db_def)

lemmas weigh_eval = mk_comment_curation_info_def weigh_votes_def calculate_weight_def calculate_curve_def auction_split_def
  new_weight_helper_def was_changed_def detect_curation_curve_def heavier_def

lemma demo_info: "mk_comment_curation_info fc_ref demo_comment False demo_cashout_db =
  Inr \<lparr>cci_vote_list = [(comment_vote_of 1 2 3000 900, 1500), (comment_vote_of 2 1 1000 1800, 1000)], cci_total_vote_weight = 4000,
    cci_auction_window_weight = 1500, cci_votes_in_auction_window_weight = 1500,
    cci_votes_after_auction_window_weight = 1000, cci_curve = Curve_linear\<rparr>"
  unfolding mk_comment_curation_info_def demo_votes
  by (simp add: weigh_eval demo_comment_def comment_vote_of_def fc_ref_eval Let_def)

lemmas price_eval = to_sbd_def to_steem_def price_is_null_def price_eq_def asset_mul_price_def asset_symbol_name_def
  price_convert_def price_mult_def default_price_def get_vesting_share_price_def

lemmas vesting_eval = create_vesting_def adjust_proxied_witness_votes.simps adjust_witness_votes_def votes_of_def
  STEEMIT_PROXY_TO_SELF_ACCOUNT_def STEEMIT_100_PERCENT_def INT_100_PERCENT_def

text \<open>Evaluation from the first computation on: the rest is not looked at before its argument is known.\<close>

lemma bindR_weak_cong: "m = m' \<Longrightarrow> bindR m f = bindR m' f"
  by simp

lemma ensure_True: "ensure True e = Inr ()"
  by simp

definition demo_claimed_db :: database where
  "demo_claimed_db = demo_cashout_db\<lparr>db_dgp := (db_dgp demo_cashout_db)\<lparr>dgp_total_reward_fund_steem := golos_of 250000\<rparr>\<rparr>"

lemma demo_max: "to_steem fc_ref (gbg_of 1000000000) demo_cashout_db = Inr (golos_of 2000000000)"
  by (simp add: price_eval ensure_True fc_ref_eval Let_def cashout_defs cong: bindR_weak_cong)

lemma demo_claim: "claim_rshare_reward fc_ref 4000 10000 (golos_of 2000000000) demo_cashout_db = Inr (250000, demo_claimed_db)"
  by (simp add: claim_rshare_reward_def reward_payout_def calculate_vshares_def STEEMIT_MIN_PAYOUT_SBD_def price_eval
      INT_100_PERCENT_def STEEMIT_100_PERCENT_def ensure_True lookup_eval fc_ref_eval Let_def demo_claimed_db_def cashout_defs
      cong: bindR_weak_cong)

lemma demo_distribute: "run_ok (distribute_reward fc_ref demo_comment 250000 demo_claimed_db)"
  by (simp add: distribute_reward_def pay_curators_def curator_claim_def after_window_def pay_curator_def pay_delegators_def
      add_rewards_def return_to_fund_def pay_author_def create_sbd_def adjust_balance_def adjust_sbd_balance_def
      adjust_supply_def accrue_sbd_interest_def add_interest_supply_def STEEMIT_SECONDS_PER_YEAR_def
      STEEMIT_SBD_INTEREST_COMPOUND_INTERVAL_SEC_def get_account_by_id_def weigh_eval comment_votes_of_def price_eval
      vesting_eval push_virtual_operation_def run_ok_def ensure_True lookup_eval fc_ref_eval Let_def demo_claimed_db_def cashout_defs
      cong: bindR_weak_cong)

lemma demo_paid: "\<exists>curve db'. pay_comment fc_ref demo_comment demo_cashout_db = Inr (curve, db')"
proof -
  obtain curve db2 where d: "distribute_reward fc_ref demo_comment 250000 demo_claimed_db = Inr (curve, db2)"
    using demo_distribute by (auto elim: run_okE)
  then have "payout_view db2 = payout_view demo_claimed_db"
    using postD [OF payout.distribute_reward_post [OF refl, of demo_claimed_db "\<lambda>(_, d). payout_view d = payout_view demo_claimed_db"]]
    by auto
  then have c: "db_comments db2 = [demo_comment]" by (simp add: payout_view_def demo_claimed_db_def demo_cashout_db_def)
  have "\<exists>db'. adjust_rshares2 fc_ref 7 x 0 db2 = Inr db'" for x
    by (simp add: adjust_rshares2_def c get_comment_by_id_def of_option_def find_by_Cons Let_def) (simp add: demo_comment_def)
  then show ?thesis
    using demo_max demo_claim d by (simp add: pay_comment_def demo_comment_def fc_ref_def Let_def)
qed

lemma demo_curators: "run_ok (pay_curators fc_ref \<lparr>cci_vote_list = [(comment_vote_of 1 2 3000 900, 1500), (comment_vote_of 2 1 1000 1800, 1000)],
    cci_total_vote_weight = 4000, cci_auction_window_weight = 1500, cci_votes_in_auction_window_weight = 1500,
    cci_votes_after_auction_window_weight = 1000, cci_curve = Curve_linear\<rparr> demo_comment 62500 demo_cashout_db)"
  by (simp add: pay_curators_def curator_claim_def after_window_def pay_curator_def pay_delegators_def
      add_rewards_def get_account_by_id_def price_eval vesting_eval push_virtual_operation_def run_ok_def ensure_True
      lookup_eval fc_ref_eval Let_def cashout_defs cong: bindR_weak_cong)

lemma demo_queue: "apart demo_cashout_db" "has_hardfork 17 demo_cashout_db" "head_block_time demo_cashout_db = 1500000000"
  "times demo_cashout_db = [(7, 1500000000)]" "db_comments demo_cashout_db = [demo_comment]"
  "get_comment_by_id 7 demo_cashout_db = Inr demo_comment"
  by (simp_all add: apart_def times_def get_comment_by_id_def lookup_eval cashout_defs)

lemma demo_cashout_run: "\<exists>db'. process_comment_cashout fc_ref demo_cashout_db = Inr db'"
proof -
  obtain curve db1 where p: "pay_comment fc_ref demo_comment demo_cashout_db = Inr (curve, db1)" using demo_paid by blast
  note k = pay_comment_clock [OF p demo_queue(1)]
  have h: "has_hardfork 17 db1" using clock_hardfork [OF k] demo_queue(2) by simp
  obtain c1 :: comment_object where "db_comments db1 = [c1]" "com_id c1 = 7"
    using k demo_queue(4) by (auto simp: clock_def times_def)
  then obtain db2 where r: "cashout_comment_helper fc_ref 7 demo_cashout_db = Inr db2"
    using demo_queue(6) p h
    by (auto simp: cashout_comment_helper_def modify_comment_def close_comment_def calculate_discussion_payout_time_def
        get_comment_by_id_def set_comment_def push_virtual_operation_def upd_by_def of_option_def find_by_Cons Let_def)
  have "due db2 = 0"
    using cashout_comment_helper_clock [OF r demo_queue(1,2)] demo_queue(3,4)
    by (simp add: clock_def due_def retire_def time_maximum_def)
  then have "next_cashout db2 = None" using next_cashout_pos [of db2] by (cases "next_cashout db2") auto
  moreover have "next_cashout demo_cashout_db = Some demo_comment"
    using demo_queue(3,5) by (simp add: next_cashout_def demo_comment_def)
  ultimately show ?thesis
    using r demo_queue(2,3,5)
    by (simp add: process_comment_cashout_def STEEMIT_FIRST_CASHOUT_TIME_def cashout_loop.simps cashout_round_def demo_comment_def)
qed

section \<open>Properties\<close>

text \<open>
  On the linear curve a vote made in the auction window and later changed to a downvote adds the
  64-bit pattern of its negative shares to the total, which wraps around: the one vote that counts
  then outweighs the total, and its curator could claim more than the budget.
\<close>

definition downvoted_db :: database where
  "downvoted_db = demo_cashout_db\<lparr>db_comment_votes := [comment_vote_of 1 2 3000 1800,
     (comment_vote_of 2 1 1000 0)\<lparr>cmv_rshares := -1000, cmv_num_changes := 1\<rparr>]\<rparr>"

lemma downvoted_votes: "comment_votes_of demo_comment downvoted_db =
  [comment_vote_of 1 2 3000 1800, (comment_vote_of 2 1 1000 0)\<lparr>cmv_rshares := -1000, cmv_num_changes := 1\<rparr>]"
  by (simp add: comment_votes_of_def downvoted_db_def cashout_defs)

lemma downvote_outweighs_total:
  "\<exists>ci. mk_comment_curation_info fc_ref demo_comment False downvoted_db = Inr ci \<and>
     cci_total_vote_weight ci = 2000 \<and> weights_total (cci_vote_list ci) = 3000"
  unfolding mk_comment_curation_info_def downvoted_votes
  by (simp add: weigh_eval weights_total_def demo_comment_def comment_vote_of_def fc_ref_eval Let_def)

text \<open>
  C25. The weights by which curators are paid are exact on the bounded and the square-root curve, and on
  the linear curve provided that no vote that began with positive shares has negative shares now, and
  that the shares of these votes sum to less than 2^64: the weights of the votes that are kept and the
  weight of the auction window add up to the total weight, without wrapping around 64 bits, and the
  votes within and after the auction window have the weights that the shares of the window are
  computed from. (Votes were made at most an auction window after the comment.) The condition on the linear curve is needed: a vote made within
  the auction window and changed to a downvote breaks it, as \<open>downvote_outweighs_total\<close> shows.
\<close>

theorem curation_weights_exact:
  assumes "fc_num fc" "votes_sound c db" "mk_comment_curation_info fc c full_list db = Inr ci"
  shows "info_exact c ci \<and> fst ` set (cci_vote_list ci) \<subseteq> set (comment_votes_of c db)"
  using mk_curation_info_exact [OF assms] by blast

theorem curation_weights_exact_witness:
  "\<exists>ci. mk_comment_curation_info fc_ref demo_comment False demo_cashout_db = Inr ci \<and> info_exact demo_comment ci \<and>
     cci_total_vote_weight ci = 4000"
  using curation_weights_exact [OF fc_ref_num _ demo_info] demo_payout_sound demo_info by (simp add: payout_sound_def)

text \<open>
  C7. Curators are paid from what is meant for them: what curators and their delegators get and
  what returns to the reward fund is the budget less what is left for the author, and neither is
  negative, so that no rounding and no order of payment pays out more than the budget. The conditions
  are those of exact weights (on the linear curve no vote that began with positive shares has negative
  shares now, and the shares of these votes sum to less than 2^64, which a vote within the auction
  window changed to a downvote breaks; votes were made at most an auction window after the comment),
  that the author's share for curators is at most 100 percent and that the delegators of a vote are
  promised at most 100 percent.
\<close>

theorem curators_within_budget:
  assumes "fc_num fc" "ledger_ok db" "payout_sound c db" "mk_comment_curation_info fc c False db = Inr ci"
    "0 \<le> max_rewards" "max_rewards < 2 ^ 63" "pay_curators fc ci c max_rewards db = Inr (unclaimed, actual, db')"
  shows "moves db db' (unclaimed - max_rewards) 0 0 \<and> 0 \<le> unclaimed \<and> unclaimed \<le> max_rewards"
proof -
  have "votes_sound c db" "\<forall>v \<in> set (comment_votes_of c db). rates_sound v" using assms(3) by (auto simp: payout_sound_def)
  then have "info_exact c ci" "\<forall>x \<in> set (cci_vote_list ci). rates_sound (fst x)"
    using mk_curation_info_exact [OF assms(1) _ assms(4)] by auto
  from pay_curators_pays [OF assms(1,2) this assms(5-7)] show ?thesis by (simp add: pays_def)
qed

theorem curators_within_budget_witness:
  "\<exists>ci unclaimed actual db'. mk_comment_curation_info fc_ref demo_comment False demo_cashout_db = Inr ci \<and>
     pay_curators fc_ref ci demo_comment 62500 demo_cashout_db = Inr (unclaimed, actual, db') \<and>
     moves demo_cashout_db db' (unclaimed - 62500) 0 0"
proof -
  obtain ci where ci: "mk_comment_curation_info fc_ref demo_comment False demo_cashout_db = Inr ci"
    "run_ok (pay_curators fc_ref ci demo_comment 62500 demo_cashout_db)" using demo_info demo_curators by blast
  then obtain u a db' where "pay_curators fc_ref ci demo_comment 62500 demo_cashout_db = Inr (u, a, db')"
    by (metis run_okE prod_cases3)
  with curators_within_budget [OF fc_ref_num demo_cashout_ok(1) demo_payout_sound ci(1) _ _ this] ci(1) show ?thesis
    by auto
qed

text \<open>
  C6. The payout of all due comments conserves every token, whatever the rounding: what the reward
  fund loses is what curators, delegators, beneficiaries and authors get, and the GOLOS that are
  turned into GBG leave the supply of GOLOS. The conditions, which the next payout can rely on again,
  hold for every comment: on the linear curve no vote that began with positive shares has negative
  shares now, and the shares of these votes sum to less than 2^64 (a vote within the auction window
  changed to a downvote breaks this), votes were made at most an auction window after the comment, the
  share for curators and the shares promised to the delegators of a vote are at most 100 percent.
\<close>

theorem comment_cashout_conserves:
  assumes "fc_num fc" "ledger_ok db" "cashout_ready db" "process_comment_cashout fc db = Inr db'"
  shows "ledger_ok db' \<and> gaps db' = gaps db \<and> cashout_ready db'"
  using process_comment_cashout_paid [OF assms] paid_out_ok [OF _ assms(3)] moves_gaps by (auto simp: paid_out_def)

theorem comment_cashout_conserves_witness:
  "\<exists>db'. process_comment_cashout fc_ref demo_cashout_db = Inr db' \<and> gaps db' = (0, 0, 0)"
proof -
  obtain db' where run: "process_comment_cashout fc_ref demo_cashout_db = Inr db'" using demo_cashout_run by blast
  from comment_cashout_conserves [OF fc_ref_num demo_cashout_ok(1) demo_cashout_ready run] demo_cashout_ok(2) run
  show ?thesis by auto
qed

text \<open>
  C26. Since hardfork 17 the loop over the due comments ends. From every state with distinct comment
  identifiers, after the first payout time and before the end of 32-bit time, the payouts of due
  comments one after the other reach, after finitely many steps, a state in which no comment is due or
  a payout throws; and \<^verbatim>\<open>process_comment_cashout\<close> returns that state or that error. The bound on the
  rounds, one for every comment, is never what stops the loop, and neither is any greater bound.
\<close>

theorem comment_cashout_ends:
  assumes "distinct (map com_id (db_comments db))" "has_hardfork 17 db" "STEEMIT_FIRST_CASHOUT_TIME < head_block_time db"
    "head_block_time db < time_maximum" "length (db_comments db) \<le> rounds"
  shows "(\<exists>d. (cashout_step fc)\<^sup>*\<^sup>* db d \<and> cashout_end fc d (process_comment_cashout fc db)) \<and>
    (\<exists>d. (cashout_step fc)\<^sup>*\<^sup>* db d \<and> cashout_end fc d (cashout_loop fc rounds db))"
  using cashout_loop_ends [of db "length (db_comments db)" fc] cashout_loop_ends [of db rounds fc] due_le [of db] assms
  by (simp add: process_comment_cashout_def apart_def)

theorem comment_cashout_ends_witness:
  "\<exists>db'. process_comment_cashout fc_ref demo_cashout_db = Inr db' \<and> (cashout_step fc_ref)\<^sup>*\<^sup>* demo_cashout_db db' \<and>
     next_cashout db' = None"
  using comment_cashout_ends [of demo_cashout_db 5 fc_ref] demo_cashout_run demo_queue
  by (auto simp: apart_def STEEMIT_FIRST_CASHOUT_TIME_def time_maximum_def cashout_end_def)

end
