(* ===== verification/Proposals.thy ===== *)
theory Proposals
  imports Chain_Transactions
begin

text \<open>
  Proposals: \<^verbatim>\<open>proposal_evaluator.cpp\<close>, \<^verbatim>\<open>proposal_object.cpp\<close> and \<^verbatim>\<open>database_proposal_object.cpp\<close>. A
  proposal is a list of operations that waits for approvals; when they suffice it is executed,
  and its operations may create, update or delete other proposals. \<open>apply_operation\<close> is
  \<^verbatim>\<open>database::apply_operation\<close> with the evaluators of proposals in the registry; it takes a bound on
  the nesting of proposals.

  Trials and failed executions are undone by the object database (\<^verbatim>\<open>chainbase\<close>, not part of the sources).
  The model takes it that the undo of a session puts an object that the session removed back in its
  place, so that a reference to it that was taken before the session is good again. The code relies
  on this wherever it uses a proposal after an undone session that may have deleted it: in
  \<^verbatim>\<open>clear_expired_proposals\<close> after a failed execution, and in \<^verbatim>\<open>push_proposal\<close> after an operation that ran
  a trial or a failed execution of its own. If the undo creates a new object instead, these references
  dangle as well, as \<open>Dangling_reference\<close> says of one that is used after a deletion that was not undone.
\<close>

section \<open>Outcomes\<close>

text \<open>
  Besides a result or an exception a run may have no outcome in the code: it is nested too
  deeply, it meets an operation without a model, or it uses an object that is gone. No handler
  catches this.
\<close>

datatype stuck = Out_of_fuel | No_model | Dangling_reference

datatype 'a outcome = Done 'a | Throws golos_error | Stuck stuck

definition of_res :: "'a res \<Rightarrow> 'a outcome" where
  "of_res r = (case r of Inl e \<Rightarrow> Throws e | Inr x \<Rightarrow> Done x)"

definition bindO :: "'a outcome \<Rightarrow> ('a \<Rightarrow> 'b outcome) \<Rightarrow> 'b outcome" where
  "bindO m f = (case m of Done x \<Rightarrow> f x | Throws e \<Rightarrow> Throws e | Stuck s \<Rightarrow> Stuck s)"

fun foldO :: "('a \<Rightarrow> 's \<Rightarrow> 's outcome) \<Rightarrow> 'a list \<Rightarrow> 's \<Rightarrow> 's outcome" where
  "foldO f [] s = Done s"
| "foldO f (x # xs) s = bindO (f x s) (foldO f xs)"

section \<open>Lookup and removal\<close>

text \<open>Titles are compared by \<^verbatim>\<open>strcmp\<close>.\<close>

definition pro_key :: "proposal_object \<Rightarrow> account_name_type \<times> string" where
  "pro_key p = (pro_author p, c_str (pro_title p))"

definition find_proposal :: "account_name_type \<Rightarrow> string \<Rightarrow> database \<Rightarrow> proposal_object option" where
  "find_proposal author title db = find_by pro_key (author, c_str title) (db_proposals db)"

definition get_proposal :: "account_name_type \<Rightarrow> string \<Rightarrow> database \<Rightarrow> proposal_object res" where
  "get_proposal author title db = of_option (Missing_object ''proposal'') (find_proposal author title db)"

definition throw_if_exists_proposal :: "account_name_type \<Rightarrow> string \<Rightarrow> database \<Rightarrow> unit res" where
  "throw_if_exists_proposal author title db =
     ensure (find_proposal author title db = None) (Object_already_exist ''proposal'')"

definition rap_key :: "required_approval_object \<Rightarrow> account_name_type \<times> nat" where
  "rap_key r = (rap_account r, rap_proposal r)"

definition pro_required_total :: "proposal_object \<Rightarrow> account_name_type list" where
  "pro_required_total p = fold flat_ins
     (pro_required_active_approvals p @ pro_required_owner_approvals p @ pro_required_posting_approvals p) []"

definition remove_proposal :: "proposal_object \<Rightarrow> database \<Rightarrow> database" where
  "remove_proposal p db = db\<lparr>
     db_required_approvals := fold (\<lambda>a. del_by rap_key (a, pro_id p)) (pro_required_total p) (db_required_approvals db),
     db_proposals := del_by pro_id (pro_id p) (db_proposals db)\<rparr>"

definition set_proposal :: "proposal_object \<Rightarrow> database \<Rightarrow> database" where
  "set_proposal p db = db\<lparr>db_proposals := upd_by pro_id p (db_proposals db)\<rparr>"

section \<open>Authority of a proposal\<close>

definition authority_of :: "(account_authority_object \<Rightarrow> authority) \<Rightarrow> database \<Rightarrow> authority_getter" where
  "authority_of sel db name = bindR (get_authority name db) (\<lambda>a. Inr (sel a))"

definition proposal_verify_authority ::
  "proposal_object \<Rightarrow> account_name_type list \<Rightarrow> account_name_type list \<Rightarrow> account_name_type list \<Rightarrow> database \<Rightarrow> unit res" where
  "proposal_verify_authority p active_to_add owner_to_add posting_to_add db =
     verify_authority (pro_proposed_operations p) (pro_available_key_approvals p)
       (authority_of aut_active db) (authority_of aut_owner db) (authority_of aut_posting db) STEEMIT_MAX_SIG_CHECK_DEPTH
       (fold flat_ins active_to_add (pro_available_active_approvals p))
       (fold flat_ins owner_to_add (pro_available_owner_approvals p))
       (fold flat_ins posting_to_add (pro_available_posting_approvals p))"

definition is_authorized_to_execute :: "proposal_object \<Rightarrow> database \<Rightarrow> bool" where
  "is_authorized_to_execute p db =
     (case proposal_verify_authority p [] [] [] db of
        Inr _ \<Rightarrow> True
      | Inl (Tx_irrelevant_authority _ _) \<Rightarrow> True
      | Inl _ \<Rightarrow> False)"

text \<open>
  Approvals that nobody asked for are refused. The check stops at the first missing authority,
  so that it is repeated with the missing accounts added, at most three times.
\<close>

fun irrelevant_rounds ::
  "nat \<Rightarrow> proposal_object \<Rightarrow> proposal_update_operation \<Rightarrow> account_name_type list \<Rightarrow> account_name_type list \<Rightarrow>
   account_name_type list \<Rightarrow> public_key_type list \<Rightarrow> database \<Rightarrow> unit res" where
  "irrelevant_rounds 0 p op active own posting used db = Inr ()"
| "irrelevant_rounds (Suc n) p op active own posting used db =
     (case proposal_verify_authority p active own posting db of
        Inr _ \<Rightarrow> Inr ()
      | Inl (Tx_missing_authority which accounts sigs) \<Rightarrow>
          if which = ''active'' then
            if active \<noteq> [] then Inl (Tx_missing_authority which accounts sigs)
            else irrelevant_rounds n p op (fold flat_ins accounts active) own posting (fold flat_ins sigs used) db
          else if which = ''owner'' then
            if own \<noteq> [] then Inl (Tx_missing_authority which accounts sigs)
            else irrelevant_rounds n p op active (fold flat_ins accounts own) posting (fold flat_ins sigs used) db
          else if which = ''posting'' then
            if posting \<noteq> [] then Inl (Tx_missing_authority which accounts sigs)
            else irrelevant_rounds n p op active own (fold flat_ins accounts posting) (fold flat_ins sigs used) db
          else Inl (Tx_missing_authority which accounts sigs)
      | Inl (Tx_irrelevant_authority which unused) \<Rightarrow>
          if which = ''sig'' then
            if \<exists>sig \<in> set unused. sig \<in> set (pup_key_approvals_to_add op) \<and> sig \<notin> set used
            then Inl (Tx_irrelevant_authority which unused) else Inr ()
          else
            if \<exists>account \<in> set unused. account \<in> set (pup_active_approvals_to_add op @ pup_owner_approvals_to_add op @
                 pup_posting_approvals_to_add op)
            then Inl (Tx_irrelevant_authority which unused) else Inr ()
      | Inl e \<Rightarrow> Inl e)"

definition assert_irrelevant_proposal_authority :: "proposal_object \<Rightarrow> proposal_update_operation \<Rightarrow> database \<Rightarrow> unit res" where
  "assert_irrelevant_proposal_authority p op db = irrelevant_rounds 3 p op [] [] [] [] db"

section \<open>Execution\<close>

text \<open>
  \<open>apply\<close> is the application of a nested operation. An exception undoes the whole execution; the
  proposal is removed at its end, through a reference that the operations may have destroyed.
\<close>

definition push_proposal :: "(operation \<Rightarrow> chain \<Rightarrow> chain outcome) \<Rightarrow> proposal_object \<Rightarrow> chain \<Rightarrow> chain outcome" where
  "push_proposal apply p c =
     bindO (foldO apply (pro_proposed_operations p) c) (\<lambda>c.
     case find_by pro_id (pro_id p) (db_proposals (ch_db c)) of
       None \<Rightarrow> Stuck Dangling_reference
     | Some p \<Rightarrow> Done (c\<lparr>ch_db := remove_proposal p (ch_db c)\<rparr>))"

section \<open>Creation\<close>

definition STEEMIT_MAX_PROPOSAL_LIFETIME_SEC :: int where "STEEMIT_MAX_PROPOSAL_LIFETIME_SEC = 60 * 60 * 24 * 7 * 4"
definition STEEMIT_MAX_PROPOSAL_DEPTH :: nat where "STEEMIT_MAX_PROPOSAL_DEPTH = 2"

definition check_depth :: "node_flags \<Rightarrow> nat \<Rightarrow> unit res" where
  "check_depth nf depth = check_logic (is_producing nf \<longrightarrow> depth \<le> STEEMIT_MAX_PROPOSAL_DEPTH) ''proposal_depth_too_high''"

definition check_proposal_times :: "time_point_sec \<Rightarrow> time_point_sec \<Rightarrow> time_point_sec option \<Rightarrow> unit res" where
  "check_proposal_times now expiration review =
     seqR [check_param ''expiration_time'' (seqR
         [check_value (expiration > now) ''Proposal has already expired on creation.'',
          check_value (expiration \<le> time_plus now STEEMIT_MAX_PROPOSAL_LIFETIME_SEC)
            ''Proposal expiration time is too far in the future.'']),
       case review of None \<Rightarrow> Inr ()
       | Some t \<Rightarrow> check_param ''review_period_time'' (seqR
           [check_value (t > now) ''Proposal review period has expired on creation.'',
            check_value (t < expiration) ''Proposal review period must be less than its overall lifetime.''])]"

text \<open>The accounts that have to approve: active (less those that are owners), owner, posting.\<close>

definition required_approvals ::
  "operation list \<Rightarrow> database \<Rightarrow> (account_name_type list \<times> account_name_type list \<times> account_name_type list) res" where
  "required_approvals ops db =
     (let (active, own, posting, other) = get_required_authorities ops ([], [], [], []);
          active = filter (\<lambda>a. a \<notin> set own) active;
          total_set = fold flat_ins active (fold flat_ins own []) in
      bindR (ensure (other = []) (Internal_error ''other size > 0'')) (\<lambda>_.
      bindR (check_logic ((posting = []) \<noteq> (total_set = [])) ''tx_with_both_posting_active_ops'') (\<lambda>_.
      let total_set = fold flat_ins posting total_set in
      bindR (seqR (map (\<lambda>a. bindR (get_account a db) (\<lambda>_. Inr ())) total_set)) (\<lambda>_.
      bindR (ensure (total_set \<noteq> []) (Internal_error ''No operations require approvals'')) (\<lambda>_.
      Inr (active, own, posting))))))"

text \<open>The proposed operations are validated and applied on trial; the trial is undone.\<close>

fun apply_on_trial :: "(operation \<Rightarrow> chain \<Rightarrow> chain outcome) \<Rightarrow> nat \<Rightarrow> operation list \<Rightarrow> chain \<Rightarrow> unit outcome" where
  "apply_on_trial apply i [] c = Done ()"
| "apply_on_trial apply i (op # ops) c =
     (case apply op c of
        Done c \<Rightarrow> apply_on_trial apply (Suc i) ops c
      | Throws e \<Rightarrow> Throws (Tx_invalid_operation i)
      | Stuck s \<Rightarrow> Stuck s)"

definition trial_skip :: skip_flags where
  "trial_skip = or skip_authority_check (or skip_transaction_signatures skip_tapos_check)"

definition trial_transaction :: "operation list \<Rightarrow> database \<Rightarrow> signed_transaction" where
  "trial_transaction ops db = \<lparr>ref_block_num = 0, ref_block_prefix = 0,
     tx_expiration = time_plus (head_block_time db) STEEMIT_MAX_TIME_UNTIL_EXPIRATION, operations = ops, signatures = []\<rparr>"

definition try_transaction ::
  "(operation \<Rightarrow> chain \<Rightarrow> chain outcome) \<Rightarrow> fc_lib \<Rightarrow> tx_lib \<Rightarrow> node_flags \<Rightarrow> operation list \<Rightarrow> chain \<Rightarrow> unit outcome" where
  "try_transaction apply fc cr nf ops c =
     (let trx = trial_transaction ops (ch_db c); skip = or trial_skip skip_validate_operations in
      bindO (of_res (
        bindR (validate_transaction fc cr nf trial_skip trx c) (\<lambda>_.
        bindR (ensure (\<not> known_transaction (signed_tx_id cr trx) c) (Tx_exception ''tx_duplicate_transaction'')) (\<lambda>_.
        bindR (validate_transaction fc cr nf skip trx c) (\<lambda>_.
        bindR (foldR (charge_account fc nf (operations trx) (length (pack_signed_transaction cr trx)))
          (required_accounts (operations trx)) c) (\<lambda>c.
        Inr (remember_transaction cr trx c))))))) (\<lambda>c.
      apply_on_trial apply 0 ops c))"

text \<open>The indices by identifier and by author and title are unique.\<close>

definition create_proposal :: "proposal_object \<Rightarrow> database \<Rightarrow> database res" where
  "create_proposal p db =
     bindR (create_in pro_id p (db_proposals db)) (\<lambda>_.
     bindR (create_in pro_key p (db_proposals db)) (\<lambda>ps.
     foldR (\<lambda>a db.
       bindR (create_in rap_key \<lparr>rap_id = db_next_id db required_approval_object_type, rap_account = a,
         rap_proposal = pro_id p\<rparr> (db_required_approvals db)) (\<lambda>rs.
       Inr (bump_id required_approval_object_type (db\<lparr>db_required_approvals := rs\<rparr>))))
       (pro_required_total p) (bump_id proposal_object_type (db\<lparr>db_proposals := ps\<rparr>))))"

definition proposal_create_evaluator ::
  "(operation \<Rightarrow> chain \<Rightarrow> chain outcome) \<Rightarrow> fc_lib \<Rightarrow> tx_lib \<Rightarrow> node_flags \<Rightarrow> nat \<Rightarrow> account_name_type \<Rightarrow> string \<Rightarrow> string \<Rightarrow>
   operation list \<Rightarrow> time_point_sec \<Rightarrow> time_point_sec option \<Rightarrow> chain \<Rightarrow> chain outcome" where
  "proposal_create_evaluator apply fc cr nf depth author title memo ops expiration review c =
     (let db = ch_db c in
      bindO (of_res (
        bindR (check_depth nf depth) (\<lambda>_.
        bindR (throw_if_exists_proposal author title db) (\<lambda>_.
        bindR (check_proposal_times (head_block_time db) expiration review) (\<lambda>_.
        required_approvals ops db))))) (\<lambda>(active, own, posting).
      bindO (try_transaction apply fc cr nf ops c) (\<lambda>_.
      of_res (bindR (create_proposal \<lparr>pro_id = db_next_id db proposal_object_type, pro_author = author, pro_title = title,
          pro_memo = memo, pro_expiration_time = expiration, pro_review_period_time = review, pro_proposed_operations = ops,
          pro_required_active_approvals = active, pro_available_active_approvals = [],
          pro_required_owner_approvals = own, pro_available_owner_approvals = [],
          pro_required_posting_approvals = posting, pro_available_posting_approvals = [],
          pro_available_key_approvals = []\<rparr> db) (\<lambda>db.
        Inr (c\<lparr>ch_db := db\<rparr>))))))"

section \<open>Update and deletion\<close>

definition adds_approvals :: "proposal_update_operation \<Rightarrow> bool" where
  "adds_approvals op \<longleftrightarrow> pup_owner_approvals_to_add op \<noteq> [] \<or> pup_active_approvals_to_add op \<noteq> [] \<or>
     pup_posting_approvals_to_add op \<noteq> [] \<or> pup_key_approvals_to_add op \<noteq> []"

definition check_existing :: "string list \<Rightarrow> string list \<Rightarrow> unit res" where
  "check_existing to_remove dst = seqR (map (\<lambda>a. check_logic (a \<in> set dst) ''non_existing_approval'') to_remove)"

definition check_duplicate :: "string list \<Rightarrow> string list \<Rightarrow> unit res" where
  "check_duplicate to_add dst = seqR (map (\<lambda>a. check_logic (a \<notin> set dst) ''already_existing_approval'') to_add)"

definition in_review :: "proposal_object \<Rightarrow> time_point_sec \<Rightarrow> bool" where
  "in_review p now = (case pro_review_period_time p of None \<Rightarrow> False | Some t \<Rightarrow> now \<ge> t)"

definition check_approvals :: "proposal_update_operation \<Rightarrow> proposal_object \<Rightarrow> time_point_sec \<Rightarrow> unit res" where
  "check_approvals op p now =
     seqR [check_logic (in_review p now \<longrightarrow> \<not> adds_approvals op) ''cannot_add_approval_in_review_period'',
       check_existing (pup_active_approvals_to_remove op) (pro_available_active_approvals p),
       check_existing (pup_owner_approvals_to_remove op) (pro_available_owner_approvals p),
       check_existing (pup_posting_approvals_to_remove op) (pro_available_posting_approvals p),
       check_existing (pup_key_approvals_to_remove op) (pro_available_key_approvals p),
       check_duplicate (pup_active_approvals_to_add op) (pro_available_active_approvals p),
       check_duplicate (pup_owner_approvals_to_add op) (pro_available_owner_approvals p),
       check_duplicate (pup_posting_approvals_to_add op) (pro_available_posting_approvals p),
       check_duplicate (pup_key_approvals_to_add op) (pro_available_key_approvals p)]"

definition remove_existing :: "string list \<Rightarrow> string list \<Rightarrow> string list" where
  "remove_existing first second = filter (\<lambda>x. x \<notin> set second) first"

definition update_approvals :: "proposal_update_operation \<Rightarrow> proposal_object \<Rightarrow> proposal_object" where
  "update_approvals op p = p\<lparr>
     pro_available_active_approvals := remove_existing
       (fold flat_ins (pup_active_approvals_to_add op) (pro_available_active_approvals p)) (pup_active_approvals_to_remove op),
     pro_available_owner_approvals := remove_existing
       (fold flat_ins (pup_owner_approvals_to_add op) (pro_available_owner_approvals p)) (pup_owner_approvals_to_remove op),
     pro_available_posting_approvals := remove_existing
       (fold flat_ins (pup_posting_approvals_to_add op) (pro_available_posting_approvals p)) (pup_posting_approvals_to_remove op),
     pro_available_key_approvals := remove_existing
       (fold flat_ins (pup_key_approvals_to_add op) (pro_available_key_approvals p)) (pup_key_approvals_to_remove op)\<rparr>"

definition no_approvals :: "proposal_object \<Rightarrow> bool" where
  "no_approvals p \<longleftrightarrow> pro_available_active_approvals p = [] \<and> pro_available_owner_approvals p = [] \<and>
     pro_available_posting_approvals p = [] \<and> pro_available_key_approvals p = []"

text \<open>A proposal with a review period is not executed by an approval, only when it expires.\<close>

definition proposal_update_evaluator ::
  "(operation \<Rightarrow> chain \<Rightarrow> chain outcome) \<Rightarrow> node_flags \<Rightarrow> nat \<Rightarrow> proposal_update_operation \<Rightarrow> chain \<Rightarrow> chain outcome" where
  "proposal_update_evaluator apply nf depth op c =
     (let db = ch_db c; now = head_block_time db in
      bindO (of_res (
        bindR (check_depth nf depth) (\<lambda>_.
        bindR (get_proposal (pup_author op) (pup_title op) db) (\<lambda>p.
        bindR (check_approvals op p now) (\<lambda>_. Inr p))))) (\<lambda>p.
      let p = update_approvals op p; db = set_proposal p db; c = c\<lparr>ch_db := db\<rparr> in
      if pro_review_period_time p \<noteq> None then
        Done (if in_review p now \<and> no_approvals p then c\<lparr>ch_db := remove_proposal p db\<rparr> else c)
      else
        bindO (of_res (assert_irrelevant_proposal_authority p op db)) (\<lambda>_.
        if is_authorized_to_execute p db then
          case push_proposal apply p c of Throws e \<Rightarrow> Done c | r \<Rightarrow> r
        else Done c)))"

definition proposal_delete_evaluator :: "proposal_delete_operation \<Rightarrow> database \<Rightarrow> database res" where
  "proposal_delete_evaluator op db =
     bindR (get_proposal (pde_author op) (pde_title op) db) (\<lambda>p.
     bindR (check_logic (pro_author p = pde_requester op \<or>
       pde_requester op \<in> set (pro_required_active_approvals p @ pro_required_owner_approvals p @
         pro_required_posting_approvals p)) ''proposal_delete_not_allowed'') (\<lambda>_.
     Inr (remove_proposal p db)))"

section \<open>The registry with proposals\<close>

text \<open>
  The bound \<open>n\<close> is the number of evaluators that may be active at once; \<open>dc\<close> and \<open>du\<close> count the
  active evaluators of creations and of updates.
\<close>

primrec apply_operation ::
  "fc_lib \<Rightarrow> tx_lib \<Rightarrow> node_flags \<Rightarrow> nat \<Rightarrow> nat \<Rightarrow> nat \<Rightarrow> operation \<Rightarrow> chain \<Rightarrow> chain outcome" where
  "apply_operation fc cr nf 0 = (\<lambda>dc du op c. Stuck Out_of_fuel)"
| "apply_operation fc cr nf (Suc n) = (\<lambda>dc du op c.
     case op of
       Op_proposal_create author title memo ops expiration review _ \<Rightarrow>
         proposal_create_evaluator (apply_operation fc cr nf n (Suc dc) du) fc cr nf (Suc dc)
           author title memo ops expiration review c
     | Op_proposal_update u \<Rightarrow> proposal_update_evaluator (apply_operation fc cr nf n dc (Suc du)) nf (Suc du) u c
     | Op_proposal_delete d \<Rightarrow>
         of_res (bindR (proposal_delete_evaluator d (ch_db c)) (\<lambda>db. Inr (c\<lparr>ch_db := db\<rparr>)))
     | _ \<Rightarrow>
         (case evaluate fc nf op (ch_db c) of
            None \<Rightarrow> Stuck No_model
          | Some r \<Rightarrow> of_res (bindR r (\<lambda>db. Inr (c\<lparr>ch_db := db\<rparr>)))))"

section \<open>Expiration\<close>

definition expires_before :: "proposal_object \<Rightarrow> proposal_object \<Rightarrow> bool" where
  "expires_before a b \<longleftrightarrow> pro_expiration_time a < pro_expiration_time b \<or>
     pro_expiration_time a = pro_expiration_time b \<and> pro_id a < pro_id b"

definition next_expired :: "database \<Rightarrow> proposal_object option" where
  "next_expired db =
     (case sort_by expires_before (db_proposals db) of
        [] \<Rightarrow> None
      | p # _ \<Rightarrow> if pro_expiration_time p \<le> head_block_time db then Some p else None)"

text \<open>
  A proposal that fails on its expiration is removed. The failed execution has been undone, and with
  it a deletion of the proposal by its own operations; the removal then goes through the reference
  taken before, on the assumption stated at the head of this theory.
\<close>

definition expire_proposal :: "(operation \<Rightarrow> chain \<Rightarrow> chain outcome) \<Rightarrow> proposal_object \<Rightarrow> chain \<Rightarrow> chain outcome" where
  "expire_proposal apply p c =
     (let removed = c\<lparr>ch_db := remove_proposal p (ch_db c)\<rparr> in
      if is_authorized_to_execute p (ch_db c) then
        case push_proposal apply p c of Throws e \<Rightarrow> Done removed | r \<Rightarrow> r
      else Done removed)"

text \<open>Every round removes a proposal and none makes another one expire.\<close>

fun clear_expired_loop :: "(operation \<Rightarrow> chain \<Rightarrow> chain outcome) \<Rightarrow> nat \<Rightarrow> chain \<Rightarrow> chain outcome" where
  "clear_expired_loop apply rounds c =
     (case next_expired (ch_db c) of
        None \<Rightarrow> Done c
      | Some p \<Rightarrow> (case rounds of
            0 \<Rightarrow> Stuck Out_of_fuel
          | Suc k \<Rightarrow> bindO (expire_proposal apply p c) (clear_expired_loop apply k)))"

declare clear_expired_loop.simps [simp del]

definition clear_expired_proposals :: "fc_lib \<Rightarrow> tx_lib \<Rightarrow> node_flags \<Rightarrow> nat \<Rightarrow> chain \<Rightarrow> chain outcome" where
  "clear_expired_proposals fc cr nf n c =
     clear_expired_loop (apply_operation fc cr nf n 0 0) (length (db_proposals (ch_db c))) c"

end
