(* ===== verification/Proposal_Runs.thy ===== *)
theory Proposal_Runs
  imports Proposals Frame Transaction_Properties
begin

text \<open>
  What a run of operations with nested proposals keeps is shown once, in the locale
  \<open>proposal_run\<close>, from what the basic steps keep: the operations without proposals, a change of
  approvals, a removal and a creation. Its interpretations are the conservation of tokens and the
  records of required approvals. A greater bound on the nesting never changes an outcome, and on
  a producing node the limits on depth bound the nesting.
\<close>

section \<open>Outcomes\<close>

lemma bindO_simps [simp]: "bindO (Done x) f = f x" "bindO (Throws e) f = Throws e" "bindO (Stuck s) f = Stuck s"
  by (simp_all add: bindO_def)

lemma of_res_simps [simp]: "of_res (Inr x) = Done x" "of_res (Inl e) = Throws e"
  by (simp_all add: of_res_def)

lemma bindO_Done: "bindO m f = Done y \<longleftrightarrow> (\<exists>x. m = Done x \<and> f x = Done y)"
  by (cases m) auto

lemma bindO_Stuck: "bindO m f = Stuck s \<longleftrightarrow> m = Stuck s \<or> (\<exists>x. m = Done x \<and> f x = Stuck s)"
  by (cases m) auto

lemma of_res_Done [simp]: "of_res r = Done x \<longleftrightarrow> r = Inr x"
  by (cases r) auto

lemma of_res_Stuck [simp]: "of_res r \<noteq> Stuck s"
  by (cases r) auto

section \<open>The registry\<close>

definition proposal_operation :: "operation \<Rightarrow> bool" where
  "proposal_operation op \<longleftrightarrow> (case op of Op_proposal_create _ _ _ _ _ _ _ \<Rightarrow> True | Op_proposal_update _ \<Rightarrow> True
     | Op_proposal_delete _ \<Rightarrow> True | _ \<Rightarrow> False)"

lemma apply_operation_proposals [simp]:
  "apply_operation fc cr nf (Suc n) dc du (Op_proposal_create author title memo ops expiration review x) c =
     proposal_create_evaluator (apply_operation fc cr nf n (Suc dc) du) fc cr nf (Suc dc) author title memo ops expiration review c"
  "apply_operation fc cr nf (Suc n) dc du (Op_proposal_update u) c =
     proposal_update_evaluator (apply_operation fc cr nf n dc (Suc du)) nf (Suc du) u c"
  "apply_operation fc cr nf (Suc n) dc du (Op_proposal_delete d) c =
     of_res (bindR (proposal_delete_evaluator d (ch_db c)) (\<lambda>db. Inr (c\<lparr>ch_db := db\<rparr>)))"
  by simp_all

lemma apply_operation_other:
  "\<not> proposal_operation op \<Longrightarrow> apply_operation fc cr nf (Suc n) dc du op c =
     (case evaluate fc nf op (ch_db c) of None \<Rightarrow> Stuck No_model
      | Some r \<Rightarrow> of_res (bindR r (\<lambda>db. Inr (c\<lparr>ch_db := db\<rparr>))))"
  by (cases op) (simp_all add: proposal_operation_def)

declare apply_operation.simps(2) [simp del]

lemma proposal_operation_cases:
  obtains (create) author title memo ops expiration review x where "op = Op_proposal_create author title memo ops expiration review x"
  | (update) u where "op = Op_proposal_update u" | (delete) d where "op = Op_proposal_delete d"
  | (other) "\<not> proposal_operation op"
  by (cases op) (auto simp: proposal_operation_def)

section \<open>Runs with nested proposals\<close>

abbreviation with_db :: "chain \<Rightarrow> database \<Rightarrow> chain" where
  "with_db c db \<equiv> c\<lparr>ch_db := db\<rparr>"

abbreviation proposals_of :: "chain \<Rightarrow> proposal_object set" where
  "proposals_of c \<equiv> set (db_proposals (ch_db c))"

text \<open>
  \<open>inv\<close> holds at every step, \<open>keeps\<close> relates the states before and after, \<open>good\<close> is what is known of
  an operation that is applied.
\<close>

locale proposal_run =
  fixes fc :: fc_lib and nf :: node_flags
    and good :: "operation \<Rightarrow> bool" and inv :: "chain \<Rightarrow> bool" and keeps :: "chain \<Rightarrow> chain \<Rightarrow> bool"
  assumes keeps_refl: "inv c \<Longrightarrow> keeps c c"
    and keeps_trans: "keeps c d \<Longrightarrow> keeps d d2 \<Longrightarrow> keeps c d2"
    and keeps_inv: "inv c \<Longrightarrow> keeps c d \<Longrightarrow> inv d"
    and stored_good: "inv c \<Longrightarrow> p \<in> proposals_of c \<Longrightarrow> op \<in> set (pro_proposed_operations p) \<Longrightarrow> good op"
    and base_keeps: "inv c \<Longrightarrow> good op \<Longrightarrow> evaluate fc nf op (ch_db c) = Some (Inr db) \<Longrightarrow> keeps c (with_db c db)"
    and update_keeps: "inv c \<Longrightarrow> p \<in> proposals_of c \<Longrightarrow> keeps c (with_db c (set_proposal (update_approvals u p) (ch_db c)))"
    and remove_keeps: "inv c \<Longrightarrow> p \<in> proposals_of c \<Longrightarrow> keeps c (with_db c (remove_proposal p (ch_db c)))"
    and create_keeps: "inv c \<Longrightarrow> good (Op_proposal_create author title memo (pro_proposed_operations p) e r x) \<Longrightarrow>
      head_block_time (ch_db c) < pro_expiration_time p \<Longrightarrow> create_proposal p (ch_db c) = Inr db \<Longrightarrow> keeps c (with_db c db)"
begin

definition good_apply :: "(operation \<Rightarrow> chain \<Rightarrow> chain outcome) \<Rightarrow> bool" where
  "good_apply apply \<longleftrightarrow> (\<forall>op c d. good op \<longrightarrow> inv c \<longrightarrow> apply op c = Done d \<longrightarrow> keeps c d)"

lemma fold_keeps:
  assumes "good_apply apply"
  shows "foldO apply ops c = Done d \<Longrightarrow> inv c \<Longrightarrow> \<forall>op \<in> set ops. good op \<Longrightarrow> keeps c d"
proof (induction ops arbitrary: c)
  case (Cons op ops)
  then obtain c1 where run: "apply op c = Done c1" "foldO apply ops c1 = Done d" by (auto simp: bindO_Done)
  have k: "keeps c c1" using run(1) Cons.prems assms by (auto simp: good_apply_def)
  from keeps_trans [OF k Cons.IH [OF run(2)]] keeps_inv [OF Cons.prems(2) k] Cons.prems(3) show ?case by simp
qed (simp add: keeps_refl)

lemma push_keeps:
  assumes "good_apply apply" "inv c" "p \<in> proposals_of c" "push_proposal apply p c = Done d"
  shows "keeps c d"
proof -
  obtain c1 p1 where run: "foldO apply (pro_proposed_operations p) c = Done c1"
    "find_by pro_id (pro_id p) (db_proposals (ch_db c1)) = Some p1" "d = with_db c1 (remove_proposal p1 (ch_db c1))"
    using assms(4) by (auto simp: push_proposal_def bindO_Done split: option.split_asm)
  have k: "keeps c c1" using fold_keeps [OF assms(1) run(1) assms(2)] stored_good [OF assms(2,3)] by blast
  have "p1 \<in> proposals_of c1" using run(2) by (auto dest: find_by_Some)
  from keeps_trans [OF k remove_keeps [OF keeps_inv [OF assms(2) k] this]] run(3) show ?thesis by simp
qed

lemma update_evaluator_keeps:
  assumes "good_apply apply" "inv c" "proposal_update_evaluator apply nf depth u c = Done d"
  shows "keeps c d"
proof -
  obtain p where p: "find_proposal (pup_author u) (pup_title u) (ch_db c) = Some p"
    and run: "(let p = update_approvals u p; db = set_proposal p (ch_db c); c' = with_db c db; now = head_block_time (ch_db c) in
      if pro_review_period_time p \<noteq> None then
        Done (if in_review p now \<and> no_approvals p then with_db c' (remove_proposal p db) else c')
      else
        bindO (of_res (assert_irrelevant_proposal_authority p u db)) (\<lambda>_.
        if is_authorized_to_execute p db then
          case push_proposal apply p c' of Throws e \<Rightarrow> Done c' | r \<Rightarrow> r
        else Done c')) = Done d"
    using assms(3) by (auto simp: proposal_update_evaluator_def get_proposal_def bindO_Done Let_def)
  let ?p = "update_approvals u p" let ?c = "with_db c (set_proposal ?p (ch_db c))"
  have p0: "p \<in> proposals_of c" using p by (auto simp: find_proposal_def dest: find_by_Some)
  have k: "keeps c ?c" by (rule update_keeps [OF assms(2) p0])
  note i = keeps_inv [OF assms(2) k]
  have "pro_id ?p = pro_id p" by (simp add: update_approvals_def)
  then have p1: "?p \<in> proposals_of ?c" using p0 by (auto simp: set_proposal_def upd_by_def image_iff)
  have "keeps ?c d"
    using run remove_keeps [OF i p1] push_keeps [OF assms(1) i p1] keeps_refl [OF i]
    by (auto simp: Let_def bindO_Done split: if_split_asm outcome.split_asm)
  then show ?thesis by (rule keeps_trans [OF k])
qed

lemma create_evaluator_keeps:
  assumes "inv c" "good (Op_proposal_create author title memo ops expiration review x)"
    "proposal_create_evaluator apply fc cr nf depth author title memo ops expiration review c = Done d"
  shows "keeps c d"
proof -
  obtain p db where run: "create_proposal p (ch_db c) = Inr db" "d = with_db c db" "pro_proposed_operations p = ops"
    "pro_expiration_time p = expiration" "check_proposal_times (head_block_time (ch_db c)) expiration review = Inr ()"
    using assms(3) by (fastforce simp: proposal_create_evaluator_def bindO_Done Let_def)
  then have "head_block_time (ch_db c) < pro_expiration_time p" by (simp add: check_proposal_times_def check_value_def)
  then show ?thesis using create_keeps [OF assms(1) _ _ run(1)] assms(2) run(2,3) by simp
qed

lemma delete_evaluator_keeps:
  assumes "inv c" "proposal_delete_evaluator d (ch_db c) = Inr db"
  shows "keeps c (with_db c db)"
  using assms remove_keeps [OF assms(1)]
  by (auto simp: proposal_delete_evaluator_def get_proposal_def find_proposal_def dest: find_by_Some)

lemma apply_keeps: "good_apply (apply_operation fc cr nf n dc du)"
proof (induction n arbitrary: dc du)
  case 0
  then show ?case by (simp add: good_apply_def)
next
  case (Suc n)
  show ?case
    unfolding good_apply_def
  proof (intro allI impI)
    fix op c d
    assume h: "good op" "inv c" "apply_operation fc cr nf (Suc n) dc du op c = Done d"
    show "keeps c d"
    proof (cases op rule: proposal_operation_cases)
      case create
      then show ?thesis using h create_evaluator_keeps by auto
    next
      case update
      then show ?thesis using h update_evaluator_keeps [OF Suc] by auto
    next
      case delete
      then show ?thesis using h delete_evaluator_keeps by auto
    next
      case other
      then show ?thesis using h base_keeps by (auto simp: apply_operation_other split: option.split_asm)
    qed
  qed
qed

lemma expire_keeps:
  assumes "good_apply apply" "inv c" "p \<in> proposals_of c" "expire_proposal apply p c = Done d"
  shows "keeps c d"
  using assms(4) push_keeps [OF assms(1-3)] remove_keeps [OF assms(2,3)]
  by (auto simp: expire_proposal_def Let_def split: if_split_asm outcome.split_asm)

lemma next_expired_stored: "next_expired (ch_db c) = Some p \<Longrightarrow> p \<in> proposals_of c"
proof -
  assume "next_expired (ch_db c) = Some p"
  then obtain ps where q: "sort_by expires_before (db_proposals (ch_db c)) = p # ps"
    by (auto simp: next_expired_def split: list.split_asm if_split_asm)
  have "p \<in> set (sort_by expires_before (db_proposals (ch_db c)))" unfolding q by simp
  then show ?thesis by simp
qed

lemma clear_loop_keeps:
  assumes "good_apply apply"
  shows "clear_expired_loop apply rounds c = Done d \<Longrightarrow> inv c \<Longrightarrow> keeps c d"
proof (induction rounds arbitrary: c)
  case 0
  then show ?case by (auto simp: clear_expired_loop.simps [of "apply" 0] keeps_refl split: option.split_asm)
next
  case (Suc k)
  show ?case
  proof (cases "next_expired (ch_db c)")
    case None
    then show ?thesis using Suc.prems by (simp add: clear_expired_loop.simps [of "apply" "Suc k"] keeps_refl)
  next
    case (Some p)
    then obtain c1 where run: "expire_proposal apply p c = Done c1" "clear_expired_loop apply k c1 = Done d"
      using Suc.prems(1) by (auto simp: clear_expired_loop.simps [of "apply" "Suc k"] bindO_Done)
    note k = expire_keeps [OF assms Suc.prems(2) next_expired_stored [OF Some] run(1)]
    from keeps_trans [OF k Suc.IH [OF run(2) keeps_inv [OF Suc.prems(2) k]]] show ?thesis .
  qed
qed

lemma clear_expired_keeps: "clear_expired_proposals fc cr nf n c = Done d \<Longrightarrow> inv c \<Longrightarrow> keeps c d"
  unfolding clear_expired_proposals_def by (rule clear_loop_keeps [OF apply_keeps])

end

section \<open>Tokens\<close>

text \<open>The operations that wait in proposals are valid.\<close>

definition stored_valid :: "fc_lib \<Rightarrow> crypto_lib \<Rightarrow> chain \<Rightarrow> bool" where
  "stored_valid fc cr c \<longleftrightarrow> (\<forall>p \<in> proposals_of c. \<forall>op \<in> set (pro_proposed_operations p). operation_validate fc cr op = Inr ())"

definition funds_inv :: "fc_lib \<Rightarrow> crypto_lib \<Rightarrow> chain \<Rightarrow> bool" where
  "funds_inv fc cr c \<longleftrightarrow> fc_safe fc \<and> ledger_ok (ch_db c) \<and> stored_valid fc cr c"

definition funds_keep :: "fc_lib \<Rightarrow> crypto_lib \<Rightarrow> chain \<Rightarrow> chain \<Rightarrow> bool" where
  "funds_keep fc cr c d \<longleftrightarrow> moves (ch_db c) (ch_db d) 0 0 0 \<and> (stored_valid fc cr c \<longrightarrow> stored_valid fc cr d)"

definition valid_op :: "fc_lib \<Rightarrow> crypto_lib \<Rightarrow> operation \<Rightarrow> bool" where
  "valid_op fc cr op \<longleftrightarrow> operation_validate fc cr op = Inr ()"

lemma moves_next_id: "moves db (db'\<lparr>db_next_id := f\<rparr>) s g v = moves db db' s g v"
  by (simp add: moves_def gap_steem_def gap_sbd_def gap_vests_def held_def ledger_ok_def)

interpretation stored: frame "\<lambda>db. (db_proposals db, db_required_approvals db)"
  by unfold_locales simp_all

lemma evaluate_stored:
  assumes "evaluate fc nf op db = Some (Inr db')"
  shows "db_proposals db' = db_proposals db" "db_required_approvals db' = db_required_approvals db"
    "head_block_time db' = head_block_time db"
proof -
  show "db_proposals db' = db_proposals db" "db_required_approvals db' = db_required_approvals db"
    using stored.evaluate_view [OF assms] by simp_all
  have "dgp_time (dgp_frame (db_dgp d)) = head_block_time d" for d
    by (simp add: dgp_frame_def dgp_funds_def head_block_time_def)
  then show "head_block_time db' = head_block_time db" using clock.evaluate_view [OF assms] by (metis prod.inject)
qed

text \<open>A creation adds one proposal and its records; nothing else changes.\<close>

definition same_rest :: "database \<Rightarrow> database \<Rightarrow> bool" where
  "same_rest db db' \<longleftrightarrow> db'\<lparr>db_proposals := [], db_required_approvals := [], db_next_id := (\<lambda>_. 0)\<rparr> =
     db\<lparr>db_proposals := [], db_required_approvals := [], db_next_id := (\<lambda>_. 0)\<rparr>"

lemma same_rest_moves: "same_rest db db' \<Longrightarrow> moves d db' s g v = moves d db s g v"
proof -
  have "moves d (x\<lparr>db_proposals := [], db_required_approvals := [], db_next_id := (\<lambda>_. 0)\<rparr>) s g v = moves d x s g v" for x
    by (simp add: moves_next_id)
  then show "same_rest db db' \<Longrightarrow> moves d db' s g v = moves d db s g v" unfolding same_rest_def by metis
qed

lemma same_rest_time: "same_rest db db' \<Longrightarrow> head_block_time db' = head_block_time db"
proof -
  have "head_block_time (x\<lparr>db_proposals := [], db_required_approvals := [], db_next_id := (\<lambda>_. 0)\<rparr>) = head_block_time x" for x
    by (simp add: head_block_time_def)
  then show "same_rest db db' \<Longrightarrow> head_block_time db' = head_block_time db" unfolding same_rest_def by metis
qed

definition add_record :: "nat \<Rightarrow> account_name_type \<Rightarrow> database \<Rightarrow> database res" where
  "add_record i a db = bindR (create_in rap_key \<lparr>rap_id = db_next_id db required_approval_object_type, rap_account = a,
     rap_proposal = i\<rparr> (db_required_approvals db)) (\<lambda>rs.
     Inr (bump_id required_approval_object_type (db\<lparr>db_required_approvals := rs\<rparr>)))"

lemma add_records:
  "foldR (add_record i) as db = Inr db' \<Longrightarrow> same_rest db db' \<and> db_proposals db' = db_proposals db \<and>
   map rap_key (db_required_approvals db') = map rap_key (db_required_approvals db) @ map (\<lambda>a. (a, i)) as \<and>
   (distinct (map rap_key (db_required_approvals db)) \<longrightarrow> distinct (map rap_key (db_required_approvals db')))"
proof (induction as arbitrary: db)
  case Nil
  then show ?case by (simp add: same_rest_def)
next
  case (Cons a as)
  then obtain db1 where run: "add_record i a db = Inr db1" "foldR (add_record i) as db1 = Inr db'" by auto
  have one: "same_rest db db1" "db_proposals db1 = db_proposals db"
    "map rap_key (db_required_approvals db1) = map rap_key (db_required_approvals db) @ [(a, i)]"
    "distinct (map rap_key (db_required_approvals db)) \<Longrightarrow> distinct (map rap_key (db_required_approvals db1))"
    using run(1) by (auto simp: add_record_def create_in_def same_rest_def bump_id_def rap_key_def find_by_None
        split: if_split_asm)
  note rest = Cons.IH [OF run(2)]
  show ?case
  proof (intro conjI impI)
    show "same_rest db db'" using rest one(1) by (simp add: same_rest_def)
    show "distinct (map rap_key (db_required_approvals db'))" if "distinct (map rap_key (db_required_approvals db))"
      using rest one(4) [OF that] by blast
  qed (use rest one in auto)
qed

lemma create_proposal_effect:
  assumes "create_proposal p db = Inr db'"
  shows "same_rest db db'" "db_proposals db' = db_proposals db @ [p]" "pro_id p \<notin> pro_id ` set (db_proposals db)"
    "map rap_key (db_required_approvals db') = map rap_key (db_required_approvals db) @ map (\<lambda>a. (a, pro_id p)) (pro_required_total p)"
    "distinct (map rap_key (db_required_approvals db)) \<Longrightarrow> distinct (map rap_key (db_required_approvals db'))"
proof -
  let ?db = "bump_id proposal_object_type (db\<lparr>db_proposals := db_proposals db @ [p]\<rparr>)"
  have run: "foldR (add_record (pro_id p)) (pro_required_total p) ?db = Inr db'" "pro_id p \<notin> pro_id ` set (db_proposals db)"
    using assms unfolding create_proposal_def add_record_def [abs_def] by (auto simp: create_in_def find_by_None split: if_split_asm)
  have d: "same_rest db ?db" "db_proposals ?db = db_proposals db @ [p]" "db_required_approvals ?db = db_required_approvals db"
    by (simp_all add: same_rest_def bump_id_def)
  note r = add_records [OF run(1)]
  show "same_rest db db'" using r d(1) by (simp add: same_rest_def)
  show "db_proposals db' = db_proposals db @ [p]" "pro_id p \<notin> pro_id ` set (db_proposals db)"
    "map rap_key (db_required_approvals db') = map rap_key (db_required_approvals db) @ map (\<lambda>a. (a, pro_id p)) (pro_required_total p)"
    using r d run(2) by auto
  show "distinct (map rap_key (db_required_approvals db')) " if "distinct (map rap_key (db_required_approvals db))"
    using r that unfolding d(3) by blast
qed

lemma create_validated:
  "operation_validate fc cr (Op_proposal_create author title memo ops e r x) = Inr () \<Longrightarrow> op \<in> set ops \<Longrightarrow>
   operation_validate fc cr op = Inr ()"
  by (auto simp: proposal_create_validate_def)

interpretation funds_run: proposal_run fc nf "valid_op fc cr" "funds_inv fc cr" "funds_keep fc cr" for fc nf cr
proof unfold_locales
  show "funds_inv fc cr c \<Longrightarrow> funds_keep fc cr c c" for c
    by (simp add: funds_inv_def funds_keep_def moves_refl)
  show "funds_keep fc cr c d \<Longrightarrow> funds_keep fc cr d e \<Longrightarrow> funds_keep fc cr c e" for c d e
    using moves_trans [of "ch_db c" "ch_db d" 0 0 0 "ch_db e" 0 0 0] by (auto simp: funds_keep_def)
  show "funds_inv fc cr c \<Longrightarrow> funds_keep fc cr c d \<Longrightarrow> funds_inv fc cr d" for c d
    by (auto simp: funds_inv_def funds_keep_def intro: moves_ok)
  show "funds_inv fc cr c \<Longrightarrow> p \<in> proposals_of c \<Longrightarrow> op \<in> set (pro_proposed_operations p) \<Longrightarrow> valid_op fc cr op" for c p op
    by (simp add: funds_inv_def stored_valid_def valid_op_def)
  show "funds_inv fc cr c \<Longrightarrow> valid_op fc cr op \<Longrightarrow> evaluate fc nf op (ch_db c) = Some (Inr db) \<Longrightarrow>
      funds_keep fc cr c (with_db c db)" for c op db
    using evaluate_moves [of fc "ch_db c" cr op nf db] evaluate_stored [of fc nf op "ch_db c" db]
    by (simp add: funds_inv_def funds_keep_def valid_op_def stored_valid_def)
  show "funds_inv fc cr c \<Longrightarrow> p \<in> proposals_of c \<Longrightarrow>
      funds_keep fc cr c (with_db c (set_proposal (update_approvals u p) (ch_db c)))" for c p u
    by (auto simp: funds_inv_def funds_keep_def set_proposal_def moves_refl stored_valid_def update_approvals_def dest!: set_upd_by)
  show "funds_inv fc cr c \<Longrightarrow> p \<in> proposals_of c \<Longrightarrow> funds_keep fc cr c (with_db c (remove_proposal p (ch_db c)))" for c p
    by (auto simp: funds_inv_def funds_keep_def remove_proposal_def moves_refl stored_valid_def dest!: set_del_by)
  show "funds_inv fc cr c \<Longrightarrow> valid_op fc cr (Op_proposal_create author title memo (pro_proposed_operations p) e r x) \<Longrightarrow>
      head_block_time (ch_db c) < pro_expiration_time p \<Longrightarrow> create_proposal p (ch_db c) = Inr db \<Longrightarrow>
      funds_keep fc cr c (with_db c db)" for c author title memo p e r x db
    using create_proposal_effect [of p "ch_db c" db] same_rest_moves [of "ch_db c" db "ch_db c"] create_validated
    by (auto simp: funds_inv_def funds_keep_def valid_op_def stored_valid_def moves_refl)
qed

section \<open>Records of required approvals\<close>

text \<open>What the records depend on: identifier, required accounts and expiration of every proposal.\<close>

definition terms_of :: "database \<Rightarrow> (nat \<times> account_name_type list \<times> time_point_sec) list" where
  "terms_of db = map (\<lambda>p. (pro_id p, pro_required_total p, pro_expiration_time p)) (db_proposals db)"

definition records_needed :: "database \<Rightarrow> (account_name_type \<times> nat) set" where
  "records_needed db = {(a, i). \<exists>as t. (i, as, t) \<in> set (terms_of db) \<and> a \<in> set as}"

text \<open>
  There is exactly one record for every account that a proposal requires, and no other record.
\<close>

definition records_ok :: "database \<Rightarrow> bool" where
  "records_ok db \<longleftrightarrow> distinct (map fst (terms_of db)) \<and> distinct (map rap_key (db_required_approvals db)) \<and>
     rap_key ` set (db_required_approvals db) = records_needed db"

definition expired_ids :: "database \<Rightarrow> nat set" where
  "expired_ids db = {i. \<exists>as t. (i, as, t) \<in> set (terms_of db) \<and> t \<le> head_block_time db}"

definition records_keep :: "chain \<Rightarrow> chain \<Rightarrow> bool" where
  "records_keep c d \<longleftrightarrow> records_ok (ch_db d) \<and> head_block_time (ch_db d) = head_block_time (ch_db c) \<and>
     expired_ids (ch_db d) \<subseteq> expired_ids (ch_db c)"

lemma terms_ids: "map fst (terms_of db) = map pro_id (db_proposals db)"
  by (simp add: terms_of_def comp_def)

lemma update_terms:
  assumes "distinct (map pro_id (db_proposals db))" "p \<in> set (db_proposals db)"
  shows "terms_of (set_proposal (update_approvals u p) db) = terms_of db"
proof -
  have same: "pro_id (update_approvals u p) = pro_id p" "pro_required_total (update_approvals u p) = pro_required_total p"
    "pro_expiration_time (update_approvals u p) = pro_expiration_time p"
    by (simp_all add: update_approvals_def pro_required_total_def)
  have "q = p" if "q \<in> set (db_proposals db)" "pro_id q = pro_id p" for q
    using assms that by (auto simp: distinct_map inj_on_def)
  then show ?thesis using same by (auto simp: terms_of_def set_proposal_def upd_by_def)
qed

lemma remove_terms: "terms_of (remove_proposal p db) = filter (\<lambda>x. fst x \<noteq> pro_id p) (terms_of db)"
  by (simp add: terms_of_def remove_proposal_def del_by_def filter_map comp_def)

lemma remove_records:
  "map rap_key (fold (\<lambda>a. del_by rap_key (a, i)) as rs) = filter (\<lambda>k. k \<notin> (\<lambda>a. (a, i)) ` set as) (map rap_key rs)"
proof (induction as arbitrary: rs)
  case (Cons a as)
  have "map rap_key (del_by rap_key (a, i) rs) = filter (\<lambda>k. k \<noteq> (a, i)) (map rap_key rs)"
    by (simp add: del_by_def filter_map comp_def)
  then show ?case using Cons [of "del_by rap_key (a, i) rs"] by (auto intro!: filter_cong)
qed simp

lemma remove_records_ok:
  assumes "records_ok db" "p \<in> set (db_proposals db)"
  shows "records_ok (remove_proposal p db)" "expired_ids (remove_proposal p db) = expired_ids db - {pro_id p}"
proof -
  let ?d = "remove_proposal p db"
  have mine: "(pro_id p, pro_required_total p, pro_expiration_time p) \<in> set (terms_of db)"
    using assms(2) by (auto simp: terms_of_def)
  have dist: "distinct (map fst (terms_of db))" using assms(1) by (simp add: records_ok_def)
  have only: "as = pro_required_total p" if "(pro_id p, as, t) \<in> set (terms_of db)" for as t
    using that mine dist by (fastforce simp: distinct_map inj_on_def)
  have keys: "map rap_key (db_required_approvals ?d) =
    filter (\<lambda>k. k \<notin> (\<lambda>a. (a, pro_id p)) ` set (pro_required_total p)) (map rap_key (db_required_approvals db))"
    using remove_records by (simp add: remove_proposal_def)
  have "rap_key ` set (db_required_approvals ?d) = set (map rap_key (db_required_approvals ?d))" by simp
  also have "\<dots> = rap_key ` set (db_required_approvals db) - (\<lambda>a. (a, pro_id p)) ` set (pro_required_total p)"
    unfolding keys by auto
  also have "\<dots> = records_needed ?d"
  proof -
    have "records_needed db - (\<lambda>a. (a, pro_id p)) ` set (pro_required_total p) = records_needed ?d"
    proof (intro set_eqI, clarify)
      fix a i
      show "(a, i) \<in> records_needed db - (\<lambda>a. (a, pro_id p)) ` set (pro_required_total p) \<longleftrightarrow> (a, i) \<in> records_needed ?d"
        using only by (cases "i = pro_id p") (auto simp: records_needed_def remove_terms)
    qed
    then show ?thesis using assms(1) by (simp add: records_ok_def)
  qed
  finally have set: "rap_key ` set (db_required_approvals ?d) = records_needed ?d" .
  have "distinct (map rap_key (db_required_approvals ?d))" unfolding keys using assms(1) by (simp add: records_ok_def)
  moreover have "distinct (map fst (terms_of ?d))" using dist by (simp add: remove_terms distinct_map_filter)
  ultimately show "records_ok ?d" using set by (simp add: records_ok_def)
  have "head_block_time ?d = head_block_time db" by (simp add: remove_proposal_def head_block_time_def)
  then show "expired_ids ?d = expired_ids db - {pro_id p}" by (auto simp: expired_ids_def remove_terms)
qed

lemma create_records_ok:
  assumes "records_ok db" "create_proposal p db = Inr db'" "head_block_time db < pro_expiration_time p"
  shows "records_ok db'" "expired_ids db' = expired_ids db"
proof -
  note e = create_proposal_effect [OF assms(2)]
  have t: "terms_of db' = terms_of db @ [(pro_id p, pro_required_total p, pro_expiration_time p)]"
    using e(2) by (simp add: terms_of_def)
  have h: "head_block_time db' = head_block_time db" by (rule same_rest_time [OF e(1)])
  have "distinct (map fst (terms_of db'))" using assms(1) e(3) by (auto simp: t terms_ids records_ok_def)
  moreover have "distinct (map rap_key (db_required_approvals db'))" using e(5) assms(1) by (simp add: records_ok_def)
  moreover have "set (map rap_key (db_required_approvals db')) = records_needed db'"
    using assms(1) unfolding e(4) by (auto simp: records_ok_def records_needed_def t)
  ultimately show "records_ok db'" by (simp add: records_ok_def)
  show "expired_ids db' = expired_ids db" using assms(3) by (auto simp: expired_ids_def t h)
qed

lemma same_records:
  assumes "terms_of db' = terms_of db" "db_required_approvals db' = db_required_approvals db"
    "head_block_time db' = head_block_time db"
  shows "records_ok db' = records_ok db" "expired_ids db' = expired_ids db"
  using assms by (simp_all add: records_ok_def records_needed_def expired_ids_def)

interpretation records_run: proposal_run fc nf "\<lambda>_. True" "\<lambda>c. records_ok (ch_db c)" records_keep for fc nf
proof unfold_locales
  show "records_ok (ch_db c) \<Longrightarrow> True \<Longrightarrow> evaluate fc nf op (ch_db c) = Some (Inr db) \<Longrightarrow> records_keep c (with_db c db)" for c op db
    using evaluate_stored [of fc nf op "ch_db c" db] same_records [of db "ch_db c"]
    by (simp add: records_keep_def terms_of_def)
  show "records_ok (ch_db c) \<Longrightarrow> p \<in> proposals_of c \<Longrightarrow>
      records_keep c (with_db c (set_proposal (update_approvals u p) (ch_db c)))" for c p u
    using update_terms [of "ch_db c" p u] same_records [of "set_proposal (update_approvals u p) (ch_db c)" "ch_db c"]
    by (simp add: records_keep_def records_ok_def terms_ids set_proposal_def head_block_time_def)
  show "records_ok (ch_db c) \<Longrightarrow> p \<in> proposals_of c \<Longrightarrow> records_keep c (with_db c (remove_proposal p (ch_db c)))" for c p
    using remove_records_ok [of "ch_db c" p] by (auto simp: records_keep_def remove_proposal_def head_block_time_def)
  show "records_ok (ch_db c) \<Longrightarrow> True \<Longrightarrow> head_block_time (ch_db c) < pro_expiration_time p \<Longrightarrow>
      create_proposal p (ch_db c) = Inr db \<Longrightarrow> records_keep c (with_db c db)" for c p db
    using create_records_ok [of "ch_db c" p db] create_proposal_effect(1) [of p "ch_db c" db] same_rest_time [of "ch_db c" db]
    by (simp add: records_keep_def)
qed (auto simp: records_keep_def)

section \<open>The bound on nesting\<close>

text \<open>
  \<open>agrees\<close>: the second application gives the same outcome wherever the first does not run out of
  nesting.
\<close>

definition agrees :: "(operation \<Rightarrow> chain \<Rightarrow> chain outcome) \<Rightarrow> (operation \<Rightarrow> chain \<Rightarrow> chain outcome) \<Rightarrow> bool" where
  "agrees f g \<longleftrightarrow> (\<forall>op c. f op c \<noteq> Stuck Out_of_fuel \<longrightarrow> g op c = f op c)"

lemma agrees_fold: "agrees f g \<Longrightarrow> foldO f ops c \<noteq> Stuck Out_of_fuel \<Longrightarrow> foldO g ops c = foldO f ops c"
proof (induction ops arbitrary: c)
  case (Cons op ops)
  then have "f op c \<noteq> Stuck Out_of_fuel" by (auto simp: bindO_Stuck)
  then have "g op c = f op c" using Cons.prems(1) by (simp add: agrees_def)
  then show ?case using Cons by (cases "f op c") auto
qed simp

lemma agrees_trial:
  "agrees f g \<Longrightarrow> apply_on_trial f i ops c \<noteq> Stuck Out_of_fuel \<Longrightarrow> apply_on_trial g i ops c = apply_on_trial f i ops c"
proof (induction ops arbitrary: i c)
  case (Cons op ops)
  then have "f op c \<noteq> Stuck Out_of_fuel" by auto
  then have "g op c = f op c" using Cons.prems(1) by (simp add: agrees_def)
  then show ?case using Cons by (cases "f op c") auto
qed simp

lemma agrees_push: "agrees f g \<Longrightarrow> push_proposal f p c \<noteq> Stuck Out_of_fuel \<Longrightarrow> push_proposal g p c = push_proposal f p c"
  using agrees_fold [of f g "pro_proposed_operations p" c]
  by (cases "foldO f (pro_proposed_operations p) c") (auto simp: push_proposal_def)

lemma agrees_bind: "(m \<noteq> Stuck Out_of_fuel \<Longrightarrow> m' = m) \<Longrightarrow> (\<And>x. m = Done x \<Longrightarrow> f x \<noteq> Stuck Out_of_fuel \<Longrightarrow> f' x = f x) \<Longrightarrow>
  bindO m f \<noteq> Stuck Out_of_fuel \<Longrightarrow> bindO m' f' = bindO m f"
  by (cases m) auto

lemma agrees_update:
  assumes "agrees f g" "proposal_update_evaluator f nf depth u c \<noteq> Stuck Out_of_fuel"
  shows "proposal_update_evaluator g nf depth u c = proposal_update_evaluator f nf depth u c"
  using assms(2) unfolding proposal_update_evaluator_def Let_def
proof (rule agrees_bind [rotated -1], goal_cases)
  case (2 p)
  then show ?case
    using agrees_push [OF assms(1), of "update_approvals u p" "with_db c (set_proposal (update_approvals u p) (ch_db c))"]
    by (auto split: if_split_asm outcome.split_asm intro!: agrees_bind)
qed simp

lemma agrees_create:
  assumes "agrees f g" "proposal_create_evaluator f fc cr nf depth author title memo ops expiration review c \<noteq> Stuck Out_of_fuel"
  shows "proposal_create_evaluator g fc cr nf depth author title memo ops expiration review c =
    proposal_create_evaluator f fc cr nf depth author title memo ops expiration review c"
proof -
  have "try_transaction f fc cr nf ops c \<noteq> Stuck Out_of_fuel \<Longrightarrow>
    try_transaction g fc cr nf ops c = try_transaction f fc cr nf ops c"
    unfolding try_transaction_def Let_def
    by (erule agrees_bind [rotated -1]) (auto intro: agrees_trial [OF assms(1)])
  then show ?thesis
    using assms(2) unfolding proposal_create_evaluator_def Let_def
    by (intro agrees_bind) (auto split: prod.splits intro!: agrees_bind)
qed

text \<open>A greater bound gives the same outcome.\<close>

lemma apply_operation_agrees: "agrees (apply_operation fc cr nf n dc du) (apply_operation fc cr nf (Suc n) dc du)"
proof (induction n arbitrary: dc du)
  case 0
  then show ?case by (simp add: agrees_def)
next
  case (Suc n)
  show ?case
    unfolding agrees_def
  proof (intro allI impI)
    fix op c
    assume "apply_operation fc cr nf (Suc n) dc du op c \<noteq> Stuck Out_of_fuel"
    then show "apply_operation fc cr nf (Suc (Suc n)) dc du op c = apply_operation fc cr nf (Suc n) dc du op c"
      using agrees_create [OF Suc] agrees_update [OF Suc]
      by (cases op rule: proposal_operation_cases) (auto simp: apply_operation_other)
  qed
qed

lemma agrees_trans: "agrees f g \<Longrightarrow> agrees g h \<Longrightarrow> agrees f h"
  by (simp add: agrees_def)

lemma apply_operation_bound: "n \<le> m \<Longrightarrow> agrees (apply_operation fc cr nf n dc du) (apply_operation fc cr nf m dc du)"
proof (induction m rule: dec_induct)
  case base
  then show ?case by (simp add: agrees_def)
next
  case (step k)
  from agrees_trans [OF step(3) apply_operation_agrees] show ?case .
qed

text \<open>On a producing node the limits on depth bound the nesting.\<close>

definition calm :: "(operation \<Rightarrow> chain \<Rightarrow> chain outcome) \<Rightarrow> bool" where
  "calm f \<longleftrightarrow> (\<forall>op c. f op c \<noteq> Stuck Out_of_fuel)"

lemma calm_fold: "calm f \<Longrightarrow> foldO f ops c \<noteq> Stuck Out_of_fuel"
  by (induction ops arbitrary: c) (auto simp: calm_def bindO_Stuck)

lemma calm_trial: "calm f \<Longrightarrow> apply_on_trial f i ops c \<noteq> Stuck Out_of_fuel"
  by (induction ops arbitrary: i c) (auto simp: calm_def split: outcome.split)

lemma calm_push: "calm f \<Longrightarrow> push_proposal f p c \<noteq> Stuck Out_of_fuel"
  by (auto simp: push_proposal_def bindO_Stuck calm_fold split: option.split_asm)

lemma calm_update:
  assumes "is_producing nf \<Longrightarrow> depth \<le> STEEMIT_MAX_PROPOSAL_DEPTH \<Longrightarrow> calm f" "is_producing nf"
  shows "proposal_update_evaluator f nf depth u c \<noteq> Stuck Out_of_fuel"
proof (cases "depth \<le> STEEMIT_MAX_PROPOSAL_DEPTH")
  case True
  then have "calm f" using assms by blast
  from calm_push [OF this] show ?thesis
    by (auto simp: proposal_update_evaluator_def Let_def bindO_Stuck split: outcome.split_asm if_split_asm)
qed (use assms(2) in \<open>simp add: proposal_update_evaluator_def check_depth_def check_logic_def ensure_def\<close>)

lemma calm_create:
  assumes "is_producing nf \<Longrightarrow> depth \<le> STEEMIT_MAX_PROPOSAL_DEPTH \<Longrightarrow> calm f" "is_producing nf"
  shows "proposal_create_evaluator f fc cr nf depth author title memo ops expiration review c \<noteq> Stuck Out_of_fuel"
proof (cases "depth \<le> STEEMIT_MAX_PROPOSAL_DEPTH")
  case True
  then have "calm f" using assms by blast
  from calm_trial [OF this] have "try_transaction f fc cr nf ops c \<noteq> Stuck Out_of_fuel"
    by (auto simp: try_transaction_def Let_def bindO_Stuck)
  then show ?thesis by (auto simp: proposal_create_evaluator_def Let_def bindO_Stuck)
qed (use assms(2) in \<open>simp add: proposal_create_evaluator_def check_depth_def check_logic_def ensure_def\<close>)

lemma apply_operation_calm:
  assumes "is_producing nf"
  shows "(STEEMIT_MAX_PROPOSAL_DEPTH - dc) + (STEEMIT_MAX_PROPOSAL_DEPTH - du) < n \<Longrightarrow> calm (apply_operation fc cr nf n dc du)"
proof (induction n arbitrary: dc du)
  case (Suc n)
  have create: "calm (apply_operation fc cr nf n (Suc dc) du)" if "Suc dc \<le> STEEMIT_MAX_PROPOSAL_DEPTH"
    using that Suc.prems by (intro Suc.IH) auto
  have update: "calm (apply_operation fc cr nf n dc (Suc du))" if "Suc du \<le> STEEMIT_MAX_PROPOSAL_DEPTH"
    using that Suc.prems by (intro Suc.IH) auto
  show ?case
    unfolding calm_def
  proof (intro allI)
    fix op c
    show "apply_operation fc cr nf (Suc n) dc du op c \<noteq> Stuck Out_of_fuel"
      using calm_create [OF create assms] calm_update [OF update assms]
      by (cases op rule: proposal_operation_cases) (auto simp: apply_operation_other split: option.split)
  qed
qed simp

end
