(* ===== verification/Proposal_Properties.thy ===== *)
theory Proposal_Properties
  imports Proposal_Runs Chain_Properties
begin

text \<open>
  The theorems about proposals: execution needs sufficient authority, conserves tokens and keeps
  the records of required approvals; nesting ends on a producing node, and so does the loop over
  expired proposals; and a proposal may be destroyed while it is being executed.
\<close>

section \<open>Authority of an executed proposal\<close>

lemma getter_errs: "errs (authority_of sel db i)"
  by (cases "find_by aut_account i (db_authorities db)") (auto simp: authority_of_def get_authority_def of_option_def)

lemma authorized_sufficient: "is_authorized_to_execute p db \<longleftrightarrow> sufficient (proposal_verify_authority p [] [] [] db)"
  by (auto simp: is_authorized_to_execute_def sufficient_def irrelevant_def split: sum.split golos_error.split)

definition proposal_authorised :: "proposal_object \<Rightarrow> database \<Rightarrow> bool" where
  "proposal_authorised p db \<longleftrightarrow> authorised (pro_proposed_operations p) (set (pro_available_key_approvals p))
     (authority_of aut_active db) (authority_of aut_owner db) (authority_of aut_posting db)
     (set (pro_available_active_approvals p)) (set (pro_available_owner_approvals p)) (set (pro_available_posting_approvals p))"

lemma authorized_authorised: "is_authorized_to_execute p db \<Longrightarrow> proposal_authorised p db"
  unfolding authorized_sufficient proposal_verify_authority_def proposal_authorised_def
  using sufficient_authorised [OF _ getter_errs getter_errs getter_errs] by fastforce

section \<open>The loop over expired proposals\<close>

lemma next_expired_id: "next_expired db = Some p \<Longrightarrow> p \<in> set (db_proposals db) \<and> pro_id p \<in> expired_ids db"
proof -
  assume n: "next_expired db = Some p"
  then obtain ps where q: "sort_by expires_before (db_proposals db) = p # ps" "pro_expiration_time p \<le> head_block_time db"
    by (auto simp: next_expired_def split: list.split_asm if_split_asm)
  have "p \<in> set (sort_by expires_before (db_proposals db))" unfolding q(1) by simp
  then show ?thesis using q(2) by (auto simp: expired_ids_def terms_of_def image_iff)
qed

lemma expired_card: "finite (expired_ids db)" "card (expired_ids db) \<le> length (db_proposals db)"
proof -
  have sub: "expired_ids db \<subseteq> set (map pro_id (db_proposals db))" by (auto simp: expired_ids_def terms_of_def)
  then show "finite (expired_ids db)" by (rule finite_subset) simp
  have "card (expired_ids db) \<le> card (set (map pro_id (db_proposals db)))" by (rule card_mono [OF _ sub]) simp
  also have "\<dots> \<le> length (db_proposals db)" using card_length [of "map pro_id (db_proposals db)"] by simp
  finally show "card (expired_ids db) \<le> length (db_proposals db)" .
qed

lemma expire_shrinks:
  assumes "expire_proposal (apply_operation fc cr nf n 0 0) p c = Done d" "records_ok (ch_db c)" "next_expired (ch_db c) = Some p"
  shows "records_ok (ch_db d) \<and> expired_ids (ch_db d) \<subset> expired_ids (ch_db c)"
proof -
  let ?f = "apply_operation fc cr nf n 0 0"
  note p = next_expired_id [OF assms(3)]
  have gone: "records_ok (ch_db d) \<and> expired_ids (ch_db d) \<subseteq> expired_ids (ch_db c) - {pro_id p}"
    if run: "push_proposal ?f p c = Done d"
  proof -
    obtain c1 p1 where r: "foldO ?f (pro_proposed_operations p) c = Done c1"
      "find_by pro_id (pro_id p) (db_proposals (ch_db c1)) = Some p1" "d = with_db c1 (remove_proposal p1 (ch_db c1))"
      using run by (auto simp: push_proposal_def bindO_Done split: option.split_asm)
    have k: "records_keep c c1"
      by (rule records_run.fold_keeps [OF records_run.apply_keeps r(1) assms(2)]) simp
    have "p1 \<in> set (db_proposals (ch_db c1))" "pro_id p1 = pro_id p" using r(2) by (auto dest: find_by_Some)
    then show ?thesis using remove_records_ok [of "ch_db c1" p1] k r(3) by (auto simp: records_keep_def)
  qed
  have "push_proposal ?f p c = Done d \<or> d = with_db c (remove_proposal p (ch_db c))"
    using assms(1) by (simp add: expire_proposal_def Let_def split: if_split_asm outcome.split_asm)
  then have "records_ok (ch_db d) \<and> expired_ids (ch_db d) \<subseteq> expired_ids (ch_db c) - {pro_id p}"
    using gone remove_records_ok [OF assms(2) conjunct1 [OF p]] by (elim disjE) simp_all
  then show ?thesis using p by auto
qed

text \<open>
  A step of the loop: the proposal that expired first is executed or dropped. The loop follows the
  steps until nothing is expired or a round does not return, and a bound of one round for every
  expired proposal lets it get there.
\<close>

definition expire_step :: "(operation \<Rightarrow> chain \<Rightarrow> chain outcome) \<Rightarrow> chain \<Rightarrow> chain \<Rightarrow> bool" where
  "expire_step f c d \<longleftrightarrow> (\<exists>p. next_expired (ch_db c) = Some p \<and> expire_proposal f p c = Done d)"

definition expire_end :: "(operation \<Rightarrow> chain \<Rightarrow> chain outcome) \<Rightarrow> chain \<Rightarrow> chain outcome \<Rightarrow> bool" where
  "expire_end f c r \<longleftrightarrow> next_expired (ch_db c) = None \<and> r = Done c \<or>
     (\<exists>p. next_expired (ch_db c) = Some p \<and> r = expire_proposal f p c \<and> (\<forall>d. r \<noteq> Done d))"

lemma clear_loop_ends:
  assumes "records_ok (ch_db c)" "card (expired_ids (ch_db c)) \<le> k"
  shows "\<exists>d. (expire_step (apply_operation fc cr nf n 0 0))\<^sup>*\<^sup>* c d \<and>
    expire_end (apply_operation fc cr nf n 0 0) d (clear_expired_loop (apply_operation fc cr nf n 0 0) k c)"
  using assms
proof (induction "card (expired_ids (ch_db c))" arbitrary: c k rule: less_induct)
  case less
  let ?f = "apply_operation fc cr nf n 0 0"
  show ?case
  proof (cases "next_expired (ch_db c)")
    case None
    then show ?thesis by (intro exI [of _ c]) (simp add: clear_expired_loop.simps expire_end_def)
  next
    case (Some p)
    have "0 < card (expired_ids (ch_db c))" using next_expired_id [OF Some] expired_card(1) by (auto simp: card_gt_0_iff)
    then obtain m where k: "k = Suc m" using less.prems(2) by (cases k) auto
    have loop: "clear_expired_loop ?f k c = bindO (expire_proposal ?f p c) (clear_expired_loop ?f m)"
      using Some by (simp add: k clear_expired_loop.simps [of ?f "Suc m"])
    show ?thesis
    proof (cases "expire_proposal ?f p c")
      case (Done d)
      note s = expire_shrinks [OF Done less.prems(1) Some]
      then have "card (expired_ids (ch_db d)) < card (expired_ids (ch_db c))" using expired_card(1) by (auto intro: psubset_card_mono)
      then obtain e where "(expire_step ?f)\<^sup>*\<^sup>* d e" "expire_end ?f e (clear_expired_loop ?f m d)"
        using less.hyps [of d m] s less.prems(2) k by auto
      moreover have "expire_step ?f c d" using Some Done by (auto simp: expire_step_def)
      ultimately show ?thesis unfolding loop Done by (auto intro: converse_rtranclp_into_rtranclp)
    qed (use Some loop in \<open>auto simp: expire_end_def intro!: exI [of _ c]\<close>)
  qed
qed

lemma expire_end_calm: "calm f \<Longrightarrow> expire_end f c r \<Longrightarrow> r \<noteq> Stuck Out_of_fuel"
  using calm_push [of f] by (auto simp: expire_end_def expire_proposal_def Let_def split: if_split_asm outcome.split_asm)

section \<open>States with proposals\<close>

definition waiting_proposal :: "nat \<Rightarrow> string \<Rightarrow> operation list \<Rightarrow> proposal_object" where
  "waiting_proposal i title ops = \<lparr>pro_id = i, pro_author = ''alice'', pro_title = title, pro_memo = [],
     pro_expiration_time = 5000, pro_review_period_time = None, pro_proposed_operations = ops,
     pro_required_active_approvals = [''alice''], pro_available_active_approvals = [],
     pro_required_owner_approvals = [], pro_available_owner_approvals = [], pro_required_posting_approvals = [],
     pro_available_posting_approvals = [], pro_available_key_approvals = []\<rparr>"

definition demo_record :: "nat \<Rightarrow> nat \<Rightarrow> required_approval_object" where
  "demo_record i p = \<lparr>rap_id = i, rap_account = ''alice'', rap_proposal = p\<rparr>"

definition alice_approves :: "string \<Rightarrow> operation" where
  "alice_approves title = Op_proposal_update \<lparr>pup_author = ''alice'', pup_title = title,
     pup_active_approvals_to_add = [''alice''], pup_active_approvals_to_remove = [], pup_owner_approvals_to_add = [],
     pup_owner_approvals_to_remove = [], pup_posting_approvals_to_add = [], pup_posting_approvals_to_remove = [],
     pup_key_approvals_to_add = [], pup_key_approvals_to_remove = [], pup_extensions = []\<rparr>"

definition alice_deletes :: "string \<Rightarrow> operation" where
  "alice_deletes title = Op_proposal_delete \<lparr>pde_author = ''alice'', pde_title = title, pde_requester = ''alice'', pde_extensions = []\<rparr>"

definition with_proposals :: "proposal_object list \<Rightarrow> required_approval_object list \<Rightarrow> chain" where
  "with_proposals ps rs = with_db demo_chain ((ch_db demo_chain)\<lparr>db_proposals := ps, db_required_approvals := rs\<rparr>)"

definition payment_chain :: chain where
  "payment_chain = with_proposals [waiting_proposal 3 ''pay'' [Op_transfer \<lparr>trf_from = ''alice'', trf_to = ''bob'',
     trf_amount = golos_of 250000, trf_memo = ''rent''\<rparr>]] [demo_record 5 3]"

lemmas approve_eval = proposal_update_evaluator_def check_depth_def check_logic_def ensure_def get_proposal_def find_proposal_def
  pro_key_def c_str_def check_approvals_def check_existing_def check_duplicate_def in_review_def adds_approvals_def
  update_approvals_def remove_existing_def assert_irrelevant_proposal_authority_def proposal_verify_authority_def
  is_authorized_to_execute_def authority_of_def get_authority_def verify_eval verify_active_def set_proposal_def
  numeral_3_eq_3 STEEMIT_MAX_SIG_CHECK_DEPTH_def push_proposal_def

lemma bindO_weak_cong: "m = m' \<Longrightarrow> bindO m f = bindO m' f"
  by simp

lemma payment_run: "\<exists>d. apply_operation fc_ref tx_demo demo_flags 3 0 0 (alice_approves ''pay'') payment_chain = Done d"
  by (simp add: alice_approves_def payment_chain_def with_proposals_def waiting_proposal_def approve_eval
      demo_chain_def demo_flags_def key_authority_def transfer_evaluator_def adjust_balance_def get_balance_def check_balance_def check_param_def remove_proposal_def
      pro_required_total_def apply_operation_other proposal_operation_def lookup_eval fc_ref_eval demo_defs Let_def numeral_2_eq_2 all_bool_eq
      cong: bindO_weak_cong)

lemma crypto_of_demo: "crypto_lib.truncate tx_demo = crypto_demo"
  by (simp add: tx_demo_def crypto_demo_def crypto_lib.defs tx_lib.defs)

lemmas title_eval = proposal_title_checks_def check_value_def check_value_not_empty_def check_value_max_size_def check_value_utf8_def
  GOLOS_PROPOSAL_MAX_TITLE_SIZE_def check_param_account_def validate_account_name_def check_logic_def
  approvals_disjoint_def name_eval fc_ref_def

lemma demo_approval_valid: "operation_validate fc_ref crypto_demo (alice_approves t) = Inr ()" if "t \<in> {''pay'', ''first'', ''second''}"
  using that by (auto simp: alice_approves_def proposal_update_validate_def title_eval)

lemma payment_ok: "ledger_ok (ch_db payment_chain)" "gaps (ch_db payment_chain) = (0, 0, 0)" "stored_valid fc_ref crypto_demo payment_chain"
  "records_ok (ch_db payment_chain)"
proof -
  show "ledger_ok (ch_db payment_chain)" using demo_chain_ok(1) by (simp add: payment_chain_def with_proposals_def ledger_ok_def)
  show "gaps (ch_db payment_chain) = (0, 0, 0)"
    using demo_balanced by (simp add: payment_chain_def with_proposals_def demo_chain_def gaps_def gap_steem_def gap_sbd_def gap_vests_def held_def)
  show "stored_valid fc_ref crypto_demo payment_chain"
    by (simp add: payment_chain_def with_proposals_def stored_valid_def waiting_proposal_def transfer_validate_def check_asset_gt0_def
        check_asset_val_def check_value_def check_value_max_size_def check_value_utf8_def name_eval fc_ref_def
        check_param_account_def validate_account_name_def STEEMIT_MAX_MEMO_SIZE_def)
  show "records_ok (ch_db payment_chain)"
    by (auto simp: payment_chain_def with_proposals_def records_ok_def records_needed_def terms_of_def waiting_proposal_def
        demo_record_def rap_key_def pro_required_total_def)
qed

text \<open>How a chain comes to hold the two proposals: the second is created while another proposal has the name of the first.\<close>

definition alice_proposes :: "string \<Rightarrow> operation list \<Rightarrow> operation" where
  "alice_proposes title ops = Op_proposal_create ''alice'' title [] ops 5000 None []"

definition proposed_chain :: "proposal_object list \<Rightarrow> required_approval_object list \<Rightarrow> nat \<Rightarrow> nat \<Rightarrow> chain" where
  "proposed_chain ps rs i j = with_db demo_chain ((ch_db demo_chain)\<lparr>db_proposals := ps, db_required_approvals := rs,
     db_next_id := (\<lambda>_. 10)(proposal_object_type := i, required_approval_object_type := j)\<rparr>)"

lemma trial_skips: "skips trial_skip skip_validate_operations = False"
  "skips trial_skip (or skip_transaction_signatures skip_authority_check) = True" "skips trial_skip skip_tapos_check = True"
  "skips (or trial_skip skip_validate_operations) skip_validate_operations = True"
  "skips (or trial_skip skip_validate_operations) (or skip_transaction_signatures skip_authority_check) = True"
  "skips (or trial_skip skip_validate_operations) skip_tapos_check = True"
  by (simp_all add: skips_def trial_skip_def skip_validate_operations_def skip_transaction_signatures_def
      skip_authority_check_def skip_tapos_check_def)

definition trial_ok :: "(operation \<Rightarrow> chain \<Rightarrow> chain outcome) \<Rightarrow> operation list \<Rightarrow> chain \<Rightarrow> bool" where
  "trial_ok f ops c \<longleftrightarrow> (\<forall>bs txs. apply_on_trial f 0 ops
     (c\<lparr>ch_db := (ch_db c)\<lparr>db_bandwidth := bs\<rparr>, ch_transactions := txs\<rparr>) = Done ())"

lemma proposed_charged:
  assumes "charged_operation (ch_db (proposed_chain ps rs i j)) ops = None"
  shows "\<exists>c. foldR (charge_account fc_ref demo_flags ops 0) [''alice''] (proposed_chain ps rs i j) = Inr c"
proof -
  have "charged_operation db ops = None" if "db_processed_hardforks db = 22" for db
    using assms that by (simp add: charged_operation_def proposed_chain_def demo_chain_def has_hardfork_def demo_db_def)
  then show ?thesis
    by (simp add: charge_account_def update_account_bandwidth_def decayed_bandwidth_def
      find_bandwidth_def effective_vesting_shares_def STEEMIT_BANDWIDTH_PRECISION_def
      STEEMIT_BANDWIDTH_AVERAGE_WINDOW_SECONDS_def put_bandwidth_def abw_key_def proposed_chain_def demo_chain_def
      demo_flags_def find_by_Cons lookup_eval fc_ref_eval demo_defs Let_def)
qed

lemma proposes:
  assumes "trial_ok f ops (proposed_chain ps rs i j)" "\<forall>op \<in> set ops. operation_validate fc_ref crypto_demo op = Inr ()" "ops \<noteq> []"
    "get_required_authorities ops ([], [], [], []) = ([''alice''], [], [], [])"
    "charged_operation (ch_db (proposed_chain ps rs i j)) ops = None"
    "(''alice'', c_str t) \<notin> pro_key ` set ps" "i \<notin> pro_id ` set ps" "(''alice'', i) \<notin> rap_key ` set rs"
  shows "proposal_create_evaluator f fc_ref tx_demo demo_flags depth ''alice'' t [] ops 5000 None (proposed_chain ps rs i j) =
    Done (proposed_chain (ps @ [waiting_proposal i t ops]) (rs @ [demo_record j i]) (Suc i) (Suc j))"
proof -
  let ?c = "proposed_chain ps rs i j"
  have now: "head_block_time (ch_db ?c) = 1000" "0 < head_block_num (ch_db ?c)" "\<exists>a. get_account ''alice'' (ch_db ?c) = Inr a"
    by (simp_all add: proposed_chain_def demo_chain_def lookup_eval demo_defs)
  have v: "validate_operations fc_ref crypto_demo k ops = Inr ()" for k
    using assms(2) by (induction ops arbitrary: k) auto
  have valid: "validate_transaction fc_ref tx_demo demo_flags s (trial_transaction ops (ch_db ?c)) ?c = Inr ()"
    if "s = trial_skip \<or> s = or trial_skip skip_validate_operations" for s
    using that v assms(3) now trial_skips
    by (auto simp: validate_transaction_def transaction_validate_def trial_transaction_def crypto_of_demo check_tapos_def
        check_expiration_def time_plus_def STEEMIT_MAX_TIME_UNTIL_EXPIRATION_def)
  obtain c1 where c1: "foldR (charge_account fc_ref demo_flags ops 0) [''alice''] ?c = Inr c1" using proposed_charged [OF assms(5)] by blast
  obtain bs where bs: "c1 = ?c\<lparr>ch_db := (ch_db ?c)\<lparr>db_bandwidth := bs\<rparr>\<rparr>" using charge_accounts_frame [OF c1] by (auto simp: charged_def)
  have pre: "required_accounts ops = [''alice'']" using assms(4) by (simp add: required_accounts_def)
  have tried: "try_transaction f fc_ref tx_demo demo_flags ops ?c = Done ()"
  proof -
    let ?t = "trial_transaction ops (ch_db ?c)"
    have "length (pack_signed_transaction tx_demo ?t) = 0" "operations ?t = ops"
      by (simp_all add: trial_transaction_def tx_demo_defs)
    moreover have "\<not> known_transaction (signed_tx_id tx_demo ?t) ?c"
      by (simp add: known_transaction_def proposed_chain_def demo_chain_def)
    moreover have "apply_on_trial f 0 ops (remember_transaction tx_demo ?t c1) = Done ()"
      using assms(1) by (simp add: trial_ok_def bs remember_transaction_def)
    ultimately show ?thesis using valid c1 pre by (simp add: try_transaction_def Let_def ensure_def)
  qed
  show ?thesis
    using tried assms(4,6-8) now
    by (auto simp: proposal_create_evaluator_def check_depth_def check_logic_def throw_if_exists_proposal_def find_proposal_def
        find_by_None check_proposal_times_def check_value_def check_param_def time_plus_def STEEMIT_MAX_PROPOSAL_LIFETIME_SEC_def
        required_approvals_def create_proposal_def create_in_def bump_id_def pro_required_total_def waiting_proposal_def demo_record_def
        pro_key_def rap_key_def proposed_chain_def demo_flags_def ensure_def Let_def)
qed

definition alice_notes :: operation where
  "alice_notes = Op_custom \<lparr>cus_required_auths = [''alice''], cus_id = 1, cus_data = []\<rparr>"

lemmas demo_ops = alice_notes_def alice_approves_def alice_deletes_def

lemma demo_ops_valid:
  "operation_validate fc_ref crypto_demo (alice_deletes ''first'') = Inr ()" "operation_validate fc_ref crypto_demo alice_notes = Inr ()"
  by (simp_all add: demo_ops proposal_delete_validate_def custom_validate_def title_eval)

lemma demo_ops_required:
  "get_required_authorities [alice_notes] ([], [], [], []) = ([''alice''], [], [], [])"
  "get_required_authorities [alice_deletes t] ([], [], [], []) = ([''alice''], [], [], [])"
  "get_required_authorities [alice_approves t] ([], [], [], []) = ([''alice''], [], [], [])"
  by (simp_all add: demo_ops get_required_authorities_def operation_get_required_authorities_def required_auth_defs)

lemma demo_ops_charged: "charged_operation db [alice_notes] = None" "charged_operation db [alice_deletes t] = None"
  "charged_operation db [alice_approves t] = None"
  by (simp_all add: demo_ops charged_operation_def is_market_operation_def is_custom_json_operation_def)

lemmas proposed_eval = trial_ok_def demo_ops approve_eval proposed_chain_def waiting_proposal_def demo_chain_def demo_flags_def
  key_authority_def proposal_delete_evaluator_def remove_proposal_def custom_evaluator_def apply_operation_other proposal_operation_def
  lookup_eval numeral_2_eq_2 all_bool_eq

lemma trial_notes: "trial_ok (apply_operation fc_ref tx_demo demo_flags 4 1 0) [alice_notes] (proposed_chain ps rs i j)"
  by (simp add: proposed_eval eval_nat_numeral)

lemma trial_deletes: "trial_ok (apply_operation fc_ref tx_demo demo_flags 4 1 0) [alice_deletes ''first'']
    (proposed_chain [waiting_proposal i ''first'' ops] rs k j)"
  by (simp add: proposed_eval eval_nat_numeral)

lemma trial_approves: "trial_ok (apply_operation fc_ref tx_demo demo_flags 4 1 0) [alice_approves ''second'']
    (proposed_chain [waiting_proposal i ''second'' [alice_deletes ''first'']] rs k j)"
  by (simp add: proposed_eval eval_nat_numeral Let_def cong: bindO_weak_cong)

definition circular_history :: "operation list" where
  "circular_history = [alice_proposes ''first'' [alice_notes], alice_proposes ''second'' [alice_deletes ''first''],
     alice_deletes ''first'', alice_proposes ''first'' [alice_approves ''second''], alice_approves ''first'']"

lemma alice_proposes_run:
  "apply_operation fc_ref tx_demo demo_flags 5 0 0 (alice_proposes t ops) c =
   proposal_create_evaluator (apply_operation fc_ref tx_demo demo_flags 4 1 0) fc_ref tx_demo demo_flags 1 ''alice'' t [] ops 5000 None c"
  using apply_operation_proposals(1) [of fc_ref tx_demo demo_flags 4 0 0] by (simp add: alice_proposes_def)

lemma circular_history_run:
  "foldO (apply_operation fc_ref tx_demo demo_flags 5 0 0) circular_history (proposed_chain [] [] 3 5) = Stuck Dangling_reference"
proof -
  let ?f = "apply_operation fc_ref tx_demo demo_flags 5 0 0"
  let ?p = "waiting_proposal 3 ''first'' [alice_notes]" and ?q = "waiting_proposal 4 ''second'' [alice_deletes ''first'']"
    and ?r = "waiting_proposal 5 ''first'' [alice_approves ''second'']"
  have keys: "pro_key (waiting_proposal i t ops) = (''alice'', c_str t)" "pro_id (waiting_proposal i t ops) = i"
    "rap_key (demo_record k i) = (''alice'', i)" for i t ops k
    by (simp_all add: pro_key_def rap_key_def waiting_proposal_def demo_record_def)
  note required = demo_ops_required demo_ops_charged
  have s1: "?f (alice_proposes ''first'' [alice_notes]) (proposed_chain [] [] 3 5) = Done (proposed_chain [?p] [demo_record 5 3] 4 6)"
    using proposes [OF trial_notes, of "[]" "[]" 3 5 "''first''"] required demo_ops_valid
    by (simp add: alice_proposes_run)
  have s2: "?f (alice_proposes ''second'' [alice_deletes ''first'']) (proposed_chain [?p] [demo_record 5 3] 4 6) =
    Done (proposed_chain [?p, ?q] [demo_record 5 3, demo_record 6 4] 5 7)"
    using proposes [OF trial_deletes, of 3 "[alice_notes]" "[demo_record 5 3]" 4 6 "''second''"] required demo_ops_valid
    by (simp add: alice_proposes_run keys c_str_def)
  have s3: "?f (alice_deletes ''first'') (proposed_chain [?p, ?q] [demo_record 5 3, demo_record 6 4] 5 7) =
    Done (proposed_chain [?q] [demo_record 6 4] 5 7)"
    by (simp add: proposed_eval demo_record_def rap_key_def pro_required_total_def eval_nat_numeral)
  have s4: "?f (alice_proposes ''first'' [alice_approves ''second'']) (proposed_chain [?q] [demo_record 6 4] 5 7) =
    Done (proposed_chain [?q, ?r] [demo_record 6 4, demo_record 7 5] 6 8)"
    using proposes [OF trial_approves, of 4 "[demo_record 6 4]" 5 7 "''first''"] required demo_approval_valid
    by (simp add: alice_proposes_run keys c_str_def)
  have s5: "?f (alice_approves ''first'') (proposed_chain [?q, ?r] [demo_record 6 4, demo_record 7 5] 6 8) = Stuck Dangling_reference"
    by (simp add: proposed_eval eval_nat_numeral Let_def cong: bindO_weak_cong)
  show ?thesis by (simp add: circular_history_def s1 s2 s3 s4 s5)
qed

section \<open>Properties\<close>

text \<open>
  C8. Operations that create, approve, execute and delete proposals, at any depth of nesting, and the
  expiration of proposals conserve every token, and every operation that waits in a proposal
  stays valid, so that this holds for whatever is executed later.
\<close>

theorem proposals_conserve:
  assumes "fc_safe fc" "ledger_ok (ch_db c)" "stored_valid fc (crypto_lib.truncate cr) c"
    "operation_validate fc (crypto_lib.truncate cr) op = Inr ()"
    "apply_operation fc cr nf n dc du op c = Done d \<or> clear_expired_proposals fc cr nf n c = Done d"
  shows "ledger_ok (ch_db d) \<and> gaps (ch_db d) = gaps (ch_db c) \<and> stored_valid fc (crypto_lib.truncate cr) d"
proof -
  have i: "funds_inv fc (crypto_lib.truncate cr) c" "valid_op fc (crypto_lib.truncate cr) op"
    using assms by (simp_all add: funds_inv_def valid_op_def)
  have "funds_keep fc (crypto_lib.truncate cr) c d"
    using assms(5) i funds_run.apply_keeps [of fc "crypto_lib.truncate cr" cr nf n dc du]
      funds_run.clear_expired_keeps [of fc cr nf n c d "crypto_lib.truncate cr"]
    by (auto simp: funds_run.good_apply_def)
  then show ?thesis using assms(3) moves_ok moves_gaps by (auto simp: funds_keep_def)
qed

theorem proposals_conserve_witness:
  "\<exists>d. apply_operation fc_ref tx_demo demo_flags 3 0 0 (alice_approves ''pay'') payment_chain = Done d \<and>
     gaps (ch_db d) = (0, 0, 0)"
proof -
  obtain d where run: "apply_operation fc_ref tx_demo demo_flags 3 0 0 (alice_approves ''pay'') payment_chain = Done d"
    using payment_run by blast
  from proposals_conserve [of fc_ref payment_chain tx_demo "alice_approves ''pay''" demo_flags 3 0 0 d] payment_ok
    demo_approval_valid run show ?thesis by (simp add: crypto_of_demo)
qed

text \<open>
  C9. A proposal is executed only with sufficient authority. An approval that returns has changed
  only the approvals of the proposal, or has removed a proposal in review that nobody approves any
  more, or has executed it; and then it has no review period, and the keys and accounts that
  approve it after the change satisfy the authorities that its operations require.
\<close>

theorem proposal_executed_authorised:
  assumes "proposal_update_evaluator apply nf depth op c = Done d" "find_proposal (pup_author op) (pup_title op) (ch_db c) = Some p"
  shows "let p' = update_approvals op p; c' = with_db c (set_proposal p' (ch_db c)) in
    d = c' \<or>
    in_review p' (head_block_time (ch_db c)) \<and> no_approvals p' \<and> d = with_db c' (remove_proposal p' (ch_db c')) \<or>
    pro_review_period_time p = None \<and> proposal_authorised p' (ch_db c') \<and> push_proposal apply p' c' = Done d"
proof -
  have "pro_review_period_time (update_approvals op p) = pro_review_period_time p" by (simp add: update_approvals_def)
  then show ?thesis
    using assms authorized_authorised
    by (auto simp: proposal_update_evaluator_def get_proposal_def bindO_Done Let_def split: if_split_asm outcome.split_asm)
qed

theorem proposal_executed_authorised_witness:
  "\<exists>u p d. alice_approves ''pay'' = Op_proposal_update u \<and>
     find_proposal (pup_author u) (pup_title u) (ch_db payment_chain) = Some p \<and>
     proposal_update_evaluator (apply_operation fc_ref tx_demo demo_flags 2 0 1) demo_flags 1 u payment_chain = Done d \<and>
     (d = with_db payment_chain (set_proposal (update_approvals u p) (ch_db payment_chain)) \<or>
      proposal_authorised (update_approvals u p) (set_proposal (update_approvals u p) (ch_db payment_chain)))"
proof -
  obtain u where u: "alice_approves ''pay'' = Op_proposal_update u" "pup_author u = ''alice''" "pup_title u = ''pay''"
    by (simp add: alice_approves_def)
  obtain p where p: "find_proposal (pup_author u) (pup_title u) (ch_db payment_chain) = Some p" "pro_review_period_time p = None"
    by (simp add: u find_proposal_def pro_key_def c_str_def payment_chain_def with_proposals_def waiting_proposal_def find_by_Cons)
  obtain d where d: "proposal_update_evaluator (apply_operation fc_ref tx_demo demo_flags 2 0 1) demo_flags 1 u payment_chain = Done d"
    using payment_run by (auto simp: u numeral_3_eq_3 numeral_2_eq_2)
  have "\<not> in_review (update_approvals u p) t" for t using p(2) by (simp add: in_review_def update_approvals_def)
  with proposal_executed_authorised [OF d p(1)] u(1) p(1) d show ?thesis by (auto simp: Let_def)
qed

text \<open>
  C28. There is exactly one record of a required approval for every account that a stored proposal
  requires, and no other: operations and expirations keep this, whatever they do to proposals.
\<close>

theorem required_approvals_recorded:
  assumes "records_ok (ch_db c)"
    "apply_operation fc cr nf n dc du op c = Done d \<or> clear_expired_proposals fc cr nf n c = Done d"
  shows "records_ok (ch_db d)"
  using assms records_run.apply_keeps [of fc cr nf n dc du] records_run.clear_expired_keeps [of fc cr nf n c d]
  by (auto simp: records_run.good_apply_def records_keep_def)

theorem required_approvals_recorded_witness:
  "\<exists>d. apply_operation fc_ref tx_demo demo_flags 3 0 0 (alice_approves ''pay'') payment_chain = Done d \<and> records_ok (ch_db d)"
proof -
  obtain d where run: "apply_operation fc_ref tx_demo demo_flags 3 0 0 (alice_approves ''pay'') payment_chain = Done d"
    using payment_run by blast
  from required_approvals_recorded [OF payment_ok(4)] run show ?thesis by blast
qed

text \<open>
  C22. On a producing node the nesting of proposals ends: five active evaluators are enough for any
  operation in any state, and a greater bound gives the same outcome.
\<close>

theorem nested_proposals_end:
  assumes "is_producing nf" "5 \<le> n"
  shows "apply_operation fc cr nf n 0 0 op c = apply_operation fc cr nf 5 0 0 op c \<and>
    apply_operation fc cr nf n 0 0 op c \<noteq> Stuck Out_of_fuel"
proof -
  have "calm (apply_operation fc cr nf 5 0 0)" by (rule apply_operation_calm [OF assms(1)]) (simp add: STEEMIT_MAX_PROPOSAL_DEPTH_def)
  then show ?thesis using apply_operation_bound [OF assms(2), of fc cr nf 0 0] by (auto simp: calm_def agrees_def)
qed

theorem nested_proposals_end_witness:
  "apply_operation fc_ref tx_demo (demo_flags\<lparr>is_producing := True\<rparr>) 9 0 0 (alice_approves ''pay'') payment_chain \<noteq> Stuck Out_of_fuel"
  by (rule conjunct2 [OF nested_proposals_end]) simp_all

text \<open>
  C23. The loop over expired proposals ends, whatever the executed operations do. Executing or dropping
  the proposal that expired first, again and again, reaches after finitely many steps a chain on
  which nothing is expired, or a round that does not return (an execution that is stuck), and
  \<^verbatim>\<open>clear_expired_proposals\<close> returns that chain or is stuck in that round; the bound on the rounds, one for
  every proposal, is never what stops it, and neither is any greater bound. On a producing node with at
  least five active evaluators it never runs out of any bound.
\<close>

theorem expired_proposals_end:
  assumes "records_ok (ch_db c)" "length (db_proposals (ch_db c)) \<le> rounds"
  shows "(\<exists>d. (expire_step (apply_operation fc cr nf n 0 0))\<^sup>*\<^sup>* c d \<and>
      expire_end (apply_operation fc cr nf n 0 0) d (clear_expired_proposals fc cr nf n c)) \<and>
    (\<exists>d. (expire_step (apply_operation fc cr nf n 0 0))\<^sup>*\<^sup>* c d \<and>
      expire_end (apply_operation fc cr nf n 0 0) d (clear_expired_loop (apply_operation fc cr nf n 0 0) rounds c)) \<and>
    (is_producing nf \<and> 5 \<le> n \<longrightarrow> clear_expired_proposals fc cr nf n c \<noteq> Stuck Out_of_fuel)"
proof -
  note ends = clear_loop_ends [OF assms(1), of _ fc cr nf n]
  have "calm (apply_operation fc cr nf n 0 0)" if "is_producing nf" "5 \<le> n"
    by (rule apply_operation_calm [OF that(1)]) (use that(2) in \<open>simp add: STEEMIT_MAX_PROPOSAL_DEPTH_def\<close>)
  then show ?thesis
    using ends [of "length (db_proposals (ch_db c))"] ends [of rounds] expired_card(2) [of "ch_db c"] assms(2) expire_end_calm
    unfolding clear_expired_proposals_def by (meson order_trans)
qed

definition late_chain :: chain where
  "late_chain = with_db payment_chain ((ch_db payment_chain)\<lparr>db_dgp := demo_dgp\<lparr>dgp_time := 6000\<rparr>\<rparr>)"

lemma late_run: "\<exists>d. clear_expired_proposals fc_ref tx_demo demo_flags 3 late_chain = Done d"
  by (simp add: clear_expired_proposals_def clear_expired_loop.simps next_expired_def expire_proposal_def late_chain_def
      payment_chain_def with_proposals_def waiting_proposal_def is_authorized_to_execute_def proposal_verify_authority_def
      authority_of_def get_authority_def verify_eval verify_active_def STEEMIT_MAX_SIG_CHECK_DEPTH_def missing_authority_def
      demo_chain_def key_authority_def remove_proposal_def lookup_eval Let_def numeral_2_eq_2 cong: bindO_weak_cong)

theorem expired_proposals_end_witness:
  "\<exists>d. clear_expired_proposals fc_ref tx_demo demo_flags 3 late_chain = Done d \<and>
     (expire_step (apply_operation fc_ref tx_demo demo_flags 3 0 0))\<^sup>*\<^sup>* late_chain d \<and> next_expired (ch_db d) = None"
proof -
  have "records_ok (ch_db late_chain)"
    using payment_ok(4) by (simp add: late_chain_def records_ok_def records_needed_def terms_of_def)
  moreover have "length (db_proposals (ch_db late_chain)) \<le> 4" by (simp add: late_chain_def payment_chain_def with_proposals_def)
  ultimately show ?thesis
    using expired_proposals_end [of late_chain 4 fc_ref tx_demo demo_flags 3] late_run by (auto simp: expire_end_def)
qed

text \<open>
  C24. A proposal may be destroyed while it is being executed. An account proposes something under
  a first name, then under a second name the deletion of the first, deletes the first, and proposes
  under the first name the approval of the second. All operations are valid, none fails, and no
  proposals were there before. Approving the first then executes both, and \<^verbatim>\<open>push_proposal\<close> removes
  the first through a reference to an object that no longer exists, whatever the bound on nesting.
\<close>

theorem proposal_destroyed_while_executed:
  "db_proposals (ch_db (proposed_chain [] [] 3 5)) = [] \<and>
   list_all (\<lambda>op. operation_validate fc_ref (crypto_lib.truncate tx_demo) op = Inr ()) circular_history \<and>
   foldO (apply_operation fc_ref tx_demo demo_flags (n + 5) 0 0) circular_history (proposed_chain [] [] 3 5) = Stuck Dangling_reference"
proof (intro conjI)
  have "operation_validate fc_ref crypto_demo (alice_proposes t [op]) = Inr ()"
    if "operation_validate fc_ref crypto_demo op = Inr ()" "t \<in> {''first'', ''second''}" for t op
    using that by (auto simp: alice_proposes_def proposal_create_validate_def title_eval)
  then show "list_all (\<lambda>op. operation_validate fc_ref (crypto_lib.truncate tx_demo) op = Inr ()) circular_history"
    using demo_ops_valid demo_approval_valid by (simp add: circular_history_def crypto_of_demo)
  have "agrees (apply_operation fc_ref tx_demo demo_flags 5 0 0) (apply_operation fc_ref tx_demo demo_flags (n + 5) 0 0)"
    by (rule apply_operation_bound) simp
  then show "foldO (apply_operation fc_ref tx_demo demo_flags (n + 5) 0 0) circular_history (proposed_chain [] [] 3 5) =
      Stuck Dangling_reference"
    using agrees_fold circular_history_run by fastforce
qed (simp add: proposed_chain_def)

end
