(* ===== verification/Spec2Isabelle.thy ===== *)
theory Spec2Isabelle
  imports Asset_Text Version_Properties Block_Properties Reward_Properties Proposal_Properties
begin

text \<open>
  \<^bold>\<open>A verification library for the Golos blockchain node.\<close>

  Golos is a node of a delegated proof-of-stake blockchain written in C++. The library
  \<^verbatim>\<open>src/libraries/protocol\<close> defines assets, authorities, operations, transactions and block headers;
  \<^verbatim>\<open>src/libraries/chain\<close> keeps the chain state (accounts, orders, escrows, witnesses, global
  properties) in an object database, applies operations through evaluators, applies transactions
  and blocks, and keeps competing chains in a fork database. Around them stand the network, the
  wallet, the plugins and the programs. This development models the two core libraries.

  \<^bold>\<open>Conventions.\<close> An exception is a value of the type of errors, a computation that may throw has
  the type of results (a sum), and a function that changes the chain state takes the state and
  returns the new one. An index of the object database is the list of its objects; a reference to
  an object is its key. The \<^verbatim>\<open>fc\<close> library, the hash functions and the serialisation are not part of
  the sources: they are records of functions (\<open>fc_lib\<close>, \<open>crypto_lib\<close>, \<open>tx_lib\<close>, \<open>block_codec\<close>) that the definitions
  take as an argument, as is \<^verbatim>\<open>std::nth_element\<close>, whose result the standard leaves open, and what the code relies on is stated as named predicates (\<open>fc_safe\<close>,
  \<open>fc_u128\<close>, \<open>fc_str\<close>, \<open>digest_format\<close>, \<open>codec_fits\<close>, \<open>nth_element_ok\<close>), with the instances \<open>fc_ref\<close>,
  \<open>crypto_demo\<close>, \<open>crypto_short\<close>, \<open>tx_demo\<close>, \<open>demo_codec\<close> and \<open>sort_element\<close> that show
  they can hold. Constants are those of the live network, not of the test network.

  \<^bold>\<open>Theories of the protocol.\<close>
  \<^item> \<open>Golos_Prelude\<close>: errors, results, loops, the \<^verbatim>\<open>fc\<close> interface, sorted insertion (locale
    \<open>strict_weak_order\<close>), tables of keyed objects, flat maps and sets, decimal notation.
  \<^item> \<open>Asset\<close>, \<open>Asset_Properties\<close>, \<open>Asset_Text\<close> (\<^verbatim>\<open>asset.cpp\<close>): amounts, prices, conversion, text form; the
    order of prices is exact, conversion rounds down and never gains, texts are read back.
  \<^item> \<open>Version\<close>, \<open>Version_Properties\<close> (\<^verbatim>\<open>version.cpp\<close>): packed versions, their order and text form.
  \<^item> \<open>Authority\<close>, \<open>Authority_Properties\<close> (\<^verbatim>\<open>authority.cpp\<close>, \<^verbatim>\<open>sign_state.cpp\<close>): weights, account names, the
    recursive check of an authority, sound and complete against its declarative meaning.
  \<^item> \<open>Operations\<close>, \<open>Operation_Validate\<close>, \<open>Operation_Properties\<close> (\<^verbatim>\<open>steem_operations.hpp\<close>, \<^verbatim>\<open>steem_operations.cpp\<close>,
    \<^verbatim>\<open>proposal_operations.cpp\<close>): every operation, the authorities it needs and its validation.
  \<^item> \<open>Block_Header\<close> (\<^verbatim>\<open>block.cpp\<close>): block numbers inside identifiers, Merkle roots, which bind
    the transactions up to a collision of the hash functions.
  \<^item> \<open>Transaction\<close>, \<open>Transaction_Properties\<close> (\<^verbatim>\<open>transaction.cpp\<close>): digests, signatures, verification of
    authorities, minimal sets of signatures.

  \<^bold>\<open>Theories of the chain.\<close>
  \<^item> \<open>Chain_State\<close>: the objects and their lookup. \<open>Balance\<close>: balances, interest, supply, votes through
    proxies, creation of vesting shares and GBG.
  \<^item> \<open>Evaluators\<close>, \<open>Escrow\<close>, \<open>Market\<close>, \<open>Delegation\<close>, \<open>Accounts\<close> (\<^verbatim>\<open>steem_evaluator.cpp\<close>,
    \<^verbatim>\<open>chain_properties_evaluators.cpp\<close>): one definition per evaluator.
  \<^item> \<open>Comments\<close> (\<^verbatim>\<open>steem_evaluator.cpp\<close>): posts, replies, options, deletion and votes. \<open>Rewards\<close>
    (\<^verbatim>\<open>curation_info.cpp\<close>, \<^verbatim>\<open>database.cpp\<close>): the weights of votes and the payout of comments;
    \<open>Curation\<close>: the weights are exact on every curve, on the linear one as long as no vote that
    began with positive shares has negative ones (locales \<open>weighing\<close> and \<open>growing_curve\<close>).
    \<open>Reward_Conservation\<close>, \<open>Reward_Properties\<close>: curators stay within their budget, payouts conserve
    every token, and the loop over due comments ends.
  \<^item> \<open>Maintenance\<close>, \<open>Block_Maintenance\<close> (\<^verbatim>\<open>database.cpp\<close>): price feed, inflation, conversions, savings,
    withdrawals, and the stages of a block that run them.
  \<^item> \<open>Evaluate\<close>: the registry of evaluators and runs of operations. \<open>Supply_Check\<close>: the supply part of
    \<^verbatim>\<open>validate_invariants\<close>.
  \<^item> \<open>Chain_Transactions\<close>: what the chain checks of a transaction and how it applies it.
  \<^item> \<open>Proposals\<close> (\<^verbatim>\<open>proposal_evaluator.cpp\<close>, \<^verbatim>\<open>proposal_object.cpp\<close>, \<^verbatim>\<open>database_proposal_object.cpp\<close>): the life of a
    proposal, and the registry of evaluators with it; \<open>Proposal_Runs\<close>: what nested runs keep (locale
    \<open>proposal_run\<close>) and how deep they nest; \<open>Proposal_Properties\<close>: execution needs sufficient authority,
    conserves tokens and may destroy the proposal that is executed.
  \<^item> \<open>Fork_Database\<close>, \<open>Fork_Properties\<close> (\<^verbatim>\<open>fork_database.cpp\<close>): the tree of candidate blocks.
  \<^item> \<open>Block_Log\<close>, \<open>Block_Log_Properties\<close> (\<^verbatim>\<open>block_log.cpp\<close>): the files of irreversible blocks as lists of
    bytes; the log refines an append-only list of blocks (locale \<open>append_log\<close>) and repairs its index.
  \<^item> \<open>Witness_Schedule\<close>, \<open>Schedule_Properties\<close> (\<^verbatim>\<open>database.cpp\<close>): rounds of witnesses, virtual time, shuffle,
    votes on versions and hardforks, medians of the proposed chain properties.
  \<^item> \<open>Block_Production\<close>, \<open>Block_Properties\<close> (\<^verbatim>\<open>database.cpp\<close>): slots, the checks of a block, missed slots,
    the last irreversible block, and how a block extends the chain of a node.

  \<^bold>\<open>Theories of proof.\<close>
  \<^item> \<open>Ledger\<close> defines what every token is held by, the gap between supply and holders, and the
    relation \<open>moves\<close> between two states; \<open>Conservation\<close>, \<open>Market_Conservation\<close>, \<open>Vote_Conservation\<close>,
    \<open>Maintenance_Conservation\<close>, \<open>Withdrawal_Conservation\<close>, \<open>Account_Conservation\<close> and
    \<open>Comment_Conservation\<close> show for every function what it moves; \<open>Withdrawal_Termination\<close> shows that the
    loop of the vesting withdrawals ends. The locale \<open>ledger_steps\<close> lifts this to sequences of steps.
  \<^item> \<open>Funds_Frame\<close> is a calculus of what computations return (\<open>post\<close>) and the locale \<open>funds_frame\<close> of
    views that payments do not change; \<open>Frame\<close> extends it to the locale \<open>frame\<close> of views that
    operations do not change, interpreted for the clock and for the decisions of witnesses.
  \<^item> \<open>Ledger_Properties\<close> and \<open>Chain_Properties\<close> hold the theorems about the whole chain; \<open>Demo_State\<close> is a
    small chain state on which they are applied.

  \<^bold>\<open>Loops and fuel.\<close> Loops are structural recursions or functions with a termination proof. The loop
  of vesting withdrawals may find an account again, so it takes a number of rounds and returns
  nothing when they are used up; any number above \<open>withdrawals_due\<close>, one round for every week that an
  account is behind the clock, is proved to be enough and to give the same outcome. The walk from a
  comment to its root and the loop over due comments take as many steps as there are comments, and
  the loop over expired proposals as many as there are proposals; for the loops it is proved that the
  steps end and that the bound is never what stops them, for the loop over comments
  since hardfork 17. The application of operations with nested proposals takes a bound on the
  number of active evaluators and is stuck beyond it: five are enough on a producing node, and a
  greater bound never changes an outcome. The walks of the fork database follow weak pointers and are
  partial functions; that they end on every well-formed database is proved.

  \<^bold>\<open>Not modelled.\<close> Proof of work;
  the actions of hardforks; the undo states of the object database and with them the switch
  between forks (an undone trial or execution of a proposal leaves the state before it, and objects
  are put back in their place); network, wallet, plugins and programs (input and output, threads). Operations
  without a modelled evaluator make the model of the registry return nothing, and a run stops at
  them; the application of transactions and blocks uses the registry without proposals, whose
  evaluators are proved on their own.
\<close>

end
